(* ===== verification/Prelude.thy ===== *)
theory Prelude
  imports Main "HOL-Library.Finite_Map" "HOL-Library.AList"
begin

text \<open>
  Shared vocabulary of the development: the fact collections, the Go primitives
  the sources use (signed integers of a fixed width, durations, string building
  and quoting, maps filled in a loop, iteration over a map), and the generic
  lemmas on lists, maps and strings the component theories rest on.

  Conventions. A Go \<open>string\<close> is a byte string, so it is an Isabelle
  \<^typ>\<open>string\<close> and \<open>len\<close> is \<^const>\<open>length\<close>. A pointer is an
  \<open>option\<close>, with \<^const>\<open>None\<close> for \<open>nil\<close>. A \<open>map[string]bool\<close>
  that only ever holds \<open>true\<close> is a set. A \<open>map[string]string\<close> that is stored in
  an API object is a finite map, whose equality is the semantic equality the
  sources use (\<open>equality.Semantic.DeepEqual\<close> identifies \<open>nil\<close> and empty
  maps). A fallible operation returns \<open>error + result\<close>.
\<close>

named_theorems go_simps \<open>unfolding rules for the Go primitives\<close>
named_theorems len_bounds \<open>length bounds of generated names\<close>

section \<open>Signed machine integers\<close>

text \<open>Two's complement wrap-around at 32 and 64 bits.\<close>

definition wrap32 :: "int \<Rightarrow> int" where
  "wrap32 x = (x + 2 ^ 31) mod 2 ^ 32 - 2 ^ 31"

definition wrap64 :: "int \<Rightarrow> int" where
  "wrap64 x = (x + 2 ^ 63) mod 2 ^ 64 - 2 ^ 63"

definition is_int32 :: "int \<Rightarrow> bool" where
  "is_int32 x \<longleftrightarrow> - (2 ^ 31) \<le> x \<and> x < 2 ^ 31"

definition is_int64 :: "int \<Rightarrow> bool" where
  "is_int64 x \<longleftrightarrow> - (2 ^ 63) \<le> x \<and> x < 2 ^ 63"

lemma wrap64_id [simp]: "is_int64 x \<Longrightarrow> wrap64 x = x"
  by (simp add: wrap64_def is_int64_def)

lemma wrap32_id [simp]: "is_int32 x \<Longrightarrow> wrap32 x = x"
  by (simp add: wrap32_def is_int32_def)

lemma wrap64_range: "is_int64 (wrap64 x)"
proof -
  have "0 \<le> (x + 2 ^ 63) mod 2 ^ 64" and "(x + 2 ^ 63) mod 2 ^ 64 < 2 ^ 64"
    by simp_all
  then show ?thesis by (simp add: wrap64_def is_int64_def)
qed

text \<open>
  Durations are 64-bit nanosecond counts. \<open>time.Duration(s) * time.Second\<close> and
  \<open>time.Duration(ms) * time.Millisecond\<close> multiply with wrap-around, and
  \<open>Milliseconds()\<close> divides, truncating towards zero.
\<close>

definition go_quot :: "int \<Rightarrow> int \<Rightarrow> int" where
  "go_quot a b = sgn a * sgn b * (\<bar>a\<bar> div \<bar>b\<bar>)"

definition dur_seconds :: "int \<Rightarrow> int" where
  "dur_seconds s = wrap64 (s * 1000000000)"

definition dur_millis :: "int \<Rightarrow> int" where
  "dur_millis ms = wrap64 (ms * 1000000)"

definition dur_to_millis :: "int \<Rightarrow> int" where
  "dur_to_millis d = go_quot d 1000000"

lemma dur_seconds_int32: "is_int32 s \<Longrightarrow> dur_seconds s = s * 1000000000"
  by (simp add: dur_seconds_def is_int32_def is_int64_def)

lemma dur_to_millis_seconds:
  assumes "is_int32 s"
  shows "dur_to_millis (dur_seconds s) = s * 1000"
proof -
  have pos: "(n * 1000000000) div 1000000 = n * (1000::int)" for n by simp
  show ?thesis
    using assms pos [of "\<bar>s\<bar>"]
    by (auto simp: dur_to_millis_def go_quot_def dur_seconds_int32 abs_mult sgn_mult sgn_if
             split: if_splits)
qed

lemma dur_millis_bounded:
  "\<bar>ms\<bar> \<le> 9000000000000 \<Longrightarrow> dur_millis ms = ms * 1000000"
  by (simp add: dur_millis_def is_int64_def abs_le_iff)

section \<open>Strings\<close>

text \<open>Decimal rendering of a number, the \<open>%d\<close> of \<open>fmt.Sprintf\<close>.\<close>

definition digit_char :: "nat \<Rightarrow> char" where
  "digit_char d = char_of (48 + d)"

fun nat_dec :: "nat \<Rightarrow> string" where
  "nat_dec n = (if n < 10 then [digit_char n] else nat_dec (n div 10) @ [digit_char (n mod 10)])"

declare nat_dec.simps [simp del]

definition int_dec :: "int \<Rightarrow> string" where
  "int_dec i = (if i < 0 then CHR ''-'' # nat_dec (nat (- i)) else nat_dec (nat i))"

lemma digit_char_inj: "d < 10 \<Longrightarrow> e < 10 \<Longrightarrow> digit_char d = digit_char e \<longleftrightarrow> d = e"
proof -
  assume b: "d < 10" "e < 10"
  then have "of_char (digit_char d) = 48 + d" "of_char (digit_char e) = 48 + e"
    by (simp_all add: digit_char_def)
  then show ?thesis by (metis add_left_cancel)
qed

lemma nat_dec_not_Nil [simp]: "nat_dec n \<noteq> []"
  by (subst nat_dec.simps) simp

lemma nat_dec_inj: "nat_dec m = nat_dec n \<Longrightarrow> m = n"
proof (induction m arbitrary: n rule: nat_dec.induct)
  case (1 m)
  show ?case
  proof (cases "m < 10")
    case True
    with "1.prems" have "length (nat_dec n) = 1" by (simp flip: "1.prems" add: nat_dec.simps [of m])
    then have "n < 10"
      by (cases "n < 10") (auto simp: nat_dec.simps [of n])
    with True "1.prems" show ?thesis
      by (simp add: nat_dec.simps [of m] nat_dec.simps [of n] digit_char_inj)
  next
    case False
    with "1.prems" have big: "\<not> n < 10"
      by (auto simp: nat_dec.simps [of m] nat_dec.simps [of n])
    from "1.prems" False big
    have "nat_dec (m div 10) = nat_dec (n div 10)" "m mod 10 = n mod 10"
      by (auto simp: nat_dec.simps [of m] nat_dec.simps [of n] digit_char_inj)
    with "1.IH" False have "m div 10 = n div 10" "m mod 10 = n mod 10" by auto
    then show ?thesis by (metis div_mult_mod_eq)
  qed
qed

lemma nat_dec_eq_iff [simp]: "nat_dec m = nat_dec n \<longleftrightarrow> m = n"
  using nat_dec_inj by blast

text \<open>
  \<open>strings.Join\<close>, and \<open>%q\<close> (Go's double-quoted form; bytes outside ASCII are
  kept, as they are for printable UTF-8).
\<close>

fun join :: "string \<Rightarrow> string list \<Rightarrow> string" where
  "join sep [] = []"
| "join sep [x] = x"
| "join sep (x # y # xs) = x @ sep @ join sep (y # xs)"

definition hex_digit :: "nat \<Rightarrow> char" where
  "hex_digit d = (if d < 10 then char_of (48 + d) else char_of (87 + d))"

definition quote_char :: "char \<Rightarrow> string" where
  "quote_char c =
     (let n = (of_char c :: nat) in
      if n = 34 \<or> n = 92 then [CHR 0x5C, c]
      else if n = 7 then [CHR 0x5C, CHR ''a'']
      else if n = 8 then [CHR 0x5C, CHR ''b'']
      else if n = 12 then [CHR 0x5C, CHR ''f'']
      else if n = 10 then [CHR 0x5C, CHR ''n'']
      else if n = 13 then [CHR 0x5C, CHR ''r'']
      else if n = 9 then [CHR 0x5C, CHR ''t'']
      else if n = 11 then [CHR 0x5C, CHR ''v'']
      else if n < 32 \<or> n = 127 then [CHR 0x5C, CHR ''x'', hex_digit (n div 16), hex_digit (n mod 16)]
      else [c])"

definition go_quote :: "string \<Rightarrow> string" where
  "go_quote s = [CHR 0x22] @ concat (map quote_char s) @ [CHR 0x22]"

text \<open>\<open>strings.TrimSuffix\<close> and \<open>strings.HasPrefix\<close>.\<close>

definition trim_suffix :: "string \<Rightarrow> string \<Rightarrow> string" where
  "trim_suffix s suf =
     (if length suf \<le> length s \<and> drop (length s - length suf) s = suf
      then take (length s - length suf) s else s)"

definition has_prefix :: "string \<Rightarrow> string \<Rightarrow> bool" where
  "has_prefix s p \<longleftrightarrow> take (length p) s = p"

text \<open>
  \<open>bytes.TrimSpace\<close> and \<open>strings.TrimSpace\<close>: the UTF-8 encodings of the code points \<open>unicode.IsSpace\<close>
  accepts are removed at both ends.
\<close>

definition space_runes :: "string list" where
  "space_runes = map (\<lambda>n. [char_of n]) [9, 10, 11, 12, 13, 32 :: nat]
     @ map (map char_of) [[0xC2, 0x85], [0xC2, 0xA0], [0xE1, 0x9A, 0x80 :: nat]]
     @ map (\<lambda>n. map char_of [0xE2, 0x80, n]) ([0x80..<0x8B] @ [0xA8, 0xA9, 0xAF :: nat])
     @ map (map char_of) [[0xE2, 0x81, 0x9F], [0xE3, 0x80, 0x80 :: nat]]"

fun strip_prefixes :: "string list \<Rightarrow> nat \<Rightarrow> string \<Rightarrow> string" where
  "strip_prefixes runes 0 s = s"
| "strip_prefixes runes (Suc n) s =
     (case List.find (\<lambda>r. r \<noteq> [] \<and> has_prefix s r) runes of
        None \<Rightarrow> s | Some r \<Rightarrow> strip_prefixes runes n (drop (length r) s))"

definition trim_space :: "string \<Rightarrow> string" where
  "trim_space s =
     (let t = strip_prefixes space_runes (length s) s
      in rev (strip_prefixes (map rev space_runes) (length t) (rev t)))"

section \<open>Maps filled by a loop\<close>

text \<open>
  \<open>for _, v := range values { m[key(v)] = v }\<close>: a later value with the same key
  overwrites an earlier one.
\<close>

definition map_by :: "('a \<Rightarrow> 'k) \<Rightarrow> 'a list \<Rightarrow> ('k \<rightharpoonup> 'a)" where
  "map_by key vs = map_of (rev (map (\<lambda>v. (key v, v)) vs))"

lemma map_by_Nil [simp]: "map_by key [] = Map.empty"
  by (simp add: map_by_def)

lemma map_by_snoc [simp]: "map_by key (vs @ [v]) = (map_by key vs)(key v \<mapsto> v)"
  by (simp add: map_by_def)

lemma map_by_SomeD:
  assumes "map_by key vs k = Some v"
  shows "v \<in> set vs \<and> key v = k"
proof -
  from assms have "(k, v) \<in> set (rev (map (\<lambda>v. (key v, v)) vs))"
    unfolding map_by_def by (rule map_of_SomeD)
  then show ?thesis by auto
qed

lemma dom_map_by [simp]: "dom (map_by key vs) = key ` set vs"
  by (auto simp: map_by_def dom_map_of_conv_image_fst image_image)

lemma map_by_None_iff: "map_by key vs k = None \<longleftrightarrow> k \<notin> key ` set vs"
  using dom_map_by [of key vs] by (metis domIff)

lemma map_by_distinct:
  assumes "distinct (map key vs)" and "v \<in> set vs"
  shows "map_by key vs (key v) = Some v"
proof -
  have "map fst (rev (map (\<lambda>v. (key v, v)) vs)) = rev (map key vs)"
    by (simp add: rev_map comp_def)
  with assms show ?thesis
    by (simp add: map_by_def map_of_eq_Some_iff)
qed

section \<open>Iteration over a map\<close>

text \<open>
  \<open>for k, v := range m\<close> visits the keys in an unspecified order. Operations that
  iterate over a map take that order as a function from the map to the list of its
  keys; the theorems hold for every such function.
\<close>

type_synonym strmap = "(string, string) fmap"
type_synonym range_fn = "strmap \<Rightarrow> string list"

definition range_order :: "range_fn \<Rightarrow> bool" where
  "range_order rng \<longleftrightarrow> (\<forall>m. set (rng m) = fmdom' m \<and> distinct (rng m))"

text \<open>
  The same for a map that is only used through its keys and lookups: the order is a
  function from the finite set of keys.
\<close>

type_synonym key_order_fn = "string set \<Rightarrow> string list"

definition key_order :: "key_order_fn \<Rightarrow> bool" where
  "key_order kord \<longleftrightarrow> (\<forall>A. finite A \<longrightarrow> set (kord A) = A \<and> distinct (kord A))"

definition map_entries :: "key_order_fn \<Rightarrow> (string \<rightharpoonup> 'v) \<Rightarrow> (string \<times> 'v) list" where
  "map_entries kord m = map (\<lambda>k. (k, the (m k))) (kord (dom m))"

lemma key_orderD:
  "key_order kord \<Longrightarrow> finite A \<Longrightarrow> set (kord A) = A"
  "key_order kord \<Longrightarrow> finite A \<Longrightarrow> distinct (kord A)"
  by (auto simp: key_order_def)

lemma map_of_map_entries:
  assumes "key_order kord" and "finite (dom m)"
  shows "map_of (map_entries kord m) = m"
proof
  fix k
  have "map_of (map (\<lambda>k. (k, the (m k))) ks) k = (if k \<in> set ks then Some (the (m k)) else None)" for ks
    by (induction ks) auto
  then show "map_of (map_entries kord m) k = m k"
    using assms by (auto simp: map_entries_def key_orderD domIff)
qed

lemma distinct_map_entries:
  "key_order kord \<Longrightarrow> finite (dom m) \<Longrightarrow> distinct (map fst (map_entries kord m))"
  by (simp add: map_entries_def comp_def key_orderD)

lemma range_orderD:
  "range_order rng \<Longrightarrow> set (rng m) = fmdom' m"
  "range_order rng \<Longrightarrow> distinct (rng m)"
  by (auto simp: range_order_def)

end
