(* ===== verification/Api_Types.thy ===== *)
theory Api_Types
  imports Prelude
begin

text \<open>
  The custom resources of the system, \<open>controller/api/v1beta1/workspace_types.go\<close> and
  \<open>workspacekind_types.go\<close>: one record per struct, with the fields of the struct in
  its order, and one datatype per string enum. Field names carry a short prefix for
  their struct, because Isabelle record fields share one name space.

  Types of the Kubernetes libraries the program only stores, copies and compares
  (label selectors, affinities, tolerations, probes, security contexts, resource
  requirements) are \<open>k8s_opaque\<close>: a value identified by its serialised
  form. Structs of those libraries whose fields the program does read or build
  (object metadata, environment variables, volumes and their mounts) are records of
  those fields, with the rest of the struct as one opaque field.
\<close>

datatype k8s_opaque = Opaque string

type_synonym label_selector = k8s_opaque

section \<open>Kubernetes structs read or built by the program\<close>

record OwnerReference =
  or_APIVersion :: string
  or_Kind :: string
  or_Name :: string
  or_UID :: string
  or_Controller :: bool

record ObjectMeta =
  om_Name :: string
  om_GenerateName :: string
  om_Namespace :: string
  om_UID :: string
  om_ResourceVersion :: string
  om_Generation :: int
  om_CreationTimestamp :: int
  om_Labels :: strmap
  om_Annotations :: strmap
  om_Finalizers :: "string list"
  om_OwnerReferences :: "OwnerReference list"
  om_DeletionTimestamp :: "int option"

definition empty_meta :: ObjectMeta where
  "empty_meta = \<lparr>om_Name = [], om_GenerateName = [], om_Namespace = [], om_UID = [],
     om_ResourceVersion = [], om_Generation = 0, om_CreationTimestamp = 0,
     om_Labels = fmempty, om_Annotations = fmempty, om_Finalizers = [],
     om_OwnerReferences = [], om_DeletionTimestamp = None\<rparr>"

record EnvVar =
  env_Name :: string
  env_Value :: string
  env_ValueFrom :: "k8s_opaque option"

record VolumeMount =
  vm_Name :: string
  vm_MountPath :: string
  vm_ReadOnly :: bool
  vm_Rest :: "k8s_opaque option"

datatype VolumeSource =
    PersistentVolumeClaimSource (pvc_ClaimName: string) (pvc_ReadOnly: bool)
  | SecretSource (secret_Name: string) (secret_DefaultMode: "int option")
  | ConfigMapSource (cm_Name: string)
  | OtherVolumeSource k8s_opaque

record Volume =
  vol_Name :: string
  vol_Source :: VolumeSource

section \<open>WorkspaceKind: spec\<close>

type_synonym PortId = string

record ActivityRuleConfig =
  arc_SecondsSinceActive :: int
  arc_MinRunningSeconds :: "int option"

text \<open>\<open>NamespaceMatch\<close> and \<open>PodConfigMatch\<close> hold one label selector each.\<close>

record ActivityRuleMatch =
  arm_MatchNamespace :: "label_selector option"
  arm_MatchPodConfig :: "label_selector option"

record ActivityRuleEffect =
  are_PauseWorkspace :: "bool option"

record ActivityRule =
  ar_Config :: ActivityRuleConfig
  ar_Match :: "ActivityRuleMatch option"
  ar_Effect :: ActivityRuleEffect

record WorkspaceKindAssetConfigMap =
  acm_Name :: string
  acm_Namespace :: string
  acm_Key :: string
  acm_MediaType :: string

record WorkspaceKindAsset =
  asset_Url :: "string option"
  asset_ConfigMap :: "WorkspaceKindAssetConfigMap option"

record WorkspaceKindSpawner =
  sp_DisplayName :: string
  sp_Description :: string
  sp_Hidden :: "bool option"
  sp_Deprecated :: "bool option"
  sp_DeprecationMessage :: "string option"
  sp_Icon :: WorkspaceKindAsset
  sp_Logo :: WorkspaceKindAsset

record IstioHeaderOperations =
  hdr_Set :: "strmap option"
  hdr_Add :: "strmap option"
  hdr_Remove :: "string list"

record HTTPProxy =
  hp_RemovePathPrefix :: "bool option"
  hp_RequestHeaders :: "IstioHeaderOperations option"

datatype ImagePortProtocol = ImagePortProtocolHTTP | ImagePortProtocolOther string

record WorkspaceKindPort =
  wkp_Id :: PortId
  wkp_Protocol :: ImagePortProtocol
  wkp_DefaultDisplayName :: string
  wkp_HTTPProxy :: "HTTPProxy option"

text \<open>\<open>WorkspaceKindPodMetadata\<close> and \<open>WorkspaceKindStatefulSetMetadata\<close> have the same two fields.\<close>

record MetadataMaps =
  md_Labels :: strmap
  md_Annotations :: strmap

record WorkspaceKindClusterRole =
  cr_Name :: string

record WorkspaceKindServiceAccount =
  sa_ClusterRoles :: "WorkspaceKindClusterRole list"

record ActivityProbePodExec =
  pe_TimeoutSeconds :: "int option"
  pe_Script :: string

record ActivityProbeJupyter =
  ju_LastActivity :: bool
  ju_PortId :: PortId

record ActivityProbe =
  ap_MinProbeIntervalSeconds :: "int option"
  ap_ProbeIntervalSeconds :: "int option"
  ap_PodExec :: "ActivityProbePodExec option"
  ap_Jupyter :: "ActivityProbeJupyter option"

record WorkspaceKindProbes =
  pr_StartupProbe :: "k8s_opaque option"
  pr_LivenessProbe :: "k8s_opaque option"
  pr_ReadinessProbe :: "k8s_opaque option"

record WorkspaceKindVolumeMounts =
  wvm_Home :: string

record OptionsSpawnerConfig =
  osc_Default :: string

record OptionSpawnerLabel =
  osl_Key :: string
  osl_Value :: string

record OptionSpawnerInfo =
  osi_DisplayName :: string
  osi_Description :: "string option"
  osi_Labels :: "OptionSpawnerLabel list"
  osi_Hidden :: "bool option"

datatype RedirectMessageLevel = RedirectMessageLevelInfo | RedirectMessageLevelWarning
  | RedirectMessageLevelDanger

record RedirectMessage =
  rm_Level :: RedirectMessageLevel
  rm_Text :: string

record OptionRedirect =
  red_To :: string
  red_Message :: "RedirectMessage option"

record ImagePort =
  ip_Id :: PortId
  ip_Port :: int
  ip_DisplayName :: "string option"

record ImageConfigSpec =
  ics_Image :: string
  ics_ImagePullPolicy :: "string option"
  ics_Ports :: "ImagePort list"

record ImageConfigValue =
  ic_Id :: string
  ic_Spawner :: OptionSpawnerInfo
  ic_Redirect :: "OptionRedirect option"
  ic_Spec :: ImageConfigSpec

record ImageConfig =
  icfg_Spawner :: OptionsSpawnerConfig
  icfg_Values :: "ImageConfigValue list"

record PodConfigSpec =
  pcs_Affinity :: "k8s_opaque option"
  pcs_NodeSelector :: strmap
  pcs_Tolerations :: "k8s_opaque list"
  pcs_Resources :: "k8s_opaque option"
  pcs_SchedulerName :: "string option"

record PodConfigValue =
  pc_Id :: string
  pc_Spawner :: OptionSpawnerInfo
  pc_Redirect :: "OptionRedirect option"
  pc_Spec :: PodConfigSpec

record PodConfig =
  pcfg_Spawner :: OptionsSpawnerConfig
  pcfg_Values :: "PodConfigValue list"

record WorkspaceKindPodOptions =
  opt_ImageConfig :: ImageConfig
  opt_PodConfig :: PodConfig

record WorkspaceKindPodTemplate =
  kpt_PodMetadata :: "MetadataMaps option"
  kpt_StatefulSetMetadata :: "MetadataMaps option"
  kpt_ServiceAccount :: "WorkspaceKindServiceAccount option"
  kpt_ActivityProbe :: "ActivityProbe option"
  kpt_Probes :: "WorkspaceKindProbes option"
  kpt_VolumeMounts :: WorkspaceKindVolumeMounts
  kpt_Ports :: "WorkspaceKindPort list"
  kpt_ExtraEnv :: "EnvVar list"
  kpt_ExtraVolumeMounts :: "VolumeMount list"
  kpt_ExtraVolumes :: "Volume list"
  kpt_SecurityContext :: "k8s_opaque option"
  kpt_ContainerSecurityContext :: "k8s_opaque option"
  kpt_SchedulerName :: "string option"
  kpt_Options :: WorkspaceKindPodOptions

section \<open>WorkspaceKind: filter rules\<close>

datatype FilterRuleScope = FilterRuleScopeWorkspaceKind | FilterRuleScopePodConfig
  | FilterRuleScopeImageConfig

record FilterRuleEffectUI =
  feu_Hide :: bool

record FilterRuleDenyMessage =
  fdm_Text :: string

record FilterRuleEffectAPI =
  fea_Hide :: "bool option"
  fea_Deny :: "bool option"
  fea_DenyMessage :: "FilterRuleDenyMessage option"

record FilterRuleEffect =
  fre_UI :: "FilterRuleEffectUI option"
  fre_API :: "FilterRuleEffectAPI option"

text \<open>\<open>FilterRuleSelector\<close> wraps one label selector.\<close>

record FilterRuleMatch =
  frm_MatchNamespace :: "label_selector option"
  frm_MatchImageConfig :: "label_selector option"
  frm_MatchPodConfig :: "label_selector option"

record FilterRule =
  fr_Scope :: FilterRuleScope
  fr_Effect :: FilterRuleEffect
  fr_Match :: "FilterRuleMatch list"

record WorkspaceKindSpec =
  ks_Spawner :: WorkspaceKindSpawner
  ks_PodTemplate :: WorkspaceKindPodTemplate
  ks_ActivityRules :: "ActivityRule list"
  ks_FilterRules :: "FilterRule list"

section \<open>WorkspaceKind: status\<close>

datatype ConfigMapError = ConfigMapErrorNotFound | ConfigMapErrorKeyNotFound | ConfigMapErrorOther

record WorkspaceKindAssetConfigMapStatus =
  acs_Error :: "ConfigMapError option"
  acs_ErrorMessage :: "string option"

record ImageAssetStatus =
  ias_Sha256 :: string
  ias_ConfigMap :: "WorkspaceKindAssetConfigMapStatus option"

record OptionMetric =
  mt_Id :: string
  mt_Workspaces :: int

record PodTemplateOptionsMetrics =
  pm_ImageConfig :: "OptionMetric list"
  pm_PodConfig :: "OptionMetric list"

record WorkspaceKindStatus =
  kst_Workspaces :: int
  kst_PodTemplateOptions :: PodTemplateOptionsMetrics
  kst_SpawnerIcon :: ImageAssetStatus
  kst_SpawnerLogo :: ImageAssetStatus

record WorkspaceKind =
  wk_Meta :: ObjectMeta
  wk_Spec :: WorkspaceKindSpec
  wk_Status :: WorkspaceKindStatus

section \<open>Workspace: spec\<close>

record PodVolumeMount =
  pvm_PVCName :: string
  pvm_MountPath :: string
  pvm_ReadOnly :: "bool option"

record PodSecretMount =
  psm_SecretName :: string
  psm_MountPath :: string
  psm_DefaultMode :: int

record WorkspacePodVolumes =
  pv_Home :: "string option"
  pv_Data :: "PodVolumeMount list"
  pv_Secrets :: "PodSecretMount list"

record WorkspacePodOptions =
  po_ImageConfig :: string
  po_PodConfig :: string

record WorkspacePodTemplate =
  wpt_PodMetadata :: "MetadataMaps option"
  wpt_Volumes :: WorkspacePodVolumes
  wpt_Options :: WorkspacePodOptions

record WorkspaceSpec =
  spec_Paused :: bool
  spec_DisplayName :: "string option"
  spec_Kind :: string
  spec_PodTemplate :: WorkspacePodTemplate

section \<open>Workspace: status\<close>

datatype WorkspaceProbeResult = WorkspaceProbeResultSuccess | WorkspaceProbeResultFailure
  | WorkspaceProbeResultTimeout

record WorkspaceActivityLastProbe =
  lp_StartTime :: int
  lp_EndTime :: int
  lp_Result :: WorkspaceProbeResult
  lp_Message :: string

record WorkspaceActivityPauseRule =
  pr_EligibleAfter :: int

record WorkspaceActivityRules =
  rules_PauseWorkspace :: "WorkspaceActivityPauseRule option"

record WorkspaceActivity =
  act_LastActivity :: int
  act_LastUpdate :: int
  act_LastProbe :: "WorkspaceActivityLastProbe option"
  act_Rules :: "WorkspaceActivityRules option"

definition empty_activity :: WorkspaceActivity where
  "empty_activity = \<lparr>act_LastActivity = 0, act_LastUpdate = 0, act_LastProbe = None, act_Rules = None\<rparr>"

record WorkspacePodOptionRedirectStep =
  rs_Source :: string
  rs_Target :: string

record WorkspacePodOptionInfo =
  oi_Desired :: string
  oi_RedirectChain :: "WorkspacePodOptionRedirectStep list"

record WorkspacePodOptionsStatus =
  os_ImageConfig :: WorkspacePodOptionInfo
  os_PodConfig :: WorkspacePodOptionInfo

text \<open>\<open>WorkspacePodContainer\<close> holds one name.\<close>

record WorkspacePodStatus =
  ps_Name :: string
  ps_NodeName :: string
  ps_ServiceAccountName :: string
  ps_Containers :: "string list"
  ps_InitContainers :: "string list"

text \<open>The zero value of the string type is \<open>WorkspaceStateUnset\<close>.\<close>

datatype WorkspaceState = WorkspaceStateRunning | WorkspaceStateTerminating | WorkspaceStatePaused
  | WorkspaceStatePending | WorkspaceStateError | WorkspaceStateUnknown | WorkspaceStateUnset

record WorkspaceStatus =
  st_Activity :: WorkspaceActivity
  st_LastRunningTime :: int
  st_PauseTime :: int
  st_PendingRestart :: bool
  st_PodTemplateOptions :: WorkspacePodOptionsStatus
  st_PodTemplatePod :: WorkspacePodStatus
  st_State :: WorkspaceState
  st_StateMessage :: string

record Workspace =
  ws_Meta :: ObjectMeta
  ws_Spec :: WorkspaceSpec
  ws_Status :: WorkspaceStatus

section \<open>Abbreviations for deep field paths\<close>

abbreviation ws_Name :: "Workspace \<Rightarrow> string" where
  "ws_Name w \<equiv> om_Name (ws_Meta w)"

abbreviation ws_Namespace :: "Workspace \<Rightarrow> string" where
  "ws_Namespace w \<equiv> om_Namespace (ws_Meta w)"

abbreviation wk_Name :: "WorkspaceKind \<Rightarrow> string" where
  "wk_Name k \<equiv> om_Name (wk_Meta k)"

abbreviation wk_PodTemplate :: "WorkspaceKind \<Rightarrow> WorkspaceKindPodTemplate" where
  "wk_PodTemplate k \<equiv> ks_PodTemplate (wk_Spec k)"

abbreviation ws_PodTemplate :: "Workspace \<Rightarrow> WorkspacePodTemplate" where
  "ws_PodTemplate w \<equiv> spec_PodTemplate (ws_Spec w)"

abbreviation ws_Options :: "Workspace \<Rightarrow> WorkspacePodOptions" where
  "ws_Options w \<equiv> wpt_Options (ws_PodTemplate w)"

abbreviation wk_ImageConfigValues :: "WorkspaceKind \<Rightarrow> ImageConfigValue list" where
  "wk_ImageConfigValues k \<equiv> icfg_Values (opt_ImageConfig (kpt_Options (wk_PodTemplate k)))"

abbreviation wk_PodConfigValues :: "WorkspaceKind \<Rightarrow> PodConfigValue list" where
  "wk_PodConfigValues k \<equiv> pcfg_Values (opt_PodConfig (kpt_Options (wk_PodTemplate k)))"

abbreviation wk_Ports :: "WorkspaceKind \<Rightarrow> WorkspaceKindPort list" where
  "wk_Ports k \<equiv> kpt_Ports (wk_PodTemplate k)"

section \<open>Limits the CRD schema puts on the numbers\<close>

definition DefaultProbeIntervalSeconds :: int where
  "DefaultProbeIntervalSeconds = 3600"

definition DefaultMinProbeIntervalSeconds :: int where
  "DefaultMinProbeIntervalSeconds = 300"

definition DefaultPodExecTimeoutSeconds :: int where
  "DefaultPodExecTimeoutSeconds = 60"

section \<open>Schema invariant of a stored WorkspaceKind\<close>

text \<open>
  The list-map keys of the CRD schema (\<open>+listMapKey:="id"\<close>): the option values and
  the ports of a stored \<open>WorkspaceKind\<close> have distinct ids.
\<close>

definition kind_schema_ok :: "WorkspaceKind \<Rightarrow> bool" where
  "kind_schema_ok k \<longleftrightarrow>
     distinct (map ic_Id (wk_ImageConfigValues k)) \<and>
     distinct (map pc_Id (wk_PodConfigValues k)) \<and>
     distinct (map wkp_Id (wk_Ports k)) \<and>
     (\<forall>v \<in> set (wk_ImageConfigValues k).
        distinct (map ip_Id (ics_Ports (ic_Spec v))) \<and>
        (\<forall>p \<in> set (ics_Ports (ic_Spec v)). 1 \<le> ip_Port p \<and> ip_Port p \<le> 65535))"

end
