(* ===== verification/Usage_Counts.thy ===== *)
theory Usage_Counts
  imports Api_Types
begin

text \<open>
  Counting the Workspaces that use each option of a WorkspaceKind. The webhook
  (\<open>getOptionsUsageCounts\<close>) and the WorkspaceKind controller (in \<open>Reconcile\<close>) fill the
  same kind of \<open>map[string]int32\<close>: zero for every declared id, then one increment per
  Workspace at the id it selects, whether or not that id is declared.
\<close>

definition incr_count :: "(string \<rightharpoonup> int) \<Rightarrow> string \<Rightarrow> (string \<rightharpoonup> int)" where
  "incr_count m i = m(i \<mapsto> wrap32 ((case m i of None \<Rightarrow> 0 | Some c \<Rightarrow> c) + 1))"

definition usage_counts :: "string list \<Rightarrow> string list \<Rightarrow> (string \<rightharpoonup> int)" where
  "usage_counts ids sels = foldl incr_count (map_of (map (\<lambda>i. (i, 0)) ids)) sels"

lemma foldl_incr_count:
  assumes "\<And>i. case m i of None \<Rightarrow> True | Some c \<Rightarrow> 0 \<le> c \<and> c + int (length sels) < 2 ^ 31"
    and "int (length sels) < 2 ^ 31"
  shows "foldl incr_count m sels i =
    (if count_list sels i = 0 then m i
     else Some ((case m i of None \<Rightarrow> 0 | Some c \<Rightarrow> c) + int (count_list sels i)))"
  using assms
proof (induction sels arbitrary: m)
  case Nil
  then show ?case by simp
next
  case (Cons s sels)
  let ?n = "case m s of None \<Rightarrow> 0 | Some c \<Rightarrow> c"
  have "wrap32 (?n + 1) = ?n + 1"
    using Cons.prems(1) [of s] Cons.prems(2)
    by (intro wrap32_id) (auto simp: is_int32_def split: option.splits)
  then have step: "incr_count m s = m(s \<mapsto> ?n + 1)" by (simp add: incr_count_def)
  have "case incr_count m s j of None \<Rightarrow> True | Some c \<Rightarrow> 0 \<le> c \<and> c + int (length sels) < 2 ^ 31" for j
    using Cons.prems(1) [of j] Cons.prems(1) [of s] Cons.prems(2)
    by (auto simp: step split: option.splits)
  from Cons.IH [OF this] Cons.prems(2)
  have "foldl incr_count (incr_count m s) sels i =
    (if count_list sels i = 0 then incr_count m s i
     else Some ((case incr_count m s i of None \<Rightarrow> 0 | Some c \<Rightarrow> c) + int (count_list sels i)))" by simp
  then show ?case by (auto simp: step)
qed

lemma usage_counts_eq:
  assumes "int (length sels) < 2 ^ 31"
  shows "usage_counts ids sels i =
    (if i \<in> set ids \<union> set sels then Some (int (count_list sels i)) else None)"
proof -
  let ?m = "map_of (map (\<lambda>i. (i, 0 :: int)) ids)"
  have m: "?m j = (if j \<in> set ids then Some 0 else None)" for j
    by (induction ids) auto
  have "case ?m j of None \<Rightarrow> True | Some c \<Rightarrow> 0 \<le> c \<and> c + int (length sels) < 2 ^ 31" for j
    using assms by (simp add: m)
  from foldl_incr_count [where m = ?m and sels = sels and i = i, OF this assms] show ?thesis
    unfolding usage_counts_def by (auto simp: m count_list_0_iff)
qed

end
