(* ===== verification/Field_Errors.thy ===== *)
theory Field_Errors
  imports Api_Types
begin

text \<open>
  The values the admission webhooks exchange with the Kubernetes libraries:
  \<open>field.Path\<close> and \<open>field.Error\<close> of \<open>k8s.io/apimachinery/pkg/util/validation/field\<close>,
  the outcome of an admission request, and the library functions the webhooks call,
  which are arguments of the model (the record \<open>validation_lib\<close>).
\<close>

section \<open>Paths and errors\<close>

datatype path_elem = Child string | Key string | Index nat

type_synonym field_path = "path_elem list"

datatype bad_value = BadString string | BadInt int | BadMatch "ActivityRuleMatch option" | NoValue

datatype field_error =
    FieldInvalid (fe_path: field_path) (fe_value: bad_value) (fe_detail: string)
  | FieldRequired (fe_path: field_path) (fe_detail: string)
  | FieldForbidden (fe_path: field_path) (fe_detail: string)
  | FieldInternal (fe_path: field_path) (fe_detail: string)

text \<open>
  An admission request is allowed, possibly with warnings, or denied: as invalid with a
  list of field errors, with an internal error, or with a conflict.
\<close>

datatype admission_error =
    AdmissionInvalid string "field_error list"
  | AdmissionInternal string
  | AdmissionConflict string

type_synonym admission = "string list \<times> admission_error option"

definition admitted :: "admission \<Rightarrow> bool" where
  "admitted a \<longleftrightarrow> snd a = None"

text \<open>The common ending of the handlers: denied exactly when some field error was found.\<close>

definition admission_result :: "string list \<Rightarrow> string \<Rightarrow> field_error list \<Rightarrow> admission" where
  "admission_result warnings name errs =
     (if errs = [] then (warnings, None) else (warnings, Some (AdmissionInvalid name errs)))"

lemma admitted_admission_result [simp]:
  "admitted (admission_result warnings name errs) \<longleftrightarrow> errs = []"
  by (simp add: admitted_def admission_result_def)

lemma not_admitted_error [simp]: "\<not> admitted (warnings, Some e)"
  by (simp add: admitted_def)

lemma admitted_None [simp]: "admitted (warnings, None)"
  by (simp add: admitted_def)

section \<open>Library functions the webhooks call\<close>

text \<open>
  \<open>ValidateLabels\<close>, \<open>ValidateAnnotations\<close> and \<open>ValidateLabelSelector\<close> are the
  functions of \<open>k8s.io/apimachinery\<close>. \<open>TemplateParse\<close> and \<open>TemplateExecute\<close> are
  \<open>Parse\<close> and \<open>Execute\<close> of Go's \<open>text/template\<close>, for a template whose only
  extra function is \<open>httpPathPrefix\<close>.
\<close>

datatype parsed_template = ParsedTemplate string

record validation_lib =
  ValidateLabels :: "strmap \<Rightarrow> field_path \<Rightarrow> field_error list"
  ValidateAnnotations :: "strmap \<Rightarrow> field_path \<Rightarrow> field_error list"
  ValidateLabelSelector :: "label_selector \<Rightarrow> field_path \<Rightarrow> field_error list"
  TemplateParse :: "string \<Rightarrow> string + parsed_template"
  TemplateExecute :: "parsed_template \<Rightarrow> (PortId \<Rightarrow> string) \<Rightarrow> string + string"

text \<open>\<open>controller/internal/helper/template.go\<close>.\<close>

definition RenderGoTemplate :: "validation_lib \<Rightarrow> string \<Rightarrow> (PortId \<Rightarrow> string) \<Rightarrow> string + string" where
  "RenderGoTemplate lib rawValue httpPathPrefixFunc =
     (case TemplateParse lib rawValue of
        Inl e \<Rightarrow> Inl (''failed to parse template '' @ go_quote rawValue @ '': '' @ e)
      | Inr tmpl \<Rightarrow>
          (case TemplateExecute lib tmpl httpPathPrefixFunc of
             Inl e \<Rightarrow> Inl (''failed to execute template '' @ go_quote rawValue @ '': '' @ e)
           | Inr out \<Rightarrow> Inr out))"

end
