(* ===== verification/Graph_Cycle.thy ===== *)
theory Graph_Cycle
  imports Prelude
begin

text \<open>
  \<open>controller/internal/helper/graph.go\<close>: cycle detection in a graph whose nodes
  have at most one outgoing edge. The caller keeps a set of nodes already known to
  be harmless, which the function extends when it finds no cycle.

  \<open>edgeMap\<close> is the list of entries of the Go map; only lookups are made in it, so
  the order of the entries does not matter. \<open>checkedNodes\<close> and \<open>currentPathNodes\<close>
  only ever hold \<open>true\<close>, so they are sets, and the second is the set of the nodes of
  \<open>currentPath\<close>.
\<close>

type_synonym edge_map = "(string \<times> string) list"

section \<open>The algorithm\<close>

text \<open>
  The \<open>for\<close> loop: it ends at a checked node, at a node of the current path (then
  the path from its first occurrence on is the cycle) or at a node with no edge.
  The result is the cycle, if any, and the path walked.
\<close>

function detect_loop ::
    "string set \<Rightarrow> edge_map \<Rightarrow> string list \<Rightarrow> string \<Rightarrow> string list option \<times> string list" where
  "detect_loop checked edges path cur =
     (if cur \<in> checked then (None, path)
      else if cur \<in> set path then (Some (dropWhile (\<lambda>n. n \<noteq> cur) path), path)
      else (case map_of edges cur of
              None \<Rightarrow> (None, path @ [cur])
            | Some nxt \<Rightarrow> detect_loop checked edges (path @ [cur]) nxt))"
  by pat_completeness auto
termination
proof (relation "measure (\<lambda>(checked, edges, path, cur). card (fst ` set edges - set path))")
  fix checked :: "string set" and edges :: edge_map and path cur nxt
  assume "cur \<notin> set path" and "map_of edges cur = Some nxt"
  then have "cur \<in> fst ` set edges - set path"
    by (force dest: map_of_SomeD)
  moreover have "fst ` set edges - set (path @ [cur]) = fst ` set edges - set path - {cur}"
    by auto
  ultimately have "card (fst ` set edges - set (path @ [cur])) < card (fst ` set edges - set path)"
    by (simp only: finite_Diff finite_imageI finite_set card_Diff1_less)
  then show "((checked, edges, path @ [cur], nxt), (checked, edges, path, cur))
      \<in> measure (\<lambda>(checked, edges, path, cur). card (fst ` set edges - set path))"
    by simp
qed simp

declare detect_loop.simps [simp del]

definition DetectGraphCycle ::
    "string \<Rightarrow> string set \<Rightarrow> edge_map \<Rightarrow> string list option \<times> string set" where
  "DetectGraphCycle startNode checked edges =
     (case detect_loop checked edges [] startNode of
        (Some cycle, _) \<Rightarrow> (Some cycle, checked)
      | (None, path) \<Rightarrow> (None, checked \<union> set path))"

section \<open>Specification\<close>

definition edge_rel :: "edge_map \<Rightarrow> (string \<times> string) set" where
  "edge_rel edges = {(a, b). map_of edges a = Some b}"

text \<open>A node leads to a cycle when some node reachable from it lies on a cycle.\<close>

definition leads_to_cycle :: "edge_map \<Rightarrow> string \<Rightarrow> bool" where
  "leads_to_cycle edges x \<longleftrightarrow> (\<exists>n. (x, n) \<in> (edge_rel edges)\<^sup>* \<and> (n, n) \<in> (edge_rel edges)\<^sup>+)"

text \<open>A list of nodes is a cycle when each has an edge to the next and the last to the first.\<close>

fun chain :: "edge_map \<Rightarrow> string list \<Rightarrow> string \<Rightarrow> bool" where
  "chain edges [] y \<longleftrightarrow> True"
| "chain edges [x] y \<longleftrightarrow> map_of edges x = Some y"
| "chain edges (x # x' # xs) y \<longleftrightarrow> map_of edges x = Some x' \<and> chain edges (x' # xs) y"

definition is_cycle :: "edge_map \<Rightarrow> string list \<Rightarrow> bool" where
  "is_cycle edges c \<longleftrightarrow> c \<noteq> [] \<and> distinct c \<and> chain edges c (hd c)"

section \<open>Lemmas\<close>

lemma edge_rel_iff [simp]: "(a, b) \<in> edge_rel edges \<longleftrightarrow> map_of edges a = Some b"
  by (simp add: edge_rel_def)

lemma leads_step:
  assumes "map_of edges x = Some y"
  shows "leads_to_cycle edges x \<longleftrightarrow> leads_to_cycle edges y"
proof
  assume "leads_to_cycle edges x"
  then obtain n where n: "(x, n) \<in> (edge_rel edges)\<^sup>*" "(n, n) \<in> (edge_rel edges)\<^sup>+"
    by (auto simp: leads_to_cycle_def)
  have "(y, n) \<in> (edge_rel edges)\<^sup>*"
  proof (cases "x = n")
    case True
    from n(2) obtain z where "(n, z) \<in> edge_rel edges" "(z, n) \<in> (edge_rel edges)\<^sup>*"
      by (meson tranclD)
    with True assms show ?thesis by simp
  next
    case False
    with n(1) obtain z where "(x, z) \<in> edge_rel edges" "(z, n) \<in> (edge_rel edges)\<^sup>*"
      by (meson converse_rtranclE)
    with assms show ?thesis by simp
  qed
  with n(2) show "leads_to_cycle edges y" by (auto simp: leads_to_cycle_def)
next
  assume "leads_to_cycle edges y"
  then show "leads_to_cycle edges x"
    using assms unfolding leads_to_cycle_def
    by (meson converse_rtrancl_into_rtrancl edge_rel_iff)
qed

lemma leads_end: "map_of edges x = None \<Longrightarrow> \<not> leads_to_cycle edges x"
  unfolding leads_to_cycle_def
  by (metis converse_rtranclE edge_rel_iff option.distinct(1) tranclD)

lemma chain_snoc:
  "chain edges (xs @ [x]) y \<longleftrightarrow> chain edges xs x \<and> map_of edges x = Some y"
  by (induction edges xs x rule: chain.induct) auto

lemma chain_suffix: "chain edges (xs @ ys) z \<Longrightarrow> chain edges ys z"
  by (induction xs) (auto elim: chain.elims simp: neq_Nil_conv)

lemma chain_trancl:
  "chain edges c y \<Longrightarrow> c \<noteq> [] \<Longrightarrow> (hd c, y) \<in> (edge_rel edges)\<^sup>+"
proof (induction edges c y rule: chain.induct)
  case (3 edges x x' xs y)
  then have "(x, x') \<in> edge_rel edges" "(x', y) \<in> (edge_rel edges)\<^sup>+" by auto
  then show ?case by (simp add: trancl_into_trancl2)
qed auto

lemma cycle_leads: "is_cycle edges c \<Longrightarrow> leads_to_cycle edges (hd c)"
  using chain_trancl [of edges c "hd c"] by (auto simp: is_cycle_def leads_to_cycle_def)

lemma dropWhile_first:
  "x \<in> set xs \<Longrightarrow> \<exists>ys zs. xs = ys @ x # zs \<and> dropWhile (\<lambda>n. n \<noteq> x) xs = x # zs"
proof (induction xs)
  case (Cons a xs)
  show ?case
  proof (cases "a = x")
    case True
    then show ?thesis by (intro exI [of _ "[]"] exI [of _ xs]) simp
  next
    case False
    with Cons obtain ys zs where "xs = ys @ x # zs" "dropWhile (\<lambda>n. n \<noteq> x) xs = x # zs" by auto
    with False show ?thesis by (intro exI [of _ "a # ys"] exI [of _ zs]) simp
  qed
qed simp

text \<open>
  The loop keeps a duplicate-free path that leads to the current node. If it reports
  a list, that list is a cycle; otherwise nothing on the final path leads to one.
\<close>

lemma detect_loop_sound:
  assumes "detect_loop checked edges path cur = (Some c, p)"
    and "distinct path" and "chain edges path cur"
  shows "is_cycle edges c \<and> set c \<subseteq> set p \<and> (leads_to_cycle edges cur)"
  using assms
proof (induction checked edges path cur rule: detect_loop.induct)
  case (1 checked edges path cur)
  show ?case
  proof (cases "cur \<in> set path")
    case True
    from dropWhile_first [OF this] obtain ys zs where
      split: "path = ys @ cur # zs" "dropWhile (\<lambda>n. n \<noteq> cur) path = cur # zs" by blast
    from "1.prems"(1) True have "c = dropWhile (\<lambda>n. n \<noteq> cur) path" and p: "p = path"
      by (auto simp: detect_loop.simps [of checked edges path cur] split: if_splits)
    with split have c: "c = cur # zs" by simp
    from "1.prems"(3) split have "chain edges (cur # zs) cur"
      by (metis chain_suffix)
    with c split "1.prems"(2) have "is_cycle edges c" by (auto simp: is_cycle_def)
    with cycle_leads [OF this] c p split show ?thesis by auto
  next
    case False
    with "1.prems"(1) obtain nxt where nxt: "cur \<notin> checked" "map_of edges cur = Some nxt"
      and rec: "detect_loop checked edges (path @ [cur]) nxt = (Some c, p)"
      by (auto simp: detect_loop.simps [of checked edges path cur] split: if_splits option.splits)
    have "distinct (path @ [cur])" "chain edges (path @ [cur]) nxt"
      using False "1.prems" nxt by (auto simp: chain_snoc)
    with "1.IH" [OF nxt(1) False nxt(2) rec] leads_step [OF nxt(2)] show ?thesis by simp
  qed
qed

lemma detect_loop_complete:
  assumes "detect_loop checked edges path cur = (None, p)"
    and "\<forall>n \<in> checked. \<not> leads_to_cycle edges n"
    and "\<forall>n \<in> set path. leads_to_cycle edges n \<longleftrightarrow> leads_to_cycle edges cur"
  shows "\<not> leads_to_cycle edges cur \<and> (\<forall>n \<in> set p. \<not> leads_to_cycle edges n)
    \<and> (cur \<in> checked \<or> cur \<in> set p) \<and> set path \<subseteq> set p"
  using assms
proof (induction checked edges path cur rule: detect_loop.induct)
  case (1 checked edges path cur)
  consider (checked) "cur \<in> checked" | (onpath) "cur \<notin> checked" "cur \<in> set path"
    | (fin) "cur \<notin> checked" "cur \<notin> set path" "map_of edges cur = None"
    | (step) nxt where "cur \<notin> checked" "cur \<notin> set path" "map_of edges cur = Some nxt"
    by (cases "map_of edges cur") auto
  then show ?case
  proof cases
    case checked
    with 1 show ?thesis by (auto simp: detect_loop.simps [of checked edges path cur])
  next
    case onpath
    with 1 show ?thesis by (auto simp: detect_loop.simps [of checked edges path cur])
  next
    case fin
    with "1.prems" leads_end [OF fin(3)] show ?thesis
      by (auto simp: detect_loop.simps [of checked edges path cur])
  next
    case step
    with "1.prems"(1) have rec: "detect_loop checked edges (path @ [cur]) nxt = (None, p)"
      by (simp add: detect_loop.simps [of checked edges path cur])
    from leads_step [OF step(3)] "1.prems"(3)
    have "\<forall>n \<in> set (path @ [cur]). leads_to_cycle edges n \<longleftrightarrow> leads_to_cycle edges nxt" by auto
    from "1.IH" [OF step rec "1.prems"(2) this] leads_step [OF step(3)]
    show ?thesis by auto
  qed
qed

section \<open>Correctness\<close>

text \<open>What a reported cycle is, and what the extended set of checked nodes promises.\<close>

lemma detect_some:
  assumes "DetectGraphCycle s checked edges = (Some c, checked')"
  shows "is_cycle edges c \<and> leads_to_cycle edges s \<and> checked' = checked"
  using assms detect_loop_sound [of checked edges "[]" s c]
  by (auto simp: DetectGraphCycle_def split: prod.splits option.splits)

lemma detect_none:
  assumes "DetectGraphCycle s checked edges = (None, checked')"
    and "\<forall>n \<in> checked. \<not> leads_to_cycle edges n"
  shows "\<not> leads_to_cycle edges s \<and> s \<in> checked' \<and> checked \<subseteq> checked'
    \<and> (\<forall>n \<in> checked'. \<not> leads_to_cycle edges n)"
proof -
  from assms(1) obtain p where p: "detect_loop checked edges [] s = (None, p)"
    and c: "checked' = checked \<union> set p"
    by (auto simp: DetectGraphCycle_def split: prod.splits option.splits)
  from detect_loop_complete [OF p assms(2)] c assms(2) show ?thesis by auto
qed

text \<open>With a sound set of checked nodes the answer is exact.\<close>

lemma detect_iff:
  assumes "\<forall>n \<in> checked. \<not> leads_to_cycle edges n"
  shows "(fst (DetectGraphCycle s checked edges) = None) \<longleftrightarrow> \<not> leads_to_cycle edges s"
  using detect_some [of s checked edges] detect_none [of s checked edges] assms
  by (metis prod.collapse option.exhaust)

end
