(* ===== verification/Redirects.thy ===== *)
theory Redirects
  imports Api_Types Graph_Cycle
begin

text \<open>
  Option redirects. \<open>getImageConfig\<close> and \<open>getPodConfig\<close> of
  \<open>controller/internal/controller/workspace_controller.go\<close> find the option a
  Workspace selects and follow the redirects from it; \<open>validateImageConfigRedirects\<close>
  and \<open>validatePodConfigRedirects\<close> of \<open>controller/internal/webhook/workspacekind_webhook.go\<close>
  decide which redirects a WorkspaceKind may have. The two kinds of option share one
  contract, the locale \<open>option_config\<close>, in which the lemmas about both sides are
  proved once; it is interpreted for image configs and for pod configs.
\<close>

datatype redirect_error =
    OptionNotFound string
  | CircularRedirect string
  | RedirectTargetNotFound string string

section \<open>Following redirects\<close>

text \<open>
  The loop both functions share, over the id and the redirect of a value:
  \<open>visited\<close> is \<open>visitedNodes\<close>, \<open>steps\<close> the redirect chain so far.
\<close>

function follow_redirects ::
    "('v \<Rightarrow> string) \<Rightarrow> ('v \<Rightarrow> OptionRedirect option) \<Rightarrow> 'v list \<Rightarrow> string set
     \<Rightarrow> WorkspacePodOptionRedirectStep list \<Rightarrow> 'v
     \<Rightarrow> redirect_error + 'v \<times> WorkspacePodOptionRedirectStep list" where
  "follow_redirects idf redf vals visited steps desired =
     (case redf desired of
        None \<Rightarrow> Inr (desired, steps)
      | Some r \<Rightarrow>
          if red_To r \<in> visited then Inl (CircularRedirect (idf desired))
          else (case map_by idf vals (red_To r) of
                  None \<Rightarrow> Inl (RedirectTargetNotFound (red_To r) (idf desired))
                | Some nextNode \<Rightarrow>
                    follow_redirects idf redf vals (insert (idf nextNode) visited)
                      (steps @ [\<lparr>rs_Source = idf desired, rs_Target = idf nextNode\<rparr>]) nextNode))"
  by pat_completeness auto
termination
proof (relation "measure (\<lambda>(idf, redf, vals, visited, steps, desired). card (idf ` set vals - visited))")
  fix idf :: "'v \<Rightarrow> string" and redf :: "'v \<Rightarrow> OptionRedirect option" and vals :: "'v list"
    and visited steps desired r nextNode
  assume fresh: "red_To r \<notin> visited" and nxt: "map_by idf vals (red_To r) = Some nextNode"
  from map_by_SomeD [OF nxt] have "nextNode \<in> set vals" "idf nextNode = red_To r" by auto
  with fresh have mem: "idf nextNode \<in> idf ` set vals - visited"
    by (metis DiffI imageI)
  have "idf ` set vals - insert (idf nextNode) visited = idf ` set vals - visited - {idf nextNode}"
    by auto
  with mem have "card (idf ` set vals - insert (idf nextNode) visited) < card (idf ` set vals - visited)"
    by (simp only: finite_Diff finite_imageI finite_set card_Diff1_less)
  then show "((idf, redf, vals, insert (idf nextNode) visited,
        steps @ [\<lparr>rs_Source = idf desired, rs_Target = idf nextNode\<rparr>], nextNode),
      (idf, redf, vals, visited, steps, desired))
      \<in> measure (\<lambda>(idf, redf, vals, visited, steps, desired). card (idf ` set vals - visited))"
    by simp
qed simp

declare follow_redirects.simps [simp del]

text \<open>
  The results are the current value, the desired value when it differs from the
  current one, and the redirect chain.
\<close>

definition getImageConfig ::
    "Workspace \<Rightarrow> WorkspaceKind \<Rightarrow> redirect_error +
       ImageConfigValue \<times> ImageConfigValue option \<times> WorkspacePodOptionRedirectStep list" where
  "getImageConfig w k =
     (let vals = wk_ImageConfigValues k; key = po_ImageConfig (ws_Options w) in
      case map_by ic_Id vals key of
        None \<Rightarrow> Inl (OptionNotFound key)
      | Some current \<Rightarrow>
          (case follow_redirects ic_Id ic_Redirect vals {ic_Id current} [] current of
             Inl e \<Rightarrow> Inl e
           | Inr (desired, redirectChain) \<Rightarrow>
               if ic_Id current \<noteq> ic_Id desired
               then Inr (current, Some desired, redirectChain)
               else Inr (current, None, [])))"

definition getPodConfig ::
    "Workspace \<Rightarrow> WorkspaceKind \<Rightarrow> redirect_error +
       PodConfigValue \<times> PodConfigValue option \<times> WorkspacePodOptionRedirectStep list" where
  "getPodConfig w k =
     (let vals = wk_PodConfigValues k; key = po_PodConfig (ws_Options w) in
      case map_by pc_Id vals key of
        None \<Rightarrow> Inl (OptionNotFound key)
      | Some current \<Rightarrow>
          (case follow_redirects pc_Id pc_Redirect vals {pc_Id current} [] current of
             Inl e \<Rightarrow> Inl e
           | Inr (desired, redirectChain) \<Rightarrow>
               if pc_Id current \<noteq> pc_Id desired
               then Inr (current, Some desired, redirectChain)
               else Inr (current, None, [])))"

section \<open>Validating redirects\<close>

text \<open>
  The entries of \<open>imageConfigRedirectMap\<close> and \<open>podConfigRedirectMap\<close>. Go iterates
  over the map in an unspecified order, which is the order of the list
  \<open>redirects\<close>; \<open>ids\<close> are the keys of the id map. A cycle ends the loop.
\<close>

datatype redirect_field_error =
    RedirectCycle (rfe_Id: string) (rfe_To: string) (rfe_Cycle: "string list")
  | RedirectTargetMissing (rfe_Id: string) (rfe_To: string)

fun validate_redirects ::
    "string set \<Rightarrow> edge_map \<Rightarrow> edge_map \<Rightarrow> string set \<Rightarrow> redirect_field_error list" where
  "validate_redirects ids edges [] checked = []"
| "validate_redirects ids edges ((i, redirectTo) # rest) checked =
     (case DetectGraphCycle i checked edges of
        (Some cycle, _) \<Rightarrow> [RedirectCycle i redirectTo cycle]
      | (None, checked') \<Rightarrow>
          (if redirectTo \<in> ids then [] else [RedirectTargetMissing i redirectTo])
          @ validate_redirects ids edges rest checked')"

definition redirect_map :: "('v \<Rightarrow> string) \<Rightarrow> ('v \<Rightarrow> OptionRedirect option) \<Rightarrow> 'v list \<Rightarrow> (string \<rightharpoonup> string)" where
  "redirect_map idf redf vals =
     map_of (rev (concat (map (\<lambda>v. case redf v of None \<Rightarrow> [] | Some r \<Rightarrow> [(idf v, red_To r)]) vals)))"

text \<open>
  \<open>edges\<close> enumerates the entries of a Go map: every entry once, in the order of the
  iteration.
\<close>

definition enumerates :: "edge_map \<Rightarrow> (string \<rightharpoonup> string) \<Rightarrow> bool" where
  "enumerates edges m \<longleftrightarrow> map_of edges = m \<and> distinct (map fst edges)"

definition validateImageConfigRedirects :: "ImageConfigValue list \<Rightarrow> edge_map \<Rightarrow> redirect_field_error list" where
  "validateImageConfigRedirects vals edges =
     validate_redirects (ic_Id ` set vals) edges edges {}"

definition validatePodConfigRedirects :: "PodConfigValue list \<Rightarrow> edge_map \<Rightarrow> redirect_field_error list" where
  "validatePodConfigRedirects vals edges =
     validate_redirects (pc_Id ` set vals) edges edges {}"

section \<open>What the validation decides\<close>

definition redirects_ok :: "string set \<Rightarrow> (string \<rightharpoonup> string) \<Rightarrow> bool" where
  "redirects_ok ids m \<longleftrightarrow> ran m \<subseteq> ids \<and> (\<forall>n. (n, n) \<notin> {(a, b). m a = Some b}\<^sup>+)"

lemma single_redirect_ok:
  assumes "a \<noteq> b" and "b \<in> ids"
  shows "redirects_ok ids [a \<mapsto> b]"
proof -
  have "{(x, y). [a \<mapsto> b] x = Some y} = {(a, b)}" by (auto split: if_splits)
  moreover have "(n, n) \<notin> {(a, b)}\<^sup>+" for n
    using assms(1) by (auto dest: tranclD tranclD2)
  ultimately show ?thesis using assms(2) by (simp add: redirects_ok_def)
qed

lemma empty_redirect_ok: "redirects_ok ids Map.empty"
  by (simp add: redirects_ok_def)

lemma validate_redirects_Nil_iff:
  assumes "\<forall>n \<in> checked. \<not> leads_to_cycle edges n"
  shows "validate_redirects ids edges es checked = [] \<longleftrightarrow>
    (\<forall>(i, t) \<in> set es. \<not> leads_to_cycle edges i \<and> t \<in> ids)"
  using assms
proof (induction es arbitrary: checked)
  case Nil
  show ?case by simp
next
  case (Cons e es)
  obtain i t where e: "e = (i, t)" by force
  show ?case
  proof (cases "DetectGraphCycle i checked edges")
    case (Pair r checked')
    show ?thesis
    proof (cases r)
      case None
      with Pair have d: "DetectGraphCycle i checked edges = (None, checked')" by simp
      from detect_none [OF d Cons.prems] have ok: "\<not> leads_to_cycle edges i"
        and inv: "\<forall>n \<in> checked'. \<not> leads_to_cycle edges n" by auto
      from Cons.IH [OF inv] ok d e show ?thesis by auto
    next
      case (Some c)
      with Pair detect_some [of i checked edges c checked'] e show ?thesis by auto
    qed
  qed
qed

lemma no_cycle_iff_no_lead:
  "(\<forall>n. (n, n) \<notin> (edge_rel edges)\<^sup>+) \<longleftrightarrow> (\<forall>(i, t) \<in> set edges. \<not> leads_to_cycle edges i)"
    (is "?acyc \<longleftrightarrow> ?nolead")
proof
  assume ?acyc
  then show ?nolead by (auto simp: leads_to_cycle_def)
next
  assume nolead: ?nolead
  show ?acyc
  proof (intro allI notI)
    fix n
    assume n: "(n, n) \<in> (edge_rel edges)\<^sup>+"
    then obtain z where "map_of edges n = Some z" by (metis edge_rel_iff tranclD)
    then have "(n, z) \<in> set edges" by (rule map_of_SomeD)
    with nolead have "\<not> leads_to_cycle edges n" by auto
    with n show False by (auto simp: leads_to_cycle_def)
  qed
qed

lemma validate_redirects_correct:
  assumes "enumerates edges m"
  shows "validate_redirects ids edges edges {} = [] \<longleftrightarrow> redirects_ok ids m"
proof -
  from assms have m: "m = map_of edges" "distinct (map fst edges)"
    by (auto simp: enumerates_def)
  have rel: "{(a, b). m a = Some b} = edge_rel edges" by (auto simp: m edge_rel_def)
  have ran: "ran m = snd ` set edges" using m by (simp add: ran_distinct)
  show ?thesis
    unfolding redirects_ok_def rel no_cycle_iff_no_lead ran
    by (subst validate_redirects_Nil_iff) auto
qed

section \<open>Redirect chains\<close>

text \<open>
  The redirects in force, as a relation on ids, and a chain of redirect steps from one
  id to another, each following the redirect of its source to an existing value.
\<close>

definition redirect_rel :: "('v \<Rightarrow> string) \<Rightarrow> ('v \<Rightarrow> OptionRedirect option) \<Rightarrow> 'v list \<Rightarrow> (string \<times> string) set" where
  "redirect_rel idf redf vals =
     {(a, b). \<exists>v r. map_by idf vals a = Some v \<and> redf v = Some r \<and> red_To r = b}"

fun redirect_chain ::
    "('v \<Rightarrow> string) \<Rightarrow> ('v \<Rightarrow> OptionRedirect option) \<Rightarrow> 'v list \<Rightarrow> string
     \<Rightarrow> WorkspacePodOptionRedirectStep list \<Rightarrow> string \<Rightarrow> bool" where
  "redirect_chain idf redf vals a [] b \<longleftrightarrow> a = b"
| "redirect_chain idf redf vals a (s # ss) b \<longleftrightarrow>
     rs_Source s = a \<and> (a, rs_Target s) \<in> redirect_rel idf redf vals \<and>
     rs_Target s \<in> idf ` set vals \<and> redirect_chain idf redf vals (rs_Target s) ss b"

lemma redirect_chain_snoc:
  "redirect_chain idf redf vals a (ss @ [s]) c \<longleftrightarrow>
     (\<exists>b. redirect_chain idf redf vals a ss b \<and> redirect_chain idf redf vals b [s] c)"
  by (induction ss arbitrary: a) auto

lemma redirect_chain_reach:
  "redirect_chain idf redf vals a ss b \<Longrightarrow> t \<in> insert a (rs_Target ` set ss) \<Longrightarrow>
     (t, b) \<in> (redirect_rel idf redf vals)\<^sup>*"
proof (induction ss arbitrary: a t)
  case (Cons s ss)
  then have "(rs_Target s, b) \<in> (redirect_rel idf redf vals)\<^sup>*" by auto
  with Cons show ?case by (auto intro: converse_rtrancl_into_rtrancl)
qed simp

lemma redirect_map_rel:
  assumes "distinct (map idf vals)"
  shows "{(a, b). redirect_map idf redf vals a = Some b} = redirect_rel idf redf vals"
proof -
  let ?es = "concat (map (\<lambda>v. case redf v of None \<Rightarrow> [] | Some r \<Rightarrow> [(idf v, red_To r)]) vals)"
  have "distinct (map fst ?es) \<and> fst ` set ?es \<subseteq> idf ` set vals"
    using assms by (induction vals) (auto split: option.splits)
  then have "(redirect_map idf redf vals a = Some b) \<longleftrightarrow> (a, b) \<in> set ?es" for a b
    by (simp add: redirect_map_def map_of_eq_Some_iff rev_map [symmetric])
  moreover have "(a, b) \<in> set ?es \<longleftrightarrow> (a, b) \<in> redirect_rel idf redf vals" for a b
  proof -
    have "(a, b) \<in> set ?es \<longleftrightarrow> (\<exists>v \<in> set vals. \<exists>r. redf v = Some r \<and> idf v = a \<and> red_To r = b)"
      by (auto split: option.splits; metis)
    also have "\<dots> \<longleftrightarrow> (\<exists>v r. map_by idf vals a = Some v \<and> redf v = Some r \<and> red_To r = b)"
      using map_by_distinct [OF assms] map_by_SomeD [of idf vals a] by blast
    finally show ?thesis by (simp add: redirect_rel_def)
  qed
  ultimately show ?thesis by auto
qed

lemma redirect_rel_step:
  assumes "map_by idf vals (idf d) = Some d" and "redf d = Some r"
  shows "(idf d, red_To r) \<in> redirect_rel idf redf vals"
  using assms by (auto simp: redirect_rel_def)

text \<open>
  The loop invariant: the steps so far lead from the start to the current value, visit
  no id twice, and \<open>visited\<close> holds exactly the ids on them.
\<close>

definition follow_inv ::
    "('v \<Rightarrow> string) \<Rightarrow> ('v \<Rightarrow> OptionRedirect option) \<Rightarrow> 'v list \<Rightarrow> string \<Rightarrow> string set
     \<Rightarrow> WorkspacePodOptionRedirectStep list \<Rightarrow> 'v \<Rightarrow> bool" where
  "follow_inv idf redf vals a visited steps d \<longleftrightarrow>
     map_by idf vals (idf d) = Some d \<and> redirect_chain idf redf vals a steps (idf d) \<and>
     distinct (a # map rs_Target steps) \<and> visited = insert a (rs_Target ` set steps)"

lemma follow_inv_step:
  assumes inv: "follow_inv idf redf vals a visited steps d" and r: "redf d = Some r"
    and fresh: "red_To r \<notin> visited" and nxt: "map_by idf vals (red_To r) = Some n"
  shows "follow_inv idf redf vals a (insert (idf n) visited)
     (steps @ [\<lparr>rs_Source = idf d, rs_Target = idf n\<rparr>]) n"
proof -
  from map_by_SomeD [OF nxt] have n: "n \<in> set vals" "idf n = red_To r" by auto
  have "(idf d, idf n) \<in> redirect_rel idf redf vals"
    using redirect_rel_step [of idf vals d redf r] inv r n by (simp add: follow_inv_def)
  moreover have "idf n \<in> idf ` set vals" using n(1) by blast
  ultimately show ?thesis
    using inv fresh nxt n(2) by (auto simp: follow_inv_def redirect_chain_snoc)
qed

lemma follow_redirects_sound:
  assumes "follow_redirects idf redf vals visited steps d = Inr (e, ch)"
    and "follow_inv idf redf vals a visited steps d"
  shows "redf e = None \<and> map_by idf vals (idf e) = Some e \<and>
    redirect_chain idf redf vals a ch (idf e) \<and> distinct (a # map rs_Target ch)"
  using assms
proof (induction idf redf vals visited steps d rule: follow_redirects.induct)
  case (1 idf redf vals visited steps d)
  show ?case
  proof (cases "redf d")
    case None
    with "1.prems" show ?thesis
      by (auto simp: follow_redirects.simps [of idf redf vals visited steps d] follow_inv_def)
  next
    case (Some r)
    with "1.prems"(1) obtain n where fresh: "red_To r \<notin> visited"
      and nxt: "map_by idf vals (red_To r) = Some n"
      and rec: "follow_redirects idf redf vals (insert (idf n) visited)
        (steps @ [\<lparr>rs_Source = idf d, rs_Target = idf n\<rparr>]) n = Inr (e, ch)"
      by (auto simp: follow_redirects.simps [of idf redf vals visited steps d]
               split: if_splits option.splits)
    from "1.IH" [OF Some fresh nxt rec follow_inv_step [OF "1.prems"(2) Some fresh nxt]]
    show ?thesis .
  qed
qed

text \<open>With redirects that pass validation the loop never fails.\<close>

lemma follow_redirects_total:
  assumes "follow_inv idf redf vals a visited steps d"
    and "Range (redirect_rel idf redf vals) \<subseteq> idf ` set vals"
    and "\<forall>n. (n, n) \<notin> (redirect_rel idf redf vals)\<^sup>+"
  shows "\<exists>e ch. follow_redirects idf redf vals visited steps d = Inr (e, ch)"
  using assms
proof (induction idf redf vals visited steps d rule: follow_redirects.induct)
  case (1 idf redf vals visited steps d)
  show ?case
  proof (cases "redf d")
    case None
    then show ?thesis by (simp add: follow_redirects.simps [of idf redf vals visited steps d])
  next
    case (Some r)
    have edge: "(idf d, red_To r) \<in> redirect_rel idf redf vals"
      using redirect_rel_step [of idf vals d redf r] Some "1.prems"(1) by (simp add: follow_inv_def)
    have fresh: "red_To r \<notin> visited"
    proof
      assume "red_To r \<in> visited"
      with "1.prems"(1) have "(red_To r, idf d) \<in> (redirect_rel idf redf vals)\<^sup>*"
        by (auto simp: follow_inv_def intro: redirect_chain_reach)
      with edge have "(red_To r, red_To r) \<in> (redirect_rel idf redf vals)\<^sup>+"
        by (meson rtrancl_into_trancl1)
      with "1.prems"(3) show False by blast
    qed
    from edge "1.prems"(2) obtain n where nxt: "map_by idf vals (red_To r) = Some n"
      by (metis RangeI map_by_None_iff not_None_eq subsetD)
    from "1.IH" [OF Some fresh nxt follow_inv_step [OF "1.prems"(1) Some fresh nxt] "1.prems"(2,3)]
    show ?thesis
      using Some fresh nxt by (simp add: follow_redirects.simps [of idf redf vals visited steps d])
  qed
qed

section \<open>The shared contract of the two kinds of option\<close>

locale option_config =
  fixes idf :: "'v \<Rightarrow> string" and redf :: "'v \<Rightarrow> OptionRedirect option"
    and sel :: "Workspace \<Rightarrow> string" and vals :: "WorkspaceKind \<Rightarrow> 'v list"
    and validate :: "'v list \<Rightarrow> edge_map \<Rightarrow> redirect_field_error list"
    and get :: "Workspace \<Rightarrow> WorkspaceKind \<Rightarrow> redirect_error + 'v \<times> 'v option \<times> WorkspacePodOptionRedirectStep list"
  assumes validate_spec: "validate vs edges = validate_redirects (idf ` set vs) edges edges {}"
    and get_spec: "get w k =
      (case map_by idf (vals k) (sel w) of
         None \<Rightarrow> Inl (OptionNotFound (sel w))
       | Some c \<Rightarrow>
           (case follow_redirects idf redf (vals k) {idf c} [] c of
              Inl e \<Rightarrow> Inl e
            | Inr (d, ch) \<Rightarrow> if idf c \<noteq> idf d then Inr (c, Some d, ch) else Inr (c, None, [])))"
begin

lemma start_inv:
  "map_by idf (vals k) i = Some c \<Longrightarrow> follow_inv idf redf (vals k) (idf c) {idf c} [] c"
  using map_by_SomeD [of idf "vals k" i c] by (auto simp: follow_inv_def)

text \<open>An accepted WorkspaceKind never makes the reconcile of a Workspace fail on its options.\<close>

lemma get_total:
  assumes uniq: "distinct (map idf (vals k))"
    and enum: "enumerates edges (redirect_map idf redf (vals k))"
    and valid: "validate (vals k) edges = []"
    and exists: "sel w \<in> idf ` set (vals k)"
  shows "\<exists>c d ch. get w k = Inr (c, d, ch)"
proof -
  from valid have "redirects_ok (idf ` set (vals k)) (redirect_map idf redf (vals k))"
    by (simp add: validate_spec validate_redirects_correct [OF enum])
  then have ran: "Range (redirect_rel idf redf (vals k)) \<subseteq> idf ` set (vals k)"
    and acyc: "\<forall>n. (n, n) \<notin> (redirect_rel idf redf (vals k))\<^sup>+"
    unfolding redirects_ok_def redirect_map_rel [OF uniq, of redf, symmetric]
    by (auto simp: ran_def)
  from exists obtain c where c: "map_by idf (vals k) (sel w) = Some c"
    by (metis map_by_None_iff not_None_eq)
  from follow_redirects_total [OF start_inv [OF c] ran acyc] c
  show ?thesis by (auto simp: get_spec)
qed

text \<open>What a successful lookup returns.\<close>

lemma get_current: "get w k = Inr (c, d, ch) \<Longrightarrow> c \<in> set (vals k) \<and> idf c = sel w"
  using map_by_SomeD [of idf "vals k" "sel w"]
  by (auto simp: get_spec split: option.splits sum.splits if_splits)

lemma get_desired:
  assumes "get w k = Inr (c, Some d, ch)"
  shows "d \<in> set (vals k) \<and> idf d \<noteq> idf c \<and> redf d = None \<and>
    redirect_chain idf redf (vals k) (idf c) ch (idf d) \<and> distinct (idf c # map rs_Target ch)"
proof -
  from assms have c: "map_by idf (vals k) (sel w) = Some c" and ne: "idf c \<noteq> idf d"
    and f: "follow_redirects idf redf (vals k) {idf c} [] c = Inr (d, ch)"
    by (auto simp: get_spec split: option.splits sum.splits if_splits)
  from follow_redirects_sound [OF f start_inv [OF c]] ne map_by_SomeD [of idf "vals k" "idf d" d]
  show ?thesis by auto
qed

lemma get_no_desired:
  assumes "get w k = Inr (c, None, ch)"
  shows "redf c = None \<and> ch = []"
proof -
  from assms obtain d ch' where c: "map_by idf (vals k) (sel w) = Some c"
    and eq: "idf c = idf d" "ch = []"
    and f: "follow_redirects idf redf (vals k) {idf c} [] c = Inr (d, ch')"
    by (auto simp: get_spec split: option.splits sum.splits if_splits)
  from follow_redirects_sound [OF f start_inv [OF c]] have d: "redf d = None"
    "map_by idf (vals k) (idf d) = Some d" by auto
  with c map_by_SomeD [OF c] eq show ?thesis by auto
qed

end

interpretation image_option: option_config ic_Id ic_Redirect "\<lambda>w. po_ImageConfig (ws_Options w)"
  wk_ImageConfigValues validateImageConfigRedirects getImageConfig
  by unfold_locales (simp_all add: validateImageConfigRedirects_def getImageConfig_def Let_def)

interpretation pod_option: option_config pc_Id pc_Redirect "\<lambda>w. po_PodConfig (ws_Options w)"
  wk_PodConfigValues validatePodConfigRedirects getPodConfig
  by unfold_locales (simp_all add: validatePodConfigRedirects_def getPodConfig_def Let_def)

end
