(* ===== verification/Kind_Webhook.thy ===== *)
theory Kind_Webhook
  imports Field_Errors Redirects Usage_Counts
begin

text \<open>
  \<open>controller/internal/webhook/workspacekind_webhook.go\<close>: the validating webhook of
  WorkspaceKinds. One definition per function of the file, in the order in which they
  build on each other; the error lists keep the order in which the code appends.
\<close>

abbreviation spec_podTemplate :: "field_path" where
  "spec_podTemplate \<equiv> [Child ''spec'', Child ''podTemplate'']"

section \<open>Metadata, templates, filter rules\<close>

definition validateLabelsAndAnnotations :: "validation_lib \<Rightarrow> strmap \<Rightarrow> strmap \<Rightarrow> field_path \<Rightarrow> field_error list" where
  "validateLabelsAndAnnotations lib labels annotations path =
     ValidateLabels lib labels (path @ [Child ''labels''])
     @ ValidateAnnotations lib annotations (path @ [Child ''annotations''])"

definition validatePodTemplatePodMetadata :: "validation_lib \<Rightarrow> WorkspaceKind \<Rightarrow> field_error list" where
  "validatePodTemplatePodMetadata lib k =
     (case kpt_PodMetadata (wk_PodTemplate k) of
        None \<Rightarrow> []
      | Some md \<Rightarrow> validateLabelsAndAnnotations lib (md_Labels md) (md_Annotations md)
                    (spec_podTemplate @ [Child ''podMetadata'']))"

definition validatePodTemplateStatefulSetMetadata :: "validation_lib \<Rightarrow> WorkspaceKind \<Rightarrow> field_error list" where
  "validatePodTemplateStatefulSetMetadata lib k =
     (case kpt_StatefulSetMetadata (wk_PodTemplate k) of
        None \<Rightarrow> []
      | Some md \<Rightarrow> validateLabelsAndAnnotations lib (md_Labels md) (md_Annotations md)
                    (spec_podTemplate @ [Child ''statefulSetMetadata'']))"

definition dummy_httpPathPrefix :: "PortId \<Rightarrow> string" where
  "dummy_httpPathPrefix portId = ''DUMMY_HTTP_PATH_PREFIX''"

definition validateExtraEnv :: "validation_lib \<Rightarrow> WorkspaceKind \<Rightarrow> field_error list" where
  "validateExtraEnv lib k =
     concat (map (\<lambda>env.
       if env_Value env \<noteq> [] then
         (case RenderGoTemplate lib (env_Value env) dummy_httpPathPrefix of
            Inl e \<Rightarrow> [FieldInvalid (spec_podTemplate @ [Child ''extraEnv'', Key (env_Name env), Child ''value''])
                        (BadString (env_Value env)) e]
          | Inr _ \<Rightarrow> [])
       else []) (kpt_ExtraEnv (wk_PodTemplate k)))"

text \<open>One of the two header maps (\<open>set\<close>, \<open>add\<close>) of a port; \<open>rng\<close> is the iteration order.\<close>

definition validate_header_map :: "validation_lib \<Rightarrow> range_fn \<Rightarrow> field_path \<Rightarrow> strmap option \<Rightarrow> field_error list" where
  "validate_header_map lib rng path hdrs =
     (case hdrs of
        None \<Rightarrow> []
      | Some m \<Rightarrow> concat (map (\<lambda>key.
          (let v = the (fmlookup m key) in
           case RenderGoTemplate lib v dummy_httpPathPrefix of
             Inl e \<Rightarrow> [FieldInvalid (path @ [Key key]) (BadString v) e]
           | Inr _ \<Rightarrow> [])) (rng m)))"

definition validateRequestHeaders :: "validation_lib \<Rightarrow> range_fn \<Rightarrow> WorkspaceKind \<Rightarrow> field_error list" where
  "validateRequestHeaders lib rng k =
     concat (map (\<lambda>(i, port).
       (case wkp_HTTPProxy port of
          None \<Rightarrow> []
        | Some proxy \<Rightarrow>
            (case hp_RequestHeaders proxy of
               None \<Rightarrow> []
             | Some hdrs \<Rightarrow>
                 (let path = spec_podTemplate @
                     [Child ''ports'', Index i, Child ''httpProxy'', Child ''requestHeaders''] in
                  validate_header_map lib rng (path @ [Child ''set'']) (hdr_Set hdrs)
                  @ validate_header_map lib rng (path @ [Child ''add'']) (hdr_Add hdrs)))))
       (enumerate 0 (wk_Ports k)))"

definition filter_rule_has_effect :: "FilterRuleEffect \<Rightarrow> bool" where
  "filter_rule_has_effect eff \<longleftrightarrow>
     (case fre_UI eff of None \<Rightarrow> False | Some ui \<Rightarrow> feu_Hide ui) \<or>
     (case fre_API eff of None \<Rightarrow> False
      | Some api \<Rightarrow> fea_Hide api = Some True \<or> fea_Deny api = Some True)"

definition only_option_scopes :: "string \<Rightarrow> string" where
  "only_option_scopes name =
     [CHR 0x27] @ name @ [CHR 0x27] @ '' is only valid when 'scope' is 'POD_CONFIG' or 'IMAGE_CONFIG'' @ [CHR 0x27]"

definition validate_filter_match :: "validation_lib \<Rightarrow> FilterRuleScope \<Rightarrow> field_path \<Rightarrow> FilterRuleMatch \<Rightarrow> field_error list" where
  "validate_filter_match lib scope path m =
     (case frm_MatchNamespace m of
        None \<Rightarrow> []
      | Some s \<Rightarrow> ValidateLabelSelector lib s (path @ [Child ''matchNamespace'', Child ''selector'']))
     @ (case frm_MatchImageConfig m of
          None \<Rightarrow> []
        | Some s \<Rightarrow>
            (if scope = FilterRuleScopeWorkspaceKind
             then [FieldInvalid (path @ [Child ''matchImageConfig'']) (BadString [])
                     (only_option_scopes ''matchImageConfig'')]
             else [])
            @ ValidateLabelSelector lib s (path @ [Child ''matchImageConfig'', Child ''selector'']))
     @ (case frm_MatchPodConfig m of
          None \<Rightarrow> []
        | Some s \<Rightarrow>
            (if scope = FilterRuleScopeWorkspaceKind
             then [FieldInvalid (path @ [Child ''matchPodConfig'']) (BadString [])
                     (only_option_scopes ''matchPodConfig'')]
             else [])
            @ ValidateLabelSelector lib s (path @ [Child ''matchPodConfig'', Child ''selector'']))"

definition validateFilterRules :: "validation_lib \<Rightarrow> WorkspaceKind \<Rightarrow> field_error list" where
  "validateFilterRules lib k =
     concat (map (\<lambda>(i, rule).
       (let rulePath = [Child ''spec'', Child ''filterRules'', Index i] in
        (if filter_rule_has_effect (fr_Effect rule) then []
         else [FieldInvalid (rulePath @ [Child ''effect'']) (BadString [])
                 ''must specify at least one effect: one of 'ui.hide', 'api.hide', or 'api.deny' must be true''])
        @ concat (map (\<lambda>(j, m). validate_filter_match lib (fr_Scope rule)
                          (rulePath @ [Child ''match'', Index j]) m)
                    (enumerate 0 (fr_Match rule)))))
       (enumerate 0 (ks_FilterRules (wk_Spec k))))"

section \<open>Options\<close>

definition validateDefaultImageConfig :: "WorkspaceKind \<Rightarrow> (string \<rightharpoonup> ImageConfigValue) \<Rightarrow> field_error list" where
  "validateDefaultImageConfig k imageConfigValueMap =
     (let d = osc_Default (icfg_Spawner (opt_ImageConfig (kpt_Options (wk_PodTemplate k)))) in
      if imageConfigValueMap d = None
      then [FieldInvalid (spec_podTemplate @ [Child ''options'', Child ''imageConfig'', Child ''spawner'', Child ''default''])
              (BadString d) (''default imageConfig '' @ go_quote d @ '' not found'')]
      else [])"

definition validateDefaultPodConfig :: "WorkspaceKind \<Rightarrow> (string \<rightharpoonup> PodConfigValue) \<Rightarrow> field_error list" where
  "validateDefaultPodConfig k podConfigValueMap =
     (let d = osc_Default (pcfg_Spawner (opt_PodConfig (kpt_Options (wk_PodTemplate k)))) in
      if podConfigValueMap d = None
      then [FieldInvalid (spec_podTemplate @ [Child ''options'', Child ''podConfig'', Child ''spawner'', Child ''default''])
              (BadString d) (''default podConfig '' @ go_quote d @ '' not found'')]
      else [])"

text \<open>The loop over the ports of an imageConfig value, with the port numbers seen so far.\<close>

fun validate_ports ::
    "field_path \<Rightarrow> (PortId \<rightharpoonup> WorkspaceKindPort) \<Rightarrow> int set \<Rightarrow> ImagePort list \<Rightarrow> field_error list" where
  "validate_ports path portsIdMap seenPorts [] = []"
| "validate_ports path portsIdMap seenPorts (port # ports) =
     (if ip_Port port \<in> seenPorts
      then [FieldInvalid (path @ [Child ''spec'', Child ''ports'', Key (ip_Id port), Child ''port''])
              (BadInt (ip_Port port))
              (''port '' @ int_dec (ip_Port port) @ '' is defined more than once'')]
      else [])
     @ (if portsIdMap (ip_Id port) = None
        then [FieldInvalid (path @ [Child ''spec'', Child ''ports'', Key (ip_Id port), Child ''id''])
                (BadString (ip_Id port)) ''missing from spec.podTemplate.ports'']
        else [])
     @ validate_ports path portsIdMap (insert (ip_Port port) seenPorts) ports"

definition validateImageConfigValue ::
    "ImageConfigValue \<Rightarrow> field_path \<Rightarrow> (PortId \<rightharpoonup> WorkspaceKindPort) \<Rightarrow> field_error list" where
  "validateImageConfigValue v path portsIdMap =
     validate_ports path portsIdMap {} (ics_Ports (ic_Spec v))"

text \<open>The field errors for the redirects, as the two \<open>validate...Redirects\<close> functions word them.\<close>

definition go_slice :: "string list \<Rightarrow> string" where
  "go_slice xs = ''['' @ join '' '' xs @ '']''"

fun redirect_field_error :: "string \<Rightarrow> redirect_field_error \<Rightarrow> field_error" where
  "redirect_field_error opt (RedirectCycle i t cycle) =
     FieldInvalid (spec_podTemplate @ [Child ''options'', Child opt, Child ''values'', Key i, Child ''redirect'', Child ''to''])
       (BadString t) (opt @ '' redirect cycle detected: '' @ go_slice cycle)"
| "redirect_field_error opt (RedirectTargetMissing i t) =
     FieldInvalid (spec_podTemplate @ [Child ''options'', Child opt, Child ''values'', Key i, Child ''redirect'', Child ''to''])
       (BadString t) (''target '' @ opt @ '' '' @ go_quote t @ '' does not exist'')"

section \<open>Activity probe and activity rules\<close>

definition blank :: "char \<Rightarrow> bool" where
  "blank c \<longleftrightarrow> c = CHR '' '' \<or> c = CHR 0x09"

text \<open>
  \<open>shebangRegex\<close>: after the marker and optional blanks, a non-empty interpreter, then
  the end of the line or blanks followed by at least one character. A line never
  contains a line break here.
\<close>

definition shebang_matches :: "string \<Rightarrow> bool" where
  "shebang_matches line \<longleftrightarrow>
     has_prefix line ''#!'' \<and>
     (let rest = dropWhile blank (drop 2 line);
          tail = dropWhile (\<lambda>c. \<not> blank c) rest
      in rest \<noteq> [] \<and> (tail = [] \<or> 2 \<le> length tail))"

definition first_line :: "string \<Rightarrow> string" where
  "first_line script = takeWhile (\<lambda>c. c \<noteq> CHR 0x0D \<and> c \<noteq> CHR 0x0A) script"

definition validateActivityProbe ::
    "ActivityProbe option \<Rightarrow> field_path \<Rightarrow> (PortId \<rightharpoonup> WorkspaceKindPort) \<Rightarrow> field_error list" where
  "validateActivityProbe probe path portsIdMap =
     (case probe of
        None \<Rightarrow> []
      | Some ap \<Rightarrow>
          (case ap_PodExec ap of
             None \<Rightarrow> []
           | Some pe \<Rightarrow>
               (let script = pe_Script pe; line = first_line script in
                if \<not> shebang_matches line
                then [FieldInvalid (path @ [Child ''podExec'', Child ''script'']) (BadString script)
                        ''script shebang is invalid (e.g., '#!/bin/bash')'']
                else if length line > 255
                then [FieldInvalid (path @ [Child ''podExec'', Child ''script'']) (BadString script)
                        ''shebang line exceeds the 255 character limit'']
                else []))
          @ (case ap_Jupyter ap of
               None \<Rightarrow> []
             | Some ju \<Rightarrow>
                 if portsIdMap (ju_PortId ju) = None
                 then [FieldInvalid (path @ [Child ''jupyter'', Child ''portId'']) (BadString (ju_PortId ju))
                         ''must reference a valid port defined in spec.podTemplate.ports'']
                 else []))"

definition isMatchEmpty :: "ActivityRuleMatch option \<Rightarrow> bool" where
  "isMatchEmpty m =
     (case m of None \<Rightarrow> True | Some mm \<Rightarrow> arm_MatchNamespace mm = None \<and> arm_MatchPodConfig mm = None)"

definition validate_rule_selectors :: "validation_lib \<Rightarrow> field_path \<Rightarrow> ActivityRuleMatch option \<Rightarrow> field_error list" where
  "validate_rule_selectors lib matchPath m =
     (case m of
        None \<Rightarrow> []
      | Some mm \<Rightarrow>
          (case arm_MatchNamespace mm of
             None \<Rightarrow> []
           | Some s \<Rightarrow> ValidateLabelSelector lib s (matchPath @ [Child ''matchNamespace'', Child ''selector'']))
          @ (case arm_MatchPodConfig mm of
               None \<Rightarrow> []
             | Some s \<Rightarrow> ValidateLabelSelector lib s (matchPath @ [Child ''matchPodConfig'', Child ''selector''])))"

text \<open>
  The state of the loop over the rules: whether a rule that pauses was seen
  (\<open>hasPauseWorkspaceRule\<close>) and whether a catch-all was (\<open>hasCatchAllPauseWorkspace\<close>).
\<close>

fun validate_activity_rules_loop ::
    "validation_lib \<Rightarrow> int \<Rightarrow> nat \<Rightarrow> bool \<Rightarrow> bool \<Rightarrow> ActivityRule list \<Rightarrow>
     field_error list \<times> string list \<times> bool" where
  "validate_activity_rules_loop lib interval i hasPause hasCatchAll [] = ([], [], hasPause)"
| "validate_activity_rules_loop lib interval i hasPause hasCatchAll (rule # rules) =
     (let rulePath = [Child ''spec'', Child ''activityRules'', Index i];
          matchPath = rulePath @ [Child ''match''];
          eff = are_PauseWorkspace (ar_Effect rule);
          isEmpty = isMatchEmpty (ar_Match rule);
          catchAll = eff \<noteq> None \<and> isEmpty;
          later = (\<exists>r \<in> set rules. are_PauseWorkspace (ar_Effect r) \<noteq> None);
          errs = validate_rule_selectors lib matchPath (ar_Match rule)
            @ (if catchAll \<and> hasCatchAll
               then [FieldInvalid matchPath (BadMatch (ar_Match rule))
                       ''at most one catch-all (empty match) rule is allowed for pauseWorkspace effect'']
               else [])
            @ (if catchAll \<and> later
               then [FieldInvalid matchPath (BadMatch (ar_Match rule))
                       ''catch-all (empty match) rule must be the last rule configuring the pauseWorkspace effect'']
               else []);
          seconds = arc_SecondsSinceActive (ar_Config rule);
          warnings =
            (if eff = Some True \<and> seconds < 2 * interval
             then [''spec.activityRules['' @ nat_dec i @ ''].config.secondsSinceActive ('' @ int_dec seconds
                   @ '') is less than twice the probeIntervalSeconds ('' @ int_dec interval
                   @ ''). This may cause Workspaces to be paused too quickly or prematurely.'']
             else []);
          (errs', warnings', hasPause') =
            validate_activity_rules_loop lib interval (Suc i) (hasPause \<or> eff = Some True)
              (hasCatchAll \<or> catchAll) rules
      in (errs @ errs', warnings @ warnings', hasPause'))"

definition probe_interval :: "WorkspaceKind \<Rightarrow> int" where
  "probe_interval k =
     (case kpt_ActivityProbe (wk_PodTemplate k) of
        None \<Rightarrow> DefaultProbeIntervalSeconds
      | Some ap \<Rightarrow> (case ap_ProbeIntervalSeconds ap of None \<Rightarrow> DefaultProbeIntervalSeconds | Some s \<Rightarrow> s))"

definition validateActivityRules :: "validation_lib \<Rightarrow> WorkspaceKind \<Rightarrow> field_error list \<times> string list" where
  "validateActivityRules lib k =
     (let rules = ks_ActivityRules (wk_Spec k) in
      if rules = [] then ([], [])
      else (case validate_activity_rules_loop lib (probe_interval k) 0 False False rules of
              (errs, warnings, hasPause) \<Rightarrow>
                (errs @ (if hasPause \<and> kpt_ActivityProbe (wk_PodTemplate k) = None
                         then [FieldRequired (spec_podTemplate @ [Child ''activityProbe''])
                                 ''activityProbe must be configured when activityRules with pauseWorkspace effect exist'']
                         else []),
                 warnings)))"

section \<open>Create\<close>

definition imageConfig_values_path :: "string \<Rightarrow> field_path" where
  "imageConfig_values_path i = spec_podTemplate @ [Child ''options'', Child ''imageConfig'', Child ''values'', Key i]"

definition podConfig_values_path :: "string \<Rightarrow> field_path" where
  "podConfig_values_path i = spec_podTemplate @ [Child ''options'', Child ''podConfig'', Child ''values'', Key i]"

abbreviation image_redirects :: "WorkspaceKind \<Rightarrow> (string \<rightharpoonup> string)" where
  "image_redirects k \<equiv> redirect_map ic_Id ic_Redirect (wk_ImageConfigValues k)"

abbreviation pod_redirects :: "WorkspaceKind \<Rightarrow> (string \<rightharpoonup> string)" where
  "pod_redirects k \<equiv> redirect_map pc_Id pc_Redirect (wk_PodConfigValues k)"

definition validate_image_values ::
    "WorkspaceKind \<Rightarrow> (PortId \<rightharpoonup> WorkspaceKindPort) \<Rightarrow> string list \<Rightarrow> field_error list" where
  "validate_image_values k portsIdMap ids =
     concat (map (\<lambda>i. case map_by ic_Id (wk_ImageConfigValues k) i of
                        None \<Rightarrow> []
                      | Some v \<Rightarrow> validateImageConfigValue v (imageConfig_values_path i) portsIdMap) ids)"

definition image_redirect_errors :: "key_order_fn \<Rightarrow> WorkspaceKind \<Rightarrow> field_error list" where
  "image_redirect_errors kord k =
     map (redirect_field_error ''imageConfig'')
       (validateImageConfigRedirects (wk_ImageConfigValues k) (map_entries kord (image_redirects k)))"

definition pod_redirect_errors :: "key_order_fn \<Rightarrow> WorkspaceKind \<Rightarrow> field_error list" where
  "pod_redirect_errors kord k =
     map (redirect_field_error ''podConfig'')
       (validatePodConfigRedirects (wk_PodConfigValues k) (map_entries kord (pod_redirects k)))"

definition activity_probe_path :: field_path where
  "activity_probe_path = spec_podTemplate @ [Child ''activityProbe'']"

definition Kind_ValidateCreate :: "validation_lib \<Rightarrow> range_fn \<Rightarrow> key_order_fn \<Rightarrow> WorkspaceKind \<Rightarrow> admission" where
  "Kind_ValidateCreate lib rng kord k =
     (let icMap = map_by ic_Id (wk_ImageConfigValues k);
          pcMap = map_by pc_Id (wk_PodConfigValues k);
          portsIdMap = map_by wkp_Id (wk_Ports k);
          (ruleErrs, ruleWarnings) = validateActivityRules lib k
      in admission_result ruleWarnings (wk_Name k)
        (validatePodTemplatePodMetadata lib k
         @ validatePodTemplateStatefulSetMetadata lib k
         @ validateExtraEnv lib k
         @ validateRequestHeaders lib rng k
         @ validateFilterRules lib k
         @ validateActivityProbe (kpt_ActivityProbe (wk_PodTemplate k)) activity_probe_path portsIdMap
         @ validateDefaultImageConfig k icMap
         @ validateDefaultPodConfig k pcMap
         @ validate_image_values k portsIdMap (kord (dom icMap))
         @ image_redirect_errors kord k
         @ pod_redirect_errors kord k
         @ ruleErrs))"

section \<open>Usage counts\<close>

text \<open>
  \<open>v.List\<close> with the field selector on the kind name, across all namespaces, is the
  argument \<open>listByKind\<close>: an error or the Workspaces of that kind. The lazy functions
  query it at most once, so they are functions of its one answer.
\<close>

type_synonym kind_lister = "string \<Rightarrow> string + Workspace list"

definition getOptionsUsageCounts ::
    "kind_lister \<Rightarrow> WorkspaceKind \<Rightarrow> string + (string \<rightharpoonup> int) \<times> (string \<rightharpoonup> int)" where
  "getOptionsUsageCounts listByKind k =
     (case listByKind (wk_Name k) of
        Inl e \<Rightarrow> Inl e
      | Inr wss \<Rightarrow>
          Inr (usage_counts (map ic_Id (wk_ImageConfigValues k)) (map (\<lambda>w. po_ImageConfig (ws_Options w)) wss),
               usage_counts (map pc_Id (wk_PodConfigValues k)) (map (\<lambda>w. po_PodConfig (ws_Options w)) wss)))"

definition getImageConfigUsageCount :: "kind_lister \<Rightarrow> WorkspaceKind \<Rightarrow> string \<Rightarrow> string + int" where
  "getImageConfigUsageCount listByKind k i =
     (case getOptionsUsageCounts listByKind k of
        Inl e \<Rightarrow> Inl e
      | Inr (counts, _) \<Rightarrow> (case counts i of None \<Rightarrow> Inl ''unknown imageConfig id'' | Some n \<Rightarrow> Inr n))"

definition getPodConfigUsageCount :: "kind_lister \<Rightarrow> WorkspaceKind \<Rightarrow> string \<Rightarrow> string + int" where
  "getPodConfigUsageCount listByKind k i =
     (case getOptionsUsageCounts listByKind k of
        Inl e \<Rightarrow> Inl e
      | Inr (_, counts) \<Rightarrow> (case counts i of None \<Rightarrow> Inl ''unknown podConfig id'' | Some n \<Rightarrow> Inr n))"

section \<open>Update\<close>

text \<open>
  The loops that compare the old and the new option values, for one kind of option
  (\<open>opt\<close> is its name in messages). The first runs over the new values; its state is
  whether the redirects need validation, the ids to validate and the ids changed while
  in use. The second runs over the old ids and collects the ids removed while in use.
  A failing usage count ends the request.
\<close>

definition usage_failure :: "string \<Rightarrow> string \<Rightarrow> string \<Rightarrow> admission_error" where
  "usage_failure opt i e =
     AdmissionInternal (''failed to get usage count for '' @ opt @ '' with id '' @ go_quote i @ '': '' @ e)"

fun new_values_loop ::
    "string \<Rightarrow> ('v \<Rightarrow> string) \<Rightarrow> ('v \<Rightarrow> OptionRedirect option) \<Rightarrow> ('v \<Rightarrow> 's) \<Rightarrow> (string \<Rightarrow> string + int)
     \<Rightarrow> (string \<rightharpoonup> 'v) \<Rightarrow> bool \<Rightarrow> 'v list \<Rightarrow> bool \<times> string set \<times> string set
     \<Rightarrow> admission_error + bool \<times> string set \<times> string set" where
  "new_values_loop opt idf redf specf usage oldMap validateAll [] (redirs, toValidate, badChanged) =
     Inr (redirs, toValidate, badChanged)"
| "new_values_loop opt idf redf specf usage oldMap validateAll (v # vs) (redirs, toValidate, badChanged) =
     (let toValidate' = (if validateAll then insert (idf v) toValidate else toValidate) in
      case oldMap (idf v) of
        None \<Rightarrow> new_values_loop opt idf redf specf usage oldMap validateAll vs
                  (True, insert (idf v) toValidate', badChanged)
      | Some old \<Rightarrow>
          (let redirs' = (redirs \<or> redf old \<noteq> redf v) in
           if specf old \<noteq> specf v then
             (case usage (idf v) of
                Inl e \<Rightarrow> Inl (usage_failure opt (idf v) e)
              | Inr n \<Rightarrow> new_values_loop opt idf redf specf usage oldMap validateAll vs
                           (redirs', insert (idf v) toValidate',
                            if n > 0 then insert (idf v) badChanged else badChanged))
           else new_values_loop opt idf redf specf usage oldMap validateAll vs
                  (redirs', toValidate', badChanged)))"

fun removed_values_loop ::
    "string \<Rightarrow> (string \<Rightarrow> string + int) \<Rightarrow> string set \<Rightarrow> string list \<Rightarrow> bool \<times> string set
     \<Rightarrow> admission_error + bool \<times> string set" where
  "removed_values_loop opt usage newIds [] (redirs, badRemoved) = Inr (redirs, badRemoved)"
| "removed_values_loop opt usage newIds (i # is) (redirs, badRemoved) =
     (if i \<in> newIds then removed_values_loop opt usage newIds is (redirs, badRemoved)
      else (case usage i of
              Inl e \<Rightarrow> Inl (usage_failure opt i e)
            | Inr n \<Rightarrow> removed_values_loop opt usage newIds is
                         (True, if n > 0 then insert i badRemoved else badRemoved)))"

definition option_changes ::
    "string \<Rightarrow> ('v \<Rightarrow> string) \<Rightarrow> ('v \<Rightarrow> OptionRedirect option) \<Rightarrow> ('v \<Rightarrow> 's) \<Rightarrow> (string \<Rightarrow> string + int)
     \<Rightarrow> key_order_fn \<Rightarrow> bool \<Rightarrow> 'v list \<Rightarrow> 'v list
     \<Rightarrow> admission_error + bool \<times> string set \<times> string set \<times> string set" where
  "option_changes opt idf redf specf usage kord validateAll oldVals newVals =
     (case new_values_loop opt idf redf specf usage (map_by idf oldVals) validateAll newVals (False, {}, {}) of
        Inl e \<Rightarrow> Inl e
      | Inr (redirs, toValidate, badChanged) \<Rightarrow>
          (case removed_values_loop opt usage (idf ` set newVals) (kord (idf ` set oldVals)) (redirs, {}) of
             Inl e \<Rightarrow> Inl e
           | Inr (redirs', badRemoved) \<Rightarrow> Inr (redirs', toValidate, badChanged, badRemoved)))"

definition in_use_errors :: "(string \<Rightarrow> field_path) \<Rightarrow> string \<Rightarrow> string \<Rightarrow> string list \<Rightarrow> field_error list" where
  "in_use_errors path opt what ids =
     map (\<lambda>i. FieldInvalid (path i) (BadString i)
                (opt @ '' value '' @ go_quote i @ '' is in use and cannot be '' @ what)) ids"

definition Kind_ValidateUpdate ::
    "validation_lib \<Rightarrow> range_fn \<Rightarrow> key_order_fn \<Rightarrow> kind_lister \<Rightarrow> WorkspaceKind \<Rightarrow> WorkspaceKind \<Rightarrow> admission" where
  "Kind_ValidateUpdate lib rng kord listByKind oldK newK =
     (let oldT = wk_PodTemplate oldK; newT = wk_PodTemplate newK;
          portsChanged = (kpt_Ports newT \<noteq> kpt_Ports oldT);
          probeChanged = (kpt_ActivityProbe newT \<noteq> kpt_ActivityProbe oldT);
          portsIdMap = map_by wkp_Id (wk_Ports newK);
          (ruleErrs, warnings) =
            (if ks_ActivityRules (wk_Spec newK) \<noteq> ks_ActivityRules (wk_Spec oldK) \<or> probeChanged
             then validateActivityRules lib newK else ([], []));
          errs1 =
            (if kpt_PodMetadata newT \<noteq> kpt_PodMetadata oldT then validatePodTemplatePodMetadata lib newK else [])
            @ (if kpt_StatefulSetMetadata newT \<noteq> kpt_StatefulSetMetadata oldT
               then validatePodTemplateStatefulSetMetadata lib newK else [])
            @ (if kpt_ExtraEnv newT \<noteq> kpt_ExtraEnv oldT then validateExtraEnv lib newK else [])
            @ (if portsChanged then validateRequestHeaders lib rng newK else [])
            @ (if ks_FilterRules (wk_Spec newK) \<noteq> ks_FilterRules (wk_Spec oldK)
               then validateFilterRules lib newK else [])
            @ (if portsChanged \<or> probeChanged
               then validateActivityProbe (kpt_ActivityProbe newT) activity_probe_path portsIdMap else [])
            @ ruleErrs
      in case option_changes ''imageConfig'' ic_Id ic_Redirect ic_Spec (getImageConfigUsageCount listByKind oldK)
                kord portsChanged (wk_ImageConfigValues oldK) (wk_ImageConfigValues newK) of
           Inl e \<Rightarrow> ([], Some e)
         | Inr (icRedirs, icToValidate, icBadChanged, icBadRemoved) \<Rightarrow>
             (case option_changes ''podConfig'' pc_Id pc_Redirect pc_Spec (getPodConfigUsageCount listByKind oldK)
                     kord False (wk_PodConfigValues oldK) (wk_PodConfigValues newK) of
                Inl e \<Rightarrow> ([], Some e)
              | Inr (pcRedirs, _, pcBadChanged, pcBadRemoved) \<Rightarrow>
                  admission_result warnings (wk_Name newK)
                    (errs1
                     @ validateDefaultImageConfig newK (map_by ic_Id (wk_ImageConfigValues newK))
                     @ validateDefaultPodConfig newK (map_by pc_Id (wk_PodConfigValues newK))
                     @ validate_image_values newK portsIdMap (kord icToValidate)
                     @ in_use_errors imageConfig_values_path ''imageConfig'' ''changed'' (kord icBadChanged)
                     @ in_use_errors imageConfig_values_path ''imageConfig'' ''removed'' (kord icBadRemoved)
                     @ in_use_errors podConfig_values_path ''podConfig'' ''changed'' (kord pcBadChanged)
                     @ in_use_errors podConfig_values_path ''podConfig'' ''removed'' (kord pcBadRemoved)
                     @ (if icRedirs then image_redirect_errors kord newK else [])
                     @ (if pcRedirs then pod_redirect_errors kord newK else []))))"

section \<open>Delete\<close>

definition WorkspaceKindFinalizer :: string where
  "WorkspaceKindFinalizer = ''notebooks.kubeflow.org/workspacekind-protection''"

definition Kind_ValidateDelete :: "WorkspaceKind \<Rightarrow> admission" where
  "Kind_ValidateDelete k =
     (if kst_Workspaces (wk_Status k) > 0
      then ([], Some (AdmissionConflict
             (''WorkspaceKind is used by '' @ int_dec (kst_Workspaces (wk_Status k)) @ '' workspace(s)'')))
      else if WorkspaceKindFinalizer \<in> set (om_Finalizers (wk_Meta k))
      then ([], Some (AdmissionConflict
             ''WorkspaceKind has protection finalizer, indicating one or more workspaces are still using it''))
      else ([], None))"

end
