(* ===== verification/Cluster_Objects.thy ===== *)
theory Cluster_Objects
  imports Api_Types
begin

text \<open>
  The Kubernetes objects the controller reads back from the cluster, with the fields it reads:
  Pods with their conditions and container states, Events, and the result type of a reconcile
  (\<open>ctrl.Result\<close>). Instants (\<open>time.Time\<close>) are nanoseconds since the epoch.
\<close>

record ctrl_result =
  Requeue :: bool
  RequeueAfter :: int

definition no_requeue :: ctrl_result where
  "no_requeue = \<lparr>Requeue = False, RequeueAfter = 0\<rparr>"

definition requeue_after :: "int \<Rightarrow> ctrl_result" where
  "requeue_after d = \<lparr>Requeue = False, RequeueAfter = d\<rparr>"

lemma ctrl_result_simps [simp]:
  "RequeueAfter no_requeue = 0" "RequeueAfter (requeue_after d) = d"
  "Requeue no_requeue = False" "Requeue (requeue_after d) = False"
  by (simp_all add: no_requeue_def requeue_after_def)

record PodCondition =
  cond_Type :: string
  cond_Status :: string
  cond_Reason :: string
  cond_Message :: string

text \<open>Of \<open>ContainerStatus.State\<close> only \<open>Waiting.Reason\<close> is read.\<close>

record ContainerStatus =
  cs_Name :: string
  cs_Waiting :: "string option"

record Pod =
  pod_Meta :: ObjectMeta
  pod_NodeName :: string
  pod_Containers :: "string list"
  pod_InitContainers :: "string list"
  pod_Phase :: string
  pod_PodIP :: string
  pod_Conditions :: "PodCondition list"
  pod_ContainerStatuses :: "ContainerStatus list"

record Event =
  ev_Type :: string
  ev_Message :: string
  ev_LastTimestamp :: int

text \<open>
  Errors of the API server, with the cases \<open>apierrors.IsNotFound\<close>,
  \<open>IsConflict\<close> and \<open>IsAlreadyExists\<close> tell apart.
\<close>

datatype api_error = NotFound string | Conflict string | AlreadyExists string | OtherError string

fun api_error_text :: "api_error \<Rightarrow> string" where
  "api_error_text (NotFound m) = m"
| "api_error_text (Conflict m) = m"
| "api_error_text (AlreadyExists m) = m"
| "api_error_text (OtherError m) = m"

text \<open>\<open>UnixMilli\<close> of an instant.\<close>

definition UnixMilli :: "int \<Rightarrow> int" where
  "UnixMilli t = wrap64 (t div 1000000)"

lemma UnixMilli_mono_small:
  assumes "0 \<le> t" and "t \<le> u" and "u \<le> 9000000000000000000"
  shows "UnixMilli t \<le> UnixMilli u"
proof -
  have "t div 1000000 \<le> u div 1000000" using assms(2) by (simp add: zdiv_mono1)
  moreover have "0 \<le> t div 1000000" "u div 1000000 \<le> 9000000000000" using assms by linarith+
  ultimately show ?thesis by (simp add: UnixMilli_def is_int64_def)
qed

end
