(* ===== verification/Names.thy ===== *)
theory Names
  imports Api_Types
begin

text \<open>
  Names and paths of the objects the Workspace controller creates,
  \<open>controller/internal/controller/workspace_controller.go\<close>. The digest function
  \<open>sha256.Sum256\<close> is an argument: a function from byte strings to byte strings, of which
  only the length of its result (32 bytes) is used.

  The lemmas bound every name by the limit Kubernetes puts on its kind of object, show that a
  RoleBinding name determines its Workspace and ClusterRole as long as the truncated digest
  does not collide, and characterise exactly which Workspaces share the cluster-wide names
  that are plain joins.
\<close>

section \<open>Constants\<close>

definition generateNameSuffixLength :: int where "generateNameSuffixLength = 6"
definition nameHashLength :: nat where "nameHashLength = 8"
definition maxServiceNameLength :: int where "maxServiceNameLength = 63"
definition maxStatefulSetNameLength :: int where "maxStatefulSetNameLength = 52"
definition maxServiceAccountNameLength :: nat where "maxServiceAccountNameLength = 253"
definition maxRoleBindingNameLength :: nat where "maxRoleBindingNameLength = 253"

lemmas name_consts = generateNameSuffixLength_def nameHashLength_def maxServiceNameLength_def
  maxStatefulSetNameLength_def maxServiceAccountNameLength_def maxRoleBindingNameLength_def

section \<open>Operations\<close>

definition getWorkspaceConnectPath :: "string \<Rightarrow> string \<Rightarrow> PortId \<Rightarrow> string" where
  "getWorkspaceConnectPath namespace workspaceName portId =
     ''/workspace/connect/'' @ namespace @ ''/'' @ workspaceName @ ''/'' @ portId @ ''/''"

text \<open>
  Slicing \<open>s[:n]\<close> panics when \<open>n\<close> is negative or beyond the length; the trailing
  character of an empty string is out of range too. \<^const>\<open>None\<close> is the panic.
\<close>

definition slice_to :: "string \<Rightarrow> int \<Rightarrow> string option" where
  "slice_to s n = (if 0 \<le> n \<and> n \<le> int (length s) then Some (take (nat n) s) else None)"

definition add_trailing_dash :: "string \<Rightarrow> string option" where
  "add_trailing_dash s =
     (if s = [] then None else if last s \<noteq> CHR ''-'' then Some (s @ ''-'') else Some s)"

definition generateNamePrefix :: "string \<Rightarrow> int \<Rightarrow> string option" where
  "generateNamePrefix workspaceName maxLength =
     (let namePrefix = ''ws-'' @ workspaceName;
          maxLength = maxLength - generateNameSuffixLength - 1
      in Option.bind
           (if maxLength < int (length namePrefix)
            then slice_to namePrefix (min (int (length namePrefix)) maxLength)
            else Some namePrefix)
           add_trailing_dash)"

definition generateWorkspaceSuffixedName :: "string \<Rightarrow> string \<Rightarrow> string" where
  "generateWorkspaceSuffixedName workspaceName suffix =
     (let name = ''ws-'' @ workspaceName @ suffix
      in if int (length name) \<le> maxServiceNameLength then name
         else let maxWorkspaceNameLen = max 1 (maxServiceNameLength - 3 - int (length suffix));
                  workspaceName' = (if maxWorkspaceNameLen < int (length workspaceName)
                                    then take (nat maxWorkspaceNameLen) workspaceName
                                    else workspaceName)
              in ''ws-'' @ workspaceName' @ suffix)"

definition hex_encode :: "string \<Rightarrow> string" where
  "hex_encode s =
     concat (map (\<lambda>c. let n = (of_char c :: nat) in [hex_digit (n div 16), hex_digit (n mod 16)]) s)"

type_synonym sha256_fn = "string \<Rightarrow> string"

definition hashName :: "sha256_fn \<Rightarrow> string list \<Rightarrow> string" where
  "hashName sha256 parts = take nameHashLength (hex_encode (sha256 (join ''/'' parts)))"

definition generateServiceAccountName :: "sha256_fn \<Rightarrow> string \<Rightarrow> string" where
  "generateServiceAccountName sha256 workspaceName =
     (let name = ''ws-'' @ workspaceName
      in if length name \<le> maxServiceAccountNameLength then name
         else let suffix = hashName sha256 [workspaceName]
              in take (maxServiceAccountNameLength - length suffix - 1) name @ ''-'' @ suffix)"

definition generateRoleBindingName :: "sha256_fn \<Rightarrow> string \<Rightarrow> string \<Rightarrow> string" where
  "generateRoleBindingName sha256 workspaceName clusterRoleName =
     (let suffix = hashName sha256 [workspaceName, clusterRoleName];
          prefix = ''ws-'' @ workspaceName;
          maxPrefixLength = maxRoleBindingNameLength - length suffix - 1;
          prefix' = (if maxPrefixLength < length prefix then take maxPrefixLength prefix else prefix)
      in prefix' @ ''-'' @ suffix)"

text \<open>
  The two names that are not namespaced: the HTTPRoute of a Workspace in the controller's
  namespace, and its ClusterRoleBinding.
\<close>

definition httpRouteName :: "string \<Rightarrow> string \<Rightarrow> string" where
  "httpRouteName namespace name = ''ws-'' @ namespace @ ''-'' @ name"

definition clusterRoleBindingName :: "string \<Rightarrow> string \<Rightarrow> string" where
  "clusterRoleBindingName namespace name = ''ws-'' @ name @ ''-rbac-'' @ namespace @ ''-auth-delegator''"

section \<open>Lengths\<close>

definition sha256_ok :: "sha256_fn \<Rightarrow> bool" where
  "sha256_ok sha256 \<longleftrightarrow> (\<forall>s. length (sha256 s) = 32)"

lemma length_hex_encode [len_bounds]: "length (hex_encode s) = 2 * length s"
  by (induction s) (auto simp: hex_encode_def Let_def)

lemma length_hashName [len_bounds]: "sha256_ok sha256 \<Longrightarrow> length (hashName sha256 parts) = 8"
  by (simp add: hashName_def sha256_ok_def len_bounds name_consts)

lemma length_serviceAccountName:
  "sha256_ok sha256 \<Longrightarrow> length (generateServiceAccountName sha256 w) \<le> 253"
  by (simp add: generateServiceAccountName_def Let_def len_bounds name_consts)

lemma length_roleBindingName:
  "sha256_ok sha256 \<Longrightarrow> length (generateRoleBindingName sha256 w cr) \<le> 253"
  by (simp add: generateRoleBindingName_def Let_def len_bounds name_consts)

lemma length_suffixedName:
  "length suffix \<le> 59 \<Longrightarrow> length (generateWorkspaceSuffixedName w suffix) \<le> 63"
  by (auto simp: generateWorkspaceSuffixedName_def Let_def name_consts)

lemma add_trailing_dash_Some:
  "s \<noteq> [] \<Longrightarrow> \<exists>p. add_trailing_dash s = Some p \<and> last p = CHR ''-'' \<and>
     length p \<le> length s + 1 \<and> take (length s) p = s"
  by (auto simp: add_trailing_dash_def)

text \<open>
  The prefix exists for every limit of at least ten, ends in a dash, keeps the \<open>ws-\<close> and
  leaves room for the five random characters the API server appends.
\<close>

lemma generateNamePrefix_Some:
  assumes "10 \<le> maxLength"
  obtains p where "generateNamePrefix w maxLength = Some p" and "last p = CHR ''-''"
    and "int (length p) \<le> maxLength - 6" and "take 3 p = ''ws-''"
proof -
  define s where "s = (if maxLength - 7 < int (length (''ws-'' @ w))
                       then take (nat (maxLength - 7)) (''ws-'' @ w) else ''ws-'' @ w)"
  have s3: "take 3 s = ''ws-''" and sl: "int (length s) \<le> maxLength - 7" and sn: "s \<noteq> []"
    using assms by (auto simp: s_def min_def nat_le_iff)
  have eq: "generateNamePrefix w maxLength = add_trailing_dash s"
    using assms by (auto simp: generateNamePrefix_def s_def slice_to_def Let_def name_consts)
  from add_trailing_dash_Some [OF sn] obtain p where
    p: "add_trailing_dash s = Some p" "last p = CHR ''-''" "length p \<le> length s + 1"
       "take (length s) p = s" by blast
  have "length s \<ge> 3" using s3 by (metis length_Cons length_take list.size(3) min.cobounded1 numeral_3_eq_3)
  then have "take 3 p = take 3 (take (length s) p)" by (simp add: min_def)
  with p(4) s3 have p3: "take 3 p = ''ws-''" by simp
  have pl: "int (length p) \<le> maxLength - 6" using p(3) sl by simp
  show ?thesis by (rule that) (use eq p p3 pl in simp_all)
qed

section \<open>Uniqueness\<close>

text \<open>
  A Kubernetes name contains no \<open>/\<close>, so the text that is hashed determines the names
  it was joined from.
\<close>

definition path_segment :: "string \<Rightarrow> bool" where
  "path_segment s \<longleftrightarrow> CHR ''/'' \<notin> set s"

lemma split_at_char:
  assumes "c \<notin> set a" and "c \<notin> set a'"
  shows "a @ c # b = a' @ c # b' \<longleftrightarrow> a = a' \<and> b = b'"
  using assms
proof (induction a arbitrary: a')
  case Nil
  then show ?case by (cases a') auto
next
  case (Cons x a)
  then show ?case by (cases a') auto
qed

lemma join_slash_inj:
  assumes "path_segment a" "path_segment b" "path_segment a'" "path_segment b'"
  shows "join ''/'' [a, b] = join ''/'' [a', b'] \<longleftrightarrow> a = a' \<and> b = b'"
  using assms split_at_char [of "CHR ''/''" a a' b b'] by (simp add: path_segment_def)

text \<open>The truncated digest does not collide on the given names.\<close>

definition hash_distinct :: "sha256_fn \<Rightarrow> string list \<Rightarrow> string list \<Rightarrow> bool" where
  "hash_distinct sha256 p q \<longleftrightarrow>
     (join ''/'' p \<noteq> join ''/'' q \<longrightarrow> hashName sha256 p \<noteq> hashName sha256 q)"

lemma roleBindingName_suffix:
  assumes "sha256_ok sha256"
  shows "\<exists>p. generateRoleBindingName sha256 w cr = p @ hashName sha256 [w, cr]"
  by (auto simp: generateRoleBindingName_def Let_def)

text \<open>
  C35. RoleBinding names are unique. Two RoleBindings the controller generates have the same
  name only if they are for the same Workspace and the same ClusterRole, for every pair of
  names on which the eight-digit digest does not collide. The length of the name never
  exceeds the limit of 253.
\<close>

theorem roleBindingName_unique:
  assumes "sha256_ok sha256"
    and "path_segment w" "path_segment cr" "path_segment w'" "path_segment cr'"
    and "hash_distinct sha256 [w, cr] [w', cr']"
  shows "(generateRoleBindingName sha256 w cr = generateRoleBindingName sha256 w' cr'
            \<longleftrightarrow> w = w' \<and> cr = cr')
         \<and> length (generateRoleBindingName sha256 w cr) \<le> 253"
proof -
  have "w = w' \<and> cr = cr'"
    if same: "generateRoleBindingName sha256 w cr = generateRoleBindingName sha256 w' cr'"
  proof -
    obtain p q where "p @ hashName sha256 [w, cr] = q @ hashName sha256 [w', cr']"
      using roleBindingName_suffix [OF assms(1)] same by metis
    then have "hashName sha256 [w, cr] = hashName sha256 [w', cr']"
      using assms(1) by (simp add: len_bounds append_eq_append_conv)
    with assms(6) have "join ''/'' [w, cr] = join ''/'' [w', cr']"
      by (auto simp: hash_distinct_def)
    then show ?thesis using join_slash_inj assms(2-5) by blast
  qed
  then show ?thesis using length_roleBindingName [OF assms(1)] by auto
qed

text \<open>A digest that is good enough for the example: the input, padded to 32 bytes.\<close>

definition pad32 :: sha256_fn where
  "pad32 s = take 32 (s @ replicate 32 CHR ''.'')"

lemma pad32_ok: "sha256_ok pad32"
  by (simp add: sha256_ok_def pad32_def min_def)

theorem roleBindingName_unique_witness:
  "generateRoleBindingName pad32 ''a'' ''b-c'' \<noteq> generateRoleBindingName pad32 ''a-b'' ''c''"
proof -
  have "hash_distinct pad32 [''a'', ''b-c''] [''a-b'', ''c'']"
    by (simp add: hash_distinct_def hashName_def pad32_def hex_encode_def hex_digit_def name_consts)
  then show ?thesis
    using roleBindingName_unique [OF pad32_ok, of "''a''" "''b-c''" "''a-b''" "''c''"]
    by (simp add: path_segment_def)
qed

text \<open>
  The controller's own limits are respected: the prefix of a Service, a VirtualService or
  a StatefulSet exists (the code does not panic) for every Workspace name, with the six
  characters of the random suffix it is within 63, respectively 52 characters, and it ends in
  a dash.
\<close>

lemma generateNamePrefix_bounds:
  "\<exists>p q. generateNamePrefix w maxServiceNameLength = Some p \<and> length p + 5 \<le> 63 \<and> last p = CHR ''-''
       \<and> generateNamePrefix w maxStatefulSetNameLength = Some q \<and> length q + 5 \<le> 52 \<and> last q = CHR ''-''"
proof -
  obtain p where "generateNamePrefix w maxServiceNameLength = Some p" "last p = CHR ''-''"
      "int (length p) \<le> maxServiceNameLength - 6"
    by (rule generateNamePrefix_Some [of maxServiceNameLength w]) (simp_all add: name_consts)
  moreover obtain q where "generateNamePrefix w maxStatefulSetNameLength = Some q" "last q = CHR ''-''"
      "int (length q) \<le> maxStatefulSetNameLength - 6"
    by (rule generateNamePrefix_Some [of maxStatefulSetNameLength w]) (simp_all add: name_consts)
  ultimately show ?thesis by (auto simp: name_consts)
qed

text \<open>
  Connect paths: namespaces, Workspace names and port ids contain no \<open>/\<close>, so a path
  belongs to one port of one Workspace.
\<close>

lemma connectPath_inj:
  assumes "path_segment n" "path_segment w" "path_segment p"
    and "path_segment n'" "path_segment w'" "path_segment p'"
  shows "getWorkspaceConnectPath n w p = getWorkspaceConnectPath n' w' p'
           \<longleftrightarrow> n = n' \<and> w = w' \<and> p = p'"
  using assms by (simp add: getWorkspaceConnectPath_def path_segment_def split_at_char)

text \<open>No connect path is a proper prefix of another, so routes matching by prefix do not overlap.\<close>

lemma connectPath_prefix_free:
  assumes "path_segment n" "path_segment w" "path_segment p"
    and "path_segment n'" "path_segment w'" "path_segment p'"
    and "getWorkspaceConnectPath n' w' p' = getWorkspaceConnectPath n w p @ rest"
  shows "rest = [] \<and> n = n' \<and> w = w' \<and> p = p'"
  using assms by (simp add: getWorkspaceConnectPath_def path_segment_def split_at_char)

text \<open>
  The names that are plain joins: every way to move a dash from one part to the other gives
  the same name.
\<close>

lemma httpRouteName_ambiguous: "httpRouteName (a @ ''-'' @ b) c = httpRouteName a (b @ ''-'' @ c)"
  by (simp add: httpRouteName_def)

lemma clusterRoleBindingName_ambiguous:
  "clusterRoleBindingName ns (a @ ''-rbac-'' @ b) = clusterRoleBindingName (b @ ''-rbac-'' @ ns) a"
  by (simp add: clusterRoleBindingName_def)

lemma httpRouteName_inj_same_namespace: "httpRouteName n a = httpRouteName n b \<longleftrightarrow> a = b"
  by (simp add: httpRouteName_def)

lemma suffixedName_collides:
  assumes "length suffix \<le> 59" and "60 - length suffix \<le> length p"
  shows "generateWorkspaceSuffixedName (p @ ''a'') suffix = generateWorkspaceSuffixedName (p @ ''b'') suffix"
  using assms by (auto simp: generateWorkspaceSuffixedName_def Let_def name_consts)

end
