(* ===== verification/Sample_Objects.thy ===== *)
theory Sample_Objects
  imports Kind_Webhook "HOL-Library.List_Lexorder" "HOL-Library.Char_ord"
begin

text \<open>
  Concrete objects for the witnesses: a WorkspaceKind with two image configs (the older
  one redirects to the newer) and one pod config, a Workspace that uses the older image,
  and concrete functions in place of the library functions the model takes as arguments.
\<close>

definition sample_lib :: validation_lib where
  "sample_lib = \<lparr>
     ValidateLabels = (\<lambda>m p. if [] |\<in>| fmdom m then [FieldInvalid p (BadString []) ''name part must be non-empty''] else []),
     ValidateAnnotations = (\<lambda>m p. if [] |\<in>| fmdom m then [FieldInvalid p (BadString []) ''name part must be non-empty''] else []),
     ValidateLabelSelector = (\<lambda>s p. if s = Opaque [] then [FieldInvalid p NoValue ''invalid selector''] else []),
     TemplateParse = (\<lambda>s. if has_prefix s ''{{ '' \<and> drop 3 s = [] then Inl ''unclosed action'' else Inr (ParsedTemplate s)),
     TemplateExecute = (\<lambda>t f. case t of ParsedTemplate s \<Rightarrow>
        if s = ''{{ httpPathPrefix }}'' then Inr (f ''http'') else Inr s)\<rparr>"

definition sample_keys :: key_order_fn where
  "sample_keys A = sorted_list_of_set A"

definition sample_range :: range_fn where
  "sample_range m = sorted_list_of_set (fmdom' m)"

lemma key_order_sample_keys [simp]: "key_order sample_keys"
  by (simp add: key_order_def sample_keys_def)

lemma range_order_sample_range [simp]: "range_order sample_range"
  by (simp add: range_order_def sample_range_def fmdom'_alt_def)

definition sample_spawner :: "string \<Rightarrow> OptionSpawnerLabel list \<Rightarrow> OptionSpawnerInfo" where
  "sample_spawner name labels =
     \<lparr>osi_DisplayName = name, osi_Description = None, osi_Labels = labels, osi_Hidden = None\<rparr>"

definition sample_image_spec :: "string \<Rightarrow> ImageConfigSpec" where
  "sample_image_spec img =
     \<lparr>ics_Image = img, ics_ImagePullPolicy = None,
      ics_Ports = [\<lparr>ip_Id = ''http'', ip_Port = 8888, ip_DisplayName = None\<rparr>]\<rparr>"

definition image_v1 :: ImageConfigValue where
  "image_v1 = \<lparr>ic_Id = ''v1'', ic_Spawner = sample_spawner ''one'' [],
     ic_Redirect = Some \<lparr>red_To = ''v2'', red_Message = None\<rparr>, ic_Spec = sample_image_spec ''img:1''\<rparr>"

definition image_v2 :: ImageConfigValue where
  "image_v2 = \<lparr>ic_Id = ''v2'', ic_Spawner = sample_spawner ''two'' [],
     ic_Redirect = None, ic_Spec = sample_image_spec ''img:2''\<rparr>"

definition pod_small :: PodConfigValue where
  "pod_small = \<lparr>pc_Id = ''small'', pc_Spawner = sample_spawner ''small'' [\<lparr>osl_Key = ''cpu'', osl_Value = ''1''\<rparr>],
     pc_Redirect = None,
     pc_Spec = \<lparr>pcs_Affinity = None, pcs_NodeSelector = fmempty, pcs_Tolerations = [], pcs_Resources = None,
                pcs_SchedulerName = None\<rparr>\<rparr>"

definition port_http :: WorkspaceKindPort where
  "port_http = \<lparr>wkp_Id = ''http'', wkp_Protocol = ImagePortProtocolHTTP, wkp_DefaultDisplayName = ''Web'',
     wkp_HTTPProxy = None\<rparr>"

definition sample_probe :: ActivityProbe where
  "sample_probe = \<lparr>ap_MinProbeIntervalSeconds = Some 300, ap_ProbeIntervalSeconds = Some 3600,
     ap_PodExec = None, ap_Jupyter = Some \<lparr>ju_LastActivity = True, ju_PortId = ''http''\<rparr>\<rparr>"

definition sample_rule :: ActivityRule where
  "sample_rule = \<lparr>ar_Config = \<lparr>arc_SecondsSinceActive = 7200, arc_MinRunningSeconds = Some 600\<rparr>,
     ar_Match = None, ar_Effect = \<lparr>are_PauseWorkspace = Some True\<rparr>\<rparr>"

definition sample_template :: "ImageConfigValue list \<Rightarrow> WorkspaceKindPodTemplate" where
  "sample_template imgs = \<lparr>
     kpt_PodMetadata = None, kpt_StatefulSetMetadata = None, kpt_ServiceAccount = None,
     kpt_ActivityProbe = Some sample_probe, kpt_Probes = None,
     kpt_VolumeMounts = \<lparr>wvm_Home = ''/home/jovyan''\<rparr>, kpt_Ports = [port_http],
     kpt_ExtraEnv = [], kpt_ExtraVolumeMounts = [], kpt_ExtraVolumes = [],
     kpt_SecurityContext = None, kpt_ContainerSecurityContext = None, kpt_SchedulerName = None,
     kpt_Options = \<lparr>opt_ImageConfig = \<lparr>icfg_Spawner = \<lparr>osc_Default = ''v2''\<rparr>, icfg_Values = imgs\<rparr>,
                     opt_PodConfig = \<lparr>pcfg_Spawner = \<lparr>osc_Default = ''small''\<rparr>, pcfg_Values = [pod_small]\<rparr>\<rparr>\<rparr>"

definition sample_asset :: WorkspaceKindAsset where
  "sample_asset = \<lparr>asset_Url = Some ''https://example.com/icon.svg'', asset_ConfigMap = None\<rparr>"

definition sample_kind_with :: "ImageConfigValue list \<Rightarrow> WorkspaceKind" where
  "sample_kind_with imgs = \<lparr>
     wk_Meta = empty_meta\<lparr>om_Name := ''jupyterlab''\<rparr>,
     wk_Spec = \<lparr>ks_Spawner = \<lparr>sp_DisplayName = ''Jupyter'', sp_Description = '''', sp_Hidden = None,
                  sp_Deprecated = None, sp_DeprecationMessage = None, sp_Icon = sample_asset, sp_Logo = sample_asset\<rparr>,
                ks_PodTemplate = sample_template imgs, ks_ActivityRules = [sample_rule], ks_FilterRules = []\<rparr>,
     wk_Status = \<lparr>kst_Workspaces = 0,
                  kst_PodTemplateOptions = \<lparr>pm_ImageConfig = [], pm_PodConfig = []\<rparr>,
                  kst_SpawnerIcon = \<lparr>ias_Sha256 = [], ias_ConfigMap = None\<rparr>,
                  kst_SpawnerLogo = \<lparr>ias_Sha256 = [], ias_ConfigMap = None\<rparr>\<rparr>\<rparr>"

abbreviation sample_kind :: WorkspaceKind where
  "sample_kind \<equiv> sample_kind_with [image_v1, image_v2]"

definition sample_status :: WorkspaceStatus where
  "sample_status = \<lparr>st_Activity = empty_activity, st_LastRunningTime = 0, st_PauseTime = 0,
     st_PendingRestart = False,
     st_PodTemplateOptions = \<lparr>os_ImageConfig = \<lparr>oi_Desired = [], oi_RedirectChain = []\<rparr>,
                              os_PodConfig = \<lparr>oi_Desired = [], oi_RedirectChain = []\<rparr>\<rparr>,
     st_PodTemplatePod = \<lparr>ps_Name = [], ps_NodeName = [], ps_ServiceAccountName = [], ps_Containers = [], ps_InitContainers = []\<rparr>,
     st_State = WorkspaceStateUnset, st_StateMessage = []\<rparr>"

definition sample_ws :: Workspace where
  "sample_ws = \<lparr>
     ws_Meta = empty_meta\<lparr>om_Name := ''nb'', om_Namespace := ''team''\<rparr>,
     ws_Spec = \<lparr>spec_Paused = False, spec_DisplayName = None, spec_Kind = ''jupyterlab'',
                spec_PodTemplate = \<lparr>wpt_PodMetadata = None,
                   wpt_Volumes = \<lparr>pv_Home = Some ''home-pvc'', pv_Data = [], pv_Secrets = []\<rparr>,
                   wpt_Options = \<lparr>po_ImageConfig = ''v1'', po_PodConfig = ''small''\<rparr>\<rparr>\<rparr>,
     ws_Status = sample_status\<rparr>"

text \<open>The same WorkspaceKind with a third image config, the update the witnesses look at.\<close>

definition image_v3 :: ImageConfigValue where
  "image_v3 = \<lparr>ic_Id = ''v3'', ic_Spawner = sample_spawner ''three'' [],
     ic_Redirect = None, ic_Spec = sample_image_spec ''img:3''\<rparr>"

abbreviation sample_kind' :: WorkspaceKind where
  "sample_kind' \<equiv> sample_kind_with [image_v1, image_v2, image_v3]"

text \<open>The fields of the sample objects, so that the objects themselves stay folded in proofs.\<close>

lemma sample_image_sel [simp]:
  "ic_Id image_v1 = ''v1''" "ic_Id image_v2 = ''v2''" "ic_Id image_v3 = ''v3''"
  "ic_Redirect image_v1 = Some \<lparr>red_To = ''v2'', red_Message = None\<rparr>"
  "ic_Redirect image_v2 = None" "ic_Redirect image_v3 = None"
  "ic_Spec image_v1 = sample_image_spec ''img:1''" "ic_Spec image_v2 = sample_image_spec ''img:2''"
  "ic_Spec image_v3 = sample_image_spec ''img:3''"
  "ics_Ports (sample_image_spec img) = [\<lparr>ip_Id = ''http'', ip_Port = 8888, ip_DisplayName = None\<rparr>]"
  by (simp_all add: image_v1_def image_v2_def image_v3_def sample_image_spec_def)

lemma sample_option_sel [simp]:
  "pc_Id pod_small = ''small''" "pc_Redirect pod_small = None"
  "osi_Labels (pc_Spawner pod_small) = [\<lparr>osl_Key = ''cpu'', osl_Value = ''1''\<rparr>]"
  "wkp_Id port_http = ''http''" "wkp_Protocol port_http = ImagePortProtocolHTTP" "wkp_HTTPProxy port_http = None"
  "ap_PodExec sample_probe = None" "ap_ProbeIntervalSeconds sample_probe = Some 3600"
  "ap_MinProbeIntervalSeconds sample_probe = Some 300"
  "ap_Jupyter sample_probe = Some \<lparr>ju_LastActivity = True, ju_PortId = ''http''\<rparr>"
  "ar_Match sample_rule = None" "are_PauseWorkspace (ar_Effect sample_rule) = Some True"
  "arc_SecondsSinceActive (ar_Config sample_rule) = 7200"
  "arc_MinRunningSeconds (ar_Config sample_rule) = Some 600"
  by (simp_all add: pod_small_def sample_spawner_def port_http_def sample_probe_def sample_rule_def)

lemma sample_ws_sel [simp]:
  "ws_Name sample_ws = ''nb''" "ws_Namespace sample_ws = ''team''"
  "spec_Kind (ws_Spec sample_ws) = ''jupyterlab''" "spec_Paused (ws_Spec sample_ws) = False"
  "po_ImageConfig (ws_Options sample_ws) = ''v1''" "po_PodConfig (ws_Options sample_ws) = ''small''"
  "wpt_PodMetadata (ws_PodTemplate sample_ws) = None"
  "wpt_Volumes (ws_PodTemplate sample_ws) = \<lparr>pv_Home = Some ''home-pvc'', pv_Data = [], pv_Secrets = []\<rparr>"
  "ws_Status sample_ws = sample_status"
  by (simp_all add: sample_ws_def empty_meta_def)

lemma sample_kind_sel [simp]:
  "wk_Meta (sample_kind_with imgs) = empty_meta\<lparr>om_Name := ''jupyterlab''\<rparr>"
  "kpt_PodMetadata (wk_PodTemplate (sample_kind_with imgs)) = None"
  "kpt_StatefulSetMetadata (wk_PodTemplate (sample_kind_with imgs)) = None"
  "kpt_ServiceAccount (wk_PodTemplate (sample_kind_with imgs)) = None"
  "kpt_ActivityProbe (wk_PodTemplate (sample_kind_with imgs)) = Some sample_probe"
  "kpt_ExtraEnv (wk_PodTemplate (sample_kind_with imgs)) = []"
  "wk_Ports (sample_kind_with imgs) = [port_http]"
  "wk_ImageConfigValues (sample_kind_with imgs) = imgs"
  "wk_PodConfigValues (sample_kind_with imgs) = [pod_small]"
  "osc_Default (icfg_Spawner (opt_ImageConfig (kpt_Options (wk_PodTemplate (sample_kind_with imgs))))) = ''v2''"
  "osc_Default (pcfg_Spawner (opt_PodConfig (kpt_Options (wk_PodTemplate (sample_kind_with imgs))))) = ''small''"
  "ks_ActivityRules (wk_Spec (sample_kind_with imgs)) = [sample_rule]"
  "ks_FilterRules (wk_Spec (sample_kind_with imgs)) = []"
  "wk_Name (sample_kind_with imgs) = ''jupyterlab''"
  by (simp_all add: sample_kind_with_def sample_template_def empty_meta_def)

definition sample_lister :: kind_lister where
  "sample_lister name = Inr (if name = ''jupyterlab'' then [sample_ws] else [])"

end
