(* ===== verification/Kind_Controller.thy ===== *)
theory Kind_Controller
  imports Usage_Counts Kind_Webhook Cluster_Objects Names Sample_Objects
begin

text \<open>
  The WorkspaceKind controller, \<open>controller/internal/controller/workspacekind_controller.go\<close>,
  with the cache transform it reads hashes from (\<open>controller/internal/helper/configmap_cache.go\<close>).
  The reads and writes of the API client are arguments; the writes a reconcile performs are a list, in order.
\<close>

section \<open>Image source ConfigMaps\<close>

definition ImageSourceLabel :: string where "ImageSourceLabel = ''notebooks.kubeflow.org/image-source''"
definition SHA256AnnotationPrefix :: string where
  "SHA256AnnotationPrefix = ''VIRTUAL.notebooks.kubeflow.org/sha256.''"

text \<open>A ConfigMap as the image source cache sees it.\<close>

record SourceConfigMap =
  scm_Annotations :: strmap
  scm_Data :: strmap
  scm_BinaryData :: strmap

definition hash_key :: "sha256_fn \<Rightarrow> strmap \<Rightarrow> string \<Rightarrow> strmap \<Rightarrow> strmap" where
  "hash_key sha256 data key annotations =
     fmupd (SHA256AnnotationPrefix @ key) (hex_encode (sha256 (the (fmlookup data key)))) annotations"

definition TransformConfigMapSHA256 :: "sha256_fn \<Rightarrow> range_fn \<Rightarrow> SourceConfigMap \<Rightarrow> SourceConfigMap" where
  "TransformConfigMapSHA256 sha256 rng cm =
     (let annotations = fold (hash_key sha256 (scm_Data cm)) (rng (scm_Data cm)) (scm_Annotations cm);
          annotations = fold (hash_key sha256 (scm_BinaryData cm)) (rng (scm_BinaryData cm)) annotations
      in cm\<lparr>scm_Annotations := annotations\<rparr>)"

definition no_asset_status :: ImageAssetStatus where
  "no_asset_status = \<lparr>ias_Sha256 = [], ias_ConfigMap = None\<rparr>"

definition asset_error :: "ConfigMapError \<Rightarrow> string \<Rightarrow> ImageAssetStatus" where
  "asset_error errType errMsg =
     \<lparr>ias_Sha256 = [], ias_ConfigMap = Some \<lparr>acs_Error = Some errType, acs_ErrorMessage = Some errMsg\<rparr>\<rparr>"

definition reconcileAssetStatus ::
  "(string \<Rightarrow> string \<Rightarrow> api_error + SourceConfigMap) \<Rightarrow> WorkspaceKindAsset \<Rightarrow> ImageAssetStatus"
where
  "reconcileAssetStatus getConfigMap asset =
     (if asset_Url asset \<noteq> None then no_asset_status
      else case asset_ConfigMap asset of
        None \<Rightarrow> no_asset_status
      | Some cmRef \<Rightarrow>
          (case getConfigMap (acm_Namespace cmRef) (acm_Name cmRef) of
             Inl (NotFound _) \<Rightarrow> asset_error ConfigMapErrorNotFound
               (''ConfigMap '' @ go_quote (acm_Name cmRef) @ '' not found in namespace '' @ go_quote (acm_Namespace cmRef)
                @ '' (if it exists, ensure it has the '' @ go_quote ImageSourceLabel @ '' label)'')
           | Inl err \<Rightarrow> asset_error ConfigMapErrorOther
               (''failed to get ConfigMap '' @ go_quote (acm_Name cmRef) @ '' in namespace ''
                @ go_quote (acm_Namespace cmRef) @ '': '' @ api_error_text err)
           | Inr cm \<Rightarrow>
               (case fmlookup (scm_Annotations cm) (SHA256AnnotationPrefix @ acm_Key cmRef) of
                  None \<Rightarrow> asset_error ConfigMapErrorKeyNotFound
                    (''key '' @ go_quote (acm_Key cmRef) @ '' not found in ConfigMap '' @ go_quote (acm_Name cmRef)
                     @ '' in namespace '' @ go_quote (acm_Namespace cmRef))
                | Some sha256Hash \<Rightarrow> \<lparr>ias_Sha256 = sha256Hash, ias_ConfigMap = None\<rparr>)))"

section \<open>Reconcile\<close>

datatype kind_write = UpdateKind WorkspaceKind | UpdateKindStatus WorkspaceKindStatus

record kind_env =
  ke_ListByKind :: "string \<Rightarrow> api_error + Workspace list"
  ke_GetConfigMap :: "string \<Rightarrow> string \<Rightarrow> api_error + SourceConfigMap"
  ke_Write :: "kind_write \<Rightarrow> api_error option"

definition option_metrics :: "string list \<Rightarrow> string list \<Rightarrow> OptionMetric list" where
  "option_metrics ids sels =
     map (\<lambda>i. \<lparr>mt_Id = i, mt_Workspaces = (case usage_counts ids sels i of Some n \<Rightarrow> n | None \<Rightarrow> 0)\<rparr>) ids"

definition kind_status :: "kind_env \<Rightarrow> WorkspaceKind \<Rightarrow> Workspace list \<Rightarrow> WorkspaceKindStatus" where
  "kind_status env k workspaces =
     \<lparr>kst_Workspaces = wrap32 (int (length workspaces)),
      kst_PodTemplateOptions =
        \<lparr>pm_ImageConfig = option_metrics (map ic_Id (wk_ImageConfigValues k))
           (map (\<lambda>w. po_ImageConfig (ws_Options w)) workspaces),
         pm_PodConfig = option_metrics (map pc_Id (wk_PodConfigValues k))
           (map (\<lambda>w. po_PodConfig (ws_Options w)) workspaces)\<rparr>,
      kst_SpawnerIcon = reconcileAssetStatus (ke_GetConfigMap env) (sp_Icon (ks_Spawner (wk_Spec k))),
      kst_SpawnerLogo = reconcileAssetStatus (ke_GetConfigMap env) (sp_Logo (ks_Spawner (wk_Spec k)))\<rparr>"

definition remove_finalizer :: "string \<Rightarrow> WorkspaceKind \<Rightarrow> WorkspaceKind" where
  "remove_finalizer f k = k\<lparr>wk_Meta := (wk_Meta k)\<lparr>om_Finalizers := filter (\<lambda>x. x \<noteq> f) (om_Finalizers (wk_Meta k))\<rparr>\<rparr>"

text \<open>The reconcile of a WorkspaceKind, given the answer to fetching it.\<close>

definition Kind_Reconcile ::
  "kind_env \<Rightarrow> api_error + WorkspaceKind \<Rightarrow> (api_error + ctrl_result) \<times> kind_write list"
where
  "Kind_Reconcile env fetched =
     (case fetched of
        Inl (NotFound _) \<Rightarrow> (Inr no_requeue, [])
      | Inl err \<Rightarrow> (Inl err, [])
      | Inr k \<Rightarrow>
          (case ke_ListByKind env (wk_Name k) of
             Inl err \<Rightarrow> (Inl err, [])
           | Inr workspaces \<Rightarrow>
               (let unprotect = workspaces = [] \<and> WorkspaceKindFinalizer \<in> set (om_Finalizers (wk_Meta k));
                    k' = (if unprotect then remove_finalizer WorkspaceKindFinalizer k else k);
                    writes = (if unprotect then [UpdateKind k'] else [])
                in case (if unprotect then ke_Write env (UpdateKind k') else None) of
                     Some err \<Rightarrow> (Inl err, writes)
                   | None \<Rightarrow>
                       (let status = kind_status env k' workspaces in
                        if wk_Status k \<noteq> status
                        then (case ke_Write env (UpdateKindStatus status) of
                                Some err \<Rightarrow> (Inl err, writes @ [UpdateKindStatus status])
                              | None \<Rightarrow> (Inr no_requeue, writes @ [UpdateKindStatus status]))
                        else (Inr no_requeue, writes)))))"

section \<open>Hashes\<close>

lemma prefix_inj [simp]: "SHA256AnnotationPrefix @ a = SHA256AnnotationPrefix @ b \<longleftrightarrow> a = b"
  by simp

lemma fold_hash_key:
  "fmlookup (fold (hash_key sha256 data) keys ann) (SHA256AnnotationPrefix @ key) =
     (if key \<in> set keys then Some (hex_encode (sha256 (the (fmlookup data key))))
      else fmlookup ann (SHA256AnnotationPrefix @ key))"
  by (induction keys arbitrary: ann) (auto simp: hash_key_def)

lemma transform_lookup:
  assumes "range_order rng"
  shows "fmlookup (scm_Annotations (TransformConfigMapSHA256 sha256 rng cm)) (SHA256AnnotationPrefix @ key) =
    (case fmlookup (scm_BinaryData cm) key of
       Some v \<Rightarrow> Some (hex_encode (sha256 v))
     | None \<Rightarrow> (case fmlookup (scm_Data cm) key of
                  Some v \<Rightarrow> Some (hex_encode (sha256 v))
                | None \<Rightarrow> fmlookup (scm_Annotations cm) (SHA256AnnotationPrefix @ key)))"
  using range_orderD(1) [OF assms]
  by (auto simp: TransformConfigMapSHA256_def fold_hash_key Let_def fmlookup_dom'_iff split: option.splits)

section \<open>Properties\<close>

lemma option_metrics_exact:
  assumes "int (length sels) < 2 ^ 31"
  shows "option_metrics ids sels = map (\<lambda>i. \<lparr>mt_Id = i, mt_Workspaces = int (count_list sels i)\<rparr>) ids"
  using assms by (simp add: option_metrics_def usage_counts_eq)

text \<open>The WorkspaceKind the API server holds after accepting the writes.\<close>

definition stored_kind :: "WorkspaceKind \<Rightarrow> kind_write list \<Rightarrow> WorkspaceKind" where
  "stored_kind k writes =
     fold (\<lambda>w k. case w of UpdateKind k' \<Rightarrow> k'\<lparr>wk_Status := wk_Status k\<rparr> | UpdateKindStatus s \<Rightarrow> k\<lparr>wk_Status := s\<rparr>) writes k"

text \<open>
  C28. The status of a WorkspaceKind is exact and stable. When a reconcile succeeds with every write
  accepted, the stored status counts the Workspaces that use the kind; it has one entry for each
  image option and one for each pod option, in the order of the kind, with the number of Workspaces
  that select it; and it holds the state of the icon and the logo. The protection finalizer is
  removed exactly when no Workspace uses the kind. A second reconcile of what was stored, with the
  same Workspaces, writes nothing.
\<close>

theorem kind_status_exact:
  assumes "Kind_Reconcile env (Inr k) = (Inr res, writes)" and "ke_ListByKind env (wk_Name k) = Inr wss"
    and "int (length wss) < 2 ^ 31"
  shows "kst_Workspaces (wk_Status (stored_kind k writes)) = int (length wss) \<and>
    map mt_Id (pm_ImageConfig (kst_PodTemplateOptions (wk_Status (stored_kind k writes)))) = map ic_Id (wk_ImageConfigValues k) \<and>
    (\<forall>m \<in> set (pm_ImageConfig (kst_PodTemplateOptions (wk_Status (stored_kind k writes)))).
       mt_Workspaces m = int (length (filter (\<lambda>w. po_ImageConfig (ws_Options w) = mt_Id m) wss))) \<and>
    map mt_Id (pm_PodConfig (kst_PodTemplateOptions (wk_Status (stored_kind k writes)))) = map pc_Id (wk_PodConfigValues k) \<and>
    (\<forall>m \<in> set (pm_PodConfig (kst_PodTemplateOptions (wk_Status (stored_kind k writes)))).
       mt_Workspaces m = int (length (filter (\<lambda>w. po_PodConfig (ws_Options w) = mt_Id m) wss))) \<and>
    kst_SpawnerIcon (wk_Status (stored_kind k writes)) =
      reconcileAssetStatus (ke_GetConfigMap env) (sp_Icon (ks_Spawner (wk_Spec k))) \<and>
    kst_SpawnerLogo (wk_Status (stored_kind k writes)) =
      reconcileAssetStatus (ke_GetConfigMap env) (sp_Logo (ks_Spawner (wk_Spec k))) \<and>
    (WorkspaceKindFinalizer \<in> set (om_Finalizers (wk_Meta (stored_kind k writes))) \<longleftrightarrow>
       WorkspaceKindFinalizer \<in> set (om_Finalizers (wk_Meta k)) \<and> wss \<noteq> []) \<and>
    Kind_Reconcile env (Inr (stored_kind k writes)) = (Inr no_requeue, [])"
proof -
  let ?u = "wss = [] \<and> WorkspaceKindFinalizer \<in> set (om_Finalizers (wk_Meta k))"
  let ?k = "if ?u then remove_finalizer WorkspaceKindFinalizer k else k"
  have spec: "wk_Spec ?k = wk_Spec k" "wk_Status ?k = wk_Status k" "wk_Name ?k = wk_Name k"
    by (simp_all add: remove_finalizer_def)
  have ks: "kind_status env ?k wss = kind_status env k wss" by (simp add: kind_status_def spec)
  have stored: "stored_kind k writes = ?k\<lparr>wk_Status := kind_status env k wss\<rparr>"
    using assms(1,2) ks spec
    by (auto simp: Kind_Reconcile_def stored_kind_def Let_def remove_finalizer_def split: if_splits option.splits)
  have st: "wk_Status (stored_kind k writes) = kind_status env k wss" by (simp add: stored)
  have len: "length (filter (\<lambda>w. f w = i) ws) = count_list (map f ws) i" for f :: "Workspace \<Rightarrow> string" and i ws
    by (induction ws) auto
  have wrap: "wrap32 (int (length wss)) = int (length wss)" using assms(3) by (simp add: is_int32_def)
  have again: "Kind_Reconcile env (Inr (stored_kind k writes)) = (Inr no_requeue, [])"
  proof -
    have fin: "\<not> (wss = [] \<and> WorkspaceKindFinalizer \<in> set (om_Finalizers (wk_Meta (stored_kind k writes))))"
      by (auto simp: stored remove_finalizer_def)
    have "kind_status env (stored_kind k writes) wss = kind_status env k wss"
      by (simp add: stored kind_status_def spec)
    moreover have "ke_ListByKind env (wk_Name (stored_kind k writes)) = Inr wss"
      using assms(2) spec(3) by (simp add: stored)
    ultimately show ?thesis using fin st by (auto simp: Kind_Reconcile_def Let_def)
  qed
  have fin: "WorkspaceKindFinalizer \<in> set (om_Finalizers (wk_Meta (stored_kind k writes))) \<longleftrightarrow>
       WorkspaceKindFinalizer \<in> set (om_Finalizers (wk_Meta k)) \<and> wss \<noteq> []"
    by (auto simp: stored remove_finalizer_def)
  show ?thesis
    using again fin assms(3) unfolding st
    by (simp add: kind_status_def option_metrics_exact wrap len comp_def)
qed

text \<open>The example: the sample kind, used by the sample Workspace.\<close>

definition sample_kind_env :: kind_env where
  "sample_kind_env = \<lparr>ke_ListByKind = (\<lambda>_. Inr [sample_ws]), ke_GetConfigMap = (\<lambda>_ _. Inl (NotFound [])),
     ke_Write = (\<lambda>_. None)\<rparr>"

theorem kind_status_exact_witness:
  "\<exists>res writes. Kind_Reconcile sample_kind_env (Inr sample_kind) = (Inr res, writes) \<and>
     kst_Workspaces (wk_Status (stored_kind sample_kind writes)) = 1"
proof -
  let ?run = "Kind_Reconcile sample_kind_env (Inr sample_kind)"
  have "fst ?run = Inr no_requeue" by (simp add: Kind_Reconcile_def sample_kind_env_def Let_def)
  then have run: "?run = (Inr no_requeue, snd ?run)" by (metis prod.collapse)
  with kind_status_exact [OF run, of "[sample_ws]"] show ?thesis by (auto simp: sample_kind_env_def)
qed

text \<open>
  Asset hashes are those of the content. For an icon or logo kept in a ConfigMap, the status
  carries the hexadecimal SHA-256 of the referenced key and no error when the key exists, and a
  \<open>KeyNotFound\<close> error when it does not, whatever order the cache iterates the keys in
  (as long as no real annotation uses the virtual prefix).
\<close>

lemma asset_hash_exact:
  assumes "range_order rng" and "asset_Url asset = None" and "asset_ConfigMap asset = Some ref"
    and "getCM (acm_Namespace ref) (acm_Name ref) = Inr cm"
    and "fmlookup (scm_Annotations cm) (SHA256AnnotationPrefix @ acm_Key ref) = None"
    and "fmlookup (scm_BinaryData cm) (acm_Key ref) = None"
  shows "case fmlookup (scm_Data cm) (acm_Key ref) of
      Some content \<Rightarrow>
        reconcileAssetStatus (\<lambda>ns n. map_sum id (TransformConfigMapSHA256 digest rng) (getCM ns n)) asset
          = \<lparr>ias_Sha256 = hex_encode (digest content), ias_ConfigMap = None\<rparr>
    | None \<Rightarrow>
        map_option acs_Error (ias_ConfigMap
          (reconcileAssetStatus (\<lambda>ns n. map_sum id (TransformConfigMapSHA256 digest rng) (getCM ns n)) asset))
          = Some (Some ConfigMapErrorKeyNotFound)"
  using assms
  by (simp add: reconcileAssetStatus_def transform_lookup [OF assms(1)] asset_error_def split: option.splits)

end
