(* ===== verification/Trace_Steps.thy ===== *)
theory Trace_Steps
  imports Main
begin

text \<open>
  Steps of a program that talks to other systems. A step runs on the trace of the calls made so
  far, each with its answer; it may make more calls and either goes on with a value or ends the whole
  run with an outcome, the early \<open>return\<close> of the source. Both the reconcile of the
  controller and the request handlers of the backend are written with these combinators.

  A trace is judged by a locale, \<open>guarded_trace\<close>: no call of a certain kind is made before a
  condition has been established, where an established condition stays so.
\<close>

type_synonym ('w, 'r) event_trace = "('w \<times> 'r) list"

type_synonym ('w, 'r, 'o, 'a) trace_step = "('w, 'r) event_trace \<Rightarrow> ('o + 'a) \<times> ('w, 'r) event_trace"

section \<open>Combinators\<close>

definition proceed :: "'a \<Rightarrow> ('w, 'r, 'o, 'a) trace_step" where
  "proceed x t = (Inr x, t)"

definition stop :: "'o \<Rightarrow> ('w, 'r, 'o, 'a) trace_step" where
  "stop out t = (Inl out, t)"

definition and_then ::
  "('w, 'r, 'o, 'a) trace_step \<Rightarrow> ('a \<Rightarrow> ('w, 'r, 'o, 'b) trace_step) \<Rightarrow> ('w, 'r, 'o, 'b) trace_step"
where
  "and_then m f t = (case m t of (Inl out, t') \<Rightarrow> (Inl out, t') | (Inr x, t') \<Rightarrow> f x t')"

definition ask :: "(('w, 'r) event_trace \<Rightarrow> 'a) \<Rightarrow> ('w, 'r, 'o, 'a) trace_step" where
  "ask q t = (Inr (q t), t)"

definition send :: "(('w, 'r) event_trace \<Rightarrow> 'w \<Rightarrow> 'r) \<Rightarrow> 'w \<Rightarrow> ('w, 'r, 'o, 'r) trace_step" where
  "send api w t = (Inr (api t w), t @ [(w, api t w)])"

text \<open>A call whose answer is a value; the trace records whether it succeeded.\<close>

definition query :: "'w \<Rightarrow> ('a \<Rightarrow> 'r) \<Rightarrow> (('w, 'r) event_trace \<Rightarrow> 'a) \<Rightarrow> ('w, 'r, 'o, 'a) trace_step" where
  "query w ok q t = (Inr (q t), t @ [(w, ok (q t))])"

text \<open>A call of a function that returns an error: the caller looks at it and goes on.\<close>

definition attempt :: "('w, 'r, 'e, 'a) trace_step \<Rightarrow> ('w, 'r, 'o, 'e + 'a) trace_step" where
  "attempt m t = (case m t of (r, t') \<Rightarrow> (Inr r, t'))"

section \<open>What a step may send\<close>

named_theorems emit_intros

definition emits :: "('w \<Rightarrow> bool) \<Rightarrow> ('w, 'r, 'o, 'a) trace_step \<Rightarrow> bool" where
  "emits A m \<longleftrightarrow> (\<forall>t. \<exists>d. snd (m t) = t @ d \<and> (\<forall>e \<in> set d. A (fst e)))"

lemma emits_basic [emit_intros]:
  "emits A (proceed x)" "emits A (stop out)" "emits A (ask q)" "A w \<Longrightarrow> emits A (send api w)"
  "A w \<Longrightarrow> emits A (query w ok qa)"
  by (auto simp: emits_def proceed_def stop_def ask_def send_def query_def)

lemma emits_attempt [emit_intros]: "emits A m \<Longrightarrow> emits A (attempt m)"
  by (simp add: emits_def attempt_def split_beta)

text \<open>The second step only has to be looked at for the values the first one gives.\<close>

lemma emits_bind:
  assumes "emits A m" and "\<And>t x t'. m t = (Inr x, t') \<Longrightarrow> emits A (f x)"
  shows "emits A (and_then m f)"
  unfolding emits_def
proof
  fix t
  obtain r d where m: "m t = (r, t @ d)" "\<forall>e \<in> set d. A (fst e)"
    using assms(1) unfolding emits_def by (metis prod.collapse)
  show "\<exists>d. snd (and_then m f t) = t @ d \<and> (\<forall>e \<in> set d. A (fst e))"
  proof (cases r)
    case (Inl out)
    with m show ?thesis by (simp add: and_then_def)
  next
    case (Inr x)
    with m(1) assms(2) obtain d' where "snd (f x (t @ d)) = (t @ d) @ d'" "\<forall>e \<in> set d'. A (fst e)"
      unfolding emits_def by blast
    with m Inr show ?thesis by (auto simp: and_then_def)
  qed
qed

lemma emits_and_then [emit_intros]: "emits A m \<Longrightarrow> (\<And>x. emits A (f x)) \<Longrightarrow> emits A (and_then m f)"
  by (rule emits_bind)

lemma emits_mono: "emits A m \<Longrightarrow> (\<And>w. A w \<Longrightarrow> B w) \<Longrightarrow> emits B m"
  unfolding emits_def by blast

lemma emitsD: "emits A m \<Longrightarrow> m t = (r, t') \<Longrightarrow> \<exists>d. t' = t @ d \<and> (\<forall>e \<in> set d. A (fst e))"
  unfolding emits_def by (metis snd_conv)

lemma emits_nothing: "emits (\<lambda>_. False) m \<Longrightarrow> m t = (r, t') \<Longrightarrow> t' = t"
  using emitsD [of "\<lambda>_. False" m t r t'] by (metis append_Nil2 last_in_set)

text \<open>A step that goes on with a value: the intermediate results it went through.\<close>

lemma and_then_InrE:
  assumes "and_then m f t = (Inr y, t')"
  obtains x t1 where "m t = (Inr x, t1)" "f x t1 = (Inr y, t')"
  using assms by (auto simp: and_then_def split: prod.splits sum.splits)

lemma and_thenE:
  assumes "and_then m f t = (r, t')"
  obtains (stopped) out where "m t = (Inl out, t')" "r = Inl out" | (went_on) x t1 where "m t = (Inr x, t1)" "f x t1 = (r, t')"
  using assms by (auto simp: and_then_def split: prod.splits sum.splits)

lemma basic_Inr_iff [simp]:
  "proceed x t = (Inr y, t') \<longleftrightarrow> y = x \<and> t' = t" "stop out t = (Inr y, t') \<longleftrightarrow> False"
  "ask q t = (Inr y, t') \<longleftrightarrow> y = q t \<and> t' = t"
  "send api w t = (Inr r, t') \<longleftrightarrow> r = api t w \<and> t' = t @ [(w, api t w)]"
  "query w ok qa t = (Inr a, t') \<longleftrightarrow> a = qa t \<and> t' = t @ [(w, ok (qa t))]"
  "attempt m t = (Inr z, t') \<longleftrightarrow> m t = (z, t')"
  by (auto simp: proceed_def stop_def ask_def send_def query_def attempt_def split: prod.splits)

section \<open>Writes that need a condition\<close>

definition guarded :: "(('w, 'r) event_trace \<Rightarrow> bool) \<Rightarrow> ('w \<Rightarrow> bool) \<Rightarrow> ('w, 'r) event_trace \<Rightarrow> bool" where
  "guarded est prot t \<longleftrightarrow> (\<forall>i < length t. prot (fst (t ! i)) \<longrightarrow> est (take i t))"

lemma guarded_Nil [simp]: "guarded est prot []"
  by (simp add: guarded_def)

locale guarded_trace =
  fixes est :: "('w \<times> 'r) list \<Rightarrow> bool" and prot :: "'w \<Rightarrow> bool"
  assumes est_mono: "est t \<Longrightarrow> est (t @ d)"
begin

lemma guarded_append_harmless:
  assumes "guarded est prot t" and "\<forall>e \<in> set d. \<not> prot (fst e)"
  shows "guarded est prot (t @ d)"
  unfolding guarded_def
proof (intro allI impI)
  fix i assume i: "i < length (t @ d)" "prot (fst ((t @ d) ! i))"
  then have "i < length t" using assms(2) by (metis leI nth_append_right nth_mem length_append add_less_imp_less_left
      le_add_diff_inverse)
  with i assms(1) show "est (take i (t @ d))" by (simp add: guarded_def nth_append)
qed

lemma guarded_append_established:
  assumes "guarded est prot t" and "est t"
  shows "guarded est prot (t @ d)"
  unfolding guarded_def
proof (intro allI impI)
  fix i assume i: "i < length (t @ d)" "prot (fst ((t @ d) ! i))"
  show "est (take i (t @ d))"
  proof (cases "i < length t")
    case True
    with i assms(1) show ?thesis by (simp add: guarded_def nth_append)
  next
    case False
    with est_mono [OF assms(2)] show ?thesis by simp
  qed
qed

definition safe :: "('w, 'r, 'o, 'a) trace_step \<Rightarrow> bool" where
  "safe m \<longleftrightarrow> (\<forall>t. guarded est prot t \<longrightarrow> guarded est prot (snd (m t)))"

lemma safe_harmless: "emits (\<lambda>w. \<not> prot w) m \<Longrightarrow> safe m"
  unfolding safe_def emits_def by (metis guarded_append_harmless)

lemma safe_and_then:
  assumes "safe m" and "\<And>x. safe (f x)"
  shows "safe (and_then m f)"
  using assms unfolding safe_def and_then_def by (auto split: prod.splits sum.splits)

lemma safe_case_prod: "(\<And>a b. safe (f a b)) \<Longrightarrow> safe (case p of (a, b) \<Rightarrow> f a b)"
  by (cases p) simp

text \<open>A step after which the condition holds, or is not needed by what follows.\<close>

lemma safe_bind:
  assumes harmless: "emits (\<lambda>w. \<not> prot w) m"
    and establishes: "\<And>t x t'. m t = (Inr x, t') \<Longrightarrow> est t' \<or> emits (\<lambda>w. \<not> prot w) (f x)"
    and rest: "\<And>x. emits (\<lambda>w. True) (f x)"
  shows "safe (and_then m f)"
  unfolding safe_def
proof (intro allI impI)
  fix t assume t: "guarded est prot t"
  obtain r t' where m: "m t = (r, t')" by fastforce
  have t': "guarded est prot t'"
    using emitsD [OF harmless m] guarded_append_harmless [OF t] by blast
  show "guarded est prot (snd (and_then m f t))"
  proof (cases r)
    case (Inl out)
    with m t' show ?thesis by (simp add: and_then_def)
  next
    case (Inr x)
    obtain r' t'' where f: "f x t' = (r', t'')" by fastforce
    from emitsD [OF rest f] obtain d where d: "t'' = t' @ d" by blast
    from establishes m Inr have "est t' \<or> emits (\<lambda>w. \<not> prot w) (f x)" by blast
    then have "guarded est prot t''"
    proof
      assume "emits (\<lambda>w. \<not> prot w) (f x)"
      from emitsD [OF this f] show ?thesis using guarded_append_harmless [OF t'] by blast
    qed (simp_all add: d guarded_append_established [OF t'])
    then show ?thesis using m Inr f by (simp add: and_then_def)
  qed
qed

lemma safe_establish:
  assumes "emits (\<lambda>w. \<not> prot w) m" and "\<And>t x t'. m t = (Inr x, t') \<Longrightarrow> est t'" and "\<And>x. emits (\<lambda>w. True) (f x)"
  shows "safe (and_then m f)"
  using assms by (intro safe_bind) blast+

lemma safe_attempt: "safe m \<Longrightarrow> safe (attempt m)"
  by (simp add: safe_def attempt_def split_beta)

end

end
