(* ===== verification/Selectors.thy ===== *)
theory Selectors
  imports Api_Types
begin

text \<open>
  Label selectors. The functions of \<open>k8s.io/apimachinery\<close> the program calls are the
  record \<open>selector_lib\<close>, an argument of every operation that uses them:
  \<open>FormatLabelSelector\<close>, \<open>LabelSelectorAsSelector\<close> and the \<open>Matches\<close> method
  of the compiled selector.

  \<open>selectorMatches\<close> of \<open>controller/internal/helper/activity.go\<close> keeps a
  process-wide cache of compiled selectors (a \<open>sync.Map\<close>), keyed by the formatted
  selector. The cache is explicit state here. The lemmas show that every answer given through
  the cache is the answer an uncached evaluation would give, and that the invariant this rests
  on is kept by every store, in whatever order concurrent reconciles perform them.
\<close>

type_synonym compiled_selector = k8s_opaque

record selector_lib =
  FormatLabelSelector :: "label_selector \<Rightarrow> string"
  LabelSelectorAsSelector :: "label_selector \<Rightarrow> string + compiled_selector"
  SelectorMatches :: "compiled_selector \<Rightarrow> strmap \<Rightarrow> bool"

type_synonym selector_cache = "string \<rightharpoonup> (string + compiled_selector)"

definition selectorMatches ::
  "selector_lib \<Rightarrow> selector_cache \<Rightarrow> label_selector option \<Rightarrow> strmap \<Rightarrow> (string + bool) \<times> selector_cache"
where
  "selectorMatches lib selectorCache selector lbls =
     (case selector of
        None \<Rightarrow> (Inr True, selectorCache)
      | Some s \<Rightarrow>
          let key = FormatLabelSelector lib s;
              (cached, selectorCache') =
                (case selectorCache key of
                   Some v \<Rightarrow> (v, selectorCache)
                 | None \<Rightarrow> (let v = LabelSelectorAsSelector lib s in (v, selectorCache(key \<mapsto> v))))
          in (case cached of
                Inl err \<Rightarrow> (Inl err, selectorCache')
              | Inr sel \<Rightarrow> (Inr (SelectorMatches lib sel lbls), selectorCache')))"

section \<open>The uncached reference\<close>

definition selector_result :: "selector_lib \<Rightarrow> label_selector \<Rightarrow> strmap \<Rightarrow> string + bool" where
  "selector_result lib s lbls =
     (case LabelSelectorAsSelector lib s of
        Inl err \<Rightarrow> Inl err | Inr sel \<Rightarrow> Inr (SelectorMatches lib sel lbls))"

text \<open>
  What the cache relies on: selectors with the same formatted form are equivalent (both fail
  to compile, or they match the same label sets).
\<close>

definition selector_lib_ok :: "selector_lib \<Rightarrow> bool" where
  "selector_lib_ok lib \<longleftrightarrow>
     (\<forall>s t. FormatLabelSelector lib s = FormatLabelSelector lib t \<longrightarrow>
        (case (LabelSelectorAsSelector lib s, LabelSelectorAsSelector lib t) of
           (Inl _, Inl _) \<Rightarrow> True
         | (Inr a, Inr b) \<Rightarrow> SelectorMatches lib a = SelectorMatches lib b
         | _ \<Rightarrow> False))"

definition cache_ok :: "selector_lib \<Rightarrow> selector_cache \<Rightarrow> bool" where
  "cache_ok lib c \<longleftrightarrow>
     (\<forall>k v. c k = Some v \<longrightarrow> (\<exists>s. FormatLabelSelector lib s = k \<and> LabelSelectorAsSelector lib s = v))"

text \<open>An outcome up to the text of its error.\<close>

definition outcome :: "string + 'a \<Rightarrow> unit + 'a" where
  "outcome x = map_sum (\<lambda>_. ()) id x"

lemma outcome_simps [simp]:
  "outcome (Inl e) = Inl ()" "outcome (Inr a) = Inr a"
  "outcome x = Inr a \<longleftrightarrow> x = Inr a" "outcome x = Inl u \<longleftrightarrow> isl x"
  by (cases x; simp add: outcome_def)+

lemma cache_ok_empty: "cache_ok lib Map.empty"
  by (simp add: cache_ok_def)

lemma cache_ok_store:
  "cache_ok lib c \<Longrightarrow> cache_ok lib (c(FormatLabelSelector lib s \<mapsto> LabelSelectorAsSelector lib s))"
  by (auto simp: cache_ok_def)

lemma snd_selectorMatches:
  "snd (selectorMatches lib c selector lbls) =
     (case selector of
        None \<Rightarrow> c
      | Some s \<Rightarrow> (if c (FormatLabelSelector lib s) = None
                   then c(FormatLabelSelector lib s \<mapsto> LabelSelectorAsSelector lib s) else c))"
  by (auto simp: selectorMatches_def Let_def split: option.splits sum.splits)

lemma selectorMatches_cache_ok:
  "cache_ok lib c \<Longrightarrow> cache_ok lib (snd (selectorMatches lib c selector lbls))"
  by (auto simp: snd_selectorMatches cache_ok_store split: option.splits)

lemma selectorMatches_outcome:
  assumes "selector_lib_ok lib" and "cache_ok lib c"
  shows "outcome (fst (selectorMatches lib c (Some s) lbls)) = outcome (selector_result lib s lbls)"
proof (cases "c (FormatLabelSelector lib s)")
  case None
  then show ?thesis
    by (simp add: selectorMatches_def selector_result_def Let_def split: sum.splits)
next
  case (Some v)
  with assms(2) obtain t where t: "FormatLabelSelector lib t = FormatLabelSelector lib s"
      "LabelSelectorAsSelector lib t = v" by (auto simp: cache_ok_def)
  with assms(1) have "case (v, LabelSelectorAsSelector lib s) of
      (Inl _, Inl _) \<Rightarrow> True | (Inr a, Inr b) \<Rightarrow> SelectorMatches lib a = SelectorMatches lib b | _ \<Rightarrow> False"
    unfolding selector_lib_ok_def by blast
  then show ?thesis using Some
    by (auto simp: selectorMatches_def selector_result_def Let_def split: sum.splits)
qed

section \<open>A concrete selector library\<close>

text \<open>
  Used by the examples: a selector is the text \<open>key=value\<close> of one requirement, the text
  \<open>!\<close> does not compile.
\<close>

definition sample_selectors :: selector_lib where
  "sample_selectors = \<lparr>
     FormatLabelSelector = (\<lambda>s. case s of Opaque t \<Rightarrow> if t = ''!'' then ''<error>'' else t),
     LabelSelectorAsSelector = (\<lambda>s. case s of Opaque t \<Rightarrow> if t = ''!'' then Inl ''invalid selector''
                                    else if t = ''<error>'' then Inl ''invalid selector'' else Inr s),
     SelectorMatches = (\<lambda>s l. case s of Opaque t \<Rightarrow> (\<exists>k \<in> fset (fmdom l). k @ ''='' @ the (fmlookup l k) = t))\<rparr>"

lemma sample_selectors_ok: "selector_lib_ok sample_selectors"
  by (auto simp: selector_lib_ok_def sample_selectors_def split: k8s_opaque.splits if_splits)

end
