(* ===== verification/First_Match.thy ===== *)
theory First_Match
  imports Main
begin

text \<open>
  The contract of an ordered rule engine: rules are tried in order, the first rule that
  decides ends the evaluation, a rule that does not decide falls through. Both rule engines of
  the system, the activity rules of the controller and the filter rules of the backend,
  promise it. The engine runs in an environment \<open>e\<close> (libraries, caches and the labels
  the rules are matched against), and \<open>step e r\<close> is the outcome of a rule that decides.
\<close>

locale first_match =
  fixes env_ok :: "'e \<Rightarrow> bool"
    and decide :: "'e \<Rightarrow> 'r list \<Rightarrow> 'd"
    and step :: "'e \<Rightarrow> 'r \<Rightarrow> 'd option"
    and fallback :: "'e \<Rightarrow> 'd"
  assumes decide_Nil: "env_ok e \<Longrightarrow> decide e [] = fallback e"
    and decide_Cons: "env_ok e \<Longrightarrow>
      decide e (r # rs) = (case step e r of Some d \<Rightarrow> d | None \<Rightarrow> decide e rs)"
begin

lemma decide_append:
  assumes "env_ok e"
  shows "decide e (rs @ rs') =
    (if \<exists>r \<in> set rs. step e r \<noteq> None then decide e rs else decide e rs')"
  using assms by (induction rs) (auto simp: decide_Nil decide_Cons split: option.splits)

text \<open>The decision is that of the first rule that decides, or the fallback.\<close>

lemma decide_find:
  assumes "env_ok e"
  shows "decide e rs = (case List.find (\<lambda>r. step e r \<noteq> None) rs of
                          Some r \<Rightarrow> the (step e r) | None \<Rightarrow> fallback e)"
  using assms by (induction rs) (auto simp: decide_Nil decide_Cons split: option.splits)

lemma decide_fallback:
  "env_ok e \<Longrightarrow> \<forall>r \<in> set rs. step e r = None \<Longrightarrow> decide e rs = fallback e"
  by (induction rs) (auto simp: decide_Nil decide_Cons)

text \<open>A rule that does not decide can be added or removed anywhere.\<close>

lemma decide_skip:
  assumes "env_ok e" and "step e r = None"
  shows "decide e (rs @ r # rs') = decide e (rs @ rs')"
  using assms by (induction rs) (auto simp: decide_Cons split: option.splits)

text \<open>Rules after one that always decides are dead.\<close>

lemma decide_stop:
  assumes "env_ok e" and "step e r \<noteq> None"
  shows "decide e (rs @ r # rs') = decide e (rs @ [r])"
  using assms by (induction rs) (auto simp: decide_Cons split: option.splits)

lemma decide_cases:
  assumes "env_ok e"
  obtains (first) rs1 r rs2 where "rs = rs1 @ r # rs2" and "\<forall>r' \<in> set rs1. step e r' = None"
      and "step e r = Some (decide e rs)"
    | (fallback) "\<forall>r \<in> set rs. step e r = None" and "decide e rs = fallback e"
proof (cases "\<exists>r \<in> set rs. step e r \<noteq> None")
  case True
  then obtain rs1 r rs2 where rs: "rs = rs1 @ r # rs2" "step e r \<noteq> None" "\<forall>r' \<in> set rs1. step e r' = None"
    using split_list_first_prop [of rs "\<lambda>r. step e r \<noteq> None"] by auto
  with assms have "decide e rs = the (step e r)"
    by (auto simp: decide_append decide_Cons split: option.splits)
  then show ?thesis using rs that(1) by force
next
  case False
  then show ?thesis using that(2) decide_fallback assms by blast
qed

end

end
