(* ===== verification/Activity_Rules.thy ===== *)
theory Activity_Rules
  imports Selectors First_Match
begin

text \<open>
  The activity rule engine and the pause arithmetic,
  \<open>controller/internal/helper/activity.go\<close>. The selector cache of
  \<^const>\<open>selectorMatches\<close> is threaded through every operation. The lemmas show that the
  engine is a first-match engine (an interpretation of the locale \<open>first_match\<close>) whose
  decision does not depend on the cache, and that the 64-bit pause arithmetic is exact for
  timestamps far beyond any a cluster will see.
\<close>

section \<open>Rule evaluation\<close>

record 'a ActivityRuleDecision =
  ard_Matched :: bool
  ard_Value :: 'a
  ard_SecondsSinceActive :: int
  ard_MinRunningSeconds :: int

text \<open>The zero value of the struct; \<open>zero\<close> is the zero value of the effect's type.\<close>

definition no_decision :: "'a \<Rightarrow> 'a ActivityRuleDecision" where
  "no_decision zero = \<lparr>ard_Matched = False, ard_Value = zero,
     ard_SecondsSinceActive = 0, ard_MinRunningSeconds = 0\<rparr>"

text \<open>One \<open>if match.X != nil\<close> block: an error or a failed match returns at once.\<close>

definition match_part ::
  "selector_lib \<Rightarrow> label_selector option \<Rightarrow> strmap \<Rightarrow> selector_cache \<Rightarrow> (string + bool) \<times> selector_cache"
where
  "match_part lib selector lbls c =
     (case selector of None \<Rightarrow> (Inr True, c) | Some s \<Rightarrow> selectorMatches lib c (Some s) lbls)"

definition activityRuleMatches ::
  "selector_lib \<Rightarrow> selector_cache \<Rightarrow> ActivityRuleMatch option \<Rightarrow> strmap \<Rightarrow> strmap
     \<Rightarrow> (string + bool) \<times> selector_cache"
where
  "activityRuleMatches lib c mtch namespaceLabels podConfigLabels =
     (case mtch of
        None \<Rightarrow> (Inr True, c)
      | Some m \<Rightarrow>
          if arm_MatchNamespace m = None \<and> arm_MatchPodConfig m = None then (Inr True, c)
          else (case match_part lib (arm_MatchNamespace m) namespaceLabels c of
                  (Inl err, c') \<Rightarrow> (Inl err, c')
                | (Inr False, c') \<Rightarrow> (Inr False, c')
                | (Inr True, c') \<Rightarrow> match_part lib (arm_MatchPodConfig m) podConfigLabels c'))"

definition rule_decision :: "ActivityRule \<Rightarrow> 'a \<Rightarrow> 'a ActivityRuleDecision" where
  "rule_decision rule effect =
     \<lparr>ard_Matched = True, ard_Value = effect,
      ard_SecondsSinceActive = arc_SecondsSinceActive (ar_Config rule),
      ard_MinRunningSeconds = (case arc_MinRunningSeconds (ar_Config rule) of Some s \<Rightarrow> s | None \<Rightarrow> 0)\<rparr>"

fun evaluate_rules_loop ::
  "selector_lib \<Rightarrow> (ActivityRuleEffect \<Rightarrow> 'a option) \<Rightarrow> 'a \<Rightarrow> strmap \<Rightarrow> strmap \<Rightarrow> nat \<Rightarrow>
     ActivityRule list \<Rightarrow> selector_cache \<Rightarrow> (string + 'a ActivityRuleDecision) \<times> selector_cache"
where
  "evaluate_rules_loop lib getEffect zero ns pc i [] c = (Inr (no_decision zero), c)"
| "evaluate_rules_loop lib getEffect zero ns pc i (rule # rules) c =
     (case getEffect (ar_Effect rule) of
        None \<Rightarrow> evaluate_rules_loop lib getEffect zero ns pc (i + 1) rules c
      | Some effect \<Rightarrow>
          (case activityRuleMatches lib c (ar_Match rule) ns pc of
             (Inl err, c') \<Rightarrow>
               (Inl (''failed to evaluate match for activityRule['' @ nat_dec i @ '']: '' @ err), c')
           | (Inr matched, c') \<Rightarrow>
               if \<not> matched then evaluate_rules_loop lib getEffect zero ns pc (i + 1) rules c'
               else (Inr (rule_decision rule effect), c')))"

definition EvaluateActivityRule ::
  "selector_lib \<Rightarrow> selector_cache \<Rightarrow> ActivityRule list \<Rightarrow> strmap \<Rightarrow> strmap \<Rightarrow>
     (ActivityRuleEffect \<Rightarrow> 'a option) \<Rightarrow> 'a \<Rightarrow> (string + 'a ActivityRuleDecision) \<times> selector_cache"
where
  "EvaluateActivityRule lib c rules namespaceLabels podConfigLabels getEffect zero =
     evaluate_rules_loop lib getEffect zero namespaceLabels podConfigLabels 0 rules c"

definition EvaluatePauseWorkspaceRule ::
  "selector_lib \<Rightarrow> selector_cache \<Rightarrow> ActivityRule list \<Rightarrow> strmap \<Rightarrow> strmap
     \<Rightarrow> (string + bool ActivityRuleDecision) \<times> selector_cache"
where
  "EvaluatePauseWorkspaceRule lib c rules namespaceLabels podConfigLabels =
     EvaluateActivityRule lib c rules namespaceLabels podConfigLabels are_PauseWorkspace False"

definition PodConfigLabelsToMap :: "PodConfigValue option \<Rightarrow> strmap" where
  "PodConfigLabelsToMap podConfig =
     (case podConfig of
        None \<Rightarrow> fmempty
      | Some pc \<Rightarrow> fold (\<lambda>l m. fmupd (osl_Key l) (osl_Value l) m) (osi_Labels (pc_Spawner pc)) fmempty)"

section \<open>Pause arithmetic\<close>

definition CalculateEligibleAfter :: "int \<Rightarrow> int \<Rightarrow> int" where
  "CalculateEligibleAfter lastActivity secondsSinceActive =
     (if lastActivity \<le> 0 then 0
      else wrap64 (lastActivity + dur_to_millis (dur_seconds secondsSinceActive)))"

definition IsEligibleForPause :: "int \<Rightarrow> int \<Rightarrow> int \<Rightarrow> int \<Rightarrow> int \<Rightarrow> bool \<times> int" where
  "IsEligibleForPause lastActivity lastRunningTime now secondsSinceActive minRunningSeconds =
     (let eligibleAfter = CalculateEligibleAfter lastActivity secondsSinceActive in
      if lastActivity \<le> 0 then (False, eligibleAfter)
      else if now < eligibleAfter then (False, eligibleAfter)
      else if minRunningSeconds > 0 \<and> lastRunningTime \<le> 0 then (False, eligibleAfter)
      else if minRunningSeconds > 0 \<and>
              dur_millis (wrap64 (now - lastRunningTime)) < dur_seconds minRunningSeconds
           then (False, eligibleAfter)
      else (True, eligibleAfter))"

section \<open>The engine is cache-independent first match\<close>

text \<open>Uncached matching of one rule.\<close>

definition part_result :: "selector_lib \<Rightarrow> label_selector option \<Rightarrow> strmap \<Rightarrow> string + bool" where
  "part_result lib selector lbls =
     (case selector of None \<Rightarrow> Inr True | Some s \<Rightarrow> selector_result lib s lbls)"

definition match_result :: "selector_lib \<Rightarrow> ActivityRuleMatch option \<Rightarrow> strmap \<Rightarrow> strmap \<Rightarrow> string + bool" where
  "match_result lib mtch ns pc =
     (case mtch of
        None \<Rightarrow> Inr True
      | Some m \<Rightarrow> (case part_result lib (arm_MatchNamespace m) ns of
                     Inr True \<Rightarrow> part_result lib (arm_MatchPodConfig m) pc
                   | r \<Rightarrow> r))"

text \<open>What a single rule decides: an error, a decision, or nothing.\<close>

definition rule_step ::
  "selector_lib \<Rightarrow> (ActivityRuleEffect \<Rightarrow> 'a option) \<Rightarrow> strmap \<Rightarrow> strmap \<Rightarrow> ActivityRule
     \<Rightarrow> (unit + 'a ActivityRuleDecision) option"
where
  "rule_step lib getEffect ns pc rule =
     (case getEffect (ar_Effect rule) of
        None \<Rightarrow> None
      | Some effect \<Rightarrow> (case match_result lib (ar_Match rule) ns pc of
                         Inl _ \<Rightarrow> Some (Inl ())
                       | Inr True \<Rightarrow> Some (Inr (rule_decision rule effect))
                       | Inr False \<Rightarrow> None))"

lemma match_part_spec:
  assumes "selector_lib_ok lib" and "cache_ok lib c"
  shows "outcome (fst (match_part lib s l c)) = outcome (part_result lib s l)"
    and "cache_ok lib (snd (match_part lib s l c))"
  using assms selectorMatches_outcome selectorMatches_cache_ok
  by (auto simp: match_part_def part_result_def split: option.splits)

lemma activityRuleMatches_spec:
  assumes "selector_lib_ok lib" and "cache_ok lib c"
  shows "outcome (fst (activityRuleMatches lib c m ns pc)) = outcome (match_result lib m ns pc)"
    and "cache_ok lib (snd (activityRuleMatches lib c m ns pc))"
proof -
  have "outcome (fst (activityRuleMatches lib c (Some m) ns pc)) = outcome (match_result lib (Some m) ns pc)
        \<and> cache_ok lib (snd (activityRuleMatches lib c (Some m) ns pc))" for m
  proof (cases "arm_MatchNamespace m = None \<and> arm_MatchPodConfig m = None")
    case True
    then show ?thesis using assms(2)
      by (simp add: activityRuleMatches_def match_result_def part_result_def)
  next
    case False
    obtain r c' where part: "match_part lib (arm_MatchNamespace m) ns c = (r, c')" by force
    with match_part_spec [OF assms, of "arm_MatchNamespace m" ns]
    have r: "outcome r = outcome (part_result lib (arm_MatchNamespace m) ns)" and c': "cache_ok lib c'"
      by simp_all
    show ?thesis
    proof (cases r)
      case (Inl e)
      then show ?thesis using False part r c'
        by (cases "part_result lib (arm_MatchNamespace m) ns")
           (simp_all add: activityRuleMatches_def match_result_def)
    next
      case (Inr b)
      with r have "part_result lib (arm_MatchNamespace m) ns = Inr b"
        by (cases "part_result lib (arm_MatchNamespace m) ns") simp_all
      then show ?thesis using False part c' Inr match_part_spec [OF assms(1) c']
        by (cases b) (auto simp: activityRuleMatches_def match_result_def split del: if_split)
    qed
  qed
  then show "outcome (fst (activityRuleMatches lib c m ns pc)) = outcome (match_result lib m ns pc)"
    and "cache_ok lib (snd (activityRuleMatches lib c m ns pc))"
    using assms(2) by (cases m; simp add: activityRuleMatches_def match_result_def)+
qed

lemma evaluate_rules_loop_Cons:
  assumes "selector_lib_ok lib" and "cache_ok lib c"
  obtains c' where "cache_ok lib c'" and
    "outcome (fst (evaluate_rules_loop lib g z ns pc i (rule # rules) c)) =
       (case rule_step lib g ns pc rule of
          Some d \<Rightarrow> d | None \<Rightarrow> outcome (fst (evaluate_rules_loop lib g z ns pc (i + 1) rules c')))"
    and "rule_step lib g ns pc rule = None \<Longrightarrow>
       snd (evaluate_rules_loop lib g z ns pc i (rule # rules) c)
         = snd (evaluate_rules_loop lib g z ns pc (i + 1) rules c')"
    and "rule_step lib g ns pc rule \<noteq> None \<Longrightarrow>
       snd (evaluate_rules_loop lib g z ns pc i (rule # rules) c) = c'"
proof (cases "g (ar_Effect rule)")
  case None
  then show ?thesis using that [of c] assms by (simp add: rule_step_def)
next
  case (Some effect)
  obtain r c' where res: "activityRuleMatches lib c (ar_Match rule) ns pc = (r, c')" by force
  with activityRuleMatches_spec [OF assms, of "ar_Match rule" ns pc]
  have r: "outcome (match_result lib (ar_Match rule) ns pc) = outcome r" and c': "cache_ok lib c'"
    by simp_all
  show ?thesis
  proof (cases r)
    case (Inl e)
    with r have "\<exists>e'. match_result lib (ar_Match rule) ns pc = Inl e'" by (simp add: isl_def)
    then show ?thesis using that [OF c'] Some res Inl by (auto simp: rule_step_def)
  next
    case (Inr b)
    with r have "match_result lib (ar_Match rule) ns pc = Inr b" by simp
    then show ?thesis using that [OF c'] Some res Inr
      by (cases b) (auto simp: rule_step_def)
  qed
qed

lemma evaluate_rules_loop_cache_ok:
  assumes "selector_lib_ok lib" and "cache_ok lib c"
  shows "cache_ok lib (snd (evaluate_rules_loop lib g z ns pc i rules c))"
  using assms(2)
proof (induction rules arbitrary: i c)
  case Nil
  then show ?case by simp
next
  case (Cons rule rules)
  show ?case
    by (rule evaluate_rules_loop_Cons [OF assms(1) Cons.prems, of g z ns pc i rule rules])
       (metis Cons.IH)
qed

text \<open>Neither the cache nor the index of the first rule changes the decision.\<close>

lemma evaluate_rules_loop_indep:
  assumes "selector_lib_ok lib" and "cache_ok lib c" and "cache_ok lib d"
  shows "outcome (fst (evaluate_rules_loop lib g z ns pc i rules c)) =
         outcome (fst (evaluate_rules_loop lib g z ns pc j rules d))"
  using assms(2,3)
proof (induction rules arbitrary: i j c d)
  case Nil
  then show ?case by simp
next
  case (Cons rule rules)
  obtain c' where c': "cache_ok lib c'"
      "outcome (fst (evaluate_rules_loop lib g z ns pc i (rule # rules) c)) =
       (case rule_step lib g ns pc rule of
          Some d \<Rightarrow> d | None \<Rightarrow> outcome (fst (evaluate_rules_loop lib g z ns pc (i + 1) rules c')))"
    by (rule evaluate_rules_loop_Cons [OF assms(1) Cons.prems(1), of g z ns pc i rule rules]) blast
  obtain d' where d': "cache_ok lib d'"
      "outcome (fst (evaluate_rules_loop lib g z ns pc j (rule # rules) d)) =
       (case rule_step lib g ns pc rule of
          Some d \<Rightarrow> d | None \<Rightarrow> outcome (fst (evaluate_rules_loop lib g z ns pc (j + 1) rules d')))"
    by (rule evaluate_rules_loop_Cons [OF assms(1) Cons.prems(2), of g z ns pc j rule rules]) blast
  show ?case using c' d' Cons.IH [OF c'(1) d'(1), of "i + 1" "j + 1"]
    by (simp split: option.splits)
qed

text \<open>
  The environment of the pause rules: the selector library, the current cache, and the labels
  of the namespace and of the pod config.
\<close>

type_synonym pause_env = "selector_lib \<times> selector_cache \<times> strmap \<times> strmap"

definition pause_env_ok :: "pause_env \<Rightarrow> bool" where
  "pause_env_ok e = (case e of (lib, c, ns, pc) \<Rightarrow> selector_lib_ok lib \<and> cache_ok lib c)"

definition pause_decision :: "pause_env \<Rightarrow> ActivityRule list \<Rightarrow> unit + bool ActivityRuleDecision" where
  "pause_decision e rules =
     (case e of (lib, c, ns, pc) \<Rightarrow> outcome (fst (EvaluatePauseWorkspaceRule lib c rules ns pc)))"

definition pause_step :: "pause_env \<Rightarrow> ActivityRule \<Rightarrow> (unit + bool ActivityRuleDecision) option" where
  "pause_step e rule =
     (case e of (lib, c, ns, pc) \<Rightarrow> rule_step lib are_PauseWorkspace ns pc rule)"

interpretation pause_rules: first_match pause_env_ok pause_decision pause_step
  "\<lambda>_. Inr (no_decision False)"
proof
  fix e :: pause_env and r rs
  obtain lib c ns pc where e: "e = (lib, c, ns, pc)" by (cases e)
  show "pause_env_ok e \<Longrightarrow> pause_decision e [] = Inr (no_decision False)"
    by (simp add: e pause_decision_def EvaluatePauseWorkspaceRule_def EvaluateActivityRule_def)
  assume "pause_env_ok e"
  then have ok: "selector_lib_ok lib" "cache_ok lib c" by (simp_all add: e pause_env_ok_def)
  obtain c' where c': "cache_ok lib c'"
      "outcome (fst (evaluate_rules_loop lib are_PauseWorkspace False ns pc 0 (r # rs) c)) =
       (case rule_step lib are_PauseWorkspace ns pc r of Some d \<Rightarrow> d
        | None \<Rightarrow> outcome (fst (evaluate_rules_loop lib are_PauseWorkspace False ns pc (0 + 1) rs c')))"
    by (rule evaluate_rules_loop_Cons [OF ok, of are_PauseWorkspace False ns pc 0 r rs]) blast
  with evaluate_rules_loop_indep [OF ok(1) c'(1) ok(2), of are_PauseWorkspace False ns pc "0 + 1" rs 0]
  show "pause_decision e (r # rs) = (case pause_step e r of Some d \<Rightarrow> d | None \<Rightarrow> pause_decision e rs)"
    by (simp add: e pause_decision_def pause_step_def EvaluatePauseWorkspaceRule_def
                  EvaluateActivityRule_def split: option.splits)
qed

section \<open>Properties\<close>

text \<open>
  C27. First match through the cache. Whatever earlier evaluations left in the selector cache,
  the pause decision is the one of the first rule that configures \<open>pauseWorkspace\<close> and
  whose selectors match (or fail to compile) when evaluated without any cache, and no rule
  matching gives the decision \<open>Matched = false\<close>; the cache stays consistent.
\<close>

theorem pause_rule_first_match:
  assumes "selector_lib_ok lib" and "cache_ok lib c"
  shows "outcome (fst (EvaluatePauseWorkspaceRule lib c rules ns pc)) =
           (case List.find (\<lambda>r. rule_step lib are_PauseWorkspace ns pc r \<noteq> None) rules of
              Some r \<Rightarrow> the (rule_step lib are_PauseWorkspace ns pc r)
            | None \<Rightarrow> Inr (no_decision False))
         \<and> cache_ok lib (snd (EvaluatePauseWorkspaceRule lib c rules ns pc))"
proof -
  have "pause_env_ok (lib, c, ns, pc)" using assms by (simp add: pause_env_ok_def)
  from pause_rules.decide_find [OF this, of rules] evaluate_rules_loop_cache_ok [OF assms]
  show ?thesis
    by (simp add: pause_decision_def pause_step_def EvaluatePauseWorkspaceRule_def
                  EvaluateActivityRule_def cong: option.case_cong)
qed

text \<open>
  The witness: a rule whose namespace selector does not match falls through to the catch-all,
  with a cache that already holds the selector.
\<close>

definition gpu_rule :: ActivityRule where
  "gpu_rule = \<lparr>ar_Config = \<lparr>arc_SecondsSinceActive = 600, arc_MinRunningSeconds = None\<rparr>,
     ar_Match = Some \<lparr>arm_MatchNamespace = Some (Opaque ''tier=gpu''), arm_MatchPodConfig = None\<rparr>,
     ar_Effect = \<lparr>are_PauseWorkspace = Some False\<rparr>\<rparr>"

definition catch_all_rule :: ActivityRule where
  "catch_all_rule = \<lparr>ar_Config = \<lparr>arc_SecondsSinceActive = 3600, arc_MinRunningSeconds = Some 60\<rparr>,
     ar_Match = None, ar_Effect = \<lparr>are_PauseWorkspace = Some True\<rparr>\<rparr>"

definition gpu_cache :: selector_cache where
  "gpu_cache = [''tier=gpu'' \<mapsto> Inr (Opaque ''tier=gpu'')]"

lemma gpu_cache_ok: "cache_ok sample_selectors gpu_cache"
  by (auto simp: cache_ok_def gpu_cache_def sample_selectors_def intro!: exI [of _ "Opaque ''tier=gpu''"]
           split: if_splits)

theorem pause_rule_first_match_witness:
  "fst (EvaluatePauseWorkspaceRule sample_selectors gpu_cache [gpu_rule, catch_all_rule] fmempty fmempty)
     = Inr \<lparr>ard_Matched = True, ard_Value = True, ard_SecondsSinceActive = 3600, ard_MinRunningSeconds = 60\<rparr>"
proof -
  have "rule_step sample_selectors are_PauseWorkspace fmempty fmempty gpu_rule = None"
    by (simp add: rule_step_def gpu_rule_def match_result_def part_result_def selector_result_def
                  sample_selectors_def)
  moreover have "rule_step sample_selectors are_PauseWorkspace fmempty fmempty catch_all_rule
      = Some (Inr (rule_decision catch_all_rule True))"
    by (simp add: rule_step_def catch_all_rule_def match_result_def)
  ultimately show ?thesis
    using pause_rule_first_match [OF sample_selectors_ok gpu_cache_ok,
            of "[gpu_rule, catch_all_rule]" fmempty fmempty]
    by (simp add: rule_decision_def catch_all_rule_def)
qed

text \<open>
  C34. The pause arithmetic is exact. For 32-bit rule settings and millisecond timestamps up to
  the year 2255 (the last activity, which a probe reports, may be anything up to \<open>2^62\<close>), the
  wrapping 64-bit code decides exactly: the activity time is known, \<open>secondsSinceActive\<close>
  have passed since it, and the Workspace has been running for \<open>minRunningSeconds\<close>.
\<close>

theorem IsEligibleForPause_exact:
  assumes "is_int32 s" and "is_int32 m" and "lastActivity \<le> 2 ^ 62"
    and "0 \<le> now" "now \<le> 9000000000000" and "0 \<le> lastRunning" "lastRunning \<le> 9000000000000"
  shows "IsEligibleForPause lastActivity lastRunning now s m =
    (0 < lastActivity \<and> lastActivity + 1000 * s \<le> now \<and>
       (0 < m \<longrightarrow> 0 < lastRunning \<and> 1000 * m \<le> now - lastRunning),
     if lastActivity \<le> 0 then 0 else lastActivity + 1000 * s)"
proof -
  have ea: "CalculateEligibleAfter lastActivity s = (if lastActivity \<le> 0 then 0 else lastActivity + 1000 * s)"
  proof (cases "lastActivity \<le> 0")
    case False
    then have "is_int64 (lastActivity + 1000 * s)"
      using assms(1,3) by (auto simp: is_int64_def is_int32_def)
    with False show ?thesis
      by (simp add: CalculateEligibleAfter_def dur_to_millis_seconds [OF assms(1)] mult.commute)
  qed (simp add: CalculateEligibleAfter_def)
  have "wrap64 (now - lastRunning) = now - lastRunning" "\<bar>now - lastRunning\<bar> \<le> 9000000000000"
    using assms(4-7) by (simp_all add: is_int64_def abs_le_iff)
  then have run: "dur_millis (wrap64 (now - lastRunning)) < dur_seconds m \<longleftrightarrow> now - lastRunning < 1000 * m"
    by (simp add: dur_millis_bounded dur_seconds_int32 [OF assms(2)]) linarith
  show ?thesis
    by (auto simp: IsEligibleForPause_def Let_def ea run)
qed

theorem IsEligibleForPause_exact_witness:
  "IsEligibleForPause 1000 500 5000 4 2 = (True, 5000) \<and> IsEligibleForPause 1000 500 4999 4 2 = (False, 5000)"
  using IsEligibleForPause_exact [of 4 2 1000 5000 500] IsEligibleForPause_exact [of 4 2 1000 4999 500]
  by (simp add: is_int32_def)

end
