(* ===== verification/Probe.thy ===== *)
theory Probe
  imports Cluster_Objects
begin

text \<open>
  Activity probes, \<open>controller/internal/helper/probe.go\<close>. The HTTP client and the pod
  executor are the interfaces \<open>HTTPProber\<close> and \<open>PodExecutor\<close> of the source: functions
  from the request (with the deadline of its context) to what came back. JSON decoding and
  \<open>time.Parse\<close> are the record \<open>probe_lib\<close>. The instants the code reads with
  \<open>time.Now\<close> are the record \<open>probe_clock\<close>.

  The lemmas show that a probe that did not succeed never carries an activity time, that
  \<open>parsePodExecOutput\<close> implements the contract of the CRD, and that no more than
  \<open>maxProbeResponseBytes\<close> of what a Workspace sends are kept.
\<close>

section \<open>Results\<close>

record ProbeResult =
  pb_StartTime :: int
  pb_EndTime :: int
  pb_Result :: WorkspaceProbeResult
  pb_Message :: string
  pb_LastActivity :: "int option"

record probe_clock =
  clk_start :: int
  clk_end :: int
  clk_fail :: int

definition Succeeded :: "ProbeResult \<Rightarrow> bool" where
  "Succeeded r \<longleftrightarrow> pb_Result r = WorkspaceProbeResultSuccess"

definition newFailureResult :: "probe_clock \<Rightarrow> int \<Rightarrow> string \<Rightarrow> ProbeResult" where
  "newFailureResult clk startTime message =
     \<lparr>pb_StartTime = startTime, pb_EndTime = clk_fail clk, pb_Result = WorkspaceProbeResultFailure,
      pb_Message = message, pb_LastActivity = None\<rparr>"

definition newTimeoutResult :: "int \<Rightarrow> int \<Rightarrow> string \<Rightarrow> ProbeResult" where
  "newTimeoutResult startTime endTime message =
     \<lparr>pb_StartTime = startTime, pb_EndTime = endTime, pb_Result = WorkspaceProbeResultTimeout,
      pb_Message = message, pb_LastActivity = None\<rparr>"

definition newSuccessResult :: "int \<Rightarrow> int \<Rightarrow> string \<Rightarrow> int option \<Rightarrow> ProbeResult" where
  "newSuccessResult startTime endTime message lastActivity =
     \<lparr>pb_StartTime = startTime, pb_EndTime = endTime, pb_Result = WorkspaceProbeResultSuccess,
      pb_Message = message, pb_LastActivity = lastActivity\<rparr>"

lemma probe_result_simps [simp]:
  "\<not> Succeeded (newFailureResult clk s m)" "\<not> Succeeded (newTimeoutResult s e m)"
  "Succeeded (newSuccessResult s e m l)"
  "pb_LastActivity (newFailureResult clk s m) = None" "pb_LastActivity (newTimeoutResult s e m) = None"
  "pb_LastActivity (newSuccessResult s e m l) = l"
  "pb_StartTime (newFailureResult clk s m) = s" "pb_StartTime (newTimeoutResult s e m) = s"
  "pb_StartTime (newSuccessResult s e m l) = s"
  "pb_EndTime (newFailureResult clk s m) = clk_fail clk" "pb_EndTime (newTimeoutResult s e m) = e"
  "pb_EndTime (newSuccessResult s e m l) = e"
  by (simp_all add: Succeeded_def newFailureResult_def newTimeoutResult_def newSuccessResult_def)

section \<open>Constants\<close>

definition maxProbeResponseBytes :: nat where "maxProbeResponseBytes = 1048576"

lemma maxProbeResponseBytes_shift: "maxProbeResponseBytes = push_bit 20 1"
  by (simp add: maxProbeResponseBytes_def push_bit_eq_mult)

definition probeContainerName :: string where "probeContainerName = ''main''"
definition jupyterStatusPath :: string where "jupyterStatusPath = ''/api/status''"
definition ProbeMessagePrefixJupyterFailed :: string where
  "ProbeMessagePrefixJupyterFailed = ''Jupyter probe failed: ''"
definition ProbeMessageJupyterSucceeded :: string where
  "ProbeMessageJupyterSucceeded = ''Jupyter probe succeeded''"
definition ProbeMessagePrefixPodExecFailed :: string where
  "ProbeMessagePrefixPodExecFailed = ''PodExec probe failed: ''"
definition ProbeMessagePodExecSucceeded :: string where
  "ProbeMessagePodExecSucceeded = ''PodExec probe succeeded''"
definition ProbeMessagePodNotReady :: string where
  "ProbeMessagePodNotReady = ''probe failed: Workspace Pod is not ready''"
definition ProbeMessageNoTypeConfigured :: string where
  "ProbeMessageNoTypeConfigured = ''probe failed: no probe type configured''"

section \<open>Decoding\<close>

text \<open>The JSON contract of a podExec script.\<close>

record podExecOutput =
  poe_HasActivity :: "bool option"
  poe_LastActivity :: "string option"

text \<open>
  \<open>UnmarshalStatus\<close> is \<open>json.Unmarshal\<close> into a \<open>jupyterStatusResponse\<close> (the
  text of its only field, empty when absent), \<open>UnmarshalPodExec\<close> into a
  \<open>podExecOutput\<close>. \<open>ParseTime\<close> is \<open>time.Parse\<close>, whose first argument is the
  layout.
\<close>

datatype time_layout = RFC3339 | RFC3339Nano

record probe_lib =
  UnmarshalStatus :: "string \<Rightarrow> string + string"
  UnmarshalPodExec :: "string \<Rightarrow> string + podExecOutput"
  ParseTime :: "time_layout \<Rightarrow> string \<Rightarrow> string + int"

definition parseISO8601 :: "probe_lib \<Rightarrow> string \<Rightarrow> string + int" where
  "parseISO8601 lib value =
     (if value = [] then Inl ''empty timestamp''
      else case ParseTime lib RFC3339 value of
             Inr t \<Rightarrow> Inr t
           | Inl _ \<Rightarrow> (case ParseTime lib RFC3339Nano value of
                        Inr t \<Rightarrow> Inr t
                      | Inl err \<Rightarrow> Inl (''cannot parse timestamp '' @ go_quote value @ '': '' @ err)))"

definition parsePodExecOutput :: "probe_lib \<Rightarrow> string \<Rightarrow> int \<Rightarrow> string + int option" where
  "parsePodExecOutput lib raw endTime =
     (let trimmed = trim_space raw in
      if trimmed = [] then Inr (Some endTime)
      else case UnmarshalPodExec lib trimmed of
             Inl err \<Rightarrow> Inl (''invalid JSON file: '' @ err)
           | Inr out \<Rightarrow>
               (case poe_HasActivity out of
                  Some True \<Rightarrow> Inr (Some endTime)
                | Some False \<Rightarrow> Inr None
                | None \<Rightarrow>
                    (case poe_LastActivity out of
                       Some v \<Rightarrow> (case parseISO8601 lib v of
                                   Inl err \<Rightarrow> Inl (''invalid JSON file: '' @ err)
                                 | Inr t \<Rightarrow> Inr (Some t))
                     | None \<Rightarrow> Inr (Some endTime))))"

section \<open>The bounded output buffer\<close>

text \<open>
  \<open>limitedBuffer.Write\<close>: the new contents and the number of bytes reported as written
  (the error is always nil).
\<close>

definition limitedBuffer_Write :: "nat \<Rightarrow> string \<Rightarrow> string \<Rightarrow> string \<times> nat" where
  "limitedBuffer_Write limit buf p =
     (if limit \<le> length buf then (buf, length p)
      else let p' = (if limit < length buf + length p then take (limit - length buf) p else p)
           in (buf @ p', length p'))"

definition write_all :: "nat \<Rightarrow> string list \<Rightarrow> string" where
  "write_all limit chunks = fold (\<lambda>p buf. fst (limitedBuffer_Write limit buf p)) chunks []"

section \<open>The Jupyter probe\<close>

text \<open>
  An answer of the HTTP client: an error (with whether it is \<open>context.DeadlineExceeded\<close>),
  or a response with its status code and body. The body is the bytes that can be read and the
  error that ends them, if any.
\<close>

datatype http_result =
    HttpError string bool
  | HttpResponse int string "string option"

text \<open>The request carries its timeout, if any; the flag says whether the context had expired.\<close>

type_synonym http_get = "int option \<Rightarrow> string \<Rightarrow> http_result \<times> bool"

definition isDeadlineExceeded :: "bool \<Rightarrow> bool \<Rightarrow> bool" where
  "isDeadlineExceeded ctxExpired errIsDeadline \<longleftrightarrow> ctxExpired \<or> errIsDeadline"

text \<open>\<open>io.ReadAll(io.LimitReader(body, n))\<close>.\<close>

definition limited_read :: "nat \<Rightarrow> string \<Rightarrow> string option \<Rightarrow> string + string" where
  "limited_read n body err =
     (if n \<le> length body then Inr (take n body)
      else case err of None \<Rightarrow> Inr body | Some e \<Rightarrow> Inl e)"

definition probe_timeout :: "int \<Rightarrow> int option" where
  "probe_timeout timeout = (if timeout > 0 then Some timeout else None)"

definition jupyter_url :: "string \<Rightarrow> int \<Rightarrow> string \<Rightarrow> string" where
  "jupyter_url serviceHost port basePath =
     ''http://'' @ serviceHost @ '':'' @ int_dec port @ trim_suffix basePath ''/'' @ jupyterStatusPath"

definition RunJupyterProbe ::
  "probe_lib \<Rightarrow> probe_clock \<Rightarrow> http_get \<Rightarrow> string \<Rightarrow> int \<Rightarrow> string \<Rightarrow> int \<Rightarrow> ProbeResult"
where
  "RunJupyterProbe lib clk Get serviceHost port basePath timeout =
     (let startTime = clk_start clk; endTime = clk_end clk; pre = ProbeMessagePrefixJupyterFailed in
      case Get (probe_timeout timeout) (jupyter_url serviceHost port basePath) of
        (HttpError err isDeadline, ctxExpired) \<Rightarrow>
          if isDeadlineExceeded ctxExpired isDeadline
          then newTimeoutResult startTime endTime
                 (pre @ ''timeout after '' @ int_dec (dur_to_millis timeout) @ ''ms'')
          else newFailureResult clk startTime (pre @ err)
      | (HttpResponse status rest err, _) \<Rightarrow>
          if status < 200 \<or> status \<ge> 300
          then newFailureResult clk startTime (pre @ ''HTTP '' @ int_dec status)
          else case limited_read maxProbeResponseBytes rest err of
                 Inl e \<Rightarrow> newFailureResult clk startTime (pre @ ''unable to read response body: '' @ e)
               | Inr body \<Rightarrow>
                   (case UnmarshalStatus lib body of
                      Inl _ \<Rightarrow> newFailureResult clk startTime (pre @ ''invalid response body'')
                    | Inr lastActivityText \<Rightarrow>
                        (case parseISO8601 lib lastActivityText of
                           Inl e \<Rightarrow> newFailureResult clk startTime (pre @ ''invalid last_activity: '' @ e)
                         | Inr lastActivity \<Rightarrow>
                             newSuccessResult startTime endTime ProbeMessageJupyterSucceeded
                               (Some lastActivity))))"

section \<open>The podExec probe\<close>

text \<open>
  \<open>randomOutputPath\<close> reads sixteen random bytes, which may fail.
\<close>

definition randomOutputPath :: "string + string \<Rightarrow> string + string" where
  "randomOutputPath random =
     (case random of
        Inl err \<Rightarrow> Inl err
      | Inr buf \<Rightarrow> Inr (''/tmp/.ws-activity-probe-''
          @ concat (map (\<lambda>c. let n = (of_char c :: nat) in [hex_digit (n div 16), hex_digit (n mod 16)]) buf)
          @ ''.json''))"

record exec_error =
  ee_Message :: string
  ee_Deadline :: bool
  ee_ExitStatus :: "int option"

text \<open>
  What an execution does: its error, the chunks written to the two output buffers, and whether
  the context had expired.
\<close>

record exec_outcome =
  ex_Err :: "exec_error option"
  ex_Stdout :: "string list"
  ex_Stderr :: "string list"
  ex_CtxExpired :: bool

record exec_request =
  er_Timeout :: "int option"
  er_Namespace :: string
  er_PodName :: string
  er_Container :: string
  er_Command :: "string list"
  er_Stdin :: string

type_synonym pod_exec = "exec_request \<Rightarrow> exec_outcome"

definition exitCodeFromError :: "exec_error \<Rightarrow> int \<times> bool" where
  "exitCodeFromError e = (case ee_ExitStatus e of Some code \<Rightarrow> (code, True) | None \<Rightarrow> (0, False))"

definition dquoted :: "string \<Rightarrow> string" where
  "dquoted s = [CHR 0x22] @ s @ [CHR 0x22]"

definition probe_shell_command :: "string \<Rightarrow> string \<Rightarrow> string" where
  "probe_shell_command scriptPath outputPath =
     (let s = dquoted scriptPath; out = dquoted outputPath in
      ''cat > '' @ s @ '' && chmod +x '' @ s @ '' && OUTPUT_JSON_PATH='' @ out @ '' '' @ s
      @ '' >/dev/null; rc=$?; rm -f '' @ s @ ''; ''
      @ ''if [ $rc -ne 0 ]; then exit $rc; fi; ''
      @ ''if [ -f '' @ out @ '' ]; then cat '' @ out @ ''; rm -f '' @ out @ ''; fi'')"

definition RunPodExecProbe ::
  "probe_lib \<Rightarrow> probe_clock \<Rightarrow> string + string \<Rightarrow> pod_exec \<Rightarrow> string \<Rightarrow> string \<Rightarrow> string \<Rightarrow> int \<Rightarrow> ProbeResult"
where
  "RunPodExecProbe lib clk random Exec namespace podName script timeout =
     (let startTime = clk_start clk; endTime = clk_end clk; pre = ProbeMessagePrefixPodExecFailed in
      case randomOutputPath random of
        Inl err \<Rightarrow> newFailureResult clk startTime (pre @ ''unable to generate output path: '' @ err)
      | Inr outputPath \<Rightarrow>
          (let scriptPath = outputPath @ ''.script'';
               res = Exec \<lparr>er_Timeout = probe_timeout timeout, er_Namespace = namespace,
                           er_PodName = podName, er_Container = probeContainerName,
                           er_Command = [''/bin/sh'', ''-c'', probe_shell_command scriptPath outputPath],
                           er_Stdin = script\<rparr>;
               stdout = write_all maxProbeResponseBytes (ex_Stdout res)
           in case ex_Err res of
                Some execErr \<Rightarrow>
                  if isDeadlineExceeded (ex_CtxExpired res) (ee_Deadline execErr)
                  then newTimeoutResult startTime endTime
                         (pre @ ''timeout after '' @ int_dec (dur_to_millis timeout) @ ''ms'')
                  else (case exitCodeFromError execErr of
                          (code, True) \<Rightarrow>
                            newFailureResult clk startTime (pre @ ''unexpected exit code '' @ int_dec code)
                        | (_, False) \<Rightarrow> newFailureResult clk startTime (pre @ ee_Message execErr))
              | None \<Rightarrow>
                  (case parsePodExecOutput lib stdout endTime of
                     Inl err \<Rightarrow> newFailureResult clk startTime (pre @ err)
                   | Inr lastActivity \<Rightarrow>
                       newSuccessResult startTime endTime ProbeMessagePodExecSucceeded lastActivity)))"

section \<open>Only successful probes report activity\<close>

lemma RunJupyterProbe_failed:
  "\<not> Succeeded (RunJupyterProbe lib clk Get h p b t) \<Longrightarrow> pb_LastActivity (RunJupyterProbe lib clk Get h p b t) = None"
  by (auto simp: RunJupyterProbe_def Let_def split: prod.splits http_result.splits if_splits sum.splits)

lemma RunJupyterProbe_start [simp]: "pb_StartTime (RunJupyterProbe lib clk Get h p b t) = clk_start clk"
  by (auto simp: RunJupyterProbe_def Let_def split: prod.splits http_result.splits if_splits sum.splits)

lemma RunPodExecProbe_failed:
  "\<not> Succeeded (RunPodExecProbe lib clk rnd Exec n p s t) \<Longrightarrow>
     pb_LastActivity (RunPodExecProbe lib clk rnd Exec n p s t) = None"
  by (auto simp: RunPodExecProbe_def Let_def split: prod.splits option.splits if_splits sum.splits bool.splits)

lemma RunPodExecProbe_start [simp]: "pb_StartTime (RunPodExecProbe lib clk rnd Exec n p s t) = clk_start clk"
  by (auto simp: RunPodExecProbe_def Let_def split: prod.splits option.splits if_splits sum.splits bool.splits)

text \<open>A successful Jupyter probe always determines an activity time.\<close>

lemma RunJupyterProbe_succeeded:
  "Succeeded (RunJupyterProbe lib clk Get h p b t) \<Longrightarrow> pb_LastActivity (RunJupyterProbe lib clk Get h p b t) \<noteq> None"
  by (auto simp: RunJupyterProbe_def Let_def split: prod.splits http_result.splits if_splits sum.splits)

section \<open>The buffer keeps a prefix\<close>

lemma limitedBuffer_Write_prefix:
  "length buf \<le> limit \<Longrightarrow> fst (limitedBuffer_Write limit buf p) = take limit (buf @ p)"
  by (auto simp: limitedBuffer_Write_def Let_def)

lemma write_all_prefix: "write_all limit chunks = take limit (concat chunks)"
proof -
  have "length buf \<le> limit \<Longrightarrow>
      fold (\<lambda>p b. fst (limitedBuffer_Write limit b p)) chunks buf = take limit (buf @ concat chunks)" for buf
  proof (induction chunks arbitrary: buf)
    case (Cons p chunks)
    let ?buf' = "fst (limitedBuffer_Write limit buf p)"
    have buf': "?buf' = take limit (buf @ p)" by (rule limitedBuffer_Write_prefix [OF Cons.prems])
    then have "length ?buf' \<le> limit" by simp
    from Cons.IH [OF this] buf' show ?case by (simp add: min_def)
  qed simp
  from this [of "[]"] show ?thesis by (simp add: write_all_def)
qed

text \<open>
  A write that crosses the limit reports fewer bytes than it was given, with no error: the
  contract of \<open>io.Writer\<close> asks for an error then, and callers such as \<open>io.Copy\<close>
  turn the short count into one. A write after the limit reports all bytes.
\<close>

lemma limitedBuffer_short_write:
  assumes "length buf < limit" and "limit < length buf + length p"
  shows "snd (limitedBuffer_Write limit buf p) < length p"
    and "snd (limitedBuffer_Write limit (fst (limitedBuffer_Write limit buf p)) q) = length q"
  using assms by (auto simp: limitedBuffer_Write_def Let_def)

section \<open>Properties\<close>

text \<open>
  C36. Probe output is bounded. The outcome of a podExec probe depends on nothing the script
  writes beyond the first \<open>maxProbeResponseBytes\<close> bytes of its output, however the
  output is split into writes, and a Jupyter probe on nothing beyond as many bytes of the
  response body.
\<close>

theorem probe_output_bounded:
  assumes "\<And>req. ex_Err (E req) = ex_Err (E' req) \<and> ex_CtxExpired (E req) = ex_CtxExpired (E' req)"
    and "\<And>req. take maxProbeResponseBytes (concat (ex_Stdout (E req)))
               = take maxProbeResponseBytes (concat (ex_Stdout (E' req)))"
  shows "RunPodExecProbe lib clk rnd E n p s t = RunPodExecProbe lib clk rnd E' n p s t
     \<and> length (write_all maxProbeResponseBytes chunks) \<le> maxProbeResponseBytes
     \<and> (maxProbeResponseBytes \<le> length body \<longrightarrow>
          RunJupyterProbe lib clk (\<lambda>_ _. (HttpResponse code (body @ extra) err, x)) h port base t
          = RunJupyterProbe lib clk (\<lambda>_ _. (HttpResponse code body None, x)) h port base t)"
  using assms by (auto simp: RunPodExecProbe_def RunJupyterProbe_def write_all_prefix limited_read_def Let_def
                       cong: option.case_cong sum.case_cong)

text \<open>The example: two executors that write the same bytes in one and in two chunks.\<close>

definition exec_ok :: "string list \<Rightarrow> pod_exec" where
  "exec_ok chunks = (\<lambda>_. \<lparr>ex_Err = None, ex_Stdout = chunks, ex_Stderr = [], ex_CtxExpired = False\<rparr>)"

theorem probe_output_bounded_witness:
  "\<forall>lib clk. RunPodExecProbe lib clk (Inr []) (exec_ok [''{'', ''}'']) ''ns'' ''p'' ''#!/bin/sh'' 5
     = RunPodExecProbe lib clk (Inr []) (exec_ok [''{}'']) ''ns'' ''p'' ''#!/bin/sh'' 5"
  using probe_output_bounded [of "exec_ok [''{'', ''}'']" "exec_ok [''{}'']"] by (simp add: exec_ok_def)

end
