(* ===== verification/Activity_Reconcile.thy ===== *)
theory Activity_Reconcile
  imports Activity_Rules Probe Names
begin

text \<open>
  The activity step of a Workspace reconcile,
  \<open>controller/internal/controller/workspace_activity.go\<close>: decide whether a probe is due,
  run it, fold its result into the status, evaluate the activity rules, decide whether to pause.

  What the step reads from its surroundings is the record \<open>activity_env\<close>: the selector
  and decoding libraries, the clock, the probe interfaces (which may be \<open>nil\<close>), the random
  source and the API server's answer for the namespace. The Workspace and the selector cache
  are explicit state.
\<close>

record activity_env =
  ae_Selectors :: selector_lib
  ae_ProbeLib :: probe_lib
  ae_Now :: int
  ae_ProbeNow :: int
  ae_Clock :: probe_clock
  ae_Random :: "string + string"
  ae_HTTPProber :: "http_get option"
  ae_PodExecutor :: "pod_exec option"
  ae_GetNamespace :: "string \<Rightarrow> api_error + strmap"

datatype activity_error = NamespaceError api_error | RuleError string

definition defaultJupyterProbeTimeout :: int where
  "defaultJupyterProbeTimeout = dur_seconds 10"

section \<open>Operations\<close>

definition timeUntilProbeDue :: "Workspace \<Rightarrow> int \<Rightarrow> int \<Rightarrow> int \<Rightarrow> int \<times> bool" where
  "timeUntilProbeDue workspace now minProbeInterval probeInterval =
     (case act_LastProbe (st_Activity (ws_Status workspace)) of
        None \<Rightarrow> (0, True)
      | Some lastProbe \<Rightarrow>
          if lp_StartTime lastProbe \<le> 0 then (0, True)
          else let elapsed = dur_millis (wrap64 (now - lp_StartTime lastProbe));
                   requiredInterval = (if lp_Result lastProbe = WorkspaceProbeResultSuccess
                                       then probeInterval else minProbeInterval)
               in if elapsed < requiredInterval then (wrap64 (requiredInterval - elapsed), False)
                  else (0, True))"

fun port_for_id :: "ImagePort list \<Rightarrow> PortId \<Rightarrow> int \<times> bool" where
  "port_for_id [] portID = (0, False)"
| "port_for_id (p # ps) portID = (if ip_Id p = portID then (ip_Port p, True) else port_for_id ps portID)"

definition imageConfigPortForID :: "ImageConfigValue option \<Rightarrow> PortId \<Rightarrow> int \<times> bool" where
  "imageConfigPortForID imageConfig portID =
     (case imageConfig of None \<Rightarrow> (0, False) | Some ic \<Rightarrow> port_for_id (ics_Ports (ic_Spec ic)) portID)"

definition immediate_failure :: "int \<Rightarrow> string \<Rightarrow> ProbeResult" where
  "immediate_failure now message =
     \<lparr>pb_StartTime = now, pb_EndTime = now, pb_Result = WorkspaceProbeResultFailure,
      pb_Message = message, pb_LastActivity = None\<rparr>"

definition runProbe ::
  "activity_env \<Rightarrow> Workspace \<Rightarrow> ActivityProbe \<Rightarrow> ImageConfigValue option \<Rightarrow> Pod option \<Rightarrow> ProbeResult"
where
  "runProbe env workspace activityProbe currentImageConfig pod =
     (let now = ae_ProbeNow env in
      case pod of
        None \<Rightarrow> immediate_failure now ProbeMessagePodNotReady
      | Some pod \<Rightarrow>
          if pod_PodIP pod = [] then immediate_failure now ProbeMessagePodNotReady
          else case ap_Jupyter activityProbe of
            Some jupyter \<Rightarrow>
              (case imageConfigPortForID currentImageConfig (ju_PortId jupyter) of
                 (_, False) \<Rightarrow> immediate_failure now
                   (ProbeMessagePrefixJupyterFailed @ ''port '' @ go_quote (ju_PortId jupyter)
                    @ '' not found in imageConfig'')
               | (port, True) \<Rightarrow>
                   (case ae_HTTPProber env of
                      None \<Rightarrow> immediate_failure now
                        (ProbeMessagePrefixJupyterFailed @ ''http prober is not configured'')
                    | Some prober \<Rightarrow>
                        RunJupyterProbe (ae_ProbeLib env) (ae_Clock env) prober (pod_PodIP pod) port
                          (getWorkspaceConnectPath (ws_Namespace workspace) (ws_Name workspace)
                             (ju_PortId jupyter))
                          defaultJupyterProbeTimeout))
          | None \<Rightarrow>
              (case ap_PodExec activityProbe of
                 Some podExec \<Rightarrow>
                   (case ae_PodExecutor env of
                      None \<Rightarrow> immediate_failure now
                        (ProbeMessagePrefixPodExecFailed @ ''exec is not configured'')
                    | Some executor \<Rightarrow>
                        RunPodExecProbe (ae_ProbeLib env) (ae_Clock env) (ae_Random env) executor
                          (om_Namespace (pod_Meta pod)) (om_Name (pod_Meta pod)) (pe_Script podExec)
                          (dur_seconds (case pe_TimeoutSeconds podExec of
                             Some s \<Rightarrow> s | None \<Rightarrow> DefaultPodExecTimeoutSeconds)))
               | None \<Rightarrow> immediate_failure now ProbeMessageNoTypeConfigured))"

abbreviation ws_Activity :: "Workspace \<Rightarrow> WorkspaceActivity" where
  "ws_Activity w \<equiv> st_Activity (ws_Status w)"

definition set_activity :: "Workspace \<Rightarrow> WorkspaceActivity \<Rightarrow> Workspace" where
  "set_activity w a = w\<lparr>ws_Status := (ws_Status w)\<lparr>st_Activity := a\<rparr>\<rparr>"

lemma set_activity_simps [simp]:
  "ws_Activity (set_activity w a) = a" "ws_Meta (set_activity w a) = ws_Meta w"
  "ws_Spec (set_activity w a) = ws_Spec w" "set_activity (set_activity w a) b = set_activity w b"
  "st_LastRunningTime (ws_Status (set_activity w a)) = st_LastRunningTime (ws_Status w)"
  "st_State (ws_Status (set_activity w a)) = st_State (ws_Status w)"
  "set_activity w (ws_Activity w) = w"
  by (simp_all add: set_activity_def)

definition updateActivityStatusFromProbe :: "Workspace \<Rightarrow> ProbeResult \<Rightarrow> Workspace" where
  "updateActivityStatusFromProbe workspace result =
     (let status = ws_Status workspace;
          act = (st_Activity status)\<lparr>act_LastProbe := Some
             \<lparr>lp_StartTime = UnixMilli (pb_StartTime result), lp_EndTime = UnixMilli (pb_EndTime result),
              lp_Result = pb_Result result, lp_Message = pb_Message result\<rparr>\<rparr>
      in if Succeeded result
         then let act' = (case pb_LastActivity result of
                            Some t \<Rightarrow> act\<lparr>act_LastActivity := UnixMilli t\<rparr>
                          | None \<Rightarrow> if act_LastActivity act \<le> 0 \<and> st_LastRunningTime status > 0
                                    then act\<lparr>act_LastActivity := st_LastRunningTime status\<rparr> else act)
              in set_activity workspace (act'\<lparr>act_LastUpdate := UnixMilli (pb_EndTime result)\<rparr>)
         else set_activity workspace act)"

text \<open>\<open>Activity.Rules.PauseWorkspace = nil\<close>, guarded by \<open>Rules != nil\<close>.\<close>

definition clear_pause_rule :: "Workspace \<Rightarrow> Workspace" where
  "clear_pause_rule workspace =
     (case act_Rules (ws_Activity workspace) of
        None \<Rightarrow> workspace
      | Some rules \<Rightarrow> set_activity workspace
          ((ws_Activity workspace)\<lparr>act_Rules := Some (rules\<lparr>rules_PauseWorkspace := None\<rparr>)\<rparr>))"

definition set_pause_rule :: "Workspace \<Rightarrow> int \<Rightarrow> Workspace" where
  "set_pause_rule workspace eligibleAfter =
     (let rules = (case act_Rules (ws_Activity workspace) of
                     Some r \<Rightarrow> r | None \<Rightarrow> \<lparr>rules_PauseWorkspace = None\<rparr>)
      in set_activity workspace
           ((ws_Activity workspace)\<lparr>act_Rules :=
              Some (rules\<lparr>rules_PauseWorkspace := Some \<lparr>pr_EligibleAfter = eligibleAfter\<rparr>\<rparr>)\<rparr>))"

definition evaluatePauseDecision ::
  "selector_lib \<Rightarrow> selector_cache \<Rightarrow> Workspace \<Rightarrow> WorkspaceKind \<Rightarrow> strmap \<Rightarrow> strmap \<Rightarrow> int \<Rightarrow> bool
     \<Rightarrow> (string + bool) \<times> Workspace \<times> selector_cache"
where
  "evaluatePauseDecision lib c workspace workspaceKind namespaceLabels podConfigLabels now allowPause =
     (let rules = ks_ActivityRules (wk_Spec workspaceKind) in
      if rules = [] then (Inr False, clear_pause_rule workspace, c)
      else case EvaluatePauseWorkspaceRule lib c rules namespaceLabels podConfigLabels of
             (Inl err, c') \<Rightarrow> (Inl err, workspace, c')
           | (Inr decision, c') \<Rightarrow>
               if \<not> ard_Matched decision \<or> \<not> ard_Value decision
               then (Inr False, clear_pause_rule workspace, c')
               else let (eligible, eligibleAfter) =
                          IsEligibleForPause (act_LastActivity (ws_Activity workspace))
                            (st_LastRunningTime (ws_Status workspace)) now
                            (ard_SecondsSinceActive decision) (ard_MinRunningSeconds decision)
                    in (Inr (eligible \<and> allowPause), set_pause_rule workspace eligibleAfter, c'))"

definition getNamespaceLabels :: "activity_env \<Rightarrow> string \<Rightarrow> api_error + strmap" where
  "getNamespaceLabels env namespaceName =
     (case ae_GetNamespace env namespaceName of
        Inl (NotFound _) \<Rightarrow> Inr fmempty
      | Inl err \<Rightarrow> Inl err
      | Inr lbls \<Rightarrow> Inr lbls)"

definition min_probe_interval :: "ActivityProbe \<Rightarrow> int" where
  "min_probe_interval ap =
     dur_seconds (case ap_MinProbeIntervalSeconds ap of Some s \<Rightarrow> s | None \<Rightarrow> DefaultMinProbeIntervalSeconds)"

definition full_probe_interval :: "ActivityProbe \<Rightarrow> int" where
  "full_probe_interval ap =
     dur_seconds (case ap_ProbeIntervalSeconds ap of Some s \<Rightarrow> s | None \<Rightarrow> DefaultProbeIntervalSeconds)"

definition reconcileActivity ::
  "activity_env \<Rightarrow> selector_cache \<Rightarrow> Workspace \<Rightarrow> WorkspaceKind \<Rightarrow> ImageConfigValue option \<Rightarrow>
     PodConfigValue option \<Rightarrow> Pod option \<Rightarrow> (activity_error + ctrl_result \<times> bool) \<times> Workspace \<times> selector_cache"
where
  "reconcileActivity env c workspace workspaceKind currentImageConfig currentPodConfig pod =
     (case kpt_ActivityProbe (wk_PodTemplate workspaceKind) of
        None \<Rightarrow> (Inr (no_requeue, False), workspace, c)
      | Some activityProbe \<Rightarrow>
          if st_State (ws_Status workspace) \<noteq> WorkspaceStateRunning
          then (Inr (no_requeue, False), workspace, c)
          else
            let now = UnixMilli (ae_Now env);
                minProbeInterval = min_probe_interval activityProbe;
                probeInterval = full_probe_interval activityProbe
            in case getNamespaceLabels env (ws_Namespace workspace) of
                 Inl err \<Rightarrow> (Inl (NamespaceError err), workspace, c)
               | Inr namespaceLabels \<Rightarrow>
                   let podConfigLabels = PodConfigLabelsToMap currentPodConfig;
                       (remaining, due) = timeUntilProbeDue workspace now minProbeInterval probeInterval
                   in if \<not> due
                      then (case evaluatePauseDecision (ae_Selectors env) c workspace workspaceKind
                                   namespaceLabels podConfigLabels now False of
                              (Inl err, w', c') \<Rightarrow> (Inl (RuleError err), w', c')
                            | (Inr _, w', c') \<Rightarrow> (Inr (requeue_after remaining, False), w', c'))
                      else let probeResult = runProbe env workspace activityProbe currentImageConfig pod;
                               workspace' = updateActivityStatusFromProbe workspace probeResult
                           in case evaluatePauseDecision (ae_Selectors env) c workspace' workspaceKind
                                     namespaceLabels podConfigLabels now (Succeeded probeResult) of
                                (Inl err, w', c') \<Rightarrow> (Inl (RuleError err), w', c')
                              | (Inr paused, w', c') \<Rightarrow>
                                  (Inr (requeue_after (if Succeeded probeResult then probeInterval
                                                       else minProbeInterval), paused), w', c'))"

end
