(* ===== verification/Activity_Correct.thy ===== *)
theory Activity_Correct
  imports Activity_Reconcile Sample_Objects
begin

text \<open>
  Correctness of the activity step. A Workspace is paused only right after a successful probe
  that shows it idle for long enough; a probe that fails changes nothing but the record of the
  last probe; probes of one Workspace are at least the minimum interval apart; and the requeue
  time of every reconcile leads to a reconcile at which a probe is due.
\<close>

section \<open>Single steps\<close>

lemma runProbe_failed:
  "\<not> Succeeded (runProbe env ws ap img pod) \<Longrightarrow> pb_LastActivity (runProbe env ws ap img pod) = None"
  using RunJupyterProbe_failed RunPodExecProbe_failed
  by (auto simp: runProbe_def Let_def immediate_failure_def split: option.splits prod.splits bool.splits)

lemma immediate_failure_simps [simp]:
  "\<not> Succeeded (immediate_failure n m)" "pb_StartTime (immediate_failure n m) = n"
  "pb_LastActivity (immediate_failure n m) = None"
  by (simp_all add: immediate_failure_def Succeeded_def)

lemma runProbe_start:
  "pb_StartTime (runProbe env ws ap img pod) \<in> {ae_ProbeNow env, clk_start (ae_Clock env)}"
  by (simp add: runProbe_def Let_def split: option.splits prod.splits bool.splits)

definition last_probe_of :: "ProbeResult \<Rightarrow> WorkspaceActivityLastProbe" where
  "last_probe_of r = \<lparr>lp_StartTime = UnixMilli (pb_StartTime r), lp_EndTime = UnixMilli (pb_EndTime r),
     lp_Result = pb_Result r, lp_Message = pb_Message r\<rparr>"

lemma updateActivity_frame:
  "ws_Meta (updateActivityStatusFromProbe w r) = ws_Meta w"
  "ws_Spec (updateActivityStatusFromProbe w r) = ws_Spec w"
  "act_LastProbe (ws_Activity (updateActivityStatusFromProbe w r)) = Some (last_probe_of r)"
  "st_LastRunningTime (ws_Status (updateActivityStatusFromProbe w r)) = st_LastRunningTime (ws_Status w)"
  "st_State (ws_Status (updateActivityStatusFromProbe w r)) = st_State (ws_Status w)"
  by (auto simp: updateActivityStatusFromProbe_def Let_def last_probe_of_def split: option.splits)

lemma updateActivity_failed:
  assumes "\<not> Succeeded r"
  shows "act_LastActivity (ws_Activity (updateActivityStatusFromProbe w r)) = act_LastActivity (ws_Activity w)"
    and "act_LastUpdate (ws_Activity (updateActivityStatusFromProbe w r)) = act_LastUpdate (ws_Activity w)"
  using assms by (simp_all add: updateActivityStatusFromProbe_def Let_def)

text \<open>The pause rule status is all that evaluating the rules changes.\<close>

definition same_but_rules :: "Workspace \<Rightarrow> Workspace \<Rightarrow> bool" where
  "same_but_rules w w' \<longleftrightarrow> (\<exists>r. w' = set_activity w ((ws_Activity w)\<lparr>act_Rules := r\<rparr>))"

lemma same_but_rulesD:
  assumes "same_but_rules w w'"
  shows "ws_Meta w' = ws_Meta w" "ws_Spec w' = ws_Spec w"
    "act_LastActivity (ws_Activity w') = act_LastActivity (ws_Activity w)"
    "act_LastUpdate (ws_Activity w') = act_LastUpdate (ws_Activity w)"
    "act_LastProbe (ws_Activity w') = act_LastProbe (ws_Activity w)"
    "st_LastRunningTime (ws_Status w') = st_LastRunningTime (ws_Status w)"
    "st_State (ws_Status w') = st_State (ws_Status w)"
  using assms by (auto simp: same_but_rules_def)

lemma same_but_rules_refl: "same_but_rules w w"
  unfolding same_but_rules_def by (rule exI [of _ "act_Rules (ws_Activity w)"]) simp

lemma evaluatePauseDecision_frame:
  "same_but_rules w (fst (snd (evaluatePauseDecision lib c w kind ns pc now allow)))"
  using same_but_rules_refl [of w]
  by (auto simp: evaluatePauseDecision_def Let_def clear_pause_rule_def set_pause_rule_def
                 same_but_rules_def split: prod.splits sum.splits option.splits)

lemma evaluate_rules_loop_matched:
  assumes "fst (evaluate_rules_loop lib g z ns pc i rules c) = Inr d" and "ard_Matched d"
  shows "\<exists>rule \<in> set rules. \<exists>effect. g (ar_Effect rule) = Some effect \<and> d = rule_decision rule effect"
  using assms
proof (induction rules arbitrary: i c)
  case (Cons rule rules)
  then show ?case
    by (auto split: option.splits prod.splits sum.splits if_splits)
qed (auto simp: no_decision_def)

lemma evaluatePauseDecision_True:
  assumes "evaluatePauseDecision lib c w kind ns pc now allow = (Inr True, w', c')"
  obtains rule where "allow" and "rule \<in> set (ks_ActivityRules (wk_Spec kind))"
    and "are_PauseWorkspace (ar_Effect rule) = Some True"
    and "fst (IsEligibleForPause (act_LastActivity (ws_Activity w)) (st_LastRunningTime (ws_Status w)) now
                (arc_SecondsSinceActive (ar_Config rule))
                (case arc_MinRunningSeconds (ar_Config rule) of Some s \<Rightarrow> s | None \<Rightarrow> 0))"
proof -
  let ?rules = "ks_ActivityRules (wk_Spec kind)"
  obtain res c1 where eval: "EvaluatePauseWorkspaceRule lib c ?rules ns pc = (res, c1)" by force
  with assms obtain d where d: "res = Inr d" "ard_Matched d" "ard_Value d" "allow"
      "fst (IsEligibleForPause (act_LastActivity (ws_Activity w)) (st_LastRunningTime (ws_Status w)) now
              (ard_SecondsSinceActive d) (ard_MinRunningSeconds d))"
    by (auto simp: evaluatePauseDecision_def Let_def split: if_splits sum.splits prod.splits)
  with eval evaluate_rules_loop_matched [of lib are_PauseWorkspace False ns pc 0 ?rules c d]
  obtain rule effect where "rule \<in> set ?rules" "are_PauseWorkspace (ar_Effect rule) = Some effect"
      "d = rule_decision rule effect"
    by (auto simp: EvaluatePauseWorkspaceRule_def EvaluateActivityRule_def)
  with d show ?thesis using that by (simp add: rule_decision_def)
qed

section \<open>The three ways through a reconcile\<close>

text \<open>Whether this reconcile executes a probe, and the probe it executes.\<close>

definition probe_run ::
  "activity_env \<Rightarrow> Workspace \<Rightarrow> WorkspaceKind \<Rightarrow> ImageConfigValue option \<Rightarrow> Pod option \<Rightarrow> ProbeResult option"
where
  "probe_run env ws kind img pod =
     (case kpt_ActivityProbe (wk_PodTemplate kind) of
        None \<Rightarrow> None
      | Some ap \<Rightarrow>
          if st_State (ws_Status ws) = WorkspaceStateRunning \<and>
             (\<exists>lbls. getNamespaceLabels env (ws_Namespace ws) = Inr lbls) \<and>
             snd (timeUntilProbeDue ws (UnixMilli (ae_Now env)) (min_probe_interval ap) (full_probe_interval ap))
          then Some (runProbe env ws ap img pod) else None)"

lemma reconcileActivity_not_due:
  assumes "reconcileActivity env c ws kind img pc pod = (res, ws', c')"
    and "kpt_ActivityProbe (wk_PodTemplate kind) = Some ap" and "st_State (ws_Status ws) = WorkspaceStateRunning"
    and "getNamespaceLabels env (ws_Namespace ws) = Inr lbls"
    and "\<not> snd (timeUntilProbeDue ws (UnixMilli (ae_Now env)) (min_probe_interval ap) (full_probe_interval ap))"
  shows "probe_run env ws kind img pod = None" and "same_but_rules ws ws'"
    and "\<forall>r p. res = Inr (r, p) \<longrightarrow> \<not> p \<and> r = requeue_after
           (fst (timeUntilProbeDue ws (UnixMilli (ae_Now env)) (min_probe_interval ap) (full_probe_interval ap)))"
proof -
  obtain r w1 c1 where ev: "evaluatePauseDecision (ae_Selectors env) c ws kind lbls
        (PodConfigLabelsToMap pc) (UnixMilli (ae_Now env)) False = (r, w1, c1)" by (metis prod_cases3)
  with evaluatePauseDecision_frame [of ws "ae_Selectors env" c kind lbls "PodConfigLabelsToMap pc" "UnixMilli (ae_Now env)" False]
  have "same_but_rules ws w1" by simp
  moreover have w1: "ws' = w1" using assms ev by (auto simp: reconcileActivity_def Let_def split: prod.splits sum.splits)
  ultimately show "same_but_rules ws ws'" by simp
  show "probe_run env ws kind img pod = None" using assms(2,5) by (simp add: probe_run_def)
  show "\<forall>r p. res = Inr (r, p) \<longrightarrow> \<not> p \<and> r = requeue_after
      (fst (timeUntilProbeDue ws (UnixMilli (ae_Now env)) (min_probe_interval ap) (full_probe_interval ap)))"
    using assms ev by (auto simp: reconcileActivity_def Let_def split: prod.splits sum.splits)
qed

lemma reconcileActivity_due:
  assumes "reconcileActivity env c ws kind img pc pod = (res, ws', c')"
    and "kpt_ActivityProbe (wk_PodTemplate kind) = Some ap" and "st_State (ws_Status ws) = WorkspaceStateRunning"
    and "getNamespaceLabels env (ws_Namespace ws) = Inr lbls"
    and "snd (timeUntilProbeDue ws (UnixMilli (ae_Now env)) (min_probe_interval ap) (full_probe_interval ap))"
  defines "probe \<equiv> runProbe env ws ap img pod"
  shows "probe_run env ws kind img pod = Some probe" and "same_but_rules (updateActivityStatusFromProbe ws probe) ws'"
    and "\<forall>r p. res = Inr (r, p) \<longrightarrow>
           r = requeue_after (if Succeeded probe then full_probe_interval ap else min_probe_interval ap) \<and>
           evaluatePauseDecision (ae_Selectors env) c (updateActivityStatusFromProbe ws probe) kind lbls
             (PodConfigLabelsToMap pc) (UnixMilli (ae_Now env)) (Succeeded probe) = (Inr p, ws', c')"
proof -
  obtain r w1 c1 where ev: "evaluatePauseDecision (ae_Selectors env) c (updateActivityStatusFromProbe ws probe)
        kind lbls (PodConfigLabelsToMap pc) (UnixMilli (ae_Now env)) (Succeeded probe) = (r, w1, c1)" by (metis prod_cases3)
  with evaluatePauseDecision_frame [of "updateActivityStatusFromProbe ws probe" "ae_Selectors env" c kind
         lbls "PodConfigLabelsToMap pc" "UnixMilli (ae_Now env)" "Succeeded probe"]
  have frame: "same_but_rules (updateActivityStatusFromProbe ws probe) w1" by simp
  have res: "ws' = w1" "c' = c1" "\<forall>r' p. res = Inr (r', p) \<longrightarrow> r = Inr p \<and>
      r' = requeue_after (if Succeeded probe then full_probe_interval ap else min_probe_interval ap)"
    using assms(1-5) ev by (auto simp: reconcileActivity_def Let_def probe_def split: prod.splits sum.splits)
  from frame res(1) show "same_but_rules (updateActivityStatusFromProbe ws probe) ws'" by simp
  show "probe_run env ws kind img pod = Some probe" using assms(2-5) by (simp add: probe_run_def probe_def)
  from ev res show "\<forall>r p. res = Inr (r, p) \<longrightarrow>
      r = requeue_after (if Succeeded probe then full_probe_interval ap else min_probe_interval ap) \<and>
      evaluatePauseDecision (ae_Selectors env) c (updateActivityStatusFromProbe ws probe) kind lbls
        (PodConfigLabelsToMap pc) (UnixMilli (ae_Now env)) (Succeeded probe) = (Inr p, ws', c')" by simp
qed

lemma reconcileActivity_cases:
  assumes "reconcileActivity env c ws kind img pc pod = (res, ws', c')"
  obtains
    (idle) "probe_run env ws kind img pod = None" and "ws' = ws" and "\<forall>r p. res = Inr (r, p) \<longrightarrow> \<not> p"
      and "kpt_ActivityProbe (wk_PodTemplate kind) = None \<or> st_State (ws_Status ws) \<noteq> WorkspaceStateRunning
           \<or> isl (getNamespaceLabels env (ws_Namespace ws))"
  | (not_due) ap where "kpt_ActivityProbe (wk_PodTemplate kind) = Some ap"
      and "st_State (ws_Status ws) = WorkspaceStateRunning"
      and "probe_run env ws kind img pod = None" and "same_but_rules ws ws'"
      and "\<forall>r p. res = Inr (r, p) \<longrightarrow> \<not> p"
      and "\<not> snd (timeUntilProbeDue ws (UnixMilli (ae_Now env)) (min_probe_interval ap) (full_probe_interval ap))"
      and "\<forall>r p. res = Inr (r, p) \<longrightarrow> r = requeue_after
             (fst (timeUntilProbeDue ws (UnixMilli (ae_Now env)) (min_probe_interval ap) (full_probe_interval ap)))"
  | (due) ap lbls probe where "kpt_ActivityProbe (wk_PodTemplate kind) = Some ap"
      and "st_State (ws_Status ws) = WorkspaceStateRunning"
      and "getNamespaceLabels env (ws_Namespace ws) = Inr lbls"
      and "probe_run env ws kind img pod = Some probe" and "probe = runProbe env ws ap img pod"
      and "same_but_rules (updateActivityStatusFromProbe ws probe) ws'"
      and "\<forall>r p. res = Inr (r, p) \<longrightarrow>
             r = requeue_after (if Succeeded probe then full_probe_interval ap else min_probe_interval ap) \<and>
             evaluatePauseDecision (ae_Selectors env) c (updateActivityStatusFromProbe ws probe) kind lbls
               (PodConfigLabelsToMap pc) (UnixMilli (ae_Now env)) (Succeeded probe) = (Inr p, ws', c')"
proof (cases "kpt_ActivityProbe (wk_PodTemplate kind)")
  case None
  then show ?thesis using assms by (intro idle) (auto simp: reconcileActivity_def probe_run_def)
next
  case (Some ap)
  show ?thesis
  proof (cases "st_State (ws_Status ws) = WorkspaceStateRunning")
    case False
    then show ?thesis using assms Some by (intro idle) (auto simp: reconcileActivity_def probe_run_def)
  next
    case run: True
    show ?thesis
    proof (cases "getNamespaceLabels env (ws_Namespace ws)")
      case (Inl e)
      then show ?thesis using assms Some run
        by (intro idle) (auto simp: reconcileActivity_def probe_run_def Let_def)
    next
      case (Inr lbls)
      show ?thesis
      proof (cases "snd (timeUntilProbeDue ws (UnixMilli (ae_Now env)) (min_probe_interval ap) (full_probe_interval ap))")
        case False
        from reconcileActivity_not_due [OF assms Some run Inr False] show ?thesis
          by (intro not_due [OF Some run]) (use False in auto)
      next
        case True
        from reconcileActivity_due [OF assms Some run Inr True] show ?thesis
          by (intro due [OF Some run Inr]) simp_all
      qed
    qed
  qed
qed

section \<open>Schema bounds\<close>

text \<open>
  Bounds of the CRD schema: the rule settings are 32-bit integers, the probe intervals are
  between one second and one year and ordered. Timestamps are milliseconds up to the year 2255.
\<close>

definition rules_schema_ok :: "WorkspaceKind \<Rightarrow> bool" where
  "rules_schema_ok kind \<longleftrightarrow>
     (\<forall>r \<in> set (ks_ActivityRules (wk_Spec kind)).
        is_int32 (arc_SecondsSinceActive (ar_Config r)) \<and>
        (\<forall>m. arc_MinRunningSeconds (ar_Config r) = Some m \<longrightarrow> is_int32 m))"

definition sane_ms :: "int \<Rightarrow> bool" where
  "sane_ms t \<longleftrightarrow> 0 \<le> t \<and> t \<le> 9000000000000"

definition min_secs :: "ActivityProbe \<Rightarrow> int" where
  "min_secs ap = (case ap_MinProbeIntervalSeconds ap of Some s \<Rightarrow> s | None \<Rightarrow> DefaultMinProbeIntervalSeconds)"

definition full_secs :: "ActivityProbe \<Rightarrow> int" where
  "full_secs ap = (case ap_ProbeIntervalSeconds ap of Some s \<Rightarrow> s | None \<Rightarrow> DefaultProbeIntervalSeconds)"

definition intervals_ok :: "ActivityProbe \<Rightarrow> bool" where
  "intervals_ok ap \<longleftrightarrow> 1 \<le> min_secs ap \<and> min_secs ap \<le> full_secs ap \<and> full_secs ap \<le> 31536000"

lemma probe_intervals:
  assumes "intervals_ok ap"
  shows "min_probe_interval ap = min_secs ap * 1000000000" "full_probe_interval ap = full_secs ap * 1000000000"
proof -
  have "is_int32 (min_secs ap)" "is_int32 (full_secs ap)"
    using assms by (simp_all add: intervals_ok_def is_int32_def)
  then show "min_probe_interval ap = min_secs ap * 1000000000" "full_probe_interval ap = full_secs ap * 1000000000"
    by (simp_all add: min_probe_interval_def full_probe_interval_def dur_seconds_int32
                flip: min_secs_def full_secs_def)
qed

definition required_secs :: "ActivityProbe \<Rightarrow> WorkspaceActivityLastProbe \<Rightarrow> int" where
  "required_secs ap lp = (if lp_Result lp = WorkspaceProbeResultSuccess then full_secs ap else min_secs ap)"

lemma timeUntilProbeDue_exact:
  assumes "intervals_ok ap" and "act_LastProbe (ws_Activity ws) = Some lp"
    and "sane_ms now" and "sane_ms (lp_StartTime lp)" and "0 < lp_StartTime lp"
  shows "timeUntilProbeDue ws now (min_probe_interval ap) (full_probe_interval ap) =
    (if now < lp_StartTime lp + 1000 * required_secs ap lp
     then ((lp_StartTime lp + 1000 * required_secs ap lp - now) * 1000000, False) else (0, True))"
proof -
  have el: "dur_millis (wrap64 (now - lp_StartTime lp)) = (now - lp_StartTime lp) * 1000000"
    using assms(3,4) by (simp add: is_int64_def sane_ms_def dur_millis_bounded abs_le_iff)
  have K: "1 \<le> required_secs ap lp" "required_secs ap lp \<le> 31536000"
    using assms(1) by (auto simp: required_secs_def intervals_ok_def)
  then have w: "wrap64 (required_secs ap lp * 1000000000 - (now - lp_StartTime lp) * 1000000)
      = (lp_StartTime lp + 1000 * required_secs ap lp - now) * 1000000"
    using assms(3,4) by (simp add: is_int64_def sane_ms_def algebra_simps)
  have i: "(if lp_Result lp = WorkspaceProbeResultSuccess then full_probe_interval ap else min_probe_interval ap)
      = required_secs ap lp * 1000000000"
    by (simp add: probe_intervals [OF assms(1)] required_secs_def)
  have "(now - lp_StartTime lp) * 1000000 < required_secs ap lp * 1000000000
      \<longleftrightarrow> now < lp_StartTime lp + 1000 * required_secs ap lp" by auto
  then show ?thesis
    using assms(2,5) w by (simp add: timeUntilProbeDue_def Let_def el i)
qed

section \<open>Properties\<close>

text \<open>
  C7. Pausing is backed by a fresh probe. When the activity step asks to pause a Workspace,
  the Workspace was running with a probe configured; the probe executed in this very reconcile
  succeeded and is the one recorded in the status; and for a rule of the kind that configures
  pausing, the last activity is known and at least \<open>secondsSinceActive\<close> ago and the
  Workspace has been running for at least \<open>minRunningSeconds\<close>.
\<close>

theorem pause_only_after_fresh_probe:
  assumes "reconcileActivity env c ws kind img pc pod = (Inr (res, True), ws', c')"
    and "rules_schema_ok kind"
    and "sane_ms (UnixMilli (ae_Now env))" and "sane_ms (st_LastRunningTime (ws_Status ws))"
    and "act_LastActivity (ws_Activity ws') \<le> 2 ^ 62"
  shows "\<exists>ap rule.
     kpt_ActivityProbe (wk_PodTemplate kind) = Some ap \<and> st_State (ws_Status ws) = WorkspaceStateRunning \<and>
     Succeeded (runProbe env ws ap img pod) \<and>
     act_LastProbe (ws_Activity ws') = Some (last_probe_of (runProbe env ws ap img pod)) \<and>
     rule \<in> set (ks_ActivityRules (wk_Spec kind)) \<and> are_PauseWorkspace (ar_Effect rule) = Some True \<and>
     0 < act_LastActivity (ws_Activity ws') \<and>
     act_LastActivity (ws_Activity ws') + 1000 * arc_SecondsSinceActive (ar_Config rule) \<le> UnixMilli (ae_Now env) \<and>
     (\<forall>m. arc_MinRunningSeconds (ar_Config rule) = Some m \<and> 0 < m \<longrightarrow>
        0 < st_LastRunningTime (ws_Status ws) \<and>
        1000 * m \<le> UnixMilli (ae_Now env) - st_LastRunningTime (ws_Status ws))"
  using assms(1)
proof (cases rule: reconcileActivity_cases)
  case (due ap lbls probe)
  let ?w = "updateActivityStatusFromProbe ws probe"
  from due(7) have "evaluatePauseDecision (ae_Selectors env) c ?w kind lbls (PodConfigLabelsToMap pc)
      (UnixMilli (ae_Now env)) (Succeeded probe) = (Inr True, ws', c')" by blast
  then obtain rule where rule: "Succeeded probe" "rule \<in> set (ks_ActivityRules (wk_Spec kind))"
      "are_PauseWorkspace (ar_Effect rule) = Some True" and
    el: "fst (IsEligibleForPause (act_LastActivity (ws_Activity ?w)) (st_LastRunningTime (ws_Status ?w))
          (UnixMilli (ae_Now env)) (arc_SecondsSinceActive (ar_Config rule))
          (case arc_MinRunningSeconds (ar_Config rule) of Some s \<Rightarrow> s | None \<Rightarrow> 0))"
    by (rule evaluatePauseDecision_True) blast
  have act: "act_LastActivity (ws_Activity ?w) = act_LastActivity (ws_Activity ws')"
      "act_LastProbe (ws_Activity ws') = Some (last_probe_of probe)"
    using same_but_rulesD [OF due(6)] by (simp_all add: updateActivity_frame)
  have ints: "is_int32 (arc_SecondsSinceActive (ar_Config rule))"
      "is_int32 (case arc_MinRunningSeconds (ar_Config rule) of Some s \<Rightarrow> s | None \<Rightarrow> 0)"
    using assms(2) rule(2) by (auto simp: rules_schema_ok_def is_int32_def split: option.splits)
  from el IsEligibleForPause_exact [OF ints, of "act_LastActivity (ws_Activity ?w)"
        "UnixMilli (ae_Now env)" "st_LastRunningTime (ws_Status ?w)"]
  have "0 < act_LastActivity (ws_Activity ws')"
      "act_LastActivity (ws_Activity ws') + 1000 * arc_SecondsSinceActive (ar_Config rule) \<le> UnixMilli (ae_Now env)"
      "\<forall>m. arc_MinRunningSeconds (ar_Config rule) = Some m \<and> 0 < m \<longrightarrow>
        0 < st_LastRunningTime (ws_Status ws) \<and>
        1000 * m \<le> UnixMilli (ae_Now env) - st_LastRunningTime (ws_Status ws)"
    using assms(3-5) act(1) by (auto simp: sane_ms_def updateActivity_frame)
  then show ?thesis using due(1,2,5) rule act(2) by blast
qed auto

text \<open>
  C31. A probe that fails has no effect but its own record. Whatever the outcome of the activity
  step, it changes neither the metadata nor the spec of the Workspace; and unless a probe ran in
  this reconcile and succeeded, the last activity and the last update are unchanged and the
  Workspace is not paused.
\<close>

theorem failed_probe_harmless:
  assumes "reconcileActivity env c ws kind img pc pod = (out, ws', c')"
  shows "ws_Meta ws' = ws_Meta ws \<and> ws_Spec ws' = ws_Spec ws \<and>
    ((\<forall>r. probe_run env ws kind img pod = Some r \<longrightarrow> \<not> Succeeded r) \<longrightarrow>
       act_LastActivity (ws_Activity ws') = act_LastActivity (ws_Activity ws) \<and>
       act_LastUpdate (ws_Activity ws') = act_LastUpdate (ws_Activity ws) \<and>
       (\<forall>res p. out = Inr (res, p) \<longrightarrow> \<not> p))"
  using assms
proof (cases rule: reconcileActivity_cases)
  case idle
  then show ?thesis by auto
next
  case (not_due ap)
  then show ?thesis using same_but_rulesD [OF not_due(4)] by auto
next
  case (due ap lbls probe)
  have "\<not> p" if "\<not> Succeeded probe" and "out = Inr (res, p)" for res p
  proof
    assume p
    with due(7) that(2) have "evaluatePauseDecision (ae_Selectors env) c (updateActivityStatusFromProbe ws probe)
        kind lbls (PodConfigLabelsToMap pc) (UnixMilli (ae_Now env)) (Succeeded probe) = (Inr True, ws', c')"
      by blast
    then show False by (rule evaluatePauseDecision_True) (use that(1) in simp)
  qed
  then show ?thesis using same_but_rulesD [OF due(6)] due(4) updateActivity_failed [of probe ws]
    by (auto simp: updateActivity_frame)
qed

text \<open>The clock is sane and a probe starts no earlier than the reconcile that executes it.\<close>

definition clock_ok :: "activity_env \<Rightarrow> bool" where
  "clock_ok env \<longleftrightarrow>
     0 < UnixMilli (ae_Now env) \<and>
     (\<forall>t \<in> {ae_ProbeNow env, clk_start (ae_Clock env)}. UnixMilli (ae_Now env) \<le> UnixMilli t \<and> sane_ms (UnixMilli t))"

lemma clock_okD:
  assumes "clock_ok env"
  shows "sane_ms (UnixMilli (ae_Now env))"
    and "UnixMilli (ae_Now env) \<le> UnixMilli (pb_StartTime (runProbe env ws ap img pod))"
    and "sane_ms (UnixMilli (pb_StartTime (runProbe env ws ap img pod)))"
    and "0 < UnixMilli (pb_StartTime (runProbe env ws ap img pod))"
  using assms runProbe_start [of env ws ap img pod] by (auto simp: clock_ok_def sane_ms_def)

lemma min_le_required: "intervals_ok ap \<Longrightarrow> min_secs ap \<le> required_secs ap lp \<and> 1 \<le> required_secs ap lp"
  by (auto simp: intervals_ok_def required_secs_def)

lemma probe_run_SomeD:
  assumes "probe_run env ws kind img pod = Some r" and "kpt_ActivityProbe (wk_PodTemplate kind) = Some ap"
  shows "r = runProbe env ws ap img pod"
    and "snd (timeUntilProbeDue ws (UnixMilli (ae_Now env)) (min_probe_interval ap) (full_probe_interval ap))"
  using assms by (auto simp: probe_run_def split: if_splits)

text \<open>
  C29. The activity step keeps scheduling itself. Whenever it returns without an error for a
  running Workspace with a probe, it asks for a positive requeue time, and a reconcile that
  happens that much later (after this reconcile, or after the start of the probe it ran) finds
  a probe due.
\<close>

theorem requeue_finds_probe_due:
  assumes "reconcileActivity env c ws kind img pc pod = (Inr (res, p), ws', c')"
    and "kpt_ActivityProbe (wk_PodTemplate kind) = Some ap" and "intervals_ok ap"
    and "st_State (ws_Status ws) = WorkspaceStateRunning" and "clock_ok env"
    and "\<forall>lp. act_LastProbe (ws_Activity ws) = Some lp \<longrightarrow> sane_ms (lp_StartTime lp)"
    and "\<exists>lbls. getNamespaceLabels env (ws_Namespace ws) = Inr lbls"
    and "base = (case probe_run env ws kind img pod of
                   Some r \<Rightarrow> UnixMilli (pb_StartTime r) | None \<Rightarrow> UnixMilli (ae_Now env))"
    and "sane_ms later" and "base * 1000000 + RequeueAfter res \<le> later * 1000000"
  shows "0 < RequeueAfter res \<and>
    timeUntilProbeDue ws' later (min_probe_interval ap) (full_probe_interval ap) = (0, True)"
  using assms(1)
proof (cases rule: reconcileActivity_cases)
  case idle
  then show ?thesis using assms(2,4,7) by auto
next
  case (not_due ap')
  with assms(2) have ap': "ap' = ap" by simp
  from not_due(6) obtain lp where lp: "act_LastProbe (ws_Activity ws) = Some lp" "0 < lp_StartTime lp"
    by (auto simp: timeUntilProbeDue_def not_le split: option.splits if_splits)
  with assms(6) have s: "sane_ms (lp_StartTime lp)" by blast
  note due = timeUntilProbeDue_exact [OF assms(3) lp(1) _ s lp(2)]
  have lp': "act_LastProbe (ws_Activity ws') = Some lp" using same_but_rulesD [OF not_due(4)] lp(1) by simp
  let ?wait = "lp_StartTime lp + 1000 * required_secs ap lp - UnixMilli (ae_Now env)"
  have w: "RequeueAfter res = ?wait * 1000000" "0 < ?wait"
    using not_due(6,7) due [OF clock_okD(1) [OF assms(5)]] by (auto simp: ap' split: if_splits)
  moreover from this assms(8,10) not_due(3) have "UnixMilli (ae_Now env) * 1000000 + ?wait * 1000000 \<le> later * 1000000"
    by simp
  then have "lp_StartTime lp + 1000 * required_secs ap lp \<le> later" by auto
  ultimately show ?thesis
    using timeUntilProbeDue_exact [OF assms(3) lp' assms(9) s lp(2)] by auto
next
  case (due ap' lbls probe)
  with assms(2) have ap': "ap' = ap" by simp
  note clk = clock_okD(3,4) [OF assms(5), of ws ap img pod]
  have lp': "act_LastProbe (ws_Activity ws') = Some (last_probe_of probe)"
    using same_but_rulesD [OF due(6)] by (simp add: updateActivity_frame)
  have req: "RequeueAfter res = required_secs ap (last_probe_of probe) * 1000000000"
    using due(7) by (simp add: ap' probe_intervals [OF assms(3)] required_secs_def last_probe_of_def Succeeded_def)
  then have "UnixMilli (pb_StartTime probe) + 1000 * required_secs ap (last_probe_of probe) \<le> later"
    using assms(8,10) due(4) by auto
  then show ?thesis
    using timeUntilProbeDue_exact [OF assms(3) lp' assms(9)] clk due(5) req
      min_le_required [OF assms(3), of "last_probe_of probe"]
    by (auto simp: ap' last_probe_of_def)
qed

section \<open>An idle notebook\<close>

text \<open>
  The example behind the witnesses: the notebook of the sample objects is running, its Jupyter
  server last saw activity at second 1000, and the reconcile happens at second 10000.
\<close>

definition sample_probe_lib :: probe_lib where
  "sample_probe_lib = \<lparr>UnmarshalStatus = (\<lambda>_. Inr ''t''), UnmarshalPodExec = (\<lambda>_. Inl ''unused''),
     ParseTime = (\<lambda>_ _. Inr (1000 * 1000000000))\<rparr>"

definition sample_env :: "http_result \<Rightarrow> activity_env" where
  "sample_env answer = \<lparr>ae_Selectors = sample_selectors, ae_ProbeLib = sample_probe_lib,
     ae_Now = 10000 * 1000000000, ae_ProbeNow = 10000 * 1000000000,
     ae_Clock = \<lparr>clk_start = 10000 * 1000000000, clk_end = 10001 * 1000000000, clk_fail = 10001 * 1000000000\<rparr>,
     ae_Random = Inr [], ae_HTTPProber = Some (\<lambda>_ _. (answer, False)), ae_PodExecutor = None,
     ae_GetNamespace = (\<lambda>_. Inr fmempty)\<rparr>"

definition sample_running_ws :: Workspace where
  "sample_running_ws = sample_ws\<lparr>ws_Status := sample_status
     \<lparr>st_State := WorkspaceStateRunning, st_LastRunningTime := 500000\<rparr>\<rparr>"

definition sample_pod :: Pod where
  "sample_pod = \<lparr>pod_Meta = empty_meta, pod_NodeName = ''n1'', pod_Containers = [''main''],
     pod_InitContainers = [], pod_Phase = ''Running'', pod_PodIP = ''10.0.0.1'',
     pod_Conditions = [], pod_ContainerStatuses = []\<rparr>"

abbreviation "idle_env \<equiv> sample_env (HttpResponse 200 ''{}'' None)"
abbreviation "broken_env \<equiv> sample_env (HttpResponse 503 [] None)"

lemma sample_env_sel [simp]:
  "ae_Selectors (sample_env a) = sample_selectors" "ae_ProbeLib (sample_env a) = sample_probe_lib"
  "ae_Now (sample_env a) = 10000 * 1000000000" "ae_ProbeNow (sample_env a) = 10000 * 1000000000"
  "ae_Clock (sample_env a) = \<lparr>clk_start = 10000 * 1000000000, clk_end = 10001 * 1000000000, clk_fail = 10001 * 1000000000\<rparr>"
  "ae_HTTPProber (sample_env a) = Some (\<lambda>_ _. (a, False))"
  "getNamespaceLabels (sample_env a) ns = Inr fmempty"
  by (simp_all add: sample_env_def getNamespaceLabels_def)

lemma sample_running_sel [simp]:
  "ws_Meta sample_running_ws = ws_Meta sample_ws" "ws_Spec sample_running_ws = ws_Spec sample_ws"
  "st_State (ws_Status sample_running_ws) = WorkspaceStateRunning"
  "st_LastRunningTime (ws_Status sample_running_ws) = 500000"
  "act_LastProbe (ws_Activity sample_running_ws) = None"
  "act_LastActivity (ws_Activity sample_running_ws) = 0"
  "act_LastUpdate (ws_Activity sample_running_ws) = 0"
  by (simp_all add: sample_running_ws_def sample_status_def empty_activity_def)

lemma UnixMilli_sample [simp]: "UnixMilli 10000000000000 = 10000000" "UnixMilli 10001000000000 = 10001000"
  "UnixMilli 1000000000000 = 1000000"
  by (simp_all add: UnixMilli_def is_int64_def)

lemma sample_clock_ok: "clock_ok (sample_env a)"
  by (simp add: clock_ok_def sane_ms_def)

lemma sample_intervals_ok: "intervals_ok sample_probe" "min_secs sample_probe = 300" "full_secs sample_probe = 3600"
  by (simp_all add: intervals_ok_def min_secs_def full_secs_def)

definition idle_probe :: ProbeResult where
  "idle_probe = newSuccessResult (10000 * 1000000000) (10001 * 1000000000)
     ProbeMessageJupyterSucceeded (Some (1000 * 1000000000))"

lemma idle_runProbe: "runProbe idle_env sample_running_ws sample_probe (Some image_v1) (Some sample_pod) = idle_probe"
  by (simp add: runProbe_def Let_def sample_pod_def imageConfigPortForID_def RunJupyterProbe_def
      limited_read_def maxProbeResponseBytes_def sample_probe_lib_def parseISO8601_def idle_probe_def)

lemma sample_due:
  "timeUntilProbeDue sample_running_ws now mi fi = (0, True)"
  by (simp add: timeUntilProbeDue_def)

definition idle_ws :: Workspace where
  "idle_ws = updateActivityStatusFromProbe sample_running_ws idle_probe"

lemma idle_ws_sel [simp]:
  "act_LastActivity (ws_Activity idle_ws) = 1000000" "st_LastRunningTime (ws_Status idle_ws) = 500000"
  "act_LastProbe (ws_Activity idle_ws) = Some (last_probe_of idle_probe)"
  by (simp_all add: idle_ws_def updateActivity_frame)
     (simp add: updateActivityStatusFromProbe_def Let_def idle_probe_def)

lemma sample_decision:
  "EvaluatePauseWorkspaceRule lib c [sample_rule] ns pc = (Inr (rule_decision sample_rule True), c)"
  by (simp add: EvaluatePauseWorkspaceRule_def EvaluateActivityRule_def activityRuleMatches_def)

lemma sample_eligible: "IsEligibleForPause 1000000 500000 10000000 7200 600 = (True, 8200000)"
  using IsEligibleForPause_exact [of 7200 600 1000000 10000000 500000] by (simp add: is_int32_def)

lemma idle_reconcile:
  "reconcileActivity idle_env c sample_running_ws sample_kind (Some image_v1) (Some pod_small) (Some sample_pod)
     = (Inr (requeue_after (full_probe_interval sample_probe), True), set_pause_rule idle_ws 8200000, c)"
  by (simp add: reconcileActivity_def Let_def idle_runProbe sample_due evaluatePauseDecision_def
      sample_decision rule_decision_def sample_eligible flip: idle_ws_def)
     (simp add: idle_probe_def)

lemma set_pause_rule_act [simp]:
  "act_LastActivity (ws_Activity (set_pause_rule w e)) = act_LastActivity (ws_Activity w)"
  "act_LastProbe (ws_Activity (set_pause_rule w e)) = act_LastProbe (ws_Activity w)"
  by (simp_all add: set_pause_rule_def Let_def)

lemma sample_rules_schema: "rules_schema_ok (sample_kind_with imgs)"
  by (simp add: rules_schema_ok_def is_int32_def)

theorem pause_only_after_fresh_probe_witness:
  "\<exists>ap rule. kpt_ActivityProbe (wk_PodTemplate sample_kind) = Some ap \<and>
     Succeeded (runProbe idle_env sample_running_ws ap (Some image_v1) (Some sample_pod)) \<and>
     rule \<in> set (ks_ActivityRules (wk_Spec sample_kind)) \<and>
     1000000 + 1000 * arc_SecondsSinceActive (ar_Config rule) \<le> 10000000"
  using pause_only_after_fresh_probe [OF idle_reconcile [of Map.empty] sample_rules_schema]
  by (simp add: sane_ms_def)

theorem failed_probe_harmless_witness:
  "act_LastActivity (ws_Activity (fst (snd (reconcileActivity broken_env Map.empty sample_running_ws
      sample_kind (Some image_v1) (Some pod_small) (Some sample_pod))))) = 0"
proof -
  let ?run = "reconcileActivity broken_env Map.empty sample_running_ws sample_kind (Some image_v1)
                (Some pod_small) (Some sample_pod)"
  have "\<not> Succeeded (runProbe broken_env sample_running_ws sample_probe (Some image_v1) (Some sample_pod))"
    by (simp add: runProbe_def Let_def sample_pod_def imageConfigPortForID_def RunJupyterProbe_def)
  then have "\<forall>r. probe_run broken_env sample_running_ws sample_kind (Some image_v1) (Some sample_pod) = Some r
      \<longrightarrow> \<not> Succeeded r" by (simp add: probe_run_def)
  then show ?thesis
    using failed_probe_harmless [of broken_env Map.empty sample_running_ws sample_kind "Some image_v1"
        "Some pod_small" "Some sample_pod" "fst ?run" "fst (snd ?run)" "snd (snd ?run)"] by simp
qed

theorem requeue_finds_probe_due_witness:
  "timeUntilProbeDue (set_pause_rule idle_ws 8200000) 13600000
     (min_probe_interval sample_probe) (full_probe_interval sample_probe) = (0, True)"
proof -
  have "probe_run idle_env sample_running_ws sample_kind (Some image_v1) (Some sample_pod) = Some idle_probe"
    by (simp add: probe_run_def sample_due idle_runProbe)
  then show ?thesis
    using requeue_finds_probe_due [OF idle_reconcile [of Map.empty], of sample_probe 10000000 13600000]
    by (simp add: sample_intervals_ok sample_clock_ok sane_ms_def probe_intervals idle_probe_def)
qed

end
