(* ===== verification/Workspace_State.thy ===== *)
theory Workspace_State
  imports Activity_Correct
begin

text \<open>
  The status of a Workspace, \<open>generateWorkspaceStatus\<close> and the functions it calls in
  \<open>controller/internal/controller/workspace_controller.go\<close>: the observed state with its
  message, the Pod information, the pause time and the transition into \<open>Running\<close>. The
  cached client's answer to listing the events of an object is an argument.
\<close>

section \<open>Messages\<close>

definition stateMsgErrorStatefulSetWarningEvent :: string where
  "stateMsgErrorStatefulSetWarningEvent = ''Workspace StatefulSet has warning event: ''"
definition stateMsgErrorPodUnschedulable :: string where
  "stateMsgErrorPodUnschedulable = ''Workspace Pod is unschedulable: ''"
definition stateMsgErrorPodSchedulingGate :: string where
  "stateMsgErrorPodSchedulingGate = ''Workspace Pod is waiting for scheduling gate: ''"
definition stateMsgErrorPodSchedulerError :: string where
  "stateMsgErrorPodSchedulerError = ''Workspace Pod has scheduler error: ''"
definition stateMsgErrorPodWarningEvent :: string where
  "stateMsgErrorPodWarningEvent = ''Workspace Pod has warning event: ''"
definition stateMsgErrorContainerCrashLoopBackOff :: string where
  "stateMsgErrorContainerCrashLoopBackOff = ''Workspace Container is not running (CrashLoopBackOff)''"
definition stateMsgErrorContainerImagePullBackOff :: string where
  "stateMsgErrorContainerImagePullBackOff = ''Workspace Container is not running (ImagePullBackOff)''"
definition stateMsgPaused :: string where "stateMsgPaused = ''Workspace is paused''"
definition stateMsgPending :: string where "stateMsgPending = ''Workspace is pending''"
definition stateMsgRunning :: string where "stateMsgRunning = ''Workspace is running''"
definition stateMsgTerminating :: string where "stateMsgTerminating = ''Workspace is terminating''"
definition stateMsgUnknown :: string where "stateMsgUnknown = ''Workspace is in an unknown state''"

section \<open>Events and conditions\<close>

text \<open>The loop that finds the last warning event; a later event replaces only an older one.\<close>

fun last_warning :: "Event list \<Rightarrow> Event option \<Rightarrow> Event option" where
  "last_warning [] best = best"
| "last_warning (e # es) best =
     (if ev_Type e = ''Warning'' \<and>
         (case best of None \<Rightarrow> True | Some b \<Rightarrow> ev_LastTimestamp b < ev_LastTimestamp e)
      then last_warning es (Some e) else last_warning es best)"

text \<open>The loop over the conditions: the last condition of a type, or the zero value.\<close>

definition empty_condition :: PodCondition where
  "empty_condition = \<lparr>cond_Type = [], cond_Status = [], cond_Reason = [], cond_Message = []\<rparr>"

definition last_condition :: "string \<Rightarrow> PodCondition list \<Rightarrow> PodCondition" where
  "last_condition t conds = fold (\<lambda>c acc. if cond_Type c = t then c else acc) conds empty_condition"

text \<open>The state of the container named \<open>main\<close>: the reason it is waiting, if it is.\<close>

definition workspacePodTemplateContainerName :: string where
  "workspacePodTemplateContainerName = ''main''"

definition main_waiting :: "ContainerStatus list \<Rightarrow> string option" where
  "main_waiting css =
     (case List.find (\<lambda>c. cs_Name c = workspacePodTemplateContainerName) css of
        None \<Rightarrow> None | Some c \<Rightarrow> cs_Waiting c)"

section \<open>State\<close>

type_synonym event_lister = "string \<Rightarrow> string \<Rightarrow> api_error + Event list"

definition generateWorkspaceState ::
  "event_lister \<Rightarrow> bool \<Rightarrow> ObjectMeta \<Rightarrow> Pod option \<Rightarrow> api_error + WorkspaceState \<times> string \<times> ctrl_result"
where
  "generateWorkspaceState listEvents paused statefulSet pod =
     (case pod of
        None \<Rightarrow>
          if paused then Inr (WorkspaceStatePaused, stateMsgPaused, no_requeue)
          else (case listEvents (om_UID statefulSet) (om_Namespace statefulSet) of
                  Inl err \<Rightarrow> Inl err
                | Inr events \<Rightarrow>
                    (case last_warning events None of
                       Some e \<Rightarrow> Inr (WorkspaceStateError,
                                      stateMsgErrorStatefulSetWarningEvent @ ev_Message e, no_requeue)
                     | None \<Rightarrow> Inr (WorkspaceStateUnknown, stateMsgUnknown, no_requeue)))
      | Some pod \<Rightarrow>
          if om_DeletionTimestamp (pod_Meta pod) \<noteq> None
          then Inr (WorkspaceStateTerminating, stateMsgTerminating, no_requeue)
          else
            let podPhase = pod_Phase pod;
                podScheduledCondition = last_condition ''PodScheduled'' (pod_Conditions pod);
                podReadyCondition = last_condition ''Ready'' (pod_Conditions pod);
                podScheduled = cond_Status podScheduledCondition = ''True'';
                podReady = cond_Status podReadyCondition = ''True'';
                msg = cond_Message podScheduledCondition
            in if \<not> podScheduled \<and> cond_Reason podScheduledCondition = ''Unschedulable''
               then Inr (WorkspaceStateError, stateMsgErrorPodUnschedulable @ msg, no_requeue)
               else if \<not> podScheduled \<and> cond_Reason podScheduledCondition = ''SchedulingGated''
               then Inr (WorkspaceStateError, stateMsgErrorPodSchedulingGate @ msg, no_requeue)
               else if \<not> podScheduled \<and> cond_Reason podScheduledCondition = ''SchedulerError''
               then Inr (WorkspaceStateError, stateMsgErrorPodSchedulerError @ msg, no_requeue)
               else if podPhase = ''Running'' \<and> podReady
               then Inr (WorkspaceStateRunning, stateMsgRunning, no_requeue)
               else if main_waiting (pod_ContainerStatuses pod) = Some ''CrashLoopBackOff''
               then Inr (WorkspaceStateError, stateMsgErrorContainerCrashLoopBackOff, no_requeue)
               else if main_waiting (pod_ContainerStatuses pod) = Some ''ImagePullBackOff''
               then Inr (WorkspaceStateError, stateMsgErrorContainerImagePullBackOff, no_requeue)
               else (case listEvents (om_UID (pod_Meta pod)) (om_Namespace (pod_Meta pod)) of
                       Inl err \<Rightarrow> Inl err
                     | Inr events \<Rightarrow>
                         (case last_warning events None of
                            Some e \<Rightarrow> Inr (WorkspaceStateError,
                                           stateMsgErrorPodWarningEvent @ ev_Message e, no_requeue)
                          | None \<Rightarrow>
                              if podPhase = ''Pending''
                              then Inr (WorkspaceStatePending, stateMsgPending, requeue_after (dur_seconds 15))
                              else Inr (WorkspaceStateUnknown, stateMsgUnknown, no_requeue))))"

definition generateWorkspacePodStatus :: "Pod option \<Rightarrow> WorkspacePodStatus" where
  "generateWorkspacePodStatus pod =
     (case pod of
        None \<Rightarrow> \<lparr>ps_Name = [], ps_NodeName = [], ps_ServiceAccountName = [], ps_Containers = [], ps_InitContainers = []\<rparr>
      | Some p \<Rightarrow> \<lparr>ps_Name = om_Name (pod_Meta p), ps_NodeName = pod_NodeName p, ps_ServiceAccountName = [],
                   ps_Containers = pod_Containers p, ps_InitContainers = pod_InitContainers p\<rparr>)"

definition recordRunningTransition ::
  "int \<Rightarrow> WorkspaceStatus \<Rightarrow> WorkspaceState \<Rightarrow> WorkspaceState \<Rightarrow> WorkspaceStatus"
where
  "recordRunningTransition now status currentState newState =
     (if newState \<noteq> WorkspaceStateRunning then status
      else if currentState \<noteq> WorkspaceStateRunning \<or> st_LastRunningTime status = 0
      then status\<lparr>st_LastRunningTime := UnixMilli now, st_Activity := empty_activity\<rparr>
      else status)"

text \<open>
  \<open>now\<close> is the instant read for the pause time and for the running transition.
\<close>

definition generateWorkspaceStatus ::
  "event_lister \<Rightarrow> int \<Rightarrow> Workspace \<Rightarrow> Pod option \<Rightarrow> ObjectMeta \<Rightarrow> string
     \<Rightarrow> (api_error + ctrl_result) \<times> WorkspaceStatus"
where
  "generateWorkspaceStatus listEvents now workspace pod statefulSet serviceAccountName =
     (let status = ws_Status workspace;
          workspacePaused = spec_Paused (ws_Spec workspace);
          status = (if workspacePaused
                    then (if st_PauseTime status = 0 then status\<lparr>st_PauseTime := UnixMilli now\<rparr> else status)
                    else (if st_PauseTime status \<noteq> 0 then status\<lparr>st_PauseTime := 0\<rparr> else status));
          status = status\<lparr>st_PodTemplatePod :=
                     (generateWorkspacePodStatus pod)\<lparr>ps_ServiceAccountName := serviceAccountName\<rparr>\<rparr>
      in case generateWorkspaceState listEvents workspacePaused statefulSet pod of
           Inl err \<Rightarrow> (Inl err, status)
         | Inr (workspaceState, workspaceStateMessage, result) \<Rightarrow>
             (Inr result,
              recordRunningTransition now
                (status\<lparr>st_State := workspaceState, st_StateMessage := workspaceStateMessage\<rparr>)
                (st_State (ws_Status workspace)) workspaceState))"

definition mergeReconcileResult :: "ctrl_result \<Rightarrow> ctrl_result \<Rightarrow> ctrl_result" where
  "mergeReconcileResult a b =
     (if RequeueAfter a \<le> 0 then b
      else if RequeueAfter b \<le> 0 then a
      else if RequeueAfter a \<le> RequeueAfter b then a else b)"

section \<open>The last warning\<close>

lemma last_warning_spec:
  "case last_warning es best of
     None \<Rightarrow> best = None \<and> (\<forall>e \<in> set es. ev_Type e \<noteq> ''Warning'')
   | Some w \<Rightarrow> (w \<in> set es \<and> ev_Type w = ''Warning'' \<or> best = Some w) \<and>
               (\<forall>e \<in> set es. ev_Type e = ''Warning'' \<longrightarrow> ev_LastTimestamp e \<le> ev_LastTimestamp w) \<and>
               (\<forall>b. best = Some b \<longrightarrow> ev_LastTimestamp b \<le> ev_LastTimestamp w)"
proof (induction es best rule: last_warning.induct)
  case (1 best)
  then show ?case by (cases best) auto
next
  case (2 e es best)
  show ?case
  proof (cases "ev_Type e = ''Warning'' \<and> (case best of None \<Rightarrow> True | Some b \<Rightarrow> ev_LastTimestamp b < ev_LastTimestamp e)")
    case True
    with "2.IH"(1) show ?thesis by (auto split: option.splits)
  next
    case False
    with "2.IH"(2) show ?thesis by (auto split: option.splits)
  qed
qed

lemma last_warning_None_iff: "last_warning es None = None \<longleftrightarrow> (\<forall>e \<in> set es. ev_Type e \<noteq> ''Warning'')"
  using last_warning_spec [where es = es and best = None] by (auto split: option.splits)

section \<open>Properties\<close>

text \<open>
  When a Workspace counts as running: its Pod exists, is not being deleted, is in phase
  \<open>Running\<close> with a true \<open>Ready\<close> condition, and was not reported unschedulable.
\<close>

definition pod_unschedulable :: "Pod \<Rightarrow> bool" where
  "pod_unschedulable p \<longleftrightarrow>
     (let c = last_condition ''PodScheduled'' (pod_Conditions p) in
      cond_Status c \<noteq> ''True'' \<and> cond_Reason c \<in> {''Unschedulable'', ''SchedulingGated'', ''SchedulerError''})"

definition pod_running :: "Pod \<Rightarrow> bool" where
  "pod_running p \<longleftrightarrow>
     om_DeletionTimestamp (pod_Meta p) = None \<and> \<not> pod_unschedulable p \<and> pod_Phase p = ''Running'' \<and>
     cond_Status (last_condition ''Ready'' (pod_Conditions p)) = ''True''"

lemma generateWorkspaceState_Running_iff:
  "(\<exists>msg res. generateWorkspaceState le paused sts pod = Inr (WorkspaceStateRunning, msg, res))
     \<longleftrightarrow> (\<exists>p. pod = Some p \<and> pod_running p)"
  by (cases pod) (auto simp: generateWorkspaceState_def pod_running_def pod_unschedulable_def Let_def
                       split: option.splits sum.splits)

lemma generateWorkspaceState_Paused_iff:
  "(\<exists>msg res. generateWorkspaceState le paused sts pod = Inr (WorkspaceStatePaused, msg, res))
     \<longleftrightarrow> pod = None \<and> paused"
  by (cases pod) (auto simp: generateWorkspaceState_def Let_def split: option.splits sum.splits)

lemma generateWorkspaceState_Terminating_iff:
  "(\<exists>msg res. generateWorkspaceState le paused sts pod = Inr (WorkspaceStateTerminating, msg, res))
     \<longleftrightarrow> (\<exists>p. pod = Some p \<and> om_DeletionTimestamp (pod_Meta p) \<noteq> None)"
  by (cases pod) (auto simp: generateWorkspaceState_def Let_def split: option.splits sum.splits)

lemma generateWorkspaceState_Pending_requeues:
  "generateWorkspaceState le paused sts pod = Inr (st, msg, res) \<Longrightarrow>
     (st = WorkspaceStatePending \<longrightarrow> RequeueAfter res = 15000000000) \<and>
     (st \<noteq> WorkspaceStatePending \<longrightarrow> res = no_requeue) \<and> st \<noteq> WorkspaceStateUnset"
  by (cases pod) (auto simp: generateWorkspaceState_def Let_def dur_seconds_def is_int64_def
                       split: option.splits sum.splits if_splits)

text \<open>A state that needs no events never depends on the event list, nor fails with it.\<close>

lemma generateWorkspaceState_Inl:
  assumes "generateWorkspaceState le paused sts pod = Inl err"
  shows "le (case pod of None \<Rightarrow> om_UID sts | Some p \<Rightarrow> om_UID (pod_Meta p))
            (case pod of None \<Rightarrow> om_Namespace sts | Some p \<Rightarrow> om_Namespace (pod_Meta p)) = Inl err"
    and "\<not> (pod = None \<and> paused)" and "\<forall>p. pod = Some p \<longrightarrow> \<not> pod_running p"
  using assms by (cases pod; auto simp: generateWorkspaceState_def pod_running_def pod_unschedulable_def Let_def
                                  split: option.splits sum.splits if_splits)+

text \<open>
  C33. The reported state is exact. A Workspace is reported \<open>Running\<close> exactly when its Pod
  is live, schedulable, in phase Running and ready, \<open>Paused\<close> exactly when it is paused and
  has no Pod, \<open>Terminating\<close> exactly when its Pod is being deleted; a state is always set,
  and only a \<open>Pending\<close> Workspace asks to be looked at again, after fifteen seconds.
\<close>

theorem generateWorkspaceState_exact:
  assumes "generateWorkspaceState le paused sts pod = Inr (st, msg, res)"
  shows "(st = WorkspaceStateRunning \<longleftrightarrow> (\<exists>p. pod = Some p \<and> pod_running p)) \<and>
    (st = WorkspaceStatePaused \<longleftrightarrow> pod = None \<and> paused) \<and>
    (st = WorkspaceStateTerminating \<longleftrightarrow> (\<exists>p. pod = Some p \<and> om_DeletionTimestamp (pod_Meta p) \<noteq> None)) \<and>
    st \<noteq> WorkspaceStateUnset \<and>
    RequeueAfter res = (if st = WorkspaceStatePending then 15000000000 else 0)"
  using assms generateWorkspaceState_Running_iff [of le paused sts pod]
    generateWorkspaceState_Paused_iff [of le paused sts pod]
    generateWorkspaceState_Terminating_iff [of le paused sts pod]
    generateWorkspaceState_Pending_requeues [OF assms]
  by auto

theorem generateWorkspaceState_exact_witness:
  "generateWorkspaceState (\<lambda>_ _. Inr []) True empty_meta None = Inr (WorkspaceStatePaused, stateMsgPaused, no_requeue)
   \<and> (WorkspaceStatePaused = WorkspaceStatePaused \<longleftrightarrow> (None :: Pod option) = None \<and> True)"
  using generateWorkspaceState_exact [of "\<lambda>_ _. Inr []" True empty_meta None WorkspaceStatePaused
      stateMsgPaused no_requeue]
  by (simp add: generateWorkspaceState_def)

text \<open>
  C32. Pause time and running time. However often the status is recomputed, \<open>pauseTime\<close> is
  set exactly while the Workspace is paused and keeps the instant it was first set; and a
  Workspace that enters \<open>Running\<close> starts with the current time as its running time and
  with no activity data of an earlier run, while one that stays \<open>Running\<close> keeps both.
\<close>

theorem generateWorkspaceStatus_times:
  assumes "generateWorkspaceStatus le now ws pod sts sa = (Inr res, st')" and "UnixMilli now \<noteq> 0"
  shows "(spec_Paused (ws_Spec ws) \<longleftrightarrow> st_PauseTime st' \<noteq> 0) \<and>
    (spec_Paused (ws_Spec ws) \<and> st_PauseTime (ws_Status ws) \<noteq> 0 \<longrightarrow>
       st_PauseTime st' = st_PauseTime (ws_Status ws)) \<and>
    (st_State st' = WorkspaceStateRunning \<and> st_State (ws_Status ws) \<noteq> WorkspaceStateRunning \<longrightarrow>
       st_LastRunningTime st' = UnixMilli now \<and> st_Activity st' = empty_activity) \<and>
    (st_State st' = WorkspaceStateRunning \<and> st_State (ws_Status ws) = WorkspaceStateRunning \<and>
     st_LastRunningTime (ws_Status ws) \<noteq> 0 \<longrightarrow>
       st_LastRunningTime st' = st_LastRunningTime (ws_Status ws) \<and>
       st_Activity st' = st_Activity (ws_Status ws))"
  using assms by (auto simp: generateWorkspaceStatus_def recordRunningTransition_def Let_def
                       split: sum.splits if_splits)

text \<open>The example: the sample Pod, ready, seen for the first time.\<close>

definition ready_pod :: Pod where
  "ready_pod = sample_pod\<lparr>pod_Conditions :=
     [\<lparr>cond_Type = ''Ready'', cond_Status = ''True'', cond_Reason = [], cond_Message = []\<rparr>]\<rparr>"

lemma ready_pod_running: "pod_running ready_pod"
  by (simp add: pod_running_def pod_unschedulable_def ready_pod_def sample_pod_def empty_meta_def
                last_condition_def empty_condition_def)

lemma ready_pod_state:
  "generateWorkspaceState le paused sts (Some ready_pod) = Inr (WorkspaceStateRunning, stateMsgRunning, no_requeue)"
  by (simp add: generateWorkspaceState_def ready_pod_def sample_pod_def empty_meta_def
                last_condition_def empty_condition_def)

theorem generateWorkspaceStatus_times_witness:
  "st_LastRunningTime (snd (generateWorkspaceStatus (\<lambda>_ _. Inr []) (10000 * 1000000000) sample_ws
      (Some ready_pod) empty_meta ''sa'')) = 10000000"
proof -
  let ?gen = "generateWorkspaceStatus (\<lambda>_ _. Inr []) (10000 * 1000000000) sample_ws (Some ready_pod) empty_meta ''sa''"
  have "?gen = (Inr no_requeue, snd ?gen)" "st_State (snd ?gen) = WorkspaceStateRunning"
    by (simp_all add: generateWorkspaceStatus_def ready_pod_state Let_def recordRunningTransition_def)
  then show ?thesis
    using generateWorkspaceStatus_times [of "\<lambda>_ _. Inr []" "10000 * 1000000000" sample_ws "Some ready_pod"
        empty_meta "''sa''" no_requeue "snd ?gen"]
    by (simp add: sample_status_def)
qed

section \<open>Merging requeue times\<close>

text \<open>The merged result asks for the sooner of the requeue times that are set.\<close>

lemma mergeReconcileResult_sooner:
  "RequeueAfter (mergeReconcileResult a b) =
     (if RequeueAfter a \<le> 0 then RequeueAfter b
      else if RequeueAfter b \<le> 0 then RequeueAfter a else min (RequeueAfter a) (RequeueAfter b))"
  by (simp add: mergeReconcileResult_def)

lemma mergeReconcileResult_pos:
  "0 < RequeueAfter (mergeReconcileResult a b) \<longleftrightarrow> 0 < RequeueAfter a \<or> 0 < RequeueAfter b"
  by (auto simp: mergeReconcileResult_def)

end
