(* ===== verification/Reconcile_Status.thy ===== *)
theory Reconcile_Status
  imports Workspace_State
begin

text \<open>
  The end of a Workspace reconcile, from the computation of the status to the patch of
  \<open>spec.paused\<close> (\<open>Reconcile\<close> in
  \<open>controller/internal/controller/workspace_controller.go\<close>): the status is generated, the
  activity step runs on it, a TLS failure of the kube-rbac-proxy overrides the reported state,
  the status is written if it changed, and a Workspace to be paused is patched.

  The writes a reconcile performs are a list, in order; the answers of the API server are part of
  the environment. \<open>stored\<close> is the Workspace as fetched, \<open>workspace\<close> the one in
  memory, on which the options of the status are already filled in.
\<close>

datatype ws_write = UpdateStatus WorkspaceStatus | PatchPaused

datatype reconcile_error =
    ApiError api_error | ActivityError activity_error | TLSError string | OwnerRefError string | PanicError

record finish_env =
  fe_ListEvents :: event_lister
  fe_Now :: int
  fe_Activity :: activity_env
  fe_StatusUpdate :: "WorkspaceStatus \<Rightarrow> api_error option"
  fe_Patch :: "api_error option"

definition stateMsgErrorKubeRBACProxyTLS :: string where
  "stateMsgErrorKubeRBACProxyTLS = ''kube-rbac-proxy TLS profile cannot be applied: ''"

text \<open>\<open>if proxyTLSErr != nil { workspace.Status.State = Error ... }\<close>\<close>

definition override_tls_state :: "string option \<Rightarrow> WorkspaceStatus \<Rightarrow> WorkspaceStatus" where
  "override_tls_state proxyTLSErr status =
     (case proxyTLSErr of
        None \<Rightarrow> status
      | Some e \<Rightarrow> status\<lparr>st_State := WorkspaceStateError, st_StateMessage := stateMsgErrorKubeRBACProxyTLS @ e\<rparr>)"

definition finish_reconcile ::
  "finish_env \<Rightarrow> selector_cache \<Rightarrow> Workspace \<Rightarrow> Workspace \<Rightarrow> WorkspaceKind \<Rightarrow> ImageConfigValue \<Rightarrow>
     PodConfigValue \<Rightarrow> Pod option \<Rightarrow> ObjectMeta \<Rightarrow> string \<Rightarrow> string option \<Rightarrow>
     (reconcile_error + ctrl_result) \<times> ws_write list \<times> selector_cache"
where
  "finish_reconcile env c stored workspace kind img pc pod sts serviceAccountName proxyTLSErr =
     (case generateWorkspaceStatus (fe_ListEvents env) (fe_Now env) workspace pod sts serviceAccountName of
        (Inl err, _) \<Rightarrow> (Inl (ApiError err), [], c)
      | (Inr result, workspaceStatus) \<Rightarrow>
          (let workspace = workspace\<lparr>ws_Status := workspaceStatus\<rparr> in
           case reconcileActivity (fe_Activity env) c workspace kind (Some img) (Some pc) pod of
             (Inl err, _, c') \<Rightarrow> (Inl (ActivityError err), [], c')
           | (Inr (activityResult, paused), workspace', c') \<Rightarrow>
               (let result = mergeReconcileResult result activityResult;
                    status = override_tls_state proxyTLSErr (ws_Status workspace');
                    writes = (if ws_Status stored \<noteq> status then [UpdateStatus status] else [])
                in case (if ws_Status stored \<noteq> status then fe_StatusUpdate env status else None) of
                     Some err \<Rightarrow> (Inl (ApiError err), writes, c')
                   | None \<Rightarrow>
                       if paused
                       then (case fe_Patch env of
                               Some err \<Rightarrow> (Inl (ApiError err), writes @ [PatchPaused], c')
                             | None \<Rightarrow>
                                 ((case proxyTLSErr of
                                     Some e \<Rightarrow> Inl (TLSError e) | None \<Rightarrow> Inr no_requeue),
                                  writes @ [PatchPaused], c'))
                       else ((case proxyTLSErr of Some e \<Rightarrow> Inl (TLSError e) | None \<Rightarrow> Inr result), writes, c'))))"

text \<open>The status the API server holds after the reconcile, when it accepts every write.\<close>

definition stored_status :: "WorkspaceStatus \<Rightarrow> ws_write list \<Rightarrow> WorkspaceStatus" where
  "stored_status s writes = fold (\<lambda>w s. case w of UpdateStatus s' \<Rightarrow> s' | PatchPaused \<Rightarrow> s) writes s"

section \<open>Lemmas\<close>

lemma override_tls_frame [simp]:
  "st_Activity (override_tls_state e s) = st_Activity s"
  "st_LastRunningTime (override_tls_state e s) = st_LastRunningTime s"
  "st_State (override_tls_state e s) = (if e = None then st_State s else WorkspaceStateError)"
  by (auto simp: override_tls_state_def split: option.splits)

text \<open>The status and the activity outcome a reconcile that performs a write went through.\<close>

lemma finish_reconcile_writes:
  assumes "finish_reconcile env c stored ws kind img pc pod sts sa tls = (out, writes, c')" and "writes \<noteq> []"
  obtains res status ares paused ws1 where
    "generateWorkspaceStatus (fe_ListEvents env) (fe_Now env) ws pod sts sa = (Inr res, status)"
    "reconcileActivity (fe_Activity env) c (ws\<lparr>ws_Status := status\<rparr>) kind (Some img) (Some pc) pod
       = (Inr (ares, paused), ws1, c')"
    "set writes \<subseteq> {UpdateStatus (override_tls_state tls (ws_Status ws1)), PatchPaused}"
    "PatchPaused \<in> set writes \<longrightarrow> paused"
    "stored_status (ws_Status stored) writes = override_tls_state tls (ws_Status ws1)"
  using assms
  by (auto simp: finish_reconcile_def Let_def stored_status_def
           split: prod.splits sum.splits option.splits if_splits)

section \<open>Properties\<close>

text \<open>
  C21. A Workspace is only patched as paused after its status was persisted. Every reconcile
  writes the status at most once and before the patch; it patches only when the activity step
  decided to pause, which needs a Pod that is live and ready; and when the status write fails
  nothing is patched.
\<close>

theorem pause_patch_ordered:
  assumes "finish_reconcile env c stored ws kind img pc pod sts sa tls = (out, writes, c')"
  shows "(\<exists>s. writes = [] \<or> writes = [UpdateStatus s] \<or> writes = [PatchPaused] \<or> writes = [UpdateStatus s, PatchPaused])
    \<and> (PatchPaused \<in> set writes \<longrightarrow>
         (\<exists>p. pod = Some p \<and> pod_running p) \<and>
         (\<forall>s. UpdateStatus s \<in> set writes \<longrightarrow> fe_StatusUpdate env s = None) \<and>
         (\<exists>status ares ws1. reconcileActivity (fe_Activity env) c (ws\<lparr>ws_Status := status\<rparr>) kind (Some img) (Some pc) pod
            = (Inr (ares, True), ws1, c')))"
proof -
  have shape: "\<exists>s. writes = [] \<or> writes = [UpdateStatus s] \<or> writes = [PatchPaused] \<or> writes = [UpdateStatus s, PatchPaused]"
    using assms by (auto simp: finish_reconcile_def Let_def split: prod.splits sum.splits option.splits if_splits)
  have upd: "fe_StatusUpdate env s = None" if "PatchPaused \<in> set writes" "UpdateStatus s \<in> set writes" for s
    using assms that by (auto simp: finish_reconcile_def Let_def split: prod.splits sum.splits option.splits if_splits)
  have "(\<exists>p. pod = Some p \<and> pod_running p) \<and>
        (\<exists>status ares ws1. reconcileActivity (fe_Activity env) c (ws\<lparr>ws_Status := status\<rparr>) kind (Some img) (Some pc) pod
            = (Inr (ares, True), ws1, c'))" if pp: "PatchPaused \<in> set writes"
  proof -
    from pp have "writes \<noteq> []" by auto
    from finish_reconcile_writes [OF assms this] pp obtain res status ares ws1 where
      gen: "generateWorkspaceStatus (fe_ListEvents env) (fe_Now env) ws pod sts sa = (Inr res, status)" and
      act: "reconcileActivity (fe_Activity env) c (ws\<lparr>ws_Status := status\<rparr>) kind (Some img) (Some pc) pod
              = (Inr (ares, True), ws1, c')" by (metis (full_types))
    from act have "st_State status = WorkspaceStateRunning"
      by (cases rule: reconcileActivity_cases) auto
    with gen have "\<exists>msg res. generateWorkspaceState (fe_ListEvents env) (spec_Paused (ws_Spec ws)) sts pod
        = Inr (WorkspaceStateRunning, msg, res)"
      by (auto simp: generateWorkspaceStatus_def recordRunningTransition_def Let_def split: sum.splits if_splits)
    with act show ?thesis using generateWorkspaceState_Running_iff by blast
  qed
  with shape upd show ?thesis by blast
qed

text \<open>The example: the idle notebook of the activity step, with a running and ready Pod.\<close>

definition sample_finish_env :: finish_env where
  "sample_finish_env = \<lparr>fe_ListEvents = (\<lambda>_ _. Inr []), fe_Now = 10000 * 1000000000, fe_Activity = idle_env,
     fe_StatusUpdate = (\<lambda>_. None), fe_Patch = None\<rparr>"

lemma sample_finish_env_sel [simp]:
  "fe_ListEvents sample_finish_env = (\<lambda>_ _. Inr [])" "fe_Now sample_finish_env = 10000 * 1000000000"
  "fe_Activity sample_finish_env = idle_env" "fe_StatusUpdate sample_finish_env = (\<lambda>_. None)"
  "fe_Patch sample_finish_env = None"
  by (simp_all add: sample_finish_env_def)

theorem pause_patch_ordered_witness:
  "(\<exists>s. fst (snd (finish_reconcile sample_finish_env Map.empty sample_running_ws sample_running_ws sample_kind
      image_v1 pod_small None empty_meta ''sa'' None)) = [UpdateStatus s])"
proof -
  let ?run = "finish_reconcile sample_finish_env Map.empty sample_running_ws sample_running_ws sample_kind
      image_v1 pod_small None empty_meta ''sa'' None"
  have "fst (snd ?run) \<noteq> []"
    by (simp add: finish_reconcile_def generateWorkspaceStatus_def generateWorkspaceState_def Let_def
        recordRunningTransition_def reconcileActivity_def override_tls_state_def)
       (auto simp: sample_running_ws_def sample_status_def dest!: arg_cong [where f = st_State])
  moreover have "?run = (fst ?run, fst (snd ?run), snd (snd ?run))" by simp
  ultimately show ?thesis
    using pause_patch_ordered [of sample_finish_env Map.empty sample_running_ws sample_running_ws sample_kind
        image_v1 pod_small None empty_meta "''sa''" None "fst ?run" "fst (snd ?run)" "snd (snd ?run)"] by auto
qed

section \<open>A TLS failure keeps restarting the activity clock\<close>

lemma eligible_min_running:
  assumes "fst (IsEligibleForPause la lr now s m)" and "0 < m" "is_int32 m" and "sane_ms now" "sane_ms lr"
  shows "1000 * m \<le> now - lr"
proof -
  have "dur_millis (wrap64 (now - lr)) = (now - lr) * 1000000"
    using assms(4,5) by (simp add: is_int64_def sane_ms_def dur_millis_bounded abs_le_iff)
  moreover have "\<not> dur_millis (wrap64 (now - lr)) < dur_seconds m"
    using assms(1,2) by (auto simp: IsEligibleForPause_def Let_def split: if_splits)
  ultimately show ?thesis using assms(3) by (simp add: dur_seconds_int32)
qed

text \<open>
  A TLS failure makes a reconcile store the state \<open>Error\<close>, although the Pod runs; the next reconcile takes that
  for a transition into \<open>Running\<close> and restarts the running time. So once the stored state is \<open>Error\<close>, a
  reconcile whose status and activity steps are within a second of each other does not pause a Workspace whose
  rules all have a minimum running time, however long it has been idle, and leaves the state at \<open>Error\<close>
  for the next one. The comments of \<open>Reconcile\<close> say that such a Workspace can still be culled.
\<close>

lemma tls_failure_blocks_pause:
  assumes "finish_reconcile env c stored ws kind img pc pod sts sa (Some e) = (out, writes, c')"
    and "ws_Status stored = ws_Status ws" and "st_State (ws_Status ws) = WorkspaceStateError"
    and "\<forall>r \<in> set (ks_ActivityRules (wk_Spec kind)).
           \<exists>m. arc_MinRunningSeconds (ar_Config r) = Some m \<and> 0 < m \<and> is_int32 m"
    and "sane_ms (UnixMilli (fe_Now env))" and "sane_ms (UnixMilli (ae_Now (fe_Activity env)))"
    and "UnixMilli (ae_Now (fe_Activity env)) - UnixMilli (fe_Now env) < 1000"
  shows "PatchPaused \<notin> set writes \<and>
    st_State (stored_status (ws_Status stored) writes) = WorkspaceStateError"
proof (cases "writes = []")
  case True
  then show ?thesis using assms(2,3) by (simp add: stored_status_def)
next
  case False
  from finish_reconcile_writes [OF assms(1) False] obtain res status ares paused ws1 where
    gen: "generateWorkspaceStatus (fe_ListEvents env) (fe_Now env) ws pod sts sa = (Inr res, status)" and
    act: "reconcileActivity (fe_Activity env) c (ws\<lparr>ws_Status := status\<rparr>) kind (Some img) (Some pc) pod
            = (Inr (ares, paused), ws1, c')" and
    pp: "PatchPaused \<in> set writes \<longrightarrow> paused" and
    st: "stored_status (ws_Status stored) writes = override_tls_state (Some e) (ws_Status ws1)" by metis
  have "\<not> paused"
  proof
    assume paused
    with act have act: "reconcileActivity (fe_Activity env) c (ws\<lparr>ws_Status := status\<rparr>) kind (Some img) (Some pc) pod
            = (Inr (ares, True), ws1, c')" by simp
    then show False
    proof (cases rule: reconcileActivity_cases)
      case (due ap lbls probe)
      let ?now = "UnixMilli (ae_Now (fe_Activity env))"
      have "st_State status = WorkspaceStateRunning" using due(2) by simp
      with gen assms(3) have lr: "st_LastRunningTime status = UnixMilli (fe_Now env)"
        by (auto simp: generateWorkspaceStatus_def recordRunningTransition_def Let_def split: sum.splits if_splits)
      from due(7) obtain rule where rule: "rule \<in> set (ks_ActivityRules (wk_Spec kind))"
        "fst (IsEligibleForPause (act_LastActivity (ws_Activity (updateActivityStatusFromProbe (ws\<lparr>ws_Status := status\<rparr>) probe)))
            (st_LastRunningTime (ws_Status (updateActivityStatusFromProbe (ws\<lparr>ws_Status := status\<rparr>) probe))) ?now
            (arc_SecondsSinceActive (ar_Config rule))
            (case arc_MinRunningSeconds (ar_Config rule) of Some s \<Rightarrow> s | None \<Rightarrow> 0))"
        using evaluatePauseDecision_True by metis
      from assms(4) rule(1) obtain m where m: "arc_MinRunningSeconds (ar_Config rule) = Some m" "0 < m" "is_int32 m"
        by blast
      with rule(2) eligible_min_running [OF _ m(2,3) assms(6,5)] have "1000 * m \<le> ?now - UnixMilli (fe_Now env)"
        by (simp add: updateActivity_frame lr)
      with m(2) assms(7) show False by linarith
    qed auto
  qed
  with pp st show ?thesis by auto
qed

end
