(* ===== verification/Owned_Objects.thy ===== *)
theory Owned_Objects
  imports Names Field_Errors
begin

text \<open>
  The Kubernetes objects a Workspace owns and the functions that generate them,
  \<open>controller/internal/controller/workspace_controller.go\<close>: ServiceAccount, RoleBindings,
  StatefulSet, Service, VirtualService, and for the Gateway API mode the kube-rbac-proxy sidecar
  with its ClusterRoleBinding, ConfigMap and Service, the ReferenceGrant and the HTTPRoute.

  One record per object with the fields the generators set. \<open>pt_Defaulted\<close> and
  \<open>svc_Rest\<close> stand for the fields the generators leave unset and the API server fills in.
  \<open>maps.Copy\<close> and \<open>labels.Merge\<close> are \<open>++\<^sub>f\<close>. A run-time panic of the source is
  the error \<open>GenPanic\<close>.
\<close>

section \<open>Objects\<close>

record ServiceAccount =
  sacc_Meta :: ObjectMeta

record RoleRef =
  rr_APIGroup :: string
  rr_Kind :: string
  rr_Name :: string

record Subject =
  sub_Kind :: string
  sub_Name :: string
  sub_Namespace :: string

record RoleBinding =
  rb_Meta :: ObjectMeta
  rb_RoleRef :: RoleRef
  rb_Subjects :: "Subject list"

record ContainerPort =
  ctp_Name :: string
  ctp_ContainerPort :: int
  ctp_Protocol :: string

record Container =
  ctr_Name :: string
  ctr_Image :: string
  ctr_ImagePullPolicy :: string
  ctr_Args :: "string list"
  ctr_Ports :: "ContainerPort list"
  ctr_ReadinessProbe :: "k8s_opaque option"
  ctr_LivenessProbe :: "k8s_opaque option"
  ctr_StartupProbe :: "k8s_opaque option"
  ctr_SecurityContext :: "k8s_opaque option"
  ctr_VolumeMounts :: "VolumeMount list"
  ctr_Env :: "EnvVar list"
  ctr_Resources :: "k8s_opaque option"

record PodTemplate =
  pt_Labels :: strmap
  pt_Annotations :: strmap
  pt_Affinity :: "k8s_opaque option"
  pt_Containers :: "Container list"
  pt_NodeSelector :: strmap
  pt_SchedulerName :: string
  pt_SecurityContext :: "k8s_opaque option"
  pt_ServiceAccountName :: string
  pt_Tolerations :: "k8s_opaque list"
  pt_Volumes :: "Volume list"
  pt_Defaulted :: "k8s_opaque option"

record StatefulSet =
  sts_Meta :: ObjectMeta
  sts_Replicas :: int
  sts_Selector :: strmap
  sts_Template :: PodTemplate

datatype target_port = TargetNumber int | TargetName string

record ServicePort =
  svp_Name :: string
  svp_TargetPort :: target_port
  svp_Port :: int
  svp_Protocol :: string

record Service =
  svc_Meta :: ObjectMeta
  svc_Ports :: "ServicePort list"
  svc_Selector :: strmap
  svc_Type :: string
  svc_Rest :: "k8s_opaque option"

record HeaderOperations =
  ho_Set :: "strmap option"
  ho_Add :: "strmap option"
  ho_Remove :: "string list"

record VirtualServiceRoute =
  vsr_Headers :: "HeaderOperations option"
  vsr_Rewrite :: "string option"
  vsr_MatchPrefix :: string
  vsr_DestHost :: string
  vsr_DestPort :: int

record VirtualService =
  vsv_Meta :: ObjectMeta
  vsv_Gateways :: "string list"
  vsv_Hosts :: "string list"
  vsv_Http :: "VirtualServiceRoute list"

record ConfigMap =
  cm_Meta :: ObjectMeta
  cm_Data :: strmap

record ReferenceGrant =
  rg_Meta :: ObjectMeta
  rg_FromKind :: string
  rg_FromNamespace :: string
  rg_ToKind :: string
  rg_ToName :: string

record HTTPRoute =
  hr_Meta :: ObjectMeta
  hr_ParentName :: string
  hr_ParentNamespace :: string
  hr_PathPrefix :: string
  hr_BackendName :: string
  hr_BackendNamespace :: string
  hr_BackendPort :: int

text \<open>\<open>EnvConfig\<close>, the settings the generators read.\<close>

record EnvConfig =
  cfg_IstioGateway :: string
  cfg_IstioHosts :: string
  cfg_ClusterDomain :: string
  cfg_UseIstio :: bool
  cfg_UseKubeGateway :: bool
  cfg_KubeGatewayName :: string
  cfg_KubeGatewayNamespace :: string
  cfg_ControllerNamespace :: string
  cfg_KubeRbacProxyImage :: string

section \<open>Constants\<close>

definition workspaceNameLabel :: string where
  "workspaceNameLabel = ''notebooks.kubeflow.org/workspace-name''"
definition workspaceSelectorLabel :: string where "workspaceSelectorLabel = ''statefulset''"
definition odhComponentLabelKey :: string where "odhComponentLabelKey = ''opendatahub.io/component''"
definition odhNamespaceLabelKey :: string where "odhNamespaceLabelKey = ''opendatahub.io/namespace''"
definition odhComponentWorkspace :: string where "odhComponentWorkspace = ''workspace''"
definition workspaceKubeRbacProxyServicePortName :: string where
  "workspaceKubeRbacProxyServicePortName = ''kube-rbac-proxy''"
definition workspaceKubeRbacProxyPort :: int where "workspaceKubeRbacProxyPort = 8443"
definition workspaceKubeRbacProxyHealthPort :: int where "workspaceKubeRbacProxyHealthPort = 8444"
definition workspaceKubeRbacProxyConfigVolumeName :: string where
  "workspaceKubeRbacProxyConfigVolumeName = ''kube-rbac-proxy-config''"
definition workspaceKubeRbacProxyConfigMountPath :: string where
  "workspaceKubeRbacProxyConfigMountPath = ''/etc/kube-rbac-proxy''"
definition workspaceKubeRbacProxyConfigFilePath :: string where
  "workspaceKubeRbacProxyConfigFilePath = ''/etc/kube-rbac-proxy/config-file.yaml''"
definition workspaceKubeRbacProxyTLSCertsVolumeName :: string where
  "workspaceKubeRbacProxyTLSCertsVolumeName = ''kube-rbac-proxy-tls-certs''"
definition workspaceKubeRbacProxyTLSCertsMountPath :: string where
  "workspaceKubeRbacProxyTLSCertsMountPath = ''/etc/tls/private''"
definition workspaceKubeRbacProxyTLSCertFilePath :: string where
  "workspaceKubeRbacProxyTLSCertFilePath = ''/etc/tls/private/tls.crt''"
definition workspaceKubeRbacProxyTLSKeyFilePath :: string where
  "workspaceKubeRbacProxyTLSKeyFilePath = ''/etc/tls/private/tls.key''"

definition workspace_labels :: "Workspace \<Rightarrow> strmap" where
  "workspace_labels w = fmap_of_list [(workspaceNameLabel, ws_Name w)]"

definition selector_labels :: "Workspace \<Rightarrow> strmap" where
  "selector_labels w = fmap_of_list [(workspaceNameLabel, ws_Name w), (workspaceSelectorLabel, ws_Name w)]"

definition odh_labels :: "Workspace \<Rightarrow> (string \<times> string) list" where
  "odh_labels w = [(workspaceNameLabel, ws_Name w), (odhComponentLabelKey, odhComponentWorkspace),
                   (odhNamespaceLabelKey, ws_Namespace w)]"

section \<open>ServiceAccount and RoleBinding\<close>

definition generateServiceAccount :: "sha256_fn \<Rightarrow> Workspace \<Rightarrow> ServiceAccount" where
  "generateServiceAccount sha256 w =
     \<lparr>sacc_Meta = empty_meta\<lparr>om_Name := generateServiceAccountName sha256 (ws_Name w),
        om_Namespace := ws_Namespace w, om_Labels := workspace_labels w\<rparr>\<rparr>"

definition generateRoleBinding :: "sha256_fn \<Rightarrow> Workspace \<Rightarrow> string \<Rightarrow> string \<Rightarrow> RoleBinding" where
  "generateRoleBinding sha256 w serviceAccountName clusterRoleName =
     \<lparr>rb_Meta = empty_meta\<lparr>om_Name := generateRoleBindingName sha256 (ws_Name w) clusterRoleName,
        om_Namespace := ws_Namespace w, om_Labels := workspace_labels w\<rparr>,
      rb_RoleRef = \<lparr>rr_APIGroup = ''rbac.authorization.k8s.io'', rr_Kind = ''ClusterRole'', rr_Name = clusterRoleName\<rparr>,
      rb_Subjects = [\<lparr>sub_Kind = ''ServiceAccount'', sub_Name = serviceAccountName, sub_Namespace = ws_Namespace w\<rparr>]\<rparr>"

section \<open>StatefulSet\<close>

datatype gen_error = GenError string | GenPanic

text \<open>
  The loop over the ports of an image config, which both the StatefulSet and the Service run
  with their own kind of port.
\<close>

fun generate_ports :: "(ImagePort \<Rightarrow> 'p) \<Rightarrow> int set \<Rightarrow> ImagePort list \<Rightarrow> gen_error + 'p list" where
  "generate_ports mk seenPorts [] = Inr []"
| "generate_ports mk seenPorts (port # ports) =
     (if ip_Port port \<in> seenPorts
      then Inl (GenError (''duplicate port number '' @ int_dec (ip_Port port) @ '' in imageConfig''))
      else (case generate_ports mk (insert (ip_Port port) seenPorts) ports of
              Inl e \<Rightarrow> Inl e | Inr ps \<Rightarrow> Inr (mk port # ps)))"

definition port_name :: "ImagePort \<Rightarrow> string" where
  "port_name port = ''http-'' @ int_dec (ip_Port port)"

definition container_port :: "ImagePort \<Rightarrow> ContainerPort" where
  "container_port port = \<lparr>ctp_Name = port_name port, ctp_ContainerPort = ip_Port port, ctp_Protocol = ''TCP''\<rparr>"

text \<open>The template function \<open>httpPathPrefix\<close>.\<close>

definition httpPathPrefixFunc :: "Workspace \<Rightarrow> ImagePort list \<Rightarrow> PortId \<Rightarrow> string" where
  "httpPathPrefixFunc w ports portId =
     (case map_by ip_Id ports portId of
        Some port \<Rightarrow> getWorkspaceConnectPath (ws_Namespace w) (ws_Name w) (ip_Id port)
      | None \<Rightarrow> [])"

fun render_env :: "validation_lib \<Rightarrow> (PortId \<Rightarrow> string) \<Rightarrow> EnvVar list \<Rightarrow> gen_error + EnvVar list" where
  "render_env lib prefix [] = Inr []"
| "render_env lib prefix (env # envs) =
     (case (if env_Value env \<noteq> []
            then (case RenderGoTemplate lib (env_Value env) prefix of
                    Inl err \<Rightarrow> Inl (GenError (''failed to render extraEnv '' @ go_quote (env_Name env) @ '': '' @ err))
                  | Inr outValue \<Rightarrow> Inr (env\<lparr>env_Value := outValue\<rparr>))
            else Inr env) of
        Inl e \<Rightarrow> Inl e
      | Inr env' \<Rightarrow> (case render_env lib prefix envs of Inl e \<Rightarrow> Inl e | Inr es \<Rightarrow> Inr (env' # es)))"

text \<open>The volumes built so far, with the names and mount paths already taken.\<close>

record vol_state =
  vs_Volumes :: "Volume list"
  vs_Mounts :: "VolumeMount list"
  vs_Names :: "string set"
  vs_Paths :: "string set"

definition empty_vols :: vol_state where
  "empty_vols = \<lparr>vs_Volumes = [], vs_Mounts = [], vs_Names = {}, vs_Paths = {}\<rparr>"

definition push_volume :: "Volume \<Rightarrow> VolumeMount \<Rightarrow> vol_state \<Rightarrow> vol_state" where
  "push_volume v mnt st =
     \<lparr>vs_Volumes = vs_Volumes st @ [v], vs_Mounts = vs_Mounts st @ [mnt],
      vs_Names = insert (vol_Name v) (vs_Names st), vs_Paths = insert (vm_MountPath mnt) (vs_Paths st)\<rparr>"

definition add_volume :: "Volume \<Rightarrow> VolumeMount \<Rightarrow> vol_state \<Rightarrow> vol_state" where
  "add_volume v mnt st =
     (if vol_Name v \<in> vs_Names st then st
      else if vm_MountPath mnt \<in> vs_Paths st then st
      else push_volume v mnt st)"

definition plain_mount :: "string \<Rightarrow> string \<Rightarrow> bool \<Rightarrow> VolumeMount" where
  "plain_mount name path ro = \<lparr>vm_Name = name, vm_MountPath = path, vm_ReadOnly = ro, vm_Rest = None\<rparr>"

definition add_home :: "string option \<Rightarrow> string \<Rightarrow> vol_state \<Rightarrow> vol_state" where
  "add_home home homePath st =
     (case home of
        None \<Rightarrow> st
      | Some claim \<Rightarrow> push_volume
          \<lparr>vol_Name = ''home-volume'', vol_Source = PersistentVolumeClaimSource claim False\<rparr>
          (plain_mount ''home-volume'' homePath False) st)"

text \<open>\<open>*data.ReadOnly\<close> panics when the pointer is nil.\<close>

fun add_data :: "nat \<Rightarrow> PodVolumeMount list \<Rightarrow> vol_state \<Rightarrow> gen_error + vol_state" where
  "add_data i [] st = Inr st"
| "add_data i (d # ds) st =
     (case pvm_ReadOnly d of
        None \<Rightarrow> Inl GenPanic
      | Some ro \<Rightarrow>
          (let name = ''data-volume-'' @ nat_dec i in
           add_data (i + 1) ds (add_volume
             \<lparr>vol_Name = name, vol_Source = PersistentVolumeClaimSource (pvm_PVCName d) ro\<rparr>
             (plain_mount name (pvm_MountPath d) ro) st)))"

fun add_secrets :: "nat \<Rightarrow> PodSecretMount list \<Rightarrow> vol_state \<Rightarrow> vol_state" where
  "add_secrets i [] st = st"
| "add_secrets i (s # ss) st =
     (let name = ''secret-volume-'' @ nat_dec i in
      add_secrets (i + 1) ss (add_volume
        \<lparr>vol_Name = name, vol_Source = SecretSource (psm_SecretName s) (Some (psm_DefaultMode s))\<rparr>
        (plain_mount name (psm_MountPath s) False) st))"

definition add_extra_volume :: "Volume \<Rightarrow> vol_state \<Rightarrow> vol_state" where
  "add_extra_volume v st =
     (if vol_Name v \<in> vs_Names st then st
      else st\<lparr>vs_Volumes := vs_Volumes st @ [v], vs_Names := insert (vol_Name v) (vs_Names st)\<rparr>)"

definition add_extra_mount :: "VolumeMount \<Rightarrow> vol_state \<Rightarrow> vol_state" where
  "add_extra_mount mnt st =
     (if vm_MountPath mnt \<in> vs_Paths st then st
      else if vm_Name mnt \<notin> vs_Names st then st
      else st\<lparr>vs_Mounts := vs_Mounts st @ [mnt], vs_Paths := insert (vm_MountPath mnt) (vs_Paths st)\<rparr>)"

definition generate_volumes :: "WorkspacePodVolumes \<Rightarrow> WorkspaceKindPodTemplate \<Rightarrow> gen_error + vol_state" where
  "generate_volumes wv kt =
     (case add_data 0 (pv_Data wv) (add_home (pv_Home wv) (wvm_Home (kpt_VolumeMounts kt)) empty_vols) of
        Inl e \<Rightarrow> Inl e
      | Inr st \<Rightarrow> Inr (fold add_extra_mount (kpt_ExtraVolumeMounts kt)
                        (fold add_extra_volume (kpt_ExtraVolumes kt)
                          (add_secrets 0 (pv_Secrets wv) st))))"

definition metadata_or_empty :: "MetadataMaps option \<Rightarrow> MetadataMaps" where
  "metadata_or_empty md = (case md of Some m \<Rightarrow> m | None \<Rightarrow> \<lparr>md_Labels = fmempty, md_Annotations = fmempty\<rparr>)"

definition generateStatefulSet ::
  "validation_lib \<Rightarrow> Workspace \<Rightarrow> WorkspaceKind \<Rightarrow> ImageConfigSpec \<Rightarrow> PodConfigSpec \<Rightarrow> string
     \<Rightarrow> gen_error + StatefulSet"
where
  "generateStatefulSet lib w k imageConfigSpec podConfigSpec serviceAccountName =
     (case generateNamePrefix (ws_Name w) maxStatefulSetNameLength of
        None \<Rightarrow> Inl GenPanic
      | Some namePrefix \<Rightarrow>
     (case generate_ports container_port {} (ics_Ports imageConfigSpec) of
        Inl e \<Rightarrow> Inl e
      | Inr containerPorts \<Rightarrow>
     (case render_env lib (httpPathPrefixFunc w (ics_Ports imageConfigSpec)) (kpt_ExtraEnv (wk_PodTemplate k)) of
        Inl e \<Rightarrow> Inl e
      | Inr containerEnv \<Rightarrow>
     (case generate_volumes (wpt_Volumes (ws_PodTemplate w)) (wk_PodTemplate k) of
        Inl e \<Rightarrow> Inl e
      | Inr vols \<Rightarrow>
     (let kt = wk_PodTemplate k;
          kindMeta = metadata_or_empty (kpt_PodMetadata kt);
          wsMeta = metadata_or_empty (wpt_PodMetadata (ws_PodTemplate w));
          stsMeta = metadata_or_empty (kpt_StatefulSetMetadata kt);
          probes = kpt_Probes kt
      in Inr
        \<lparr>sts_Meta = empty_meta\<lparr>om_GenerateName := namePrefix, om_Namespace := ws_Namespace w,
           om_Annotations := md_Annotations stsMeta, om_Labels := md_Labels stsMeta ++\<^sub>f workspace_labels w\<rparr>,
         sts_Replicas = (if spec_Paused (ws_Spec w) then 0 else 1),
         sts_Selector = selector_labels w,
         sts_Template = \<lparr>
           pt_Labels = (md_Labels kindMeta ++\<^sub>f md_Labels wsMeta) ++\<^sub>f selector_labels w,
           pt_Annotations = md_Annotations kindMeta ++\<^sub>f md_Annotations wsMeta,
           pt_Affinity = pcs_Affinity podConfigSpec,
           pt_Containers = [\<lparr>
             ctr_Name = ''main'', ctr_Image = ics_Image imageConfigSpec,
             ctr_ImagePullPolicy = (case ics_ImagePullPolicy imageConfigSpec of Some p \<Rightarrow> p | None \<Rightarrow> ''IfNotPresent''),
             ctr_Args = [], ctr_Ports = containerPorts,
             ctr_ReadinessProbe = Option.bind probes pr_ReadinessProbe,
             ctr_LivenessProbe = Option.bind probes pr_LivenessProbe,
             ctr_StartupProbe = Option.bind probes pr_StartupProbe,
             ctr_SecurityContext = kpt_ContainerSecurityContext kt,
             ctr_VolumeMounts = vs_Mounts vols, ctr_Env = containerEnv,
             ctr_Resources = pcs_Resources podConfigSpec\<rparr>],
           pt_NodeSelector = pcs_NodeSelector podConfigSpec,
           pt_SchedulerName = (case pcs_SchedulerName podConfigSpec of
              Some s \<Rightarrow> s | None \<Rightarrow> (case kpt_SchedulerName kt of Some s \<Rightarrow> s | None \<Rightarrow> [])),
           pt_SecurityContext = kpt_SecurityContext kt,
           pt_ServiceAccountName = serviceAccountName,
           pt_Tolerations = pcs_Tolerations podConfigSpec,
           pt_Volumes = vs_Volumes vols,
           pt_Defaulted = None\<rparr>\<rparr>)))))"

section \<open>Service\<close>

definition service_port :: "ImagePort \<Rightarrow> ServicePort" where
  "service_port port = \<lparr>svp_Name = port_name port, svp_TargetPort = TargetNumber (ip_Port port),
     svp_Port = ip_Port port, svp_Protocol = ''TCP''\<rparr>"

definition generateService :: "Workspace \<Rightarrow> ImageConfigSpec \<Rightarrow> gen_error + Service" where
  "generateService w imageConfigSpec =
     (case generateNamePrefix (ws_Name w) maxServiceNameLength of
        None \<Rightarrow> Inl GenPanic
      | Some namePrefix \<Rightarrow>
          (case generate_ports service_port {} (ics_Ports imageConfigSpec) of
             Inl e \<Rightarrow> Inl e
           | Inr servicePorts \<Rightarrow> Inr
               \<lparr>svc_Meta = empty_meta\<lparr>om_GenerateName := namePrefix, om_Namespace := ws_Namespace w,
                  om_Labels := workspace_labels w\<rparr>,
                svc_Ports = servicePorts, svc_Selector = selector_labels w, svc_Type = ''ClusterIP'',
                svc_Rest = None\<rparr>))"

end
