(* ===== verification/Routing_Objects.thy ===== *)
theory Routing_Objects
  imports Owned_Objects
begin

text \<open>
  The objects that route requests to a Workspace,
  \<open>controller/internal/controller/workspace_controller.go\<close>: the Istio VirtualService, and
  for the Gateway API mode the kube-rbac-proxy sidecar, ClusterRoleBinding, ConfigMap, Service,
  the ReferenceGrant and the HTTPRoute.
\<close>

section \<open>VirtualService\<close>

text \<open>
  Rendering the values of a header map, in the order of iteration \<open>keys\<close>; \<open>what\<close>
  is \<open>set\<close> or \<open>add\<close>.
\<close>

fun render_headers ::
  "validation_lib \<Rightarrow> (PortId \<Rightarrow> string) \<Rightarrow> string \<Rightarrow> strmap \<Rightarrow> string list \<Rightarrow> strmap \<Rightarrow> gen_error + strmap"
where
  "render_headers lib prefix what m [] acc = Inr acc"
| "render_headers lib prefix what m (key # keys) acc =
     (case RenderGoTemplate lib (the (fmlookup m key)) prefix of
        Inl err \<Rightarrow> Inl (GenError (''failed to render requestHeaders.'' @ what @ '' '' @ go_quote key @ '': '' @ err))
      | Inr rendered \<Rightarrow> render_headers lib prefix what m keys (fmupd key rendered acc))"

definition render_header_map ::
  "validation_lib \<Rightarrow> range_fn \<Rightarrow> (PortId \<Rightarrow> string) \<Rightarrow> string \<Rightarrow> strmap option \<Rightarrow> gen_error + strmap option"
where
  "render_header_map lib rng prefix what hdrs =
     (case hdrs of
        None \<Rightarrow> Inr None
      | Some m \<Rightarrow> (case render_headers lib prefix what m (rng m) fmempty of
                     Inl e \<Rightarrow> Inl e | Inr r \<Rightarrow> Inr (Some r)))"

definition generate_headers ::
  "validation_lib \<Rightarrow> range_fn \<Rightarrow> (PortId \<Rightarrow> string) \<Rightarrow> HTTPProxy option \<Rightarrow> gen_error + HeaderOperations option"
where
  "generate_headers lib rng prefix proxy =
     (case Option.bind proxy hp_RequestHeaders of
        None \<Rightarrow> Inr None
      | Some hdrs \<Rightarrow>
          (case render_header_map lib rng prefix ''set'' (hdr_Set hdrs) of
             Inl e \<Rightarrow> Inl e
           | Inr setHeaders \<Rightarrow>
               (case render_header_map lib rng prefix ''add'' (hdr_Add hdrs) of
                  Inl e \<Rightarrow> Inl e
                | Inr addHeaders \<Rightarrow>
                    Inr (Some \<lparr>ho_Set = setHeaders, ho_Add = addHeaders, ho_Remove = hdr_Remove hdrs\<rparr>))))"

definition generateVirtualServiceHTTPRoute ::
  "validation_lib \<Rightarrow> range_fn \<Rightarrow> EnvConfig \<Rightarrow> Workspace \<Rightarrow> Service \<Rightarrow> ImagePort \<Rightarrow> WorkspaceKindPort
     \<Rightarrow> (PortId \<Rightarrow> string) \<Rightarrow> gen_error + VirtualServiceRoute"
where
  "generateVirtualServiceHTTPRoute lib rng cfg w service imageConfigPort podTemplatePort prefix =
     (case generate_headers lib rng prefix (wkp_HTTPProxy podTemplatePort) of
        Inl e \<Rightarrow> Inl e
      | Inr headers \<Rightarrow> Inr
          \<lparr>vsr_Headers = headers,
           vsr_Rewrite = (if Option.bind (wkp_HTTPProxy podTemplatePort) hp_RemovePathPrefix = Some True
                          then Some ''/'' else None),
           vsr_MatchPrefix = getWorkspaceConnectPath (ws_Namespace w) (ws_Name w) (ip_Id imageConfigPort),
           vsr_DestHost = om_Name (svc_Meta service) @ ''.'' @ om_Namespace (svc_Meta service) @ ''.svc.''
                          @ cfg_ClusterDomain cfg,
           vsr_DestPort = ip_Port imageConfigPort mod 2 ^ 32\<rparr>)"

text \<open>Ports the kind does not define are skipped, and so are ports that are not HTTP.\<close>

definition http_port :: "WorkspaceKind \<Rightarrow> ImagePort \<Rightarrow> WorkspaceKindPort option" where
  "http_port k port =
     (case map_by wkp_Id (wk_Ports k) (ip_Id port) of
        None \<Rightarrow> None
      | Some podTemplatePort \<Rightarrow>
          (case wkp_Protocol podTemplatePort of
             ImagePortProtocolHTTP \<Rightarrow> Some podTemplatePort
           | ImagePortProtocolOther _ \<Rightarrow> None))"

fun generate_routes ::
  "(ImagePort \<Rightarrow> WorkspaceKindPort \<Rightarrow> gen_error + VirtualServiceRoute) \<Rightarrow> WorkspaceKind \<Rightarrow> ImagePort list
     \<Rightarrow> gen_error + VirtualServiceRoute list"
where
  "generate_routes mk k [] = Inr []"
| "generate_routes mk k (port # ports) =
     (case http_port k port of
        None \<Rightarrow> generate_routes mk k ports
      | Some podTemplatePort \<Rightarrow>
          (case mk port podTemplatePort of
             Inl e \<Rightarrow> Inl e
           | Inr route \<Rightarrow> (case generate_routes mk k ports of
                             Inl e \<Rightarrow> Inl e | Inr routes \<Rightarrow> Inr (route # routes))))"

definition maxVirtualServiceNameLength :: int where "maxVirtualServiceNameLength = 63"

definition generateVirtualService ::
  "validation_lib \<Rightarrow> range_fn \<Rightarrow> EnvConfig \<Rightarrow> Workspace \<Rightarrow> WorkspaceKind \<Rightarrow> Service \<Rightarrow> ImageConfigSpec
     \<Rightarrow> gen_error + VirtualService"
where
  "generateVirtualService lib rng cfg w k service imageConfigSpec =
     (case generateNamePrefix (ws_Name w) maxVirtualServiceNameLength of
        None \<Rightarrow> Inl GenPanic
      | Some namePrefix \<Rightarrow>
          (let prefix = httpPathPrefixFunc w (ics_Ports imageConfigSpec) in
           case generate_routes
                  (\<lambda>p kp. generateVirtualServiceHTTPRoute lib rng cfg w service p kp prefix)
                  k (ics_Ports imageConfigSpec) of
             Inl e \<Rightarrow> Inl e
           | Inr httpRoutes \<Rightarrow> Inr
               \<lparr>vsv_Meta = empty_meta\<lparr>om_GenerateName := namePrefix, om_Namespace := ws_Namespace w,
                  om_Labels := workspace_labels w\<rparr>,
                vsv_Gateways = [cfg_IstioGateway cfg], vsv_Hosts = [cfg_IstioHosts cfg], vsv_Http = httpRoutes\<rparr>))"

section \<open>Gateway API mode\<close>

definition generateKubeGatewayReferenceGrant :: "EnvConfig \<Rightarrow> Workspace \<Rightarrow> Service \<Rightarrow> ReferenceGrant" where
  "generateKubeGatewayReferenceGrant cfg w service =
     \<lparr>rg_Meta = empty_meta\<lparr>om_Name := ''ws-'' @ ws_Name w @ ''-kube-gateway-reference-grant'',
        om_Namespace := ws_Namespace w, om_Labels := workspace_labels w\<rparr>,
      rg_FromKind = ''HTTPRoute'', rg_FromNamespace = cfg_ControllerNamespace cfg,
      rg_ToKind = ''Service'', rg_ToName = om_Name (svc_Meta service)\<rparr>"

definition kubeRBACProxySidecarNeeded :: "WorkspaceKind \<Rightarrow> ImageConfigSpec \<Rightarrow> bool" where
  "kubeRBACProxySidecarNeeded k imageConfigSpec \<longleftrightarrow>
     list_ex (\<lambda>imagePort.
       map_option wkp_Protocol (map_by wkp_Id (wk_Ports k) (ip_Id imagePort)) = Some ImagePortProtocolHTTP)
       (ics_Ports imageConfigSpec)"

text \<open>The serialised form of the constant probes, resources and security context of the sidecar.\<close>

definition sidecar_security_context :: k8s_opaque where
  "sidecar_security_context = Opaque
     ''allowPrivilegeEscalation: false, readOnlyRootFilesystem: true, runAsNonRoot: true, capabilities: drop [ALL]''"

definition sidecar_probe :: "nat \<Rightarrow> k8s_opaque" where
  "sidecar_probe initialDelaySeconds = Opaque
     (''httpGet: {path: /healthz, port: '' @ int_dec workspaceKubeRbacProxyHealthPort
      @ '', scheme: HTTPS}, initialDelaySeconds: '' @ nat_dec initialDelaySeconds
      @ '', timeoutSeconds: 1, periodSeconds: 5, successThreshold: 1, failureThreshold: 3'')"

definition sidecar_resources :: k8s_opaque where
  "sidecar_resources = Opaque
     ''requests: {cpu: 200m, memory: 128Mi}, limits: {cpu: 200m, memory: 256Mi}''"

text \<open>The sidecar for one HTTP port; \<open>tlsArgs\<close> are the flags of the resolved TLS profile.\<close>

definition sidecar_container :: "EnvConfig \<Rightarrow> string list \<Rightarrow> ImagePort \<Rightarrow> Container" where
  "sidecar_container cfg tlsArgs port =
     \<lparr>ctr_Name = workspaceKubeRbacProxyServicePortName, ctr_Image = cfg_KubeRbacProxyImage cfg,
      ctr_ImagePullPolicy = ''Always'',
      ctr_Args =
        [''--secure-listen-address=0.0.0.0:'' @ int_dec workspaceKubeRbacProxyPort,
         ''--upstream=http://127.0.0.1:'' @ int_dec (ip_Port port) @ ''/'',
         ''--logtostderr=true'',
         ''--v=0'',
         ''--proxy-endpoints-port='' @ int_dec workspaceKubeRbacProxyHealthPort,
         ''--config-file='' @ workspaceKubeRbacProxyConfigFilePath,
         ''--tls-cert-file='' @ workspaceKubeRbacProxyTLSCertFilePath,
         ''--tls-private-key-file='' @ workspaceKubeRbacProxyTLSKeyFilePath,
         ''--auth-header-fields-enabled=true'',
         ''--auth-header-user-field-name=X-Auth-Request-User'',
         ''--auth-header-groups-field-name=X-Auth-Request-Groups''] @ tlsArgs,
      ctr_Ports = [\<lparr>ctp_Name = workspaceKubeRbacProxyServicePortName,
                    ctp_ContainerPort = workspaceKubeRbacProxyPort, ctp_Protocol = ''TCP''\<rparr>],
      ctr_ReadinessProbe = Some (sidecar_probe 5), ctr_LivenessProbe = Some (sidecar_probe 30),
      ctr_StartupProbe = None, ctr_SecurityContext = Some sidecar_security_context,
      ctr_VolumeMounts =
        [plain_mount workspaceKubeRbacProxyConfigVolumeName workspaceKubeRbacProxyConfigMountPath False,
         plain_mount workspaceKubeRbacProxyTLSCertsVolumeName workspaceKubeRbacProxyTLSCertsMountPath False],
      ctr_Env = [], ctr_Resources = Some sidecar_resources\<rparr>"

definition sidecar_volumes :: "Workspace \<Rightarrow> Volume list" where
  "sidecar_volumes w =
     [\<lparr>vol_Name = workspaceKubeRbacProxyConfigVolumeName,
       vol_Source = ConfigMapSource (generateWorkspaceSuffixedName (ws_Name w) ''-kube-rbac-proxy-config'')\<rparr>,
      \<lparr>vol_Name = workspaceKubeRbacProxyTLSCertsVolumeName,
       vol_Source = SecretSource (generateWorkspaceSuffixedName (ws_Name w) ''-kube-rbac-proxy-tls'') None\<rparr>]"

definition generateKubeRBACProxySidecar ::
  "EnvConfig \<Rightarrow> Workspace \<Rightarrow> WorkspaceKind \<Rightarrow> ImageConfigSpec \<Rightarrow> string list \<Rightarrow> Container option \<times> Volume list"
where
  "generateKubeRBACProxySidecar cfg w k imageConfigSpec tlsArgs =
     (case List.find (\<lambda>p. http_port k p \<noteq> None) (ics_Ports imageConfigSpec) of
        None \<Rightarrow> (None, [])
      | Some port \<Rightarrow> (Some (sidecar_container cfg tlsArgs port), sidecar_volumes w))"

record ClusterRoleBinding =
  crb_Meta :: ObjectMeta
  crb_Subjects :: "Subject list"
  crb_RoleRef :: RoleRef

definition generateKubeRBACProxyClusterRoleBinding :: "Workspace \<Rightarrow> string \<Rightarrow> ClusterRoleBinding" where
  "generateKubeRBACProxyClusterRoleBinding w serviceAccountName =
     \<lparr>crb_Meta = empty_meta\<lparr>om_Name := clusterRoleBindingName (ws_Namespace w) (ws_Name w),
        om_Labels := fmap_of_list (odh_labels w)\<rparr>,
      crb_Subjects = [\<lparr>sub_Kind = ''ServiceAccount'', sub_Name = serviceAccountName, sub_Namespace = ws_Namespace w\<rparr>],
      crb_RoleRef = \<lparr>rr_APIGroup = ''rbac.authorization.k8s.io'', rr_Kind = ''ClusterRole'',
                     rr_Name = ''system:auth-delegator''\<rparr>\<rparr>"

definition newline :: string where "newline = [CHR 0x0A]"

definition generateKubeRBACProxyConfigMap :: "Workspace \<Rightarrow> ConfigMap" where
  "generateKubeRBACProxyConfigMap w =
     \<lparr>cm_Meta = empty_meta\<lparr>om_Name := generateWorkspaceSuffixedName (ws_Name w) ''-kube-rbac-proxy-config'',
        om_Namespace := ws_Namespace w, om_Labels := fmap_of_list (odh_labels w)\<rparr>,
      cm_Data = fmap_of_list [(''config-file.yaml'',
        ''authorization:'' @ newline @ ''  resourceAttributes:'' @ newline @ ''    verb: get'' @ newline
        @ ''    resource: workspaces'' @ newline @ ''    apiGroup: kubeflow.org'' @ newline
        @ ''    name: '' @ ws_Name w @ newline @ ''    namespace: '' @ ws_Namespace w)]\<rparr>"

definition generateKubeRBACProxyService :: "Workspace \<Rightarrow> Service" where
  "generateKubeRBACProxyService w =
     \<lparr>svc_Meta = empty_meta\<lparr>om_Name := generateWorkspaceSuffixedName (ws_Name w) ''-kube-rbac-proxy'',
        om_Namespace := ws_Namespace w,
        om_Labels := fmap_of_list ((''app.kubernetes.io/component'', ''kube-rbac-proxy'') # odh_labels w),
        om_Annotations := fmap_of_list [(''service.beta.openshift.io/serving-cert-secret-name'',
          generateWorkspaceSuffixedName (ws_Name w) ''-kube-rbac-proxy-tls'')]\<rparr>,
      svc_Ports = [\<lparr>svp_Name = workspaceKubeRbacProxyServicePortName,
         svp_TargetPort = TargetName workspaceKubeRbacProxyServicePortName,
         svp_Port = workspaceKubeRbacProxyPort, svp_Protocol = ''TCP''\<rparr>],
      svc_Selector = workspace_labels w, svc_Type = [], svc_Rest = None\<rparr>"

definition generateGatewayV1HTTPRoute ::
  "EnvConfig \<Rightarrow> Workspace \<Rightarrow> WorkspaceKind \<Rightarrow> Service \<Rightarrow> ImageConfigSpec \<Rightarrow> HTTPRoute option"
where
  "generateGatewayV1HTTPRoute cfg w k service imageConfigSpec =
     (case List.find (\<lambda>p. http_port k p \<noteq> None) (ics_Ports imageConfigSpec) of
        None \<Rightarrow> None
      | Some port \<Rightarrow> Some
          \<lparr>hr_Meta = empty_meta\<lparr>om_Name := httpRouteName (ws_Namespace w) (ws_Name w),
             om_Namespace := cfg_ControllerNamespace cfg,
             om_Labels := fmap_of_list [(workspaceNameLabel, ws_Name w), (''notebook-name'', ws_Name w),
                                        (''notebook-namespace'', ws_Namespace w)]\<rparr>,
           hr_ParentName = cfg_KubeGatewayName cfg, hr_ParentNamespace = cfg_KubeGatewayNamespace cfg,
           hr_PathPrefix = getWorkspaceConnectPath (ws_Namespace w) (ws_Name w) (ip_Id port),
           hr_BackendName = om_Name (svc_Meta service), hr_BackendNamespace = ws_Namespace w,
           hr_BackendPort = workspaceKubeRbacProxyPort\<rparr>)"

section \<open>The sidecar is added exactly when it is needed\<close>

lemma http_port_iff:
  "http_port k p \<noteq> None \<longleftrightarrow>
     map_option wkp_Protocol (map_by wkp_Id (wk_Ports k) (ip_Id p)) = Some ImagePortProtocolHTTP"
  by (auto simp: http_port_def split: option.splits ImagePortProtocol.splits)

lemma sidecar_needed_find:
  "kubeRBACProxySidecarNeeded k spec \<longleftrightarrow> List.find (\<lambda>p. http_port k p \<noteq> None) (ics_Ports spec) \<noteq> None"
  unfolding kubeRBACProxySidecarNeeded_def list_ex_iff find_None_iff http_port_iff by blast

lemma sidecar_needed_iff:
  "kubeRBACProxySidecarNeeded k spec \<longleftrightarrow> fst (generateKubeRBACProxySidecar cfg w k spec args) \<noteq> None"
  "kubeRBACProxySidecarNeeded k spec \<longleftrightarrow> generateGatewayV1HTTPRoute cfg w k svc spec \<noteq> None"
  unfolding sidecar_needed_find generateKubeRBACProxySidecar_def generateGatewayV1HTTPRoute_def
  by (simp_all split: option.splits)

end
