(* ===== verification/Field_Copy.thy ===== *)
theory Field_Copy
  imports Routing_Objects Sample_Objects
begin

text \<open>
  Bringing an existing object in line with a generated one,
  \<open>controller/internal/helper/helper.go\<close>: every \<open>Copy...Fields\<close> function returns
  the updated target and whether an API update is required.

  The contract the reconcile relies on is the locale \<open>field_copier\<close>: no update is asked for
  when the target already has what the desired object asks for, an update is asked for whenever
  it does not, and one update is enough. Every copier of the source is an interpretation. The
  loops over a \<open>map[string]string\<close> take the order of iteration as an argument.
\<close>

section \<open>Maps\<close>

text \<open>One pass of the loop in \<open>copyLabelFields\<close>: write the key unless it has the value.\<close>

definition copy_key :: "strmap \<Rightarrow> string \<Rightarrow> strmap \<times> bool \<Rightarrow> strmap \<times> bool" where
  "copy_key desired k acc =
     (let (target, requireUpdate) = acc; v = the (fmlookup desired k) in
      if fmlookup target k \<noteq> Some v then (fmupd k v target, True) else (target, requireUpdate))"

definition copyLabelFields :: "range_fn \<Rightarrow> strmap \<Rightarrow> strmap \<Rightarrow> strmap \<times> bool" where
  "copyLabelFields rng desiredLabels targetLabels =
     fold (copy_key desiredLabels) (rng desiredLabels) (targetLabels, False)"

definition copyAnnotationFields :: "range_fn \<Rightarrow> strmap \<Rightarrow> strmap \<Rightarrow> strmap \<times> bool" where
  "copyAnnotationFields rng desiredAnnotations targetAnnotations =
     fold (copy_key desiredAnnotations) (rng desiredAnnotations) (targetAnnotations, False)"

text \<open>
  The loop of \<open>mergeStringMapFields\<close> compares with \<open>target[k]\<close>, which is the empty
  string for a missing key.
\<close>

definition merge_key :: "strmap \<Rightarrow> string \<Rightarrow> strmap \<times> bool \<Rightarrow> strmap \<times> bool" where
  "merge_key desired k acc =
     (let (target, requireUpdate) = acc; v = the (fmlookup desired k) in
      if (case fmlookup target k of Some x \<Rightarrow> x | None \<Rightarrow> []) \<noteq> v
      then (fmupd k v target, True) else (target, requireUpdate))"

definition mergeStringMapFields :: "range_fn \<Rightarrow> strmap \<Rightarrow> strmap \<Rightarrow> strmap \<times> bool" where
  "mergeStringMapFields rng desired target = fold (merge_key desired) (rng desired) (target, False)"

definition replaceStringMapFields :: "strmap \<Rightarrow> strmap \<Rightarrow> strmap \<times> bool" where
  "replaceStringMapFields desired target = (desired, desired \<noteq> target)"

text \<open>\<open>if !DeepEqual(target.F, desired.F) { target.F = desired.F; requireUpdate = true }\<close>\<close>

definition copy_field :: "('o \<Rightarrow> 'a) \<Rightarrow> ('a \<Rightarrow> 'o \<Rightarrow> 'o) \<Rightarrow> 'o \<Rightarrow> 'o \<times> bool \<Rightarrow> 'o \<times> bool" where
  "copy_field get put desired acc =
     (let (target, requireUpdate) = acc in
      if get target \<noteq> get desired then (put (get desired) target, True) else (target, requireUpdate))"

text \<open>The two steps for \<open>metadata.labels\<close> and \<open>metadata.annotations\<close> every copier starts with.\<close>

definition copy_meta ::
  "(strmap \<Rightarrow> strmap \<Rightarrow> strmap \<times> bool) \<Rightarrow> (strmap \<Rightarrow> strmap \<Rightarrow> strmap \<times> bool) \<Rightarrow> ('o \<Rightarrow> ObjectMeta) \<Rightarrow>
     (ObjectMeta \<Rightarrow> 'o \<Rightarrow> 'o) \<Rightarrow> 'o \<Rightarrow> 'o \<Rightarrow> 'o \<times> bool"
where
  "copy_meta copyL copyA meta set_meta desired target =
     (let (labels, u1) = copyL (om_Labels (meta desired)) (om_Labels (meta target));
          (annotations, u2) = copyA (om_Annotations (meta desired)) (om_Annotations (meta target))
      in (set_meta ((meta target)\<lparr>om_Labels := labels, om_Annotations := annotations\<rparr>) target, u1 \<or> u2))"

section \<open>Copiers\<close>

definition CopyStatefulSetFields :: "StatefulSet \<Rightarrow> StatefulSet \<Rightarrow> StatefulSet \<times> bool" where
  "CopyStatefulSetFields desired target =
     copy_field sts_Template (\<lambda>v t. t\<lparr>sts_Template := v\<rparr>) desired
       (copy_field sts_Selector (\<lambda>v t. t\<lparr>sts_Selector := v\<rparr>) desired
         (copy_field sts_Replicas (\<lambda>v t. t\<lparr>sts_Replicas := v\<rparr>) desired
           (copy_meta replaceStringMapFields replaceStringMapFields sts_Meta (\<lambda>m t. t\<lparr>sts_Meta := m\<rparr>) desired target)))"

definition CopyServiceFields :: "range_fn \<Rightarrow> Service \<Rightarrow> Service \<Rightarrow> Service \<times> bool" where
  "CopyServiceFields rng desired target =
     copy_field svc_Type (\<lambda>v t. t\<lparr>svc_Type := v\<rparr>) desired
       (copy_field svc_Selector (\<lambda>v t. t\<lparr>svc_Selector := v\<rparr>) desired
         (copy_field svc_Ports (\<lambda>v t. t\<lparr>svc_Ports := v\<rparr>) desired
           (copy_meta (copyLabelFields rng) (copyAnnotationFields rng) svc_Meta (\<lambda>m t. t\<lparr>svc_Meta := m\<rparr>) desired target)))"

definition CopyServiceAccountFields :: "range_fn \<Rightarrow> ServiceAccount \<Rightarrow> ServiceAccount \<Rightarrow> ServiceAccount \<times> bool" where
  "CopyServiceAccountFields rng desired target =
     copy_meta (mergeStringMapFields rng) (mergeStringMapFields rng) sacc_Meta (\<lambda>m t. t\<lparr>sacc_Meta := m\<rparr>) desired target"

definition CopyRoleBindingFields :: "RoleBinding \<Rightarrow> RoleBinding \<Rightarrow> RoleBinding \<times> bool" where
  "CopyRoleBindingFields desired target =
     copy_field rb_Subjects (\<lambda>v t. t\<lparr>rb_Subjects := v\<rparr>) desired
       (copy_meta replaceStringMapFields replaceStringMapFields rb_Meta (\<lambda>m t. t\<lparr>rb_Meta := m\<rparr>) desired target)"

text \<open>The \<open>spec\<close> of a VirtualService is its gateways, hosts and routes.\<close>

definition vs_spec :: "VirtualService \<Rightarrow> string list \<times> string list \<times> VirtualServiceRoute list" where
  "vs_spec v = (vsv_Gateways v, vsv_Hosts v, vsv_Http v)"

definition set_vs_spec :: "string list \<times> string list \<times> VirtualServiceRoute list \<Rightarrow> VirtualService \<Rightarrow> VirtualService" where
  "set_vs_spec spec v = (case spec of (g, h, r) \<Rightarrow> v\<lparr>vsv_Gateways := g, vsv_Hosts := h, vsv_Http := r\<rparr>)"

definition CopyVirtualServiceFields :: "range_fn \<Rightarrow> VirtualService \<Rightarrow> VirtualService \<Rightarrow> VirtualService \<times> bool" where
  "CopyVirtualServiceFields rng desired target =
     copy_field vs_spec set_vs_spec desired
       (copy_meta (copyLabelFields rng) (copyAnnotationFields rng) vsv_Meta (\<lambda>m t. t\<lparr>vsv_Meta := m\<rparr>) desired target)"

text \<open>For an HTTPRoute and a ReferenceGrant everything but the metadata is the \<open>spec\<close>.\<close>

definition CopyHTTPRouteFields :: "range_fn \<Rightarrow> HTTPRoute \<Rightarrow> HTTPRoute \<Rightarrow> HTTPRoute \<times> bool" where
  "CopyHTTPRouteFields rng desired target =
     copy_field (\<lambda>r. r\<lparr>hr_Meta := empty_meta\<rparr>) (\<lambda>spec t. spec\<lparr>hr_Meta := hr_Meta t\<rparr>) desired
       (copy_meta (copyLabelFields rng) (copyAnnotationFields rng) hr_Meta (\<lambda>m t. t\<lparr>hr_Meta := m\<rparr>) desired target)"

definition CopyConfigMapFields :: "range_fn \<Rightarrow> ConfigMap \<Rightarrow> ConfigMap \<Rightarrow> ConfigMap \<times> bool" where
  "CopyConfigMapFields rng desired target =
     copy_field cm_Data (\<lambda>v t. t\<lparr>cm_Data := v\<rparr>) desired
       (copy_meta (copyLabelFields rng) (copyAnnotationFields rng) cm_Meta (\<lambda>m t. t\<lparr>cm_Meta := m\<rparr>) desired target)"

definition CopyReferenceGrantFields :: "range_fn \<Rightarrow> ReferenceGrant \<Rightarrow> ReferenceGrant \<Rightarrow> ReferenceGrant \<times> bool" where
  "CopyReferenceGrantFields rng desired target =
     copy_field (\<lambda>r. r\<lparr>rg_Meta := empty_meta\<rparr>) (\<lambda>spec t. spec\<lparr>rg_Meta := rg_Meta t\<rparr>) desired
       (copy_meta (copyLabelFields rng) (copyAnnotationFields rng) rg_Meta (\<lambda>m t. t\<lparr>rg_Meta := m\<rparr>) desired target)"

section \<open>The maps, independent of the order\<close>

lemma fold_copy_key:
  assumes "set ks \<subseteq> fmdom' d"
  shows "fmlookup (fst (fold (copy_key d) ks (t, u))) k = (if k \<in> set ks then fmlookup d k else fmlookup t k)"
    and "snd (fold (copy_key d) ks (t, u)) \<longleftrightarrow> u \<or> (\<exists>k \<in> set ks. fmlookup t k \<noteq> fmlookup d k)"
  using assms
proof (induction ks arbitrary: t u)
  case (Cons j ks)
  {
    case 1
    then obtain v where "fmlookup d j = Some v" by (auto simp: fmlookup_dom'_iff)
    with 1 Cons.IH(1) show ?case by (auto simp: copy_key_def)
  next
    case 2
    then obtain v where "fmlookup d j = Some v" by (auto simp: fmlookup_dom'_iff)
    with 2 Cons.IH(2) show ?case by (auto simp: copy_key_def)
  }
qed simp_all

lemma fmsubset_dom_iff: "d \<subseteq>\<^sub>f t \<longleftrightarrow> (\<forall>k \<in> fmdom' d. fmlookup t k = fmlookup d k)"
  unfolding fmsubset.rep_eq map_le_def fmdom'.rep_eq by (intro ball_cong refl) (rule eq_commute)

lemma copyLabelFields_eq:
  assumes "range_order rng"
  shows "copyLabelFields rng d t = (t ++\<^sub>f d, \<not> d \<subseteq>\<^sub>f t)"
proof -
  have rng: "set (rng d) = fmdom' d" using assms by (rule range_orderD)
  then have "fst (copyLabelFields rng d t) = t ++\<^sub>f d"
    by (intro fmap_ext) (simp add: copyLabelFields_def fold_copy_key fmdom'_alt_def fmdom_notD)
  moreover have "snd (copyLabelFields rng d t) \<longleftrightarrow> \<not> d \<subseteq>\<^sub>f t"
    using rng by (auto simp: copyLabelFields_def fold_copy_key fmsubset_dom_iff)
  ultimately show ?thesis by (simp add: prod_eq_iff)
qed

lemma copyAnnotationFields_eq:
  "range_order rng \<Longrightarrow> copyAnnotationFields rng d t = (t ++\<^sub>f d, \<not> d \<subseteq>\<^sub>f t)"
  using copyLabelFields_eq unfolding copyLabelFields_def copyAnnotationFields_def .

lemma fmadd_sub [simp]: "d \<subseteq>\<^sub>f t \<Longrightarrow> t ++\<^sub>f d = t" "d \<subseteq>\<^sub>f t ++\<^sub>f d"
proof -
  show "t ++\<^sub>f d = t" if "d \<subseteq>\<^sub>f t"
    using that by (intro fmap_ext) (auto simp: fmsubset_alt_def fmpred_iff fmlookup_dom_iff)
  show "d \<subseteq>\<^sub>f t ++\<^sub>f d" by (auto simp: fmsubset_alt_def fmpred_iff)
qed

text \<open>What a merge promises: a missing key counts as the empty string.\<close>

definition merged :: "strmap \<Rightarrow> strmap \<Rightarrow> bool" where
  "merged d t \<longleftrightarrow> (\<forall>k v. fmlookup d k = Some v \<longrightarrow> (case fmlookup t k of Some x \<Rightarrow> x | None \<Rightarrow> []) = v)"

definition merge_result :: "strmap \<Rightarrow> strmap \<Rightarrow> strmap" where
  "merge_result d t = t ++\<^sub>f fmfilter (\<lambda>k. fmlookup d k \<noteq> Some [] \<or> fmlookup t k \<noteq> None) d"

lemma fold_merge_key:
  assumes "set ks \<subseteq> fmdom' d"
  shows "fmlookup (fst (fold (merge_key d) ks (t, u))) k =
           (if k \<in> set ks \<and> (fmlookup d k \<noteq> Some [] \<or> fmlookup t k \<noteq> None) then fmlookup d k else fmlookup t k)"
    and "snd (fold (merge_key d) ks (t, u)) \<longleftrightarrow>
           u \<or> (\<exists>k \<in> set ks. (case fmlookup t k of Some x \<Rightarrow> x | None \<Rightarrow> []) \<noteq> the (fmlookup d k))"
  using assms
proof (induction ks arbitrary: t u)
  case (Cons j ks)
  {
    case 1
    then obtain v where "fmlookup d j = Some v" by (auto simp: fmlookup_dom'_iff)
    with 1 Cons.IH(1) show ?case by (auto simp: merge_key_def split: option.splits)
  next
    case 2
    then obtain v where "fmlookup d j = Some v" by (auto simp: fmlookup_dom'_iff)
    with 2 Cons.IH(2) show ?case by (auto simp: merge_key_def split: option.splits)
  }
qed simp_all

lemma mergeStringMapFields_eq:
  assumes "range_order rng"
  shows "mergeStringMapFields rng d t = (merge_result d t, \<not> merged d t)"
proof -
  have rng: "set (rng d) = fmdom' d" using assms by (rule range_orderD)
  then have "fst (mergeStringMapFields rng d t) = merge_result d t"
    by (intro fmap_ext) (auto simp: mergeStringMapFields_def fold_merge_key merge_result_def fmlookup_dom'_iff fmlookup_dom_iff)
  moreover have "snd (mergeStringMapFields rng d t) \<longleftrightarrow> \<not> merged d t"
    using rng by (force simp: mergeStringMapFields_def fold_merge_key merged_def fmlookup_dom'_iff)
  ultimately show ?thesis by (simp add: prod_eq_iff)
qed

lemma merged_result [simp]: "merged d t \<Longrightarrow> merge_result d t = t" "merged d (merge_result d t)"
proof -
  show "merge_result d t = t" if "merged d t"
  proof (rule fmap_ext)
    fix k
    from that have "\<forall>v. fmlookup d k = Some v \<longrightarrow> (case fmlookup t k of Some x \<Rightarrow> x | None \<Rightarrow> []) = v"
      by (simp add: merged_def)
    then show "fmlookup (merge_result d t) k = fmlookup t k"
      by (cases "fmlookup d k"; cases "fmlookup t k") (auto simp: merge_result_def fmlookup_dom_iff)
  qed
  show "merged d (merge_result d t)"
    by (auto simp: merge_result_def merged_def fmlookup_dom_iff split: option.splits)
qed

section \<open>The contract of a copier\<close>

text \<open>\<open>has desired target\<close>: the target has all the copier takes over from the desired object.\<close>

locale field_copier =
  fixes copier :: "range_fn \<Rightarrow> 'o \<Rightarrow> 'o \<Rightarrow> 'o \<times> bool"
    and has :: "'o \<Rightarrow> 'o \<Rightarrow> bool"
  assumes no_update: "range_order rng \<Longrightarrow> has d t \<Longrightarrow> copier rng d t = (t, False)"
    and update: "range_order rng \<Longrightarrow> \<not> has d t \<Longrightarrow> snd (copier rng d t)"
    and achieves: "range_order rng \<Longrightarrow> has d (fst (copier rng d t))"
begin

lemma update_iff: "range_order rng \<Longrightarrow> snd (copier rng d t) \<longleftrightarrow> \<not> has d t"
  using no_update update by fastforce

lemma second_copy_silent:
  "range_order rng \<Longrightarrow> range_order rng' \<Longrightarrow> copier rng' d (fst (copier rng d t)) = (fst (copier rng d t), False)"
  using no_update achieves by blast

lemma silent_unchanged: "range_order rng \<Longrightarrow> \<not> snd (copier rng d t) \<Longrightarrow> fst (copier rng d t) = t"
  using update no_update by fastforce

end

text \<open>The metadata part of the promise, for copiers that merge and for those that replace.\<close>

definition meta_included :: "ObjectMeta \<Rightarrow> ObjectMeta \<Rightarrow> bool" where
  "meta_included d t \<longleftrightarrow> om_Labels d \<subseteq>\<^sub>f om_Labels t \<and> om_Annotations d \<subseteq>\<^sub>f om_Annotations t"

definition meta_replaced :: "ObjectMeta \<Rightarrow> ObjectMeta \<Rightarrow> bool" where
  "meta_replaced d t \<longleftrightarrow> om_Labels d = om_Labels t \<and> om_Annotations d = om_Annotations t"

lemmas copier_defs = copy_field_def copy_meta_def meta_included_def meta_replaced_def Let_def
  copyLabelFields_eq copyAnnotationFields_eq replaceStringMapFields_def mergeStringMapFields_eq

interpretation statefulset_copier: field_copier "\<lambda>_. CopyStatefulSetFields"
  "\<lambda>d t. meta_replaced (sts_Meta d) (sts_Meta t) \<and> sts_Replicas t = sts_Replicas d \<and>
         sts_Selector t = sts_Selector d \<and> sts_Template t = sts_Template d"
  by unfold_locales (auto simp: CopyStatefulSetFields_def copier_defs split: if_splits)

interpretation service_copier: field_copier CopyServiceFields
  "\<lambda>d t. meta_included (svc_Meta d) (svc_Meta t) \<and> svc_Ports t = svc_Ports d \<and>
         svc_Selector t = svc_Selector d \<and> svc_Type t = svc_Type d"
  by unfold_locales (auto simp: CopyServiceFields_def copier_defs split: if_splits)

interpretation service_account_copier: field_copier CopyServiceAccountFields
  "\<lambda>d t. merged (om_Labels (sacc_Meta d)) (om_Labels (sacc_Meta t)) \<and>
         merged (om_Annotations (sacc_Meta d)) (om_Annotations (sacc_Meta t))"
  by unfold_locales (auto simp: CopyServiceAccountFields_def copier_defs split: if_splits)

interpretation role_binding_copier: field_copier "\<lambda>_. CopyRoleBindingFields"
  "\<lambda>d t. meta_replaced (rb_Meta d) (rb_Meta t) \<and> rb_Subjects t = rb_Subjects d"
  by unfold_locales (auto simp: CopyRoleBindingFields_def copier_defs split: if_splits)

interpretation virtual_service_copier: field_copier CopyVirtualServiceFields
  "\<lambda>d t. meta_included (vsv_Meta d) (vsv_Meta t) \<and> vs_spec t = vs_spec d"
  by unfold_locales (auto simp: CopyVirtualServiceFields_def copier_defs vs_spec_def set_vs_spec_def split: if_splits)

interpretation http_route_copier: field_copier CopyHTTPRouteFields
  "\<lambda>d t. meta_included (hr_Meta d) (hr_Meta t) \<and> t\<lparr>hr_Meta := empty_meta\<rparr> = d\<lparr>hr_Meta := empty_meta\<rparr>"
  by unfold_locales (auto simp: CopyHTTPRouteFields_def copier_defs split: if_splits)

interpretation config_map_copier: field_copier CopyConfigMapFields
  "\<lambda>d t. meta_included (cm_Meta d) (cm_Meta t) \<and> cm_Data t = cm_Data d"
  by unfold_locales (auto simp: CopyConfigMapFields_def copier_defs split: if_splits)

interpretation reference_grant_copier: field_copier CopyReferenceGrantFields
  "\<lambda>d t. meta_included (rg_Meta d) (rg_Meta t) \<and> t\<lparr>rg_Meta := empty_meta\<rparr> = d\<lparr>rg_Meta := empty_meta\<rparr>"
  by unfold_locales (auto simp: CopyReferenceGrantFields_def copier_defs split: if_splits)

section \<open>Properties\<close>

text \<open>
  StatefulSet updates converge. An update is requested exactly when labels, annotations,
  replicas, selector or Pod template differ from the generated ones; after it they agree, the
  next reconcile requests none, and the identity and the owners of the object are never touched.
\<close>

lemma statefulset_update_converges:
  "(snd (CopyStatefulSetFields d t) \<longleftrightarrow>
      \<not> (om_Labels (sts_Meta d) = om_Labels (sts_Meta t) \<and> om_Annotations (sts_Meta d) = om_Annotations (sts_Meta t) \<and>
         sts_Replicas t = sts_Replicas d \<and> sts_Selector t = sts_Selector d \<and> sts_Template t = sts_Template d)) \<and>
   CopyStatefulSetFields d (fst (CopyStatefulSetFields d t)) = (fst (CopyStatefulSetFields d t), False) \<and>
   sts_Template (fst (CopyStatefulSetFields d t)) = sts_Template d \<and>
   sts_Replicas (fst (CopyStatefulSetFields d t)) = sts_Replicas d \<and>
   om_Name (sts_Meta (fst (CopyStatefulSetFields d t))) = om_Name (sts_Meta t) \<and>
   om_Namespace (sts_Meta (fst (CopyStatefulSetFields d t))) = om_Namespace (sts_Meta t) \<and>
   om_UID (sts_Meta (fst (CopyStatefulSetFields d t))) = om_UID (sts_Meta t) \<and>
   om_OwnerReferences (sts_Meta (fst (CopyStatefulSetFields d t))) = om_OwnerReferences (sts_Meta t)"
proof -
  have rng: "range_order sample_range" by simp
  note laws = statefulset_copier.update_iff [OF rng, of d t] statefulset_copier.second_copy_silent [OF rng rng, of d t]
    statefulset_copier.achieves [OF rng, of d t]
  have "om_Name (sts_Meta (fst (CopyStatefulSetFields d t))) = om_Name (sts_Meta t) \<and>
      om_Namespace (sts_Meta (fst (CopyStatefulSetFields d t))) = om_Namespace (sts_Meta t) \<and>
      om_UID (sts_Meta (fst (CopyStatefulSetFields d t))) = om_UID (sts_Meta t) \<and>
      om_OwnerReferences (sts_Meta (fst (CopyStatefulSetFields d t))) = om_OwnerReferences (sts_Meta t)"
    by (auto simp: CopyStatefulSetFields_def copy_field_def copy_meta_def replaceStringMapFields_def Let_def)
  with laws show ?thesis unfolding meta_replaced_def by blast
qed

text \<open>
  Service updates converge and respect other actors. In whatever order the label maps are
  iterated, an update is requested exactly when a generated label, annotation or field is
  missing or different; afterwards the next reconcile requests none; labels and annotations
  that the generated Service does not mention keep their values, and so do the fields the
  API server allocates.
\<close>

lemma service_update_converges:
  assumes "range_order rng" and "range_order rng'"
  shows "(snd (CopyServiceFields rng d t) \<longleftrightarrow>
      \<not> (om_Labels (svc_Meta d) \<subseteq>\<^sub>f om_Labels (svc_Meta t) \<and> om_Annotations (svc_Meta d) \<subseteq>\<^sub>f om_Annotations (svc_Meta t) \<and>
         svc_Ports t = svc_Ports d \<and> svc_Selector t = svc_Selector d \<and> svc_Type t = svc_Type d)) \<and>
    CopyServiceFields rng' d (fst (CopyServiceFields rng d t)) = (fst (CopyServiceFields rng d t), False) \<and>
    (\<forall>k. k \<notin> fmdom' (om_Labels (svc_Meta d)) \<longrightarrow>
       fmlookup (om_Labels (svc_Meta (fst (CopyServiceFields rng d t)))) k = fmlookup (om_Labels (svc_Meta t)) k) \<and>
    (\<forall>k. k \<notin> fmdom' (om_Annotations (svc_Meta d)) \<longrightarrow>
       fmlookup (om_Annotations (svc_Meta (fst (CopyServiceFields rng d t)))) k = fmlookup (om_Annotations (svc_Meta t)) k) \<and>
    svc_Rest (fst (CopyServiceFields rng d t)) = svc_Rest t"
proof -
  have frame: "svc_Rest (fst (CopyServiceFields rng d t)) = svc_Rest t"
      "om_Labels (svc_Meta (fst (CopyServiceFields rng d t))) = om_Labels (svc_Meta t) ++\<^sub>f om_Labels (svc_Meta d)"
      "om_Annotations (svc_Meta (fst (CopyServiceFields rng d t))) = om_Annotations (svc_Meta t) ++\<^sub>f om_Annotations (svc_Meta d)"
    using assms(1)
    by (auto simp: CopyServiceFields_def copy_field_def copy_meta_def copyLabelFields_eq copyAnnotationFields_eq Let_def)
  from service_copier.update_iff [OF assms(1), of d t] service_copier.second_copy_silent [OF assms, of d t]
  show ?thesis by (auto simp: frame meta_included_def fmdom'_alt_def)
qed

text \<open>
  A label whose desired value is the empty string is not set by a merge when it is missing, and
  no update is requested.
\<close>

lemma merge_drops_empty_values:
  assumes "range_order rng"
  shows "mergeStringMapFields rng (fmupd k [] fmempty) fmempty = (fmempty, False)"
proof -
  have "merged (fmupd k [] fmempty) fmempty" by (auto simp: merged_def split: if_splits)
  then show ?thesis using assms by (simp add: mergeStringMapFields_eq)
qed

end
