(* ===== verification/Role_Bindings.thy ===== *)
theory Role_Bindings
  imports Field_Copy Cluster_Objects
begin

text \<open>
  \<open>reconcileRoleBindings\<close> of
  \<open>controller/internal/controller/workspace_controller.go\<close>: the Workspace's ServiceAccount is
  granted exactly the ClusterRoles its WorkspaceKind lists, through RoleBindings in the
  namespace of the Workspace.

  The calls to the API server are a list of operations; \<open>api\<close> says which of them fail.
  \<open>setRef\<close> is \<open>ctrl.SetControllerReference\<close>, \<open>owned\<close> the answer to listing the
  RoleBindings the Workspace owns, \<open>kord\<close> the order in which the map of desired bindings is
  iterated.
\<close>

datatype rb_op = UpdateRB RoleBinding | DeleteRB RoleBinding | CreateRB RoleBinding

abbreviation rb_Name :: "RoleBinding \<Rightarrow> string" where
  "rb_Name rb \<equiv> om_Name (rb_Meta rb)"

section \<open>Operations\<close>

definition cluster_roles :: "WorkspaceKind \<Rightarrow> string list" where
  "cluster_roles k =
     (case kpt_ServiceAccount (wk_PodTemplate k) of None \<Rightarrow> [] | Some sa \<Rightarrow> map cr_Name (sa_ClusterRoles sa))"

fun desired_bindings ::
  "(ObjectMeta \<Rightarrow> string + ObjectMeta) \<Rightarrow> (string \<Rightarrow> RoleBinding) \<Rightarrow> string list \<Rightarrow> (string \<rightharpoonup> RoleBinding)
     \<Rightarrow> string + (string \<rightharpoonup> RoleBinding)"
where
  "desired_bindings setRef gen [] acc = Inr acc"
| "desired_bindings setRef gen (cr # crs) acc =
     (case setRef (rb_Meta (gen cr)) of
        Inl err \<Rightarrow> Inl err
      | Inr meta \<Rightarrow>
          (let rb = (gen cr)\<lparr>rb_Meta := meta\<rparr>
           in desired_bindings setRef gen crs (acc(rb_Name rb \<mapsto> rb))))"

text \<open>
  What the loop does with one owned RoleBinding: keep or update it when it is desired with the
  same role, otherwise delete it (the role reference is immutable).
\<close>

definition sync_step :: "RoleBinding \<Rightarrow> (string \<rightharpoonup> RoleBinding) \<Rightarrow> rb_op option \<times> (string \<rightharpoonup> RoleBinding)" where
  "sync_step found desired =
     (case desired (rb_Name found) of
        Some d \<Rightarrow>
          if rb_RoleRef found = rb_RoleRef d
          then (let (found', requireUpdate) = CopyRoleBindingFields d found
                in (if requireUpdate then Some (UpdateRB found') else None, desired(rb_Name found := None)))
          else (Some (DeleteRB found), desired)
      | None \<Rightarrow> (Some (DeleteRB found), desired))"

text \<open>A delete that finds nothing to delete is not an error; every other error is returned.\<close>

definition op_error :: "(rb_op \<Rightarrow> api_error option) \<Rightarrow> rb_op \<Rightarrow> api_error option" where
  "op_error api opn =
     (case api opn of
        None \<Rightarrow> None
      | Some err \<Rightarrow> (case (opn, err) of (DeleteRB _, NotFound _) \<Rightarrow> None | _ \<Rightarrow> Some err))"

fun sync_owned ::
  "(rb_op \<Rightarrow> api_error option) \<Rightarrow> RoleBinding list \<Rightarrow> (string \<rightharpoonup> RoleBinding)
     \<Rightarrow> api_error option \<times> rb_op list \<times> (string \<rightharpoonup> RoleBinding)"
where
  "sync_owned api [] desired = (None, [], desired)"
| "sync_owned api (found # rest) desired =
     (case sync_step found desired of
        (None, desired') \<Rightarrow> sync_owned api rest desired'
      | (Some opn, desired') \<Rightarrow>
          (case op_error api opn of
             Some err \<Rightarrow> (Some err, [opn], desired')
           | None \<Rightarrow> (case sync_owned api rest desired' of (err, ops, left) \<Rightarrow> (err, opn # ops, left))))"

fun create_all :: "(rb_op \<Rightarrow> api_error option) \<Rightarrow> RoleBinding list \<Rightarrow> api_error option \<times> rb_op list" where
  "create_all api [] = (None, [])"
| "create_all api (rb # rbs) =
     (case op_error api (CreateRB rb) of
        Some err \<Rightarrow> (Some err, [CreateRB rb])
      | None \<Rightarrow> (case create_all api rbs of (err, ops) \<Rightarrow> (err, CreateRB rb # ops)))"

datatype rb_error = RefError string | RBApiError api_error

definition reconcileRoleBindings ::
  "sha256_fn \<Rightarrow> key_order_fn \<Rightarrow> (ObjectMeta \<Rightarrow> string + ObjectMeta) \<Rightarrow> (rb_op \<Rightarrow> api_error option) \<Rightarrow>
     api_error + RoleBinding list \<Rightarrow> Workspace \<Rightarrow> WorkspaceKind \<Rightarrow> string \<Rightarrow> rb_error option \<times> rb_op list"
where
  "reconcileRoleBindings sha256 kord setRef api owned w k serviceAccountName =
     (case desired_bindings setRef (generateRoleBinding sha256 w serviceAccountName) (cluster_roles k) Map.empty of
        Inl err \<Rightarrow> (Some (RefError err), [])
      | Inr desired \<Rightarrow>
          (case owned of
             Inl err \<Rightarrow> (Some (RBApiError err), [])
           | Inr bindings \<Rightarrow>
               (case sync_owned api bindings desired of
                  (Some err, ops, _) \<Rightarrow> (Some (RBApiError err), ops)
                | (None, ops, left) \<Rightarrow>
                    (case create_all api (map (the \<circ> left) (kord (dom left))) of
                       (err, ops') \<Rightarrow> (map_option RBApiError err, ops @ ops')))))"

section \<open>What the operations do to the RoleBindings of the Workspace\<close>

text \<open>The owned RoleBindings by name, and the effect of an operation the API server accepts.\<close>

fun apply_op :: "rb_op \<Rightarrow> (string \<rightharpoonup> RoleBinding) \<Rightarrow> (string \<rightharpoonup> RoleBinding)" where
  "apply_op (UpdateRB rb) s = s(rb_Name rb \<mapsto> rb)"
| "apply_op (DeleteRB rb) s = s(rb_Name rb := None)"
| "apply_op (CreateRB rb) s = s(rb_Name rb \<mapsto> rb)"

definition apply_ops :: "rb_op list \<Rightarrow> (string \<rightharpoonup> RoleBinding) \<Rightarrow> (string \<rightharpoonup> RoleBinding)" where
  "apply_ops ops s = fold apply_op ops s"

lemma apply_ops_simps [simp]:
  "apply_ops [] s = s" "apply_ops (opn # ops) s = apply_ops ops (apply_op opn s)"
  "apply_ops (ops @ ops') s = apply_ops ops' (apply_ops ops s)"
  by (simp_all add: apply_ops_def)

text \<open>A binding grants what another asks for: same role, subjects, labels and annotations.\<close>

definition grants :: "RoleBinding \<Rightarrow> RoleBinding \<Rightarrow> bool" where
  "grants d rb \<longleftrightarrow> rb_RoleRef rb = rb_RoleRef d \<and> rb_Subjects rb = rb_Subjects d \<and> meta_replaced (rb_Meta d) (rb_Meta rb)"

definition keyed :: "(string \<rightharpoonup> RoleBinding) \<Rightarrow> bool" where
  "keyed m \<longleftrightarrow> (\<forall>n rb. m n = Some rb \<longrightarrow> rb_Name rb = n)"

lemma CopyRoleBindingFields_frame:
  "rb_Name (fst (CopyRoleBindingFields d t)) = rb_Name t" "rb_RoleRef (fst (CopyRoleBindingFields d t)) = rb_RoleRef t"
  by (auto simp: CopyRoleBindingFields_def copy_field_def copy_meta_def replaceStringMapFields_def Let_def)

text \<open>
  The effect of a step and of the first loop. Every found binding that stays grants what is
  desired of its name, every other one is gone, and what is left to create is what no found
  binding grants.
\<close>

definition synced :: "RoleBinding option \<Rightarrow> RoleBinding option \<Rightarrow> RoleBinding option \<Rightarrow> bool" where
  "synced desired stored left \<longleftrightarrow>
     (\<exists>d rb. desired = Some d \<and> stored = Some rb \<and> grants d rb \<and> left = None) \<or> (stored = None \<and> left = desired)"

definition apply_opt :: "rb_op option \<Rightarrow> (string \<rightharpoonup> RoleBinding) \<Rightarrow> (string \<rightharpoonup> RoleBinding)" where
  "apply_opt opt s = (case opt of None \<Rightarrow> s | Some opn \<Rightarrow> apply_op opn s)"

lemma sync_step_effect:
  assumes "sync_step x desired = (opt, desired')" and "s (rb_Name x) = Some x"
  shows "synced (desired (rb_Name x)) (apply_opt opt s (rb_Name x)) (desired' (rb_Name x))"
    and "n \<noteq> rb_Name x \<Longrightarrow> apply_opt opt s n = s n \<and> desired' n = desired n"
proof -
  have rng: "range_order sample_range" by simp
  have "synced (desired (rb_Name x)) (apply_opt opt s (rb_Name x)) (desired' (rb_Name x)) \<and>
        (n \<noteq> rb_Name x \<longrightarrow> apply_opt opt s n = s n \<and> desired' n = desired n)" for n
  proof (cases "\<exists>d. desired (rb_Name x) = Some d \<and> rb_RoleRef x = rb_RoleRef d")
    case True
    then obtain d where d: "desired (rb_Name x) = Some d" "rb_RoleRef x = rb_RoleRef d" by blast
    obtain f u where f: "CopyRoleBindingFields d x = (f, u)" by force
    have fx: "rb_Name f = rb_Name x" "rb_RoleRef f = rb_RoleRef d"
      using CopyRoleBindingFields_frame [of d x] f d(2) by simp_all
    have "grants d f" using role_binding_copier.achieves [OF rng, of d x] f fx(2) by (simp add: grants_def)
    moreover have "\<not> u \<Longrightarrow> f = x" using role_binding_copier.silent_unchanged [OF rng, of d x] f by simp
    ultimately show ?thesis using assms d f fx(1)
      by (auto simp: sync_step_def synced_def apply_opt_def split: if_splits)
  next
    case False
    with assms(1) have "opt = Some (DeleteRB x)" "desired' = desired"
      by (auto simp: sync_step_def split: option.splits if_splits)
    then show ?thesis by (simp add: synced_def apply_opt_def)
  qed
  then show "synced (desired (rb_Name x)) (apply_opt opt s (rb_Name x)) (desired' (rb_Name x))"
    and "n \<noteq> rb_Name x \<Longrightarrow> apply_opt opt s n = s n \<and> desired' n = desired n" by blast+
qed

lemma sync_owned_effect:
  assumes "sync_owned api found desired = (None, ops, left)" and "distinct (map rb_Name found)"
    and "\<forall>rb \<in> set found. s (rb_Name rb) = Some rb"
  shows "if n \<in> rb_Name ` set found then synced (desired n) (apply_ops ops s n) (left n)
         else apply_ops ops s n = s n \<and> left n = desired n"
  using assms
proof (induction found arbitrary: desired ops left s)
  case (Cons x found)
  obtain opt desired' where step: "sync_step x desired = (opt, desired')" by force
  obtain ops1 where rec: "sync_owned api found desired' = (None, ops1, left)"
      "apply_ops ops s = apply_ops ops1 (apply_opt opt s)"
    using Cons.prems(1) step by (auto simp: apply_opt_def split: option.splits prod.splits)
  have sx: "s (rb_Name x) = Some x" using Cons.prems(3) by simp
  note eff = sync_step_effect [where s = s, OF step sx]
  have "\<forall>rb \<in> set found. apply_opt opt s (rb_Name rb) = Some rb"
  proof
    fix rb
    assume rb: "rb \<in> set found"
    then have "rb_Name rb \<in> rb_Name ` set found" by (rule imageI)
    with Cons.prems(2) have "rb_Name rb \<noteq> rb_Name x" by auto
    with eff(2) rb Cons.prems(3) show "apply_opt opt s (rb_Name rb) = Some rb" by simp
  qed
  from Cons.IH [OF rec(1) _ this] Cons.prems(2)
  have IH: "if n \<in> rb_Name ` set found then synced (desired' n) (apply_ops ops s n) (left n)
         else apply_ops ops s n = apply_opt opt s n \<and> left n = desired' n" by (simp add: rec(2))
  show ?case
  proof (cases "n = rb_Name x")
    case True
    with Cons.prems(2) have "n \<notin> rb_Name ` set found" by auto
    with IH eff(1) True show ?thesis by auto
  next
    case False
    with IH eff(2) [OF False] show ?thesis by auto
  qed
qed simp

lemma create_all_effect:
  "create_all api rbs = (None, ops) \<Longrightarrow> distinct (map rb_Name rbs) \<Longrightarrow>
     apply_ops ops s = s ++ map_of (map (\<lambda>rb. (rb_Name rb, rb)) rbs)"
proof (induction rbs arbitrary: ops s)
  case (Cons rb rbs)
  then obtain ops1 where "create_all api rbs = (None, ops1)" "ops = CreateRB rb # ops1"
    by (auto split: option.splits prod.splits)
  moreover have "map_of (map (\<lambda>rb. (rb_Name rb, rb)) rbs) (rb_Name rb) = None"
    using Cons.prems(2) by (simp add: map_of_eq_None_iff image_image)
  moreover from calculation Cons have "apply_ops ops s = s(rb_Name rb \<mapsto> rb) ++ map_of (map (\<lambda>rb. (rb_Name rb, rb)) rbs)"
    by simp
  ultimately show ?case by (simp only: list.map map_of.simps fst_conv snd_conv map_add_upd_left domIff not_True_eq_False if_False simp_thms map_add_upd)
qed simp

text \<open>The desired bindings: the last generated one of each name, with the owner set.\<close>

definition ref_ok :: "(ObjectMeta \<Rightarrow> string + ObjectMeta) \<Rightarrow> bool" where
  "ref_ok setRef \<longleftrightarrow> (\<forall>m. \<exists>m'. setRef m = Inr m' \<and> om_Name m' = om_Name m \<and> meta_replaced m m')"

lemma desired_bindings_Inr:
  assumes "desired_bindings setRef gen crs acc = Inr desired" and "ref_ok setRef"
  shows "dom desired = dom acc \<union> (\<lambda>cr. rb_Name (gen cr)) ` set crs"
    and "desired n = Some rb \<Longrightarrow> acc n = Some rb \<or> (\<exists>cr \<in> set crs. n = rb_Name (gen cr) \<and> grants (gen cr) rb \<and> rb_Name rb = n)"
  using assms(1)
proof (induction crs arbitrary: acc)
  case (Cons cr crs)
  from assms(2) obtain m' where m': "setRef (rb_Meta (gen cr)) = Inr m'" "om_Name m' = rb_Name (gen cr)"
      "meta_replaced (rb_Meta (gen cr)) m'" unfolding ref_ok_def by blast
  let ?rb = "(gen cr)\<lparr>rb_Meta := m'\<rparr>"
  have g: "grants (gen cr) ?rb" using m'(3) by (simp add: grants_def)
  have rec: "desired_bindings setRef gen crs (acc(rb_Name (gen cr) \<mapsto> ?rb)) = Inr desired"
    if "desired_bindings setRef gen (cr # crs) acc = Inr desired" for acc
    using that m'(1,2) by (simp add: Let_def)
  {
    case 1
    from Cons.IH(1) [OF rec [OF 1]] show ?case by auto
  next
    case 2
    from Cons.IH(2) [OF 2(1) rec [OF 2(2)]] g m'(2) show ?case by (auto split: if_splits)
  }
qed simp_all

text \<open>The second loop creates what the first one left.\<close>

lemma create_left_effect:
  assumes "create_all api (map (the \<circ> left) (kord (dom left))) = (None, ops)" and "key_order kord"
    and "finite (dom left)" and "keyed left"
  shows "apply_ops ops s = s ++ left"
proof -
  have names: "rb_Name (the (left n)) = n" if "n \<in> dom left" for n using that assms(4) by (auto simp: keyed_def)
  then have "map (\<lambda>rb. (rb_Name rb, rb)) (map (the \<circ> left) (kord (dom left))) = map_entries kord left"
    using key_orderD(1) [OF assms(2,3)] by (simp add: map_entries_def)
  moreover have "map rb_Name (map (the \<circ> left) (kord (dom left))) = kord (dom left)"
    using names key_orderD(1) [OF assms(2,3)] by (auto intro: map_idI)
  ultimately show ?thesis
    using create_all_effect [OF assms(1), of s] key_orderD(2) [OF assms(2,3)] map_of_map_entries [OF assms(2,3)] by simp
qed

text \<open>Both loops together: the desired names, each with what is desired or a found binding that grants it.\<close>

lemma reconcileRoleBindings_result:
  assumes "reconcileRoleBindings sha256 kord setRef api (Inr owned) w k sa = (None, ops)"
    and "key_order kord" and "ref_ok setRef"
    and "distinct (map rb_Name owned)" and "s = map_of (map (\<lambda>rb. (rb_Name rb, rb)) owned)"
  obtains desired where "desired_bindings setRef (generateRoleBinding sha256 w sa) (cluster_roles k) Map.empty = Inr desired"
    and "\<And>n. desired n = None \<Longrightarrow> apply_ops ops s n = None"
    and "\<And>n d. desired n = Some d \<Longrightarrow> \<exists>rb. apply_ops ops s n = Some rb \<and> (rb = d \<or> grants d rb)"
proof -
  from assms(1) obtain desired ops1 left ops2 where
    des: "desired_bindings setRef (generateRoleBinding sha256 w sa) (cluster_roles k) Map.empty = Inr desired" and
    sync: "sync_owned api owned desired = (None, ops1, left)" and
    crt: "create_all api (map (the \<circ> left) (kord (dom left))) = (None, ops2)" and ops: "ops = ops1 @ ops2"
    by (auto simp: reconcileRoleBindings_def split: sum.splits prod.splits option.splits)
  have stored: "\<forall>rb \<in> set owned. s (rb_Name rb) = Some rb" and s_out: "n \<notin> rb_Name ` set owned \<Longrightarrow> s n = None" for n
    using assms(4) by (auto simp: assms(5) map_of_eq_Some_iff map_of_eq_None_iff comp_def)
  have final: "synced (desired n) (apply_ops ops1 s n) (left n)" for n
    using sync_owned_effect [where s = s and n = n, OF sync assms(4) stored] s_out [of n] by (auto simp: synced_def split: if_splits)
  then have left_sub: "left n = None \<or> left n = desired n" for n by (auto simp: synced_def)
  have "dom left \<subseteq> dom desired" using left_sub by (metis domIff subsetI)
  then have fin: "finite (dom left)" by (rule finite_subset) (simp add: desired_bindings_Inr(1) [OF des assms(3)])
  have "keyed left" unfolding keyed_def using left_sub desired_bindings_Inr(2) [OF des assms(3)] by (metis option.distinct(1))
  note result = create_left_effect [OF crt assms(2) fin this, of "apply_ops ops1 s"]
  show thesis
  proof (rule that [OF des])
    fix n d
    show "desired n = None \<Longrightarrow> apply_ops ops s n = None"
      using final [of n] by (auto simp: ops result synced_def map_add_def)
    show "desired n = Some d \<Longrightarrow> \<exists>rb. apply_ops ops s n = Some rb \<and> (rb = d \<or> grants d rb)"
      using final [of n] by (auto simp: ops result synced_def map_add_def)
  qed
qed

section \<open>Properties\<close>

text \<open>
  C9. A Workspace is granted exactly the ClusterRoles of its kind. Start from any owned
  RoleBindings, drifted, outdated or superfluous, listed faithfully. When the reconcile reports
  no error, then after its operations every ClusterRole of the kind is bound to the
  ServiceAccount of the Workspace, and every RoleBinding that is left binds one of them, to that
  ServiceAccount only: roles removed from the kind are revoked. (The name digest must tell the
  listed roles apart.)
\<close>

theorem rolebindings_exact:
  assumes "reconcileRoleBindings sha256 kord setRef api (Inr owned) w k sa = (None, ops)"
    and "key_order kord" and "ref_ok setRef"
    and "distinct (map rb_Name owned)" and "s = map_of (map (\<lambda>rb. (rb_Name rb, rb)) owned)"
    and "inj_on (generateRoleBindingName sha256 (ws_Name w)) (set (cluster_roles k))"
  shows "(\<forall>cr \<in> set (cluster_roles k). \<exists>rb. apply_ops ops s (generateRoleBindingName sha256 (ws_Name w) cr) = Some rb \<and>
            grants (generateRoleBinding sha256 w sa cr) rb) \<and>
         (\<forall>n rb. apply_ops ops s n = Some rb \<longrightarrow>
            (\<exists>cr \<in> set (cluster_roles k). n = generateRoleBindingName sha256 (ws_Name w) cr \<and>
               grants (generateRoleBinding sha256 w sa cr) rb))"
proof -
  let ?gen = "generateRoleBinding sha256 w sa"
  let ?name = "generateRoleBindingName sha256 (ws_Name w)"
  have gen_name: "rb_Name (?gen cr) = ?name cr" for cr by (simp add: generateRoleBinding_def)
  obtain desired where des: "desired_bindings setRef ?gen (cluster_roles k) Map.empty = Inr desired"
    and none: "\<And>n. desired n = None \<Longrightarrow> apply_ops ops s n = None"
    and some: "\<And>n d. desired n = Some d \<Longrightarrow> \<exists>rb. apply_ops ops s n = Some rb \<and> (rb = d \<or> grants d rb)"
    using assms(1-5) by (rule reconcileRoleBindings_result) blast
  note dom_desired = desired_bindings_Inr(1) [OF des assms(3)] and
    desired_Some = desired_bindings_Inr(2) [OF des assms(3)]
  have trans: "grants (?gen cr) rb" if "grants (?gen cr) d" "rb = d \<or> grants d rb" for cr d rb
    using that by (auto simp: grants_def meta_replaced_def)
  have "\<exists>rb. apply_ops ops s (?name cr) = Some rb \<and> grants (?gen cr) rb" if cr: "cr \<in> set (cluster_roles k)" for cr
  proof -
    from cr dom_desired obtain d where d: "desired (?name cr) = Some d" by (force simp: gen_name)
    with desired_Some cr assms(6) have "grants (?gen cr) d" by (fastforce simp: gen_name dest: inj_onD)
    with some [OF d] trans show ?thesis by blast
  qed
  moreover have "\<exists>cr \<in> set (cluster_roles k). n = ?name cr \<and> grants (?gen cr) rb"
    if n: "apply_ops ops s n = Some rb" for n rb
  proof -
    from n none [of n] some [of n] obtain d where d: "desired n = Some d" "rb = d \<or> grants d rb" by (cases "desired n") auto
    with desired_Some obtain cr where "cr \<in> set (cluster_roles k)" "n = ?name cr" "grants (?gen cr) d"
      by (fastforce simp: gen_name)
    with d(2) trans show ?thesis by blast
  qed
  ultimately show ?thesis by blast
qed

text \<open>
  The example: the kind lists the role \<open>view\<close>, the Workspace still owns a binding for
  \<open>edit\<close>.
\<close>

definition role_kind :: WorkspaceKind where
  "role_kind = sample_kind\<lparr>wk_Spec := (wk_Spec sample_kind)\<lparr>ks_PodTemplate :=
     (wk_PodTemplate sample_kind)\<lparr>kpt_ServiceAccount := Some \<lparr>sa_ClusterRoles = [\<lparr>cr_Name = ''view''\<rparr>]\<rparr>\<rparr>\<rparr>\<rparr>"

definition old_binding :: RoleBinding where
  "old_binding = generateRoleBinding pad32 sample_ws ''sa'' ''edit''"

lemma role_kind_roles: "cluster_roles role_kind = [''view'']"
  by (simp add: cluster_roles_def role_kind_def)

lemma old_binding_name: "rb_Name old_binding \<noteq> generateRoleBindingName pad32 ''nb'' ''view''"
  by (simp add: old_binding_def generateRoleBinding_def generateRoleBindingName_def hashName_def pad32_def
      hex_encode_def hex_digit_def name_consts)

theorem rolebindings_exact_witness:
  "\<exists>ops. reconcileRoleBindings pad32 sample_keys Inr (\<lambda>_. None) (Inr [old_binding]) sample_ws role_kind ''sa'' = (None, ops) \<and>
     (\<forall>n rb. apply_ops ops [rb_Name old_binding \<mapsto> old_binding] n = Some rb \<longrightarrow>
        grants (generateRoleBinding pad32 sample_ws ''sa'' ''view'') rb)"
proof -
  let ?run = "reconcileRoleBindings pad32 sample_keys Inr (\<lambda>_. None) (Inr [old_binding]) sample_ws role_kind ''sa''"
  have "fst ?run = None"
    by (simp add: reconcileRoleBindings_def role_kind_roles generateRoleBinding_def sync_step_def op_error_def
        old_binding_name sample_keys_def)
  then have run: "?run = (None, snd ?run)" by (metis prod.collapse)
  moreover have "ref_ok Inr" by (simp add: ref_ok_def meta_replaced_def)
  ultimately show ?thesis
    using rolebindings_exact [OF run key_order_sample_keys, of "[rb_Name old_binding \<mapsto> old_binding]"]
    by (auto simp: role_kind_roles)
qed

end
