(* ===== verification/Proxy_TLS.thy ===== *)
theory Proxy_TLS
  imports Cluster_Objects
begin

text \<open>
  \<open>controller/pkg/tls/proxy.go\<close>: the TLS settings of the kube-rbac-proxy sidecar, resolved
  from the TLS profile of the cluster's APIServer object on every reconcile.

  The \<open>unstructured.Nested...\<close> accessors give an error, nothing, or a value; a
  \<open>'a lookup\<close> is such an answer, and the records hold the answers the code asks for. The
  cipher suites of the Go runtime (\<open>tls.CipherSuites\<close>) are the argument \<open>suites\<close>:
  pairs of identifier and name.
\<close>

type_synonym 'a lookup = "string + 'a option"

record tls_block =
  blk_MinTLSVersion :: "string lookup"
  blk_Ciphers :: "string list lookup"
  blk_Groups :: "string list lookup"

record tls_profile =
  prf_Type :: "string lookup"
  prf_Old :: "tls_block lookup"
  prf_Intermediate :: "tls_block lookup"
  prf_Modern :: "tls_block lookup"
  prf_Custom :: "tls_block lookup"

record api_server_tls =
  as_TLSAdherence :: "string lookup"
  as_TLSSecurityProfile :: "tls_profile lookup"

text \<open>The answer to reading the APIServer object. \<open>APIServerNoMatch\<close>: the cluster has no such kind.\<close>

datatype api_server_answer = APIServerNoMatch | APIServerError api_error | APIServerFound api_server_tls

text \<open>\<open>ErrProxyTLSUnusable\<close> wraps every error that is not a failure to read the object.\<close>

datatype tls_error = TLSReadError string | ProxyTLSUnusable string

fun tls_error_text :: "tls_error \<Rightarrow> string" where
  "tls_error_text (TLSReadError m) = m"
| "tls_error_text (ProxyTLSUnusable m) = ''kube-rbac-proxy TLS profile is unusable: '' @ m"

record ProxyTLS =
  ptls_MinVersion :: string
  ptls_Ciphers :: "string list"
  ptls_Curves :: "string list"

record profileSpec =
  psp_minVersion :: string
  psp_ciphers :: "string list"
  psp_groups :: "string list"

section \<open>Names\<close>

definition adherenceNoOpinion :: string where "adherenceNoOpinion = ''NoOpinion''"
definition adherenceLegacy :: string where "adherenceLegacy = ''LegacyAdheringComponentsOnly''"
definition tlsVersionName10 :: string where "tlsVersionName10 = ''VersionTLS10''"
definition tlsVersionName12 :: string where "tlsVersionName12 = ''VersionTLS12''"
definition tlsVersionName13 :: string where "tlsVersionName13 = ''VersionTLS13''"
definition http2CipherECDSA :: string where "http2CipherECDSA = ''TLS_ECDHE_ECDSA_WITH_AES_128_GCM_SHA256''"
definition http2CipherRSA :: string where "http2CipherRSA = ''TLS_ECDHE_RSA_WITH_AES_128_GCM_SHA256''"
definition fipsCipherECDSA256 :: string where "fipsCipherECDSA256 = ''TLS_ECDHE_ECDSA_WITH_AES_256_GCM_SHA384''"
definition fipsCipherRSA256 :: string where "fipsCipherRSA256 = ''TLS_ECDHE_RSA_WITH_AES_256_GCM_SHA384''"
definition ianaCipherECDHEECDSAChaCha :: string where
  "ianaCipherECDHEECDSAChaCha = ''TLS_ECDHE_ECDSA_WITH_CHACHA20_POLY1305_SHA256''"
definition ianaCipherECDHERSAChaCha :: string where
  "ianaCipherECDHERSAChaCha = ''TLS_ECDHE_RSA_WITH_CHACHA20_POLY1305_SHA256''"

lemmas cipher_name_defs =
  http2CipherECDSA_def http2CipherRSA_def fipsCipherECDSA256_def fipsCipherRSA256_def
  ianaCipherECDHEECDSAChaCha_def ianaCipherECDHERSAChaCha_def

lemmas version_name_defs = tlsVersionName10_def tlsVersionName12_def tlsVersionName13_def

text \<open>The names of \<open>IntermediateCiphers\<close>, in its order.\<close>

definition IntermediateCiphers :: "string list" where
  "IntermediateCiphers =
     [http2CipherECDSA, http2CipherRSA, fipsCipherECDSA256, fipsCipherRSA256,
      ianaCipherECDHEECDSAChaCha, ianaCipherECDHERSAChaCha]"

definition modernProfileCiphers :: "string list" where
  "modernProfileCiphers = [''TLS_AES_128_GCM_SHA256'', ''TLS_AES_256_GCM_SHA384'', ''TLS_CHACHA20_POLY1305_SHA256'']"

definition intermediateProfileCiphers :: "string list" where
  "intermediateProfileCiphers =
     [''TLS_AES_128_GCM_SHA256'', ''TLS_AES_256_GCM_SHA384'', ''TLS_CHACHA20_POLY1305_SHA256'',
      ''ECDHE-ECDSA-AES128-GCM-SHA256'', ''ECDHE-RSA-AES128-GCM-SHA256'',
      ''ECDHE-ECDSA-AES256-GCM-SHA384'', ''ECDHE-RSA-AES256-GCM-SHA384'',
      ''ECDHE-ECDSA-CHACHA20-POLY1305'', ''ECDHE-RSA-CHACHA20-POLY1305'']"

definition oldProfileCiphers :: "string list" where
  "oldProfileCiphers = intermediateProfileCiphers @
     [''ECDHE-ECDSA-AES128-SHA256'', ''ECDHE-RSA-AES128-SHA256'', ''ECDHE-ECDSA-AES128-SHA'',
      ''ECDHE-RSA-AES128-SHA'', ''ECDHE-ECDSA-AES256-SHA384'', ''ECDHE-RSA-AES256-SHA384'',
      ''ECDHE-ECDSA-AES256-SHA'', ''ECDHE-RSA-AES256-SHA'', ''AES128-GCM-SHA256'', ''AES256-GCM-SHA384'',
      ''AES128-SHA256'', ''AES256-SHA256'', ''AES128-SHA'', ''AES256-SHA'', ''DES-CBC3-SHA'']"

definition defaultProfileGroups :: "string list" where
  "defaultProfileGroups = [''X25519MLKEM768'', ''X25519'', ''secp256r1'', ''secp384r1'']"

definition groupToCurveID :: "string \<rightharpoonup> string" where
  "groupToCurveID = map_of [(''secp256r1'', ''23''), (''secp384r1'', ''24''), (''secp521r1'', ''25''),
     (''X25519'', ''29''), (''X25519MLKEM768'', ''4588'')]"

definition openSSLToIANA :: "string \<rightharpoonup> string" where
  "openSSLToIANA = map_of
     [(''ECDHE-ECDSA-AES128-GCM-SHA256'', http2CipherECDSA),
      (''ECDHE-RSA-AES128-GCM-SHA256'', http2CipherRSA),
      (''ECDHE-ECDSA-AES256-GCM-SHA384'', fipsCipherECDSA256),
      (''ECDHE-RSA-AES256-GCM-SHA384'', fipsCipherRSA256),
      (''ECDHE-ECDSA-CHACHA20-POLY1305'', ianaCipherECDHEECDSAChaCha),
      (''ECDHE-RSA-CHACHA20-POLY1305'', ianaCipherECDHERSAChaCha),
      (''ECDHE-ECDSA-CHACHA20-POLY1305-SHA256'', ianaCipherECDHEECDSAChaCha),
      (''ECDHE-RSA-CHACHA20-POLY1305-SHA256'', ianaCipherECDHERSAChaCha)]"

type_synonym cipher_suites = "(nat \<times> string) list"

text \<open>
  The tables \<open>init\<close> fills: every suite of the runtime under its own name, and the OpenSSL names
  of those the runtime has. No OpenSSL name is an IANA name, so the order of the loop is irrelevant.
\<close>

definition cipherNames :: "cipher_suites \<Rightarrow> string \<rightharpoonup> string" where
  "cipherNames suites name =
     (case openSSLToIANA name of
        Some iana \<Rightarrow> if iana \<in> snd ` set suites then Some iana else if name \<in> snd ` set suites then Some name else None
      | None \<Rightarrow> if name \<in> snd ` set suites then Some name else None)"

definition tls13Cipher :: "cipher_suites \<Rightarrow> string \<Rightarrow> bool" where
  "tls13Cipher suites name \<longleftrightarrow> (\<exists>(i, n) \<in> set suites. n = name \<and> 0x1300 \<le> i \<and> i \<le> 0x13ff)"

section \<open>Operations\<close>

definition Args :: "ProxyTLS \<Rightarrow> string list" where
  "Args p =
     (if ptls_MinVersion p \<noteq> [] then [''--tls-min-version='' @ ptls_MinVersion p] else [])
     @ (if ptls_Ciphers p \<noteq> [] then [''--tls-cipher-suites='' @ join '','' (ptls_Ciphers p)] else [])
     @ (if ptls_Curves p \<noteq> [] then [''--tls-curve-preferences='' @ join '','' (ptls_Curves p)] else [])"

definition strictAdherence :: "string \<Rightarrow> bool" where
  "strictAdherence adherence \<longleftrightarrow> adherence \<noteq> [] \<and> adherence \<noteq> adherenceNoOpinion \<and> adherence \<noteq> adherenceLegacy"

definition hasHTTP2Cipher :: "string list \<Rightarrow> bool" where
  "hasHTTP2Cipher names \<longleftrightarrow> list_ex (\<lambda>name. name = http2CipherECDSA \<or> name = http2CipherRSA) names"

definition fipsCipher :: "string \<Rightarrow> bool" where
  "fipsCipher name \<longleftrightarrow> name \<in> {http2CipherECDSA, http2CipherRSA, fipsCipherECDSA256, fipsCipherRSA256}"

definition fipsCurve :: "string \<Rightarrow> bool" where
  "fipsCurve i \<longleftrightarrow> i = ''23'' \<or> i = ''24'' \<or> i = ''25''"

definition intermediateProxyTLS :: "bool \<Rightarrow> ProxyTLS" where
  "intermediateProxyTLS fips =
     \<lparr>ptls_MinVersion = tlsVersionName12,
      ptls_Ciphers = filter (\<lambda>name. \<not> (fips \<and> \<not> fipsCipher name)) IntermediateCiphers, ptls_Curves = []\<rparr>"

text \<open>
  The loop that translates a list of requested names: unknown and refused ones are skipped, and
  so is a translation that was emitted before. Ciphers and groups both use it.
\<close>

fun translate_names :: "(string \<rightharpoonup> string) \<Rightarrow> (string \<Rightarrow> bool) \<Rightarrow> string set \<Rightarrow> string list \<Rightarrow> string list" where
  "translate_names tab refuse seen [] = []"
| "translate_names tab refuse seen (name # names) =
     (case tab name of
        None \<Rightarrow> translate_names tab refuse seen names
      | Some out \<Rightarrow>
          if refuse out \<or> out \<in> seen then translate_names tab refuse seen names
          else out # translate_names tab refuse (insert out seen) names)"

definition tls12Ciphers :: "cipher_suites \<Rightarrow> string list \<Rightarrow> bool \<Rightarrow> tls_error + string list" where
  "tls12Ciphers suites requested fips =
     (if requested = [] then Inl (ProxyTLSUnusable ''no usable TLS 1.2 ciphers remain'')
      else (let out = translate_names (cipherNames suites)
                  (\<lambda>iana. tls13Cipher suites iana \<or> (fips \<and> \<not> fipsCipher iana)) {} requested
            in if out = [] then Inl (ProxyTLSUnusable ''no usable TLS 1.2 ciphers remain'')
               else if \<not> hasHTTP2Cipher out
               then Inl (ProxyTLSUnusable ''TLS 1.2 cipher list has no HTTP/2 AES_128_GCM_SHA256 suite'')
               else Inr out))"

definition curvesFromGroups :: "string list \<Rightarrow> bool \<Rightarrow> tls_error + string list" where
  "curvesFromGroups groups fips =
     (let curves = translate_names groupToCurveID (\<lambda>i. fips \<and> \<not> fipsCurve i) {} groups
      in if curves = [] then Inl (ProxyTLSUnusable ''no usable TLS groups remain'') else Inr curves)"

definition specToProxyTLS :: "cipher_suites \<Rightarrow> profileSpec \<Rightarrow> bool \<Rightarrow> tls_error + ProxyTLS" where
  "specToProxyTLS suites spec fips =
     (if psp_minVersion spec \<noteq> tlsVersionName12 \<and> psp_minVersion spec \<noteq> tlsVersionName13
      then Inl (ProxyTLSUnusable (''minimum TLS version '' @ go_quote (psp_minVersion spec) @ '' cannot be represented''))
      else (case (if psp_minVersion spec = tlsVersionName12 then tls12Ciphers suites (psp_ciphers spec) fips else Inr []) of
              Inl err \<Rightarrow> Inl err
            | Inr ciphers \<Rightarrow>
                (case (if psp_groups spec \<noteq> [] then curvesFromGroups (psp_groups spec) fips else Inr []) of
                   Inl err \<Rightarrow> Inl err
                 | Inr curves \<Rightarrow> Inr \<lparr>ptls_MinVersion = psp_minVersion spec, ptls_Ciphers = ciphers, ptls_Curves = curves\<rparr>)))"

definition builtinOld :: profileSpec where
  "builtinOld = \<lparr>psp_minVersion = tlsVersionName10, psp_ciphers = oldProfileCiphers, psp_groups = defaultProfileGroups\<rparr>"

definition builtinIntermediate :: profileSpec where
  "builtinIntermediate =
     \<lparr>psp_minVersion = tlsVersionName12, psp_ciphers = intermediateProfileCiphers, psp_groups = defaultProfileGroups\<rparr>"

definition builtinModern :: profileSpec where
  "builtinModern = \<lparr>psp_minVersion = tlsVersionName13, psp_ciphers = modernProfileCiphers, psp_groups = defaultProfileGroups\<rparr>"

definition applySpecFields :: "profileSpec \<Rightarrow> tls_block \<Rightarrow> bool \<Rightarrow> tls_error + profileSpec" where
  "applySpecFields spec block custom =
     (case blk_MinTLSVersion block of
        Inl err \<Rightarrow> Inl (ProxyTLSUnusable (''reading minTLSVersion: '' @ err))
      | Inr minVersion \<Rightarrow>
          (let v = (case minVersion of Some v \<Rightarrow> v | None \<Rightarrow> []) in
           if v = [] \<and> custom then Inl (ProxyTLSUnusable ''custom TLS profile is missing minTLSVersion'')
           else (let spec = (if v \<noteq> [] then spec\<lparr>psp_minVersion := v\<rparr> else spec) in
                 case blk_Ciphers block of
                   Inl err \<Rightarrow> Inl (ProxyTLSUnusable (''reading ciphers: '' @ err))
                 | Inr ciphers \<Rightarrow>
                     (let spec = (case ciphers of Some cs \<Rightarrow> spec\<lparr>psp_ciphers := cs\<rparr> | None \<Rightarrow> spec) in
                      case blk_Groups block of
                        Inl err \<Rightarrow> Inl (ProxyTLSUnusable (''reading groups: '' @ err))
                      | Inr groups \<Rightarrow> Inr (case groups of Some gs \<Rightarrow> spec\<lparr>psp_groups := gs\<rparr> | None \<Rightarrow> spec)))))"

definition applyOptionalBlock :: "profileSpec \<Rightarrow> tls_block lookup \<Rightarrow> string \<Rightarrow> tls_error + profileSpec" where
  "applyOptionalBlock spec block key =
     (case block of
        Inl err \<Rightarrow> Inl (ProxyTLSUnusable (''reading '' @ key @ '' profile block: '' @ err))
      | Inr None \<Rightarrow> Inr spec
      | Inr (Some b) \<Rightarrow> applySpecFields spec b False)"

definition specForType :: "tls_profile \<Rightarrow> string \<Rightarrow> tls_error + profileSpec" where
  "specForType profile profileType =
     (if profileType = ''Old'' then applyOptionalBlock builtinOld (prf_Old profile) ''old''
      else if profileType = ''Intermediate'' then applyOptionalBlock builtinIntermediate (prf_Intermediate profile) ''intermediate''
      else if profileType = ''Modern'' then applyOptionalBlock builtinModern (prf_Modern profile) ''modern''
      else if profileType = ''Custom'' then
        (case prf_Custom profile of
           Inl err \<Rightarrow> Inl (ProxyTLSUnusable (''reading custom profile: '' @ err))
         | Inr None \<Rightarrow> Inl (ProxyTLSUnusable ''custom TLS profile is missing its custom block'')
         | Inr (Some b) \<Rightarrow> applySpecFields \<lparr>psp_minVersion = [], psp_ciphers = [], psp_groups = []\<rparr> b True)
      else Inl (ProxyTLSUnusable (''unknown TLS profile type '' @ go_quote profileType)))"

definition proxyTLSFromProfile :: "cipher_suites \<Rightarrow> tls_profile \<Rightarrow> bool \<Rightarrow> tls_error + ProxyTLS" where
  "proxyTLSFromProfile suites profile fips =
     (case prf_Type profile of
        Inl err \<Rightarrow> Inl (ProxyTLSUnusable (''reading profile type: '' @ err))
      | Inr t \<Rightarrow>
          (let profileType = (case t of Some s \<Rightarrow> s | None \<Rightarrow> []) in
           if profileType = [] then Inr (intermediateProxyTLS fips)
           else (case specForType profile profileType of
                   Inl err \<Rightarrow> Inl err
                 | Inr spec \<Rightarrow> specToProxyTLS suites spec fips)))"

definition ResolveProxyTLS :: "cipher_suites \<Rightarrow> api_server_answer \<Rightarrow> bool \<Rightarrow> tls_error + ProxyTLS" where
  "ResolveProxyTLS suites answer fips =
     (case answer of
        APIServerNoMatch \<Rightarrow> Inr (intermediateProxyTLS fips)
      | APIServerError (NotFound _) \<Rightarrow> Inr (intermediateProxyTLS fips)
      | APIServerError err \<Rightarrow> Inl (TLSReadError (''reading APIServer for kube-rbac-proxy TLS: '' @ api_error_text err))
      | APIServerFound s \<Rightarrow>
          (case as_TLSAdherence s of
             Inl err \<Rightarrow> Inl (TLSReadError (''reading APIServer tlsAdherence for kube-rbac-proxy: '' @ err))
           | Inr a \<Rightarrow>
               if \<not> strictAdherence (case a of Some x \<Rightarrow> x | None \<Rightarrow> []) then Inr (intermediateProxyTLS fips)
               else (case as_TLSSecurityProfile s of
                       Inl err \<Rightarrow> Inl (ProxyTLSUnusable (''reading tlsSecurityProfile: '' @ err))
                     | Inr None \<Rightarrow> Inr (intermediateProxyTLS fips)
                     | Inr (Some profile) \<Rightarrow> proxyTLSFromProfile suites profile fips)))"

section \<open>What a listener is given\<close>

lemma translate_names_props:
  "set (translate_names tab refuse seen names) \<inter> seen = {}"
  "distinct (translate_names tab refuse seen names)"
  "\<forall>out \<in> set (translate_names tab refuse seen names). \<not> refuse out \<and> (\<exists>name \<in> set names. tab name = Some out)"
proof -
  have "set (translate_names tab refuse seen names) \<inter> seen = {} \<and> distinct (translate_names tab refuse seen names) \<and>
    (\<forall>out \<in> set (translate_names tab refuse seen names). \<not> refuse out \<and> (\<exists>name \<in> set names. tab name = Some out))"
  proof (induction names arbitrary: seen)
    case (Cons name names)
    show ?case
    proof (cases "tab name")
      case None
      with Cons [of seen] show ?thesis by auto
    next
      case (Some out)
      show ?thesis
      proof (cases "refuse out \<or> out \<in> seen")
        case True
        with Some Cons [of seen] show ?thesis by auto
      next
        case False
        with Some Cons [of "insert out seen"] show ?thesis by auto
      qed
    qed
  qed simp
  then show "set (translate_names tab refuse seen names) \<inter> seen = {}"
    "distinct (translate_names tab refuse seen names)"
    "\<forall>out \<in> set (translate_names tab refuse seen names). \<not> refuse out \<and> (\<exists>name \<in> set names. tab name = Some out)"
    by blast+
qed

lemma tls12Ciphers_Inr:
  assumes "tls12Ciphers suites requested fips = Inr out"
  shows "out \<noteq> []" and "distinct out" and "hasHTTP2Cipher out" and "\<forall>c \<in> set out. \<not> tls13Cipher suites c \<and> (fips \<longrightarrow> fipsCipher c)"
proof -
  let ?out = "translate_names (cipherNames suites) (\<lambda>iana. tls13Cipher suites iana \<or> (fips \<and> \<not> fipsCipher iana)) {} requested"
  from assms have out: "out = ?out" "?out \<noteq> []" "hasHTTP2Cipher ?out"
    by (auto simp: tls12Ciphers_def Let_def split: if_splits)
  show "out \<noteq> []" "hasHTTP2Cipher out" using out by simp_all
  show "distinct out" unfolding out(1) by (rule translate_names_props)
  show "\<forall>c \<in> set out. \<not> tls13Cipher suites c \<and> (fips \<longrightarrow> fipsCipher c)"
    using translate_names_props(3) [of "cipherNames suites" "\<lambda>iana. tls13Cipher suites iana \<or> (fips \<and> \<not> fipsCipher iana)" "{}" requested]
    unfolding out(1) by blast
qed

lemma curvesFromGroups_Inr:
  assumes "curvesFromGroups groups fips = Inr out"
  shows "distinct out" and "\<forall>c \<in> set out. fips \<longrightarrow> fipsCurve c"
proof -
  from assms have "out = translate_names groupToCurveID (\<lambda>i. fips \<and> \<not> fipsCurve i) {} groups"
    by (auto simp: curvesFromGroups_def Let_def split: if_splits)
  with translate_names_props(2,3) [of groupToCurveID "\<lambda>i. fips \<and> \<not> fipsCurve i" "{}" groups]
  show "distinct out" and "\<forall>c \<in> set out. fips \<longrightarrow> fipsCurve c" by blast+
qed

text \<open>What the sidecar may be started with.\<close>

definition listener_ok :: "bool \<Rightarrow> ProxyTLS \<Rightarrow> bool" where
  "listener_ok fips p \<longleftrightarrow>
     (ptls_MinVersion p = tlsVersionName12 \<and> hasHTTP2Cipher (ptls_Ciphers p) \<or>
      ptls_MinVersion p = tlsVersionName13 \<and> ptls_Ciphers p = []) \<and>
     distinct (ptls_Ciphers p) \<and> distinct (ptls_Curves p) \<and>
     (fips \<longrightarrow> list_all fipsCipher (ptls_Ciphers p) \<and> list_all fipsCurve (ptls_Curves p))"

lemma intermediateProxyTLS_ok: "listener_ok fips (intermediateProxyTLS fips)"
  by (cases fips)
     (simp_all add: listener_ok_def intermediateProxyTLS_def IntermediateCiphers_def fipsCipher_def hasHTTP2Cipher_def
        cipher_name_defs)

lemma specToProxyTLS_ok:
  assumes "specToProxyTLS suites spec fips = Inr p"
  shows "listener_ok fips p"
proof -
  have ne: "tlsVersionName12 \<noteq> tlsVersionName13" by (simp add: version_name_defs)
  from assms obtain ciphers curves where p: "p = \<lparr>ptls_MinVersion = psp_minVersion spec, ptls_Ciphers = ciphers, ptls_Curves = curves\<rparr>"
    and v: "psp_minVersion spec = tlsVersionName12 \<and> tls12Ciphers suites (psp_ciphers spec) fips = Inr ciphers \<or>
      psp_minVersion spec = tlsVersionName13 \<and> ciphers = []"
    and g: "curves = [] \<or> curvesFromGroups (psp_groups spec) fips = Inr curves"
    using ne by (auto simp: specToProxyTLS_def split: if_splits sum.splits)
  show ?thesis
    using v g tls12Ciphers_Inr curvesFromGroups_Inr by (auto simp: p listener_ok_def list_all_iff)
qed

text \<open>
  What the code has to refuse. The block that belongs to a profile type is unusable when it cannot be
  read, or when one of its fields cannot be; a Custom profile also needs the block and its version.
\<close>

definition block_unusable :: "bool \<Rightarrow> tls_block lookup \<Rightarrow> bool" where
  "block_unusable custom block \<longleftrightarrow>
     (case block of
        Inl _ \<Rightarrow> True
      | Inr None \<Rightarrow> custom
      | Inr (Some b) \<Rightarrow> isl (blk_MinTLSVersion b) \<or> isl (blk_Ciphers b) \<or> isl (blk_Groups b) \<or>
          custom \<and> blk_MinTLSVersion b \<in> {Inr None, Inr (Some [])})"

definition profile_block :: "tls_profile \<Rightarrow> string \<Rightarrow> tls_block lookup" where
  "profile_block profile t =
     (if t = ''Old'' then prf_Old profile else if t = ''Intermediate'' then prf_Intermediate profile
      else if t = ''Modern'' then prf_Modern profile else prf_Custom profile)"

definition profile_unusable :: "tls_profile \<Rightarrow> bool" where
  "profile_unusable profile \<longleftrightarrow>
     (case prf_Type profile of
        Inl _ \<Rightarrow> True
      | Inr t \<Rightarrow> case_option False (\<lambda>t. t \<noteq> [] \<and>
          (t \<notin> {''Old'', ''Intermediate'', ''Modern'', ''Custom''} \<or> block_unusable (t = ''Custom'') (profile_block profile t))) t)"

text \<open>The answers from which no settings can be derived.\<close>

definition settings_unreadable :: "api_server_answer \<Rightarrow> bool" where
  "settings_unreadable answer \<longleftrightarrow>
     (case answer of
        APIServerNoMatch \<Rightarrow> False
      | APIServerError err \<Rightarrow> \<forall>m. err \<noteq> NotFound m
      | APIServerFound s \<Rightarrow>
          (case as_TLSAdherence s of
             Inl _ \<Rightarrow> True
           | Inr a \<Rightarrow> strictAdherence (case_option [] id a) \<and>
               (case as_TLSSecurityProfile s of
                  Inl _ \<Rightarrow> True
                | Inr profile \<Rightarrow> case_option False profile_unusable profile)))"

text \<open>
  The lowest version a profile of a known type asks for: the one of its block where it names one, and
  else the one of the type.
\<close>

definition block_version :: "string \<Rightarrow> tls_block \<Rightarrow> string" where
  "block_version else_version b = (case blk_MinTLSVersion b of Inr (Some v) \<Rightarrow> if v = [] then else_version else v | _ \<Rightarrow> else_version)"

definition type_version :: "string \<Rightarrow> string" where
  "type_version t =
     (if t = ''Old'' then tlsVersionName10 else if t = ''Intermediate'' then tlsVersionName12
      else if t = ''Modern'' then tlsVersionName13 else [])"

definition asked_version :: "tls_profile \<Rightarrow> string \<Rightarrow> string" where
  "asked_version profile t =
     (case profile_block profile t of Inr (Some b) \<Rightarrow> block_version (type_version t) b | _ \<Rightarrow> type_version t)"

lemma applySpecFields_isl:
  assumes "isl (blk_MinTLSVersion b) \<or> isl (blk_Ciphers b) \<or> isl (blk_Groups b) \<or>
    custom \<and> blk_MinTLSVersion b \<in> {Inr None, Inr (Some [])}"
  shows "isl (applySpecFields spec b custom)"
  using assms by (auto simp: applySpecFields_def Let_def isl_def split: sum.splits option.splits if_splits)

lemma specForType_isl:
  assumes "t \<notin> {''Old'', ''Intermediate'', ''Modern'', ''Custom''} \<or> block_unusable (t = ''Custom'') (profile_block profile t)"
  shows "isl (specForType profile t)"
  using assms applySpecFields_isl
  by (auto simp: specForType_def applyOptionalBlock_def profile_block_def block_unusable_def
      split: sum.splits option.splits if_splits)

lemma applySpecFields_version:
  assumes "applySpecFields spec b custom = Inr s"
  shows "psp_minVersion s = block_version (psp_minVersion spec) b"
  using assms
  by (auto simp: applySpecFields_def block_version_def Let_def split: sum.splits option.splits if_splits)

lemma specForType_version:
  assumes "specForType profile t = Inr s"
  shows "psp_minVersion s = asked_version profile t"
  using assms
  by (auto simp: specForType_def applyOptionalBlock_def asked_version_def profile_block_def type_version_def
      builtinOld_def builtinIntermediate_def builtinModern_def
      split: sum.splits option.splits if_splits dest!: applySpecFields_version)

text \<open>
  C25. The sidecar of a Workspace never listens below TLS 1.2 and never with an empty or unusable
  cipher list: whatever the APIServer object holds, the settings resolved from it ask for TLS 1.2 with
  a suite HTTP/2 needs, or for TLS 1.3 without a cipher flag; no cipher or curve is repeated, and in
  FIPS mode only approved ones remain. When the object, the adherence or, under strict adherence, the
  profile, its type, its block or a field of the block cannot be read, or the profile is of an unknown
  type or an incomplete custom one, no settings are returned; nothing falls back to the defaults then. And
  the settings of a strictly adhered profile have the lowest version the profile asks for.
\<close>

theorem proxy_tls_safe:
  "(\<forall>p. ResolveProxyTLS suites answer fips = Inr p \<longrightarrow> listener_ok fips p) \<and>
   (settings_unreadable answer \<longrightarrow> isl (ResolveProxyTLS suites answer fips)) \<and>
   (\<forall>s a profile t p. answer = APIServerFound s \<and> as_TLSAdherence s = Inr (Some a) \<and> strictAdherence a \<and>
      as_TLSSecurityProfile s = Inr (Some profile) \<and> prf_Type profile = Inr (Some t) \<and> t \<noteq> [] \<and>
      ResolveProxyTLS suites answer fips = Inr p \<longrightarrow> ptls_MinVersion p = asked_version profile t)"
proof (intro conjI allI impI)
  show "listener_ok fips p" if "ResolveProxyTLS suites answer fips = Inr p" for p
    using that intermediateProxyTLS_ok specToProxyTLS_ok
    by (auto simp: ResolveProxyTLS_def proxyTLSFromProfile_def Let_def
        split: api_server_answer.splits api_error.splits sum.splits option.splits if_splits)
  have profile: "isl (proxyTLSFromProfile suites profile fips)" if "profile_unusable profile" for profile
  proof (cases "prf_Type profile")
    case (Inr t)
    with that obtain ty where t: "t = Some ty" "ty \<noteq> []"
      and "ty \<notin> {''Old'', ''Intermediate'', ''Modern'', ''Custom''} \<or> block_unusable (ty = ''Custom'') (profile_block profile ty)"
      by (simp only: profile_unusable_def sum.case split: option.splits) blast
    from this(3) have "isl (specForType profile ty)" by (rule specForType_isl)
    with Inr t show ?thesis by (auto simp: proxyTLSFromProfile_def split: sum.splits)
  qed (simp add: proxyTLSFromProfile_def)
  show "isl (ResolveProxyTLS suites answer fips)" if "settings_unreadable answer"
    using that profile
    by (auto simp: ResolveProxyTLS_def settings_unreadable_def id_def
        split: api_server_answer.splits api_error.splits sum.splits option.splits if_splits)
  show "ptls_MinVersion p = asked_version profile t"
    if "answer = APIServerFound s \<and> as_TLSAdherence s = Inr (Some a) \<and> strictAdherence a \<and>
      as_TLSSecurityProfile s = Inr (Some profile) \<and> prf_Type profile = Inr (Some t) \<and> t \<noteq> [] \<and>
      ResolveProxyTLS suites answer fips = Inr p" for s a profile t p
    using that specForType_version [of profile t]
    by (auto simp: ResolveProxyTLS_def proxyTLSFromProfile_def specToProxyTLS_def Let_def split: sum.splits if_splits)
qed

text \<open>The suites of the Go runtime that are not insecure.\<close>

definition go_suites :: cipher_suites where
  "go_suites =
     [(0x1301, ''TLS_AES_128_GCM_SHA256''), (0x1302, ''TLS_AES_256_GCM_SHA384''), (0x1303, ''TLS_CHACHA20_POLY1305_SHA256''),
      (0xc02b, http2CipherECDSA), (0xc02f, http2CipherRSA), (0xc02c, fipsCipherECDSA256), (0xc030, fipsCipherRSA256),
      (0xcca9, ianaCipherECDHEECDSAChaCha), (0xcca8, ianaCipherECDHERSAChaCha)]"

definition strict_server :: "string \<Rightarrow> api_server_tls" where
  "strict_server t =
     \<lparr>as_TLSAdherence = Inr (Some ''StrictAllComponents''),
      as_TLSSecurityProfile = Inr (Some \<lparr>prf_Type = Inr (Some t), prf_Old = Inr None, prf_Intermediate = Inr None,
        prf_Modern = Inr None, prf_Custom = Inr None\<rparr>)\<rparr>"

lemmas tls_eval =
  ResolveProxyTLS_def strictAdherence_def adherenceNoOpinion_def adherenceLegacy_def proxyTLSFromProfile_def specForType_def applyOptionalBlock_def strict_server_def specToProxyTLS_def tls12Ciphers_def
  curvesFromGroups_def builtinIntermediate_def builtinModern_def builtinOld_def version_name_defs cipherNames_def
  tls13Cipher_def groupToCurveID_def openSSLToIANA_def defaultProfileGroups_def intermediateProfileCiphers_def
  fipsCipher_def fipsCurve_def hasHTTP2Cipher_def cipher_name_defs go_suites_def Let_def

text \<open>What the three well-known profiles give on the Go runtime.\<close>

lemma intermediate_agrees:
  "ResolveProxyTLS go_suites (APIServerFound (strict_server ''Intermediate'')) fips =
     Inr ((intermediateProxyTLS fips)\<lparr>ptls_Curves := (if fips then [''23'', ''24''] else [''4588'', ''29'', ''23'', ''24''])\<rparr>)"
  by (cases fips) (simp_all add: tls_eval intermediateProxyTLS_def IntermediateCiphers_def)

lemma modern_and_old:
  "ResolveProxyTLS go_suites (APIServerFound (strict_server ''Modern'')) False =
     Inr \<lparr>ptls_MinVersion = tlsVersionName13, ptls_Ciphers = [], ptls_Curves = [''4588'', ''29'', ''23'', ''24'']\<rparr>"
  "isl (ResolveProxyTLS go_suites (APIServerFound (strict_server ''Old'')) fips)"
  by (simp_all add: tls_eval)

theorem proxy_tls_safe_witness:
  "listener_ok True ((intermediateProxyTLS True)\<lparr>ptls_Curves := [''23'', ''24'']\<rparr>) \<and>
   isl (ResolveProxyTLS go_suites (APIServerError (OtherError ''timeout'')) False) \<and>
   isl (ResolveProxyTLS go_suites (APIServerFound ((strict_server ''Modern'')\<lparr>as_TLSSecurityProfile := Inl ''not a map''\<rparr>)) False) \<and>
   ptls_MinVersion \<lparr>ptls_MinVersion = tlsVersionName13, ptls_Ciphers = [], ptls_Curves = [''4588'', ''29'', ''23'', ''24'']\<rparr> =
     asked_version (the (projr (as_TLSSecurityProfile (strict_server ''Modern'')))) ''Modern''"
proof (intro conjI)
  show "listener_ok True ((intermediateProxyTLS True)\<lparr>ptls_Curves := [''23'', ''24'']\<rparr>)"
    using proxy_tls_safe [of go_suites "APIServerFound (strict_server ''Intermediate'')" True] intermediate_agrees [of True]
    by simp
  show "isl (ResolveProxyTLS go_suites (APIServerError (OtherError ''timeout'')) False)"
    using proxy_tls_safe [of go_suites "APIServerError (OtherError ''timeout'')" False] by (simp add: settings_unreadable_def)
  let ?broken = "APIServerFound ((strict_server ''Modern'')\<lparr>as_TLSSecurityProfile := Inl ''not a map''\<rparr>)"
  have "settings_unreadable ?broken" by (simp add: settings_unreadable_def tls_eval)
  then show "isl (ResolveProxyTLS go_suites ?broken False)" using proxy_tls_safe [of go_suites ?broken False] by blast
  let ?modern = "\<lparr>ptls_MinVersion = tlsVersionName13, ptls_Ciphers = [], ptls_Curves = [''4588'', ''29'', ''23'', ''24'']\<rparr>"
  have "strictAdherence ''StrictAllComponents''" by (simp add: tls_eval)
  then show "ptls_MinVersion ?modern = asked_version (the (projr (as_TLSSecurityProfile (strict_server ''Modern'')))) ''Modern''"
    using proxy_tls_safe [of go_suites "APIServerFound (strict_server ''Modern'')" False] modern_and_old(1)
    by (auto simp: strict_server_def)
qed

end
