(* ===== verification/Reconcile_Steps.thy ===== *)
theory Reconcile_Steps
  imports Trace_Steps Reconcile_Status Role_Bindings Proxy_TLS
begin

text \<open>
  The steps of a Workspace reconcile: the writes it sends, each with the answer of the API server,
  and the combinators of \<open>Trace_Steps\<close> at these types. An outcome is the error or the
  result the reconcile returns.

  Reads are functions of the trace, so that nothing is assumed about how far the cached client
  lags behind.
\<close>

datatype api_write =
    UpdateKindMeta WorkspaceKind
  | UpdateWorkspace Workspace
  | CreateServiceAccount ServiceAccount | UpdateServiceAccount ServiceAccount
  | CreateStatefulSet StatefulSet | UpdateStatefulSet StatefulSet
  | CreateService Service | UpdateService Service
  | CreateVirtualService VirtualService | UpdateVirtualService VirtualService
  | CreateClusterRoleBinding ClusterRoleBinding | UpdateClusterRoleBinding ClusterRoleBinding
  | DeleteClusterRoleBinding ClusterRoleBinding
  | CreateConfigMap ConfigMap | UpdateConfigMap ConfigMap
  | CreateReferenceGrant ReferenceGrant | UpdateReferenceGrant ReferenceGrant
  | CreateHTTPRoute HTTPRoute | UpdateHTTPRoute HTTPRoute | DeleteHTTPRoute HTTPRoute
  | RoleBindingWrite rb_op
  | WorkspaceWrite ws_write

type_synonym trace = "(api_write, api_error option) event_trace"

type_synonym outcome = "reconcile_error + ctrl_result"

type_synonym 'a step = "(api_write, api_error option, outcome, 'a) trace_step"

type_synonym api_fn = "trace \<Rightarrow> api_write \<Rightarrow> api_error option"

section \<open>Combinators\<close>

abbreviation fail_api :: "api_error \<Rightarrow> 'a step" where
  "fail_api err \<equiv> stop (Inl (ApiError err))"

text \<open>A read whose error ends the reconcile.\<close>

definition fetch :: "(trace \<Rightarrow> api_error + 'a) \<Rightarrow> 'a step" where
  "fetch q = and_then (ask q) (\<lambda>r. case r of Inl err \<Rightarrow> fail_api err | Inr x \<Rightarrow> proceed x)"

definition requeue_now :: ctrl_result where
  "requeue_now = \<lparr>Requeue = True, RequeueAfter = 0\<rparr>"

text \<open>
  An update: every error is returned, except that some call sites turn a conflict into a requeue.
  \<open>resp\<close> is the object the client fills in from the response.
\<close>

definition update_object ::
  "api_fn \<Rightarrow> bool \<Rightarrow> ('o \<Rightarrow> api_write) \<Rightarrow> (trace \<Rightarrow> 'o \<Rightarrow> 'o) \<Rightarrow> 'o \<Rightarrow> 'o step"
where
  "update_object api requeueOnConflict upd resp obj =
     and_then (ask (\<lambda>t. resp t obj)) (\<lambda>stored.
     and_then (send api (upd obj)) (\<lambda>r.
       case r of
         None \<Rightarrow> proceed stored
       | Some (Conflict m) \<Rightarrow> if requeueOnConflict then stop (Inr requeue_now) else fail_api (Conflict m)
       | Some err \<Rightarrow> fail_api err))"

text \<open>A creation; some call sites accept that the object exists already.\<close>

definition create_object ::
  "api_fn \<Rightarrow> bool \<Rightarrow> ('o \<Rightarrow> api_write) \<Rightarrow> (trace \<Rightarrow> 'o \<Rightarrow> 'o) \<Rightarrow> 'o \<Rightarrow> 'o step"
where
  "create_object api existsOk crt resp obj =
     and_then (ask (\<lambda>t. resp t obj)) (\<lambda>stored.
     and_then (send api (crt obj)) (\<lambda>r.
       case r of
         None \<Rightarrow> proceed stored
       | Some (AlreadyExists m) \<Rightarrow> if existsOk then proceed obj else fail_api (AlreadyExists m)
       | Some err \<Rightarrow> fail_api err))"

section \<open>What the combinators send\<close>

lemma emits_fetch [emit_intros]: "emits A (fetch q)"
  by (auto simp: fetch_def intro!: emit_intros split: sum.splits)

lemma emits_update_object [emit_intros]: "A (upd obj) \<Longrightarrow> emits A (update_object api rq upd resp obj)"
  by (auto simp: update_object_def intro!: emit_intros split: option.splits api_error.splits)

lemma emits_create_object [emit_intros]: "A (crt obj) \<Longrightarrow> emits A (create_object api ok crt resp obj)"
  by (auto simp: create_object_def intro!: emit_intros split: option.splits api_error.splits)

end
