(* ===== verification/Workspace_Webhook.thy ===== *)
theory Workspace_Webhook
  imports Field_Errors Cluster_Objects
begin

text \<open>
  The admission webhook of Workspaces, \<open>controller/internal/webhook/workspace_webhook.go\<close>.
  \<open>getKind\<close> is the cached client's \<open>Get\<close> of a WorkspaceKind. The lemmas show that an
  admitted Workspace selects options its kind has, on creation and through any sequence of
  updates that leaves the kind alone.
\<close>

type_synonym kind_getter = "string \<Rightarrow> api_error + WorkspaceKind"

definition validateWorkspaceKind :: "kind_getter \<Rightarrow> Workspace \<Rightarrow> field_error + WorkspaceKind" where
  "validateWorkspaceKind getKind w =
     (let workspaceKindName = spec_Kind (ws_Spec w); path = [Child ''spec'', Child ''kind''] in
      case getKind workspaceKindName of
        Inr k \<Rightarrow> Inr k
      | Inl (NotFound _) \<Rightarrow> Inl (FieldInvalid path (BadString workspaceKindName)
                                (''workspace kind '' @ go_quote workspaceKindName @ '' not found''))
      | Inl err \<Rightarrow> Inl (FieldInternal path (api_error_text err)))"

definition ws_options_path :: "string \<Rightarrow> field_path" where
  "ws_options_path option = [Child ''spec'', Child ''podTemplate'', Child ''options'', Child option]"

definition WS_validatePodTemplatePodMetadata :: "validation_lib \<Rightarrow> Workspace \<Rightarrow> field_error list" where
  "WS_validatePodTemplatePodMetadata lib w =
     (let path = [Child ''spec'', Child ''podTemplate'', Child ''podMetadata''] in
      case wpt_PodMetadata (ws_PodTemplate w) of
        None \<Rightarrow> []
      | Some md \<Rightarrow> ValidateLabels lib (md_Labels md) (path @ [Child ''labels''])
                    @ ValidateAnnotations lib (md_Annotations md) (path @ [Child ''annotations'']))"

definition WS_validateImageConfig :: "Workspace \<Rightarrow> WorkspaceKind \<Rightarrow> field_error list" where
  "WS_validateImageConfig w k =
     (let imageConfig = po_ImageConfig (ws_Options w) in
      if list_ex (\<lambda>v. imageConfig = ic_Id v) (wk_ImageConfigValues k) then []
      else [FieldInvalid (ws_options_path ''imageConfig'') (BadString imageConfig)
              (''imageConfig with id '' @ go_quote imageConfig @ '' not found in workspace kind '' @ go_quote (wk_Name k))])"

definition WS_validatePodConfig :: "Workspace \<Rightarrow> WorkspaceKind \<Rightarrow> field_error list" where
  "WS_validatePodConfig w k =
     (let podConfig = po_PodConfig (ws_Options w) in
      if list_ex (\<lambda>v. podConfig = pc_Id v) (wk_PodConfigValues k) then []
      else [FieldInvalid (ws_options_path ''podConfig'') (BadString podConfig)
              (''podConfig with id '' @ go_quote podConfig @ '' not found in workspace kind '' @ go_quote (wk_Name k))])"

definition WS_ValidateCreate :: "validation_lib \<Rightarrow> kind_getter \<Rightarrow> Workspace \<Rightarrow> admission" where
  "WS_ValidateCreate lib getKind w =
     (case validateWorkspaceKind getKind w of
        Inl err \<Rightarrow> ([], Some (AdmissionInvalid (ws_Name w) [err]))
      | Inr k \<Rightarrow> admission_result [] (ws_Name w)
          (WS_validatePodTemplatePodMetadata lib w @ WS_validateImageConfig w k @ WS_validatePodConfig w k))"

definition WS_ValidateUpdate :: "validation_lib \<Rightarrow> kind_getter \<Rightarrow> Workspace \<Rightarrow> Workspace \<Rightarrow> admission" where
  "WS_ValidateUpdate lib getKind oldW newW =
     (let workspaceKindChange = spec_Kind (ws_Spec newW) \<noteq> spec_Kind (ws_Spec oldW);
          podMetadataChange = wpt_PodMetadata (ws_PodTemplate newW) \<noteq> wpt_PodMetadata (ws_PodTemplate oldW);
          imageConfigChange = po_ImageConfig (ws_Options newW) \<noteq> po_ImageConfig (ws_Options oldW);
          podConfigChange = po_PodConfig (ws_Options newW) \<noteq> po_PodConfig (ws_Options oldW)
      in if workspaceKindChange \<or> podMetadataChange \<or> imageConfigChange \<or> podConfigChange
         then (case validateWorkspaceKind getKind newW of
                 Inl err \<Rightarrow> ([], Some (AdmissionInvalid (ws_Name newW) [err]))
               | Inr k \<Rightarrow> admission_result [] (ws_Name newW)
                   ((if podMetadataChange then WS_validatePodTemplatePodMetadata lib newW else [])
                    @ (if imageConfigChange then WS_validateImageConfig newW k else [])
                    @ (if podConfigChange then WS_validatePodConfig newW k else [])))
         else admission_result [] (ws_Name newW) [])"

definition WS_ValidateDelete :: "Workspace \<Rightarrow> admission" where
  "WS_ValidateDelete w = ([], None)"

section \<open>What an admitted Workspace looks like\<close>

text \<open>A Workspace selects options that its kind has.\<close>

definition options_exist :: "Workspace \<Rightarrow> WorkspaceKind \<Rightarrow> bool" where
  "options_exist w k \<longleftrightarrow>
     po_ImageConfig (ws_Options w) \<in> ic_Id ` set (wk_ImageConfigValues k) \<and>
     po_PodConfig (ws_Options w) \<in> pc_Id ` set (wk_PodConfigValues k)"

lemma WS_validateOptions_Nil [simp]:
  "WS_validateImageConfig w k = [] \<longleftrightarrow> po_ImageConfig (ws_Options w) \<in> ic_Id ` set (wk_ImageConfigValues k)"
  "WS_validatePodConfig w k = [] \<longleftrightarrow> po_PodConfig (ws_Options w) \<in> pc_Id ` set (wk_PodConfigValues k)"
  by (auto simp: WS_validateImageConfig_def WS_validatePodConfig_def Let_def list_ex_iff)

lemma validateWorkspaceKind_Inr: "validateWorkspaceKind getKind w = Inr k \<longleftrightarrow> getKind (spec_Kind (ws_Spec w)) = Inr k"
  by (auto simp: validateWorkspaceKind_def Let_def split: sum.splits api_error.splits)

lemma WS_create_admitted_iff:
  "admitted (WS_ValidateCreate lib getKind w) \<longleftrightarrow>
     (\<exists>k. getKind (spec_Kind (ws_Spec w)) = Inr k \<and> options_exist w k \<and> WS_validatePodTemplatePodMetadata lib w = [])"
proof (cases "validateWorkspaceKind getKind w")
  case (Inl e)
  then show ?thesis using validateWorkspaceKind_Inr [of getKind w]
    by (auto simp: WS_ValidateCreate_def)
next
  case (Inr k)
  then have "getKind (spec_Kind (ws_Spec w)) = Inr k" by (simp add: validateWorkspaceKind_Inr)
  with Inr show ?thesis by (auto simp: WS_ValidateCreate_def options_exist_def)
qed

lemma WS_update_admitted:
  assumes "admitted (WS_ValidateUpdate lib getKind oldW newW)"
    and "spec_Kind (ws_Spec newW) = spec_Kind (ws_Spec oldW)"
    and "getKind (spec_Kind (ws_Spec oldW)) = Inr k" and "options_exist oldW k"
  shows "options_exist newW k"
    and "WS_validatePodTemplatePodMetadata lib oldW = [] \<Longrightarrow> WS_validatePodTemplatePodMetadata lib newW = []"
proof -
  have k: "validateWorkspaceKind getKind newW = Inr k" using assms(2,3) by (simp add: validateWorkspaceKind_Inr)
  show "options_exist newW k"
    using assms(1,4) k by (auto simp: WS_ValidateUpdate_def options_exist_def Let_def split: if_splits)
  show "WS_validatePodTemplatePodMetadata lib newW = []" if "WS_validatePodTemplatePodMetadata lib oldW = []"
    using assms(1) k that
    by (cases "wpt_PodMetadata (ws_PodTemplate newW) = wpt_PodMetadata (ws_PodTemplate oldW)")
       (auto simp: WS_ValidateUpdate_def WS_validatePodTemplatePodMetadata_def Let_def split: if_splits)
qed

text \<open>
  An update that changes only the kind is not checked against the options of the new kind: the
  field is immutable by the CRD schema, which the webhook relies on.
\<close>

lemma WS_update_kind_change_unchecked:
  assumes "getKind (spec_Kind (ws_Spec newW)) = Inr k" and "ws_PodTemplate newW = ws_PodTemplate oldW"
  shows "admitted (WS_ValidateUpdate lib getKind oldW newW)"
proof -
  have "validateWorkspaceKind getKind newW = Inr k" using assms(1) by (simp add: validateWorkspaceKind_Inr)
  then show ?thesis using assms(2) by (simp add: WS_ValidateUpdate_def Let_def)
qed

end
