(* ===== verification/Reconcile.thy ===== *)
theory Reconcile
  imports Reconcile_Steps Workspace_Webhook
begin

text \<open>
  \<open>Reconcile\<close> of \<open>controller/internal/controller/workspace_controller.go\<close>: one pass
  over a Workspace, from the cleanup of one that is being deleted to the objects it owns, its routes,
  its RoleBindings and its status. Every group of definitions is a passage of the function, in its
  order.

  \<open>rec_env\<close> is what a pass runs against: the settings, the libraries, and the answers of the
  API server and of the cached client, which may depend on what the pass has written so far. Objects
  the client fills in from a response are given by the \<open>re_Resp\<close> functions.
\<close>

record rec_env =
  re_Config :: EnvConfig
  re_Lib :: validation_lib
  re_Range :: range_fn
  re_Keys :: key_order_fn
  re_Sha :: sha256_fn
  re_Suites :: cipher_suites
  re_FIPS :: bool
  re_SetRef :: "Workspace \<Rightarrow> ObjectMeta \<Rightarrow> string + ObjectMeta"
  re_Api :: api_fn
  re_GetWorkspace :: "api_error + Workspace"
  re_GetKind :: "trace \<Rightarrow> string \<Rightarrow> api_error + WorkspaceKind"
  re_ListServiceAccounts :: "trace \<Rightarrow> api_error + ServiceAccount list"
  re_GetServiceAccount :: "trace \<Rightarrow> string \<Rightarrow> api_error + ServiceAccount"
  re_ListStatefulSets :: "trace \<Rightarrow> api_error + StatefulSet list"
  re_ListServices :: "trace \<Rightarrow> api_error + Service list"
  re_ListVirtualServices :: "trace \<Rightarrow> api_error + VirtualService list"
  re_ListRoleBindings :: "trace \<Rightarrow> api_error + RoleBinding list"
  re_GetAPIServer :: "trace \<Rightarrow> api_server_answer"
  re_GetClusterRoleBinding :: "trace \<Rightarrow> string \<Rightarrow> api_error + ClusterRoleBinding"
  re_GetConfigMap :: "trace \<Rightarrow> string \<Rightarrow> api_error + ConfigMap"
  re_GetService :: "trace \<Rightarrow> string \<Rightarrow> api_error + Service"
  re_GetReferenceGrant :: "trace \<Rightarrow> string \<Rightarrow> api_error + ReferenceGrant"
  re_GetHTTPRoute :: "trace \<Rightarrow> string \<Rightarrow> string \<Rightarrow> api_error + HTTPRoute"
  re_GetPod :: "trace \<Rightarrow> string \<Rightarrow> api_error + Pod"
  re_RespKind :: "trace \<Rightarrow> WorkspaceKind \<Rightarrow> WorkspaceKind"
  re_RespWorkspace :: "trace \<Rightarrow> Workspace \<Rightarrow> Workspace"
  re_RespStatefulSet :: "trace \<Rightarrow> StatefulSet \<Rightarrow> StatefulSet"
  re_RespService :: "trace \<Rightarrow> Service \<Rightarrow> Service"
  re_Finish :: "trace \<Rightarrow> finish_env"

section \<open>Messages\<close>

definition WorkspaceFinalizer :: string where
  "WorkspaceFinalizer = ''notebooks.kubeflow.org/workspace-cleanup''"
definition requeueAfterStaleCache :: int where "requeueAfterStaleCache = 250 * 1000000"
definition stateMsgErrorUnknownWorkspaceKind :: string where
  "stateMsgErrorUnknownWorkspaceKind = ''Workspace references unknown WorkspaceKind: ''"
definition stateMsgErrorInvalidImageConfig :: string where
  "stateMsgErrorInvalidImageConfig = ''Workspace has invalid imageConfig: ''"
definition stateMsgErrorInvalidPodConfig :: string where
  "stateMsgErrorInvalidPodConfig = ''Workspace has invalid podConfig: ''"
definition stateMsgErrorGenFailureStatefulSet :: string where
  "stateMsgErrorGenFailureStatefulSet = ''Workspace failed to generate StatefulSet with error: ''"
definition stateMsgErrorGenFailureService :: string where
  "stateMsgErrorGenFailureService = ''Workspace failed to generate Service with error: ''"
definition stateMsgErrorGenFailureVirtualService :: string where
  "stateMsgErrorGenFailureVirtualService = ''Workspace failed to generate VirtualService with error: ''"
definition stateMsgErrorMultipleStatefulSets :: string where
  "stateMsgErrorMultipleStatefulSets = ''Workspace owns multiple StatefulSets: ''"
definition stateMsgErrorMultipleServices :: string where
  "stateMsgErrorMultipleServices = ''Workspace owns multiple Services: ''"
definition stateMsgErrorMultipleServiceAccounts :: string where
  "stateMsgErrorMultipleServiceAccounts = ''Workspace owns multiple ServiceAccounts: ''"
definition stateMsgErrorMultipleVirtualServices :: string where
  "stateMsgErrorMultipleVirtualServices = ''Workspace owns multiple VirtualServices: ''"
definition stateMsgErrorServiceAccountNotOwned :: "string \<Rightarrow> string" where
  "stateMsgErrorServiceAccountNotOwned name =
     ''Workspace ServiceAccount '' @ name @ '' already exists and is not owned by the Workspace''"
definition stateMsgErrorSetControllerReference :: "string \<Rightarrow> string \<Rightarrow> string" where
  "stateMsgErrorSetControllerReference what err =
     ''Workspace failed to set controller reference on '' @ what @ '' with error: '' @ err"

fun redirect_error_text :: "string \<Rightarrow> redirect_error \<Rightarrow> string" where
  "redirect_error_text opt (OptionNotFound i) = opt @ '' with id '' @ go_quote i @ '' not found''"
| "redirect_error_text opt (CircularRedirect i) = opt @ '' with id '' @ go_quote i @ '' has a circular redirect''"
| "redirect_error_text opt (RedirectTargetNotFound target source) =
     opt @ '' with id '' @ go_quote target @ '' not found, was redirected from '' @ go_quote source"

section \<open>Ending with a state\<close>

definition updateWorkspaceState :: "rec_env \<Rightarrow> Workspace \<Rightarrow> WorkspaceState \<Rightarrow> string \<Rightarrow> 'a step" where
  "updateWorkspaceState env w state message =
     (if st_State (ws_Status w) \<noteq> state \<or> st_StateMessage (ws_Status w) \<noteq> message
      then and_then (send (re_Api env) (WorkspaceWrite (UpdateStatus
               ((ws_Status w)\<lparr>st_State := state, st_StateMessage := message\<rparr>))))
             (\<lambda>r. case r of Some err \<Rightarrow> fail_api err | None \<Rightarrow> stop (Inr no_requeue))
      else stop (Inr no_requeue))"

text \<open>A generator's error is reported in the state; a panic ends the pass.\<close>

definition generated :: "rec_env \<Rightarrow> Workspace \<Rightarrow> string \<Rightarrow> gen_error + 'o \<Rightarrow> 'o step" where
  "generated env w msg r =
     (case r of
        Inr obj \<Rightarrow> proceed obj
      | Inl (GenError e) \<Rightarrow> updateWorkspaceState env w WorkspaceStateError (msg @ e)
      | Inl GenPanic \<Rightarrow> stop (Inl PanicError))"

definition set_owner :: "rec_env \<Rightarrow> Workspace \<Rightarrow> ObjectMeta \<Rightarrow> ObjectMeta step" where
  "set_owner env w meta =
     (case re_SetRef env w meta of Inl e \<Rightarrow> stop (Inl (OwnerRefError e)) | Inr meta' \<Rightarrow> proceed meta')"

section \<open>Cleanup of a Workspace that is being deleted\<close>

definition delete_named :: "api_fn \<Rightarrow> (trace \<Rightarrow> api_error + 'o) \<Rightarrow> ('o \<Rightarrow> api_write) \<Rightarrow> unit step" where
  "delete_named api get del =
     and_then (ask get) (\<lambda>r.
       case r of
         Inr obj \<Rightarrow>
           and_then (send api (del obj)) (\<lambda>e.
             case e of None \<Rightarrow> proceed () | Some (NotFound _) \<Rightarrow> proceed () | Some err \<Rightarrow> fail_api err)
       | Inl (NotFound _) \<Rightarrow> proceed ()
       | Inl err \<Rightarrow> fail_api err)"

definition ws_finalizers :: "Workspace \<Rightarrow> string list" where
  "ws_finalizers w = om_Finalizers (ws_Meta w)"

definition set_ws_finalizers :: "string list \<Rightarrow> Workspace \<Rightarrow> Workspace" where
  "set_ws_finalizers fs w = w\<lparr>ws_Meta := (ws_Meta w)\<lparr>om_Finalizers := fs\<rparr>\<rparr>"

definition cleanup :: "rec_env \<Rightarrow> Workspace \<Rightarrow> unit step" where
  "cleanup env w =
     (if WorkspaceFinalizer \<in> set (ws_finalizers w) then
        and_then (delete_named (re_Api env)
                    (\<lambda>t. re_GetClusterRoleBinding env t (clusterRoleBindingName (ws_Namespace w) (ws_Name w)))
                    DeleteClusterRoleBinding) (\<lambda>_.
        and_then (delete_named (re_Api env)
                    (\<lambda>t. re_GetHTTPRoute env t (cfg_ControllerNamespace (re_Config env))
                            (httpRouteName (ws_Namespace w) (ws_Name w)))
                    DeleteHTTPRoute) (\<lambda>_.
        and_then (update_object (re_Api env) True UpdateWorkspace (re_RespWorkspace env)
                    (set_ws_finalizers (filter (\<lambda>f. f \<noteq> WorkspaceFinalizer) (ws_finalizers w)) w)) (\<lambda>_.
        proceed ())))
      else proceed ())"

section \<open>The WorkspaceKind and the options\<close>

definition fetch_kind :: "rec_env \<Rightarrow> Workspace \<Rightarrow> WorkspaceKind step" where
  "fetch_kind env w =
     and_then (ask (\<lambda>t. re_GetKind env t (spec_Kind (ws_Spec w)))) (\<lambda>r.
       case r of
         Inr k \<Rightarrow> proceed k
       | Inl (NotFound _) \<Rightarrow> updateWorkspaceState env w WorkspaceStateError
                              (stateMsgErrorUnknownWorkspaceKind @ spec_Kind (ws_Spec w))
       | Inl err \<Rightarrow> fail_api err)"

definition add_kind_finalizer :: "WorkspaceKind \<Rightarrow> WorkspaceKind" where
  "add_kind_finalizer k =
     k\<lparr>wk_Meta := (wk_Meta k)\<lparr>om_Finalizers := om_Finalizers (wk_Meta k) @ [WorkspaceKindFinalizer]\<rparr>\<rparr>"

definition protect_kind :: "rec_env \<Rightarrow> WorkspaceKind \<Rightarrow> WorkspaceKind step" where
  "protect_kind env k =
     (if om_DeletionTimestamp (wk_Meta k) = None \<and> WorkspaceKindFinalizer \<notin> set (om_Finalizers (wk_Meta k))
      then update_object (re_Api env) False UpdateKindMeta (re_RespKind env) (add_kind_finalizer k)
      else proceed k)"

definition set_option_info ::
  "(WorkspacePodOptionInfo \<Rightarrow> WorkspacePodOptionsStatus \<Rightarrow> WorkspacePodOptionsStatus) \<Rightarrow> string \<Rightarrow>
     string option \<Rightarrow> WorkspacePodOptionRedirectStep list \<Rightarrow> Workspace \<Rightarrow> Workspace"
where
  "set_option_info put current desired redirectChain w =
     (let st = ws_Status w;
          info = (case desired of
                    Some d \<Rightarrow> \<lparr>oi_Desired = d, oi_RedirectChain = redirectChain\<rparr>
                  | None \<Rightarrow> \<lparr>oi_Desired = current, oi_RedirectChain = []\<rparr>)
      in w\<lparr>ws_Status := st\<lparr>st_PendingRestart := (st_PendingRestart st \<or> desired \<noteq> None),
                          st_PodTemplateOptions := put info (st_PodTemplateOptions st)\<rparr>\<rparr>)"

definition resolve_options ::
  "rec_env \<Rightarrow> Workspace \<Rightarrow> WorkspaceKind \<Rightarrow> (Workspace \<times> ImageConfigValue \<times> PodConfigValue) step"
where
  "resolve_options env w k =
     (let w = w\<lparr>ws_Status := (ws_Status w)\<lparr>st_PendingRestart := False\<rparr>\<rparr> in
      case getImageConfig w k of
        Inl err \<Rightarrow> updateWorkspaceState env w WorkspaceStateError
                     (stateMsgErrorInvalidImageConfig @ redirect_error_text ''imageConfig'' err)
      | Inr (img, dimg, ichain) \<Rightarrow>
          (let w = set_option_info (\<lambda>i s. s\<lparr>os_ImageConfig := i\<rparr>) (ic_Id img) (map_option ic_Id dimg) ichain w in
           case getPodConfig w k of
             Inl err \<Rightarrow> updateWorkspaceState env w WorkspaceStateError
                          (stateMsgErrorInvalidPodConfig @ redirect_error_text ''podConfig'' err)
           | Inr (pc, dpc, pchain) \<Rightarrow>
               proceed (set_option_info (\<lambda>i s. s\<lparr>os_PodConfig := i\<rparr>) (pc_Id pc) (map_option pc_Id dpc) pchain w,
                        img, pc)))"

section \<open>ServiceAccount\<close>

text \<open>\<open>metav1.IsControlledBy\<close>\<close>

definition IsControlledBy :: "ObjectMeta \<Rightarrow> ObjectMeta \<Rightarrow> bool" where
  "IsControlledBy obj owner =
     (case List.find or_Controller (om_OwnerReferences obj) of
        None \<Rightarrow> False | Some r \<Rightarrow> or_UID r = om_UID owner)"

definition names_list :: "('o \<Rightarrow> ObjectMeta) \<Rightarrow> 'o list \<Rightarrow> string" where
  "names_list meta objs = join '', '' (map (\<lambda>x. om_Name (meta x)) objs)"

definition create_service_account :: "rec_env \<Rightarrow> Workspace \<Rightarrow> ServiceAccount \<Rightarrow> string step" where
  "create_service_account env w sa =
     (let name = om_Name (sacc_Meta sa) in
      and_then (send (re_Api env) (CreateServiceAccount sa)) (\<lambda>r.
        case r of
          None \<Rightarrow> proceed name
        | Some (AlreadyExists _) \<Rightarrow>
            and_then (ask (\<lambda>t. re_GetServiceAccount env t name)) (\<lambda>g.
              case g of
                Inl (NotFound _) \<Rightarrow> stop (Inr (requeue_after requeueAfterStaleCache))
              | Inl err \<Rightarrow> fail_api err
              | Inr existing \<Rightarrow>
                  if \<not> IsControlledBy (sacc_Meta existing) (ws_Meta w)
                  then updateWorkspaceState env w WorkspaceStateError
                         (stateMsgErrorServiceAccountNotOwned (om_Name (sacc_Meta existing)))
                  else stop (Inr (requeue_after requeueAfterStaleCache)))
        | Some err \<Rightarrow> fail_api err))"

definition reconcile_service_account :: "rec_env \<Rightarrow> Workspace \<Rightarrow> string step" where
  "reconcile_service_account env w =
     and_then (set_owner env w (sacc_Meta (generateServiceAccount (re_Sha env) w))) (\<lambda>meta.
     (let sa = (generateServiceAccount (re_Sha env) w)\<lparr>sacc_Meta := meta\<rparr> in
      and_then (fetch (re_ListServiceAccounts env)) (\<lambda>owned.
        case owned of
          [] \<Rightarrow> create_service_account env w sa
        | [found] \<Rightarrow>
            (let name = om_Name (sacc_Meta found); (found', requireUpdate) = CopyServiceAccountFields (re_Range env) sa found in
             if requireUpdate
             then and_then (update_object (re_Api env) False UpdateServiceAccount (\<lambda>t s. s) found') (\<lambda>_. proceed name)
             else proceed name)
        | _ \<Rightarrow> updateWorkspaceState env w WorkspaceStateError
                 (stateMsgErrorMultipleServiceAccounts @ names_list sacc_Meta owned))))"

section \<open>Objects found by their owner\<close>

text \<open>
  The switch the StatefulSet, the Service and the VirtualService go through: several owned objects are
  an error state, none is a creation, one is updated when it has to be.
\<close>

definition reconcile_owned ::
  "rec_env \<Rightarrow> Workspace \<Rightarrow> bool \<Rightarrow> string \<Rightarrow> ('o \<Rightarrow> ObjectMeta) \<Rightarrow> ('o \<Rightarrow> api_write) \<Rightarrow> ('o \<Rightarrow> api_write) \<Rightarrow>
     (trace \<Rightarrow> 'o \<Rightarrow> 'o) \<Rightarrow> ('o \<Rightarrow> 'o \<Rightarrow> 'o \<times> bool) \<Rightarrow> 'o list \<Rightarrow> 'o \<Rightarrow> 'o step"
where
  "reconcile_owned env w requeueOnConflict msg meta crt upd resp copy owned desired =
     (case owned of
        [] \<Rightarrow> create_object (re_Api env) False crt resp desired
      | [found] \<Rightarrow>
          (let (found', requireUpdate) = copy desired found in
           if requireUpdate then update_object (re_Api env) requeueOnConflict upd resp found' else proceed found')
      | _ \<Rightarrow> updateWorkspaceState env w WorkspaceStateError (msg @ names_list meta owned))"

definition reconcileOwnedStatefulSet :: "rec_env \<Rightarrow> Workspace \<Rightarrow> StatefulSet \<Rightarrow> StatefulSet step" where
  "reconcileOwnedStatefulSet env w desired =
     and_then (fetch (re_ListStatefulSets env)) (\<lambda>owned.
       reconcile_owned env w True stateMsgErrorMultipleStatefulSets sts_Meta CreateStatefulSet UpdateStatefulSet
         (re_RespStatefulSet env) CopyStatefulSetFields owned desired)"

definition build_statefulset ::
  "rec_env \<Rightarrow> Workspace \<Rightarrow> WorkspaceKind \<Rightarrow> ImageConfigValue \<Rightarrow> PodConfigValue \<Rightarrow> string \<Rightarrow> StatefulSet step"
where
  "build_statefulset env w k img pc sa =
     and_then (generated env w stateMsgErrorGenFailureStatefulSet
                 (generateStatefulSet (re_Lib env) w k (ic_Spec img) (pc_Spec pc) sa)) (\<lambda>sts.
     and_then (set_owner env w (sts_Meta sts)) (\<lambda>meta.
     (let sts = sts\<lparr>sts_Meta := meta\<rparr> in
      if \<not> cfg_UseKubeGateway (re_Config env) then reconcileOwnedStatefulSet env w sts else proceed sts)))"

definition is_proxy_service :: "Service \<Rightarrow> bool" where
  "is_proxy_service svc \<longleftrightarrow> fmlookup (om_Labels (svc_Meta svc)) ''app.kubernetes.io/component'' = Some ''kube-rbac-proxy''"

definition reconcile_service :: "rec_env \<Rightarrow> Workspace \<Rightarrow> ImageConfigValue \<Rightarrow> Service step" where
  "reconcile_service env w img =
     and_then (generated env w stateMsgErrorGenFailureService (generateService w (ic_Spec img))) (\<lambda>svc.
     and_then (set_owner env w (svc_Meta svc)) (\<lambda>meta.
     and_then (fetch (re_ListServices env)) (\<lambda>owned.
       reconcile_owned env w False stateMsgErrorMultipleServices svc_Meta CreateService UpdateService
         (re_RespService env) (CopyServiceFields (re_Range env)) (filter (\<lambda>s. \<not> is_proxy_service s) owned)
         (svc\<lparr>svc_Meta := meta\<rparr>))))"

section \<open>The kube-rbac-proxy sidecar\<close>

definition findOwnedStatefulSet :: "rec_env \<Rightarrow> (StatefulSet option \<times> nat) step" where
  "findOwnedStatefulSet env =
     and_then (fetch (re_ListStatefulSets env)) (\<lambda>owned.
       proceed (case owned of [existing] \<Rightarrow> (Some existing, 1) | _ \<Rightarrow> (None, length owned)))"

definition add_sidecar :: "Container option \<times> Volume list \<Rightarrow> StatefulSet \<Rightarrow> StatefulSet" where
  "add_sidecar s sts =
     (case s of
        (None, _) \<Rightarrow> sts
      | (Some c, vols) \<Rightarrow>
          sts\<lparr>sts_Template := (sts_Template sts)\<lparr>pt_Containers := pt_Containers (sts_Template sts) @ [c],
                                               pt_Volumes := pt_Volumes (sts_Template sts) @ vols\<rparr>\<rparr>)"

text \<open>The StatefulSet to write, whether to write it, and the error of the TLS profile.\<close>

definition prepare_template ::
  "rec_env \<Rightarrow> Workspace \<Rightarrow> WorkspaceKind \<Rightarrow> ImageConfigValue \<Rightarrow> StatefulSet \<Rightarrow> (StatefulSet \<times> bool \<times> string option) step"
where
  "prepare_template env w k img sts =
     (if cfg_UseKubeGateway (re_Config env) \<and> kubeRBACProxySidecarNeeded k (ic_Spec img) then
        and_then (ask (\<lambda>t. ResolveProxyTLS (re_Suites env) (re_GetAPIServer env t) (re_FIPS env))) (\<lambda>r.
          case r of
            Inl tlsErr \<Rightarrow>
              and_then (findOwnedStatefulSet env) (\<lambda>(existing, count).
                proceed (case existing of
                           Some ex \<Rightarrow> (sts\<lparr>sts_Template := sts_Template ex\<rparr>, True, Some (tls_error_text tlsErr))
                         | None \<Rightarrow> (sts, count \<noteq> 0, Some (tls_error_text tlsErr))))
          | Inr proxyTLS \<Rightarrow>
              proceed (add_sidecar (generateKubeRBACProxySidecar (re_Config env) w k (ic_Spec img) (Args proxyTLS)) sts,
                       True, None))
      else proceed (sts, True, None))"

definition write_statefulset ::
  "rec_env \<Rightarrow> Workspace \<Rightarrow> WorkspaceKind \<Rightarrow> ImageConfigValue \<Rightarrow> StatefulSet \<Rightarrow> (StatefulSet \<times> string option) step"
where
  "write_statefulset env w k img sts =
     and_then (prepare_template env w k img sts) (\<lambda>(sts, writeStatefulSet, proxyTLSErr).
       if writeStatefulSet
       then and_then (reconcileOwnedStatefulSet env w sts) (\<lambda>sts'. proceed (sts', proxyTLSErr))
       else proceed (sts, proxyTLSErr))"

section \<open>Routes\<close>

definition reconcile_virtual_service :: "rec_env \<Rightarrow> Workspace \<Rightarrow> WorkspaceKind \<Rightarrow> ImageConfigValue \<Rightarrow> Service \<Rightarrow> unit step" where
  "reconcile_virtual_service env w k img svc =
     and_then (generated env w stateMsgErrorGenFailureVirtualService
                 (generateVirtualService (re_Lib env) (re_Range env) (re_Config env) w k svc (ic_Spec img))) (\<lambda>vs.
       case re_SetRef env w (vsv_Meta vs) of
         Inl err \<Rightarrow> updateWorkspaceState env w WorkspaceStateError
                      (stateMsgErrorSetControllerReference ''VirtualService'' err)
       | Inr meta \<Rightarrow>
           and_then (fetch (re_ListVirtualServices env)) (\<lambda>owned.
           and_then (reconcile_owned env w False stateMsgErrorMultipleVirtualServices vsv_Meta CreateVirtualService
                       UpdateVirtualService (\<lambda>t v. v) (CopyVirtualServiceFields (re_Range env)) owned
                       (vs\<lparr>vsv_Meta := meta\<rparr>)) (\<lambda>_. proceed ())))"

text \<open>
  The objects of the Gateway mode have fixed names: they are fetched by name, created when missing and
  brought in line otherwise.
\<close>

definition reconcile_named ::
  "api_fn \<Rightarrow> bool \<Rightarrow> bool \<Rightarrow> (trace \<Rightarrow> api_error + 'o) \<Rightarrow> ('o \<Rightarrow> api_write) \<Rightarrow> ('o \<Rightarrow> api_write) \<Rightarrow>
     ('o \<Rightarrow> 'o \<Rightarrow> 'o \<times> bool) \<Rightarrow> 'o \<Rightarrow> unit step"
where
  "reconcile_named api existsOk requeueOnConflict get crt upd copy desired =
     and_then (ask get) (\<lambda>r.
       case r of
         Inl (NotFound _) \<Rightarrow> and_then (create_object api existsOk crt (\<lambda>t x. x) desired) (\<lambda>_. proceed ())
       | Inl err \<Rightarrow> fail_api err
       | Inr found \<Rightarrow>
           (let (found', requireUpdate) = copy desired found in
            if requireUpdate
            then and_then (update_object api requeueOnConflict upd (\<lambda>t x. x) found') (\<lambda>_. proceed ())
            else proceed ()))"

definition ensure_workspace_finalizer :: "rec_env \<Rightarrow> Workspace \<Rightarrow> Workspace step" where
  "ensure_workspace_finalizer env w =
     (if WorkspaceFinalizer \<notin> set (ws_finalizers w)
      then update_object (re_Api env) True UpdateWorkspace (re_RespWorkspace env)
             (set_ws_finalizers (ws_finalizers w @ [WorkspaceFinalizer]) w)
      else proceed w)"

definition copy_cluster_role_binding :: "ClusterRoleBinding \<Rightarrow> ClusterRoleBinding \<Rightarrow> ClusterRoleBinding \<times> bool" where
  "copy_cluster_role_binding desired found =
     (if crb_Subjects found \<noteq> crb_Subjects desired \<or> crb_RoleRef found \<noteq> crb_RoleRef desired
      then (found\<lparr>crb_Subjects := crb_Subjects desired, crb_RoleRef := crb_RoleRef desired\<rparr>, True)
      else (found, False))"

definition reconcile_proxy_config_map :: "rec_env \<Rightarrow> Workspace \<Rightarrow> unit step" where
  "reconcile_proxy_config_map env w =
     (let cm = generateKubeRBACProxyConfigMap w in
      and_then (set_owner env w (cm_Meta cm)) (\<lambda>meta.
        reconcile_named (re_Api env) True False (\<lambda>t. re_GetConfigMap env t (om_Name (cm_Meta cm)))
          CreateConfigMap UpdateConfigMap (CopyConfigMapFields (re_Range env)) (cm\<lparr>cm_Meta := meta\<rparr>)))"

text \<open>The Service of the sidecar is only created, after its owner was set a second time.\<close>

definition reconcile_proxy_service :: "rec_env \<Rightarrow> Workspace \<Rightarrow> Service step" where
  "reconcile_proxy_service env w =
     (let svc = generateKubeRBACProxyService w in
      and_then (set_owner env w (svc_Meta svc)) (\<lambda>meta.
      and_then (ask (\<lambda>t. re_GetService env t (om_Name (svc_Meta svc)))) (\<lambda>r.
        case r of
          Inl (NotFound _) \<Rightarrow>
            and_then (set_owner env w meta) (\<lambda>meta'.
              create_object (re_Api env) True CreateService (re_RespService env) (svc\<lparr>svc_Meta := meta'\<rparr>))
        | Inl err \<Rightarrow> fail_api err
        | Inr _ \<Rightarrow> proceed (svc\<lparr>svc_Meta := meta\<rparr>))))"

definition reconcile_reference_grant :: "rec_env \<Rightarrow> Workspace \<Rightarrow> Service \<Rightarrow> unit step" where
  "reconcile_reference_grant env w svc =
     (let rg = generateKubeGatewayReferenceGrant (re_Config env) w svc in
      and_then (set_owner env w (rg_Meta rg)) (\<lambda>meta.
        reconcile_named (re_Api env) True True
          (\<lambda>t. re_GetReferenceGrant env t (''ws-'' @ ws_Name w @ ''-kube-gateway-reference-grant''))
          CreateReferenceGrant UpdateReferenceGrant (CopyReferenceGrantFields (re_Range env)) (rg\<lparr>rg_Meta := meta\<rparr>)))"

definition reconcile_http_route :: "rec_env \<Rightarrow> Workspace \<Rightarrow> WorkspaceKind \<Rightarrow> ImageConfigValue \<Rightarrow> Service \<Rightarrow> unit step" where
  "reconcile_http_route env w k img svc =
     (case generateGatewayV1HTTPRoute (re_Config env) w k svc (ic_Spec img) of
        None \<Rightarrow> updateWorkspaceState env w WorkspaceStateError ''no HTTP port found for Gateway API routing''
      | Some route \<Rightarrow>
          reconcile_named (re_Api env) False True
            (\<lambda>t. re_GetHTTPRoute env t (om_Namespace (hr_Meta route)) (om_Name (hr_Meta route)))
            CreateHTTPRoute UpdateHTTPRoute (CopyHTTPRouteFields (re_Range env)) route)"

text \<open>The Gateway mode goes on with the Workspace its finalizer update returned.\<close>

definition reconcile_gateway ::
  "rec_env \<Rightarrow> Workspace \<Rightarrow> WorkspaceKind \<Rightarrow> ImageConfigValue \<Rightarrow> string \<Rightarrow> Workspace step"
where
  "reconcile_gateway env w k img sa =
     (let crb = generateKubeRBACProxyClusterRoleBinding w sa in
      and_then (ensure_workspace_finalizer env w) (\<lambda>w.
      and_then (reconcile_named (re_Api env) True False
                  (\<lambda>t. re_GetClusterRoleBinding env t (om_Name (crb_Meta crb)))
                  CreateClusterRoleBinding UpdateClusterRoleBinding copy_cluster_role_binding crb) (\<lambda>_.
      and_then (reconcile_proxy_config_map env w) (\<lambda>_.
      and_then (reconcile_proxy_service env w) (\<lambda>svc.
      and_then (reconcile_reference_grant env w svc) (\<lambda>_.
      and_then (reconcile_http_route env w k img svc) (\<lambda>_.
      proceed w)))))))"

definition reconcile_routes ::
  "rec_env \<Rightarrow> Workspace \<Rightarrow> WorkspaceKind \<Rightarrow> ImageConfigValue \<Rightarrow> Service \<Rightarrow> string \<Rightarrow> Workspace step"
where
  "reconcile_routes env w k img svc sa =
     (if cfg_UseIstio (re_Config env)
      then and_then (reconcile_virtual_service env w k img svc) (\<lambda>_. proceed w)
      else if cfg_UseKubeGateway (re_Config env) then reconcile_gateway env w k img sa
      else proceed w)"

section \<open>RoleBindings and Pod\<close>

definition rb_outcome :: "rb_error \<Rightarrow> reconcile_error" where
  "rb_outcome e = (case e of RefError m \<Rightarrow> OwnerRefError m | RBApiError err \<Rightarrow> ApiError err)"

definition role_bindings_step :: "rec_env \<Rightarrow> Workspace \<Rightarrow> WorkspaceKind \<Rightarrow> string \<Rightarrow> unit step" where
  "role_bindings_step env w k sa t =
     (case reconcileRoleBindings (re_Sha env) (re_Keys env) (re_SetRef env w)
             (\<lambda>opn. re_Api env t (RoleBindingWrite opn)) (re_ListRoleBindings env t) w k sa of
        (err, ops) \<Rightarrow>
          ((case err of None \<Rightarrow> Inr () | Some e \<Rightarrow> Inl (Inl (rb_outcome e))),
           t @ map (\<lambda>opn. (RoleBindingWrite opn, re_Api env t (RoleBindingWrite opn))) ops))"

definition fetch_pod :: "rec_env \<Rightarrow> StatefulSet \<Rightarrow> Pod option step" where
  "fetch_pod env sts =
     and_then (ask (\<lambda>t. re_GetPod env t (om_Name (sts_Meta sts) @ ''-0''))) (\<lambda>r.
       case r of Inr pod \<Rightarrow> proceed (Some pod) | Inl (NotFound _) \<Rightarrow> proceed None | Inl err \<Rightarrow> fail_api err)"

section \<open>The whole pass\<close>

record prepared =
  pr_Workspace :: Workspace
  pr_Kind :: WorkspaceKind
  pr_Image :: ImageConfigValue
  pr_PodConfig :: PodConfigValue
  pr_Pod :: "Pod option"
  pr_StatefulSet :: StatefulSet
  pr_ServiceAccount :: string
  pr_TLSError :: "string option"

text \<open>The objects of a Workspace whose kind is protected and whose options are resolved.\<close>

definition reconcile_objects ::
  "rec_env \<Rightarrow> WorkspaceKind \<Rightarrow> Workspace \<times> ImageConfigValue \<times> PodConfigValue \<Rightarrow> prepared step"
where
  "reconcile_objects env k opts =
     (case opts of (w, img, pc) \<Rightarrow>
        and_then (reconcile_service_account env w) (\<lambda>sa.
        and_then (build_statefulset env w k img pc sa) (\<lambda>sts.
        and_then (reconcile_service env w img) (\<lambda>svc.
        and_then (write_statefulset env w k img sts) (\<lambda>(sts, tlsErr).
        and_then (reconcile_routes env w k img svc sa) (\<lambda>w.
        and_then (role_bindings_step env w k sa) (\<lambda>_.
        and_then (fetch_pod env sts) (\<lambda>pod.
        proceed \<lparr>pr_Workspace = w, pr_Kind = k, pr_Image = img, pr_PodConfig = pc, pr_Pod = pod,
                 pr_StatefulSet = sts, pr_ServiceAccount = sa, pr_TLSError = tlsErr\<rparr>))))))))"

definition prepare :: "rec_env \<Rightarrow> Workspace \<Rightarrow> prepared step" where
  "prepare env w =
     and_then (fetch_kind env w) (\<lambda>k.
     and_then (protect_kind env k) (\<lambda>k.
     and_then (resolve_options env w k) (reconcile_objects env k)))"

definition ws_write_answer :: "finish_env \<Rightarrow> ws_write \<Rightarrow> api_error option" where
  "ws_write_answer fe wr = (case wr of UpdateStatus s \<Rightarrow> fe_StatusUpdate fe s | PatchPaused \<Rightarrow> fe_Patch fe)"

definition Reconcile :: "rec_env \<Rightarrow> selector_cache \<Rightarrow> outcome \<times> trace \<times> selector_cache" where
  "Reconcile env c =
     (case re_GetWorkspace env of
        Inl (NotFound _) \<Rightarrow> (Inr no_requeue, [], c)
      | Inl err \<Rightarrow> (Inl (ApiError err), [], c)
      | Inr w \<Rightarrow>
          if om_DeletionTimestamp (ws_Meta w) \<noteq> None
          then (case cleanup env w [] of
                  (Inl out, t) \<Rightarrow> (out, t, c)
                | (Inr _, t) \<Rightarrow> (Inr no_requeue, t, c))
          else (case prepare env w [] of
                  (Inl out, t) \<Rightarrow> (out, t, c)
                | (Inr p, t) \<Rightarrow>
                    (let fe = re_Finish env t in
                     case finish_reconcile fe c w (pr_Workspace p) (pr_Kind p) (pr_Image p) (pr_PodConfig p) (pr_Pod p)
                            (sts_Meta (pr_StatefulSet p)) (pr_ServiceAccount p) (pr_TLSError p) of
                       (out, writes, c') \<Rightarrow>
                         (out, t @ map (\<lambda>wr. (WorkspaceWrite wr, ws_write_answer fe wr)) writes, c'))))"

end
