(* ===== verification/Kind_Webhook_Correct.thy ===== *)
theory Kind_Webhook_Correct
  imports Kind_Webhook Sample_Objects
begin

text \<open>
  What the WorkspaceKind webhook guarantees: the meaning of its checks on options and
  scripts, that an update accepted by the incremental checks leaves a WorkspaceKind the
  create checks accept, and that options in use keep their definition.
\<close>

section \<open>Shebang lines\<close>

lemma dropWhile_not_blank:
  assumes "dropWhile (\<lambda>c. \<not> blank c) xs \<noteq> []"
  shows "blank (hd (dropWhile (\<lambda>c. \<not> blank c) xs))"
  using hd_dropWhile [OF assms] by simp

lemma shebang_regex:
  "shebang_matches line \<longleftrightarrow>
     (\<exists>bs interp rest. line = ''#!'' @ bs @ interp @ rest \<and> (\<forall>c \<in> set bs. blank c) \<and>
        interp \<noteq> [] \<and> (\<forall>c \<in> set interp. \<not> blank c) \<and>
        (rest = [] \<or> (\<exists>sp arg. rest = sp @ arg \<and> sp \<noteq> [] \<and> (\<forall>c \<in> set sp. blank c) \<and> arg \<noteq> [])))"
    (is "_ = ?regex")
proof
  assume m: "shebang_matches line"
  define body where "body = drop 2 line"
  define rest where "rest = dropWhile blank body"
  define interp where "interp = takeWhile (\<lambda>c. \<not> blank c) rest"
  define tail where "tail = dropWhile (\<lambda>c. \<not> blank c) rest"
  have "take 2 line = ''#!''"
    using m by (simp add: shebang_matches_def has_prefix_def numeral_2_eq_2)
  then have "line = ''#!'' @ body"
    using append_take_drop_id [of 2 line] by (simp add: body_def)
  then have line: "line = ''#!'' @ takeWhile blank body @ interp @ tail"
    by (simp add: interp_def tail_def rest_def)
  have "rest \<noteq> []" and tail: "tail = [] \<or> 2 \<le> length tail"
    using m by (auto simp: shebang_matches_def Let_def body_def rest_def tail_def)
  then have "\<not> blank (hd rest)" unfolding rest_def by (intro hd_dropWhile) auto
  with \<open>rest \<noteq> []\<close> have "interp \<noteq> []" by (cases rest) (auto simp: interp_def)
  moreover have "tail = [] \<or> (\<exists>sp arg. tail = sp @ arg \<and> sp \<noteq> [] \<and> (\<forall>c \<in> set sp. blank c) \<and> arg \<noteq> [])"
  proof (cases tail)
    case (Cons c cs)
    then have "blank c" using dropWhile_not_blank [of rest] by (simp add: tail_def)
    moreover from Cons tail have "cs \<noteq> []" by auto
    ultimately show ?thesis using Cons by (intro disjI2 exI [of _ "[c]"] exI [of _ cs]) simp
  qed simp
  ultimately show ?regex
    using line by (intro exI [of _ "takeWhile blank body"] exI [of _ interp] exI [of _ tail])
      (auto simp: interp_def dest: set_takeWhileD)
next
  assume ?regex
  then obtain bs interp rest where eq: "line = ''#!'' @ bs @ interp @ rest"
    and bs: "\<forall>c \<in> set bs. blank c" and ine: "interp \<noteq> []" and inb: "\<forall>c \<in> set interp. \<not> blank c"
    and rest: "rest = [] \<or> (\<exists>sp arg. rest = sp @ arg \<and> sp \<noteq> [] \<and> (\<forall>c \<in> set sp. blank c) \<and> arg \<noteq> [])"
    by blast
  from ine inb obtain i cs where i: "interp = i # cs" "\<not> blank i" by (cases interp) auto
  have body: "dropWhile blank (drop 2 line) = interp @ rest"
    using bs i by (simp add: eq dropWhile_append2)
  have "dropWhile (\<lambda>c. \<not> blank c) (interp @ rest) = rest"
    using inb rest by (subst dropWhile_append2) (auto simp: neq_Nil_conv)
  moreover from rest have "rest = [] \<or> 2 \<le> length rest"
    by (auto simp: neq_Nil_conv)
  moreover have "has_prefix line ''#!''" by (simp add: has_prefix_def eq)
  ultimately show "shebang_matches line"
    using ine unfolding shebang_matches_def body Let_def by (metis append_is_Nil_conv)
qed

section \<open>Image config values\<close>

lemma validate_ports_Nil_iff:
  "validate_ports path pm seen ports = [] \<longleftrightarrow>
     distinct (map ip_Port ports) \<and> set (map ip_Port ports) \<inter> seen = {} \<and>
     (\<forall>p \<in> set ports. pm (ip_Id p) \<noteq> None)"
  by (induction ports arbitrary: seen) auto

lemma validateImageConfigValue_Nil_iff:
  "validateImageConfigValue v path pm = [] \<longleftrightarrow>
     distinct (map ip_Port (ics_Ports (ic_Spec v))) \<and>
     (\<forall>p \<in> set (ics_Ports (ic_Spec v)). pm (ip_Id p) \<noteq> None)"
  by (simp add: validateImageConfigValue_def validate_ports_Nil_iff)

lemma validate_image_values_Nil_iff:
  "validate_image_values k pm ids = [] \<longleftrightarrow>
     (\<forall>i \<in> set ids. \<forall>v. map_by ic_Id (wk_ImageConfigValues k) i = Some v \<longrightarrow>
        distinct (map ip_Port (ics_Ports (ic_Spec v))) \<and>
        (\<forall>p \<in> set (ics_Ports (ic_Spec v)). pm (ip_Id p) \<noteq> None))"
  by (auto simp: validate_image_values_def validateImageConfigValue_Nil_iff split: option.splits)

section \<open>Redirects\<close>

lemma finite_redirect_map: "finite (dom (redirect_map idf redf vals))"
  by (simp add: redirect_map_def finite_dom_map_of)

lemma enumerates_map_entries:
  assumes "key_order kord"
  shows "enumerates (map_entries kord (redirect_map idf redf vals)) (redirect_map idf redf vals)"
  using assms by (simp add: enumerates_def map_of_map_entries distinct_map_entries finite_redirect_map)

lemma image_redirect_errors_Nil_iff:
  assumes "key_order kord"
  shows "image_redirect_errors kord k = [] \<longleftrightarrow>
    redirects_ok (ic_Id ` set (wk_ImageConfigValues k)) (image_redirects k)"
  using validate_redirects_correct [OF enumerates_map_entries [OF assms]]
  by (simp add: image_redirect_errors_def validateImageConfigRedirects_def)

lemma pod_redirect_errors_Nil_iff:
  assumes "key_order kord"
  shows "pod_redirect_errors kord k = [] \<longleftrightarrow>
    redirects_ok (pc_Id ` set (wk_PodConfigValues k)) (pod_redirects k)"
  using validate_redirects_correct [OF enumerates_map_entries [OF assms]]
  by (simp add: pod_redirect_errors_def validatePodConfigRedirects_def)

section \<open>The change loops\<close>

lemma new_values_loop_Inr:
  assumes "new_values_loop opt idf redf specf usage oldMap validateAll vs (r, tv, bc) = Inr (r', tv', bc')"
  shows "(r' \<longleftrightarrow> r \<or> (\<exists>v \<in> set vs. case oldMap (idf v) of None \<Rightarrow> True | Some old \<Rightarrow> redf old \<noteq> redf v)) \<and>
    tv' = tv \<union> {idf v |v. v \<in> set vs \<and> (validateAll \<or>
       (case oldMap (idf v) of None \<Rightarrow> True | Some old \<Rightarrow> specf old \<noteq> specf v))} \<and>
    bc' = bc \<union> {idf v |v. v \<in> set vs \<and> (\<exists>old n. oldMap (idf v) = Some old \<and> specf old \<noteq> specf v \<and>
       usage (idf v) = Inr n \<and> n > 0)} \<and>
    (\<forall>v \<in> set vs. \<forall>old. oldMap (idf v) = Some old \<and> specf old \<noteq> specf v \<longrightarrow> (\<exists>n. usage (idf v) = Inr n))"
  using assms
proof (induction vs arbitrary: r tv bc)
  case Nil
  then show ?case by simp
next
  case (Cons v vs)
  show ?case
  proof (cases "oldMap (idf v)")
    case None
    with Cons.prems Cons.IH show ?thesis by (fastforce simp: Let_def split: if_splits)
  next
    case (Some old)
    show ?thesis
    proof (cases "specf old = specf v")
      case True
      with Some Cons.prems Cons.IH show ?thesis by (fastforce simp: Let_def split: if_splits)
    next
      case False
      with Some Cons.prems obtain n where "usage (idf v) = Inr n"
        by (auto simp: Let_def split: sum.splits)
      with Some False Cons.prems Cons.IH show ?thesis by (fastforce simp: Let_def split: if_splits)
    qed
  qed
qed

lemma removed_values_loop_Inr:
  assumes "removed_values_loop opt usage newIds is (r, br) = Inr (r', br')"
  shows "(r' \<longleftrightarrow> r \<or> \<not> set is \<subseteq> newIds) \<and>
    br' = br \<union> {i \<in> set is. i \<notin> newIds \<and> (\<exists>n. usage i = Inr n \<and> n > 0)} \<and>
    (\<forall>i \<in> set is - newIds. \<exists>n. usage i = Inr n)"
  using assms
proof (induction "is" arbitrary: r br)
  case Nil
  then show ?case by simp
next
  case (Cons i "is")
  show ?case
  proof (cases "i \<in> newIds")
    case True
    with Cons show ?thesis by auto
  next
    case False
    with Cons.prems obtain n where "usage i = Inr n" by (auto split: sum.splits)
    with False Cons.prems Cons.IH show ?thesis by (fastforce split: if_splits)
  qed
qed

text \<open>The two loops together, for option values with distinct ids.\<close>

lemma option_changes_Inr:
  assumes ch: "option_changes opt idf redf specf usage kord validateAll oldVals newVals
      = Inr (redirs, toValidate, badChanged, badRemoved)"
    and ord: "key_order kord"
  shows "(redirs \<longleftrightarrow> (\<exists>v \<in> set newVals. case map_by idf oldVals (idf v) of
        None \<Rightarrow> True | Some old \<Rightarrow> redf old \<noteq> redf v) \<or> \<not> idf ` set oldVals \<subseteq> idf ` set newVals)"
    and "toValidate = {idf v |v. v \<in> set newVals \<and> (validateAll \<or>
        (case map_by idf oldVals (idf v) of None \<Rightarrow> True | Some old \<Rightarrow> specf old \<noteq> specf v))}"
    and "badChanged = {idf v |v. v \<in> set newVals \<and> (\<exists>old n. map_by idf oldVals (idf v) = Some old \<and>
        specf old \<noteq> specf v \<and> usage (idf v) = Inr n \<and> n > 0)}"
    and "badRemoved = {i \<in> idf ` set oldVals. i \<notin> idf ` set newVals \<and> (\<exists>n. usage i = Inr n \<and> n > 0)}"
    and "\<forall>v \<in> set newVals. \<forall>old. map_by idf oldVals (idf v) = Some old \<and> specf old \<noteq> specf v
        \<longrightarrow> (\<exists>n. usage (idf v) = Inr n)"
    and "\<forall>i \<in> idf ` set oldVals - idf ` set newVals. \<exists>n. usage i = Inr n"
proof -
  from ch obtain r where
    l1: "new_values_loop opt idf redf specf usage (map_by idf oldVals) validateAll newVals (False, {}, {})
      = Inr (r, toValidate, badChanged)"
    and l2: "removed_values_loop opt usage (idf ` set newVals) (kord (idf ` set oldVals)) (r, {})
      = Inr (redirs, badRemoved)"
    by (auto simp: option_changes_def split: sum.splits prod.splits)
  note f1 = new_values_loop_Inr [OF l1] and f2 = removed_values_loop_Inr [OF l2]
  have ids: "set (kord (idf ` set oldVals)) = idf ` set oldVals" using ord by (simp add: key_orderD)
  from f1 f2 show "(redirs \<longleftrightarrow> (\<exists>v \<in> set newVals. case map_by idf oldVals (idf v) of
        None \<Rightarrow> True | Some old \<Rightarrow> redf old \<noteq> redf v) \<or> \<not> idf ` set oldVals \<subseteq> idf ` set newVals)"
    unfolding ids by blast
  from f1 show "toValidate = {idf v |v. v \<in> set newVals \<and> (validateAll \<or>
        (case map_by idf oldVals (idf v) of None \<Rightarrow> True | Some old \<Rightarrow> specf old \<noteq> specf v))}" by simp
  from f1 show "badChanged = {idf v |v. v \<in> set newVals \<and> (\<exists>old n. map_by idf oldVals (idf v) = Some old \<and>
        specf old \<noteq> specf v \<and> usage (idf v) = Inr n \<and> n > 0)}" by simp
  from f2 show "badRemoved = {i \<in> idf ` set oldVals. i \<notin> idf ` set newVals \<and> (\<exists>n. usage i = Inr n \<and> n > 0)}"
    unfolding ids by simp
  from f1 show "\<forall>v \<in> set newVals. \<forall>old. map_by idf oldVals (idf v) = Some old \<and> specf old \<noteq> specf v
        \<longrightarrow> (\<exists>n. usage (idf v) = Inr n)" by blast
  from f2 show "\<forall>i \<in> idf ` set oldVals - idf ` set newVals. \<exists>n. usage i = Inr n"
    unfolding ids by blast
qed

text \<open>When nothing calls for a new validation, the redirects are the old ones.\<close>

lemma redirect_rel_alt:
  "redirect_rel idf redf vals =
     {(a, b). \<exists>r. map_option redf (map_by idf vals a) = Some (Some r) \<and> red_To r = b}"
  by (auto simp: redirect_rel_def)

lemma redirect_map_unchanged:
  assumes "distinct (map idf oldVals)" and "distinct (map idf newVals)"
    and same: "\<forall>v \<in> set newVals. \<exists>old. map_by idf oldVals (idf v) = Some old \<and> redf old = redf v"
    and kept: "idf ` set oldVals \<subseteq> idf ` set newVals"
  shows "redirect_map idf redf newVals = redirect_map idf redf oldVals"
    and "idf ` set newVals = idf ` set oldVals"
proof -
  show ids: "idf ` set newVals = idf ` set oldVals"
    using same kept map_by_SomeD [of idf oldVals] by (metis imageI image_subsetI subset_antisym)
  have "redirect_rel idf redf newVals = redirect_rel idf redf oldVals"
  proof -
    have "map_option redf (map_by idf newVals a) = map_option redf (map_by idf oldVals a)" for a
    proof (cases "map_by idf newVals a")
      case None
      with ids have "map_by idf oldVals a = None" by (simp add: map_by_None_iff)
      with None show ?thesis by simp
    next
      case (Some v)
      with map_by_SomeD [OF Some] same show ?thesis by force
    qed
    then show ?thesis by (auto simp: redirect_rel_alt)
  qed
  then have "redirect_map idf redf newVals a = Some b \<longleftrightarrow> redirect_map idf redf oldVals a = Some b" for a b
    using redirect_map_rel [OF assms(1), of redf] redirect_map_rel [OF assms(2), of redf] by blast
  then show "redirect_map idf redf newVals = redirect_map idf redf oldVals"
    by (intro ext) (metis not_None_eq)
qed

section \<open>What the handlers decide\<close>

lemma Kind_ValidateCreate_admitted_iff:
  "admitted (Kind_ValidateCreate lib rng kord k) \<longleftrightarrow>
     validatePodTemplatePodMetadata lib k = [] \<and>
     validatePodTemplateStatefulSetMetadata lib k = [] \<and>
     validateExtraEnv lib k = [] \<and>
     validateRequestHeaders lib rng k = [] \<and>
     validateFilterRules lib k = [] \<and>
     validateActivityProbe (kpt_ActivityProbe (wk_PodTemplate k)) activity_probe_path
       (map_by wkp_Id (wk_Ports k)) = [] \<and>
     validateDefaultImageConfig k (map_by ic_Id (wk_ImageConfigValues k)) = [] \<and>
     validateDefaultPodConfig k (map_by pc_Id (wk_PodConfigValues k)) = [] \<and>
     validate_image_values k (map_by wkp_Id (wk_Ports k)) (kord (ic_Id ` set (wk_ImageConfigValues k))) = [] \<and>
     image_redirect_errors kord k = [] \<and> pod_redirect_errors kord k = [] \<and>
     fst (validateActivityRules lib k) = []"
  by (simp add: Kind_ValidateCreate_def Let_def split: prod.splits)

lemma in_use_errors_Nil_iff [simp]: "in_use_errors path opt what ids = [] \<longleftrightarrow> ids = []"
  by (simp add: in_use_errors_def)

lemma key_order_Nil_iff: "key_order kord \<Longrightarrow> finite A \<Longrightarrow> kord A = [] \<longleftrightarrow> A = {}"
  by (metis key_orderD(1) set_empty)

text \<open>What an accepted update passed, one entry per group of checks.\<close>

lemma Kind_ValidateUpdate_admitted:
  assumes "admitted (Kind_ValidateUpdate lib rng kord listByKind oldK newK)"
  obtains ir iv ic im pr pv pc pm where
    "option_changes ''imageConfig'' ic_Id ic_Redirect ic_Spec (getImageConfigUsageCount listByKind oldK) kord
       (wk_Ports newK \<noteq> wk_Ports oldK) (wk_ImageConfigValues oldK) (wk_ImageConfigValues newK)
       = Inr (ir, iv, ic, im)"
    and "option_changes ''podConfig'' pc_Id pc_Redirect pc_Spec (getPodConfigUsageCount listByKind oldK) kord
       False (wk_PodConfigValues oldK) (wk_PodConfigValues newK) = Inr (pr, pv, pc, pm)"
    and "kpt_PodMetadata (wk_PodTemplate newK) \<noteq> kpt_PodMetadata (wk_PodTemplate oldK) \<longrightarrow>
       validatePodTemplatePodMetadata lib newK = []"
    and "kpt_StatefulSetMetadata (wk_PodTemplate newK) \<noteq> kpt_StatefulSetMetadata (wk_PodTemplate oldK) \<longrightarrow>
       validatePodTemplateStatefulSetMetadata lib newK = []"
    and "kpt_ExtraEnv (wk_PodTemplate newK) \<noteq> kpt_ExtraEnv (wk_PodTemplate oldK) \<longrightarrow> validateExtraEnv lib newK = []"
    and "wk_Ports newK \<noteq> wk_Ports oldK \<longrightarrow> validateRequestHeaders lib rng newK = []"
    and "ks_FilterRules (wk_Spec newK) \<noteq> ks_FilterRules (wk_Spec oldK) \<longrightarrow> validateFilterRules lib newK = []"
    and "wk_Ports newK \<noteq> wk_Ports oldK \<or>
       kpt_ActivityProbe (wk_PodTemplate newK) \<noteq> kpt_ActivityProbe (wk_PodTemplate oldK) \<longrightarrow>
       validateActivityProbe (kpt_ActivityProbe (wk_PodTemplate newK)) activity_probe_path
         (map_by wkp_Id (wk_Ports newK)) = []"
    and "ks_ActivityRules (wk_Spec newK) \<noteq> ks_ActivityRules (wk_Spec oldK) \<or>
       kpt_ActivityProbe (wk_PodTemplate newK) \<noteq> kpt_ActivityProbe (wk_PodTemplate oldK) \<longrightarrow>
       fst (validateActivityRules lib newK) = []"
    and "validateDefaultImageConfig newK (map_by ic_Id (wk_ImageConfigValues newK)) = []"
    and "validateDefaultPodConfig newK (map_by pc_Id (wk_PodConfigValues newK)) = []"
    and "validate_image_values newK (map_by wkp_Id (wk_Ports newK)) (kord iv) = []"
    and "kord ic = []" and "kord im = []" and "kord pc = []" and "kord pm = []"
    and "ir \<longrightarrow> image_redirect_errors kord newK = []" and "pr \<longrightarrow> pod_redirect_errors kord newK = []"
proof -
  from assms obtain ir iv ic im pr pv pc pm where
    ch: "option_changes ''imageConfig'' ic_Id ic_Redirect ic_Spec (getImageConfigUsageCount listByKind oldK) kord
       (wk_Ports newK \<noteq> wk_Ports oldK) (wk_ImageConfigValues oldK) (wk_ImageConfigValues newK)
       = Inr (ir, iv, ic, im)"
    "option_changes ''podConfig'' pc_Id pc_Redirect pc_Spec (getPodConfigUsageCount listByKind oldK) kord
       False (wk_PodConfigValues oldK) (wk_PodConfigValues newK) = Inr (pr, pv, pc, pm)"
    by (auto simp: Kind_ValidateUpdate_def Let_def split: sum.splits prod.splits)
  show ?thesis
    by (rule that [OF ch]; insert assms;
        simp add: Kind_ValidateUpdate_def Let_def ch split: prod.splits if_splits)
qed

section \<open>Updates keep a WorkspaceKind valid\<close>

text \<open>The checks on a group of fields agree on two WorkspaceKinds that agree on the group.\<close>

lemma checks_cong:
  "kpt_PodMetadata (wk_PodTemplate a) = kpt_PodMetadata (wk_PodTemplate b) \<Longrightarrow>
     validatePodTemplatePodMetadata lib a = validatePodTemplatePodMetadata lib b"
  "kpt_StatefulSetMetadata (wk_PodTemplate a) = kpt_StatefulSetMetadata (wk_PodTemplate b) \<Longrightarrow>
     validatePodTemplateStatefulSetMetadata lib a = validatePodTemplateStatefulSetMetadata lib b"
  "kpt_ExtraEnv (wk_PodTemplate a) = kpt_ExtraEnv (wk_PodTemplate b) \<Longrightarrow>
     validateExtraEnv lib a = validateExtraEnv lib b"
  "wk_Ports a = wk_Ports b \<Longrightarrow> validateRequestHeaders lib rng a = validateRequestHeaders lib rng b"
  "ks_FilterRules (wk_Spec a) = ks_FilterRules (wk_Spec b) \<Longrightarrow> validateFilterRules lib a = validateFilterRules lib b"
  "ks_ActivityRules (wk_Spec a) = ks_ActivityRules (wk_Spec b) \<Longrightarrow>
     kpt_ActivityProbe (wk_PodTemplate a) = kpt_ActivityProbe (wk_PodTemplate b) \<Longrightarrow>
     validateActivityRules lib a = validateActivityRules lib b"
  by (simp_all add: validatePodTemplatePodMetadata_def validatePodTemplateStatefulSetMetadata_def
      validateExtraEnv_def validateRequestHeaders_def validateFilterRules_def validateActivityRules_def
      probe_interval_def Let_def cong: if_cong)

text \<open>
  Image config values the update does not look at again were accepted before, under the
  same ports.
\<close>

lemma image_values_preserved:
  assumes ord: "key_order kord"
    and old: "validate_image_values oldK (map_by wkp_Id (wk_Ports oldK))
        (kord (ic_Id ` set (wk_ImageConfigValues oldK))) = []"
    and new: "validate_image_values newK (map_by wkp_Id (wk_Ports newK)) (kord tv) = []"
    and tv: "tv = {ic_Id v |v. v \<in> set (wk_ImageConfigValues newK) \<and> (wk_Ports newK \<noteq> wk_Ports oldK \<or>
        (case map_by ic_Id (wk_ImageConfigValues oldK) (ic_Id v) of
           None \<Rightarrow> True | Some old \<Rightarrow> ic_Spec old \<noteq> ic_Spec v))}"
  shows "validate_image_values newK (map_by wkp_Id (wk_Ports newK))
        (kord (ic_Id ` set (wk_ImageConfigValues newK))) = []"
  unfolding validate_image_values_Nil_iff
proof (intro ballI allI impI)
  fix i v
  assume v: "map_by ic_Id (wk_ImageConfigValues newK) i = Some v"
  then have i: "v \<in> set (wk_ImageConfigValues newK)" "ic_Id v = i"
    using map_by_SomeD by fastforce+
  have fin: "finite tv" unfolding tv by simp
  show "distinct (map ip_Port (ics_Ports (ic_Spec v))) \<and>
      (\<forall>p \<in> set (ics_Ports (ic_Spec v)). map_by wkp_Id (wk_Ports newK) (ip_Id p) \<noteq> None)"
  proof (cases "i \<in> tv")
    case True
    with new v ord fin show ?thesis by (simp add: validate_image_values_Nil_iff key_orderD)
  next
    case False
    with i obtain u where u: "map_by ic_Id (wk_ImageConfigValues oldK) i = Some u"
      "ic_Spec u = ic_Spec v" "wk_Ports newK = wk_Ports oldK"
      unfolding tv by (cases "map_by ic_Id (wk_ImageConfigValues oldK) i") auto
    from u(1) have "i \<in> ic_Id ` set (wk_ImageConfigValues oldK)"
      by (metis map_by_None_iff option.distinct(1))
    with old u ord show ?thesis by (auto simp: validate_image_values_Nil_iff key_orderD)
  qed
qed

text \<open>Redirects the update does not look at again are those accepted before.\<close>

lemma redirects_preserved:
  assumes ch: "option_changes opt idf redf specf usage kord va oldVals newVals = Inr (rd, tv, bc, br)"
    and ord: "key_order kord" and dist: "distinct (map idf oldVals)" "distinct (map idf newVals)"
    and old: "redirects_ok (idf ` set oldVals) (redirect_map idf redf oldVals)" and "\<not> rd"
  shows "redirects_ok (idf ` set newVals) (redirect_map idf redf newVals)"
proof -
  from option_changes_Inr(1) [OF ch ord] \<open>\<not> rd\<close>
  have "\<forall>v \<in> set newVals. \<exists>old. map_by idf oldVals (idf v) = Some old \<and> redf old = redf v"
    and "idf ` set oldVals \<subseteq> idf ` set newVals"
    by (auto split: option.splits)
  with redirect_map_unchanged [OF dist] old show ?thesis by simp
qed

lemma update_keeps_valid:
  assumes "key_order kord" and "kind_schema_ok oldK" and "kind_schema_ok newK"
    and "admitted (Kind_ValidateCreate lib rng kord oldK)"
    and "admitted (Kind_ValidateUpdate lib rng kord listByKind oldK newK)"
  shows "admitted (Kind_ValidateCreate lib rng kord newK)"
proof -
  note ord = assms(1)
  have old: "validatePodTemplatePodMetadata lib oldK = []" "validatePodTemplateStatefulSetMetadata lib oldK = []"
    "validateExtraEnv lib oldK = []" "validateRequestHeaders lib rng oldK = []" "validateFilterRules lib oldK = []"
    "validateActivityProbe (kpt_ActivityProbe (wk_PodTemplate oldK)) activity_probe_path (map_by wkp_Id (wk_Ports oldK)) = []"
    "validate_image_values oldK (map_by wkp_Id (wk_Ports oldK)) (kord (ic_Id ` set (wk_ImageConfigValues oldK))) = []"
    "image_redirect_errors kord oldK = []" "pod_redirect_errors kord oldK = []" "fst (validateActivityRules lib oldK) = []"
    using assms(4) by (simp_all add: Kind_ValidateCreate_admitted_iff)
  from assms(2,3) have dist: "distinct (map ic_Id (wk_ImageConfigValues oldK))" "distinct (map ic_Id (wk_ImageConfigValues newK))"
    "distinct (map pc_Id (wk_PodConfigValues oldK))" "distinct (map pc_Id (wk_PodConfigValues newK))"
    by (simp_all add: kind_schema_ok_def)
  from assms(5) show ?thesis
  proof (rule Kind_ValidateUpdate_admitted)
    fix ir iv ic im pr pv pc pm
    assume ich: "option_changes ''imageConfig'' ic_Id ic_Redirect ic_Spec (getImageConfigUsageCount listByKind oldK) kord
       (wk_Ports newK \<noteq> wk_Ports oldK) (wk_ImageConfigValues oldK) (wk_ImageConfigValues newK) = Inr (ir, iv, ic, im)"
      and pch: "option_changes ''podConfig'' pc_Id pc_Redirect pc_Spec (getPodConfigUsageCount listByKind oldK) kord
       False (wk_PodConfigValues oldK) (wk_PodConfigValues newK) = Inr (pr, pv, pc, pm)"
      and iv: "validate_image_values newK (map_by wkp_Id (wk_Ports newK)) (kord iv) = []"
      and ir: "ir \<longrightarrow> image_redirect_errors kord newK = []" and pr: "pr \<longrightarrow> pod_redirect_errors kord newK = []"
      and rest: "kpt_PodMetadata (wk_PodTemplate newK) \<noteq> kpt_PodMetadata (wk_PodTemplate oldK) \<longrightarrow> validatePodTemplatePodMetadata lib newK = []"
        "kpt_StatefulSetMetadata (wk_PodTemplate newK) \<noteq> kpt_StatefulSetMetadata (wk_PodTemplate oldK) \<longrightarrow> validatePodTemplateStatefulSetMetadata lib newK = []"
        "kpt_ExtraEnv (wk_PodTemplate newK) \<noteq> kpt_ExtraEnv (wk_PodTemplate oldK) \<longrightarrow> validateExtraEnv lib newK = []"
        "wk_Ports newK \<noteq> wk_Ports oldK \<longrightarrow> validateRequestHeaders lib rng newK = []"
        "ks_FilterRules (wk_Spec newK) \<noteq> ks_FilterRules (wk_Spec oldK) \<longrightarrow> validateFilterRules lib newK = []"
        "wk_Ports newK \<noteq> wk_Ports oldK \<or> kpt_ActivityProbe (wk_PodTemplate newK) \<noteq> kpt_ActivityProbe (wk_PodTemplate oldK) \<longrightarrow>
          validateActivityProbe (kpt_ActivityProbe (wk_PodTemplate newK)) activity_probe_path (map_by wkp_Id (wk_Ports newK)) = []"
        "ks_ActivityRules (wk_Spec newK) \<noteq> ks_ActivityRules (wk_Spec oldK) \<or>
          kpt_ActivityProbe (wk_PodTemplate newK) \<noteq> kpt_ActivityProbe (wk_PodTemplate oldK) \<longrightarrow> fst (validateActivityRules lib newK) = []"
      and defaults: "validateDefaultImageConfig newK (map_by ic_Id (wk_ImageConfigValues newK)) = []"
        "validateDefaultPodConfig newK (map_by pc_Id (wk_PodConfigValues newK)) = []"
    have "image_redirect_errors kord newK = []"
      using ir redirects_preserved [OF ich ord dist(1,2)] old(8) by (auto simp: image_redirect_errors_Nil_iff [OF ord])
    moreover have "pod_redirect_errors kord newK = []"
      using pr redirects_preserved [OF pch ord dist(3,4)] old(9) by (auto simp: pod_redirect_errors_Nil_iff [OF ord])
    moreover note image_values_preserved [OF ord old(7) iv option_changes_Inr(2) [OF ich ord]]
    moreover have "validatePodTemplatePodMetadata lib newK = []" "validatePodTemplateStatefulSetMetadata lib newK = []"
      "validateExtraEnv lib newK = []" "validateRequestHeaders lib rng newK = []" "validateFilterRules lib newK = []"
      using rest(1-5) old(1-5) checks_cong(1-5) [of newK oldK] by metis+
    moreover have "validateActivityProbe (kpt_ActivityProbe (wk_PodTemplate newK)) activity_probe_path (map_by wkp_Id (wk_Ports newK)) = []"
      using rest(6) old(6) by metis
    moreover have "fst (validateActivityRules lib newK) = []"
      using rest(7) old(10) checks_cong(6) [of newK oldK] by metis
    ultimately show ?thesis using defaults by (simp add: Kind_ValidateCreate_admitted_iff)
  qed
qed

text \<open>
  C2. Incremental validation of updates is as strict as full validation: if a stored
  WorkspaceKind passes the create checks, every update of it that the webhook admits
  leaves a WorkspaceKind that passes the create checks too, for every iteration order
  of the maps involved and whatever the cluster answers about usage. (Ids are distinct
  within the option lists, as the CRD schema demands.)
\<close>

theorem kind_update_keeps_valid:
  assumes "key_order kord" and "kind_schema_ok oldK" and "kind_schema_ok newK"
    and "admitted (Kind_ValidateCreate lib rng kord oldK)"
    and "admitted (Kind_ValidateUpdate lib rng kord listByKind oldK newK)"
  shows "admitted (Kind_ValidateCreate lib rng kord newK)"
  using assms by (rule update_keeps_valid)

section \<open>Options in use\<close>

text \<open>
  The shared contract of the usage counters: every option a listed Workspace selects has
  a positive count. The counters of image and pod configs are its two instances.
\<close>

locale usage_counter =
  fixes idf :: "'v \<Rightarrow> string" and vals :: "WorkspaceKind \<Rightarrow> 'v list" and sel :: "Workspace \<Rightarrow> string"
    and usage :: "kind_lister \<Rightarrow> WorkspaceKind \<Rightarrow> string \<Rightarrow> string + int" and unknown :: string
  assumes usage_ok: "listByKind (wk_Name k) = Inr wss \<Longrightarrow> int (length wss) < 2 ^ 31 \<Longrightarrow>
      usage listByKind k i =
        (if i \<in> idf ` set (vals k) \<union> sel ` set wss then Inr (int (count_list (map sel wss) i))
         else Inl unknown)"
    and usage_err: "listByKind (wk_Name k) = Inl e \<Longrightarrow> usage listByKind k i = Inl e"
begin

lemma used_positive:
  assumes "listByKind (wk_Name k) = Inr wss" and "int (length wss) < 2 ^ 31" and "w \<in> set wss"
  shows "\<exists>n. usage listByKind k (sel w) = Inr n \<and> n > 0"
  using usage_ok [of listByKind k wss "sel w"] assms
  by (auto simp: count_list_0_iff intro: gr0I)

text \<open>An option in use is neither removed nor changed by an update the loops let through.\<close>

lemma in_use_kept:
  assumes ch: "option_changes opt idf redf specf (usage listByKind k) kord va (vals k) newVals
      = Inr (rd, tv, bc, br)"
    and ord: "key_order kord" and none: "bc = {}" "br = {}"
    and wss: "listByKind (wk_Name k) = Inr wss" "int (length wss) < 2 ^ 31" "w \<in> set wss"
    and old: "map_by idf (vals k) (sel w) = Some old" and dist: "distinct (map idf newVals)"
  shows "\<exists>new \<in> set newVals. idf new = sel w \<and> specf new = specf old"
proof -
  from used_positive [of listByKind k wss w] wss obtain n where n: "usage listByKind k (sel w) = Inr n" "n > 0" by blast
  from old have "sel w \<in> idf ` set (vals k)" by (metis map_by_None_iff option.distinct(1))
  with none(2) n option_changes_Inr(4) [OF ch ord] have "sel w \<in> idf ` set newVals" by auto
  then obtain new where new: "new \<in> set newVals" "idf new = sel w" by auto
  with none(1) n old option_changes_Inr(3) [OF ch ord] have "specf old = specf new" by fastforce
  with new show ?thesis by auto
qed

end

interpretation image_usage: usage_counter ic_Id wk_ImageConfigValues "\<lambda>w. po_ImageConfig (ws_Options w)"
  getImageConfigUsageCount "''unknown imageConfig id''"
  by unfold_locales
     (auto simp: getImageConfigUsageCount_def getOptionsUsageCounts_def usage_counts_eq)

interpretation pod_usage: usage_counter pc_Id wk_PodConfigValues "\<lambda>w. po_PodConfig (ws_Options w)"
  getPodConfigUsageCount "''unknown podConfig id''"
  by unfold_locales
     (auto simp: getPodConfigUsageCount_def getOptionsUsageCounts_def usage_counts_eq)

lemma update_keeps_used_options:
  assumes "key_order kord" and "kind_schema_ok oldK" and "kind_schema_ok newK"
    and "admitted (Kind_ValidateUpdate lib rng kord listByKind oldK newK)"
    and "listByKind (wk_Name oldK) = Inr wss" and "int (length wss) < 2 ^ 31" and "w \<in> set wss"
  shows "(\<forall>old \<in> set (wk_ImageConfigValues oldK). ic_Id old = po_ImageConfig (ws_Options w) \<longrightarrow>
       (\<exists>new \<in> set (wk_ImageConfigValues newK). ic_Id new = ic_Id old \<and> ic_Spec new = ic_Spec old)) \<and>
     (\<forall>old \<in> set (wk_PodConfigValues oldK). pc_Id old = po_PodConfig (ws_Options w) \<longrightarrow>
       (\<exists>new \<in> set (wk_PodConfigValues newK). pc_Id new = pc_Id old \<and> pc_Spec new = pc_Spec old))"
proof -
  from assms(2,3) have dist: "distinct (map ic_Id (wk_ImageConfigValues oldK))" "distinct (map ic_Id (wk_ImageConfigValues newK))"
    "distinct (map pc_Id (wk_PodConfigValues oldK))" "distinct (map pc_Id (wk_PodConfigValues newK))"
    by (simp_all add: kind_schema_ok_def)
  from assms(4) obtain ir iv ic im pr pv pc pm where
    ich: "option_changes ''imageConfig'' ic_Id ic_Redirect ic_Spec (getImageConfigUsageCount listByKind oldK) kord
       (wk_Ports newK \<noteq> wk_Ports oldK) (wk_ImageConfigValues oldK) (wk_ImageConfigValues newK) = Inr (ir, iv, ic, im)"
    and pch: "option_changes ''podConfig'' pc_Id pc_Redirect pc_Spec (getPodConfigUsageCount listByKind oldK) kord
       False (wk_PodConfigValues oldK) (wk_PodConfigValues newK) = Inr (pr, pv, pc, pm)"
    and nil: "kord ic = []" "kord im = []" "kord pc = []" "kord pm = []"
    by (rule Kind_ValidateUpdate_admitted)
  have fin: "finite ic" "finite im" "finite pc" "finite pm"
    using option_changes_Inr(3,4) [OF ich assms(1)] option_changes_Inr(3,4) [OF pch assms(1)] by simp_all
  with nil have "ic = {}" "im = {}" "pc = {}" "pm = {}"
    using key_order_Nil_iff [OF assms(1)] by blast+
  note image = image_usage.in_use_kept [OF ich assms(1) this(1,2) assms(5-7) _ dist(2)]
    and pod = pod_usage.in_use_kept [OF pch assms(1) this(3,4) assms(5-7) _ dist(4)]
  show ?thesis
  proof (intro conjI ballI impI)
    fix old assume "old \<in> set (wk_ImageConfigValues oldK)" "ic_Id old = po_ImageConfig (ws_Options w)"
    with image [of old] map_by_distinct [OF dist(1), of old]
    show "\<exists>new \<in> set (wk_ImageConfigValues newK). ic_Id new = ic_Id old \<and> ic_Spec new = ic_Spec old" by auto
  next
    fix old assume "old \<in> set (wk_PodConfigValues oldK)" "pc_Id old = po_PodConfig (ws_Options w)"
    with pod [of old] map_by_distinct [OF dist(3), of old]
    show "\<exists>new \<in> set (wk_PodConfigValues newK). pc_Id new = pc_Id old \<and> pc_Spec new = pc_Spec old" by auto
  qed
qed

text \<open>
  C6. Options in use are immutable: when the webhook admits an update of a WorkspaceKind
  and the cluster answers the usage query, then for every Workspace of that kind the
  image config and the pod config it selects are still there after the update, with the
  same spec.
\<close>

theorem kind_update_in_use_immutable:
  assumes "key_order kord" and "kind_schema_ok oldK" and "kind_schema_ok newK"
    and "admitted (Kind_ValidateUpdate lib rng kord listByKind oldK newK)"
    and "listByKind (wk_Name oldK) = Inr wss" and "int (length wss) < 2 ^ 31" and "w \<in> set wss"
  shows "(\<forall>old \<in> set (wk_ImageConfigValues oldK). ic_Id old = po_ImageConfig (ws_Options w) \<longrightarrow>
       (\<exists>new \<in> set (wk_ImageConfigValues newK). ic_Id new = ic_Id old \<and> ic_Spec new = ic_Spec old)) \<and>
     (\<forall>old \<in> set (wk_PodConfigValues oldK). pc_Id old = po_PodConfig (ws_Options w) \<longrightarrow>
       (\<exists>new \<in> set (wk_PodConfigValues newK). pc_Id new = pc_Id old \<and> pc_Spec new = pc_Spec old))"
  using assms by (rule update_keeps_used_options)

section \<open>Witnesses\<close>

lemma sample_schema_ok: "kind_schema_ok sample_kind" "kind_schema_ok sample_kind'"
  by (simp_all add: kind_schema_ok_def)

lemma sample_redirects:
  "image_redirects sample_kind = [''v1'' \<mapsto> ''v2'']" "image_redirects sample_kind' = [''v1'' \<mapsto> ''v2'']"
  "pod_redirects sample_kind = Map.empty" "pod_redirects sample_kind' = Map.empty"
  by (simp_all add: redirect_map_def)

lemma sample_create_admitted: "admitted (Kind_ValidateCreate sample_lib sample_range sample_keys sample_kind)"
  unfolding Kind_ValidateCreate_admitted_iff image_redirect_errors_Nil_iff [OF key_order_sample_keys]
    pod_redirect_errors_Nil_iff [OF key_order_sample_keys] sample_redirects
  by (simp add: validatePodTemplatePodMetadata_def validatePodTemplateStatefulSetMetadata_def validateExtraEnv_def
      validateRequestHeaders_def validateFilterRules_def validateActivityProbe_def validateDefaultImageConfig_def
      validateDefaultPodConfig_def validate_image_values_Nil_iff validateActivityRules_def validate_rule_selectors_def
      single_redirect_ok empty_redirect_ok map_by_def Let_def probe_interval_def)

lemma sample_update_admitted:
  "admitted (Kind_ValidateUpdate sample_lib sample_range sample_keys sample_lister sample_kind sample_kind')"
proof -
  have red: "image_redirect_errors sample_keys sample_kind' = []" "pod_redirect_errors sample_keys sample_kind' = []"
    unfolding image_redirect_errors_Nil_iff [OF key_order_sample_keys]
      pod_redirect_errors_Nil_iff [OF key_order_sample_keys] sample_redirects
    by (simp_all add: single_redirect_ok empty_redirect_ok)
  have images: "option_changes ''imageConfig'' ic_Id ic_Redirect ic_Spec (getImageConfigUsageCount sample_lister sample_kind)
      sample_keys False [image_v1, image_v2] [image_v1, image_v2, image_v3] = Inr (True, {''v3''}, {}, {})"
    by (simp add: option_changes_def map_by_def sample_keys_def)
  have pods: "option_changes ''podConfig'' pc_Id pc_Redirect pc_Spec (getPodConfigUsageCount sample_lister sample_kind)
      sample_keys False [pod_small] [pod_small] = Inr (False, {}, {}, {})"
    by (simp add: option_changes_def map_by_def sample_keys_def)
  show ?thesis
    by (simp add: Kind_ValidateUpdate_def images pods red validateDefaultImageConfig_def validateDefaultPodConfig_def
        validate_image_values_Nil_iff map_by_def sample_keys_def)
qed

text \<open>Adding an image config to the sample WorkspaceKind, which a Workspace uses.\<close>

theorem kind_update_keeps_valid_witness:
  "admitted (Kind_ValidateUpdate sample_lib sample_range sample_keys sample_lister sample_kind sample_kind') \<and>
   admitted (Kind_ValidateCreate sample_lib sample_range sample_keys sample_kind')"
  using kind_update_keeps_valid [OF key_order_sample_keys sample_schema_ok sample_create_admitted sample_update_admitted]
    sample_update_admitted by simp

theorem kind_update_in_use_immutable_witness:
  "sample_lister (wk_Name sample_kind) = Inr [sample_ws] \<and>
   (\<exists>new \<in> set (wk_ImageConfigValues sample_kind'). ic_Id new = ''v1'' \<and> ic_Spec new = sample_image_spec ''img:1'') \<and>
   (\<exists>new \<in> set (wk_PodConfigValues sample_kind'). pc_Id new = ''small'' \<and> pc_Spec new = pc_Spec pod_small)"
proof -
  have l: "sample_lister (wk_Name sample_kind) = Inr [sample_ws]" by (simp add: sample_lister_def)
  have "int (length [sample_ws]) < 2 ^ 31" "sample_ws \<in> set [sample_ws]" by simp_all
  from kind_update_in_use_immutable [OF key_order_sample_keys sample_schema_ok sample_update_admitted l this] l
  show ?thesis by simp
qed

end
