(* ===== verification/Objects_Correct.thy ===== *)
theory Objects_Correct
  imports Routing_Objects Kind_Webhook_Correct
begin

text \<open>
  Correctness of the generated objects: they are well formed for every Workspace, they fit
  together (the Service selects the Pods and targets their ports, the routes lead to the
  Service), and they can always be generated when the WorkspaceKind passed its admission
  webhook.
\<close>

section \<open>Ports\<close>

lemma concat_map_NilD: "concat (map f xs) = [] \<Longrightarrow> x \<in> set xs \<Longrightarrow> f x = []"
  by simp

lemma generate_ports_Inr_iff:
  "generate_ports mk seen ports = Inr ps \<longleftrightarrow>
     distinct (map ip_Port ports) \<and> set (map ip_Port ports) \<inter> seen = {} \<and> ps = map mk ports"
proof (induction ports arbitrary: seen ps)
  case (Cons p ports)
  show ?case
  proof (cases "generate_ports mk (insert (ip_Port p) seen) ports")
    case (Inl e)
    with Cons.IH [of "insert (ip_Port p) seen"] show ?thesis by auto
  next
    case (Inr qs)
    with Cons.IH [of "insert (ip_Port p) seen" qs] show ?thesis by auto
  qed
qed auto

lemma container_port_number [simp]: "ctp_ContainerPort \<circ> container_port = ip_Port"
  by (simp add: container_port_def comp_def)

section \<open>Volumes\<close>

text \<open>
  The invariant of the volume loops: names and mount paths are unique and are the recorded
  ones, and every mount refers to a volume.
\<close>

definition vols_ok :: "vol_state \<Rightarrow> bool" where
  "vols_ok st \<longleftrightarrow>
     distinct (map vol_Name (vs_Volumes st)) \<and> set (map vol_Name (vs_Volumes st)) = vs_Names st \<and>
     distinct (map vm_MountPath (vs_Mounts st)) \<and> set (map vm_MountPath (vs_Mounts st)) = vs_Paths st \<and>
     (\<forall>m \<in> set (vs_Mounts st). vm_Name m \<in> vs_Names st)"

lemma vols_ok_empty: "vols_ok empty_vols"
  by (simp add: vols_ok_def empty_vols_def)

lemma vols_ok_push:
  "vols_ok st \<Longrightarrow> vol_Name v \<notin> vs_Names st \<Longrightarrow> vm_MountPath m \<notin> vs_Paths st \<Longrightarrow> vm_Name m = vol_Name v
     \<Longrightarrow> vols_ok (push_volume v m st)"
  by (auto simp: vols_ok_def push_volume_def)

lemma vols_ok_add: "vols_ok st \<Longrightarrow> vm_Name m = vol_Name v \<Longrightarrow> vols_ok (add_volume v m st)"
  by (simp add: add_volume_def vols_ok_push)

lemma vols_ok_home: "vols_ok (add_home home path empty_vols)"
  by (auto simp: add_home_def plain_mount_def empty_vols_def vols_ok_empty [unfolded empty_vols_def]
           intro!: vols_ok_push split: option.splits)

lemma vols_ok_data: "vols_ok st \<Longrightarrow> add_data i ds st = Inr st' \<Longrightarrow> vols_ok st'"
  by (induction i ds st rule: add_data.induct)
     (auto simp: Let_def plain_mount_def vols_ok_add split: option.splits)

lemma vols_ok_secrets: "vols_ok st \<Longrightarrow> vols_ok (add_secrets i ss st)"
  by (induction i ss st rule: add_secrets.induct) (auto simp: Let_def plain_mount_def vols_ok_add)

lemma vols_ok_extra_volumes: "vols_ok st \<Longrightarrow> vols_ok (fold add_extra_volume vs st)"
proof (induction vs arbitrary: st)
  case (Cons v vs)
  then have "vols_ok (add_extra_volume v st)" by (auto simp: vols_ok_def add_extra_volume_def)
  with Cons show ?case by simp
qed simp

lemma vols_ok_extra_mounts: "vols_ok st \<Longrightarrow> vols_ok (fold add_extra_mount ms st)"
proof (induction ms arbitrary: st)
  case (Cons m ms)
  then have "vols_ok (add_extra_mount m st)" by (auto simp: vols_ok_def add_extra_mount_def)
  with Cons show ?case by simp
qed simp

lemma generate_volumes_ok: "generate_volumes wv kt = Inr st \<Longrightarrow> vols_ok st"
  using vols_ok_data [OF vols_ok_home, of 0 "pv_Data wv" "pv_Home wv" "wvm_Home (kpt_VolumeMounts kt)"]
  by (auto simp: generate_volumes_def vols_ok_extra_mounts vols_ok_extra_volumes vols_ok_secrets split: sum.splits)

section \<open>Properties of a generated StatefulSet\<close>

lemma generateStatefulSet_Inr:
  assumes "generateStatefulSet lib w k ispec pspec sa = Inr sts"
  obtains vols kindMeta where "generate_volumes (wpt_Volumes (ws_PodTemplate w)) (wk_PodTemplate k) = Inr vols"
    and "distinct (map ip_Port (ics_Ports ispec))"
    and "sts_Replicas sts = (if spec_Paused (ws_Spec w) then 0 else 1)"
    and "sts_Selector sts = selector_labels w"
    and "pt_Labels (sts_Template sts) = kindMeta ++\<^sub>f selector_labels w"
    and "pt_Volumes (sts_Template sts) = vs_Volumes vols"
    and "map ctr_VolumeMounts (pt_Containers (sts_Template sts)) = [vs_Mounts vols]"
    and "map ctr_Ports (pt_Containers (sts_Template sts)) = [map container_port (ics_Ports ispec)]"
    and "pt_ServiceAccountName (sts_Template sts) = sa"
  using assms
  by (auto simp: generateStatefulSet_def Let_def generate_ports_Inr_iff split: option.splits sum.splits)

text \<open>
  C23. Generated StatefulSets are well formed. Whatever metadata, volumes, secrets and mounts the
  user and the kind configure: the StatefulSet has no replica exactly when the Workspace is
  paused and one otherwise; its selector matches its own Pods, so user metadata cannot override
  the controller's labels; volume names and mount paths are unique and every mount refers to an
  existing volume; and the container ports are unique.
\<close>

theorem statefulset_wellformed:
  assumes "generateStatefulSet lib w k ispec pspec sa = Inr sts"
  shows "sts_Replicas sts = (if spec_Paused (ws_Spec w) then 0 else 1) \<and>
    sts_Selector sts \<subseteq>\<^sub>f pt_Labels (sts_Template sts) \<and>
    distinct (map vol_Name (pt_Volumes (sts_Template sts))) \<and>
    (\<forall>c \<in> set (pt_Containers (sts_Template sts)).
       distinct (map vm_MountPath (ctr_VolumeMounts c)) \<and>
       vm_Name ` set (ctr_VolumeMounts c) \<subseteq> vol_Name ` set (pt_Volumes (sts_Template sts)) \<and>
       distinct (map ctp_ContainerPort (ctr_Ports c)))"
  using assms
proof (rule generateStatefulSet_Inr)
  fix vols labels
  assume v: "generate_volumes (wpt_Volumes (ws_PodTemplate w)) (wk_PodTemplate k) = Inr vols"
    and d: "distinct (map ip_Port (ics_Ports ispec))"
    and r: "sts_Replicas sts = (if spec_Paused (ws_Spec w) then 0 else 1)"
    and s: "sts_Selector sts = selector_labels w"
    and l: "pt_Labels (sts_Template sts) = labels ++\<^sub>f selector_labels w"
    and pv: "pt_Volumes (sts_Template sts) = vs_Volumes vols"
    and m: "map ctr_VolumeMounts (pt_Containers (sts_Template sts)) = [vs_Mounts vols]"
    and p: "map ctr_Ports (pt_Containers (sts_Template sts)) = [map container_port (ics_Ports ispec)]"
  from generate_volumes_ok [OF v] have ok: "vols_ok vols" .
  have "sts_Selector sts \<subseteq>\<^sub>f pt_Labels (sts_Template sts)"
    by (auto simp: s l fmsubset_alt_def fmdom'_alt_def fmpred_iff)
  moreover obtain c where c: "pt_Containers (sts_Template sts) = [c]" "ctr_VolumeMounts c = vs_Mounts vols"
      "ctr_Ports c = map container_port (ics_Ports ispec)" using m p by auto
  moreover have "map ctp_ContainerPort (ctr_Ports c) = map ip_Port (ics_Ports ispec)"
    by (simp add: c)
  ultimately show ?thesis using ok d r by (auto simp: vols_ok_def pv)
qed

section \<open>Generation never fails for an accepted kind\<close>

text \<open>
  The webhook renders the templates of a kind with a dummy prefix. A template can render there and fail
  with the prefixes of a Workspace, as one that slices the value can.
\<close>

definition fails_only_with :: "validation_lib \<Rightarrow> (PortId \<Rightarrow> string) \<Rightarrow> string \<Rightarrow> bool" where
  "fails_only_with lib f t \<longleftrightarrow> \<not> isl (RenderGoTemplate lib t dummy_httpPathPrefix) \<and> isl (RenderGoTemplate lib t f)"

text \<open>The templates of a kind: the values of its extra environment, and of the headers its ports set or add.\<close>

definition env_templates :: "WorkspaceKind \<Rightarrow> string set" where
  "env_templates k = env_Value ` {e \<in> set (kpt_ExtraEnv (wk_PodTemplate k)). env_Value e \<noteq> []}"

definition header_templates :: "range_fn \<Rightarrow> WorkspaceKind \<Rightarrow> string set" where
  "header_templates rng k =
     {the (fmlookup m key) | kp proxy hdrs m key. kp \<in> set (wk_Ports k) \<and> wkp_HTTPProxy kp = Some proxy \<and>
        hp_RequestHeaders proxy = Some hdrs \<and> Some m \<in> {hdr_Set hdrs, hdr_Add hdrs} \<and> key \<in> set (rng m)}"

lemma render_env_total:
  "\<forall>e \<in> set envs. env_Value e \<noteq> [] \<longrightarrow> \<not> isl (RenderGoTemplate lib (env_Value e) f) \<Longrightarrow>
     \<exists>es. render_env lib f envs = Inr es"
  by (induction envs) (auto split: sum.splits)

lemma validateExtraEnv_NilD:
  "validateExtraEnv lib k = [] \<Longrightarrow> e \<in> set (kpt_ExtraEnv (wk_PodTemplate k)) \<Longrightarrow> env_Value e \<noteq> [] \<Longrightarrow>
     \<not> isl (RenderGoTemplate lib (env_Value e) dummy_httpPathPrefix)"
  unfolding validateExtraEnv_def by (drule (1) concat_map_NilD) (auto split: sum.splits)

lemma add_data_total: "\<forall>d \<in> set ds. pvm_ReadOnly d \<noteq> None \<Longrightarrow> \<exists>st'. add_data i ds st = Inr st'"
  by (induction i ds st rule: add_data.induct) (auto simp: Let_def)

lemma generate_volumes_total:
  "\<forall>d \<in> set (pv_Data wv). pvm_ReadOnly d \<noteq> None \<Longrightarrow> \<exists>st. generate_volumes wv kt = Inr st"
  using add_data_total [of "pv_Data wv" 0 "add_home (pv_Home wv) (wvm_Home (kpt_VolumeMounts kt)) empty_vols"]
  by (auto simp: generate_volumes_def)

lemma name_prefix_total:
  "\<exists>p. generateNamePrefix n maxServiceNameLength = Some p"
  "\<exists>p. generateNamePrefix n maxStatefulSetNameLength = Some p"
  "\<exists>p. generateNamePrefix n maxVirtualServiceNameLength = Some p"
  by (rule generateNamePrefix_Some; force simp: name_consts maxVirtualServiceNameLength_def)+

lemma accepted_image_ports:
  assumes "admitted (Kind_ValidateCreate lib rng kord k)" and "kind_schema_ok k" and "key_order kord"
    and "v \<in> set (wk_ImageConfigValues k)"
  shows "distinct (map ip_Port (ics_Ports (ic_Spec v)))"
    and "\<forall>p \<in> set (ics_Ports (ic_Spec v)). map_by wkp_Id (wk_Ports k) (ip_Id p) \<noteq> None"
proof -
  have "map_by ic_Id (wk_ImageConfigValues k) (ic_Id v) = Some v"
    using assms(2,4) by (simp add: kind_schema_ok_def map_by_distinct)
  moreover have "ic_Id v \<in> set (kord (ic_Id ` set (wk_ImageConfigValues k)))"
    using assms(3,4) by (simp add: key_orderD)
  ultimately show "distinct (map ip_Port (ics_Ports (ic_Spec v)))"
    and "\<forall>p \<in> set (ics_Ports (ic_Spec v)). map_by wkp_Id (wk_Ports k) (ip_Id p) \<noteq> None"
    using assms(1) unfolding Kind_ValidateCreate_admitted_iff validate_image_values_Nil_iff by blast+
qed

lemma render_headers_total:
  "\<forall>key \<in> set keys. \<not> isl (RenderGoTemplate lib (the (fmlookup m key)) f) \<Longrightarrow>
     \<exists>r. render_headers lib f what m keys acc = Inr r"
  by (induction keys arbitrary: acc) (auto split: sum.splits)

lemma validate_header_map_NilD:
  "validate_header_map lib rng path (Some m) = [] \<Longrightarrow> key \<in> set (rng m) \<Longrightarrow>
     \<not> isl (RenderGoTemplate lib (the (fmlookup m key)) dummy_httpPathPrefix)"
  unfolding validate_header_map_def option.case by (drule (1) concat_map_NilD) (auto simp: Let_def split: sum.splits)

lemma render_header_map_total:
  assumes "validate_header_map lib rng path hdrs = []"
    and "\<forall>m. hdrs = Some m \<longrightarrow> (\<forall>key \<in> set (rng m). \<not> fails_only_with lib f (the (fmlookup m key)))"
  shows "\<exists>r. render_header_map lib rng f what hdrs = Inr r"
proof (cases hdrs)
  case (Some m)
  have "\<forall>key \<in> set (rng m). \<not> isl (RenderGoTemplate lib (the (fmlookup m key)) f)"
    using assms validate_header_map_NilD unfolding Some fails_only_with_def by blast
  from render_headers_total [OF this, of what fmempty] show ?thesis
    by (auto simp: render_header_map_def Some)
qed (simp add: render_header_map_def)

lemma generate_headers_total:
  assumes "validateRequestHeaders lib rng k = []" and "\<forall>t \<in> header_templates rng k. \<not> fails_only_with lib f t"
    and "kp \<in> set (wk_Ports k)"
  shows "\<exists>r. generate_headers lib rng f (wkp_HTTPProxy kp) = Inr r"
proof (cases "Option.bind (wkp_HTTPProxy kp) hp_RequestHeaders")
  case (Some hdrs)
  then obtain proxy where proxy: "wkp_HTTPProxy kp = Some proxy" "hp_RequestHeaders proxy = Some hdrs"
    by (auto simp: bind_eq_Some_conv)
  from assms(3) obtain i where "i < length (wk_Ports k)" "wk_Ports k ! i = kp" by (auto simp: in_set_conv_nth)
  then have "(i, kp) \<in> set (enumerate 0 (wk_Ports k))" by (auto simp: in_set_enumerate_eq)
  from concat_map_NilD [OF assms(1) [unfolded validateRequestHeaders_def] this] proxy
  obtain path1 path2 where "validate_header_map lib rng path1 (hdr_Set hdrs) = []"
    "validate_header_map lib rng path2 (hdr_Add hdrs) = []"
    by (auto simp: Let_def)
  moreover have "\<not> fails_only_with lib f (the (fmlookup m key))"
    if "Some m \<in> {hdr_Set hdrs, hdr_Add hdrs}" "key \<in> set (rng m)" for m key
    using assms(2,3) proxy that unfolding header_templates_def by blast
  ultimately obtain s a where "render_header_map lib rng f ''set'' (hdr_Set hdrs) = Inr s"
      "render_header_map lib rng f ''add'' (hdr_Add hdrs) = Inr a"
    using render_header_map_total by (metis insertCI)
  with Some show ?thesis by (simp add: generate_headers_def)
qed (simp add: generate_headers_def)

lemma http_port_in_kind: "http_port k p = Some kp \<Longrightarrow> kp \<in> set (wk_Ports k)"
  by (auto simp: http_port_def dest: map_by_SomeD split: option.splits ImagePortProtocol.splits)

lemma generate_routes_total:
  "\<forall>p kp. http_port k p = Some kp \<longrightarrow> (\<exists>r. mk p kp = Inr r) \<Longrightarrow> \<exists>rs. generate_routes mk k ports = Inr rs"
  by (induction ports) (auto split: option.splits sum.splits, metis sum.distinct(1))

text \<open>
  Accepted kinds generate. For a kind that the create webhook admits, and every Workspace, the Service
  can be generated: there is no duplicate port and no panic. So can the StatefulSet and the VirtualService, unless a
  template that renders in the webhook fails with the prefixes of the Workspace.
\<close>

lemma accepted_generates:
  assumes "admitted (Kind_ValidateCreate lib rng kord k)" and "kind_schema_ok k" and "key_order kord"
    and "v \<in> set (wk_ImageConfigValues k)"
    and "\<forall>d \<in> set (pv_Data (wpt_Volumes (ws_PodTemplate w))). pvm_ReadOnly d \<noteq> None"
  defines "f \<equiv> httpPathPrefixFunc w (ics_Ports (ic_Spec v))"
  shows "(\<exists>sts. generateStatefulSet lib w k (ic_Spec v) pspec sa = Inr sts) \<or> (\<exists>t \<in> env_templates k. fails_only_with lib f t)"
    and "\<exists>svc. generateService w (ic_Spec v) = Inr svc"
    and "(\<exists>vs. generateVirtualService lib rng cfg w k svc (ic_Spec v) = Inr vs) \<or> (\<exists>t \<in> header_templates rng k. fails_only_with lib f t)"
proof -
  let ?ports = "ics_Ports (ic_Spec v)"
  note adm = assms(1) [unfolded Kind_ValidateCreate_admitted_iff]
  have ports: "generate_ports container_port {} ?ports = Inr (map container_port ?ports)"
      "generate_ports service_port {} ?ports = Inr (map service_port ?ports)"
    using accepted_image_ports(1) [OF assms(1-4)] by (simp_all add: generate_ports_Inr_iff)
  obtain st where st: "generate_volumes (wpt_Volumes (ws_PodTemplate w)) (wk_PodTemplate k) = Inr st"
    using generate_volumes_total [OF assms(5)] by blast
  obtain p1 p2 p3 where names: "generateNamePrefix (ws_Name w) maxServiceNameLength = Some p1"
      "generateNamePrefix (ws_Name w) maxStatefulSetNameLength = Some p2"
      "generateNamePrefix (ws_Name w) maxVirtualServiceNameLength = Some p3"
    using name_prefix_total by metis
  show "\<exists>svc. generateService w (ic_Spec v) = Inr svc"
    using ports names by (simp add: generateService_def Let_def)
  show "(\<exists>sts. generateStatefulSet lib w k (ic_Spec v) pspec sa = Inr sts) \<or> (\<exists>t \<in> env_templates k. fails_only_with lib f t)"
  proof (rule disjCI)
    assume "\<not> (\<exists>t \<in> env_templates k. fails_only_with lib f t)"
    then have "\<forall>e \<in> set (kpt_ExtraEnv (wk_PodTemplate k)). env_Value e \<noteq> [] \<longrightarrow> \<not> isl (RenderGoTemplate lib (env_Value e) f)"
      using validateExtraEnv_NilD adm by (auto simp: env_templates_def fails_only_with_def)
    from render_env_total [OF this] ports st names
    show "\<exists>sts. generateStatefulSet lib w k (ic_Spec v) pspec sa = Inr sts"
      by (auto simp: generateStatefulSet_def f_def Let_def)
  qed
  show "(\<exists>vs. generateVirtualService lib rng cfg w k svc (ic_Spec v) = Inr vs) \<or> (\<exists>t \<in> header_templates rng k. fails_only_with lib f t)"
  proof (rule disjCI)
    assume "\<not> (\<exists>t \<in> header_templates rng k. fails_only_with lib f t)"
    then have "\<forall>p kp. http_port k p = Some kp \<longrightarrow> (\<exists>r. generateVirtualServiceHTTPRoute lib rng cfg w svc p kp f = Inr r)"
      using generate_headers_total [of lib rng k f] adm http_port_in_kind [of k]
      by (fastforce simp: generateVirtualServiceHTTPRoute_def)
    from generate_routes_total [OF this, of ?ports] names
    show "\<exists>vs. generateVirtualService lib rng cfg w k svc (ic_Spec v) = Inr vs"
      by (auto simp: generateVirtualService_def f_def Let_def)
  qed
qed

section \<open>The objects fit together\<close>

lemma generateService_Inr:
  assumes "generateService w ispec = Inr svc"
  shows "svc_Ports svc = map service_port (ics_Ports ispec)" and "svc_Selector svc = selector_labels w"
    and "om_Namespace (svc_Meta svc) = ws_Namespace w"
  using assms by (auto simp: generateService_def generate_ports_Inr_iff split: option.splits sum.splits)

lemma generate_routes_Inr:
  "generate_routes mk k ports = Inr rs \<Longrightarrow>
     list_all2 (\<lambda>p r. mk p (the (http_port k p)) = Inr r) (filter (\<lambda>p. http_port k p \<noteq> None) ports) rs"
  by (induction ports arbitrary: rs) (auto split: option.splits sum.splits)

lemma generateVirtualService_Inr:
  assumes "generateVirtualService lib rng cfg w k svc ispec = Inr vs"
  shows "map vsr_MatchPrefix (vsv_Http vs) =
      map (\<lambda>p. getWorkspaceConnectPath (ws_Namespace w) (ws_Name w) (ip_Id p))
          (filter (\<lambda>p. http_port k p \<noteq> None) (ics_Ports ispec))"
    and "map vsr_DestPort (vsv_Http vs) =
      map (\<lambda>p. ip_Port p mod 2 ^ 32) (filter (\<lambda>p. http_port k p \<noteq> None) (ics_Ports ispec))"
    and "\<forall>r \<in> set (vsv_Http vs). vsr_DestHost r =
      om_Name (svc_Meta svc) @ ''.'' @ om_Namespace (svc_Meta svc) @ ''.svc.'' @ cfg_ClusterDomain cfg"
proof -
  let ?P = "\<lambda>p r. generateVirtualServiceHTTPRoute lib rng cfg w svc p (the (http_port k p))
      (httpPathPrefixFunc w (ics_Ports ispec)) = Inr r"
  from assms have "list_all2 ?P (filter (\<lambda>p. http_port k p \<noteq> None) (ics_Ports ispec)) (vsv_Http vs)"
    using generate_routes_Inr
    by (auto simp: generateVirtualService_def Let_def split: option.splits sum.splits)
  then show "map vsr_MatchPrefix (vsv_Http vs) =
      map (\<lambda>p. getWorkspaceConnectPath (ws_Namespace w) (ws_Name w) (ip_Id p))
          (filter (\<lambda>p. http_port k p \<noteq> None) (ics_Ports ispec))"
    "map vsr_DestPort (vsv_Http vs) =
      map (\<lambda>p. ip_Port p mod 2 ^ 32) (filter (\<lambda>p. http_port k p \<noteq> None) (ics_Ports ispec))"
    "\<forall>r \<in> set (vsv_Http vs). vsr_DestHost r =
      om_Name (svc_Meta svc) @ ''.'' @ om_Namespace (svc_Meta svc) @ ''.svc.'' @ cfg_ClusterDomain cfg"
    by (induction rule: list_all2_induct)
       (auto simp: generateVirtualServiceHTTPRoute_def split: sum.splits)
qed

definition image_spec_ok :: "ImageConfigSpec \<Rightarrow> bool" where
  "image_spec_ok ispec \<longleftrightarrow>
     distinct (map ip_Id (ics_Ports ispec)) \<and>
     (\<forall>p \<in> set (ics_Ports ispec). 1 \<le> ip_Port p \<and> ip_Port p \<le> 65535 \<and> path_segment (ip_Id p))"

lemma distinct_connect_paths:
  assumes "path_segment ns" "path_segment w" and "distinct (map ip_Id ps)" and "\<forall>p \<in> set ps. path_segment (ip_Id p)"
  shows "distinct (map (\<lambda>p. getWorkspaceConnectPath ns w (ip_Id p)) ps)"
  using assms by (auto simp: distinct_map inj_on_def connectPath_inj)

text \<open>
  C24. The objects of a Workspace fit together. The Service selects the Pods of the StatefulSet,
  whatever labels the user adds, and each of its ports targets a port of the main container; in
  Gateway API mode the proxy Service selects them too, its port targets the port the sidecar
  declares, and the route leads to that port. Each route of the VirtualService leads to a port
  of the Service, and no two routes match the same path prefix.
\<close>

theorem objects_fit_together:
  assumes "generateStatefulSet lib w k ispec pspec sa = Inr sts"
    and "generateService w ispec = Inr svc" and "generateVirtualService lib rng cfg w k svc ispec = Inr vs"
    and "image_spec_ok ispec" and "path_segment (ws_Namespace w)" "path_segment (ws_Name w)"
  shows "svc_Selector svc \<subseteq>\<^sub>f pt_Labels (sts_Template sts) \<and>
    svc_Selector (generateKubeRBACProxyService w) \<subseteq>\<^sub>f pt_Labels (sts_Template sts) \<and>
    (\<forall>p \<in> set (svc_Ports svc). \<exists>c \<in> set (pt_Containers (sts_Template sts)).
       svp_TargetPort p \<in> TargetNumber ` set (map ctp_ContainerPort (ctr_Ports c))) \<and>
    (\<forall>sc. fst (generateKubeRBACProxySidecar cfg w k ispec args) = Some sc \<longrightarrow>
       map svp_TargetPort (svc_Ports (generateKubeRBACProxyService w)) = map (TargetName \<circ> ctp_Name) (ctr_Ports sc)) \<and>
    (\<forall>hr. generateGatewayV1HTTPRoute cfg w k (generateKubeRBACProxyService w) ispec = Some hr \<longrightarrow>
       hr_BackendPort hr \<in> set (map svp_Port (svc_Ports (generateKubeRBACProxyService w)))) \<and>
    distinct (map vsr_MatchPrefix (vsv_Http vs)) \<and>
    (\<forall>r \<in> set (vsv_Http vs). vsr_DestPort r \<in> set (map svp_Port (svc_Ports svc)))"
proof -
  obtain labels where l: "pt_Labels (sts_Template sts) = labels ++\<^sub>f selector_labels w" and
    p: "map ctr_Ports (pt_Containers (sts_Template sts)) = [map container_port (ics_Ports ispec)]"
    using generateStatefulSet_Inr [OF assms(1)] by metis
  have sub: "selector_labels w \<subseteq>\<^sub>f pt_Labels (sts_Template sts)"
    by (auto simp: l fmsubset_alt_def fmpred_iff)
  have "workspace_labels w \<subseteq>\<^sub>f selector_labels w"
    by (simp add: workspace_labels_def selector_labels_def workspaceNameLabel_def fmsubset_alt_def fmpred_iff)
  with sub have proxy: "svc_Selector (generateKubeRBACProxyService w) \<subseteq>\<^sub>f pt_Labels (sts_Template sts)"
    by (auto simp: generateKubeRBACProxyService_def fmsubset_alt_def fmpred_iff)
  obtain c where c: "pt_Containers (sts_Template sts) = [c]" "ctr_Ports c = map container_port (ics_Ports ispec)"
    using p by auto
  have ports: "\<forall>p \<in> set (svc_Ports svc). \<exists>c \<in> set (pt_Containers (sts_Template sts)).
       svp_TargetPort p \<in> TargetNumber ` set (map ctp_ContainerPort (ctr_Ports c))"
    using generateService_Inr(1) [OF assms(2)] by (auto simp: c service_port_def container_port_def)
  have sidecar: "map svp_TargetPort (svc_Ports (generateKubeRBACProxyService w)) = map (TargetName \<circ> ctp_Name) (ctr_Ports sc)"
    if "fst (generateKubeRBACProxySidecar cfg w k ispec args) = Some sc" for sc
    using that by (auto simp: generateKubeRBACProxySidecar_def sidecar_container_def
        generateKubeRBACProxyService_def split: option.splits)
  have route: "hr_BackendPort hr \<in> set (map svp_Port (svc_Ports (generateKubeRBACProxyService w)))"
    if "generateGatewayV1HTTPRoute cfg w k (generateKubeRBACProxyService w) ispec = Some hr" for hr
    using that by (auto simp: generateGatewayV1HTTPRoute_def generateKubeRBACProxyService_def split: option.splits)
  let ?http = "filter (\<lambda>p. http_port k p \<noteq> None) (ics_Ports ispec)"
  have "distinct (map ip_Id ?http)" "\<forall>p \<in> set ?http. path_segment (ip_Id p)"
    using assms(4) by (auto simp: image_spec_ok_def distinct_map_filter)
  then have prefixes: "distinct (map vsr_MatchPrefix (vsv_Http vs))"
    unfolding generateVirtualService_Inr(1) [OF assms(3)] by (rule distinct_connect_paths [OF assms(5,6)])
  have small: "ip_Port p mod 2 ^ 32 = ip_Port p" if "p \<in> set (ics_Ports ispec)" for p
    using assms(4) that by (auto simp: image_spec_ok_def)
  have "set (map vsr_DestPort (vsv_Http vs)) \<subseteq> ip_Port ` set (ics_Ports ispec)"
    unfolding generateVirtualService_Inr(2) [OF assms(3)] using small by force
  then have "\<forall>r \<in> set (vsv_Http vs). vsr_DestPort r \<in> set (map svp_Port (svc_Ports svc))"
    using generateService_Inr(1) [OF assms(2)] by (auto simp: service_port_def)
  with sub proxy ports sidecar route prefixes generateService_Inr(2) [OF assms(2)] show ?thesis by simp
qed

section \<open>Examples\<close>

lemma sample_config_lists [simp]:
  "kpt_ExtraVolumes (wk_PodTemplate (sample_kind_with imgs)) = []"
  "kpt_ExtraVolumeMounts (wk_PodTemplate (sample_kind_with imgs)) = []"
  by (simp_all add: sample_kind_with_def sample_template_def)

lemma sample_http_port [simp]:
  "http_port (sample_kind_with imgs) \<lparr>ip_Id = ''http'', ip_Port = 8888, ip_DisplayName = None\<rparr> = Some port_http"
  by (simp add: http_port_def map_by_def)

lemma sample_objects:
  obtains sts svc vs where
    "generateStatefulSet sample_lib sample_ws sample_kind (ic_Spec image_v1) (pc_Spec pod_small) ''sa'' = Inr sts"
    "generateService sample_ws (ic_Spec image_v1) = Inr svc"
    "generateVirtualService sample_lib sample_range cfg sample_ws sample_kind svc (ic_Spec image_v1) = Inr vs"
proof -
  obtain p1 p2 p3 where "generateNamePrefix (ws_Name sample_ws) maxServiceNameLength = Some p1"
      "generateNamePrefix (ws_Name sample_ws) maxStatefulSetNameLength = Some p2"
      "generateNamePrefix (ws_Name sample_ws) maxVirtualServiceNameLength = Some p3"
    using name_prefix_total by metis
  then show ?thesis using that
    by (simp add: generateStatefulSet_def generateService_def generateVirtualService_def Let_def
        generate_volumes_def generateVirtualServiceHTTPRoute_def generate_headers_def del: sample_ws_sel(1))
qed

theorem statefulset_wellformed_witness:
  "\<exists>sts. generateStatefulSet sample_lib sample_ws sample_kind (ic_Spec image_v1) (pc_Spec pod_small) ''sa'' = Inr sts
     \<and> sts_Replicas sts = 1 \<and> sts_Selector sts \<subseteq>\<^sub>f pt_Labels (sts_Template sts)"
proof -
  obtain sts where
    "generateStatefulSet sample_lib sample_ws sample_kind (ic_Spec image_v1) (pc_Spec pod_small) ''sa'' = Inr sts"
    by (rule sample_objects)
  with statefulset_wellformed [OF this] show ?thesis by auto
qed

theorem objects_fit_together_witness:
  "\<exists>sts svc. generateStatefulSet sample_lib sample_ws sample_kind (ic_Spec image_v1) (pc_Spec pod_small) ''sa'' = Inr sts
     \<and> generateService sample_ws (ic_Spec image_v1) = Inr svc \<and> svc_Selector svc \<subseteq>\<^sub>f pt_Labels (sts_Template sts)"
proof -
  obtain sts svc vs where o:
    "generateStatefulSet sample_lib sample_ws sample_kind (ic_Spec image_v1) (pc_Spec pod_small) ''sa'' = Inr sts"
    "generateService sample_ws (ic_Spec image_v1) = Inr svc"
    "generateVirtualService sample_lib sample_range undefined sample_ws sample_kind svc (ic_Spec image_v1) = Inr vs"
    by (rule sample_objects)
  have "image_spec_ok (ic_Spec image_v1)" "path_segment ''team''" "path_segment ''nb''"
    by (simp_all add: image_spec_ok_def path_segment_def)
  with objects_fit_together [OF o] o show ?thesis by auto
qed

end
