(* ===== verification/Cluster.thy ===== *)
theory Cluster
  imports Objects_Correct Workspace_Webhook
begin

text \<open>
  The cluster as the admission webhooks see it: the stored WorkspaceKinds and Workspaces, and the
  requests the API server lets through. A request for a kind goes through the checks of
  \<open>Kind_Webhook\<close>, one for a Workspace through those of \<open>Workspace_Webhook\<close>. The CRD schema is part of
  the guards: list keys are unique, \<open>spec.kind\<close> of a Workspace is immutable, and
  \<open>readOnly\<close> of a data volume has a default.

  A webhook decides on what it reads: the Workspaces of a kind, the kind of a Workspace, or the count in
  the status of a kind. Any of these can be out of date when the request is stored. A step takes whatever the
  webhook was answered, and \<open>cl_Raced\<close>, which no component of the program keeps, notes the kinds for
  which a request was admitted on an answer that was not that of the cluster.

  The invariant is that every stored kind would pass the create checks, and that every Workspace of a
  kind that is not noted selects options its kind has. It follows that the controller can resolve the options of
  such a Workspace and generate its objects.
\<close>

record cluster =
  cl_Kinds :: "string \<rightharpoonup> WorkspaceKind"
  cl_Workspaces :: "Workspace list"
  cl_Raced :: "string set"

definition note_race :: "bool \<Rightarrow> string \<Rightarrow> cluster \<Rightarrow> cluster" where
  "note_race stale n s = (if stale then s\<lparr>cl_Raced := insert n (cl_Raced s)\<rparr> else s)"

definition workspaces_of_kind :: "cluster \<Rightarrow> string \<Rightarrow> Workspace list" where
  "workspaces_of_kind s name = filter (\<lambda>w. spec_Kind (ws_Spec w) = name) (cl_Workspaces s)"

definition cluster_lister :: "cluster \<Rightarrow> kind_lister" where
  "cluster_lister s name = Inr (workspaces_of_kind s name)"

definition cluster_getter :: "cluster \<Rightarrow> kind_getter" where
  "cluster_getter s name = (case cl_Kinds s name of Some k \<Rightarrow> Inr k | None \<Rightarrow> Inl (NotFound name))"

definition workspace_schema_ok :: "Workspace \<Rightarrow> bool" where
  "workspace_schema_ok w \<longleftrightarrow> (\<forall>d \<in> set (pv_Data (wpt_Volumes (ws_PodTemplate w))). pvm_ReadOnly d \<noteq> None)"

text \<open>The libraries and iteration orders the webhooks run with.\<close>

type_synonym webhook_env = "validation_lib \<times> range_fn \<times> key_order_fn"

inductive cluster_step :: "webhook_env \<Rightarrow> cluster \<Rightarrow> cluster \<Rightarrow> bool"
  for e :: webhook_env where
  create_kind:
    "e = (lib, rng, kord) \<Longrightarrow> cl_Kinds s (wk_Name k) = None \<Longrightarrow> kind_schema_ok k \<Longrightarrow>
     admitted (Kind_ValidateCreate lib rng kord k) \<Longrightarrow>
     cluster_step e s (s\<lparr>cl_Kinds := (cl_Kinds s)(wk_Name k \<mapsto> k)\<rparr>)"
| update_kind:
    "e = (lib, rng, kord) \<Longrightarrow> cl_Kinds s (wk_Name new) = Some old \<Longrightarrow> kind_schema_ok new \<Longrightarrow>
     int (length (cl_Workspaces s)) < 2 ^ 31 \<Longrightarrow>
     admitted (Kind_ValidateUpdate lib rng kord lister old new) \<Longrightarrow>
     cluster_step e s (note_race (lister (wk_Name new) \<noteq> cluster_lister s (wk_Name new)) (wk_Name new)
       (s\<lparr>cl_Kinds := (cl_Kinds s)(wk_Name new \<mapsto> new)\<rparr>))"
| update_kind_status:
    "cl_Kinds s n = Some k \<Longrightarrow>
     cluster_step e s (s\<lparr>cl_Kinds := (cl_Kinds s)(n \<mapsto> k\<lparr>wk_Status := st\<rparr>)\<rparr>)"
| delete_kind:
    "cl_Kinds s n = Some k \<Longrightarrow> admitted (Kind_ValidateDelete k) \<Longrightarrow>
     cluster_step e s (note_race (kst_Workspaces (wk_Status k) \<noteq> int (length (workspaces_of_kind s n))) n
       (s\<lparr>cl_Kinds := (cl_Kinds s)(n := None)\<rparr>))"
| create_workspace:
    "e = (lib, rng, kord) \<Longrightarrow> workspace_schema_ok w \<Longrightarrow> admitted (WS_ValidateCreate lib getter w) \<Longrightarrow>
     cluster_step e s (note_race (getter (spec_Kind (ws_Spec w)) \<noteq> cluster_getter s (spec_Kind (ws_Spec w))) (spec_Kind (ws_Spec w))
       (s\<lparr>cl_Workspaces := cl_Workspaces s @ [w]\<rparr>))"
| update_workspace:
    "e = (lib, rng, kord) \<Longrightarrow> i < length (cl_Workspaces s) \<Longrightarrow> workspace_schema_ok new \<Longrightarrow>
     spec_Kind (ws_Spec new) = spec_Kind (ws_Spec (cl_Workspaces s ! i)) \<Longrightarrow>
     admitted (WS_ValidateUpdate lib getter (cl_Workspaces s ! i) new) \<Longrightarrow>
     cluster_step e s (note_race (getter (spec_Kind (ws_Spec new)) \<noteq> cluster_getter s (spec_Kind (ws_Spec new))) (spec_Kind (ws_Spec new))
       (s\<lparr>cl_Workspaces := (cl_Workspaces s)[i := new]\<rparr>))"
| delete_workspace:
    "i < length (cl_Workspaces s) \<Longrightarrow>
     cluster_step e s (s\<lparr>cl_Workspaces := take i (cl_Workspaces s) @ drop (Suc i) (cl_Workspaces s)\<rparr>)"

inductive_cases cluster_stepE: "cluster_step e s s'"

definition empty_cluster :: cluster where
  "empty_cluster = \<lparr>cl_Kinds = Map.empty, cl_Workspaces = [], cl_Raced = {}\<rparr>"

definition reachable :: "webhook_env \<Rightarrow> cluster \<Rightarrow> bool" where
  "reachable e s \<longleftrightarrow> (cluster_step e)\<^sup>*\<^sup>* empty_cluster s"

section \<open>The invariant\<close>

definition kinds_ok :: "webhook_env \<Rightarrow> cluster \<Rightarrow> bool" where
  "kinds_ok e s \<longleftrightarrow>
     (\<forall>n k. cl_Kinds s n = Some k \<longrightarrow> wk_Name k = n \<and> kind_schema_ok k \<and>
        (case e of (lib, rng, kord) \<Rightarrow> admitted (Kind_ValidateCreate lib rng kord k)))"

definition workspaces_ok :: "cluster \<Rightarrow> bool" where
  "workspaces_ok s \<longleftrightarrow>
     (\<forall>w \<in> set (cl_Workspaces s). workspace_schema_ok w \<and>
        (spec_Kind (ws_Spec w) \<notin> cl_Raced s \<longrightarrow> (\<exists>k. cl_Kinds s (spec_Kind (ws_Spec w)) = Some k \<and> options_exist w k)))"

lemma note_race_sel [simp]:
  "cl_Kinds (note_race stale n s) = cl_Kinds s" "cl_Workspaces (note_race stale n s) = cl_Workspaces s"
  "n' \<in> cl_Raced (note_race stale n s) \<longleftrightarrow> n' \<in> cl_Raced s \<or> stale \<and> n' = n"
  by (auto simp: note_race_def)

text \<open>What the invariant says of one Workspace after a step.\<close>

lemma workspaces_okI:
  "(\<And>w. w \<in> set (cl_Workspaces s) \<Longrightarrow> workspace_schema_ok w) \<Longrightarrow>
   (\<And>w. w \<in> set (cl_Workspaces s) \<Longrightarrow> spec_Kind (ws_Spec w) \<notin> cl_Raced s \<Longrightarrow>
      \<exists>k. cl_Kinds s (spec_Kind (ws_Spec w)) = Some k \<and> options_exist w k) \<Longrightarrow> workspaces_ok s"
  by (simp add: workspaces_ok_def)

lemma workspaces_okD:
  assumes "workspaces_ok s" and "w \<in> set (cl_Workspaces s)"
  shows "workspace_schema_ok w"
    and "spec_Kind (ws_Spec w) \<notin> cl_Raced s \<Longrightarrow> \<exists>k. cl_Kinds s (spec_Kind (ws_Spec w)) = Some k \<and> options_exist w k"
  using assms by (simp_all add: workspaces_ok_def)

text \<open>The checks do not look at the status.\<close>

lemma checks_ignore_status:
  "kind_schema_ok (k\<lparr>wk_Status := st\<rparr>) = kind_schema_ok k"
  "admitted (Kind_ValidateCreate lib rng kord (k\<lparr>wk_Status := st\<rparr>)) = admitted (Kind_ValidateCreate lib rng kord k)"
  "options_exist w (k\<lparr>wk_Status := st\<rparr>) = options_exist w k"
proof -
  show "kind_schema_ok (k\<lparr>wk_Status := st\<rparr>) = kind_schema_ok k" by (simp add: kind_schema_ok_def)
  show "options_exist w (k\<lparr>wk_Status := st\<rparr>) = options_exist w k" by (simp add: options_exist_def)
  have "wk_Spec (k\<lparr>wk_Status := st\<rparr>) = wk_Spec k" by simp
  note checks = checks_cong [of "k\<lparr>wk_Status := st\<rparr>" k, unfolded this, OF refl]
  show "admitted (Kind_ValidateCreate lib rng kord (k\<lparr>wk_Status := st\<rparr>)) = admitted (Kind_ValidateCreate lib rng kord k)"
    unfolding Kind_ValidateCreate_admitted_iff checks(1-5) checks(6) [OF refl]
    by (simp add: validateDefaultImageConfig_def validateDefaultPodConfig_def validate_image_values_def
        image_redirect_errors_def pod_redirect_errors_def)
qed

lemma workspaces_of_kind_iff [simp]:
  "w \<in> set (workspaces_of_kind s n) \<longleftrightarrow> w \<in> set (cl_Workspaces s) \<and> spec_Kind (ws_Spec w) = n"
  by (auto simp: workspaces_of_kind_def)

lemma workspaces_of_kind_length: "length (workspaces_of_kind s n) \<le> length (cl_Workspaces s)"
  by (simp add: workspaces_of_kind_def)

lemma kinds_okD:
  "kinds_ok (lib, rng, kord) s \<Longrightarrow> cl_Kinds s n = Some k \<Longrightarrow>
     wk_Name k = n \<and> kind_schema_ok k \<and> admitted (Kind_ValidateCreate lib rng kord k)"
  by (simp add: kinds_ok_def)

lemma step_kinds_ok:
  assumes "cluster_step (lib, rng, kord) s s'" and "kinds_ok (lib, rng, kord) s" and "key_order kord"
  shows "kinds_ok (lib, rng, kord) s'"
  using assms(1)
proof (cases rule: cluster_step.cases)
  case (update_kind lib' rng' kord' new old)
  with kinds_okD [OF assms(2)] update_keeps_valid [OF assms(3), of old new lib rng]
  have "admitted (Kind_ValidateCreate lib rng kord new)" by blast
  with update_kind assms(2) show ?thesis by (auto simp: kinds_ok_def)
qed (use assms(2) in \<open>auto simp: kinds_ok_def checks_ignore_status\<close>)

text \<open>Workspaces keep their options when a kind is updated, and their kind when one is deleted.\<close>

lemma update_keeps_options_exist:
  assumes "key_order kord" and "kind_schema_ok old" and "kind_schema_ok new" and "wk_Name old = wk_Name new"
    and "int (length (cl_Workspaces s)) < 2 ^ 31"
    and "admitted (Kind_ValidateUpdate lib rng kord lister old new)" and "lister (wk_Name new) = cluster_lister s (wk_Name new)"
    and "w \<in> set (cl_Workspaces s)" "spec_Kind (ws_Spec w) = wk_Name new" and "options_exist w old"
  shows "options_exist w new"
proof -
  have "int (length (workspaces_of_kind s (wk_Name old))) < 2 ^ 31"
    using assms(5) workspaces_of_kind_length [of s "wk_Name old"] by linarith
  moreover have "lister (wk_Name old) = Inr (workspaces_of_kind s (wk_Name old))"
    using assms(4,7) by (simp add: cluster_lister_def)
  moreover have "w \<in> set (workspaces_of_kind s (wk_Name old))" using assms(4,8,9) by simp
  ultimately have kept: "\<forall>old' \<in> set (wk_ImageConfigValues old). ic_Id old' = po_ImageConfig (ws_Options w) \<longrightarrow>
       po_ImageConfig (ws_Options w) \<in> ic_Id ` set (wk_ImageConfigValues new)"
    "\<forall>old' \<in> set (wk_PodConfigValues old). pc_Id old' = po_PodConfig (ws_Options w) \<longrightarrow>
       po_PodConfig (ws_Options w) \<in> pc_Id ` set (wk_PodConfigValues new)"
    using update_keeps_used_options [OF assms(1-3,6), of "workspaces_of_kind s (wk_Name old)" w] by (metis image_eqI)+
  from assms(10) have "po_ImageConfig (ws_Options w) \<in> ic_Id ` set (wk_ImageConfigValues old)"
    "po_PodConfig (ws_Options w) \<in> pc_Id ` set (wk_PodConfigValues old)" by (simp_all add: options_exist_def)
  with kept show ?thesis unfolding options_exist_def by (metis imageE)
qed

lemma delete_unused:
  assumes "kst_Workspaces (wk_Status k) = int (length (workspaces_of_kind s n))" and "admitted (Kind_ValidateDelete k)"
    and "w \<in> set (cl_Workspaces s)"
  shows "spec_Kind (ws_Spec w) \<noteq> n"
proof -
  have "workspaces_of_kind s n = []" using assms(1,2) by (auto simp: Kind_ValidateDelete_def split: if_splits)
  then have "w \<notin> set (workspaces_of_kind s n)" by (metis empty_iff list.set(1))
  with assms(3) show ?thesis by simp
qed

lemma step_workspaces_ok:
  assumes "cluster_step (lib, rng, kord) s s'" and "kinds_ok (lib, rng, kord) s" and "workspaces_ok s"
    and "key_order kord"
  shows "workspaces_ok s'"
  using assms(1)
proof (cases rule: cluster_step.cases)
  case (create_kind lib' rng' kord' k)
  then show ?thesis using assms(3) by (fastforce simp: workspaces_ok_def)
next
  case (update_kind lib' rng' kord' new old lister)
  note old = kinds_okD [OF assms(2) update_kind(3)]
  show ?thesis
  proof (rule workspaces_okI)
    fix w assume w: "w \<in> set (cl_Workspaces s')" "spec_Kind (ws_Spec w) \<notin> cl_Raced s'"
    then have in_s: "w \<in> set (cl_Workspaces s)" "spec_Kind (ws_Spec w) \<notin> cl_Raced s" by (simp_all add: update_kind)
    note ok = workspaces_okD(2) [OF assms(3) in_s]
    show "\<exists>k. cl_Kinds s' (spec_Kind (ws_Spec w)) = Some k \<and> options_exist w k"
    proof (cases "spec_Kind (ws_Spec w) = wk_Name new")
      case True
      with w(2) have "lister (wk_Name new) = cluster_lister s (wk_Name new)" by (simp add: update_kind)
      with update_keeps_options_exist [of kord old new s lib rng lister w] assms(4) old update_kind in_s True ok
      have "options_exist w new" by auto
      with True show ?thesis by (simp add: update_kind)
    qed (use ok in \<open>simp add: update_kind\<close>)
  qed (use workspaces_okD(1) [OF assms(3)] in \<open>simp add: update_kind\<close>)
next
  case (update_kind_status n k st)
  then show ?thesis using assms(3) by (auto simp: workspaces_ok_def checks_ignore_status)
next
  case (delete_kind n k)
  then show ?thesis using assms(3) delete_unused [of k s n] by (auto simp: workspaces_ok_def)
next
  case (create_workspace lib' rng' kord' w getter)
  then show ?thesis using assms(3)
    by (auto simp: workspaces_ok_def WS_create_admitted_iff cluster_getter_def split: option.splits)
next
  case (update_workspace lib' rng' kord' i new getter)
  let ?old = "cl_Workspaces s ! i" and ?n = "spec_Kind (ws_Spec new)"
  have old: "?old \<in> set (cl_Workspaces s)" using update_workspace(3) by simp
  show ?thesis
  proof (rule workspaces_okI)
    fix w assume w: "w \<in> set (cl_Workspaces s')" "spec_Kind (ws_Spec w) \<notin> cl_Raced s'"
    then consider (other) "w \<in> set (cl_Workspaces s)" | (new) "w = new"
      using set_update_subset_insert [of "cl_Workspaces s" i new] by (auto simp: update_workspace)
    then show "\<exists>k. cl_Kinds s' (spec_Kind (ws_Spec w)) = Some k \<and> options_exist w k"
    proof cases
      case other
      with workspaces_okD(2) [OF assms(3)] w(2) show ?thesis by (simp add: update_workspace)
    next
      case new
      with w(2) have fresh: "?n \<notin> cl_Raced s" "getter ?n = cluster_getter s ?n" by (simp_all add: update_workspace)
      with workspaces_okD(2) [OF assms(3) old] update_workspace(5) obtain k
        where k: "cl_Kinds s ?n = Some k" "options_exist ?old k" by auto
      then have "options_exist new k"
        using WS_update_admitted(1) [OF update_workspace(6,5)] fresh update_workspace(5) by (simp add: cluster_getter_def)
      with k new show ?thesis by (simp add: update_workspace)
    qed
  next
    fix w assume "w \<in> set (cl_Workspaces s')"
    then show "workspace_schema_ok w"
      using workspaces_okD(1) [OF assms(3)] update_workspace(4) set_update_subset_insert [of "cl_Workspaces s" i new]
      by (auto simp: update_workspace)
  qed
next
  case (delete_workspace i)
  then show ?thesis using assms(3)
    by (auto simp: workspaces_ok_def dest: in_set_takeD in_set_dropD)
qed

lemma reachable_ok:
  assumes "reachable (lib, rng, kord) s" and "key_order kord"
  shows "kinds_ok (lib, rng, kord) s \<and> workspaces_ok s"
  using assms(1) unfolding reachable_def
proof (induction rule: rtranclp_induct)
  case base
  show ?case by (simp add: empty_cluster_def kinds_ok_def workspaces_ok_def)
next
  case (step s s')
  then show ?case using step_kinds_ok step_workspaces_ok assms(2) by blast
qed

text \<open>What the invariant gives the controller for one Workspace.\<close>

lemma admitted_options_resolve:
  assumes "key_order kord" and "kind_schema_ok k" and "admitted (Kind_ValidateCreate lib rng kord k)"
    and "options_exist w k"
  shows "\<exists>c d ch. getImageConfig w k = Inr (c, d, ch)" and "\<exists>c d ch. getPodConfig w k = Inr (c, d, ch)"
proof -
  from assms(3) have "image_redirect_errors kord k = []" "pod_redirect_errors kord k = []"
    by (simp_all add: Kind_ValidateCreate_admitted_iff)
  then have "validateImageConfigRedirects (wk_ImageConfigValues k) (map_entries kord (image_redirects k)) = []"
    "validatePodConfigRedirects (wk_PodConfigValues k) (map_entries kord (pod_redirects k)) = []"
    by (simp_all add: image_redirect_errors_def pod_redirect_errors_def)
  with assms(2,4) show "\<exists>c d ch. getImageConfig w k = Inr (c, d, ch)" and "\<exists>c d ch. getPodConfig w k = Inr (c, d, ch)"
    by (auto intro!: image_option.get_total pod_option.get_total enumerates_map_entries [OF assms(1)]
        simp: kind_schema_ok_def options_exist_def)
qed

section \<open>Every stored Workspace can be reconciled\<close>

text \<open>
  C1. However requests for WorkspaceKinds and Workspaces are interleaved, the two webhooks together
  keep the cluster reconcilable. Every stored kind would pass the checks of a creation. And for every
  Workspace of a kind for which no request was admitted on stale answers (an outdated list of the Workspaces
  of a kind, an outdated kind, or an outdated count in its status): its kind is stored, its image and pod
  config resolve through the redirects of the kind, and the Service generated from them exists; so do the
  StatefulSet and the VirtualService, unless a template of the kind that rendered with the dummy prefix of the
  webhook fails to render with the prefixes of this Workspace.
\<close>

theorem reachable_reconcilable:
  assumes "reachable (lib, rng, kord) s" and "key_order kord"
  shows "(\<forall>n k. cl_Kinds s n = Some k \<longrightarrow> admitted (Kind_ValidateCreate lib rng kord k)) \<and>
    (\<forall>w \<in> set (cl_Workspaces s). spec_Kind (ws_Spec w) \<notin> cl_Raced s \<longrightarrow>
      (\<exists>k v d ch p d' ch'. cl_Kinds s (spec_Kind (ws_Spec w)) = Some k \<and>
        getImageConfig w k = Inr (v, d, ch) \<and> getPodConfig w k = Inr (p, d', ch') \<and>
        (\<exists>svc. generateService w (ic_Spec v) = Inr svc) \<and>
        (\<forall>sa. (\<exists>sts. generateStatefulSet lib w k (ic_Spec v) (pc_Spec p) sa = Inr sts) \<or>
           (\<exists>t \<in> env_templates k. fails_only_with lib (httpPathPrefixFunc w (ics_Ports (ic_Spec v))) t)) \<and>
        (\<forall>cfg svc. (\<exists>vs. generateVirtualService lib rng cfg w k svc (ic_Spec v) = Inr vs) \<or>
           (\<exists>t \<in> header_templates rng k. fails_only_with lib (httpPathPrefixFunc w (ics_Ports (ic_Spec v))) t))))"
proof (intro conjI ballI impI)
  note ok = reachable_ok [OF assms]
  show "\<forall>n k. cl_Kinds s n = Some k \<longrightarrow> admitted (Kind_ValidateCreate lib rng kord k)"
    using kinds_okD [OF conjunct1 [OF ok]] by blast
  fix w assume w: "w \<in> set (cl_Workspaces s)" "spec_Kind (ws_Spec w) \<notin> cl_Raced s"
  from workspaces_okD [OF conjunct2 [OF ok] w(1)] w(2) obtain k where k: "cl_Kinds s (spec_Kind (ws_Spec w)) = Some k" "options_exist w k"
    and ro: "\<forall>d \<in> set (pv_Data (wpt_Volumes (ws_PodTemplate w))). pvm_ReadOnly d \<noteq> None"
    by (auto simp: workspace_schema_ok_def)
  note kind = kinds_okD [OF conjunct1 [OF ok] k(1)]
  from admitted_options_resolve [OF assms(2) _ _ k(2)] kind obtain v d ch p d' ch'
    where o: "getImageConfig w k = Inr (v, d, ch)" "getPodConfig w k = Inr (p, d', ch')" by blast
  then have v: "v \<in> set (wk_ImageConfigValues k)" using image_option.get_current by blast
  note gen = accepted_generates [of lib rng kord k v w, OF _ _ assms(2) v ro]
  show "\<exists>k v d ch p d' ch'. cl_Kinds s (spec_Kind (ws_Spec w)) = Some k \<and>
      getImageConfig w k = Inr (v, d, ch) \<and> getPodConfig w k = Inr (p, d', ch') \<and>
      (\<exists>svc. generateService w (ic_Spec v) = Inr svc) \<and>
      (\<forall>sa. (\<exists>sts. generateStatefulSet lib w k (ic_Spec v) (pc_Spec p) sa = Inr sts) \<or>
         (\<exists>t \<in> env_templates k. fails_only_with lib (httpPathPrefixFunc w (ics_Ports (ic_Spec v))) t)) \<and>
      (\<forall>cfg svc. (\<exists>vs. generateVirtualService lib rng cfg w k svc (ic_Spec v) = Inr vs) \<or>
         (\<exists>t \<in> header_templates rng k. fails_only_with lib (httpPathPrefixFunc w (ics_Ports (ic_Spec v))) t))"
    using kind
    by (intro exI [of _ k] exI [of _ v] exI [of _ d] exI [of _ ch] exI [of _ p] exI [of _ d'] exI [of _ ch'] conjI allI k(1) o gen) auto
qed

definition sample_cluster :: cluster where
  "sample_cluster = \<lparr>cl_Kinds = [''jupyterlab'' \<mapsto> sample_kind], cl_Workspaces = [sample_ws], cl_Raced = {}\<rparr>"

lemma sample_reachable: "reachable (sample_lib, sample_range, sample_keys) sample_cluster"
proof -
  let ?e = "(sample_lib, sample_range, sample_keys)"
  let ?s = "empty_cluster\<lparr>cl_Kinds := (cl_Kinds empty_cluster)(wk_Name sample_kind \<mapsto> sample_kind)\<rparr>"
  have "cluster_step ?e empty_cluster ?s"
    by (rule create_kind [OF refl _ sample_schema_ok(1) sample_create_admitted]) (simp add: empty_cluster_def)
  moreover have "cluster_step ?e ?s (note_race (cluster_getter ?s (spec_Kind (ws_Spec sample_ws)) \<noteq>
      cluster_getter ?s (spec_Kind (ws_Spec sample_ws))) (spec_Kind (ws_Spec sample_ws)) (?s\<lparr>cl_Workspaces := cl_Workspaces ?s @ [sample_ws]\<rparr>))"
    by (rule create_workspace [OF refl])
       (simp_all add: WS_create_admitted_iff cluster_getter_def options_exist_def workspace_schema_ok_def
          WS_validatePodTemplatePodMetadata_def Let_def)
  then have "cluster_step ?e ?s sample_cluster" by (simp add: note_race_def sample_cluster_def empty_cluster_def)
  ultimately show ?thesis unfolding reachable_def by (metis rtranclp.simps)
qed

theorem reachable_reconcilable_witness:
  "\<exists>v d ch p d' ch' svc. getImageConfig sample_ws sample_kind = Inr (v, d, ch) \<and>
     getPodConfig sample_ws sample_kind = Inr (p, d', ch') \<and> generateService sample_ws (ic_Spec v) = Inr svc"
proof -
  have "sample_ws \<in> set (cl_Workspaces sample_cluster)" "spec_Kind (ws_Spec sample_ws) \<notin> cl_Raced sample_cluster"
    "cl_Kinds sample_cluster (spec_Kind (ws_Spec sample_ws)) = Some sample_kind" by (simp_all add: sample_cluster_def)
  with reachable_reconcilable [OF sample_reachable key_order_sample_keys]
  obtain k v d ch p d' ch' svc where "Some sample_kind = Some k" "getImageConfig sample_ws k = Inr (v, d, ch)"
    "getPodConfig sample_ws k = Inr (p, d', ch')" "generateService sample_ws (ic_Spec v) = Inr svc" by metis
  then show ?thesis by blast
qed

end
