(* ===== verification/Reconcile_Correct.thy ===== *)
theory Reconcile_Correct
  imports Reconcile Cluster
begin

text \<open>
  What a pass of the Workspace reconcile guarantees about the order of its writes. Each guarantee is an
  instance of \<open>guarded_trace\<close>: owned objects are only written once the WorkspaceKind is protected
  by its finalizer, objects the garbage collector cannot reach only once the Workspace has its own
  finalizer, and that finalizer is only given up once those objects are gone.
\<close>

section \<open>What every passage may send\<close>

lemma emits_updateWorkspaceState [emit_intros]:
  "(\<And>s. A (WorkspaceWrite (UpdateStatus s))) \<Longrightarrow> emits A (updateWorkspaceState env w state msg)"
  by (auto simp: updateWorkspaceState_def intro!: emit_intros split: option.splits)

lemma emits_generated [emit_intros]:
  "(\<And>s. A (WorkspaceWrite (UpdateStatus s))) \<Longrightarrow> emits A (generated env w msg r)"
  by (auto simp: generated_def intro!: emit_intros split: sum.splits gen_error.splits)

lemma emits_set_owner [emit_intros]: "emits A (set_owner env w meta)"
  by (auto simp: set_owner_def intro!: emit_intros split: sum.splits)

lemma emits_delete_named [emit_intros]: "(\<And>x. A (del x)) \<Longrightarrow> emits A (delete_named api get del)"
  by (auto simp: delete_named_def intro!: emit_intros split: sum.splits api_error.splits option.splits)

lemma emits_reconcile_owned [emit_intros]:
  "(\<And>x. A (crt x)) \<Longrightarrow> (\<And>x. A (upd x)) \<Longrightarrow> (\<And>s. A (WorkspaceWrite (UpdateStatus s))) \<Longrightarrow>
     emits A (reconcile_owned env w rq msg meta crt upd resp copy owned desired)"
  by (auto simp: reconcile_owned_def Let_def intro!: emit_intros split: list.splits prod.splits)

lemma emits_reconcile_named [emit_intros]:
  "(\<And>x. A (crt x)) \<Longrightarrow> (\<And>x. A (upd x)) \<Longrightarrow> emits A (reconcile_named api ok rq get crt upd copy desired)"
  by (auto simp: reconcile_named_def Let_def intro!: emit_intros split: sum.splits api_error.splits prod.splits)

lemma emits_kind_steps [emit_intros]:
  "(\<And>s. A (WorkspaceWrite (UpdateStatus s))) \<Longrightarrow> emits A (fetch_kind env w)"
  "(\<And>x. A (UpdateKindMeta x)) \<Longrightarrow> emits A (protect_kind env k)"
  "(\<And>s. A (WorkspaceWrite (UpdateStatus s))) \<Longrightarrow> emits A (resolve_options env w k)"
proof -
  assume "\<And>s. A (WorkspaceWrite (UpdateStatus s))"
  then show "emits A (fetch_kind env w)" "emits A (resolve_options env w k)"
    by (auto simp: fetch_kind_def resolve_options_def Let_def intro!: emit_intros split: sum.splits api_error.splits prod.splits)
qed (auto simp: protect_kind_def intro!: emit_intros)

lemma emits_create_service_account [emit_intros]:
  "(\<And>x. A (CreateServiceAccount x)) \<Longrightarrow> (\<And>s. A (WorkspaceWrite (UpdateStatus s))) \<Longrightarrow>
     emits A (create_service_account env w sa)"
  by (auto simp: create_service_account_def Let_def intro!: emit_intros split: sum.splits api_error.splits option.splits)

lemma emits_service_account [emit_intros]:
  "(\<And>x. A (CreateServiceAccount x)) \<Longrightarrow> (\<And>x. A (UpdateServiceAccount x)) \<Longrightarrow>
     (\<And>s. A (WorkspaceWrite (UpdateStatus s))) \<Longrightarrow> emits A (reconcile_service_account env w)"
  by (auto simp: reconcile_service_account_def Let_def intro!: emit_intros split: list.splits prod.splits)

lemma emits_owned_statefulset [emit_intros]:
  "(\<And>x. A (CreateStatefulSet x)) \<Longrightarrow> (\<And>x. A (UpdateStatefulSet x)) \<Longrightarrow>
     (\<And>s. A (WorkspaceWrite (UpdateStatus s))) \<Longrightarrow> emits A (reconcileOwnedStatefulSet env w sts)"
  by (auto simp: reconcileOwnedStatefulSet_def intro!: emit_intros)

lemma emits_build_statefulset [emit_intros]:
  "(\<And>x. A (CreateStatefulSet x)) \<Longrightarrow> (\<And>x. A (UpdateStatefulSet x)) \<Longrightarrow>
     (\<And>s. A (WorkspaceWrite (UpdateStatus s))) \<Longrightarrow> emits A (build_statefulset env w k img pc sa)"
  by (auto simp: build_statefulset_def Let_def intro!: emit_intros)

lemma emits_reconcile_service [emit_intros]:
  "(\<And>x. A (CreateService x)) \<Longrightarrow> (\<And>x. A (UpdateService x)) \<Longrightarrow>
     (\<And>s. A (WorkspaceWrite (UpdateStatus s))) \<Longrightarrow> emits A (reconcile_service env w img)"
  by (auto simp: reconcile_service_def intro!: emit_intros)

lemma emits_prepare_template [emit_intros]: "emits A (prepare_template env w k img sts)"
  by (auto simp: prepare_template_def findOwnedStatefulSet_def intro!: emit_intros split: sum.splits prod.splits)

lemma emits_write_statefulset [emit_intros]:
  "(\<And>x. A (CreateStatefulSet x)) \<Longrightarrow> (\<And>x. A (UpdateStatefulSet x)) \<Longrightarrow>
     (\<And>s. A (WorkspaceWrite (UpdateStatus s))) \<Longrightarrow> emits A (write_statefulset env w k img sts)"
  by (auto simp: write_statefulset_def intro!: emit_intros split: prod.splits)

lemma emits_virtual_service [emit_intros]:
  "(\<And>x. A (CreateVirtualService x)) \<Longrightarrow> (\<And>x. A (UpdateVirtualService x)) \<Longrightarrow>
     (\<And>s. A (WorkspaceWrite (UpdateStatus s))) \<Longrightarrow> emits A (reconcile_virtual_service env w k img svc)"
  by (auto simp: reconcile_virtual_service_def intro!: emit_intros split: sum.splits)

lemma emits_gateway_parts [emit_intros]:
  "(\<And>x. A (UpdateWorkspace x)) \<Longrightarrow> emits A (ensure_workspace_finalizer env w)"
  "(\<And>x. A (CreateConfigMap x)) \<Longrightarrow> (\<And>x. A (UpdateConfigMap x)) \<Longrightarrow> emits A (reconcile_proxy_config_map env w)"
  "(\<And>x. A (CreateService x)) \<Longrightarrow> emits A (reconcile_proxy_service env w)"
  "(\<And>x. A (CreateReferenceGrant x)) \<Longrightarrow> (\<And>x. A (UpdateReferenceGrant x)) \<Longrightarrow> emits A (reconcile_reference_grant env w svc)"
  "(\<And>x. A (CreateHTTPRoute x)) \<Longrightarrow> (\<And>x. A (UpdateHTTPRoute x)) \<Longrightarrow> (\<And>s. A (WorkspaceWrite (UpdateStatus s))) \<Longrightarrow>
     emits A (reconcile_http_route env w k img svc)"
  by (auto simp: ensure_workspace_finalizer_def reconcile_proxy_config_map_def reconcile_proxy_service_def
      reconcile_reference_grant_def reconcile_http_route_def Let_def intro!: emit_intros
      split: sum.splits api_error.splits option.splits)

lemma emits_role_bindings [emit_intros]:
  "(\<And>x. A (RoleBindingWrite x)) \<Longrightarrow> emits A (role_bindings_step env w k sa)"
  by (auto simp: emits_def role_bindings_step_def split: prod.splits)

lemma emits_fetch_pod [emit_intros]: "emits A (fetch_pod env sts)"
  by (auto simp: fetch_pod_def intro!: emit_intros split: sum.splits api_error.splits)

section \<open>Objects are written under a protected kind\<close>

fun owned_write :: "api_write \<Rightarrow> bool" where
  "owned_write (UpdateKindMeta _) = False"
| "owned_write (UpdateWorkspace _) = False"
| "owned_write (DeleteClusterRoleBinding _) = False"
| "owned_write (DeleteHTTPRoute _) = False"
| "owned_write (WorkspaceWrite _) = False"
| "owned_write _ = True"

text \<open>The kind has the finalizer, or the pass added it to this very kind and the API server accepted.\<close>

definition kind_protected :: "WorkspaceKind \<Rightarrow> trace \<Rightarrow> bool" where
  "kind_protected k t \<longleftrightarrow>
     WorkspaceKindFinalizer \<in> set (om_Finalizers (wk_Meta k)) \<or> (UpdateKindMeta (add_kind_finalizer k), None) \<in> set t"

text \<open>A kind that is being deleted can be given no finalizer any more; the pass goes on with it as it is.\<close>

definition kind_settled :: "WorkspaceKind \<Rightarrow> trace \<Rightarrow> bool" where
  "kind_settled k t \<longleftrightarrow> om_DeletionTimestamp (wk_Meta k) \<noteq> None \<or> kind_protected k t"

interpretation kind_guard: guarded_trace "kind_settled k" owned_write for k
  by unfold_locales (auto simp: kind_settled_def kind_protected_def)

lemma update_object_Inr:
  "update_object api rq upd resp obj t = (Inr x, t') \<Longrightarrow>
     api t (upd obj) = None \<and> t' = t @ [(upd obj, None)] \<and> x = resp t obj"
  by (auto simp: update_object_def elim!: and_then_InrE split: option.splits api_error.splits if_splits)

lemma update_object_sends:
  "\<exists>x. update_object api rq upd resp obj t = (x, t @ [(upd obj, api t (upd obj))]) \<and>
     (api t (upd obj) = None \<longrightarrow> x = Inr (resp t obj))"
proof (cases "api t (upd obj)")
  case (Some err)
  then show ?thesis
    by (cases err) (auto simp: update_object_def and_then_def ask_def send_def stop_def)
qed (simp add: update_object_def and_then_def ask_def send_def proceed_def)

lemma protect_kind_establishes:
  assumes "protect_kind env k t = (Inr k', t')"
  shows "kind_settled k t'"
proof (cases "om_DeletionTimestamp (wk_Meta k) = None \<and> WorkspaceKindFinalizer \<notin> set (om_Finalizers (wk_Meta k))")
  case True
  with assms have "t' = t @ [(UpdateKindMeta (add_kind_finalizer k), None)]"
    by (simp add: protect_kind_def update_object_Inr)
  then show ?thesis by (simp add: kind_settled_def kind_protected_def)
next
  case False
  then show ?thesis by (auto simp: kind_settled_def kind_protected_def)
qed

lemma emits_reconcile_objects: "emits (\<lambda>_. True) (reconcile_objects env k opts)"
  by (auto simp: reconcile_objects_def reconcile_routes_def reconcile_gateway_def Let_def
      intro!: emit_intros split: prod.splits)

lemma fetch_kind_cases:
  "fetch_kind env w t = (r, t') \<Longrightarrow>
     (\<exists>k. r = Inr k \<and> re_GetKind env t (spec_Kind (ws_Spec w)) = Inr k \<and> t' = t) \<or>
     (\<exists>out d. r = Inl out \<and> t' = t @ d \<and> (\<forall>e \<in> set d. \<not> owned_write (fst e)))"
  by (auto simp: fetch_kind_def updateWorkspaceState_def and_then_def ask_def send_def proceed_def stop_def
      split: sum.splits api_error.splits option.splits if_splits)

text \<open>The kind a pass works with, and that it is settled.\<close>

definition pass_kind_settled :: "rec_env \<Rightarrow> Workspace \<Rightarrow> trace \<Rightarrow> bool" where
  "pass_kind_settled env w t \<longleftrightarrow>
     (\<exists>k. re_GetKind env [] (spec_Kind (ws_Spec w)) = Inr k \<and> kind_settled k t)"

interpretation pass_guard: guarded_trace "pass_kind_settled env w" owned_write for env w
  by unfold_locales (auto simp: pass_kind_settled_def kind_settled_def kind_protected_def)

lemma guarded_weaken: "guarded est prot t \<Longrightarrow> (\<And>u. est u \<Longrightarrow> est' u) \<Longrightarrow> guarded est' prot t"
  by (auto simp: guarded_def)

lemma prepare_guarded: "guarded (pass_kind_settled env w) owned_write (snd (prepare env w []))"
proof -
  obtain r t where f: "fetch_kind env w [] = (r, t)" by fastforce
  from fetch_kind_cases [OF this] consider
      (stop) out where "r = Inl out" "\<forall>e \<in> set t. \<not> owned_write (fst e)"
    | (go) k where "r = Inr k" "re_GetKind env [] (spec_Kind (ws_Spec w)) = Inr k" "t = []" by auto
  then show ?thesis
  proof cases
    case stop
    with f show ?thesis by (auto simp: prepare_def and_then_def guarded_def)
  next
    case go
    let ?rest = "and_then (protect_kind env k) (\<lambda>k. and_then (resolve_options env w k) (reconcile_objects env k))"
    have "kind_guard.safe k ?rest"
      by (rule kind_guard.safe_establish)
         (auto intro!: emit_intros emits_reconcile_objects protect_kind_establishes)
    then have "guarded (kind_settled k) owned_write (snd (?rest []))"
      by (simp add: kind_guard.safe_def)
    moreover have "prepare env w [] = ?rest []" using f go by (simp add: prepare_def and_then_def)
    ultimately show ?thesis using go(2) by (auto simp: pass_kind_settled_def elim!: guarded_weaken)
  qed
qed

section \<open>Objects out of reach of the garbage collector\<close>

text \<open>
  The ClusterRoleBinding is not namespaced and the HTTPRoute lives in another namespace, so neither
  can have the Workspace as its owner.
\<close>

fun unowned_write :: "api_write \<Rightarrow> bool" where
  "unowned_write (CreateClusterRoleBinding _) = True"
| "unowned_write (UpdateClusterRoleBinding _) = True"
| "unowned_write (CreateHTTPRoute _) = True"
| "unowned_write (UpdateHTTPRoute _) = True"
| "unowned_write _ = False"

text \<open>
  The Workspace has the finalizer, or an update that adds it to this very Workspace was accepted. The
  status in such an update is that of the pass; the API server ignores it.
\<close>

definition has_finalizer :: "Workspace \<Rightarrow> trace \<Rightarrow> bool" where
  "has_finalizer w t \<longleftrightarrow> WorkspaceFinalizer \<in> set (ws_finalizers w) \<or>
     (\<exists>w'. (UpdateWorkspace w', None) \<in> set t \<and> ws_Spec w' = ws_Spec w \<and>
        ws_Meta w' = (ws_Meta w)\<lparr>om_Finalizers := ws_finalizers w @ [WorkspaceFinalizer]\<rparr>)"

interpretation finalizer_guard: guarded_trace "has_finalizer w" unowned_write for w
  by unfold_locales (auto simp: has_finalizer_def)

lemma ensure_finalizer_establishes:
  assumes "ensure_workspace_finalizer env w t = (Inr w', t')"
  shows "has_finalizer w t'"
  using assms
  by (auto simp: ensure_workspace_finalizer_def has_finalizer_def set_ws_finalizers_def ws_finalizers_def
      dest!: update_object_Inr split: if_splits)

lemma has_finalizer_same:
  "ws_Meta w = ws_Meta w0 \<and> ws_Spec w = ws_Spec w0 \<Longrightarrow> has_finalizer w = has_finalizer w0"
  by (intro ext) (simp add: has_finalizer_def ws_finalizers_def)

lemma gateway_safe:
  assumes "ws_Meta w = ws_Meta w0 \<and> ws_Spec w = ws_Spec w0"
  shows "finalizer_guard.safe w0 (reconcile_gateway env w k img sa)"
  unfolding reconcile_gateway_def Let_def
proof (rule finalizer_guard.safe_establish)
  show "has_finalizer w0 t'" if "ensure_workspace_finalizer env w t = (Inr x, t')" for t x t'
    using ensure_finalizer_establishes [OF that] has_finalizer_same [OF assms] by simp
qed (auto intro!: emit_intros)

lemma routes_safe:
  "ws_Meta w = ws_Meta w0 \<and> ws_Spec w = ws_Spec w0 \<Longrightarrow> finalizer_guard.safe w0 (reconcile_routes env w k img svc sa)"
  by (auto simp: reconcile_routes_def gateway_safe intro!: emit_intros finalizer_guard.safe_harmless)

lemma objects_safe:
  assumes "ws_Meta w = ws_Meta w0 \<and> ws_Spec w = ws_Spec w0"
  shows "finalizer_guard.safe w0 (reconcile_objects env k (w, img, pc))"
  unfolding reconcile_objects_def prod.case
  by (intro finalizer_guard.safe_and_then finalizer_guard.safe_case_prod routes_safe [OF assms])
     (auto intro!: finalizer_guard.safe_harmless emit_intros)

lemma get_config_status [simp]:
  "getImageConfig (w\<lparr>ws_Status := st\<rparr>) k = getImageConfig w k" "getPodConfig (w\<lparr>ws_Status := st\<rparr>) k = getPodConfig w k"
  by (simp_all add: getImageConfig_def getPodConfig_def)

lemma updateWorkspaceState_stops [simp]: "\<not> updateWorkspaceState env w state msg t = (Inr x, t')"
  by (auto simp: updateWorkspaceState_def elim!: and_then_InrE split: option.splits)

lemma resolve_options_frame:
  assumes "resolve_options env w k t = (Inr (w', img, pc), t')"
  shows "ws_Meta w' = ws_Meta w" and "ws_Spec w' = ws_Spec w" and "t' = t"
    and "\<exists>d ch. getImageConfig w k = Inr (img, d, ch)" and "\<exists>d ch. getPodConfig w k = Inr (pc, d, ch)"
  using assms
  by (auto simp: resolve_options_def Let_def set_option_info_def split: sum.splits prod.splits)

lemma prepare_finalizer_guarded: "guarded (has_finalizer w) unowned_write (snd (prepare env w []))"
proof -
  have "finalizer_guard.safe w (and_then (resolve_options env w k) (reconcile_objects env k))" for k
    unfolding finalizer_guard.safe_def
  proof (intro allI impI)
    fix t assume t: "guarded (has_finalizer w) unowned_write t"
    obtain r t' where o: "resolve_options env w k t = (r, t')" by fastforce
    show "guarded (has_finalizer w) unowned_write (snd (and_then (resolve_options env w k) (reconcile_objects env k) t))"
    proof (cases r)
      case (Inl out)
      have "emits (\<lambda>w. \<not> unowned_write w) (resolve_options env w k)" by (auto intro!: emit_intros)
      from emitsD [OF this o] finalizer_guard.guarded_append_harmless [OF t]
      have "guarded (has_finalizer w) unowned_write t'" by blast
      with o Inl show ?thesis by (simp add: and_then_def)
    next
      case (Inr x)
      obtain w' img pc where x: "x = (w', img, pc)" using prod_cases3 by blast
      have f: "ws_Meta w' = ws_Meta w \<and> ws_Spec w' = ws_Spec w" "t' = t"
        using resolve_options_frame(1-3) [of env w k t w' img pc t'] o Inr x by simp_all
      from objects_safe [OF f(1)] t f(2) have "guarded (has_finalizer w) unowned_write (snd (reconcile_objects env k x t'))"
        by (simp add: finalizer_guard.safe_def x)
      with o Inr show ?thesis by (simp add: and_then_def)
    qed
  qed
  note rest = this
  have "finalizer_guard.safe w (prepare env w)"
    unfolding prepare_def
  proof (rule finalizer_guard.safe_and_then [OF _ finalizer_guard.safe_and_then [OF _ rest]])
  qed (auto intro!: finalizer_guard.safe_harmless emit_intros)
  then show ?thesis by (simp add: finalizer_guard.safe_def)
qed

section \<open>Cleanup\<close>

text \<open>
  A named object is gone: a read of its name did not find it, or the object such a read gave was
  deleted.
\<close>

definition gone :: "(trace \<Rightarrow> api_error + 'o) \<Rightarrow> ('o \<Rightarrow> api_write) \<Rightarrow> trace \<Rightarrow> bool" where
  "gone get del t \<longleftrightarrow>
     (\<exists>i \<le> length t. \<exists>m. get (take i t) = Inl (NotFound m)) \<or>
     (\<exists>i < length t. \<exists>obj e. get (take i t) = Inr obj \<and> t ! i = (del obj, e) \<and> (e = None \<or> (\<exists>m. e = Some (NotFound m))))"

lemma gone_mono:
  assumes "gone get del t"
  shows "gone get del (t @ d)"
proof (cases "\<exists>i \<le> length t. \<exists>m. get (take i t) = Inl (NotFound m)")
  case True
  then obtain i m where "i \<le> length t" "get (take i t) = Inl (NotFound m)" by blast
  then have "i \<le> length (t @ d)" "get (take i (t @ d)) = Inl (NotFound m)" by simp_all
  then show ?thesis unfolding gone_def by blast
next
  case False
  with assms obtain i obj e where "i < length t" "get (take i t) = Inr obj" "t ! i = (del obj, e)"
    "e = None \<or> (\<exists>m. e = Some (NotFound m))"
    unfolding gone_def by blast
  then have "i < length (t @ d)" "get (take i (t @ d)) = Inr obj" "(t @ d) ! i = (del obj, e)"
    by (simp_all add: nth_append)
  with \<open>e = None \<or> _\<close> show ?thesis unfolding gone_def by blast
qed

lemma gone_now: "get t = Inl (NotFound m) \<Longrightarrow> gone get del t"
  unfolding gone_def by (metis order_refl take_all)

lemma gone_deleted:
  assumes "get t = Inr obj" and "e = None \<or> (\<exists>m. e = Some (NotFound m))"
  shows "gone get del (t @ [(del obj, e)])"
proof -
  have "length t < length (t @ [(del obj, e)])" "get (take (length t) (t @ [(del obj, e)])) = Inr obj"
    "(t @ [(del obj, e)]) ! length t = (del obj, e)" using assms(1) by simp_all
  with assms(2) show ?thesis unfolding gone_def by blast
qed

definition cleaned_up :: "rec_env \<Rightarrow> Workspace \<Rightarrow> trace \<Rightarrow> bool" where
  "cleaned_up env w t \<longleftrightarrow>
     gone (\<lambda>t. re_GetClusterRoleBinding env t (clusterRoleBindingName (ws_Namespace w) (ws_Name w)))
       DeleteClusterRoleBinding t \<and>
     gone (\<lambda>t. re_GetHTTPRoute env t (cfg_ControllerNamespace (re_Config env)) (httpRouteName (ws_Namespace w) (ws_Name w)))
       DeleteHTTPRoute t"

text \<open>The Workspace without its cleanup finalizer, and the writes a cleanup may send after the trace \<open>t\<close>.\<close>

definition without_finalizer :: "Workspace \<Rightarrow> Workspace" where
  "without_finalizer w = w\<lparr>ws_Meta := (ws_Meta w)\<lparr>om_Finalizers := filter (\<lambda>f. f \<noteq> WorkspaceFinalizer) (om_Finalizers (ws_Meta w))\<rparr>\<rparr>"

definition cleanup_write :: "rec_env \<Rightarrow> Workspace \<Rightarrow> trace \<Rightarrow> api_write \<Rightarrow> bool" where
  "cleanup_write env w t wr \<longleftrightarrow>
     (\<exists>crb. re_GetClusterRoleBinding env t (clusterRoleBindingName (ws_Namespace w) (ws_Name w)) = Inr crb \<and>
        wr = DeleteClusterRoleBinding crb) \<or>
     (\<exists>route. re_GetHTTPRoute env t (cfg_ControllerNamespace (re_Config env)) (httpRouteName (ws_Namespace w) (ws_Name w)) =
          Inr route \<and> wr = DeleteHTTPRoute route) \<or>
     wr = UpdateWorkspace (without_finalizer w) \<and> WorkspaceFinalizer \<in> set (ws_finalizers w) \<and> cleaned_up env w t"

definition each_write :: "(trace \<Rightarrow> api_write \<Rightarrow> bool) \<Rightarrow> trace \<Rightarrow> bool" where
  "each_write ok t \<longleftrightarrow> (\<forall>i < length t. ok (take i t) (fst (t ! i)))"

lemma each_write_Nil [simp]: "each_write ok []"
  by (simp add: each_write_def)

lemma each_write_snoc: "each_write ok (t @ [e]) \<longleftrightarrow> each_write ok t \<and> ok t (fst e)"
  by (auto simp: each_write_def nth_append less_Suc_eq)

text \<open>What deleting a named object does: nothing, or the deletion of what the read gave.\<close>

lemma delete_namedE:
  assumes "delete_named api get del t = (r, t')"
  obtains (unsent) "t' = t" "\<And>x. r = Inr x \<Longrightarrow> gone get del t'"
  | (sent) obj e where "get t = Inr obj" "t' = t @ [(del obj, e)]" "\<And>x. r = Inr x \<Longrightarrow> gone get del t'"
proof (cases "get t")
  case (Inl err)
  with assms have "t' = t" "\<And>x. r = Inr x \<Longrightarrow> gone get del t'"
    by (auto simp: delete_named_def and_then_def ask_def proceed_def stop_def intro: gone_now split: api_error.splits)
  then show ?thesis by (rule unsent)
next
  case (Inr obj)
  let ?e = "api t (del obj)"
  from assms Inr have "t' = t @ [(del obj, ?e)]" "\<And>x. r = Inr x \<Longrightarrow> ?e = None \<or> (\<exists>m. ?e = Some (NotFound m))"
    by (auto simp: delete_named_def and_then_def ask_def send_def proceed_def stop_def split: option.splits api_error.splits)
  with Inr gone_deleted [of get t obj ?e del] show ?thesis by (intro sent [of obj ?e]) auto
qed

lemma cleanup_writes:
  assumes "cleanup env w [] = (r, t)"
  shows "each_write (cleanup_write env w) t"
    and "(\<exists>x. r = Inr x) \<and> WorkspaceFinalizer \<in> set (ws_finalizers w) \<Longrightarrow> \<exists>u. t = u @ [(UpdateWorkspace (without_finalizer w), None)]"
proof -
  let ?crb = "\<lambda>t. re_GetClusterRoleBinding env t (clusterRoleBindingName (ws_Namespace w) (ws_Name w))"
  let ?route = "\<lambda>t. re_GetHTTPRoute env t (cfg_ControllerNamespace (re_Config env)) (httpRouteName (ws_Namespace w) (ws_Name w))"
  have rel: "set_ws_finalizers (filter (\<lambda>f. f \<noteq> WorkspaceFinalizer) (ws_finalizers w)) w = without_finalizer w"
    by (simp add: set_ws_finalizers_def ws_finalizers_def without_finalizer_def)
  obtain r1 t1 where 1: "delete_named (re_Api env) ?crb DeleteClusterRoleBinding [] = (r1, t1)" by fastforce
  obtain r2 t2 where 2: "delete_named (re_Api env) ?route DeleteHTTPRoute t1 = (r2, t2)" by fastforce
  obtain r3 t3 where 3: "update_object (re_Api env) True UpdateWorkspace (re_RespWorkspace env) (without_finalizer w) t2 = (r3, t3)" by fastforce
  have w1: "each_write (cleanup_write env w) t1" and g1: "\<And>x. r1 = Inr x \<Longrightarrow> gone ?crb DeleteClusterRoleBinding t1"
    using 1 by (cases rule: delete_namedE; auto simp: each_write_def cleanup_write_def)+
  have w2: "each_write (cleanup_write env w) t2" and g2: "\<And>x. r2 = Inr x \<Longrightarrow> gone ?route DeleteHTTPRoute t2"
    and m2: "\<exists>d. t2 = t1 @ d"
    using 2 w1 by (cases rule: delete_namedE; auto simp: each_write_snoc cleanup_write_def)+
  have c: "cleaned_up env w t2" if "r1 = Inr x" "r2 = Inr y" for x y
    using g1 [OF that(1)] g2 [OF that(2)] m2 by (auto simp: cleaned_up_def intro: gone_mono)
  have t3: "t3 = t2 @ [(UpdateWorkspace (without_finalizer w), re_Api env t2 (UpdateWorkspace (without_finalizer w)))]"
    using 3 update_object_sends [of "re_Api env" True UpdateWorkspace "re_RespWorkspace env" "without_finalizer w" t2] by auto
  note run = assms [unfolded cleanup_def rel] 1 2 3
  show "each_write (cleanup_write env w) t"
  proof (cases "WorkspaceFinalizer \<in> set (ws_finalizers w)")
    case True
    with run c w1 w2 t3 show ?thesis
      by (cases r1; cases r2; cases r3) (auto simp: and_then_def proceed_def each_write_snoc cleanup_write_def)
  qed (use run in \<open>simp add: proceed_def\<close>)
  show "\<exists>u. t = u @ [(UpdateWorkspace (without_finalizer w), None)]"
    if "(\<exists>x. r = Inr x) \<and> WorkspaceFinalizer \<in> set (ws_finalizers w)"
    using run that by (cases r1; cases r2; cases r3) (auto simp: and_then_def proceed_def dest!: update_object_Inr)
qed

lemma cleanup_stops: "cleanup env w t = (Inl out, t') \<Longrightarrow> out \<noteq> Inr no_requeue"
  by (auto simp: cleanup_def delete_named_def update_object_def requeue_now_def no_requeue_def send_def ask_def stop_def
      proceed_def elim!: and_thenE split: if_splits sum.splits option.splits api_error.splits)

section \<open>Properties\<close>

text \<open>The trace of a pass is that of its cleanup, or that of its preparation followed by writes to the Workspace.\<close>

lemma Reconcile_trace:
  assumes "Reconcile env c = (out, t, c')"
  shows "t = [] \<or> (\<exists>w. re_GetWorkspace env = Inr w \<and>
    (om_DeletionTimestamp (ws_Meta w) \<noteq> None \<and> t = snd (cleanup env w []) \<or>
     om_DeletionTimestamp (ws_Meta w) = None \<and>
       (\<exists>d. t = snd (prepare env w []) @ d \<and> (\<forall>e \<in> set d. \<exists>wr. fst e = WorkspaceWrite wr))))"
  using assms
  by (auto simp: Reconcile_def Let_def split: sum.splits api_error.splits if_splits prod.splits)

lemma live_guarded:
  assumes "Reconcile env c = (out, t, c')" and "re_GetWorkspace env = Inr w" "om_DeletionTimestamp (ws_Meta w) = None"
  shows "guarded (pass_kind_settled env w) owned_write t \<and> guarded (has_finalizer w) unowned_write t"
proof -
  from Reconcile_trace [OF assms(1)] assms(2,3) consider (empty) "t = []"
    | (live) d where "t = snd (prepare env w []) @ d" "\<forall>e \<in> set d. \<exists>wr. fst e = WorkspaceWrite wr" by auto
  then show ?thesis
  proof cases
    case live
    show ?thesis
      unfolding live(1)
      using pass_guard.guarded_append_harmless [OF prepare_guarded [of env w]]
        finalizer_guard.guarded_append_harmless [OF prepare_finalizer_guarded [of w env]] live(2) by fastforce
  qed simp
qed

text \<open>
  C12. The finalizers bracket everything a Workspace causes to exist. In every pass over a live
  Workspace, whatever the API server and the cache answer: unless the WorkspaceKind read by the pass
  is being deleted already (then no finalizer can be added and the pass goes on without), an object of
  the Workspace is only created or updated when that kind has its protection finalizer or an update
  adding it to that kind was accepted earlier in the pass; and a ClusterRoleBinding or HTTPRoute, which no
  owner reference can clean up, is only created or updated when the Workspace has the cleanup finalizer or an
  update adding it to this Workspace was accepted earlier in the pass.
\<close>

theorem finalizers_first:
  assumes "Reconcile env c = (out, t, c')" and "re_GetWorkspace env = Inr w" "om_DeletionTimestamp (ws_Meta w) = None"
    and "i < length t"
  shows "(owned_write (fst (t ! i)) \<longrightarrow>
      (\<exists>k. re_GetKind env [] (spec_Kind (ws_Spec w)) = Inr k \<and>
         (om_DeletionTimestamp (wk_Meta k) \<noteq> None \<or> kind_protected k (take i t)))) \<and>
    (unowned_write (fst (t ! i)) \<longrightarrow> has_finalizer w (take i t))"
  using live_guarded [OF assms(1-3)] assms(4) by (simp add: guarded_def pass_kind_settled_def kind_settled_def)

text \<open>
  C13. A Workspace that is being deleted gives up its cleanup finalizer last. A pass over it sends
  nothing but: the deletion of the ClusterRoleBinding or the HTTPRoute that a read of the Workspace's
  names for them has just given, and the update that takes the cleanup finalizer, and nothing else, from the
  Workspace; that update only after each of the two names was found missing or the object read under
  it was deleted. A pass that ends without an error or a requeue has without_finalizer the Workspace.
\<close>

theorem cleanup_before_release:
  assumes "Reconcile env c = (out, t, c')" and "re_GetWorkspace env = Inr w" "om_DeletionTimestamp (ws_Meta w) \<noteq> None"
  shows "(\<forall>i < length t. cleanup_write env w (take i t) (fst (t ! i))) \<and>
    (out = Inr no_requeue \<and> WorkspaceFinalizer \<in> set (ws_finalizers w) \<longrightarrow>
       (\<exists>u. t = u @ [(UpdateWorkspace (without_finalizer w), None)]))"
proof -
  obtain r u where run: "cleanup env w [] = (r, u)" by fastforce
  from assms run have t: "t = u" and out: "out = (case r of Inl out \<Rightarrow> out | Inr _ \<Rightarrow> Inr no_requeue)"
    by (auto simp: Reconcile_def split: sum.splits)
  have "\<exists>x. r = Inr x" if "out = Inr no_requeue"
    using that out cleanup_stops [of env w "[]" _ u] run by (cases r) auto
  with cleanup_writes [OF run] t show ?thesis by (auto simp: each_write_def)
qed

lemma copied_statefulset:
  "snd (CopyStatefulSetFields d t) \<longleftrightarrow>
     \<not> (om_Labels (sts_Meta t) = om_Labels (sts_Meta d) \<and> om_Annotations (sts_Meta t) = om_Annotations (sts_Meta d) \<and>
        sts_Replicas t = sts_Replicas d \<and> sts_Selector t = sts_Selector d \<and> sts_Template t = sts_Template d)"
  "sts_Template (fst (CopyStatefulSetFields d t)) = sts_Template d" "sts_Replicas (fst (CopyStatefulSetFields d t)) = sts_Replicas d"
  "sts_Selector (fst (CopyStatefulSetFields d t)) = sts_Selector d"
  "om_Labels (sts_Meta (fst (CopyStatefulSetFields d t))) = om_Labels (sts_Meta d)"
  "om_Annotations (sts_Meta (fst (CopyStatefulSetFields d t))) = om_Annotations (sts_Meta d)"
proof -
  have "range_order sample_range" by simp
  from statefulset_copier.update_iff [OF this, of d t] statefulset_copier.achieves [OF this, of d t]
  show "snd (CopyStatefulSetFields d t) \<longleftrightarrow>
     \<not> (om_Labels (sts_Meta t) = om_Labels (sts_Meta d) \<and> om_Annotations (sts_Meta t) = om_Annotations (sts_Meta d) \<and>
        sts_Replicas t = sts_Replicas d \<and> sts_Selector t = sts_Selector d \<and> sts_Template t = sts_Template d)"
    "sts_Template (fst (CopyStatefulSetFields d t)) = sts_Template d" "sts_Replicas (fst (CopyStatefulSetFields d t)) = sts_Replicas d"
    "sts_Selector (fst (CopyStatefulSetFields d t)) = sts_Selector d"
    "om_Labels (sts_Meta (fst (CopyStatefulSetFields d t))) = om_Labels (sts_Meta d)"
    "om_Annotations (sts_Meta (fst (CopyStatefulSetFields d t))) = om_Annotations (sts_Meta d)"
    unfolding meta_replaced_def by metis+
qed

text \<open>The fields of a StatefulSet, other than its template, are those asked for.\<close>

definition in_line :: "StatefulSet \<Rightarrow> StatefulSet \<Rightarrow> bool" where
  "in_line sts ex \<longleftrightarrow>
     sts_Replicas ex = sts_Replicas sts \<and> sts_Selector ex = sts_Selector sts \<and>
     om_Labels (sts_Meta ex) = om_Labels (sts_Meta sts) \<and> om_Annotations (sts_Meta ex) = om_Annotations (sts_Meta sts)"

text \<open>An update brings the StatefulSet in line and leaves it its template.\<close>

definition keeps_template :: "StatefulSet \<Rightarrow> StatefulSet \<Rightarrow> StatefulSet \<Rightarrow> bool" where
  "keeps_template sts ex s \<longleftrightarrow> in_line sts s \<and> sts_Template s = sts_Template ex"

lemma owned_statefulset_kept:
  fixes sts :: StatefulSet and w :: Workspace
  assumes "re_ListStatefulSets env t = Inr [ex]"
  defines "run \<equiv> reconcileOwnedStatefulSet env w (sts\<lparr>sts_Template := sts_Template ex\<rparr>) t"
  shows "in_line sts ex \<Longrightarrow> \<exists>s. run = (Inr s, t) \<and> keeps_template sts ex s"
    and "\<not> in_line sts ex \<Longrightarrow> \<exists>s e x. run = (x, t @ [(UpdateStatefulSet s, e)]) \<and> keeps_template sts ex s \<and>
      (e = None \<longrightarrow> x = Inr (re_RespStatefulSet env t s))"
proof -
  let ?d = "sts\<lparr>sts_Template := sts_Template ex\<rparr>"
  let ?s = "fst (CopyStatefulSetFields ?d ex)"
  have changed: "snd (CopyStatefulSetFields ?d ex) \<longleftrightarrow> \<not> in_line sts ex"
    by (auto simp: copied_statefulset(1) in_line_def)
  have kept: "keeps_template sts ex ?s" by (simp add: keeps_template_def in_line_def copied_statefulset)
  have run: "run = (if in_line sts ex then proceed ?s else
      update_object (re_Api env) True UpdateStatefulSet (re_RespStatefulSet env) ?s) t"
    using assms changed
    by (simp add: reconcileOwnedStatefulSet_def fetch_def reconcile_owned_def and_then_def ask_def proceed_def split_beta)
  show "\<exists>s. run = (Inr s, t) \<and> keeps_template sts ex s" if "in_line sts ex"
    using that run kept by (auto simp: proceed_def)
  let ?e = "re_Api env t (UpdateStatefulSet ?s)"
  obtain x where x: "update_object (re_Api env) True UpdateStatefulSet (re_RespStatefulSet env) ?s t =
      (x, t @ [(UpdateStatefulSet ?s, ?e)])" "?e = None \<longrightarrow> x = Inr (re_RespStatefulSet env t ?s)"
    using update_object_sends [of "re_Api env" True UpdateStatefulSet "re_RespStatefulSet env" ?s t]
    by (elim exE conjE) (rule that)
  show "\<exists>s e x. run = (x, t @ [(UpdateStatefulSet s, e)]) \<and> keeps_template sts ex s \<and>
      (e = None \<longrightarrow> x = Inr (re_RespStatefulSet env t s))" if "\<not> in_line sts ex"
    unfolding run if_not_P [OF that] by (intro exI [of _ ?s] exI [of _ ?e] exI [of _ x] conjI x kept)
qed


section \<open>Sample passes\<close>

text \<open>A cluster that answers every read with nothing found, and refuses the writes \<open>refuse\<close> names.\<close>

definition sample_cfg :: EnvConfig where
  "sample_cfg = \<lparr>cfg_IstioGateway = ''gw'', cfg_IstioHosts = ''*'', cfg_ClusterDomain = ''cluster.local'', cfg_UseIstio = False,
     cfg_UseKubeGateway = True, cfg_KubeGatewayName = ''gw'', cfg_KubeGatewayNamespace = ''ingress'',
     cfg_ControllerNamespace = ''system'', cfg_KubeRbacProxyImage = ''proxy:1''\<rparr>"

definition sample_rec_env :: "(api_write \<Rightarrow> api_error option) \<Rightarrow> Workspace \<Rightarrow> WorkspaceKind \<Rightarrow> StatefulSet list \<Rightarrow> rec_env" where
  "sample_rec_env refuse w k stss =
     \<lparr>re_Config = sample_cfg, re_Lib = sample_lib, re_Range = sample_range, re_Keys = sample_keys, re_Sha = pad32,
      re_Suites = go_suites, re_FIPS = False, re_SetRef = (\<lambda>_. Inr), re_Api = (\<lambda>_. refuse), re_GetWorkspace = Inr w,
      re_GetKind = (\<lambda>_ _. Inr k), re_ListServiceAccounts = (\<lambda>_. Inr []), re_GetServiceAccount = (\<lambda>_ n. Inl (NotFound n)),
      re_ListStatefulSets = (\<lambda>_. Inr stss), re_ListServices = (\<lambda>_. Inr []), re_ListVirtualServices = (\<lambda>_. Inr []),
      re_ListRoleBindings = (\<lambda>_. Inr []), re_GetAPIServer = (\<lambda>_. APIServerError (OtherError ''timeout'')),
      re_GetClusterRoleBinding = (\<lambda>_ n. Inl (NotFound n)), re_GetConfigMap = (\<lambda>_ n. Inl (NotFound n)),
      re_GetService = (\<lambda>_ n. Inl (NotFound n)), re_GetReferenceGrant = (\<lambda>_ n. Inl (NotFound n)),
      re_GetHTTPRoute = (\<lambda>_ _ n. Inl (NotFound n)), re_GetPod = (\<lambda>_ n. Inl (NotFound n)),
      re_RespKind = (\<lambda>_ x. x), re_RespWorkspace = (\<lambda>_ x. x), re_RespStatefulSet = (\<lambda>_ x. x), re_RespService = (\<lambda>_ x. x),
      re_Finish = (\<lambda>_. sample_finish_env)\<rparr>"

definition protected_kind :: WorkspaceKind where
  "protected_kind = add_kind_finalizer sample_kind"

definition deleted_ws :: Workspace where
  "deleted_ws = sample_ws\<lparr>ws_Meta := (ws_Meta sample_ws)\<lparr>om_Finalizers := [WorkspaceFinalizer], om_DeletionTimestamp := Some 1\<rparr>\<rparr>"

lemma sample_pass:
  "\<exists>sa. Reconcile (sample_rec_env (\<lambda>_. Some (OtherError ''down'')) sample_ws protected_kind []) c =
     (Inl (ApiError (OtherError ''down'')), [(CreateServiceAccount sa, Some (OtherError ''down''))], c)"
proof -
  let ?env = "sample_rec_env (\<lambda>_. Some (OtherError ''down'')) sample_ws protected_kind []"
  have opts: "getImageConfig sample_ws protected_kind = getImageConfig sample_ws sample_kind"
    "getPodConfig sample_ws protected_kind = getPodConfig sample_ws sample_kind"
    by (simp_all add: getImageConfig_def getPodConfig_def protected_kind_def add_kind_finalizer_def)
  have "options_exist sample_ws sample_kind" by (simp add: options_exist_def)
  from admitted_options_resolve [OF key_order_sample_keys sample_schema_ok(1) sample_create_admitted this] opts
  obtain img d ch pc d' ch' where "getImageConfig sample_ws protected_kind = Inr (img, d, ch)"
    "getPodConfig sample_ws protected_kind = Inr (pc, d', ch')" by auto
  moreover have "om_DeletionTimestamp (ws_Meta sample_ws) = None" by (simp add: sample_ws_def empty_meta_def)
  moreover have "protect_kind ?env protected_kind [] = (Inr protected_kind, [])"
    by (simp add: protect_kind_def protected_kind_def add_kind_finalizer_def proceed_def)
  ultimately show ?thesis
    by (simp add: Reconcile_def prepare_def and_then_def fetch_kind_def ask_def proceed_def resolve_options_def Let_def
        set_option_info_def reconcile_objects_def reconcile_service_account_def set_owner_def fetch_def
        create_service_account_def send_def stop_def sample_rec_env_def)
qed

theorem finalizers_first_witness:
  "kind_protected protected_kind []"
proof -
  obtain sa where p: "Reconcile (sample_rec_env (\<lambda>_. Some (OtherError ''down'')) sample_ws protected_kind []) Map.empty =
     (Inl (ApiError (OtherError ''down'')), [(CreateServiceAccount sa, Some (OtherError ''down''))], Map.empty)"
    using sample_pass by blast
  have "om_DeletionTimestamp (ws_Meta sample_ws) = None" by (simp add: sample_ws_def empty_meta_def)
  moreover have "om_DeletionTimestamp (wk_Meta protected_kind) = None"
    by (simp add: protected_kind_def add_kind_finalizer_def sample_kind_with_def empty_meta_def)
  ultimately show ?thesis using finalizers_first [OF p, of sample_ws 0] by (simp add: sample_rec_env_def)
qed

theorem cleanup_before_release_witness:
  "cleaned_up (sample_rec_env (\<lambda>_. None) deleted_ws sample_kind []) deleted_ws []"
proof -
  let ?env = "sample_rec_env (\<lambda>_. None) deleted_ws sample_kind []"
  let ?w = "set_ws_finalizers [] deleted_ws"
  have "Reconcile ?env Map.empty = (Inr no_requeue, [(UpdateWorkspace ?w, None)], Map.empty)"
    by (simp add: Reconcile_def cleanup_def delete_named_def update_object_def and_then_def ask_def send_def proceed_def
        sample_rec_env_def deleted_ws_def ws_finalizers_def)
  from cleanup_before_release [OF this, of deleted_ws] show ?thesis
    by (simp add: sample_rec_env_def deleted_ws_def cleanup_write_def)
qed


end
