(* ===== verification/Fail_Fast.thy ===== *)
theory Fail_Fast
  imports Trace_Steps
begin

text \<open>
  The contract of code that checks the answer of every call: a run goes on only after calls whose
  answers it accepts, and a call whose answer it does not accept is the last one and decides the
  outcome. The judgement is compositional, so a program fulfils it when each of its calls does.
\<close>

locale fail_fast =
  fixes accepted :: "'w \<times> 'r \<Rightarrow> bool" and fatal :: "'w \<times> 'r \<Rightarrow> 'o \<Rightarrow> bool"
  assumes fatal_refused: "fatal e out \<Longrightarrow> \<not> accepted e"
begin

text \<open>The calls of a step, judged with its result.\<close>

definition judged :: "('w \<times> 'r) list \<Rightarrow> 'o + 'a \<Rightarrow> bool" where
  "judged d r \<longleftrightarrow> (\<forall>e \<in> set d. accepted e) \<or>
     (\<exists>d0 e out. d = d0 @ [e] \<and> (\<forall>x \<in> set d0. accepted x) \<and> r = Inl out \<and> fatal e out)"

definition fast :: "('w, 'r, 'o, 'a) trace_step \<Rightarrow> bool" where
  "fast m \<longleftrightarrow> (\<forall>t. \<exists>d. snd (m t) = t @ d \<and> judged d (fst (m t)))"

lemma judged_Nil [simp]: "judged [] r"
  by (simp add: judged_def)

lemma judged_Inr [simp]: "judged d (Inr x) \<longleftrightarrow> (\<forall>e \<in> set d. accepted e)"
  by (simp add: judged_def)

lemma judged_Inl: "judged d (Inl out :: 'o + 'a) \<Longrightarrow> judged d (Inl out :: 'o + 'b)"
  by (simp add: judged_def)

lemma judged_append:
  assumes "\<forall>e \<in> set d0. accepted e" and "judged d r"
  shows "judged (d0 @ d) r"
  using assms(2) unfolding judged_def
proof
  assume "\<exists>d1 e out. d = d1 @ [e] \<and> (\<forall>x \<in> set d1. accepted x) \<and> r = Inl out \<and> fatal e out"
  then obtain d1 e out where "d = d1 @ [e]" "\<forall>x \<in> set d1. accepted x" "r = Inl out" "fatal e out" by blast
  then show "(\<forall>e \<in> set (d0 @ d). accepted e) \<or>
      (\<exists>d1 e out. d0 @ d = d1 @ [e] \<and> (\<forall>x \<in> set d1. accepted x) \<and> r = Inl out \<and> fatal e out)"
    using assms(1) by (intro disjI2 exI [of _ "d0 @ d1"] exI [of _ e] exI [of _ out]) auto
qed (use assms(1) in auto)

lemma fastI: "(\<And>t. \<exists>d. snd (m t) = t @ d \<and> judged d (fst (m t))) \<Longrightarrow> fast m"
  by (simp add: fast_def)

lemma fastE:
  assumes "fast m" and "m t = (r, t')"
  obtains d where "t' = t @ d" and "judged d r"
  using assms unfolding fast_def by (metis fst_conv snd_conv)

lemma fast_basic: "fast (proceed x)" "fast (stop out)" "fast (ask q)"
  by (simp_all add: fast_def proceed_def stop_def ask_def)

lemma fast_and_then:
  assumes "fast m" and "\<And>x. fast (f x)"
  shows "fast (and_then m f)"
proof (rule fastI)
  fix t
  obtain r t' where m: "m t = (r, t')" by fastforce
  obtain d where d: "t' = t @ d" "judged d r" using fastE [OF assms(1) m] by blast
  show "\<exists>d. snd (and_then m f t) = t @ d \<and> judged d (fst (and_then m f t))"
  proof (cases r)
    case (Inl out)
    with m d show ?thesis by (auto simp: and_then_def intro: judged_Inl)
  next
    case (Inr x)
    obtain r' t'' where f: "f x t' = (r', t'')" by fastforce
    obtain d' where d': "t'' = t' @ d'" "judged d' r'" using fastE [OF assms(2) f] by blast
    have "judged (d @ d') r'" using d(2) d'(2) Inr by (intro judged_append) simp_all
    moreover have "and_then m f t = (r', t @ d @ d')" using m Inr f d d' by (simp add: and_then_def)
    ultimately show ?thesis by auto
  qed
qed

text \<open>A call, with what the program does with its answer.\<close>

lemma fast_send:
  assumes go: "\<And>r. accepted (w, r) \<Longrightarrow> fast (f r)"
    and halt: "\<And>r. \<not> accepted (w, r) \<Longrightarrow> \<exists>out. f r = stop out \<and> fatal (w, r) out"
  shows "fast (and_then (send api w) f)"
proof (rule fastI)
  fix t
  define r where "r = api t w"
  have run: "and_then (send api w) f t = f r (t @ [(w, r)])" by (simp add: and_then_def send_def r_def)
  show "\<exists>d. snd (and_then (send api w) f t) = t @ d \<and> judged d (fst (and_then (send api w) f t))"
  proof (cases "accepted (w, r)")
    case True
    obtain r' t' where f: "f r (t @ [(w, r)]) = (r', t')" by fastforce
    obtain d where d: "t' = (t @ [(w, r)]) @ d" "judged d r'" using fastE [OF go [OF True] f] by blast
    have "judged ([(w, r)] @ d) r'" using True d(2) by (intro judged_append) simp_all
    with d run f show ?thesis by auto
  next
    case False
    from halt [OF this] obtain out where out: "f r = stop out" "fatal (w, r) out" by blast
    then have "judged [(w, r)] (Inl out)" by (auto simp: judged_def)
    with out(1) show ?thesis unfolding run by (simp add: stop_def)
  qed
qed

lemma fast_case_prod: "(\<And>a b. fast (f a b)) \<Longrightarrow> fast (case p of (a, b) \<Rightarrow> f a b)"
  by (cases p) simp

text \<open>What the judgement says of a run: a refused call is the last one, and the run ends with it.\<close>

lemma judgedD:
  assumes "judged d r" and "e \<in> set d" and "\<not> accepted e"
  shows "d \<noteq> [] \<and> last d = e \<and> (\<forall>x \<in> set (butlast d). accepted x) \<and> (\<exists>out. r = Inl out \<and> fatal e out)"
proof -
  from assms obtain d0 x out where d: "d = d0 @ [x]" "\<forall>y \<in> set d0. accepted y" "r = Inl out" "fatal x out"
    unfolding judged_def by blast
  with assms(2,3) have "x = e" by auto
  with d show ?thesis by simp
qed

lemma fast_Inr: "fast m \<Longrightarrow> m [] = (Inr x, t) \<Longrightarrow> \<forall>e \<in> set t. accepted e"
  by (erule (1) fastE) simp

end

end
