(* ===== verification/Reconcile_Errors.thy ===== *)
theory Reconcile_Errors
  imports Reconcile_Correct Fail_Fast
begin

text \<open>
  What a pass of the Workspace reconcile does when the API server refuses a write: it ends there,
  with the error, or with a requeue when the error is a conflict at a place that expects them. The
  answers it goes on after are those that say that what it wanted is so already.
\<close>

section \<open>Answers\<close>

fun tolerated :: "api_write \<Rightarrow> api_error \<Rightarrow> bool" where
  "tolerated (CreateServiceAccount _) (AlreadyExists _) = True"
| "tolerated (CreateService _) (AlreadyExists _) = True"
| "tolerated (CreateClusterRoleBinding _) (AlreadyExists _) = True"
| "tolerated (CreateConfigMap _) (AlreadyExists _) = True"
| "tolerated (CreateReferenceGrant _) (AlreadyExists _) = True"
| "tolerated (DeleteClusterRoleBinding _) (NotFound _) = True"
| "tolerated (DeleteHTTPRoute _) (NotFound _) = True"
| "tolerated (RoleBindingWrite (DeleteRB _)) (NotFound _) = True"
| "tolerated _ _ = False"

fun accepted :: "api_write \<times> api_error option \<Rightarrow> bool" where
  "accepted (wr, None) = True"
| "accepted (wr, Some err) = tolerated wr err"

fun fatal :: "api_write \<times> api_error option \<Rightarrow> outcome \<Rightarrow> bool" where
  "fatal (wr, None) out = False"
| "fatal (wr, Some err) out =
     (\<not> tolerated wr err \<and> (out = Inl (ApiError err) \<or> (\<exists>m. err = Conflict m \<and> out = Inr requeue_now)))"

interpretation pass: fail_fast accepted fatal
proof
  show "fatal e out \<Longrightarrow> \<not> accepted e" for e out by (cases "(e, out)" rule: fatal.cases) auto
qed

section \<open>The steps of a pass\<close>

named_theorems fast_intros

lemmas [fast_intros] = pass.fast_basic pass.fast_and_then pass.fast_case_prod

lemma accepted_iff: "accepted (wr, r) \<longleftrightarrow> (\<forall>err. r = Some err \<longrightarrow> tolerated wr err)"
  by (cases r) simp_all

text \<open>A write whose every error that is not tolerated is returned.\<close>

lemma fast_write:
  assumes "\<And>r. accepted (wr, r) \<Longrightarrow> pass.fast (f r)"
    and "\<And>err. \<not> tolerated wr err \<Longrightarrow> f (Some err) = fail_api err \<or> (\<exists>m. err = Conflict m \<and> f (Some err) = stop (Inr requeue_now))"
  shows "pass.fast (and_then (send api wr) f)"
proof (rule pass.fast_send)
  fix r assume "\<not> accepted (wr, r)"
  then obtain err where "r = Some err" "\<not> tolerated wr err" by (auto simp: accepted_iff)
  with assms(2) [of err] show "\<exists>out. f r = stop out \<and> fatal (wr, r) out" by auto
qed (rule assms(1))

lemma fast_fetch [fast_intros]: "pass.fast (fetch q)"
  by (auto simp: fetch_def intro!: fast_intros split: sum.splits)

lemma fast_update_object [fast_intros]:
  "pass.fast (update_object api rq upd resp obj)"
  unfolding update_object_def
  by (intro fast_intros fast_write) (auto intro!: fast_intros split: option.splits api_error.splits)

lemma fast_create_object [fast_intros]:
  assumes "\<And>m. existsOk \<Longrightarrow> tolerated (crt obj) (AlreadyExists m)"
  shows "pass.fast (create_object api existsOk crt resp obj)"
  unfolding create_object_def
  by (intro fast_intros fast_write) (use assms in \<open>auto intro!: fast_intros split: option.splits api_error.splits if_splits\<close>)

lemma fast_updateWorkspaceState [fast_intros]: "pass.fast (updateWorkspaceState env w state msg)"
  unfolding updateWorkspaceState_def
  by (auto intro!: fast_intros fast_write split: option.splits)

lemma fast_generated [fast_intros]: "pass.fast (generated env w msg r)"
  by (auto simp: generated_def intro!: fast_intros split: sum.splits gen_error.splits)

lemma fast_set_owner [fast_intros]: "pass.fast (set_owner env w meta)"
  by (auto simp: set_owner_def intro!: fast_intros split: sum.splits)

lemma fast_delete_named [fast_intros]:
  assumes "\<And>x m. tolerated (del x) (NotFound m)"
  shows "pass.fast (delete_named api get del)"
  unfolding delete_named_def
proof (intro fast_intros)
  fix r
  show "pass.fast (case r of
      Inl (NotFound m) \<Rightarrow> proceed ()
    | Inl err \<Rightarrow> fail_api err
    | Inr obj \<Rightarrow> and_then (send api (del obj)) (\<lambda>e. case e of None \<Rightarrow> proceed () | Some (NotFound m) \<Rightarrow> proceed () | Some err \<Rightarrow> fail_api err))"
    by (auto intro!: fast_intros fast_write simp: assms split: sum.splits api_error.splits option.splits)
qed

lemma fast_cleanup: "pass.fast (cleanup env w)"
  by (auto simp: cleanup_def intro!: fast_intros)

lemma fast_kind_steps [fast_intros]:
  "pass.fast (fetch_kind env w)" "pass.fast (protect_kind env k)" "pass.fast (resolve_options env w k)"
  by (auto simp: fetch_kind_def protect_kind_def resolve_options_def Let_def intro!: fast_intros
      split: sum.splits api_error.splits prod.splits)

lemma fast_create_service_account [fast_intros]: "pass.fast (create_service_account env w sa)"
  unfolding create_service_account_def Let_def
  by (rule fast_write) (auto intro!: fast_intros split: option.splits api_error.splits sum.splits)

lemma fast_service_account [fast_intros]: "pass.fast (reconcile_service_account env w)"
  by (auto simp: reconcile_service_account_def Let_def intro!: fast_intros split: list.splits prod.splits)

lemma fast_reconcile_owned [fast_intros]: "pass.fast (reconcile_owned env w rq msg meta crt upd resp copy owned desired)"
  by (auto simp: reconcile_owned_def Let_def intro!: fast_intros split: list.splits prod.splits)

lemma fast_reconcile_named [fast_intros]:
  "(\<And>m. existsOk \<Longrightarrow> tolerated (crt desired) (AlreadyExists m)) \<Longrightarrow>
     pass.fast (reconcile_named api existsOk rq get crt upd copy desired)"
  by (auto simp: reconcile_named_def Let_def intro!: fast_intros split: sum.splits api_error.splits prod.splits)

lemma fast_owned_statefulset [fast_intros]: "pass.fast (reconcileOwnedStatefulSet env w sts)"
  by (auto simp: reconcileOwnedStatefulSet_def intro!: fast_intros)

lemma fast_object_steps [fast_intros]:
  "pass.fast (build_statefulset env w k img pc sa)" "pass.fast (reconcile_service env w img)"
  "pass.fast (prepare_template env w k img sts)" "pass.fast (write_statefulset env w k img sts)"
proof -
  show template: "pass.fast (prepare_template env w k img sts)"
    by (auto simp: prepare_template_def findOwnedStatefulSet_def intro!: fast_intros split: sum.splits prod.splits)
  show "pass.fast (build_statefulset env w k img pc sa)" "pass.fast (reconcile_service env w img)"
    "pass.fast (write_statefulset env w k img sts)"
    by (auto simp: build_statefulset_def reconcile_service_def write_statefulset_def Let_def
        intro!: fast_intros template split: prod.splits)
qed

lemma fast_gateway_steps [fast_intros]:
  "pass.fast (ensure_workspace_finalizer env w)" "pass.fast (reconcile_proxy_config_map env w)"
  "pass.fast (reconcile_proxy_service env w)" "pass.fast (reconcile_reference_grant env w svc)"
  "pass.fast (reconcile_http_route env w k img svc)"
  by (auto simp: ensure_workspace_finalizer_def reconcile_proxy_config_map_def reconcile_proxy_service_def
      reconcile_reference_grant_def reconcile_http_route_def Let_def intro!: fast_intros
      split: sum.splits api_error.splits option.splits)

lemma fast_routes [fast_intros]: "pass.fast (reconcile_routes env w k img svc sa)"
  by (auto simp: reconcile_routes_def reconcile_gateway_def reconcile_virtual_service_def Let_def intro!: fast_intros
      split: sum.splits)

lemma fast_fetch_pod [fast_intros]: "pass.fast (fetch_pod env sts)"
  by (auto simp: fetch_pod_def intro!: fast_intros split: sum.splits api_error.splits)

section \<open>RoleBindings\<close>

text \<open>The loops over RoleBindings stop at the first operation that fails.\<close>

lemma op_error_tolerated: "op_error api opn = None \<longleftrightarrow> accepted (RoleBindingWrite opn, api opn)"
  by (cases "api opn"; cases opn; cases "the (api opn)") (auto simp: op_error_def)

definition ops_judged :: "(rb_op \<Rightarrow> api_error option) \<Rightarrow> api_error option \<Rightarrow> rb_op list \<Rightarrow> bool" where
  "ops_judged api err ops \<longleftrightarrow>
     (case err of
        None \<Rightarrow> \<forall>opn \<in> set ops. op_error api opn = None
      | Some e \<Rightarrow> \<exists>ops0 opn. ops = ops0 @ [opn] \<and> (\<forall>x \<in> set ops0. op_error api x = None) \<and> op_error api opn = Some e)"

lemma ops_judged_Cons: "op_error api opn = None \<Longrightarrow> ops_judged api err ops \<Longrightarrow> ops_judged api err (opn # ops)"
  unfolding ops_judged_def by (auto split: option.splits)

lemma ops_judged_None: "ops_judged api None (opn # ops) \<longleftrightarrow> op_error api opn = None \<and> ops_judged api None ops"
  by (simp add: ops_judged_def)

lemma ops_judged_append: "ops_judged api None ops \<Longrightarrow> ops_judged api err ops' \<Longrightarrow> ops_judged api err (ops @ ops')"
  by (induction ops) (simp_all add: ops_judged_None ops_judged_Cons)

lemma ops_judged_single: "Some e = op_error api opn \<Longrightarrow> ops_judged api (op_error api opn) [opn]"
  by (cases "op_error api opn") (simp_all add: ops_judged_def)

lemma sync_owned_judged: "sync_owned api found desired = (err, ops, left) \<Longrightarrow> ops_judged api err ops"
proof (induction found arbitrary: desired err ops left)
  case (Cons x found)
  then show ?case
    by (auto intro: ops_judged_Cons ops_judged_single split: prod.splits option.splits)
qed (simp add: ops_judged_def)

lemma create_all_judged: "create_all api rbs = (err, ops) \<Longrightarrow> ops_judged api err ops"
proof (induction rbs arbitrary: err ops)
  case (Cons rb rbs)
  then show ?case by (auto intro: ops_judged_Cons ops_judged_single split: prod.splits option.splits)
qed (simp add: ops_judged_def)

lemma reconcileRoleBindings_judged:
  assumes "reconcileRoleBindings sha256 kord setRef api owned w k sa = (err, ops)"
  shows "(\<exists>m. err = Some (RefError m) \<and> ops = []) \<or> (\<exists>e. err = Some (RBApiError e) \<and> ops = []) \<or>
    (\<exists>e. err = map_option RBApiError e \<and> ops_judged api e ops)"
  using assms unfolding reconcileRoleBindings_def
  by (auto split: sum.splits prod.splits option.splits dest!: sync_owned_judged create_all_judged intro: ops_judged_append)

lemma fast_role_bindings [fast_intros]: "pass.fast (role_bindings_step env w k sa)"
proof (rule pass.fastI)
  fix t
  let ?api = "\<lambda>opn. re_Api env t (RoleBindingWrite opn)"
  obtain err ops where run: "reconcileRoleBindings (re_Sha env) (re_Keys env) (re_SetRef env w) ?api
      (re_ListRoleBindings env t) w k sa = (err, ops)" by fastforce
  let ?d = "map (\<lambda>opn. (RoleBindingWrite opn, ?api opn)) ops"
  let ?r = "(case err of None \<Rightarrow> Inr () | Some e \<Rightarrow> Inl (Inl (rb_outcome e))) :: outcome + unit"
  have "pass.judged ?d ?r"
  proof (cases "\<exists>e. err = map_option RBApiError e \<and> ops_judged ?api e ops")
    case True
    then obtain e where e: "err = map_option RBApiError e" "ops_judged ?api e ops" by blast
    show ?thesis
    proof (cases e)
      case None
      with e show ?thesis by (auto simp: ops_judged_def op_error_tolerated)
    next
      case (Some x)
      with e obtain ops0 opn where o: "ops = ops0 @ [opn]" "\<forall>y \<in> set ops0. op_error ?api y = None" "op_error ?api opn = Some x"
        by (auto simp: ops_judged_def)
      then have "?api opn = Some x" "\<not> tolerated (RoleBindingWrite opn) x"
        by (auto simp: op_error_def op_error_tolerated [symmetric] split: option.splits api_error.splits rb_op.splits)
      with e Some o show ?thesis
        unfolding pass.judged_def by (intro disjI2) (auto simp: op_error_tolerated rb_outcome_def)
    qed
  qed (use reconcileRoleBindings_judged [OF run] in auto)
  then show "\<exists>d. snd (role_bindings_step env w k sa t) = t @ d \<and> pass.judged d (fst (role_bindings_step env w k sa t))"
    using run by (auto simp: role_bindings_step_def)
qed

lemma fast_prepare: "pass.fast (prepare env w)"
  by (auto simp: prepare_def reconcile_objects_def intro!: fast_intros)

section \<open>The whole pass\<close>

lemma finish_judged:
  assumes "finish_reconcile fe c stored ws kind img pc pod sts sa tls = (out, writes, c')"
  shows "pass.judged (map (\<lambda>wr. (WorkspaceWrite wr, ws_write_answer fe wr)) writes) (Inl out :: outcome + unit)"
  using assms
  by (auto simp: finish_reconcile_def Let_def pass.judged_def ws_write_answer_def
      split: prod.splits sum.splits option.splits if_splits)

lemma Reconcile_judged:
  assumes "Reconcile env c = (out, t, c')"
  shows "pass.judged t (Inl out :: outcome + unit)"
proof -
  have early: "pass.judged t (Inl out :: outcome + unit)" if "pass.fast m" "m [] = (Inl out, t)" for m :: "'a step"
    using pass.fastE [OF that] by (auto intro: pass.judged_Inl)
  have clean: "\<forall>e \<in> set t. accepted e" if "pass.fast m" "m [] = (Inr x, t)" for m :: "'a step" and x t
    using pass.fast_Inr [OF that] .
  show ?thesis
  proof (cases "re_GetWorkspace env")
    case (Inl err)
    with assms show ?thesis by (cases err) (auto simp: Reconcile_def)
  next
    case (Inr w)
    show ?thesis
    proof (cases "om_DeletionTimestamp (ws_Meta w)")
      case (Some n)
      obtain r t0 where run: "cleanup env w [] = (r, t0)" by fastforce
      with assms Inr Some show ?thesis
        using early [OF fast_cleanup] clean [OF fast_cleanup]
        by (cases r) (auto simp: Reconcile_def pass.judged_def)
    next
      case None
      obtain r t0 where run: "prepare env w [] = (r, t0)" by fastforce
      show ?thesis
      proof (cases r)
        case (Inl o1)
        with assms Inr None run show ?thesis using early [OF fast_prepare] by (simp add: Reconcile_def)
      next
        case (Inr p)
        from clean [OF fast_prepare run [unfolded Inr]] have acc: "\<forall>e \<in> set t0. accepted e" .
        from assms \<open>re_GetWorkspace env = Inr w\<close> None run Inr obtain writes where
          fin: "finish_reconcile (re_Finish env t0) c w (pr_Workspace p) (pr_Kind p) (pr_Image p) (pr_PodConfig p) (pr_Pod p)
            (sts_Meta (pr_StatefulSet p)) (pr_ServiceAccount p) (pr_TLSError p) = (out, writes, c')"
          and t: "t = t0 @ map (\<lambda>wr. (WorkspaceWrite wr, ws_write_answer (re_Finish env t0) wr)) writes"
          by (auto simp: Reconcile_def Let_def split: prod.splits)
        show ?thesis unfolding t by (rule pass.judged_append [OF acc finish_judged [OF fin]])
      qed
    qed
  qed
qed

section \<open>Property\<close>

text \<open>
  C14. No write is made after a write that failed. In every pass of the Workspace reconcile, over a
  live Workspace or one that is being deleted, whatever the API server answers: a write refused with
  an error that does not say that its effect is there already is the last write of the pass, every
  write before it was accepted, and the pass returns that error, or asks to run again at once when
  the error is a conflict. No error of the API server is swallowed.
\<close>

theorem failed_write_ends_pass:
  assumes "Reconcile env c = (out, t, c')" and "(wr, Some err) \<in> set t" and "\<not> tolerated wr err"
  shows "last t = (wr, Some err) \<and> (\<forall>e \<in> set (butlast t). accepted e) \<and>
    (out = Inl (ApiError err) \<or> (\<exists>m. err = Conflict m \<and> out = Inr requeue_now))"
  using pass.judgedD [OF Reconcile_judged [OF assms(1)] assms(2)] assms(3) by auto

theorem failed_write_ends_pass_witness:
  "\<exists>sa. fst (Reconcile (sample_rec_env (\<lambda>_. Some (OtherError ''down'')) sample_ws protected_kind []) Map.empty) =
      Inl (ApiError (OtherError ''down'')) \<and>
    last (fst (snd (Reconcile (sample_rec_env (\<lambda>_. Some (OtherError ''down'')) sample_ws protected_kind []) Map.empty))) =
      (CreateServiceAccount sa, Some (OtherError ''down''))"
proof -
  obtain sa where p: "Reconcile (sample_rec_env (\<lambda>_. Some (OtherError ''down'')) sample_ws protected_kind []) Map.empty =
     (Inl (ApiError (OtherError ''down'')), [(CreateServiceAccount sa, Some (OtherError ''down''))], Map.empty)"
    using sample_pass by blast
  from failed_write_ends_pass [OF p, of "CreateServiceAccount sa" "OtherError ''down''"] p show ?thesis by auto
qed

end
