(* ===== verification/Replay.thy ===== *)
theory Replay
  imports Trace_Steps
begin

text \<open>
  Programs whose reads are answered from a store that their own calls change. The store after a trace is the
  replay of its calls; a program is a function of the store it starts from. A program is \<open>settled\<close> in a store
  with a value when running it there, at whatever point of a run, ends with that value and leaves the
  store as it is.
\<close>

locale replay_store =
  fixes effect :: "'w \<times> 'r \<Rightarrow> 's \<Rightarrow> 's"
begin

definition replay :: "'s \<Rightarrow> ('w, 'r) event_trace \<Rightarrow> 's" where
  "replay s t = fold effect t s"

lemma replay_simps [simp]: "replay s [] = s" "replay s (t @ d) = replay (replay s t) d" "replay s (e # t) = replay (effect e s) t"
  by (simp_all add: replay_def)

definition settled :: "('s \<Rightarrow> ('w, 'r, 'o, 'a) trace_step) \<Rightarrow> 'a \<Rightarrow> 's \<Rightarrow> bool" where
  "settled m x \<sigma> \<longleftrightarrow> (\<forall>s t. replay s t = \<sigma> \<longrightarrow> (\<exists>t'. m s t = (Inr x, t') \<and> replay s t' = \<sigma>))"

lemma settledI: "(\<And>s t. replay s t = \<sigma> \<Longrightarrow> \<exists>t'. m s t = (Inr x, t') \<and> replay s t' = \<sigma>) \<Longrightarrow> settled m x \<sigma>"
  by (simp add: settled_def)

lemma settledE:
  assumes "settled m x \<sigma>" and "replay s t = \<sigma>"
  obtains t' where "m s t = (Inr x, t')" and "replay s t' = \<sigma>"
  using assms unfolding settled_def by blast

lemma settled_proceed: "settled (\<lambda>s. proceed x) x \<sigma>"
  by (auto intro: settledI simp: proceed_def)

lemma settled_ask: "(\<And>s t. replay s t = \<sigma> \<Longrightarrow> q s t = x) \<Longrightarrow> settled (\<lambda>s. ask (q s)) x \<sigma>"
  by (auto intro: settledI simp: ask_def)

lemma settled_send:
  "(\<And>s t. replay s t = \<sigma> \<Longrightarrow> api s t w = r) \<Longrightarrow> effect (w, r) \<sigma> = \<sigma> \<Longrightarrow> settled (\<lambda>s. send (api s) w) r \<sigma>"
  by (auto intro!: settledI simp: send_def)

lemma settled_and_then:
  assumes "settled m x \<sigma>" and "settled (\<lambda>s. f s x) y \<sigma>"
  shows "settled (\<lambda>s. and_then (m s) (f s)) y \<sigma>"
proof (rule settledI)
  fix s t assume t: "replay s t = \<sigma>"
  obtain t1 where m: "m s t = (Inr x, t1)" "replay s t1 = \<sigma>" using assms(1) t by (rule settledE)
  obtain t2 where "f s x t1 = (Inr y, t2)" "replay s t2 = \<sigma>" using assms(2) m(2) by (rule settledE)
  with m(1) show "\<exists>t'. and_then (m s) (f s) t = (Inr y, t') \<and> replay s t' = \<sigma>" by (simp add: and_then_def)
qed

text \<open>A program that is settled because of a part of the store: it is so wherever that part is the same.\<close>

definition settled_by :: "('s \<Rightarrow> 'c) \<Rightarrow> ('s \<Rightarrow> ('w, 'r, 'o, 'a) trace_step) \<Rightarrow> 'a \<Rightarrow> 's \<Rightarrow> bool" where
  "settled_by c m x \<sigma> \<longleftrightarrow> (\<forall>\<sigma>'. c \<sigma>' = c \<sigma> \<longrightarrow> settled m x \<sigma>')"

lemma settled_byI: "(\<And>\<sigma>'. c \<sigma>' = c \<sigma> \<Longrightarrow> settled m x \<sigma>') \<Longrightarrow> settled_by c m x \<sigma>"
  by (simp add: settled_by_def)

lemma settled_byD: "settled_by c m x \<sigma> \<Longrightarrow> c \<sigma>' = c \<sigma> \<Longrightarrow> settled m x \<sigma>'"
  by (simp add: settled_by_def)

text \<open>A part of the store that a call does not change.\<close>

definition keeps :: "('s \<Rightarrow> 'c) \<Rightarrow> 'w \<Rightarrow> bool" where
  "keeps c w \<longleftrightarrow> (\<forall>r s. c (effect (w, r) s) = c s)"

lemma keeps_replay: "\<forall>e \<in> set d. keeps c (fst e) \<Longrightarrow> c (replay s d) = c s"
  by (induction d arbitrary: s) (auto simp: keeps_def)

lemma emits_keeps: "emits (keeps c) m \<Longrightarrow> m t = (r, t') \<Longrightarrow> c (replay s t') = c (replay s t)"
  using keeps_replay by (fastforce dest: emitsD)

end

end
