(* ===== verification/Cluster_Store.thy ===== *)
theory Cluster_Store
  imports Reconcile_Correct Replay
begin

text \<open>
  The cluster as the Workspace reconcile sees it: the objects of one Workspace, what an accepted write does to
  them, and the environment of a pass whose reads are answered from them.

  \<open>api_defaults\<close> is what the API server fills in on its own: a name for an object that has only a prefix
  for one, defaults of a Pod template, and the fields of a Service it allocates.
\<close>

record api_defaults =
  sv_Name :: "string list \<Rightarrow> string \<Rightarrow> string"
  sv_Template :: "PodTemplate \<Rightarrow> PodTemplate"
  sv_ServiceRest :: "Service \<Rightarrow> k8s_opaque"

text \<open>A generated name is new, and filling in defaults a second time changes nothing.\<close>

definition defaults_ok :: "api_defaults \<Rightarrow> bool" where
  "defaults_ok sv \<longleftrightarrow> (\<forall>ns p. sv_Name sv ns p \<notin> set ns \<and> sv_Name sv ns p \<noteq> []) \<and>
     (\<forall>tm. sv_Template sv (sv_Template sv tm) = sv_Template sv tm)"

record cluster_store =
  own_Kinds :: "string \<rightharpoonup> WorkspaceKind"
  own_ServiceAccounts :: "ServiceAccount list"
  own_StatefulSets :: "StatefulSet list"
  own_Services :: "Service list"
  own_VirtualServices :: "VirtualService list"
  own_RoleBindings :: "string \<rightharpoonup> RoleBinding"
  own_ClusterRoleBindings :: "string \<rightharpoonup> ClusterRoleBinding"
  own_ConfigMaps :: "string \<rightharpoonup> ConfigMap"
  own_ReferenceGrants :: "string \<rightharpoonup> ReferenceGrant"
  own_HTTPRoutes :: "string \<times> string \<rightharpoonup> HTTPRoute"
  own_Pods :: "string \<rightharpoonup> Pod"
  own_APIServer :: api_server_answer

section \<open>What is stored\<close>

definition admit_meta :: "api_defaults \<Rightarrow> string list \<Rightarrow> ObjectMeta \<Rightarrow> ObjectMeta" where
  "admit_meta sv names m = (if om_Name m = [] then m\<lparr>om_Name := sv_Name sv names (om_GenerateName m)\<rparr> else m)"

definition admit_statefulset :: "api_defaults \<Rightarrow> string list \<Rightarrow> StatefulSet \<Rightarrow> StatefulSet" where
  "admit_statefulset sv names x =
     x\<lparr>sts_Meta := admit_meta sv names (sts_Meta x), sts_Template := sv_Template sv (sts_Template x)\<rparr>"

definition admit_service :: "api_defaults \<Rightarrow> string list \<Rightarrow> Service \<Rightarrow> Service" where
  "admit_service sv names x =
     x\<lparr>svc_Meta := admit_meta sv names (svc_Meta x), svc_Type := (if svc_Type x = [] then ''ClusterIP'' else svc_Type x),
       svc_Rest := Some (case svc_Rest x of Some r \<Rightarrow> r | None \<Rightarrow> sv_ServiceRest sv x)\<rparr>"

definition admit_virtual_service :: "api_defaults \<Rightarrow> string list \<Rightarrow> VirtualService \<Rightarrow> VirtualService" where
  "admit_virtual_service sv names x = x\<lparr>vsv_Meta := admit_meta sv names (vsv_Meta x)\<rparr>"

abbreviation names_of :: "('o \<Rightarrow> ObjectMeta) \<Rightarrow> 'o list \<Rightarrow> string list" where
  "names_of meta xs \<equiv> map (\<lambda>x. om_Name (meta x)) xs"

definition replace_named :: "('o \<Rightarrow> ObjectMeta) \<Rightarrow> 'o \<Rightarrow> 'o list \<Rightarrow> 'o list" where
  "replace_named meta x xs = map (\<lambda>y. if om_Name (meta y) = om_Name (meta x) then x else y) xs"

fun apply_write :: "api_defaults \<Rightarrow> api_write \<Rightarrow> cluster_store \<Rightarrow> cluster_store" where
  "apply_write sv (UpdateKindMeta k) s = s\<lparr>own_Kinds := (own_Kinds s)(om_Name (wk_Meta k) \<mapsto> k)\<rparr>"
| "apply_write sv (CreateServiceAccount x) s = s\<lparr>own_ServiceAccounts := own_ServiceAccounts s @ [x]\<rparr>"
| "apply_write sv (UpdateServiceAccount x) s = s\<lparr>own_ServiceAccounts := replace_named sacc_Meta x (own_ServiceAccounts s)\<rparr>"
| "apply_write sv (CreateStatefulSet x) s =
     s\<lparr>own_StatefulSets := own_StatefulSets s @ [admit_statefulset sv (names_of sts_Meta (own_StatefulSets s)) x]\<rparr>"
| "apply_write sv (UpdateStatefulSet x) s =
     s\<lparr>own_StatefulSets := replace_named sts_Meta
         (admit_statefulset sv (names_of sts_Meta (own_StatefulSets s)) x) (own_StatefulSets s)\<rparr>"
| "apply_write sv (CreateService x) s =
     s\<lparr>own_Services := own_Services s @ [admit_service sv (names_of svc_Meta (own_Services s)) x]\<rparr>"
| "apply_write sv (UpdateService x) s =
     s\<lparr>own_Services := replace_named svc_Meta (admit_service sv (names_of svc_Meta (own_Services s)) x) (own_Services s)\<rparr>"
| "apply_write sv (CreateVirtualService x) s =
     s\<lparr>own_VirtualServices := own_VirtualServices s @
         [admit_virtual_service sv (names_of vsv_Meta (own_VirtualServices s)) x]\<rparr>"
| "apply_write sv (UpdateVirtualService x) s = s\<lparr>own_VirtualServices := replace_named vsv_Meta x (own_VirtualServices s)\<rparr>"
| "apply_write sv (CreateClusterRoleBinding x) s =
     s\<lparr>own_ClusterRoleBindings := (own_ClusterRoleBindings s)(om_Name (crb_Meta x) \<mapsto> x)\<rparr>"
| "apply_write sv (UpdateClusterRoleBinding x) s =
     s\<lparr>own_ClusterRoleBindings := (own_ClusterRoleBindings s)(om_Name (crb_Meta x) \<mapsto> x)\<rparr>"
| "apply_write sv (DeleteClusterRoleBinding x) s =
     s\<lparr>own_ClusterRoleBindings := (own_ClusterRoleBindings s)(om_Name (crb_Meta x) := None)\<rparr>"
| "apply_write sv (CreateConfigMap x) s = s\<lparr>own_ConfigMaps := (own_ConfigMaps s)(om_Name (cm_Meta x) \<mapsto> x)\<rparr>"
| "apply_write sv (UpdateConfigMap x) s = s\<lparr>own_ConfigMaps := (own_ConfigMaps s)(om_Name (cm_Meta x) \<mapsto> x)\<rparr>"
| "apply_write sv (CreateReferenceGrant x) s =
     s\<lparr>own_ReferenceGrants := (own_ReferenceGrants s)(om_Name (rg_Meta x) \<mapsto> x)\<rparr>"
| "apply_write sv (UpdateReferenceGrant x) s =
     s\<lparr>own_ReferenceGrants := (own_ReferenceGrants s)(om_Name (rg_Meta x) \<mapsto> x)\<rparr>"
| "apply_write sv (CreateHTTPRoute x) s =
     s\<lparr>own_HTTPRoutes := (own_HTTPRoutes s)((om_Namespace (hr_Meta x), om_Name (hr_Meta x)) \<mapsto> x)\<rparr>"
| "apply_write sv (UpdateHTTPRoute x) s =
     s\<lparr>own_HTTPRoutes := (own_HTTPRoutes s)((om_Namespace (hr_Meta x), om_Name (hr_Meta x)) \<mapsto> x)\<rparr>"
| "apply_write sv (DeleteHTTPRoute x) s =
     s\<lparr>own_HTTPRoutes := (own_HTTPRoutes s)((om_Namespace (hr_Meta x), om_Name (hr_Meta x)) := None)\<rparr>"
| "apply_write sv (RoleBindingWrite opn) s = s\<lparr>own_RoleBindings := apply_op opn (own_RoleBindings s)\<rparr>"
| "apply_write sv (UpdateWorkspace w) s = s"
| "apply_write sv (WorkspaceWrite wr) s = s"

text \<open>A refused write changes nothing.\<close>

definition write_effect :: "api_defaults \<Rightarrow> api_write \<times> api_error option \<Rightarrow> cluster_store \<Rightarrow> cluster_store" where
  "write_effect sv e s = (case e of (wr, None) \<Rightarrow> apply_write sv wr s | (wr, Some _) \<Rightarrow> s)"

interpretation cluster: replay_store "write_effect sv" for sv .

section \<open>A pass against the store\<close>

definition or_not_found :: "string \<Rightarrow> 'o option \<Rightarrow> api_error + 'o" where
  "or_not_found n x = (case x of Some obj \<Rightarrow> Inr obj | None \<Rightarrow> Inl (NotFound n))"

text \<open>The API server accepts every write, and reads see all of them.\<close>

definition env_of :: "rec_env \<Rightarrow> api_defaults \<Rightarrow> cluster_store \<Rightarrow> rec_env" where
  "env_of base sv s0 =
     (let at = cluster.replay sv s0 in
      base\<lparr>re_Api := (\<lambda>_ _. None),
        re_GetKind := (\<lambda>t n. or_not_found n (own_Kinds (at t) n)),
        re_ListServiceAccounts := (\<lambda>t. Inr (own_ServiceAccounts (at t))),
        re_GetServiceAccount := (\<lambda>t n. or_not_found n (List.find (\<lambda>x. om_Name (sacc_Meta x) = n) (own_ServiceAccounts (at t)))),
        re_ListStatefulSets := (\<lambda>t. Inr (own_StatefulSets (at t))),
        re_ListServices := (\<lambda>t. Inr (own_Services (at t))),
        re_ListVirtualServices := (\<lambda>t. Inr (own_VirtualServices (at t))),
        re_ListRoleBindings := (\<lambda>t. Inr (map snd (map_entries (re_Keys base) (own_RoleBindings (at t))))),
        re_GetAPIServer := (\<lambda>t. own_APIServer (at t)),
        re_GetClusterRoleBinding := (\<lambda>t n. or_not_found n (own_ClusterRoleBindings (at t) n)),
        re_GetConfigMap := (\<lambda>t n. or_not_found n (own_ConfigMaps (at t) n)),
        re_GetService := (\<lambda>t n. or_not_found n (List.find (\<lambda>x. om_Name (svc_Meta x) = n) (own_Services (at t)))),
        re_GetReferenceGrant := (\<lambda>t n. or_not_found n (own_ReferenceGrants (at t) n)),
        re_GetHTTPRoute := (\<lambda>t ns n. or_not_found n (own_HTTPRoutes (at t) (ns, n))),
        re_GetPod := (\<lambda>t n. or_not_found n (own_Pods (at t) n)),
        re_RespKind := (\<lambda>t x. x),
        re_RespWorkspace := (\<lambda>t x. x),
        re_RespStatefulSet := (\<lambda>t. admit_statefulset sv (names_of sts_Meta (own_StatefulSets (at t)))),
        re_RespService := (\<lambda>t. admit_service sv (names_of svc_Meta (own_Services (at t))))\<rparr>)"

lemma env_of_base [simp]:
  "re_Config (env_of base sv s) = re_Config base" "re_Lib (env_of base sv s) = re_Lib base"
  "re_Range (env_of base sv s) = re_Range base" "re_Keys (env_of base sv s) = re_Keys base"
  "re_Sha (env_of base sv s) = re_Sha base" "re_Suites (env_of base sv s) = re_Suites base"
  "re_FIPS (env_of base sv s) = re_FIPS base" "re_SetRef (env_of base sv s) = re_SetRef base"
  by (simp_all add: env_of_def Let_def)

lemma env_of_reads [simp]:
  "re_Api (env_of base sv s) = (\<lambda>_ _. None)"
  "re_GetKind (env_of base sv s) = (\<lambda>t n. or_not_found n (own_Kinds (cluster.replay sv s t) n))"
  "re_ListServiceAccounts (env_of base sv s) = (\<lambda>t. Inr (own_ServiceAccounts (cluster.replay sv s t)))"
  "re_ListStatefulSets (env_of base sv s) = (\<lambda>t. Inr (own_StatefulSets (cluster.replay sv s t)))"
  "re_ListServices (env_of base sv s) = (\<lambda>t. Inr (own_Services (cluster.replay sv s t)))"
  "re_ListVirtualServices (env_of base sv s) = (\<lambda>t. Inr (own_VirtualServices (cluster.replay sv s t)))"
  "re_ListRoleBindings (env_of base sv s) =
     (\<lambda>t. Inr (map snd (map_entries (re_Keys base) (own_RoleBindings (cluster.replay sv s t)))))"
  "re_GetAPIServer (env_of base sv s) = (\<lambda>t. own_APIServer (cluster.replay sv s t))"
  "re_GetClusterRoleBinding (env_of base sv s) = (\<lambda>t n. or_not_found n (own_ClusterRoleBindings (cluster.replay sv s t) n))"
  "re_GetConfigMap (env_of base sv s) = (\<lambda>t n. or_not_found n (own_ConfigMaps (cluster.replay sv s t) n))"
  "re_GetService (env_of base sv s) =
     (\<lambda>t n. or_not_found n (List.find (\<lambda>x. om_Name (svc_Meta x) = n) (own_Services (cluster.replay sv s t))))"
  "re_GetReferenceGrant (env_of base sv s) = (\<lambda>t n. or_not_found n (own_ReferenceGrants (cluster.replay sv s t) n))"
  "re_GetHTTPRoute (env_of base sv s) = (\<lambda>t ns n. or_not_found n (own_HTTPRoutes (cluster.replay sv s t) (ns, n)))"
  "re_GetPod (env_of base sv s) = (\<lambda>t n. or_not_found n (own_Pods (cluster.replay sv s t) n))"
  "re_RespKind (env_of base sv s) = (\<lambda>t x. x)" "re_RespWorkspace (env_of base sv s) = (\<lambda>t x. x)"
  "re_RespStatefulSet (env_of base sv s) =
     (\<lambda>t. admit_statefulset sv (names_of sts_Meta (own_StatefulSets (cluster.replay sv s t))))"
  "re_RespService (env_of base sv s) =
     (\<lambda>t. admit_service sv (names_of svc_Meta (own_Services (cluster.replay sv s t))))"
  by (simp_all add: env_of_def Let_def)

text \<open>Objects are stored under their names, and names are not empty and not taken twice.\<close>

definition names_ok :: "('o \<Rightarrow> ObjectMeta) \<Rightarrow> 'o list \<Rightarrow> bool" where
  "names_ok meta xs \<longleftrightarrow> distinct (names_of meta xs) \<and> [] \<notin> set (names_of meta xs)"

definition stored_by :: "('o \<Rightarrow> 'k) \<Rightarrow> ('k \<rightharpoonup> 'o) \<Rightarrow> bool" where
  "stored_by key m \<longleftrightarrow> (\<forall>n x. m n = Some x \<longrightarrow> key x = n)"

definition store_ok :: "cluster_store \<Rightarrow> bool" where
  "store_ok s \<longleftrightarrow>
     stored_by (\<lambda>x. om_Name (wk_Meta x)) (own_Kinds s) \<and> names_ok sacc_Meta (own_ServiceAccounts s) \<and>
     names_ok sts_Meta (own_StatefulSets s) \<and> names_ok svc_Meta (own_Services s) \<and> names_ok vsv_Meta (own_VirtualServices s) \<and>
     stored_by rb_Name (own_RoleBindings s) \<and> finite (dom (own_RoleBindings s)) \<and>
     stored_by (\<lambda>x. om_Name (crb_Meta x)) (own_ClusterRoleBindings s) \<and>
     stored_by (\<lambda>x. om_Name (cm_Meta x)) (own_ConfigMaps s) \<and>
     stored_by (\<lambda>x. om_Name (rg_Meta x)) (own_ReferenceGrants s) \<and>
     stored_by (\<lambda>x. (om_Namespace (hr_Meta x), om_Name (hr_Meta x))) (own_HTTPRoutes s)"

end
