(* ===== verification/Reconcile_Settled.thy ===== *)
theory Reconcile_Settled
  imports Cluster_Store
begin

text \<open>
  The passages of the Workspace reconcile on a cluster that answers from its own store: after a passage went on,
  it is settled by the part of the store it writes. Running it again, over a Workspace with the same metadata and
  spec, ends with the same result and changes nothing.
\<close>

section \<open>Accepted writes\<close>

abbreviation accepts :: api_fn where
  "accepts \<equiv> \<lambda>_ _. None"

lemma accepted_object [simp]:
  "create_object accepts ok crt resp obj t = (Inr (resp t obj), t @ [(crt obj, None)])"
  "update_object accepts rq upd resp obj t = (Inr (resp t obj), t @ [(upd obj, None)])"
  by (simp_all add: create_object_def update_object_def and_then_def ask_def send_def proceed_def)

lemma accepted_fetch [simp]: "fetch (\<lambda>t. Inr (q t)) t = (Inr (q t), t)"
  by (simp add: fetch_def and_then_def ask_def proceed_def)

lemma write_effect_simps [simp]: "write_effect sv (wr, None) s = apply_write sv wr s" "write_effect sv (wr, Some e) s = s"
  by (simp_all add: write_effect_def)

lemma or_not_found_simps [simp]:
  "or_not_found n (Some x) = Inr x" "or_not_found n None = Inl (NotFound n)" "or_not_found n r = Inr x \<longleftrightarrow> r = Some x"
  by (auto simp: or_not_found_def split: option.splits)

lemma keepsI: "(\<And>s. c (apply_write sv wr s) = c s) \<Longrightarrow> cluster.keeps sv c wr"
  by (auto simp: cluster.keeps_def write_effect_def split: option.splits)

text \<open>An object the client lists is brought in line: what the pass ends with and what it wrote.\<close>

lemma owned_pass:
  assumes "re_Api env = accepts" "reconcile_owned env w rq msg meta crt upd resp copier owned d t = (Inr x, t')"
  shows "(owned = [] \<and> x = resp t d \<and> t' = t @ [(crt d, None)]) \<or>
    (\<exists>y. owned = [y] \<and> (if snd (copier d y) then x = resp t (fst (copier d y)) \<and> t' = t @ [(upd (fst (copier d y)), None)]
                        else x = fst (copier d y) \<and> t' = t))"
proof (cases owned)
  case (Cons y ys)
  show ?thesis
  proof (cases ys)
    case Nil
    with Cons assms show ?thesis by (cases "copier d y") (auto simp: reconcile_owned_def split: if_splits)
  qed (use Cons assms in \<open>simp add: reconcile_owned_def\<close>)
qed (use assms in \<open>simp add: reconcile_owned_def\<close>)

lemma owned_single:
  "re_Api env = accepts \<Longrightarrow> reconcile_owned env w rq msg meta crt upd resp copier [y] d t =
     (if snd (copier d y) then (Inr (resp t (fst (copier d y))), t @ [(upd (fst (copier d y)), None)])
      else (Inr (fst (copier d y)), t))"
  by (simp add: reconcile_owned_def proceed_def split: prod.splits)

text \<open>An object with a fixed name: afterwards it is stored and the copier has nothing to do.\<close>

lemma named_pass:
  assumes "reconcile_named accepts ok rq get crt upd copier d t = (Inr x, t')"
  shows "(\<exists>n. get t = Inl (NotFound n) \<and> t' = t @ [(crt d, None)]) \<or>
    (\<exists>y. get t = Inr y \<and> t' = (if snd (copier d y) then t @ [(upd (fst (copier d y)), None)] else t))"
proof (cases "get t")
  case (Inl err)
  with assms show ?thesis by (cases err) (auto simp: reconcile_named_def elim!: and_then_InrE)
next
  case (Inr y)
  with assms show ?thesis
    by (cases "copier d y") (auto simp: reconcile_named_def elim!: and_then_InrE split: if_splits)
qed

lemma named_silent:
  "get t = Inr y \<Longrightarrow> copier d y = (y, False) \<Longrightarrow> reconcile_named api ok rq get crt upd copier d t = (Inr (), t)"
  by (simp add: reconcile_named_def and_then_def ask_def proceed_def)

section \<open>Names\<close>

lemma admit_meta_simps [simp]:
  "om_Labels (admit_meta sv ns m) = om_Labels m" "om_Annotations (admit_meta sv ns m) = om_Annotations m"
  "om_Name m \<noteq> [] \<Longrightarrow> admit_meta sv ns m = m"
  by (simp_all add: admit_meta_def)

lemma admit_meta_name:
  assumes "defaults_ok sv"
  shows "om_Name (admit_meta sv ns m) \<noteq> []" "om_Name m = [] \<Longrightarrow> om_Name (admit_meta sv ns m) \<notin> set ns"
  using assms by (auto simp: admit_meta_def defaults_ok_def)

lemma replace_named_single [simp]: "om_Name (meta x) = om_Name (meta y) \<Longrightarrow> replace_named meta x [y] = [x]"
  by (simp add: replace_named_def)

lemma replace_named_self: "names_ok meta xs \<Longrightarrow> x \<in> set xs \<Longrightarrow> replace_named meta x xs = xs"
  unfolding replace_named_def names_ok_def by (intro map_idI) (auto simp: distinct_map inj_on_def)

section \<open>StatefulSets\<close>

definition statefulset_settled :: "api_defaults \<Rightarrow> StatefulSet \<Rightarrow> StatefulSet \<Rightarrow> bool" where
  "statefulset_settled sv d x \<longleftrightarrow> om_Name (sts_Meta x) \<noteq> [] \<and>
     (CopyStatefulSetFields d x = (x, False) \<or> (\<forall>ns. admit_statefulset sv ns (fst (CopyStatefulSetFields d x)) = x))"

lemma CopyStatefulSetFields_eq:
  "fst (CopyStatefulSetFields d x) = x\<lparr>sts_Meta := (sts_Meta x)\<lparr>om_Labels := om_Labels (sts_Meta d), om_Annotations := om_Annotations (sts_Meta d)\<rparr>,
     sts_Replicas := sts_Replicas d, sts_Selector := sts_Selector d, sts_Template := sts_Template d\<rparr>"
  by (simp add: CopyStatefulSetFields_def copy_field_def copy_meta_def replaceStringMapFields_def Let_def)

lemma statefulset_copy_self: "CopyStatefulSetFields x x = (x, False)"
  by (rule statefulset_copier.no_update [of sample_range]) (simp_all add: meta_replaced_def)

lemma admitted_copy_settled:
  assumes "defaults_ok sv" and "om_Labels (sts_Meta x) = om_Labels (sts_Meta d)"
    "om_Annotations (sts_Meta x) = om_Annotations (sts_Meta d)" "sts_Replicas x = sts_Replicas d" "sts_Selector x = sts_Selector d"
    "sts_Template x = sts_Template d"
  shows "statefulset_settled sv d (admit_statefulset sv ns x)"
  using assms(2-) admit_meta_name(1) [OF assms(1), of ns "sts_Meta x"]
  by (auto simp: statefulset_settled_def CopyStatefulSetFields_eq admit_statefulset_def admit_meta_def)

lemma owned_statefulset_pass:
  assumes "defaults_ok sv" and "names_ok sts_Meta (own_StatefulSets (cluster.replay sv s t))"
    and "reconcileOwnedStatefulSet (env_of base sv s) w d t = (Inr x, t')"
  shows "own_StatefulSets (cluster.replay sv s t') = [x] \<and> statefulset_settled sv d x"
proof -
  let ?\<sigma> = "cluster.replay sv s t"
  let ?adm = "admit_statefulset sv (names_of sts_Meta (own_StatefulSets ?\<sigma>))"
  from assms(3) have run: "reconcile_owned (env_of base sv s) w True stateMsgErrorMultipleStatefulSets sts_Meta CreateStatefulSet
      UpdateStatefulSet (\<lambda>t. admit_statefulset sv (names_of sts_Meta (own_StatefulSets (cluster.replay sv s t))))
      CopyStatefulSetFields (own_StatefulSets ?\<sigma>) d t = (Inr x, t')"
    by (simp add: reconcileOwnedStatefulSet_def and_then_def)
  from owned_pass [OF env_of_reads(1) run] show ?thesis
  proof (elim disjE exE conjE)
    assume "own_StatefulSets ?\<sigma> = []" "x = ?adm d" "t' = t @ [(CreateStatefulSet d, None)]"
    then show ?thesis using admitted_copy_settled [OF assms(1), of d d] by simp
  next
    fix y assume y: "own_StatefulSets ?\<sigma> = [y]"
      and r: "if snd (CopyStatefulSetFields d y)
        then x = ?adm (fst (CopyStatefulSetFields d y)) \<and> t' = t @ [(UpdateStatefulSet (fst (CopyStatefulSetFields d y)), None)]
        else x = fst (CopyStatefulSetFields d y) \<and> t' = t"
    from y assms(2) have name: "om_Name (sts_Meta y) \<noteq> []" by (auto simp: names_ok_def)
    show ?thesis
    proof (cases "snd (CopyStatefulSetFields d y)")
      case True
      with r have x: "x = ?adm (fst (CopyStatefulSetFields d y))" and t': "t' = t @ [(UpdateStatefulSet (fst (CopyStatefulSetFields d y)), None)]" by auto
      have "om_Name (sts_Meta x) = om_Name (sts_Meta y)" using name by (simp add: x admit_statefulset_def CopyStatefulSetFields_eq)
      then show ?thesis using y x t' admitted_copy_settled [OF assms(1), of "fst (CopyStatefulSetFields d y)" d]
        by (simp add: CopyStatefulSetFields_eq)
    next
      case False
      then have "fst (CopyStatefulSetFields d y) = y" by (rule statefulset_copier.silent_unchanged [of sample_range, rotated]) simp
      with False r y name show ?thesis by (auto simp: statefulset_settled_def prod_eq_iff)
    qed
  qed
qed

lemma owned_statefulset_settled:
  assumes "own_StatefulSets \<sigma> = [x]" and "statefulset_settled sv d x"
  shows "cluster.settled sv (\<lambda>s. reconcileOwnedStatefulSet (env_of base sv s) w d) x \<sigma>"
proof (rule cluster.settledI)
  fix s t assume \<sigma>: "cluster.replay sv s t = \<sigma>"
  have run: "reconcileOwnedStatefulSet (env_of base sv s) w d t =
      (if snd (CopyStatefulSetFields d x)
       then (Inr (admit_statefulset sv [om_Name (sts_Meta x)] (fst (CopyStatefulSetFields d x))),
             t @ [(UpdateStatefulSet (fst (CopyStatefulSetFields d x)), None)])
       else (Inr (fst (CopyStatefulSetFields d x)), t))"
    using assms(1) \<sigma> by (simp add: reconcileOwnedStatefulSet_def and_then_def owned_single)
  consider "CopyStatefulSetFields d x = (x, False)"
    | "snd (CopyStatefulSetFields d x)" "\<And>ns. admit_statefulset sv ns (fst (CopyStatefulSetFields d x)) = x"
    using assms(2) statefulset_copier.silent_unchanged [of sample_range d x]
    by (cases "CopyStatefulSetFields d x") (auto simp: statefulset_settled_def)
  then show "\<exists>t'. reconcileOwnedStatefulSet (env_of base sv s) w d t = (Inr x, t') \<and> cluster.replay sv s t' = \<sigma>"
    by cases (use assms(1) \<sigma> in \<open>simp_all add: run\<close>)
qed

section \<open>What is generated does not depend on the status\<close>

definition same_request :: "Workspace \<Rightarrow> Workspace \<Rightarrow> bool" where
  "same_request w w' \<longleftrightarrow> ws_Meta w' = ws_Meta w \<and> ws_Spec w' = ws_Spec w"

text \<open>The owner reference names the Workspace, and leaves the rest of the metadata of an object as it is.\<close>

definition owner_ok :: "(Workspace \<Rightarrow> ObjectMeta \<Rightarrow> string + ObjectMeta) \<Rightarrow> bool" where
  "owner_ok setRef \<longleftrightarrow> (\<forall>w. ref_ok (setRef w)) \<and> (\<forall>w w'. same_request w w' \<longrightarrow> setRef w' = setRef w)"

lemma same_request_generated:
  assumes "same_request w w'"
  shows "generateServiceAccount sha w' = generateServiceAccount sha w"
    "generateStatefulSet lib w' k ispec pspec sa = generateStatefulSet lib w k ispec pspec sa"
    "generateService w' ispec = generateService w ispec"
    "generateKubeRBACProxySidecar cfg w' k ispec args = generateKubeRBACProxySidecar cfg w k ispec args"
    "generateVirtualService lib rng cfg w' k svc ispec = generateVirtualService lib rng cfg w k svc ispec"
    "generateKubeRBACProxyClusterRoleBinding w' sa = generateKubeRBACProxyClusterRoleBinding w sa"
    "generateKubeRBACProxyConfigMap w' = generateKubeRBACProxyConfigMap w"
    "generateKubeRBACProxyService w' = generateKubeRBACProxyService w"
    "generateKubeGatewayReferenceGrant cfg w' svc = generateKubeGatewayReferenceGrant cfg w svc"
    "generateGatewayV1HTTPRoute cfg w' k svc ispec = generateGatewayV1HTTPRoute cfg w k svc ispec"
    "generateRoleBinding sha w' sa = generateRoleBinding sha w sa"
    "getImageConfig w' k = getImageConfig w k" "getPodConfig w' k = getPodConfig w k"
proof -
  have meta: "ws_Meta w' = ws_Meta w" "ws_Spec w' = ws_Spec w" using assms by (simp_all add: same_request_def)
  have labels: "workspace_labels w' = workspace_labels w" "selector_labels w' = selector_labels w" "odh_labels w' = odh_labels w"
    "sidecar_volumes w' = sidecar_volumes w" "httpPathPrefixFunc w' = httpPathPrefixFunc w"
    by (simp_all only: workspace_labels_def selector_labels_def odh_labels_def sidecar_volumes_def httpPathPrefixFunc_def fun_eq_iff meta simp_thms)
  note same = meta labels
  show "generateServiceAccount sha w' = generateServiceAccount sha w"
    "generateService w' ispec = generateService w ispec"
    "generateKubeRBACProxySidecar cfg w' k ispec args = generateKubeRBACProxySidecar cfg w k ispec args"
    "generateKubeRBACProxyClusterRoleBinding w' sa = generateKubeRBACProxyClusterRoleBinding w sa"
    "generateKubeRBACProxyConfigMap w' = generateKubeRBACProxyConfigMap w"
    "generateKubeRBACProxyService w' = generateKubeRBACProxyService w"
    "generateKubeGatewayReferenceGrant cfg w' svc = generateKubeGatewayReferenceGrant cfg w svc"
    "generateGatewayV1HTTPRoute cfg w' k svc ispec = generateGatewayV1HTTPRoute cfg w k svc ispec"
    "generateRoleBinding sha w' sa = generateRoleBinding sha w sa"
    "getImageConfig w' k = getImageConfig w k" "getPodConfig w' k = getPodConfig w k"
    by (simp_all only: generateServiceAccount_def generateService_def generateKubeRBACProxySidecar_def
        generateKubeRBACProxyClusterRoleBinding_def generateKubeRBACProxyConfigMap_def generateKubeRBACProxyService_def
        generateKubeGatewayReferenceGrant_def generateGatewayV1HTTPRoute_def generateRoleBinding_def fun_eq_iff
        getImageConfig_def getPodConfig_def same simp_thms)
  show "generateStatefulSet lib w' k ispec pspec sa = generateStatefulSet lib w k ispec pspec sa"
    by (simp only: generateStatefulSet_def same)
  show "generateVirtualService lib rng cfg w' k svc ispec = generateVirtualService lib rng cfg w k svc ispec"
    by (simp only: generateVirtualService_def generateVirtualServiceHTTPRoute_def same)
qed

text \<open>What is assumed of the libraries a pass uses and of the defaults of the API server.\<close>

definition libraries_ok :: "rec_env \<Rightarrow> api_defaults \<Rightarrow> bool" where
  "libraries_ok base sv \<longleftrightarrow> owner_ok (re_SetRef base) \<and> range_order (re_Range base) \<and> key_order (re_Keys base) \<and> defaults_ok sv"

lemma owner_set:
  assumes "libraries_ok base sv"
  obtains m' where "re_SetRef base w m = Inr m'" "om_Name m' = om_Name m" "meta_replaced m m'"
    "\<And>w' s. same_request w w' \<Longrightarrow> set_owner (env_of base sv s) w' m = proceed m'"
    "\<And>s. set_owner (env_of base sv s) w m = proceed m'"
proof -
  from assms have ok: "ref_ok (re_SetRef base w)" "\<And>w'. same_request w w' \<Longrightarrow> re_SetRef base w' = re_SetRef base w"
    by (auto simp: libraries_ok_def owner_ok_def)
  from ok(1) obtain m' where "re_SetRef base w m = Inr m'" "om_Name m' = om_Name m" "meta_replaced m m'"
    unfolding ref_ok_def by blast
  with ok(2) show thesis by (intro that) (auto simp: set_owner_def)
qed

section \<open>ServiceAccount\<close>

lemma service_account_step:
  assumes "\<And>s. set_owner (env_of base sv s) w (sacc_Meta (generateServiceAccount (re_Sha base) w)) = proceed m"
  shows "reconcile_service_account (env_of base sv s) w t =
    (let d = (generateServiceAccount (re_Sha base) w)\<lparr>sacc_Meta := m\<rparr> in
     case own_ServiceAccounts (cluster.replay sv s t) of
       [] \<Rightarrow> (Inr (om_Name m), t @ [(CreateServiceAccount d, None)])
     | [y] \<Rightarrow> (Inr (om_Name (sacc_Meta y)),
               if snd (CopyServiceAccountFields (re_Range base) d y)
               then t @ [(UpdateServiceAccount (fst (CopyServiceAccountFields (re_Range base) d y)), None)] else t)
     | ys \<Rightarrow> updateWorkspaceState (env_of base sv s) w WorkspaceStateError
               (stateMsgErrorMultipleServiceAccounts @ names_list sacc_Meta ys) t)"
  using assms
  by (simp add: reconcile_service_account_def create_service_account_def Let_def and_then_def proceed_def send_def
      split: list.splits prod.splits)

lemma service_account_pass:
  assumes "libraries_ok base sv" and "same_request w w'"
    and run: "reconcile_service_account (env_of base sv s) w t = (Inr n, t')"
  shows "cluster.settled_by sv own_ServiceAccounts (\<lambda>s. reconcile_service_account (env_of base sv s) w') n (cluster.replay sv s t')"
proof -
  let ?d = "generateServiceAccount (re_Sha base) w"
  have same: "generateServiceAccount (re_Sha base) w' = ?d" by (rule same_request_generated [OF assms(2)])
  have rng: "range_order (re_Range base)" using assms(1) by (simp add: libraries_ok_def)
  obtain m where m: "\<And>w' s. same_request w w' \<Longrightarrow> set_owner (env_of base sv s) w' (sacc_Meta ?d) = proceed m"
    "\<And>s. set_owner (env_of base sv s) w (sacc_Meta ?d) = proceed m" by (rule owner_set [OF assms(1)]) blast
  let ?d' = "?d\<lparr>sacc_Meta := m\<rparr>"
  note laws = service_account_copier.second_copy_silent [OF rng rng] service_account_copier.silent_unchanged [OF rng]
    service_account_copier.no_update [OF rng]
  have name: "om_Name (sacc_Meta (fst (CopyServiceAccountFields (re_Range base) d y))) = om_Name (sacc_Meta y)" for d y
    by (simp add: CopyServiceAccountFields_def copy_meta_def split: prod.splits)
  have "\<exists>x. own_ServiceAccounts (cluster.replay sv s t') = [x] \<and> om_Name (sacc_Meta x) = n \<and>
      CopyServiceAccountFields (re_Range base) ?d' x = (x, False)"
  proof (cases "own_ServiceAccounts (cluster.replay sv s t)")
    case Nil
    with run laws(3) [of ?d' ?d'] show ?thesis
      by (auto simp: service_account_step [OF m(2)] Let_def merged_def)
  next
    case (Cons y ys)
    show ?thesis
    proof (cases ys)
      case Nil
      with run Cons have n: "n = om_Name (sacc_Meta y)" and t': "t' = (if snd (CopyServiceAccountFields (re_Range base) ?d' y)
          then t @ [(UpdateServiceAccount (fst (CopyServiceAccountFields (re_Range base) ?d' y)), None)] else t)"
        by (simp_all add: service_account_step [OF m(2)] Let_def)
      show ?thesis
        using Cons Nil n t' name laws(1) [of ?d' y] laws(2) [of ?d' y] by (auto simp: prod_eq_iff)
    qed (use run Cons in \<open>simp add: service_account_step [OF m(2)] Let_def\<close>)
  qed
  then obtain x where x: "own_ServiceAccounts (cluster.replay sv s t') = [x]" "om_Name (sacc_Meta x) = n"
    "CopyServiceAccountFields (re_Range base) ?d' x = (x, False)" by blast
  show ?thesis
  proof (rule cluster.settled_byI, rule cluster.settledI)
    fix \<sigma> s1 t1 assume "own_ServiceAccounts \<sigma> = own_ServiceAccounts (cluster.replay sv s t')" "cluster.replay sv s1 t1 = \<sigma>"
    with x show "\<exists>t2. reconcile_service_account (env_of base sv s1) w' t1 = (Inr n, t2) \<and> cluster.replay sv s1 t2 = \<sigma>"
      by (simp add: service_account_step [OF m(1) [OF assms(2), folded same]] Let_def same)
  qed
qed

section \<open>The StatefulSet of a pass\<close>

lemma generated_Inr [simp]: "generated env w msg r t = (Inr x, t') \<longleftrightarrow> r = Inr x \<and> t' = t"
  by (auto simp: generated_def stop_def proceed_def split: sum.splits gen_error.splits)

lemma generated_proceed: "generated env w msg (Inr x) = proceed x"
  by (simp add: generated_def)

lemma build_pass:
  assumes "libraries_ok base sv" and "same_request w w'" and "names_ok sts_Meta (own_StatefulSets (cluster.replay sv s t))"
    and run: "build_statefulset (env_of base sv s) w k img pc sa t = (Inr x, t')"
  shows "if cfg_UseKubeGateway (re_Config base)
    then t' = t \<and> (\<forall>\<sigma>. cluster.settled sv (\<lambda>s. build_statefulset (env_of base sv s) w' k img pc sa) x \<sigma>)
    else own_StatefulSets (cluster.replay sv s t') = [x] \<and> om_Name (sts_Meta x) \<noteq> [] \<and>
      cluster.settled_by sv own_StatefulSets (\<lambda>s. build_statefulset (env_of base sv s) w' k img pc sa) x (cluster.replay sv s t')"
proof -
  from run obtain d where d: "generateStatefulSet (re_Lib base) w k (ic_Spec img) (pc_Spec pc) sa = Inr d"
    by (auto simp: build_statefulset_def elim!: and_then_InrE)
  have d': "generateStatefulSet (re_Lib base) w' k (ic_Spec img) (pc_Spec pc) sa = Inr d"
    using d same_request_generated(2) [OF assms(2)] by simp
  obtain m where m: "\<And>w' s. same_request w w' \<Longrightarrow> set_owner (env_of base sv s) w' (sts_Meta d) = proceed m"
    "\<And>s. set_owner (env_of base sv s) w (sts_Meta d) = proceed m" by (rule owner_set [OF assms(1)]) blast
  let ?d = "d\<lparr>sts_Meta := m\<rparr>"
  have step: "build_statefulset (env_of base sv s) w0 k img pc sa =
      (if \<not> cfg_UseKubeGateway (re_Config base) then reconcileOwnedStatefulSet (env_of base sv s) w0 ?d else proceed ?d)"
    if "generateStatefulSet (re_Lib base) w0 k (ic_Spec img) (pc_Spec pc) sa = Inr d"
      "set_owner (env_of base sv s) w0 (sts_Meta d) = proceed m" for s w0
    using that by (simp add: build_statefulset_def generated_proceed fun_eq_iff and_then_def proceed_def Let_def)
  note step1 = step [OF d m(2)] and step2 = step [OF d' m(1) [OF assms(2)]]
  show ?thesis
  proof (cases "cfg_UseKubeGateway (re_Config base)")
    case True
    with run have "x = ?d" "t' = t" by (simp_all add: step1 proceed_def)
    with True show ?thesis by (auto simp: step2 intro: cluster.settled_proceed)
  next
    case False
    have "defaults_ok sv" using assms(1) by (simp add: libraries_ok_def)
    from owned_statefulset_pass [OF this assms(3), of base w ?d] run False
    have x: "own_StatefulSets (cluster.replay sv s t') = [x]" "statefulset_settled sv ?d x" by (auto simp: step1)
    with False show ?thesis
      by (auto intro!: cluster.settled_byI owned_statefulset_settled simp: step2 statefulset_settled_def)
  qed
qed

text \<open>Without the TLS settings the existing template is written back: the object settles on its own template.\<close>

lemma statefulset_settled_fields:
  assumes "statefulset_settled sv d x"
  shows "om_Labels (sts_Meta x) = om_Labels (sts_Meta d)" "om_Annotations (sts_Meta x) = om_Annotations (sts_Meta d)"
    "sts_Replicas x = sts_Replicas d" "sts_Selector x = sts_Selector d"
proof -
  from assms consider "fst (CopyStatefulSetFields d x) = x" | "admit_statefulset sv [] (fst (CopyStatefulSetFields d x)) = x"
    by (auto simp: statefulset_settled_def)
  then have "om_Labels (sts_Meta x) = om_Labels (sts_Meta d) \<and> om_Annotations (sts_Meta x) = om_Annotations (sts_Meta d) \<and>
      sts_Replicas x = sts_Replicas d \<and> sts_Selector x = sts_Selector d"
  proof cases
    case 1
    then show ?thesis using statefulset_copier.achieves [of sample_range d x] by (simp add: meta_replaced_def)
  next
    case 2
    with statefulset_copier.achieves [of sample_range d x] obtain y where "x = admit_statefulset sv [] y"
      "meta_replaced (sts_Meta d) (sts_Meta y)" "sts_Replicas y = sts_Replicas d" "sts_Selector y = sts_Selector d" by force
    then show ?thesis by (simp add: meta_replaced_def admit_statefulset_def)
  qed
  then show "om_Labels (sts_Meta x) = om_Labels (sts_Meta d)" "om_Annotations (sts_Meta x) = om_Annotations (sts_Meta d)"
    "sts_Replicas x = sts_Replicas d" "sts_Selector x = sts_Selector d" by blast+
qed

lemma own_template_settled:
  assumes "statefulset_settled sv (d\<lparr>sts_Template := tm\<rparr>) x"
  shows "statefulset_settled sv (d\<lparr>sts_Template := sts_Template x\<rparr>) x"
proof -
  have "CopyStatefulSetFields (d\<lparr>sts_Template := sts_Template x\<rparr>) x = (x, False)"
    using statefulset_settled_fields [OF assms]
    by (intro statefulset_copier.no_update [of sample_range]) (simp_all add: meta_replaced_def)
  with assms show ?thesis by (simp add: statefulset_settled_def)
qed

text \<open>What the passage writes, or that it writes nothing, from the list of StatefulSets and the answer about TLS.\<close>

definition template_plan ::
  "rec_env \<Rightarrow> Workspace \<Rightarrow> WorkspaceKind \<Rightarrow> ImageConfigValue \<Rightarrow> StatefulSet \<Rightarrow> StatefulSet list \<Rightarrow> api_server_answer \<Rightarrow>
     StatefulSet \<times> bool \<times> string option"
where
  "template_plan base w k img d owned srv =
     (if cfg_UseKubeGateway (re_Config base) \<and> kubeRBACProxySidecarNeeded k (ic_Spec img)
      then (case ResolveProxyTLS (re_Suites base) srv (re_FIPS base) of
              Inl e \<Rightarrow> (case owned of [] \<Rightarrow> (d, False, Some (tls_error_text e))
                        | [y] \<Rightarrow> (d\<lparr>sts_Template := sts_Template y\<rparr>, True, Some (tls_error_text e))
                        | _ \<Rightarrow> (d, True, Some (tls_error_text e)))
            | Inr tls \<Rightarrow> (add_sidecar (generateKubeRBACProxySidecar (re_Config base) w k (ic_Spec img) (Args tls)) d, True, None))
      else (d, True, None))"

lemma prepare_template_plan:
  "prepare_template (env_of base sv s) w k img d t =
     (Inr (template_plan base w k img d (own_StatefulSets (cluster.replay sv s t)) (own_APIServer (cluster.replay sv s t))), t)"
  by (auto simp: prepare_template_def template_plan_def findOwnedStatefulSet_def and_then_def ask_def proceed_def
      split: sum.splits list.splits)

lemma write_statefulset_step:
  "write_statefulset (env_of base sv s) w k img d t =
     (case template_plan base w k img d (own_StatefulSets (cluster.replay sv s t)) (own_APIServer (cluster.replay sv s t)) of
        (d', wr, e) \<Rightarrow>
          if wr then and_then (reconcileOwnedStatefulSet (env_of base sv s) w d') (\<lambda>x. proceed (x, e)) t else (Inr (d', e), t))"
  by (simp add: write_statefulset_def and_then_def prepare_template_plan proceed_def split: prod.splits)

lemma template_plan_settled:
  assumes "template_plan base w k img d owned srv = (d', True, e)" and "statefulset_settled sv d' x" and "length owned \<le> 1"
  shows "\<exists>d''. template_plan base w k img d [x] srv = (d'', True, e) \<and> statefulset_settled sv d'' x"
  using assms own_template_settled
  by (fastforce simp: template_plan_def split: if_splits sum.splits list.splits)

lemma untouched [simp]:
  "own_APIServer (cluster.replay sv s t) = own_APIServer s" "own_Pods (cluster.replay sv s t) = own_Pods s"
proof -
  have "cluster.keeps sv own_APIServer wr" "cluster.keeps sv own_Pods wr" for wr by (cases wr; rule keepsI; simp)+
  then show "own_APIServer (cluster.replay sv s t) = own_APIServer s" "own_Pods (cluster.replay sv s t) = own_Pods s"
    by (simp_all add: cluster.keeps_replay)
qed

lemma owned_statefulset_count:
  "reconcileOwnedStatefulSet (env_of base sv s) w d t = (Inr x, t') \<Longrightarrow> length (own_StatefulSets (cluster.replay sv s t)) \<le> 1"
  by (auto simp: reconcileOwnedStatefulSet_def and_then_def dest!: owned_pass [rotated])

lemma write_pass:
  assumes "libraries_ok base sv" and "same_request w w'" and "names_ok sts_Meta (own_StatefulSets (cluster.replay sv s t))"
    and run: "write_statefulset (env_of base sv s) w k img d t = (Inr (x, e), t')"
  shows "cluster.settled_by sv (\<lambda>\<sigma>. (own_StatefulSets \<sigma>, own_APIServer \<sigma>))
    (\<lambda>s. write_statefulset (env_of base sv s) w' k img d) (x, e) (cluster.replay sv s t')"
proof (rule cluster.settled_byI)
  let ?\<sigma> = "cluster.replay sv s t"
  fix \<sigma> :: cluster_store
  assume c: "(own_StatefulSets \<sigma>, own_APIServer \<sigma>) = (own_StatefulSets (cluster.replay sv s t'), own_APIServer (cluster.replay sv s t'))"
  have same: "template_plan base w' = template_plan base w"
    by (intro ext) (simp only: template_plan_def same_request_generated(4) [OF assms(2)])
  obtain d' wr e' where plan: "template_plan base w k img d (own_StatefulSets ?\<sigma>) (own_APIServer s) = (d', wr, e')" by (metis prod_cases3)
  show "cluster.settled sv (\<lambda>s. write_statefulset (env_of base sv s) w' k img d) (x, e) \<sigma>"
  proof (cases wr)
    case False
    with run plan have "x = d'" "e = e'" "t' = t" by (simp_all add: write_statefulset_step)
    with c plan False show ?thesis by (auto intro!: cluster.settledI simp: write_statefulset_step same)
  next
    case True
    with run plan have "and_then (reconcileOwnedStatefulSet (env_of base sv s) w d') (\<lambda>x. proceed (x, e')) t = (Inr (x, e), t')"
      by (simp add: write_statefulset_step)
    then have own: "reconcileOwnedStatefulSet (env_of base sv s) w d' t = (Inr x, t')" and e: "e' = e" by (auto elim!: and_then_InrE)
    have "defaults_ok sv" using assms(1) by (simp add: libraries_ok_def)
    from owned_statefulset_pass [OF this assms(3) own] have x: "own_StatefulSets (cluster.replay sv s t') = [x]" "statefulset_settled sv d' x" by auto
    obtain d'' where d'': "template_plan base w k img d [x] (own_APIServer s) = (d'', True, e)" "statefulset_settled sv d'' x"
      using template_plan_settled [OF _ x(2) owned_statefulset_count [OF own], of base w k img d "own_APIServer s" e]
        plan True e by auto
    show ?thesis
    proof (rule cluster.settledI)
      fix s1 t1 assume t1: "cluster.replay sv s1 t1 = \<sigma>"
      have "own_StatefulSets \<sigma> = [x]" using c x(1) by simp
      from owned_statefulset_settled [OF this d''(2), of base w'] t1
      obtain t2 where t2: "reconcileOwnedStatefulSet (env_of base sv s1) w' d'' t1 = (Inr x, t2)" "cluster.replay sv s1 t2 = \<sigma>"
        by (rule cluster.settledE)
      have "own_APIServer s1 = own_APIServer s" using c t1 by auto
      with t2 c x(1) d''(1) t1 show "\<exists>t2. write_statefulset (env_of base sv s1) w' k img d t1 = (Inr (x, e), t2) \<and> cluster.replay sv s1 t2 = \<sigma>"
        by (simp add: write_statefulset_step same and_then_def proceed_def)
    qed
  qed
qed

lemma write_again:
  assumes "\<not> cfg_UseKubeGateway (re_Config base)" "own_StatefulSets (cluster.replay sv s t) = [d]" "om_Name (sts_Meta d) \<noteq> []"
    and "write_statefulset (env_of base sv s) w k img d t = (Inr (x, e), t')"
  shows "cluster.replay sv s t' = cluster.replay sv s t"
proof -
  have "statefulset_settled sv d d" using assms(3) by (simp add: statefulset_settled_def statefulset_copy_self)
  from owned_statefulset_settled [OF assms(2) this, of base w]
  obtain t2 where "reconcileOwnedStatefulSet (env_of base sv s) w d t = (Inr d, t2)" "cluster.replay sv s t2 = cluster.replay sv s t"
    by (rule cluster.settledE) simp_all
  with assms(1,4) show ?thesis by (simp add: write_statefulset_step template_plan_def and_then_def proceed_def)
qed

section \<open>Services\<close>

lemma meta_included_refl [simp]: "meta_included m m"
  by (simp add: meta_included_def fmsubset_dom_iff)

abbreviation main_services :: "cluster_store \<Rightarrow> Service list" where
  "main_services \<sigma> \<equiv> filter (\<lambda>x. \<not> is_proxy_service x) (own_Services \<sigma>)"

lemma filter_replace_named:
  assumes "names_ok meta xs" and "filter P xs = [y]" and "om_Name (meta x) = om_Name (meta y)" and "P x"
  shows "filter P (replace_named meta x xs) = [x]"
proof -
  from assms(2) obtain us vs where xs: "xs = us @ y # vs" "\<forall>u \<in> set us. \<not> P u" "filter P vs = []"
    by (auto simp: filter_eq_Cons_iff)
  with assms(1) have "\<forall>u \<in> set us \<union> set vs. om_Name (meta u) \<noteq> om_Name (meta y)" by (auto simp: names_ok_def image_iff)
  then have "replace_named meta x xs = us @ x # vs" using xs(1) assms(3) by (simp add: replace_named_def map_idI)
  with xs assms(4) show ?thesis by simp
qed

lemma admit_service_proxy [simp]: "is_proxy_service (admit_service sv ns x) = is_proxy_service x"
  by (simp add: is_proxy_service_def admit_service_def)

lemma CopyServiceFields_meta:
  assumes "range_order rng"
  shows "om_Name (svc_Meta (fst (CopyServiceFields rng d y))) = om_Name (svc_Meta y)"
    "om_Labels (svc_Meta (fst (CopyServiceFields rng d y))) = om_Labels (svc_Meta y) ++\<^sub>f om_Labels (svc_Meta d)"
  using assms by (auto simp: CopyServiceFields_def copy_field_def copy_meta_def copyLabelFields_eq copyAnnotationFields_eq Let_def)

lemma generated_service:
  assumes "generateService w ispec = Inr d"
  shows "om_Labels (svc_Meta d) = workspace_labels w" "svc_Type d = ''ClusterIP''"
  using assms by (auto simp: generateService_def split: option.splits sum.splits)

lemma workspace_labels_no_component [simp]: "fmlookup (workspace_labels w) ''app.kubernetes.io/component'' = None"
  by (simp add: workspace_labels_def workspaceNameLabel_def)

lemma admitted_service_silent:
  assumes "range_order rng" and "CopyServiceFields rng d x = (x, False)" and "svc_Type d \<noteq> []"
  shows "CopyServiceFields rng d (admit_service sv ns x) = (admit_service sv ns x, False)"
proof -
  from assms(2) service_copier.update_iff [OF assms(1), of d x]
  have "meta_included (svc_Meta d) (svc_Meta x)" "svc_Ports x = svc_Ports d" "svc_Selector x = svc_Selector d" "svc_Type x = svc_Type d" by auto
  then show ?thesis
    using assms(3) by (intro service_copier.no_update [OF assms(1)]) (auto simp: admit_service_def meta_included_def)
qed

lemma service_step:
  assumes "generateService w (ic_Spec img) = Inr d" and "set_owner (env_of base sv s) w (svc_Meta d) = proceed m"
  shows "reconcile_service (env_of base sv s) w img t =
    reconcile_owned (env_of base sv s) w False stateMsgErrorMultipleServices svc_Meta CreateService UpdateService
      (\<lambda>t. admit_service sv (names_of svc_Meta (own_Services (cluster.replay sv s t)))) (CopyServiceFields (re_Range base))
      (main_services (cluster.replay sv s t)) (d\<lparr>svc_Meta := m\<rparr>) t"
  using assms by (simp add: reconcile_service_def generated_proceed and_then_def proceed_def)

text \<open>The owned Service afterwards: one that has all the generated one asks for.\<close>

lemma owned_service_pass:
  assumes rng: "range_order rng" and names: "names_ok svc_Meta (own_Services (cluster.replay sv s t))"
    and labels: "om_Labels (svc_Meta d) = workspace_labels w" and type: "svc_Type d \<noteq> []"
    and run: "reconcile_owned (env_of base sv s) w False msg svc_Meta CreateService UpdateService
      (\<lambda>t. admit_service sv (names_of svc_Meta (own_Services (cluster.replay sv s t)))) (CopyServiceFields rng)
      (main_services (cluster.replay sv s t)) d t = (Inr x, t')"
  shows "main_services (cluster.replay sv s t') = [x] \<and> CopyServiceFields rng d x = (x, False)"
proof -
  let ?\<sigma> = "cluster.replay sv s t"
  let ?adm = "admit_service sv (names_of svc_Meta (own_Services ?\<sigma>))" and ?copy = "CopyServiceFields rng d"
  have self: "?copy d = (d, False)" by (rule service_copier.no_update [OF rng]) simp
  have not_proxy: "\<not> is_proxy_service d" "\<not> is_proxy_service y \<Longrightarrow> \<not> is_proxy_service (fst (?copy y))" for y
    using labels by (simp_all add: is_proxy_service_def CopyServiceFields_meta [OF rng] fmdom_notI)
  from owned_pass [OF env_of_reads(1) run] show ?thesis
  proof (elim disjE exE conjE)
    assume "main_services ?\<sigma> = []" "x = ?adm d" "t' = t @ [(CreateService d, None)]"
    then show ?thesis using not_proxy(1) admitted_service_silent [OF rng self type] by simp
  next
    fix y assume y: "main_services ?\<sigma> = [y]" and r: "if snd (?copy y)
      then x = ?adm (fst (?copy y)) \<and> t' = t @ [(UpdateService (fst (?copy y)), None)] else x = fst (?copy y) \<and> t' = t"
    from y have "set (main_services ?\<sigma>) = {y}" by simp
    then have ym: "y \<in> set (own_Services ?\<sigma>)" "\<not> is_proxy_service y" by auto
    with names have name: "om_Name (svc_Meta y) \<noteq> []" by (auto simp: names_ok_def image_iff)
    show ?thesis
    proof (cases "snd (?copy y)")
      case True
      with r have x: "x = ?adm (fst (?copy y))" and t': "t' = t @ [(UpdateService (fst (?copy y)), None)]" by auto
      have "om_Name (svc_Meta x) = om_Name (svc_Meta y)" using name by (simp add: x admit_service_def CopyServiceFields_meta [OF rng])
      from filter_replace_named [OF names y this] have "main_services (cluster.replay sv s t') = [x]"
        using not_proxy(2) [OF ym(2)] by (simp add: t' x)
      with admitted_service_silent [OF rng service_copier.second_copy_silent [OF rng rng] type] x show ?thesis by simp
    next
      case False
      with r y service_copier.silent_unchanged [OF rng False] show ?thesis by (simp add: prod_eq_iff)
    qed
  qed
qed

lemma service_pass:
  assumes "libraries_ok base sv" and "same_request w w'" and "names_ok svc_Meta (own_Services (cluster.replay sv s t))"
    and run: "reconcile_service (env_of base sv s) w img t = (Inr x, t')"
  shows "cluster.settled_by sv main_services (\<lambda>s. reconcile_service (env_of base sv s) w' img) x (cluster.replay sv s t')"
proof -
  from run obtain d where d: "generateService w (ic_Spec img) = Inr d" by (auto simp: reconcile_service_def elim!: and_then_InrE)
  have d': "generateService w' (ic_Spec img) = Inr d" using d same_request_generated(3) [OF assms(2)] by simp
  have rng: "range_order (re_Range base)" using assms(1) by (simp add: libraries_ok_def)
  obtain m where mr: "meta_replaced (svc_Meta d) m"
    and m: "\<And>w' s. same_request w w' \<Longrightarrow> set_owner (env_of base sv s) w' (svc_Meta d) = proceed m"
      "\<And>s. set_owner (env_of base sv s) w (svc_Meta d) = proceed m" by (rule owner_set [OF assms(1)]) blast
  have fields: "om_Labels (svc_Meta (d\<lparr>svc_Meta := m\<rparr>)) = workspace_labels w" "svc_Type (d\<lparr>svc_Meta := m\<rparr>) \<noteq> []"
    using generated_service [OF d] mr by (simp_all add: meta_replaced_def)
  from owned_service_pass [OF rng assms(3) fields run [unfolded service_step [OF d m(2)]]] show ?thesis
    by (intro cluster.settled_byI cluster.settledI) (simp add: service_step [OF d' m(1) [OF assms(2)]] owned_single)
qed

section \<open>Routes\<close>

lemma virtual_service_step:
  assumes "generateVirtualService (re_Lib base) (re_Range base) (re_Config base) w k svc (ic_Spec img) = Inr d"
    and "re_SetRef base w (vsv_Meta d) = Inr m"
  shows "reconcile_virtual_service (env_of base sv s) w k img svc t =
    and_then (reconcile_owned (env_of base sv s) w False stateMsgErrorMultipleVirtualServices vsv_Meta CreateVirtualService
      UpdateVirtualService (\<lambda>t v. v) (CopyVirtualServiceFields (re_Range base)) (own_VirtualServices (cluster.replay sv s t))
      (d\<lparr>vsv_Meta := m\<rparr>)) (\<lambda>_. proceed ()) t"
  using assms by (simp add: reconcile_virtual_service_def generated_proceed and_then_def proceed_def)

lemma owned_virtual_service_pass:
  assumes rng: "range_order rng"
    and run: "reconcile_owned (env_of base sv s) w False msg vsv_Meta CreateVirtualService UpdateVirtualService (\<lambda>t v. v)
      (CopyVirtualServiceFields rng) (own_VirtualServices (cluster.replay sv s t)) d t = (Inr y, t')"
  shows "\<exists>x. own_VirtualServices (cluster.replay sv s t') = [x] \<and> CopyVirtualServiceFields rng d x = (x, False)"
proof -
  let ?copy = "CopyVirtualServiceFields rng d"
  have new: "?copy (admit_virtual_service sv ns d) = (admit_virtual_service sv ns d, False)" for ns
    by (rule virtual_service_copier.no_update [OF rng])
      (simp add: admit_virtual_service_def vs_spec_def meta_included_def fmsubset_dom_iff)
  have name: "om_Name (vsv_Meta (fst (?copy z))) = om_Name (vsv_Meta z)" for z
    by (auto simp: CopyVirtualServiceFields_def copy_field_def copy_meta_def set_vs_spec_def split: prod.splits)
  from owned_pass [OF env_of_reads(1) run] show ?thesis
  proof (elim disjE exE conjE)
    fix z assume "own_VirtualServices (cluster.replay sv s t) = [z]" "if snd (?copy z)
      then y = fst (?copy z) \<and> t' = t @ [(UpdateVirtualService (fst (?copy z)), None)] else y = fst (?copy z) \<and> t' = t"
    then show ?thesis
      using name [of z] virtual_service_copier.second_copy_silent [OF rng rng, of d z] virtual_service_copier.silent_unchanged [OF rng, of d z]
      by (auto simp: prod_eq_iff split: if_splits)
  qed (use new in simp)
qed

lemma virtual_service_pass:
  assumes "libraries_ok base sv" and "same_request w w'"
    and run: "reconcile_virtual_service (env_of base sv s) w k img svc t = (Inr u, t')"
  shows "cluster.settled_by sv own_VirtualServices (\<lambda>s. reconcile_virtual_service (env_of base sv s) w' k img svc) () (cluster.replay sv s t')"
proof -
  let ?gen = "\<lambda>w. generateVirtualService (re_Lib base) (re_Range base) (re_Config base) w k svc (ic_Spec img)"
  from run obtain d where d: "?gen w = Inr d" by (auto simp: reconcile_virtual_service_def elim!: and_then_InrE)
  have d': "?gen w' = Inr d" using d same_request_generated(5) [OF assms(2)] by simp
  have rng: "range_order (re_Range base)" using assms(1) by (simp add: libraries_ok_def)
  obtain m where m: "re_SetRef base w (vsv_Meta d) = Inr m" by (rule owner_set [OF assms(1)])
  with assms(1,2) have m': "re_SetRef base w' (vsv_Meta d) = Inr m" by (simp add: libraries_ok_def owner_ok_def)
  from run [unfolded virtual_service_step [OF d m]] obtain y where
    "reconcile_owned (env_of base sv s) w False stateMsgErrorMultipleVirtualServices vsv_Meta CreateVirtualService
      UpdateVirtualService (\<lambda>t v. v) (CopyVirtualServiceFields (re_Range base)) (own_VirtualServices (cluster.replay sv s t))
      (d\<lparr>vsv_Meta := m\<rparr>) t = (Inr y, t')" by (auto elim!: and_then_InrE)
  from owned_virtual_service_pass [OF rng this] obtain x where
    "own_VirtualServices (cluster.replay sv s t') = [x]" "CopyVirtualServiceFields (re_Range base) (d\<lparr>vsv_Meta := m\<rparr>) x = (x, False)" by blast
  then show ?thesis
    by (intro cluster.settled_byI cluster.settledI)
      (simp add: virtual_service_step [OF d' m'] and_then_def owned_single proceed_def)
qed

text \<open>An object with a fixed name, at the place \<open>get\<close> of the store.\<close>

lemma named_settles:
  assumes run: "reconcile_named accepts ok rq (\<lambda>t. or_not_found n (get (cluster.replay sv s t))) crt upd copier d t = (Inr u, t')"
    and crt: "get (apply_write sv (crt d) (cluster.replay sv s t)) = Some d" "copier d d = (d, False)"
    and upd: "\<And>y. get (cluster.replay sv s t) = Some y \<Longrightarrow>
      get (apply_write sv (upd (fst (copier d y))) (cluster.replay sv s t)) = Some (fst (copier d y)) \<and>
      copier d (fst (copier d y)) = (fst (copier d y), False) \<and> (\<not> snd (copier d y) \<longrightarrow> fst (copier d y) = y)"
  shows "cluster.settled_by sv get
    (\<lambda>s. reconcile_named accepts ok rq (\<lambda>t. or_not_found n (get (cluster.replay sv s t))) crt upd copier d) () (cluster.replay sv s t')"
proof -
  from named_pass [OF run] have "\<exists>x. get (cluster.replay sv s t') = Some x \<and> copier d x = (x, False)"
  proof (elim disjE exE conjE)
    fix y assume "or_not_found n (get (cluster.replay sv s t)) = Inr y"
      "t' = (if snd (copier d y) then t @ [(upd (fst (copier d y)), None)] else t)"
    with upd [of y] show ?thesis by (auto simp: prod_eq_iff)
  qed (use crt in simp)
  then obtain x where "get (cluster.replay sv s t') = Some x" "copier d x = (x, False)" by blast
  then show ?thesis by (intro cluster.settled_byI cluster.settledI) (simp add: named_silent)
qed

lemma named_copier_laws:
  assumes "range_order rng"
  shows "CopyConfigMapFields rng cm cm = (cm, False)" "om_Name (cm_Meta (fst (CopyConfigMapFields rng cm y))) = om_Name (cm_Meta y)"
    "CopyReferenceGrantFields rng rg rg = (rg, False)" "om_Name (rg_Meta (fst (CopyReferenceGrantFields rng rg z))) = om_Name (rg_Meta z)"
    "CopyHTTPRouteFields rng hr hr = (hr, False)" "om_Name (hr_Meta (fst (CopyHTTPRouteFields rng hr v))) = om_Name (hr_Meta v)"
    "om_Namespace (hr_Meta (fst (CopyHTTPRouteFields rng hr v))) = om_Namespace (hr_Meta v)"
  using config_map_copier.no_update [OF assms, of cm cm] reference_grant_copier.no_update [OF assms, of rg rg]
    http_route_copier.no_update [OF assms, of hr hr]
  by (auto simp: CopyConfigMapFields_def CopyReferenceGrantFields_def CopyHTTPRouteFields_def copy_field_def copy_meta_def
      copyLabelFields_eq [OF assms] copyAnnotationFields_eq [OF assms] Let_def split: prod.splits)

lemma cluster_role_binding_pass:
  assumes "stored_by (\<lambda>x. om_Name (crb_Meta x)) (own_ClusterRoleBindings (cluster.replay sv s t))"
    and "reconcile_named accepts True False (\<lambda>t. or_not_found (om_Name (crb_Meta d)) (own_ClusterRoleBindings (cluster.replay sv s t) (om_Name (crb_Meta d))))
      CreateClusterRoleBinding UpdateClusterRoleBinding copy_cluster_role_binding d t = (Inr u, t')"
  shows "cluster.settled_by sv (\<lambda>\<sigma>. own_ClusterRoleBindings \<sigma> (om_Name (crb_Meta d)))
    (\<lambda>s. reconcile_named accepts True False (\<lambda>t. or_not_found (om_Name (crb_Meta d)) (own_ClusterRoleBindings (cluster.replay sv s t) (om_Name (crb_Meta d))))
      CreateClusterRoleBinding UpdateClusterRoleBinding copy_cluster_role_binding d) () (cluster.replay sv s t')"
  by (rule named_settles [OF assms(2)]) (use assms(1) in \<open>auto simp: copy_cluster_role_binding_def stored_by_def\<close>)

lemma config_map_pass:
  assumes "libraries_ok base sv" and "same_request w w'" and "stored_by (\<lambda>x. om_Name (cm_Meta x)) (own_ConfigMaps (cluster.replay sv s t))"
    and run: "reconcile_proxy_config_map (env_of base sv s) w t = (Inr u, t')"
  shows "cluster.settled_by sv (\<lambda>\<sigma>. own_ConfigMaps \<sigma> (om_Name (cm_Meta (generateKubeRBACProxyConfigMap w))))
    (\<lambda>s. reconcile_proxy_config_map (env_of base sv s) w') () (cluster.replay sv s t')"
proof -
  let ?d = "generateKubeRBACProxyConfigMap w"
  have rng: "range_order (re_Range base)" using assms(1) by (simp add: libraries_ok_def)
  obtain m where name: "om_Name m = om_Name (cm_Meta ?d)"
    and m: "\<And>w' s. same_request w w' \<Longrightarrow> set_owner (env_of base sv s) w' (cm_Meta ?d) = proceed m"
      "\<And>s. set_owner (env_of base sv s) w (cm_Meta ?d) = proceed m" by (rule owner_set [OF assms(1)]) blast
  let ?step = "\<lambda>s. reconcile_named accepts True False (\<lambda>t. or_not_found (om_Name (cm_Meta ?d)) (own_ConfigMaps (cluster.replay sv s t) (om_Name (cm_Meta ?d))))
      CreateConfigMap UpdateConfigMap (CopyConfigMapFields (re_Range base)) (?d\<lparr>cm_Meta := m\<rparr>)"
  have step: "reconcile_proxy_config_map (env_of base sv s) w0 = ?step s"
    if "set_owner (env_of base sv s) w0 (cm_Meta ?d) = proceed m" "generateKubeRBACProxyConfigMap w0 = ?d" for s w0
    using that by (simp add: reconcile_proxy_config_map_def fun_eq_iff and_then_def proceed_def Let_def)
  have step': "(\<lambda>s. reconcile_proxy_config_map (env_of base sv s) w') = ?step"
    by (rule ext, rule step [OF m(1) [OF assms(2)] same_request_generated(7) [OF assms(2)]])
  show ?thesis
    unfolding step'
    by (rule named_settles [OF run [unfolded step [OF m(2) refl]]])
      (use assms(3) name in \<open>auto simp: named_copier_laws [OF rng] stored_by_def config_map_copier.second_copy_silent [OF rng rng]
         config_map_copier.silent_unchanged [OF rng]\<close>)
qed

text \<open>The Service of the sidecar is there once it was created; it is never one of the main Services.\<close>

abbreviation has_service :: "string \<Rightarrow> cluster_store \<Rightarrow> bool" where
  "has_service n \<sigma> \<equiv> List.find (\<lambda>x. om_Name (svc_Meta x) = n) (own_Services \<sigma>) \<noteq> None"

lemma proxy_service_name: "om_Name (svc_Meta (generateKubeRBACProxyService w)) \<noteq> []"
  by (simp add: generateKubeRBACProxyService_def generateWorkspaceSuffixedName_def Let_def)

lemma proxy_service_label: "is_proxy_service (generateKubeRBACProxyService w)"
  by (simp add: is_proxy_service_def generateKubeRBACProxyService_def)

lemma proxy_service_pass:
  assumes "libraries_ok base sv" and "same_request w w'"
    and run: "reconcile_proxy_service (env_of base sv s) w t = (Inr x, t')"
  defines "n \<equiv> om_Name (svc_Meta (generateKubeRBACProxyService w))"
  shows "om_Name (svc_Meta x) = n \<and> main_services (cluster.replay sv s t') = main_services (cluster.replay sv s t) \<and>
    (\<exists>x'. om_Name (svc_Meta x') = n \<and>
      cluster.settled_by sv (has_service n) (\<lambda>s. reconcile_proxy_service (env_of base sv s) w') x' (cluster.replay sv s t'))"
proof -
  let ?d = "generateKubeRBACProxyService w"
  obtain m where m: "om_Name m = n" "meta_replaced (svc_Meta ?d) m"
    "\<And>w' s. same_request w w' \<Longrightarrow> set_owner (env_of base sv s) w' (svc_Meta ?d) = proceed m"
    "\<And>s. set_owner (env_of base sv s) w (svc_Meta ?d) = proceed m" unfolding n_def by (rule owner_set [OF assms(1)]) blast
  obtain m2 where m2: "om_Name m2 = n" "meta_replaced m m2" "\<And>s. set_owner (env_of base sv s) w m = proceed m2"
    using m(1) by (metis owner_set [OF assms(1)])
  let ?x = "?d\<lparr>svc_Meta := m2\<rparr>"
  have x: "om_Name (svc_Meta (admit_service sv ns ?x)) = n" "is_proxy_service ?x" for ns
    using m(2) m2(1,2) proxy_service_name [of w] proxy_service_label [of w]
    by (simp_all add: admit_service_def n_def is_proxy_service_def meta_replaced_def)
  have step: "reconcile_proxy_service (env_of base sv s) w t =
      (if has_service n (cluster.replay sv s t) then (Inr (?d\<lparr>svc_Meta := m\<rparr>), t)
       else (Inr (admit_service sv (names_of svc_Meta (own_Services (cluster.replay sv s t))) ?x), t @ [(CreateService ?x, None)]))"
    by (simp add: reconcile_proxy_service_def Let_def and_then_def ask_def proceed_def n_def [symmetric] m(4) m2(3) or_not_found_def
        split: option.splits)
  have has: "has_service n (cluster.replay sv s t')" and rest: "om_Name (svc_Meta x) = n"
    "main_services (cluster.replay sv s t') = main_services (cluster.replay sv s t)"
    using run x m(1) by (auto simp: step find_None_iff split: if_splits)
  have again: "reconcile_proxy_service (env_of base sv s1) w' t1 = (Inr (?d\<lparr>svc_Meta := m\<rparr>), t1)"
    if "has_service n (cluster.replay sv s1 t1)" for s1 t1
    using that by (auto simp: reconcile_proxy_service_def Let_def and_then_def ask_def proceed_def n_def [symmetric]
        m(3) [OF assms(2)] same_request_generated(8) [OF assms(2)])
  have "cluster.settled_by sv (has_service n) (\<lambda>s. reconcile_proxy_service (env_of base sv s) w') (?d\<lparr>svc_Meta := m\<rparr>) (cluster.replay sv s t')"
    using has by (intro cluster.settled_byI cluster.settledI) (simp add: again)
  with m(1) rest show ?thesis by (auto intro!: exI [of _ "?d\<lparr>svc_Meta := m\<rparr>"])
qed

lemma reference_grant_pass:
  assumes "libraries_ok base sv" and "same_request w w'" and "om_Name (svc_Meta svc') = om_Name (svc_Meta svc)"
    and "stored_by (\<lambda>x. om_Name (rg_Meta x)) (own_ReferenceGrants (cluster.replay sv s t))"
    and run: "reconcile_reference_grant (env_of base sv s) w svc t = (Inr u, t')"
  shows "cluster.settled_by sv (\<lambda>\<sigma>. own_ReferenceGrants \<sigma> (''ws-'' @ ws_Name w @ ''-kube-gateway-reference-grant''))
    (\<lambda>s. reconcile_reference_grant (env_of base sv s) w' svc') () (cluster.replay sv s t')"
proof -
  let ?d = "generateKubeGatewayReferenceGrant (re_Config base) w svc"
  let ?n = "''ws-'' @ ws_Name w @ ''-kube-gateway-reference-grant''"
  have rng: "range_order (re_Range base)" using assms(1) by (simp add: libraries_ok_def)
  have n: "om_Name (rg_Meta ?d) = ?n" by (simp add: generateKubeGatewayReferenceGrant_def)
  obtain m where name: "om_Name m = om_Name (rg_Meta ?d)"
    and m: "\<And>w' s. same_request w w' \<Longrightarrow> set_owner (env_of base sv s) w' (rg_Meta ?d) = proceed m"
      "\<And>s. set_owner (env_of base sv s) w (rg_Meta ?d) = proceed m" by (rule owner_set [OF assms(1)]) blast
  let ?step = "\<lambda>s. reconcile_named accepts True True (\<lambda>t. or_not_found ?n (own_ReferenceGrants (cluster.replay sv s t) ?n))
      CreateReferenceGrant UpdateReferenceGrant (CopyReferenceGrantFields (re_Range base)) (?d\<lparr>rg_Meta := m\<rparr>)"
  have step: "reconcile_reference_grant (env_of base sv s) w0 svc0 = ?step s"
    if "set_owner (env_of base sv s) w0 (rg_Meta ?d) = proceed m" "generateKubeGatewayReferenceGrant (re_Config base) w0 svc0 = ?d"
      "ws_Meta w0 = ws_Meta w" for s w0 svc0
    using that by (simp add: reconcile_reference_grant_def fun_eq_iff and_then_def proceed_def Let_def)
  have "generateKubeGatewayReferenceGrant (re_Config base) w' svc' = ?d"
    using same_request_generated(9) [OF assms(2)] assms(3) by (simp add: generateKubeGatewayReferenceGrant_def)
  then have step': "(\<lambda>s. reconcile_reference_grant (env_of base sv s) w' svc') = ?step"
    using assms(2) by (intro ext step [OF m(1) [OF assms(2)]]) (simp_all add: same_request_def)
  show ?thesis
    unfolding step'
    by (rule named_settles [OF run [unfolded step [OF m(2) refl refl]]])
      (use assms(4) name n in \<open>auto simp: named_copier_laws [OF rng] stored_by_def reference_grant_copier.second_copy_silent [OF rng rng]
         reference_grant_copier.silent_unchanged [OF rng]\<close>)
qed

lemma route_backend:
  "om_Name (svc_Meta svc') = om_Name (svc_Meta svc) \<Longrightarrow>
     generateGatewayV1HTTPRoute cfg w k svc' ispec = generateGatewayV1HTTPRoute cfg w k svc ispec"
  by (simp only: generateGatewayV1HTTPRoute_def)

lemma http_route_pass:
  assumes "libraries_ok base sv" and "same_request w w'" and "om_Name (svc_Meta svc') = om_Name (svc_Meta svc)"
    and "stored_by (\<lambda>x. (om_Namespace (hr_Meta x), om_Name (hr_Meta x))) (own_HTTPRoutes (cluster.replay sv s t))"
    and run: "reconcile_http_route (env_of base sv s) w k img svc t = (Inr u, t')"
  shows "cluster.settled_by sv own_HTTPRoutes (\<lambda>s. reconcile_http_route (env_of base sv s) w' k img svc') () (cluster.replay sv s t')"
proof -
  let ?gen = "generateGatewayV1HTTPRoute (re_Config base)"
  have rng: "range_order (re_Range base)" using assms(1) by (simp add: libraries_ok_def)
  from run obtain d where d: "?gen w k svc (ic_Spec img) = Some d"
    by (cases "?gen w k svc (ic_Spec img)") (auto simp: reconcile_http_route_def)
  have d': "?gen w' k svc' (ic_Spec img) = Some d"
    using d same_request_generated(10) [OF assms(2)] route_backend [OF assms(3)] by simp
  let ?key = "(om_Namespace (hr_Meta d), om_Name (hr_Meta d))"
  let ?step = "\<lambda>s. reconcile_named accepts False True (\<lambda>t. or_not_found (om_Name (hr_Meta d)) (own_HTTPRoutes (cluster.replay sv s t) ?key))
      CreateHTTPRoute UpdateHTTPRoute (CopyHTTPRouteFields (re_Range base)) d"
  from run have "?step s t = (Inr u, t')" by (simp add: reconcile_http_route_def d)
  then have "cluster.settled_by sv (\<lambda>\<sigma>. own_HTTPRoutes \<sigma> ?key) ?step () (cluster.replay sv s t')"
    by (rule named_settles)
      (use assms(4) in \<open>auto simp: named_copier_laws [OF rng] stored_by_def http_route_copier.second_copy_silent [OF rng rng]
         http_route_copier.silent_unchanged [OF rng]\<close>)
  moreover have "(\<lambda>s. reconcile_http_route (env_of base sv s) w' k img svc') = ?step"
    by (simp add: reconcile_http_route_def d' fun_eq_iff)
  ultimately show ?thesis by (auto simp: cluster.settled_by_def)
qed

section \<open>The Gateway mode\<close>

text \<open>The parts of the store the passages of the Gateway mode depend on.\<close>

definition gateway_part :: "cluster_store \<Rightarrow> (string \<rightharpoonup> ClusterRoleBinding) \<times> (string \<rightharpoonup> ConfigMap) \<times> Service list \<times>
    (string \<rightharpoonup> ReferenceGrant) \<times> (string \<times> string \<rightharpoonup> HTTPRoute)" where
  "gateway_part \<sigma> = (own_ClusterRoleBindings \<sigma>, own_ConfigMaps \<sigma>, own_Services \<sigma>, own_ReferenceGrants \<sigma>, own_HTTPRoutes \<sigma>)"

definition gateway_ok :: "cluster_store \<Rightarrow> bool" where
  "gateway_ok \<sigma> \<longleftrightarrow> stored_by (\<lambda>x. om_Name (crb_Meta x)) (own_ClusterRoleBindings \<sigma>) \<and>
     stored_by (\<lambda>x. om_Name (cm_Meta x)) (own_ConfigMaps \<sigma>) \<and> stored_by (\<lambda>x. om_Name (rg_Meta x)) (own_ReferenceGrants \<sigma>) \<and>
     stored_by (\<lambda>x. (om_Namespace (hr_Meta x), om_Name (hr_Meta x))) (own_HTTPRoutes \<sigma>)"

abbreviation crb_step :: "rec_env \<Rightarrow> ClusterRoleBinding \<Rightarrow> unit step" where
  "crb_step env crb \<equiv> reconcile_named (re_Api env) True False (\<lambda>t. re_GetClusterRoleBinding env t (om_Name (crb_Meta crb)))
     CreateClusterRoleBinding UpdateClusterRoleBinding copy_cluster_role_binding crb"

lemma gateway_step:
  assumes "WorkspaceFinalizer \<in> set (ws_finalizers w)"
  shows "reconcile_gateway env w k img sa =
    and_then (crb_step env (generateKubeRBACProxyClusterRoleBinding w sa)) (\<lambda>_.
    and_then (reconcile_proxy_config_map env w) (\<lambda>_.
    and_then (reconcile_proxy_service env w) (\<lambda>svc.
    and_then (reconcile_reference_grant env w svc) (\<lambda>_.
    and_then (reconcile_http_route env w k img svc) (\<lambda>_. proceed w)))))"
  using assms by (simp add: reconcile_gateway_def ensure_workspace_finalizer_def Let_def fun_eq_iff and_then_def proceed_def)

lemma gateway_run:
  assumes "reconcile_gateway env w k img sa t = (Inr w1, t')" and "WorkspaceFinalizer \<in> set (ws_finalizers w)"
  obtains t1 t2 t3 t4 svc where
    "crb_step env (generateKubeRBACProxyClusterRoleBinding w sa) t = (Inr (), t1)" "reconcile_proxy_config_map env w t1 = (Inr (), t2)"
    "reconcile_proxy_service env w t2 = (Inr svc, t3)" "reconcile_reference_grant env w svc t3 = (Inr (), t4)"
    "reconcile_http_route env w k img svc t4 = (Inr (), t')" "w1 = w"
  using assms(1) by (auto simp: gateway_step [OF assms(2)] elim!: and_then_InrE)

lemma gateway_frames:
  "emits (cluster.keeps sv (\<lambda>\<sigma>. (own_ConfigMaps \<sigma>, own_Services \<sigma>, own_ReferenceGrants \<sigma>, own_HTTPRoutes \<sigma>))) (crb_step env crb)"
  "emits (cluster.keeps sv (\<lambda>\<sigma>. (own_ClusterRoleBindings \<sigma>, own_Services \<sigma>, own_ReferenceGrants \<sigma>, own_HTTPRoutes \<sigma>))) (reconcile_proxy_config_map env w)"
  "emits (cluster.keeps sv (\<lambda>\<sigma>. (own_ClusterRoleBindings \<sigma>, own_ConfigMaps \<sigma>, own_ReferenceGrants \<sigma>, own_HTTPRoutes \<sigma>))) (reconcile_proxy_service env w)"
  "emits (cluster.keeps sv (\<lambda>\<sigma>. (own_ClusterRoleBindings \<sigma>, own_ConfigMaps \<sigma>, own_Services \<sigma>, own_HTTPRoutes \<sigma>))) (reconcile_reference_grant env w svc)"
  "emits (cluster.keeps sv (\<lambda>\<sigma>. (own_ClusterRoleBindings \<sigma>, own_ConfigMaps \<sigma>, own_Services \<sigma>, own_ReferenceGrants \<sigma>))) (reconcile_http_route env w k img svc)"
  by (auto intro!: emit_intros keepsI)

lemma gateway_pass:
  assumes libs: "libraries_ok base sv" and same: "same_request w w'" and fin: "WorkspaceFinalizer \<in> set (ws_finalizers w)"
    and ok: "gateway_ok (cluster.replay sv s t)"
    and run: "reconcile_gateway (env_of base sv s) w k img sa t = (Inr w1, t')"
  shows "w1 = w \<and> main_services (cluster.replay sv s t') = main_services (cluster.replay sv s t) \<and>
    cluster.settled_by sv gateway_part (\<lambda>s. reconcile_gateway (env_of base sv s) w' k img sa) w' (cluster.replay sv s t')"
proof -
  let ?at = "cluster.replay sv s" and ?env = "\<lambda>s. env_of base sv s" and ?crb = "generateKubeRBACProxyClusterRoleBinding w sa"
  obtain t1 t2 t3 t4 svc where r1: "crb_step (?env s) ?crb t = (Inr (), t1)" and r2: "reconcile_proxy_config_map (?env s) w t1 = (Inr (), t2)"
    and r3: "reconcile_proxy_service (?env s) w t2 = (Inr svc, t3)" and r4: "reconcile_reference_grant (?env s) w svc t3 = (Inr (), t4)"
    and r5: "reconcile_http_route (?env s) w k img svc t4 = (Inr (), t')" and w1: "w1 = w" by (rule gateway_run [OF run fin])
  note kept = cluster.emits_keeps [OF gateway_frames(1) r1, of sv s] cluster.emits_keeps [OF gateway_frames(2) r2, of sv s]
    cluster.emits_keeps [OF gateway_frames(3) r3, of sv s] cluster.emits_keeps [OF gateway_frames(4) r4, of sv s]
    cluster.emits_keeps [OF gateway_frames(5) r5, of sv s]
  have ok1: "stored_by (\<lambda>x. om_Name (crb_Meta x)) (own_ClusterRoleBindings (?at t))" and ok2: "stored_by (\<lambda>x. om_Name (cm_Meta x)) (own_ConfigMaps (?at t1))"
    and ok4: "stored_by (\<lambda>x. om_Name (rg_Meta x)) (own_ReferenceGrants (?at t3))"
    and ok5: "stored_by (\<lambda>x. (om_Namespace (hr_Meta x), om_Name (hr_Meta x))) (own_HTTPRoutes (?at t4))"
    using ok kept by (simp_all add: gateway_ok_def)
  from proxy_service_pass [OF libs same r3] obtain svc' where main: "main_services (?at t3) = main_services (?at t2)"
    and name: "om_Name (svc_Meta svc') = om_Name (svc_Meta svc)"
    and svc': "cluster.settled_by sv (has_service (om_Name (svc_Meta (generateKubeRBACProxyService w))))
         (\<lambda>s. reconcile_proxy_service (?env s) w') svc' (?at t3)" by auto
  have fin': "WorkspaceFinalizer \<in> set (ws_finalizers w')" using fin same by (simp add: ws_finalizers_def same_request_def)
  have "cluster.settled sv (\<lambda>s. reconcile_gateway (?env s) w' k img sa) w' \<sigma>" if "gateway_part \<sigma> = gateway_part (?at t')" for \<sigma>
  proof -
    have part: "own_ClusterRoleBindings \<sigma> = own_ClusterRoleBindings (?at t1)" "own_ConfigMaps \<sigma> = own_ConfigMaps (?at t2)"
      "own_Services \<sigma> = own_Services (?at t3)" "own_ReferenceGrants \<sigma> = own_ReferenceGrants (?at t4)"
      "own_HTTPRoutes \<sigma> = own_HTTPRoutes (?at t')" using that kept by (simp_all add: gateway_part_def)
    have s1: "cluster.settled sv (\<lambda>s. crb_step (?env s) ?crb) () \<sigma>"
      using cluster.settled_byD [OF cluster_role_binding_pass [OF ok1]] r1 by (simp add: part)
    have s2: "cluster.settled sv (\<lambda>s. reconcile_proxy_config_map (?env s) w') () \<sigma>"
      by (rule cluster.settled_byD [OF config_map_pass [OF libs same ok2 r2]]) (simp add: part)
    have s3: "cluster.settled sv (\<lambda>s. reconcile_proxy_service (?env s) w') svc' \<sigma>"
      by (rule cluster.settled_byD [OF svc']) (simp add: part)
    have s4: "cluster.settled sv (\<lambda>s. reconcile_reference_grant (?env s) w' svc') () \<sigma>"
      by (rule cluster.settled_byD [OF reference_grant_pass [OF libs same name ok4 r4]]) (simp add: part)
    have s5: "cluster.settled sv (\<lambda>s. reconcile_http_route (?env s) w' k img svc') () \<sigma>"
      by (rule cluster.settled_byD [OF http_route_pass [OF libs same name ok5 r5]]) (simp add: part)
    show ?thesis
      unfolding gateway_step [OF fin'] same_request_generated(6) [OF same]
      by (rule cluster.settled_and_then s1 s2 s3 s4 s5 cluster.settled_proceed)+
  qed
  with w1 main kept show ?thesis by (auto simp: cluster.settled_by_def)
qed

lemma routes_pass:
  assumes libs: "libraries_ok base sv" and same: "same_request w w'"
    and fin: "cfg_UseKubeGateway (re_Config base) \<longrightarrow> WorkspaceFinalizer \<in> set (ws_finalizers w)"
    and ok: "gateway_ok (cluster.replay sv s t)"
    and run: "reconcile_routes (env_of base sv s) w k img svc sa t = (Inr w1, t')"
  shows "w1 = w \<and> main_services (cluster.replay sv s t') = main_services (cluster.replay sv s t) \<and>
    cluster.settled_by sv (\<lambda>\<sigma>. (own_VirtualServices \<sigma>, gateway_part \<sigma>))
      (\<lambda>s. reconcile_routes (env_of base sv s) w' k img svc sa) w' (cluster.replay sv s t')"
proof -
  consider (istio) "cfg_UseIstio (re_Config base)" | (gateway) "\<not> cfg_UseIstio (re_Config base)" "cfg_UseKubeGateway (re_Config base)"
    | (none) "\<not> cfg_UseIstio (re_Config base)" "\<not> cfg_UseKubeGateway (re_Config base)" by blast
  then show ?thesis
  proof cases
    case istio
    with run have w1: "w1 = w" and vs: "reconcile_virtual_service (env_of base sv s) w k img svc t = (Inr (), t')"
      by (auto simp: reconcile_routes_def elim!: and_then_InrE)
    have "main_services (cluster.replay sv s t') = main_services (cluster.replay sv s t)"
      by (rule cluster.emits_keeps [where m = "reconcile_virtual_service (env_of base sv s) w k img svc", OF _ vs]) (intro emit_intros keepsI; simp)
    with virtual_service_pass [OF libs same vs] w1 istio show ?thesis
      by (auto simp: reconcile_routes_def cluster.settled_by_def intro: cluster.settled_and_then cluster.settled_proceed)
  next
    case gateway
    with gateway_pass [OF libs same _ ok] run fin show ?thesis by (auto simp: reconcile_routes_def cluster.settled_by_def)
  next
    case none
    with run show ?thesis by (auto simp: reconcile_routes_def cluster.settled_by_def proceed_def cluster.settled_proceed)
  qed
qed

section \<open>RoleBindings\<close>

lemma replay_role_bindings:
  "cluster.replay sv \<sigma> (map (\<lambda>opn. (RoleBindingWrite opn, None)) ops) =
     \<sigma>\<lparr>own_RoleBindings := apply_ops ops (own_RoleBindings \<sigma>)\<rparr>"
  by (induction ops arbitrary: \<sigma>) simp_all

lemma apply_ops_keyed:
  assumes "stored_by rb_Name m" and "finite (dom m)"
  shows "stored_by rb_Name (apply_ops ops m)" "finite (dom (apply_ops ops m))"
proof -
  have "stored_by rb_Name (apply_op opn m) \<and> finite (dom (apply_op opn m))" if "stored_by rb_Name m" "finite (dom m)" for opn m
    using that by (cases opn) (auto simp: stored_by_def)
  with assms have "stored_by rb_Name (apply_ops ops m) \<and> finite (dom (apply_ops ops m))"
    by (induction ops arbitrary: m) auto
  then show "stored_by rb_Name (apply_ops ops m)" "finite (dom (apply_ops ops m))" by blast+
qed

lemma listed_bindings:
  assumes "stored_by rb_Name m" and "finite (dom m)" and "key_order kord"
  defines "owned \<equiv> map snd (map_entries kord m)"
  shows "map_of (map (\<lambda>rb. (rb_Name rb, rb)) owned) = m" "distinct (map rb_Name owned)" "rb \<in> set owned \<longleftrightarrow> m (rb_Name rb) = Some rb"
    "rb_Name ` set owned = dom m"
proof -
  have "map (\<lambda>rb. (rb_Name rb, rb)) owned = map_entries kord m"
    unfolding owned_def map_entries_def using assms(1) key_orderD(1) [OF assms(3,2)] by (auto simp: stored_by_def)
  with map_of_map_entries [OF assms(3,2)] show of: "map_of (map (\<lambda>rb. (rb_Name rb, rb)) owned) = m" by simp
  have "map rb_Name owned = kord (dom m)"
    unfolding owned_def map_entries_def map_map
    by (rule map_idI) (use assms(1) key_orderD(1) [OF assms(3,2)] in \<open>auto simp: stored_by_def\<close>)
  then show "distinct (map rb_Name owned)" "rb_Name ` set owned = dom m"
    using key_orderD [OF assms(3,2)] by (simp, metis set_map)
  have "set owned = (\<lambda>n. the (m n)) ` dom m"
    unfolding owned_def map_entries_def using key_orderD(1) [OF assms(3,2)] by (simp add: image_image)
  then have set: "rb \<in> set owned \<longleftrightarrow> (\<exists>n. m n = Some rb)" by force
  show "rb \<in> set owned \<longleftrightarrow> m (rb_Name rb) = Some rb"
    unfolding set using assms(1) unfolding stored_by_def by blast
qed

text \<open>Bindings that grant what is desired are left alone.\<close>

lemma sync_owned_silent:
  assumes "distinct (map rb_Name found)" and "\<forall>rb \<in> set found. \<exists>d. desired (rb_Name rb) = Some d \<and> grants d rb"
  shows "sync_owned api found desired = (None, [], desired |` (- rb_Name ` set found))"
  using assms
proof (induction found arbitrary: desired)
  case (Cons x found)
  from Cons.prems(2) obtain d where d: "desired (rb_Name x) = Some d" "grants d x" by auto
  have "CopyRoleBindingFields d x = (x, False)"
    using d(2) by (intro role_binding_copier.no_update [of sample_range]) (simp_all add: grants_def)
  with d have step: "sync_step x desired = (None, desired(rb_Name x := None))" by (simp add: sync_step_def grants_def)
  have "sync_owned api found (desired(rb_Name x := None)) = (None, [], (desired(rb_Name x := None)) |` (- rb_Name ` set found))"
    using Cons.prems by (intro Cons.IH) (auto simp: image_iff)
  moreover have "(desired(rb_Name x := None)) |` (- rb_Name ` set found) = desired |` (- rb_Name ` set (x # found))"
    by (auto simp: restrict_map_def fun_eq_iff)
  ultimately show ?case by (simp add: step)
qed (simp add: restrict_map_def)

lemma role_bindings_pass:
  assumes libs: "libraries_ok base sv" and same: "same_request w w'"
    and ok: "stored_by rb_Name (own_RoleBindings (cluster.replay sv s t))" "finite (dom (own_RoleBindings (cluster.replay sv s t)))"
    and run: "role_bindings_step (env_of base sv s) w k sa t = (Inr u, t')"
  shows "cluster.settled_by sv own_RoleBindings (\<lambda>s. role_bindings_step (env_of base sv s) w' k sa) () (cluster.replay sv s t')"
proof -
  let ?m = "own_RoleBindings (cluster.replay sv s t)" and ?kord = "re_Keys base"
  let ?run = "\<lambda>m. reconcileRoleBindings (re_Sha base) ?kord (re_SetRef base w) (\<lambda>_. None) (Inr (map snd (map_entries ?kord m))) w k sa"
  have kord: "key_order ?kord" and ref: "ref_ok (re_SetRef base w)" "re_SetRef base w' = re_SetRef base w"
    using libs same by (auto simp: libraries_ok_def owner_ok_def)
  from run obtain ops where ops: "?run ?m = (None, ops)" and t': "t' = t @ map (\<lambda>opn. (RoleBindingWrite opn, None)) ops"
    by (auto simp: role_bindings_step_def split: prod.splits option.splits)
  define m' where "m' = apply_ops ops ?m"
  note listed = listed_bindings [OF ok kord]
  obtain desired where des: "desired_bindings (re_SetRef base w) (generateRoleBinding (re_Sha base) w sa) (cluster_roles k) Map.empty = Inr desired"
    and none: "\<And>n. desired n = None \<Longrightarrow> m' n = None"
    and some: "\<And>n d. desired n = Some d \<Longrightarrow> \<exists>rb. m' n = Some rb \<and> (rb = d \<or> grants d rb)"
    unfolding m'_def using reconcileRoleBindings_result [OF ops kord ref(1) listed(2) listed(1) [symmetric]] by blast
  have m'_ok: "stored_by rb_Name m'" "finite (dom m')" unfolding m'_def by (rule apply_ops_keyed [OF ok])+
  note listed' = listed_bindings [OF m'_ok kord]
  have "sync_owned api (map snd (map_entries ?kord m')) desired = (None, [], desired |` (- dom m'))" for api
  proof -
    have "\<forall>rb \<in> set (map snd (map_entries ?kord m')). \<exists>d. desired (rb_Name rb) = Some d \<and> grants d rb"
    proof
      fix rb assume "rb \<in> set (map snd (map_entries ?kord m'))"
      then have rb: "m' (rb_Name rb) = Some rb" by (simp only: listed'(3))
      with none obtain d where "desired (rb_Name rb) = Some d" by fastforce
      with some rb show "\<exists>d. desired (rb_Name rb) = Some d \<and> grants d rb" by (fastforce simp: grants_def meta_replaced_def)
    qed
    from sync_owned_silent [OF listed'(2) this, of api] show ?thesis by (simp only: listed'(4))
  qed
  moreover have "desired |` (- dom m') = Map.empty" using some by (force simp: restrict_map_def fun_eq_iff)
  moreover have "?kord {} = []" using key_orderD(1) [OF kord, of "{}"] by simp
  ultimately have silent: "?run m' = (None, [])" by (simp add: reconcileRoleBindings_def des)
  have "own_RoleBindings (cluster.replay sv s t') = m'" by (simp add: t' replay_role_bindings m'_def)
  moreover have "reconcileRoleBindings (re_Sha base) ?kord (re_SetRef base w') api owned w' k sa =
      reconcileRoleBindings (re_Sha base) ?kord (re_SetRef base w) api owned w k sa" for api owned
    by (simp only: reconcileRoleBindings_def ref(2) same_request_generated(11) [OF same])
  ultimately show ?thesis
    using silent by (intro cluster.settled_byI cluster.settledI) (simp add: role_bindings_step_def)
qed

section \<open>The kind and the Pod\<close>

lemma fetch_kind_step:
  "fetch_kind (env_of base sv s) w t =
     (case own_Kinds (cluster.replay sv s t) (spec_Kind (ws_Spec w)) of
        Some k \<Rightarrow> (Inr k, t)
      | None \<Rightarrow> updateWorkspaceState (env_of base sv s) w WorkspaceStateError
                  (stateMsgErrorUnknownWorkspaceKind @ spec_Kind (ws_Spec w)) t)"
  by (simp add: fetch_kind_def and_then_def ask_def proceed_def or_not_found_def split: option.splits)

lemma kind_run:
  assumes "and_then (fetch_kind (env_of base sv s) w) (protect_kind (env_of base sv s)) [] = (Inr k, t)"
  obtains k0 where "own_Kinds s (spec_Kind (ws_Spec w)) = Some k0"
    "om_DeletionTimestamp (wk_Meta k) = None \<longrightarrow> WorkspaceKindFinalizer \<in> set (om_Finalizers (wk_Meta k))"
    "t = [] \<and> k = k0 \<or> t = [(UpdateKindMeta k, None)] \<and> om_Name (wk_Meta k) = om_Name (wk_Meta k0)"
  using assms
  by (auto simp: fetch_kind_step protect_kind_def add_kind_finalizer_def proceed_def elim!: and_then_InrE split: option.splits if_splits)

lemma kind_pass:
  assumes "stored_by (\<lambda>x. om_Name (wk_Meta x)) (own_Kinds s)" and "same_request w w'"
    and "and_then (fetch_kind (env_of base sv s) w) (protect_kind (env_of base sv s)) [] = (Inr k, t)"
  shows "cluster.settled_by sv own_Kinds
    (\<lambda>s. and_then (fetch_kind (env_of base sv s) w') (protect_kind (env_of base sv s))) k (cluster.replay sv s t)"
proof -
  obtain k0 where "own_Kinds s (spec_Kind (ws_Spec w)) = Some k0"
    and prot: "om_DeletionTimestamp (wk_Meta k) = None \<longrightarrow> WorkspaceKindFinalizer \<in> set (om_Finalizers (wk_Meta k))"
    and "t = [] \<and> k = k0 \<or> t = [(UpdateKindMeta k, None)] \<and> om_Name (wk_Meta k) = om_Name (wk_Meta k0)" by (rule kind_run [OF assms(3)])
  with assms(1) have "own_Kinds (cluster.replay sv s t) (spec_Kind (ws_Spec w)) = Some k" by (auto simp: stored_by_def)
  with prot assms(2) show ?thesis
    by (intro cluster.settled_byI cluster.settledI)
      (auto simp: and_then_def fetch_kind_step protect_kind_def proceed_def same_request_def)
qed

lemma pod_settled:
  assumes "fetch_pod (env_of base sv s) sts t = (Inr pod, t')"
  shows "t' = t \<and> cluster.settled_by sv own_Pods (\<lambda>s. fetch_pod (env_of base sv s) sts) pod (cluster.replay sv s t)"
proof -
  have step: "fetch_pod (env_of base sv s1) sts t1 = (Inr (own_Pods s1 (om_Name (sts_Meta sts) @ ''-0'')), t1)" for s1 t1
    by (simp add: fetch_pod_def and_then_def ask_def proceed_def or_not_found_def split: option.splits)
  from assms have r: "t' = t" "pod = own_Pods s (om_Name (sts_Meta sts) @ ''-0'')" by (simp_all add: step)
  show ?thesis
  proof (intro conjI cluster.settled_byI cluster.settledI)
    fix \<sigma> s1 t1 assume "own_Pods \<sigma> = own_Pods (cluster.replay sv s t)" "cluster.replay sv s1 t1 = \<sigma>"
    then have "own_Pods s1 = own_Pods s" by auto
    with r(2) \<open>cluster.replay sv s1 t1 = \<sigma>\<close> show "\<exists>t2. fetch_pod (env_of base sv s1) sts t1 = (Inr pod, t2) \<and> cluster.replay sv s1 t2 = \<sigma>"
      by (simp add: step)
  qed (rule r(1))
qed

end
