(* ===== verification/Reconcile_Converges.thy ===== *)
theory Reconcile_Converges
  imports Reconcile_Settled
begin

text \<open>
  Convergence of the Workspace reconcile: a pass that succeeds leaves a cluster that the next pass does not
  change, because no passage touches the part of the cluster another one is settled by. The whole pass does succeed
  for a Workspace the webhooks admitted.
\<close>

section \<open>All objects\<close>

abbreviation gateway_objects :: "cluster_store \<Rightarrow> (string \<rightharpoonup> ClusterRoleBinding) \<times> (string \<rightharpoonup> ConfigMap) \<times>
    (string \<rightharpoonup> ReferenceGrant) \<times> (string \<times> string \<rightharpoonup> HTTPRoute)" where
  "gateway_objects \<sigma> \<equiv> (own_ClusterRoleBindings \<sigma>, own_ConfigMaps \<sigma>, own_ReferenceGrants \<sigma>, own_HTTPRoutes \<sigma>)"

text \<open>What each passage leaves alone.\<close>

lemma object_frames:
  "emits (cluster.keeps sv (\<lambda>\<sigma>. (own_Kinds \<sigma>, own_StatefulSets \<sigma>, own_Services \<sigma>, own_VirtualServices \<sigma>, own_RoleBindings \<sigma>, gateway_objects \<sigma>)))
     (reconcile_service_account env w)"
  "emits (cluster.keeps sv (\<lambda>\<sigma>. (own_Kinds \<sigma>, own_ServiceAccounts \<sigma>, own_Services \<sigma>, own_VirtualServices \<sigma>, own_RoleBindings \<sigma>, gateway_objects \<sigma>)))
     (build_statefulset env w k img pc sa)"
  "emits (cluster.keeps sv (\<lambda>\<sigma>. (own_Kinds \<sigma>, own_ServiceAccounts \<sigma>, own_StatefulSets \<sigma>, own_VirtualServices \<sigma>, own_RoleBindings \<sigma>, gateway_objects \<sigma>)))
     (reconcile_service env w img)"
  "emits (cluster.keeps sv (\<lambda>\<sigma>. (own_Kinds \<sigma>, own_ServiceAccounts \<sigma>, own_Services \<sigma>, own_VirtualServices \<sigma>, own_RoleBindings \<sigma>, gateway_objects \<sigma>)))
     (write_statefulset env w k img sts)"
  "emits (cluster.keeps sv (\<lambda>\<sigma>. (own_Kinds \<sigma>, own_ServiceAccounts \<sigma>, own_StatefulSets \<sigma>, own_RoleBindings \<sigma>))) (reconcile_routes env w k img svc sa)"
  "emits (cluster.keeps sv (\<lambda>\<sigma>. (own_Kinds \<sigma>, own_ServiceAccounts \<sigma>, own_StatefulSets \<sigma>, own_Services \<sigma>, own_VirtualServices \<sigma>, gateway_objects \<sigma>)))
     (role_bindings_step env w k sa)"
  by (auto simp: reconcile_routes_def reconcile_gateway_def Let_def intro!: emit_intros keepsI)

lemma objects_run:
  assumes "reconcile_objects env k (w, img, pc) t = (Inr p, t')"
  obtains t1 t2 t3 t4 t5 t6 sa d svc sts e w1 pod where
    "reconcile_service_account env w t = (Inr sa, t1)" "build_statefulset env w k img pc sa t1 = (Inr d, t2)"
    "reconcile_service env w img t2 = (Inr svc, t3)" "write_statefulset env w k img d t3 = (Inr (sts, e), t4)"
    "reconcile_routes env w k img svc sa t4 = (Inr w1, t5)" "role_bindings_step env w1 k sa t5 = (Inr (), t6)"
    "fetch_pod env sts t6 = (Inr pod, t')"
    "p = \<lparr>pr_Workspace = w1, pr_Kind = k, pr_Image = img, pr_PodConfig = pc, pr_Pod = pod,
          pr_StatefulSet = sts, pr_ServiceAccount = sa, pr_TLSError = e\<rparr>"
  using assms by (auto simp: reconcile_objects_def elim!: and_then_InrE)

lemma objects_pass:
  assumes libs: "libraries_ok base sv" and same: "same_request w w'"
    and fin: "cfg_UseKubeGateway (re_Config base) \<longrightarrow> WorkspaceFinalizer \<in> set (ws_finalizers w)"
    and ok: "store_ok (cluster.replay sv s t)"
    and run: "reconcile_objects (env_of base sv s) k (w, img, pc) t = (Inr p, t')"
  shows "own_Kinds (cluster.replay sv s t') = own_Kinds (cluster.replay sv s t) \<and>
    cluster.settled sv (\<lambda>s. reconcile_objects (env_of base sv s) k (w', img, pc)) (p\<lparr>pr_Workspace := w'\<rparr>) (cluster.replay sv s t')"
proof -
  let ?at = "cluster.replay sv s" and ?env = "\<lambda>s. env_of base sv s"
  from run obtain t1 t2 t3 t4 t5 t6 sa d svc sts e w1 pod where
    r1: "reconcile_service_account (?env s) w t = (Inr sa, t1)" and r2: "build_statefulset (?env s) w k img pc sa t1 = (Inr d, t2)" and
    r3: "reconcile_service (?env s) w img t2 = (Inr svc, t3)" and r4: "write_statefulset (?env s) w k img d t3 = (Inr (sts, e), t4)" and
    r5: "reconcile_routes (?env s) w k img svc sa t4 = (Inr w1, t5)" and r6: "role_bindings_step (?env s) w1 k sa t5 = (Inr (), t6)" and
    r7: "fetch_pod (?env s) sts t6 = (Inr pod, t')" and
    p: "p = \<lparr>pr_Workspace = w1, pr_Kind = k, pr_Image = img, pr_PodConfig = pc, pr_Pod = pod,
          pr_StatefulSet = sts, pr_ServiceAccount = sa, pr_TLSError = e\<rparr>" by (rule objects_run)
  note kept = cluster.emits_keeps [OF object_frames(1) r1, of sv s] cluster.emits_keeps [OF object_frames(2) r2, of sv s]
    cluster.emits_keeps [OF object_frames(3) r3, of sv s] cluster.emits_keeps [OF object_frames(4) r4, of sv s]
    cluster.emits_keeps [OF object_frames(5) r5, of sv s] cluster.emits_keeps [OF object_frames(6) r6, of sv s]
  have ok2: "names_ok sts_Meta (own_StatefulSets (?at t1))" and ok3: "names_ok svc_Meta (own_Services (?at t2))"
    and ok5: "gateway_ok (?at t4)" and ok6: "stored_by rb_Name (own_RoleBindings (?at t5))" "finite (dom (own_RoleBindings (?at t5)))"
    using ok kept by (simp_all add: store_ok_def gateway_ok_def)
  note build = build_pass [OF libs same ok2 r2]
  have ok4: "names_ok sts_Meta (own_StatefulSets (?at t3))"
    using build ok2 kept(3) by (auto simp: names_ok_def split: if_splits)
  have sts: "own_StatefulSets (?at t4) = own_StatefulSets (?at t2)" if "\<not> cfg_UseKubeGateway (re_Config base)"
    using write_again [OF that _ _ r4] build that kept(3) by simp
  from routes_pass [OF libs same fin ok5 r5] have w1: "w1 = w" and main: "main_services (?at t5) = main_services (?at t4)"
    and routes: "cluster.settled_by sv (\<lambda>\<sigma>. (own_VirtualServices \<sigma>, gateway_part \<sigma>)) (\<lambda>s. reconcile_routes (?env s) w' k img svc sa) w' (?at t5)" by auto
  from pod_settled [OF r7] have t': "t' = t6" and pod: "cluster.settled_by sv own_Pods (\<lambda>s. fetch_pod (?env s) sts) pod (?at t6)" by auto
  let ?\<sigma> = "?at t6"
  have s1: "cluster.settled sv (\<lambda>s. reconcile_service_account (?env s) w') sa ?\<sigma>"
    by (rule cluster.settled_byD [OF service_account_pass [OF libs same r1]]) (use kept in simp)
  have s2: "cluster.settled sv (\<lambda>s. build_statefulset (?env s) w' k img pc sa) d ?\<sigma>"
    using build sts kept by (auto intro: cluster.settled_byD split: if_splits)
  have s3: "cluster.settled sv (\<lambda>s. reconcile_service (?env s) w' img) svc ?\<sigma>"
    by (rule cluster.settled_byD [OF service_pass [OF libs same ok3 r3]]) (use kept main in simp)
  have s4: "cluster.settled sv (\<lambda>s. write_statefulset (?env s) w' k img d) (sts, e) ?\<sigma>"
    by (rule cluster.settled_byD [OF write_pass [OF libs same ok4 r4]]) (use kept in simp)
  have s5: "cluster.settled sv (\<lambda>s. reconcile_routes (?env s) w' k img svc sa) w' ?\<sigma>"
    by (rule cluster.settled_byD [OF routes]) (use kept in \<open>simp add: gateway_part_def\<close>)
  have s6: "cluster.settled sv (\<lambda>s. role_bindings_step (?env s) w' k sa) () ?\<sigma>"
    by (rule cluster.settled_byD [OF role_bindings_pass [OF libs same ok6 r6 [unfolded w1]]]) simp
  have s7: "cluster.settled sv (\<lambda>s. fetch_pod (?env s) sts) pod ?\<sigma>" by (rule cluster.settled_byD [OF pod refl])
  have "cluster.settled sv (\<lambda>s. reconcile_objects (?env s) k (w', img, pc)) (p\<lparr>pr_Workspace := w'\<rparr>) ?\<sigma>"
    unfolding reconcile_objects_def p prod.case prepared.simps
    by (rule cluster.settled_and_then s1 s2 s3 s4 s5 s6 s7 cluster.settled_proceed | subst prod.case)+
  with kept t' show ?thesis by simp
qed

section \<open>The whole pass\<close>

lemma and_then_assoc: "and_then m (\<lambda>x. and_then (f x) g) = and_then (and_then m f) g"
  by (auto simp: and_then_def fun_eq_iff split: prod.splits sum.splits)

lemma prepare_eq:
  "prepare env w = and_then (and_then (fetch_kind env w) (protect_kind env)) (\<lambda>k. and_then (resolve_options env w k) (reconcile_objects env k))"
  by (simp add: prepare_def and_then_assoc)

lemma resolve_options_again:
  assumes "resolve_options env w k t = (Inr (w0, img, pc), t1)" and "same_request w w'"
  obtains w0' where "\<And>env t. resolve_options env w' k t = (Inr (w0', img, pc), t)" and "same_request w0 w0'"
proof -
  from resolve_options_frame(4,5) [OF assms(1)] same_request_generated(12,13) [OF assms(2)]
  obtain d ch d' ch' where opts: "getImageConfig w' k = Inr (img, d, ch)" "getPodConfig w' k = Inr (pc, d', ch')" by metis
  then obtain w0' where run: "\<And>env t. resolve_options env w' k t = (Inr (w0', img, pc), t)"
    by (simp add: resolve_options_def Let_def set_option_info_def proceed_def)
  from resolve_options_frame(1,2) [OF run] resolve_options_frame(1,2) [OF assms(1)] assms(2)
  have "same_request w0 w0'" by (simp add: same_request_def)
  with run show thesis by (rule that)
qed

lemma kind_store_ok:
  assumes "store_ok s" and "and_then (fetch_kind (env_of base sv s) w) (protect_kind (env_of base sv s)) [] = (Inr k, t)"
  shows "store_ok (cluster.replay sv s t)"
proof -
  have "stored_by (\<lambda>x. om_Name (wk_Meta x)) ((own_Kinds s)(om_Name (wk_Meta k) \<mapsto> k))"
    using assms(1) unfolding store_ok_def stored_by_def by (metis fun_upd_apply option.inject)
  with assms(1) show ?thesis by (rule_tac kind_run [OF assms(2)]) (auto simp: store_ok_def)
qed

text \<open>
  Converged does not mean silent: a Pod template that the API server fills in differs from the generated one, so
  every pass asks for an update of the StatefulSet, which changes nothing.
\<close>

lemma defaults_cause_updates:
  assumes "sv_Template sv (sts_Template d) \<noteq> sts_Template d"
  shows "snd (CopyStatefulSetFields d (admit_statefulset sv ns d))"
  using assms statefulset_copier.update_iff [of sample_range d "admit_statefulset sv ns d"] by (simp add: admit_statefulset_def)

section \<open>Progress\<close>

text \<open>
  Without the Gateway mode a pass over a Workspace the webhooks admitted does get to the end when the Workspace does
  not own two objects of a kind.
\<close>

definition goes_on :: "'a step \<Rightarrow> trace \<Rightarrow> bool" where
  "goes_on m t \<longleftrightarrow> (\<exists>x t'. m t = (Inr x, t'))"

lemma goes_onI: "m t = (Inr x, t') \<Longrightarrow> goes_on m t"
  by (auto simp: goes_on_def)

lemma goes_on_and_then:
  assumes "goes_on m t" and "\<And>x t'. m t = (Inr x, t') \<Longrightarrow> goes_on (f x) t'"
  shows "goes_on (and_then m f) t"
  using assms by (fastforce simp: goes_on_def and_then_def)

lemma goes_on_owned:
  assumes "length owned \<le> 1"
  shows "goes_on (reconcile_owned (env_of base sv s) w rq msg meta crt upd resp copier owned d) t"
proof (cases owned)
  case Nil
  then show ?thesis by (intro goes_onI) (simp add: reconcile_owned_def)
next
  case (Cons y ys)
  with assms have "owned = [y]" by simp
  then show ?thesis by (simp add: goes_on_def owned_single)
qed

lemma progress_service_account:
  assumes "libraries_ok base sv" and "length (own_ServiceAccounts (cluster.replay sv s t)) \<le> 1"
  shows "goes_on (reconcile_service_account (env_of base sv s) w) t"
proof -
  obtain m where m: "\<And>s. set_owner (env_of base sv s) w (sacc_Meta (generateServiceAccount (re_Sha base) w)) = proceed m"
    by (rule owner_set [OF assms(1)]) blast
  show ?thesis
    using assms(2) by (auto simp: goes_on_def service_account_step [OF m] Let_def split: list.splits)
qed

lemma progress_statefulset:
  assumes "libraries_ok base sv" and "length (own_StatefulSets (cluster.replay sv s t)) \<le> 1"
    and "generateStatefulSet (re_Lib base) w k (ic_Spec img) (pc_Spec pc) sa = Inr d"
  shows "goes_on (build_statefulset (env_of base sv s) w k img pc sa) t"
    and "\<not> cfg_UseKubeGateway (re_Config base) \<Longrightarrow> goes_on (write_statefulset (env_of base sv s) w k img x) t"
proof -
  have owned: "goes_on (reconcileOwnedStatefulSet (env_of base sv s) w z) t" for z
    using goes_on_owned [OF assms(2)] by (simp add: goes_on_def reconcileOwnedStatefulSet_def and_then_def)
  obtain m where "\<And>s. set_owner (env_of base sv s) w (sts_Meta d) = proceed m" by (rule owner_set [OF assms(1)]) blast
  with owned show "goes_on (build_statefulset (env_of base sv s) w k img pc sa) t"
    by (auto simp: goes_on_def build_statefulset_def assms(3) generated_proceed and_then_def proceed_def Let_def)
  show "goes_on (write_statefulset (env_of base sv s) w k img x) t" if "\<not> cfg_UseKubeGateway (re_Config base)"
    using owned [of x] that by (auto simp: goes_on_def write_statefulset_step template_plan_def and_then_def proceed_def)
qed

lemma progress_service:
  assumes "libraries_ok base sv" and "length (main_services (cluster.replay sv s t)) \<le> 1" and "generateService w (ic_Spec img) = Inr d"
  shows "goes_on (reconcile_service (env_of base sv s) w img) t"
proof -
  obtain m where "\<And>s. set_owner (env_of base sv s) w (svc_Meta d) = proceed m" by (rule owner_set [OF assms(1)]) blast
  from service_step [OF assms(3) this] goes_on_owned [OF assms(2)] show ?thesis by (simp add: goes_on_def)
qed

lemma progress_routes:
  assumes "libraries_ok base sv" and "length (own_VirtualServices (cluster.replay sv s t)) \<le> 1"
    and "generateVirtualService (re_Lib base) (re_Range base) (re_Config base) w k svc (ic_Spec img) = Inr d"
    and "\<not> cfg_UseKubeGateway (re_Config base)"
  shows "goes_on (reconcile_routes (env_of base sv s) w k img svc sa) t"
proof -
  obtain m where "re_SetRef base w (vsv_Meta d) = Inr m" by (rule owner_set [OF assms(1)])
  note step = virtual_service_step [OF assms(3) this]
  have "goes_on (reconcile_virtual_service (env_of base sv s) w k img svc) t"
    unfolding goes_on_def step
    by (fold goes_on_def) (intro goes_on_and_then goes_on_owned assms(2) goes_onI [OF proceed_def])
  with assms(4) show ?thesis by (auto simp: goes_on_def reconcile_routes_def and_then_def proceed_def)
qed

lemma no_refusal: "fst (sync_owned (\<lambda>_. None) found desired) = None" "fst (create_all (\<lambda>_. None) rbs) = None"
proof -
  have ok: "op_error (\<lambda>_. None) opn = None" for opn by (simp add: op_error_def)
  show "fst (sync_owned (\<lambda>_. None) found desired) = None"
    by (induction found arbitrary: desired) (auto simp: ok split: prod.splits option.splits, (metis fst_conv)+)
  show "fst (create_all (\<lambda>_. None) rbs) = None"
    by (induction rbs) (auto simp: ok split: prod.splits)
qed

lemma progress_role_bindings:
  assumes "libraries_ok base sv"
  shows "goes_on (role_bindings_step (env_of base sv s) w k sa) t"
proof -
  have ref: "ref_ok (re_SetRef base w)" using assms by (simp add: libraries_ok_def owner_ok_def)
  have "\<exists>desired. desired_bindings (re_SetRef base w) gen crs acc = Inr desired" for gen crs acc
  proof (induction crs arbitrary: acc)
    case (Cons cr crs)
    from ref obtain m where "re_SetRef base w (rb_Meta (gen cr)) = Inr m" unfolding ref_ok_def by blast
    with Cons show ?case by (simp add: Let_def)
  qed simp
  then obtain desired where des:
    "desired_bindings (re_SetRef base w) (generateRoleBinding (re_Sha base) w sa) (cluster_roles k) Map.empty = Inr desired" by blast
  show ?thesis
    using no_refusal
    by (auto simp: goes_on_def role_bindings_step_def reconcileRoleBindings_def des split: prod.splits option.splits, (metis fst_conv option.distinct(1))+)
qed

definition single_owned :: "cluster_store \<Rightarrow> bool" where
  "single_owned \<sigma> \<longleftrightarrow> length (own_ServiceAccounts \<sigma>) \<le> 1 \<and> length (own_StatefulSets \<sigma>) \<le> 1 \<and>
     length (main_services \<sigma>) \<le> 1 \<and> length (own_VirtualServices \<sigma>) \<le> 1"

lemma objects_progress:
  assumes libs: "libraries_ok base sv" and ok: "store_ok (cluster.replay sv s t)" "single_owned (cluster.replay sv s t)"
    and mode: "\<not> cfg_UseKubeGateway (re_Config base)"
    and gen: "\<And>sa. \<exists>d. generateStatefulSet (re_Lib base) w k (ic_Spec img) (pc_Spec pc) sa = Inr d" "\<exists>d. generateService w (ic_Spec img) = Inr d"
      "\<And>svc. \<exists>d. generateVirtualService (re_Lib base) (re_Range base) (re_Config base) w k svc (ic_Spec img) = Inr d"
  shows "goes_on (reconcile_objects (env_of base sv s) k (w, img, pc)) t"
proof -
  let ?at = "cluster.replay sv s" and ?env = "env_of base sv s"
  have same: "same_request w w" by (simp add: same_request_def)
  note len = ok(2) [unfolded single_owned_def]
  obtain sa t1 where r1: "reconcile_service_account ?env w t = (Inr sa, t1)"
    using progress_service_account [OF libs] len unfolding goes_on_def by blast
  note k1 = cluster.emits_keeps [OF object_frames(1) r1, of sv s]
  from gen(1) [of sa] obtain d where d: "generateStatefulSet (re_Lib base) w k (ic_Spec img) (pc_Spec pc) sa = Inr d" by blast
  obtain x t2 where r2: "build_statefulset ?env w k img pc sa t1 = (Inr x, t2)"
    using progress_statefulset(1) [OF libs _ d] k1 len unfolding goes_on_def by fastforce
  note k2 = cluster.emits_keeps [OF object_frames(2) r2, of sv s]
  have "names_ok sts_Meta (own_StatefulSets (?at t1))" using ok(1) k1 by (simp add: store_ok_def)
  from build_pass [OF libs same this r2] mode have sts: "own_StatefulSets (?at t2) = [x]" by simp
  obtain svc t3 where r3: "reconcile_service ?env w img t2 = (Inr svc, t3)"
    using progress_service [OF libs] gen(2) k1 k2 len unfolding goes_on_def by fastforce
  note k3 = cluster.emits_keeps [OF object_frames(3) r3, of sv s]
  obtain y e t4 where r4: "write_statefulset ?env w k img x t3 = (Inr (y, e), t4)"
    using progress_statefulset(2) [OF libs _ d mode] sts k3 unfolding goes_on_def by fastforce
  note k4 = cluster.emits_keeps [OF object_frames(4) r4, of sv s]
  obtain w1 t5 where r5: "reconcile_routes ?env w k img svc sa t4 = (Inr w1, t5)"
    using progress_routes [OF libs _ _ mode] gen(3) k1 k2 k3 k4 len unfolding goes_on_def by fastforce
  obtain t6 where r6: "role_bindings_step ?env w1 k sa t5 = (Inr (), t6)"
    using progress_role_bindings [OF libs] unfolding goes_on_def by (metis unit.exhaust)
  have "\<exists>pod. fetch_pod ?env y t6 = (Inr pod, t6)"
    by (simp add: fetch_pod_def and_then_def ask_def proceed_def or_not_found_def split: option.splits)
  then show ?thesis
    by (auto simp: goes_on_def reconcile_objects_def and_then_def proceed_def r1 r2 r3 r4 r5 r6)
qed

lemma finalizer_generates:
  "generateStatefulSet lib w (add_kind_finalizer k) ispec pspec sa = generateStatefulSet lib w k ispec pspec sa"
  "generateVirtualService lib rng cfg w (add_kind_finalizer k) svc ispec = generateVirtualService lib rng cfg w k svc ispec"
  "getImageConfig w (add_kind_finalizer k) = getImageConfig w k" "getPodConfig w (add_kind_finalizer k) = getPodConfig w k"
proof -
  have spec: "wk_Spec (add_kind_finalizer k) = wk_Spec k" by (simp add: add_kind_finalizer_def)
  have "http_port (add_kind_finalizer k) = http_port k" by (intro ext) (simp only: http_port_def spec)
  then have "generate_routes mk (add_kind_finalizer k) ports = generate_routes mk k ports" for mk ports
    by (induction ports) (simp_all only: generate_routes.simps)
  then show "generateVirtualService lib rng cfg w (add_kind_finalizer k) svc ispec = generateVirtualService lib rng cfg w k svc ispec"
    by (simp only: generateVirtualService_def)
  show "generateStatefulSet lib w (add_kind_finalizer k) ispec pspec sa = generateStatefulSet lib w k ispec pspec sa"
    by (simp only: generateStatefulSet_def spec)
  show "getImageConfig w (add_kind_finalizer k) = getImageConfig w k" "getPodConfig w (add_kind_finalizer k) = getPodConfig w k"
    by (simp_all only: getImageConfig_def getPodConfig_def spec)
qed

text \<open>A pass whose objects can be generated gets past all of them, when every write is accepted.\<close>

lemma pass_ends:
  assumes "own_Kinds s (spec_Kind (ws_Spec w)) = Some k"
    and "getImageConfig w k = Inr (img, d, ch)" "getPodConfig w k = Inr (pc, d', ch')"
    and gen: "\<And>sa. \<exists>sts. generateStatefulSet (re_Lib base) w k (ic_Spec img) (pc_Spec pc) sa = Inr sts" "\<exists>svc. generateService w (ic_Spec img) = Inr svc"
      "\<And>cfg svc. \<exists>vs. generateVirtualService (re_Lib base) (re_Range base) cfg w k svc (ic_Spec img) = Inr vs"
    and "libraries_ok base sv" and "store_ok s" and "single_owned s" and "\<not> cfg_UseKubeGateway (re_Config base)"
  shows "\<exists>p t. prepare (env_of base sv s) w [] = (Inr p, t)"
proof -
  let ?env = "env_of base sv s"
  note k = assms(1) and opts = assms(2,3) and ok = assms(7-10)
  have "and_then (fetch_kind ?env w) (protect_kind ?env) [] =
      (if om_DeletionTimestamp (wk_Meta k) = None \<and> WorkspaceKindFinalizer \<notin> set (om_Finalizers (wk_Meta k))
       then (Inr (add_kind_finalizer k), [(UpdateKindMeta (add_kind_finalizer k), None)]) else (Inr k, []))"
    by (simp add: and_then_def fetch_kind_step k protect_kind_def proceed_def)
  then obtain k' t where r1: "and_then (fetch_kind ?env w) (protect_kind ?env) [] = (Inr k', t)" and k': "k' = k \<or> k' = add_kind_finalizer k"
    by (metis (full_types))
  have parts: "(\<lambda>\<sigma>. (own_ServiceAccounts \<sigma>, own_StatefulSets \<sigma>, own_Services \<sigma>, own_VirtualServices \<sigma>)) (cluster.replay sv s t) =
      (\<lambda>\<sigma>. (own_ServiceAccounts \<sigma>, own_StatefulSets \<sigma>, own_Services \<sigma>, own_VirtualServices \<sigma>)) (cluster.replay sv s [])"
    by (rule cluster.emits_keeps [where m = "and_then (fetch_kind ?env w) (protect_kind ?env)", OF _ r1]) (intro emit_intros keepsI; simp)
  then have single: "single_owned (cluster.replay sv s t)" using ok(3) by (simp add: single_owned_def)
  from opts k' have opts': "getImageConfig w k' = Inr (img, d, ch)" "getPodConfig w k' = Inr (pc, d', ch')"
    by (auto simp: finalizer_generates)
  then obtain w0 where r2: "resolve_options ?env w k' t = (Inr (w0, img, pc), t)"
    by (simp add: resolve_options_def Let_def set_option_info_def proceed_def)
  then have same: "same_request w w0" using resolve_options_frame(1,2) by (simp add: same_request_def)
  note gen' = same_request_generated [OF same]
  have "goes_on (reconcile_objects ?env k' (w0, img, pc)) t"
    using gen k' by (intro objects_progress [OF ok(1) kind_store_ok [OF ok(2) r1] single ok(4)])
      (auto simp: gen' finalizer_generates)
  with r1 r2 show ?thesis by (auto simp: prepare_eq and_then_def goes_on_def)
qed

section \<open>Sample\<close>

text \<open>A Workspace of which nothing exists yet, neither Istio nor a Gateway, and an API server that sets defaults.\<close>

definition sample_defaults :: api_defaults where
  "sample_defaults = \<lparr>sv_Name = (\<lambda>ns p. concat ns @ ''x''), sv_Template = (\<lambda>tm. tm\<lparr>pt_Defaulted := Some (Opaque ''defaults'')\<rparr>),
     sv_ServiceRest = (\<lambda>_. Opaque ''clusterIP'')\<rparr>"

definition sample_base :: rec_env where
  "sample_base = (sample_rec_env (\<lambda>_. None) sample_ws sample_kind [])\<lparr>re_Config := sample_cfg\<lparr>cfg_UseKubeGateway := False\<rparr>\<rparr>"

definition sample_store :: cluster_store where
  "sample_store = \<lparr>own_Kinds = cl_Kinds sample_cluster, own_ServiceAccounts = [], own_StatefulSets = [], own_Services = [],
     own_VirtualServices = [], own_RoleBindings = Map.empty, own_ClusterRoleBindings = Map.empty, own_ConfigMaps = Map.empty,
     own_ReferenceGrants = Map.empty, own_HTTPRoutes = Map.empty, own_Pods = Map.empty, own_APIServer = APIServerError (OtherError ''timeout'')\<rparr>"

lemma sample_base_sel [simp]:
  "re_Lib sample_base = sample_lib" "re_Range sample_base = sample_range" "re_Keys sample_base = sample_keys"
  "re_SetRef sample_base = (\<lambda>_. Inr)" "\<not> cfg_UseKubeGateway (re_Config sample_base)"
  by (simp_all add: sample_base_def sample_rec_env_def sample_cfg_def)

lemma sample_store_ok:
  "libraries_ok sample_base sample_defaults" "store_ok sample_store" "single_owned sample_store" "own_Kinds sample_store = cl_Kinds sample_cluster"
proof -
  have "concat ns @ ''x'' \<notin> set ns" for ns :: "string list"
  proof
    assume "concat ns @ ''x'' \<in> set ns"
    then obtain us vs where "ns = us @ (concat ns @ ''x'') # vs" by (metis split_list)
    then have "length (concat ns) = length (concat (us @ (concat ns @ ''x'') # vs))" by metis
    then show False by simp
  qed
  moreover have "ref_ok Inr" by (simp add: ref_ok_def meta_replaced_def)
  ultimately show "libraries_ok sample_base sample_defaults"
    by (simp add: libraries_ok_def owner_ok_def defaults_ok_def sample_defaults_def)
  show "store_ok sample_store" "single_owned sample_store" "own_Kinds sample_store = cl_Kinds sample_cluster"
    by (simp_all add: store_ok_def single_owned_def sample_store_def stored_by_def names_ok_def sample_cluster_def)
qed

lemma sample_stored: "sample_ws \<in> set (cl_Workspaces sample_cluster)" "same_request sample_ws sample_ws"
  by (simp_all add: sample_cluster_def same_request_def)

lemma sample_renders: "\<not> fails_only_with sample_lib f t"
  by (auto simp: fails_only_with_def RenderGoTemplate_def sample_lib_def split: sum.splits parsed_template.splits)

lemma sample_first_pass: "\<exists>p t. prepare (env_of sample_base sample_defaults sample_store) sample_ws [] = (Inr p, t)"
proof -
  have "options_exist sample_ws sample_kind" by (simp add: options_exist_def)
  from admitted_options_resolve [OF key_order_sample_keys sample_schema_ok(1) sample_create_admitted this]
  obtain img d ch pc d' ch' where o: "getImageConfig sample_ws sample_kind = Inr (img, d, ch)"
    "getPodConfig sample_ws sample_kind = Inr (pc, d', ch')" by blast
  then have v: "img \<in> set (wk_ImageConfigValues sample_kind)" using image_option.get_current by blast
  have "\<forall>d \<in> set (pv_Data (wpt_Volumes (ws_PodTemplate sample_ws))). pvm_ReadOnly d \<noteq> None" by simp
  note gen = accepted_generates [OF sample_create_admitted sample_schema_ok(1) key_order_sample_keys v this]
  have "own_Kinds sample_store (spec_Kind (ws_Spec sample_ws)) = Some sample_kind"
    by (simp add: sample_store_def sample_cluster_def)
  moreover have "\<exists>sts. generateStatefulSet (re_Lib sample_base) sample_ws sample_kind (ic_Spec img) (pc_Spec pc) sa = Inr sts" for sa
    using gen(1) sample_renders unfolding sample_base_sel by blast
  moreover have "\<exists>vs. generateVirtualService (re_Lib sample_base) (re_Range sample_base) cfg sample_ws sample_kind svc (ic_Spec img) = Inr vs" for cfg svc
    using gen(3) sample_renders unfolding sample_base_sel by blast
  ultimately show ?thesis by (intro pass_ends [OF _ o _ gen(2) _ sample_store_ok(1-3) sample_base_sel(5)])
qed

section \<open>Properties\<close>

text \<open>
  C4. The reconcile converges in one pass. Take any cluster, whatever is missing from it, drifted or left over, in which
  objects are stored under their names, and an API server that accepts every write. When a pass over a Workspace gets
  to the end, running it again on the cluster it left, even with another status in between, gets to the end
  with the same result and leaves every object as it is: the ServiceAccount, the StatefulSet, the Services,
  the routes of either mode, the RoleBindings and the kind. (In Gateway mode the Workspace has its finalizer.)
\<close>

theorem reconcile_converges:
  assumes "libraries_ok base sv" and "store_ok s" and "same_request w w'"
    and "cfg_UseKubeGateway (re_Config base) \<longrightarrow> WorkspaceFinalizer \<in> set (ws_finalizers w)"
    and "prepare (env_of base sv s) w [] = (Inr p, t)"
  shows "\<exists>p' t'. prepare (env_of base sv (cluster.replay sv s t)) w' [] = (Inr p', t') \<and>
    cluster.replay sv (cluster.replay sv s t) t' = cluster.replay sv s t \<and>
    p' = p\<lparr>pr_Workspace := pr_Workspace p'\<rparr>"
proof -
  let ?env = "\<lambda>s. env_of base sv s" and ?\<sigma> = "cluster.replay sv s t"
  let ?kind = "\<lambda>w s. and_then (fetch_kind (?env s) w) (protect_kind (?env s))"
  from assms(5) [unfolded prepare_eq] obtain k t1 where r1: "?kind w s [] = (Inr k, t1)"
    and rest: "and_then (resolve_options (?env s) w k) (reconcile_objects (?env s) k) t1 = (Inr p, t)" by (rule and_then_InrE)
  from rest obtain w0 img pc t2 where r2: "resolve_options (?env s) w k t1 = (Inr (w0, img, pc), t2)"
    and r3: "reconcile_objects (?env s) k (w0, img, pc) t2 = (Inr p, t)" by (rule and_then_InrE) (metis prod_cases3)
  obtain w0' where w0': "\<And>env t. resolve_options env w' k t = (Inr (w0', img, pc), t)" "same_request w0 w0'"
    using r2 assms(3) by (rule resolve_options_again) blast
  have t2: "t2 = t1" and fin: "cfg_UseKubeGateway (re_Config base) \<longrightarrow> WorkspaceFinalizer \<in> set (ws_finalizers w0)"
    using resolve_options_frame(1,3) [OF r2] assms(4) by (simp_all add: ws_finalizers_def)
  note objects = objects_pass [OF assms(1) w0'(2) fin kind_store_ok [OF assms(2) r1] r3 [unfolded t2]]
  have kind: "cluster.settled sv (?kind w') k ?\<sigma>"
    by (rule cluster.settled_byD [OF kind_pass [OF _ assms(3) r1]]) (use assms(2) objects in \<open>simp_all add: store_ok_def\<close>)
  have opts: "cluster.settled sv (\<lambda>s. resolve_options (?env s) w' k) (w0', img, pc) ?\<sigma>"
    by (rule cluster.settledI) (simp add: w0'(1))
  have "cluster.settled sv (\<lambda>s. prepare (?env s) w') (p\<lparr>pr_Workspace := w0'\<rparr>) ?\<sigma>"
    unfolding prepare_eq
    by (rule cluster.settled_and_then kind opts conjunct2 [OF objects])+
  then obtain t' where "prepare (?env ?\<sigma>) w' [] = (Inr (p\<lparr>pr_Workspace := w0'\<rparr>), t')" "cluster.replay sv ?\<sigma> t' = ?\<sigma>"
    by (rule cluster.settledE [where s = ?\<sigma> and t = "[]"]) simp
  then show ?thesis by (intro exI [of _ "p\<lparr>pr_Workspace := w0'\<rparr>"] exI [of _ t']) simp
qed

theorem reconcile_converges_witness:
  "\<exists>p t p' t'. prepare (env_of sample_base sample_defaults sample_store) sample_ws [] = (Inr p, t) \<and>
    prepare (env_of sample_base sample_defaults (cluster.replay sample_defaults sample_store t)) sample_ws [] = (Inr p', t') \<and>
    cluster.replay sample_defaults (cluster.replay sample_defaults sample_store t) t' = cluster.replay sample_defaults sample_store t"
proof -
  obtain p t where run: "prepare (env_of sample_base sample_defaults sample_store) sample_ws [] = (Inr p, t)" using sample_first_pass by blast
  from reconcile_converges [OF sample_store_ok(1,2) sample_stored(2) _ run] run show ?thesis by fastforce
qed

end
