(* ===== verification/Probe_Rate.thy ===== *)
theory Probe_Rate
  imports Reconcile
begin

text \<open>
  How often a Workspace is probed, over the passes of its reconcile. The rate limit of
  \<open>timeUntilProbeDue\<close> rests on the last probe in the status, so it depends on what happens to the status
  between two passes: a pass that finds the Workspace entering the state \<open>Running\<close> starts with an empty
  activity (\<open>recordRunningTransition\<close>), a pass that fails after its probe writes no status, and a
  refused status update loses the probe. A pass is the end of a reconcile, \<open>finish_reconcile\<close>, on a Workspace as
  it was read.
\<close>

section \<open>Passes\<close>

record pass =
  ps_Env :: finish_env
  ps_Cache :: selector_cache
  ps_Stored :: Workspace
  ps_Workspace :: Workspace
  ps_Kind :: WorkspaceKind
  ps_Image :: ImageConfigValue
  ps_PodConfig :: PodConfigValue
  ps_Pod :: "Pod option"
  ps_StatefulSet :: ObjectMeta
  ps_ServiceAccount :: string
  ps_TLSError :: "string option"

definition run_pass :: "pass \<Rightarrow> (reconcile_error + ctrl_result) \<times> ws_write list \<times> selector_cache" where
  "run_pass p = finish_reconcile (ps_Env p) (ps_Cache p) (ps_Stored p) (ps_Workspace p) (ps_Kind p) (ps_Image p)
     (ps_PodConfig p) (ps_Pod p) (ps_StatefulSet p) (ps_ServiceAccount p) (ps_TLSError p)"

text \<open>The status that the API server holds after a pass: that of the update it accepted, or the one before.\<close>

definition left_status :: "pass \<Rightarrow> WorkspaceStatus" where
  "left_status p =
     stored_status (ws_Status (ps_Stored p))
       (filter (\<lambda>wr. ws_write_answer (ps_Env p) wr = None) (fst (snd (run_pass p))))"

text \<open>The probe that a pass executes.\<close>

definition pass_probe :: "pass \<Rightarrow> ProbeResult option" where
  "pass_probe p =
     (case generateWorkspaceStatus (fe_ListEvents (ps_Env p)) (fe_Now (ps_Env p)) (ps_Workspace p) (ps_Pod p) (ps_StatefulSet p)
             (ps_ServiceAccount p) of
        (Inl _, _) \<Rightarrow> None
      | (Inr _, status) \<Rightarrow>
          probe_run (fe_Activity (ps_Env p)) ((ps_Workspace p)\<lparr>ws_Status := status\<rparr>) (ps_Kind p) (Some (ps_Image p)) (ps_Pod p))"

definition probe_starts :: "pass list \<Rightarrow> int list" where
  "probe_starts ps = List.map_filter (\<lambda>p. map_option (\<lambda>r. UnixMilli (pb_StartTime r)) (pass_probe p)) ps"

text \<open>The pass takes the Workspace for one that has just started to run.\<close>

definition enters_running :: "pass \<Rightarrow> bool" where
  "enters_running p \<longleftrightarrow>
     (case generateWorkspaceState (fe_ListEvents (ps_Env p)) (spec_Paused (ws_Spec (ps_Workspace p))) (ps_StatefulSet p) (ps_Pod p) of
        Inl _ \<Rightarrow> False
      | Inr (state, _) \<Rightarrow> state = WorkspaceStateRunning \<and>
          (st_State (ws_Status (ps_Workspace p)) \<noteq> WorkspaceStateRunning \<or> st_LastRunningTime (ws_Status (ps_Workspace p)) = 0))"

text \<open>What a pass found out is stored: the activity step did not fail and the status update, if any, was accepted.\<close>

definition recorded :: "pass \<Rightarrow> bool" where
  "recorded p \<longleftrightarrow> (\<forall>s. UpdateStatus s \<in> set (fst (snd (run_pass p))) \<longrightarrow> fe_StatusUpdate (ps_Env p) s = None) \<and>
     (\<forall>err. fst (run_pass p) \<noteq> Inl (ActivityError err))"

text \<open>
  The second pass continues what the first one left: it reads the activity that the first one stored,
  and the Workspace has been running in between.
\<close>

definition continues :: "pass \<Rightarrow> pass \<Rightarrow> bool" where
  "continues p q \<longleftrightarrow> recorded p \<and> ws_Activity (ps_Workspace q) = st_Activity (left_status p) \<and> \<not> enters_running q"

section \<open>One pass\<close>

lemma generated_activity:
  assumes "generateWorkspaceStatus (fe_ListEvents (ps_Env p)) (fe_Now (ps_Env p)) (ps_Workspace p) (ps_Pod p) (ps_StatefulSet p)
      (ps_ServiceAccount p) = (Inr res, status)"
  shows "\<not> enters_running p \<Longrightarrow> st_Activity status = ws_Activity (ps_Workspace p)"
  using assms
  by (auto simp: enters_running_def generateWorkspaceStatus_def recordRunningTransition_def Let_def split: sum.splits if_splits)

text \<open>A pass that got through the activity step without an error leaves the activity of that step.\<close>

lemma left_activity:
  assumes "recorded p"
    and "generateWorkspaceStatus (fe_ListEvents (ps_Env p)) (fe_Now (ps_Env p)) (ps_Workspace p) (ps_Pod p)
      (ps_StatefulSet p) (ps_ServiceAccount p) = (Inr res, status)"
    and "reconcileActivity (fe_Activity (ps_Env p)) (ps_Cache p) ((ps_Workspace p)\<lparr>ws_Status := status\<rparr>) (ps_Kind p)
      (Some (ps_Image p)) (Some (ps_PodConfig p)) (ps_Pod p) = (out, ws', c')"
  shows "st_Activity (left_status p) = ws_Activity ws'"
  using assms
  by (cases out)
     (auto simp: recorded_def left_status_def run_pass_def finish_reconcile_def stored_status_def ws_write_answer_def Let_def
      split: prod.splits option.splits if_splits)

text \<open>A recorded pass leaves the probe it executed as the last one, or the last one it found.\<close>

lemma pass_leaves:
  assumes "recorded p" and "ws_Activity (ps_Workspace p) = ws_Activity (ps_Stored p)"
  shows "pass_probe p = Some r \<Longrightarrow> act_LastProbe (st_Activity (left_status p)) = Some (last_probe_of r)"
    and "pass_probe p = None \<Longrightarrow> \<not> enters_running p \<Longrightarrow>
      act_LastProbe (st_Activity (left_status p)) = act_LastProbe (ws_Activity (ps_Workspace p))"
proof -
  obtain g status where gen: "generateWorkspaceStatus (fe_ListEvents (ps_Env p)) (fe_Now (ps_Env p)) (ps_Workspace p) (ps_Pod p)
      (ps_StatefulSet p) (ps_ServiceAccount p) = (g, status)" by fastforce
  let ?ws = "(ps_Workspace p)\<lparr>ws_Status := status\<rparr>"
  obtain out ws' c' where act: "reconcileActivity (fe_Activity (ps_Env p)) (ps_Cache p) ?ws (ps_Kind p) (Some (ps_Image p))
      (Some (ps_PodConfig p)) (ps_Pod p) = (out, ws', c')" by (metis prod_cases3)
  show "act_LastProbe (st_Activity (left_status p)) = Some (last_probe_of r)" if r: "pass_probe p = Some r"
  proof -
    from r gen obtain res where g: "g = Inr res"
      and run: "probe_run (fe_Activity (ps_Env p)) ?ws (ps_Kind p) (Some (ps_Image p)) (ps_Pod p) = Some r"
      by (auto simp: pass_probe_def split: sum.splits)
    from act have "act_LastProbe (ws_Activity ws') = Some (last_probe_of r)"
      by (cases rule: reconcileActivity_cases) (use run in \<open>auto dest: same_but_rulesD simp: updateActivity_frame\<close>)
    with left_activity [OF assms(1) gen [unfolded g] act] show ?thesis by simp
  qed
  show "act_LastProbe (st_Activity (left_status p)) = act_LastProbe (ws_Activity (ps_Workspace p))"
    if none: "pass_probe p = None" and stays: "\<not> enters_running p"
  proof (cases g)
    case (Inl err)
    with gen assms(2) show ?thesis by (simp add: left_status_def run_pass_def finish_reconcile_def stored_status_def)
  next
    case (Inr res)
    with none gen have run: "probe_run (fe_Activity (ps_Env p)) ?ws (ps_Kind p) (Some (ps_Image p)) (ps_Pod p) = None"
      by (simp add: pass_probe_def)
    from act have "act_LastProbe (ws_Activity ws') = act_LastProbe (st_Activity status)"
      by (cases rule: reconcileActivity_cases) (use run in \<open>auto dest: same_but_rulesD\<close>)
    with left_activity [OF assms(1) gen [unfolded Inr] act] generated_activity [OF gen [unfolded Inr] stays] show ?thesis by simp
  qed
qed

text \<open>A probe of a pass that continues others starts after the interval that the last probe asks for.\<close>

lemma pass_probe_due:
  assumes "pass_probe p = Some r" and "kpt_ActivityProbe (wk_PodTemplate (ps_Kind p)) = Some ap" and "intervals_ok ap"
    and "clock_ok (fe_Activity (ps_Env p))" and "\<not> enters_running p"
    and "act_LastProbe (ws_Activity (ps_Workspace p)) = Some lp" and "0 < lp_StartTime lp" and "sane_ms (lp_StartTime lp)"
  shows "lp_StartTime lp + 1000 * min_secs ap \<le> UnixMilli (pb_StartTime r)"
proof -
  from assms(1) obtain res status where
    gen: "generateWorkspaceStatus (fe_ListEvents (ps_Env p)) (fe_Now (ps_Env p)) (ps_Workspace p) (ps_Pod p)
      (ps_StatefulSet p) (ps_ServiceAccount p) = (Inr res, status)" and
    run: "probe_run (fe_Activity (ps_Env p)) ((ps_Workspace p)\<lparr>ws_Status := status\<rparr>) (ps_Kind p) (Some (ps_Image p)) (ps_Pod p) = Some r"
    by (auto simp: pass_probe_def split: prod.splits sum.splits)
  let ?ws = "(ps_Workspace p)\<lparr>ws_Status := status\<rparr>" and ?env = "fe_Activity (ps_Env p)"
  have lp: "act_LastProbe (ws_Activity ?ws) = Some lp" using generated_activity [OF gen assms(5)] assms(6) by simp
  note r = probe_run_SomeD [OF run assms(2)]
  from r(2) timeUntilProbeDue_exact [OF assms(3) lp clock_okD(1) [OF assms(4)] assms(8,7)]
  have "lp_StartTime lp + 1000 * required_secs ap lp \<le> UnixMilli (ae_Now ?env)" by (simp split: if_splits)
  moreover have "UnixMilli (ae_Now ?env) \<le> UnixMilli (pb_StartTime r)" unfolding r(1) by (rule clock_okD(2) [OF assms(4)])
  ultimately show ?thesis using min_le_required [OF assms(3), of lp] by linarith
qed

section \<open>Properties\<close>

text \<open>What is asked of each pass: the activity probe of the kind, the clock, and that the options alone are filled in before.\<close>

definition pass_ok :: "ActivityProbe \<Rightarrow> pass \<Rightarrow> bool" where
  "pass_ok ap p \<longleftrightarrow> kpt_ActivityProbe (wk_PodTemplate (ps_Kind p)) = Some ap \<and> clock_ok (fe_Activity (ps_Env p)) \<and>
     ws_Activity (ps_Workspace p) = ws_Activity (ps_Stored p)"

lemma pass_probe_start:
  assumes "pass_probe p = Some r" and "pass_ok ap p"
  shows "0 < lp_StartTime (last_probe_of r)" and "sane_ms (lp_StartTime (last_probe_of r))"
    and "lp_StartTime (last_probe_of r) = UnixMilli (pb_StartTime r)"
proof -
  from assms obtain ws where "r = runProbe (fe_Activity (ps_Env p)) ws ap (Some (ps_Image p)) (ps_Pod p)"
    by (auto simp: pass_ok_def pass_probe_def dest!: probe_run_SomeD(1) split: prod.splits sum.splits)
  with clock_okD(3,4) [of "fe_Activity (ps_Env p)" ws ap "Some (ps_Image p)" "ps_Pod p"] assms(2)
  show "0 < lp_StartTime (last_probe_of r)" "sane_ms (lp_StartTime (last_probe_of r))"
    "lp_StartTime (last_probe_of r) = UnixMilli (pb_StartTime r)"
    by (simp_all add: last_probe_of_def pass_ok_def)
qed

abbreviation apart :: "ActivityProbe \<Rightarrow> int \<Rightarrow> int \<Rightarrow> bool" where
  "apart ap s t \<equiv> s + 1000 * min_secs ap \<le> t"

lemma probe_starts_Cons:
  "probe_starts (p # ps) = (case pass_probe p of Some r \<Rightarrow> [UnixMilli (pb_StartTime r)] | None \<Rightarrow> []) @ probe_starts ps"
  by (simp add: probe_starts_def map_filter_simps split: option.splits)

lemma probe_starts_after:
  assumes "intervals_ok ap"
  shows "\<forall>p \<in> set (p # ps). pass_ok ap p \<Longrightarrow> successively continues (p # ps) \<Longrightarrow> \<not> enters_running p \<Longrightarrow>
    act_LastProbe (ws_Activity (ps_Workspace p)) = Some lp \<Longrightarrow> 0 < lp_StartTime lp \<Longrightarrow> sane_ms (lp_StartTime lp) \<Longrightarrow>
    (\<forall>t \<in> set (probe_starts (p # ps)). apart ap (lp_StartTime lp) t) \<and> sorted_wrt (apart ap) (probe_starts (p # ps))"
proof (induction ps arbitrary: p lp)
  case Nil
  then show ?case
    using pass_probe_due [of p _ ap lp] assms
    by (auto simp: probe_starts_Cons pass_ok_def probe_starts_def map_filter_simps split: option.splits)
next
  case (Cons q ps)
  have pq: "pass_ok ap p" "continues p q" and rest: "\<forall>p \<in> set (q # ps). pass_ok ap p" "successively continues (q # ps)"
    using Cons.prems(1,2) by simp_all
  then have c: "recorded p" "\<not> enters_running q" "ws_Activity (ps_Workspace q) = st_Activity (left_status p)"
    "ws_Activity (ps_Workspace p) = ws_Activity (ps_Stored p)"
    by (simp_all add: continues_def pass_ok_def)
  show ?case
  proof (cases "pass_probe p")
    case None
    with pass_leaves(2) [OF c(1,4) None Cons.prems(3)] Cons.prems(4) c(3)
    have "act_LastProbe (ws_Activity (ps_Workspace q)) = Some lp" by simp
    from Cons.IH [OF rest c(2) this Cons.prems(5,6)] None show ?thesis by (simp add: probe_starts_Cons [of p])
  next
    case (Some r)
    note start = pass_probe_start [OF Some pq(1)]
    from pass_leaves(1) [OF c(1,4) Some] c(3)
    have "act_LastProbe (ws_Activity (ps_Workspace q)) = Some (last_probe_of r)" by simp
    from Cons.IH [OF rest c(2) this start(1,2)] start(3)
    have IH: "\<forall>t \<in> set (probe_starts (q # ps)). apart ap (UnixMilli (pb_StartTime r)) t" "sorted_wrt (apart ap) (probe_starts (q # ps))"
      by simp_all
    have "apart ap (lp_StartTime lp) (UnixMilli (pb_StartTime r))"
      using pass_probe_due [OF Some _ assms _ Cons.prems(3-6)] pq(1) by (simp add: pass_ok_def)
    moreover have "0 \<le> min_secs ap" using assms by (simp add: intervals_ok_def)
    ultimately show ?thesis using IH Some by (fastforce simp: probe_starts_Cons [of p])
  qed
qed

text \<open>
  C22. While a Workspace stays running, its probes are rate-limited. Take any sequence of passes, however early
  or often they are triggered and whatever the probes return, in which each pass after the first reads the activity
  that the one before has stored, the one before did not fail in its activity step nor have its status update
  refused, and no pass after the first takes the Workspace for one that has just started to run. Then any two
  probes of these passes start at least \<open>minProbeIntervalSeconds\<close> apart. (A pass that does take it for a
  new start, as happens after every TLS failure, begins with an empty activity and probes at once.)
\<close>

theorem probes_rate_limited:
  assumes "\<forall>p \<in> set ps. pass_ok ap p" and "intervals_ok ap" and "successively continues ps"
  shows "sorted_wrt (\<lambda>s t. s + 1000 * min_secs ap \<le> t) (probe_starts ps)"
  using assms(1,3)
proof (induction ps)
  case (Cons p ps)
  show ?case
  proof (cases ps)
    case Nil
    then show ?thesis by (simp add: probe_starts_Cons probe_starts_def map_filter_simps split: option.splits)
  next
    case (Cons q qs)
    with Cons.prems have pq: "pass_ok ap p" "continues p q" "\<forall>p \<in> set (q # qs). pass_ok ap p" "successively continues (q # qs)"
      by simp_all
    then have c: "recorded p" "\<not> enters_running q" "ws_Activity (ps_Workspace q) = st_Activity (left_status p)"
      "ws_Activity (ps_Workspace p) = ws_Activity (ps_Stored p)"
      by (simp_all add: continues_def pass_ok_def)
    show ?thesis
    proof (cases "pass_probe p")
      case None
      with Cons.IH pq Cons show ?thesis by (simp add: probe_starts_Cons [of p])
    next
      case (Some r)
      note start = pass_probe_start [OF Some pq(1)]
      from pass_leaves(1) [OF c(1,4) Some] c(3)
      have "act_LastProbe (ws_Activity (ps_Workspace q)) = Some (last_probe_of r)" by simp
      from probe_starts_after [OF assms(2) pq(3,4) c(2) this start(1,2)] start(3) Some Cons
      show ?thesis by (simp add: probe_starts_Cons [of p])
    qed
  qed
qed (simp add: probe_starts_def map_filter_simps)

text \<open>The example: the idle notebook is reconciled at second 10000 and, with what that pass stored, at second 20000.\<close>

definition sample_pass_at :: "activity_env \<Rightarrow> Workspace \<Rightarrow> pass" where
  "sample_pass_at env w = \<lparr>ps_Env = sample_finish_env\<lparr>fe_Activity := env\<rparr>, ps_Cache = Map.empty, ps_Stored = w, ps_Workspace = w,
     ps_Kind = sample_kind, ps_Image = image_v1, ps_PodConfig = pod_small, ps_Pod = Some ready_pod, ps_StatefulSet = empty_meta,
     ps_ServiceAccount = ''sa'', ps_TLSError = None\<rparr>"

definition first_pass :: pass where "first_pass = sample_pass_at idle_env sample_running_ws"

definition second_pass :: pass where
  "second_pass = sample_pass_at
     (idle_env\<lparr>ae_Now := 20000 * 1000000000, ae_ProbeNow := 20000 * 1000000000,
        ae_Clock := \<lparr>clk_start = 20000 * 1000000000, clk_end = 20001 * 1000000000, clk_fail = 20001 * 1000000000\<rparr>\<rparr>)
     (set_activity sample_running_ws (st_Activity (left_status first_pass)))"

lemma sample_activity_total:
  "reconcileActivity (sample_env a) c ws sample_kind img pc pod \<noteq> (Inl err, ws', c')"
  by (auto simp: reconcileActivity_def evaluatePauseDecision_def sample_decision Let_def split: prod.splits sum.splits if_splits)

lemma first_pass_recorded: "recorded first_pass"
proof -
  have "fst (run_pass first_pass) \<noteq> Inl (ActivityError err)" for err
    using sample_activity_total
    by (auto simp: first_pass_def sample_pass_at_def run_pass_def finish_reconcile_def Let_def
        split: prod.splits sum.splits option.splits if_splits)
  then show ?thesis by (simp add: recorded_def first_pass_def sample_pass_at_def)
qed

theorem probes_rate_limited_witness:
  "sorted_wrt (\<lambda>s t. s + 300000 \<le> t) (probe_starts [first_pass, second_pass])"
proof -
  have sel: "ps_Workspace second_pass = set_activity sample_running_ws (st_Activity (left_status first_pass))"
    "ps_Stored second_pass = ps_Workspace second_pass" "ps_Kind second_pass = sample_kind"
    by (simp_all add: second_pass_def sample_pass_at_def)
  have "clock_ok (fe_Activity (ps_Env second_pass))"
    by (simp add: second_pass_def sample_pass_at_def clock_ok_def sane_ms_def UnixMilli_def is_int64_def)
  then have "\<forall>p \<in> set [first_pass, second_pass]. pass_ok sample_probe p"
    using sample_clock_ok by (simp add: pass_ok_def sel first_pass_def sample_pass_at_def)
  moreover have "\<not> enters_running second_pass"
    by (simp add: enters_running_def sel split: sum.splits prod.splits)
  then have "successively continues [first_pass, second_pass]"
    using first_pass_recorded by (simp add: continues_def sel)
  ultimately show ?thesis
    using probes_rate_limited [of "[first_pass, second_pass]" sample_probe] sample_intervals_ok by simp
qed

end
