(* ===== verification/Redirect_Loop.thy ===== *)
theory Redirect_Loop
  imports Redirects
begin

text \<open>
  The loop that follows redirects, written as the source has it, without a termination proof: a run
  that does not end is \<open>None\<close>. The theorem states that it always ends, for any kind, even one
  whose redirects form a cycle, and that it computes \<open>follow_redirects\<close>.
\<close>

partial_function (option) redirect_loop ::
    "('v \<Rightarrow> string) \<Rightarrow> ('v \<Rightarrow> OptionRedirect option) \<Rightarrow> 'v list \<Rightarrow> string set
     \<Rightarrow> WorkspacePodOptionRedirectStep list \<Rightarrow> 'v
     \<Rightarrow> (redirect_error + 'v \<times> WorkspacePodOptionRedirectStep list) option" where
  "redirect_loop idf redf vals visited steps desired =
     (case redf desired of
        None \<Rightarrow> Some (Inr (desired, steps))
      | Some r \<Rightarrow>
          if red_To r \<in> visited then Some (Inl (CircularRedirect (idf desired)))
          else (case map_by idf vals (red_To r) of
                  None \<Rightarrow> Some (Inl (RedirectTargetNotFound (red_To r) (idf desired)))
                | Some nextNode \<Rightarrow>
                    redirect_loop idf redf vals (insert (idf nextNode) visited)
                      (steps @ [\<lparr>rs_Source = idf desired, rs_Target = idf nextNode\<rparr>]) nextNode))"

lemma redirect_loop_follows:
  "redirect_loop idf redf vals visited steps d = Some (follow_redirects idf redf vals visited steps d)"
proof (induction idf redf vals visited steps d rule: follow_redirects.induct)
  case (1 idf redf vals visited steps d)
  then show ?case
    by (subst redirect_loop.simps, subst follow_redirects.simps) (auto split: option.split)
qed

text \<open>Each round adds a value that has not been visited: the number of rounds is bounded.\<close>

lemma follow_redirects_length:
  assumes "follow_redirects idf redf vals visited steps d = Inr (e, ch)" and "visited \<subseteq> idf ` set vals"
    and "length steps < card visited"
  shows "length ch < card (idf ` set vals)"
  using assms
proof (induction idf redf vals visited steps d rule: follow_redirects.induct)
  case (1 idf redf vals visited steps d)
  show ?case
  proof (cases "redf d")
    case None
    with "1.prems" have "ch = steps" by (simp add: follow_redirects.simps [of idf redf vals visited steps d])
    then show ?thesis using "1.prems"(2,3) card_mono [of "idf ` set vals" visited] by simp
  next
    case (Some r)
    with "1.prems"(1) obtain n where fresh: "red_To r \<notin> visited" and nxt: "map_by idf vals (red_To r) = Some n"
      and rec: "follow_redirects idf redf vals (insert (idf n) visited)
        (steps @ [\<lparr>rs_Source = idf d, rs_Target = idf n\<rparr>]) n = Inr (e, ch)"
      by (auto simp: follow_redirects.simps [of idf redf vals visited steps d] split: if_splits option.splits)
    from map_by_SomeD [OF nxt] have "n \<in> set vals" "idf n = red_To r" by simp_all
    with fresh have n: "idf n \<in> idf ` set vals" "idf n \<notin> visited" by (blast, simp)
    have "finite visited" using "1.prems"(2) by (rule finite_subset) simp
    with n "1.prems"(2,3) have "insert (idf n) visited \<subseteq> idf ` set vals"
        "length (steps @ [\<lparr>rs_Source = idf d, rs_Target = idf n\<rparr>]) < card (insert (idf n) visited)" by simp_all
    from "1.IH" [OF Some fresh nxt rec this] show ?thesis .
  qed
qed

lemma follow_redirects_ends:
  "follow_redirects idf redf vals visited steps d = Inr (e, ch) \<Longrightarrow> redf e = None"
proof (induction idf redf vals visited steps d rule: follow_redirects.induct)
  case (1 idf redf vals visited steps d)
  from "1.prems" show ?case
    by (subst (asm) follow_redirects.simps) (auto split: option.splits if_splits intro: "1.IH")
qed

text \<open>
  C26. Following redirects always ends. From any option value of any kind, whether or not its
  redirects were validated, and even when they form a cycle, the loop of the controller returns:
  an error or the value at the end of a chain that is shorter than the number of option values.
\<close>

theorem redirect_loop_returns:
  assumes "c \<in> set vals"
  shows "\<exists>r. redirect_loop idf redf vals {idf c} [] c = Some r \<and>
    (\<forall>e ch. r = Inr (e, ch) \<longrightarrow> redf e = None \<and> length ch < card (idf ` set vals))"
  using follow_redirects_length [of idf redf vals "{idf c}" "[]" c] follow_redirects_ends assms
  by (auto simp: redirect_loop_follows)

theorem redirect_loop_returns_witness:
  "\<exists>err. redirect_loop (\<lambda>s. s) (\<lambda>s. Some \<lparr>red_To = (if s = ''a'' then ''b'' else ''a''), red_Message = None\<rparr>) [''a'', ''b''] {''a''} [] ''a'' =
     Some (Inl err)"
proof -
  let ?redf = "\<lambda>s. Some \<lparr>red_To = (if s = ''a'' then ''b'' else ''a''), red_Message = None\<rparr>"
  obtain r where "redirect_loop (\<lambda>s. s) ?redf [''a'', ''b''] {''a''} [] ''a'' = Some r" "\<forall>e ch. r = Inr (e, ch) \<longrightarrow> ?redf e = None"
    using redirect_loop_returns [of "''a''" "[''a'', ''b'']" "\<lambda>s. s" ?redf] by auto
  then show ?thesis by (cases r) auto
qed

end
