(* ===== verification/Watches.thy ===== *)
theory Watches
  imports Objects_Correct Kind_Controller
begin

text \<open>
  How changes in the cluster reach the two controllers: the field indexes of
  \<open>helper/index.go\<close>, and the functions of \<open>SetupWithManager\<close> in
  \<open>workspace_controller.go\<close> and \<open>workspacekind_controller.go\<close> that turn an event on a Pod, a
  WorkspaceKind, a Workspace or a ConfigMap into the requests to reconcile. The lemmas state that
  every change a reconcile depends on asks for that reconcile, and no other.

  A request is a namespace and a name. Listing by an index, which the cache does, returns the objects
  that the index function gives the value for.
\<close>

type_synonym request = "string \<times> string"

definition list_by_index :: "('o \<Rightarrow> string list) \<Rightarrow> 'o list \<Rightarrow> string \<Rightarrow> 'o list" where
  "list_by_index index objs v = filter (\<lambda>x. v \<in> set (index x)) objs"

section \<open>Indexes\<close>

definition GroupVersion :: string where "GroupVersion = ''kubeflow.org/v1beta1''"
definition OwnerKindWorkspace :: string where "OwnerKindWorkspace = ''Workspace''"

text \<open>The owner reference that is marked as the controller.\<close>

definition GetControllerOf :: "ObjectMeta \<Rightarrow> OwnerReference option" where
  "GetControllerOf meta = find or_Controller (om_OwnerReferences meta)"

definition indexByWorkspaceOwner :: "ObjectMeta \<Rightarrow> string list" where
  "indexByWorkspaceOwner rawObj =
     (case GetControllerOf rawObj of
        None \<Rightarrow> []
      | Some owner \<Rightarrow>
          if or_APIVersion owner \<noteq> GroupVersion \<or> or_Kind owner \<noteq> OwnerKindWorkspace then [] else [or_Name owner])"

definition index_event :: "string \<Rightarrow> string list" where
  "index_event involvedUID = (if involvedUID = [] then [] else [involvedUID])"

definition index_workspace_kind :: "Workspace \<Rightarrow> string list" where
  "index_workspace_kind ws = (if spec_Kind (ws_Spec ws) = [] then [] else [spec_Kind (ws_Spec ws)])"

definition index_kind_configmaps :: "WorkspaceKind \<Rightarrow> string list" where
  "index_kind_configmaps wsk =
     (let spawner = ks_Spawner (wk_Spec wsk);
          ref = (\<lambda>c. case c of None \<Rightarrow> [] | Some cm \<Rightarrow> [acm_Namespace cm @ ''/'' @ acm_Name cm])
      in ref (asset_ConfigMap (sp_Icon spawner)) @ ref (asset_ConfigMap (sp_Logo spawner)))"

section \<open>Events to requests\<close>

definition mapPodToRequest :: "ObjectMeta \<Rightarrow> request list" where
  "mapPodToRequest object =
     [(om_Namespace object, case fmlookup (om_Labels object) workspaceNameLabel of Some n \<Rightarrow> n | None \<Rightarrow> [])]"

definition predPodHasWSLabel :: "ObjectMeta \<Rightarrow> bool" where
  "predPodHasWSLabel object \<longleftrightarrow> fmlookup (om_Labels object) workspaceNameLabel \<noteq> None"

definition mapWorkspaceKindToRequest :: "(string \<Rightarrow> string + Workspace list) \<Rightarrow> string \<Rightarrow> request list" where
  "mapWorkspaceKindToRequest list_workspaces kindName =
     (case list_workspaces kindName of
        Inl err \<Rightarrow> []
      | Inr items \<Rightarrow> map (\<lambda>item. (ws_Namespace item, ws_Name item)) items)"

definition mapWorkspaceToRequest :: "Workspace \<Rightarrow> request list" where
  "mapWorkspaceToRequest object = [([], spec_Kind (ws_Spec object))]"

definition mapConfigMapToRequests :: "(string \<Rightarrow> string + WorkspaceKind list) \<Rightarrow> string \<Rightarrow> string \<Rightarrow> request list" where
  "mapConfigMapToRequests list_kinds cmNamespace cmName =
     (case list_kinds (cmNamespace @ ''/'' @ cmName) of
        Inl err \<Rightarrow> []
      | Inr items \<Rightarrow> map (\<lambda>wsk. ([], wk_Name wsk)) items)"

section \<open>The watches of the two controllers\<close>

text \<open>
  An event on a watched object. The predicates of the library let every creation and deletion
  pass; an update passes if the generation, or the resource version, has changed. A handler maps the
  old and the new object of an update.
\<close>

datatype 'o watch_event = Created 'o | Updated 'o 'o | Deleted 'o

fun GenerationChangedPredicate :: "('o \<Rightarrow> ObjectMeta) \<Rightarrow> 'o watch_event \<Rightarrow> bool" where
  "GenerationChangedPredicate meta (Updated old new) \<longleftrightarrow> om_Generation (meta old) \<noteq> om_Generation (meta new)"
| "GenerationChangedPredicate meta _ \<longleftrightarrow> True"

fun ResourceVersionChangedPredicate :: "('o \<Rightarrow> ObjectMeta) \<Rightarrow> 'o watch_event \<Rightarrow> bool" where
  "ResourceVersionChangedPredicate meta (Updated old new) \<longleftrightarrow> om_ResourceVersion (meta old) \<noteq> om_ResourceVersion (meta new)"
| "ResourceVersionChangedPredicate meta _ \<longleftrightarrow> True"

fun new_object :: "'o watch_event \<Rightarrow> 'o" where
  "new_object (Created x) = x"
| "new_object (Updated old new) = new"
| "new_object (Deleted x) = x"

fun EnqueueRequestsFromMapFunc :: "('o \<Rightarrow> request list) \<Rightarrow> 'o watch_event \<Rightarrow> request list" where
  "EnqueueRequestsFromMapFunc f (Created x) = f x"
| "EnqueueRequestsFromMapFunc f (Updated old new) = remdups (f old @ f new)"
| "EnqueueRequestsFromMapFunc f (Deleted x) = f x"

text \<open>The types whose events go to the Workspace that owns the object.\<close>

definition workspace_owns :: "EnvConfig \<Rightarrow> string list" where
  "workspace_owns cfg = [''StatefulSet'', ''Service'', ''ServiceAccount'', ''RoleBinding'']
     @ (if cfg_UseIstio cfg then [''VirtualService''] else [])"

definition workspace_on_owned :: "EnvConfig \<Rightarrow> string \<Rightarrow> ObjectMeta watch_event \<Rightarrow> request list" where
  "workspace_on_owned cfg type ev =
     (if type \<in> set (workspace_owns cfg)
      then EnqueueRequestsFromMapFunc (\<lambda>object. map (\<lambda>n. (om_Namespace object, n)) (indexByWorkspaceOwner object)) ev
      else [])"

definition workspace_on_kind :: "(string \<Rightarrow> string + Workspace list) \<Rightarrow> WorkspaceKind watch_event \<Rightarrow> request list" where
  "workspace_on_kind list_workspaces ev =
     (if GenerationChangedPredicate wk_Meta ev
      then EnqueueRequestsFromMapFunc (\<lambda>k. mapWorkspaceKindToRequest list_workspaces (wk_Name k)) ev else [])"

definition workspace_on_pod :: "ObjectMeta watch_event \<Rightarrow> request list" where
  "workspace_on_pod ev =
     (if ResourceVersionChangedPredicate id ev \<and> predPodHasWSLabel (new_object ev)
      then EnqueueRequestsFromMapFunc mapPodToRequest ev else [])"

definition kind_on_workspace :: "Workspace watch_event \<Rightarrow> request list" where
  "kind_on_workspace ev =
     (if GenerationChangedPredicate ws_Meta ev then EnqueueRequestsFromMapFunc mapWorkspaceToRequest ev else [])"

definition kind_on_configmap :: "(string \<Rightarrow> string + WorkspaceKind list) \<Rightarrow> ObjectMeta watch_event \<Rightarrow> request list" where
  "kind_on_configmap list_kinds ev =
     (if ResourceVersionChangedPredicate id ev
      then EnqueueRequestsFromMapFunc (\<lambda>cm. mapConfigMapToRequests list_kinds (om_Namespace cm) (om_Name cm)) ev else [])"

text \<open>
  The cache the kind controller watches and reads ConfigMaps from: those with the label, each with the
  hashes that the transform adds.
\<close>

definition ImageSourceLabelValue :: string where "ImageSourceLabelValue = ''true''"

definition image_source_cache ::
  "sha256_fn \<Rightarrow> range_fn \<Rightarrow> (ObjectMeta \<times> SourceConfigMap) list \<Rightarrow> (ObjectMeta \<times> SourceConfigMap) list"
where
  "image_source_cache sha256 rng cms =
     map (\<lambda>(meta, cm). (meta, TransformConfigMapSHA256 sha256 rng cm))
       (filter (\<lambda>(meta, cm). fmlookup (om_Labels meta) ImageSourceLabel = Some ImageSourceLabelValue) cms)"

text \<open>
  \<open>BuildRateLimiter\<close> of \<open>helper/reconcile.go\<close>: the seconds until a request that has failed before is
  tried again. \<open>bucketDelay\<close> is the delay of the limiter for all requests (10 in a second, 100 at once).
\<close>

definition failureBaseDelay :: nat where "failureBaseDelay = 1"
definition failureMaxDelay :: nat where "failureMaxDelay = 7 * 60"

definition BuildRateLimiter :: "nat \<Rightarrow> nat \<Rightarrow> nat" where
  "BuildRateLimiter bucketDelay failures = max (min (failureBaseDelay * 2 ^ failures) failureMaxDelay) bucketDelay"

section \<open>Changes reach the reconcile they matter to\<close>

text \<open>An object created for a Workspace, with the reference \<open>SetControllerReference\<close> adds, is found again.\<close>

lemma owner_index_exact:
  "n \<in> set (indexByWorkspaceOwner meta) \<longleftrightarrow>
     (\<exists>owner. GetControllerOf meta = Some owner \<and> or_APIVersion owner = GroupVersion \<and> or_Kind owner = OwnerKindWorkspace \<and> or_Name owner = n)"
  by (cases "GetControllerOf meta") (auto simp: indexByWorkspaceOwner_def)

text \<open>Every event of a Pod of a generated StatefulSet passes the predicate and asks for its Workspace.\<close>

lemma pod_event_reaches_workspace:
  assumes "generateStatefulSet lib w k ispec pspec sa = Inr sts" and "pt_Labels (sts_Template sts) \<subseteq>\<^sub>f om_Labels pod"
    and "om_Namespace pod = ws_Namespace w"
  shows "predPodHasWSLabel pod \<and> mapPodToRequest pod = [(ws_Namespace w, ws_Name w)]"
proof -
  obtain labels where "pt_Labels (sts_Template sts) = labels ++\<^sub>f selector_labels w"
    using assms(1) by (rule generateStatefulSet_Inr)
  then have "fmlookup (om_Labels pod) workspaceNameLabel = Some (ws_Name w)"
    using assms(2) by (auto simp: selector_labels_def fmsubset_alt_def fmpred_iff)
  then show ?thesis using assms(3) by (simp add: predPodHasWSLabel_def mapPodToRequest_def)
qed

text \<open>A change of a kind asks for exactly the Workspaces of the kind.\<close>

lemma kind_event_reaches_workspaces:
  assumes "n \<noteq> []"
  shows "set (mapWorkspaceKindToRequest (\<lambda>v. Inr (list_by_index index_workspace_kind all v)) n) =
    {(ws_Namespace w, ws_Name w) | w. w \<in> set all \<and> spec_Kind (ws_Spec w) = n}"
  using assms by (auto simp: mapWorkspaceKindToRequest_def list_by_index_def index_workspace_kind_def split: if_splits)

text \<open>A change of a ConfigMap asks for exactly the kinds whose icon or logo it holds.\<close>

lemma configmap_event_reaches_kinds:
  assumes "CHR ''/'' \<notin> set cmNamespace" and "\<forall>k \<in> set all. \<forall>cm \<in> set_option (asset_ConfigMap (sp_Icon (ks_Spawner (wk_Spec k)))) \<union>
      set_option (asset_ConfigMap (sp_Logo (ks_Spawner (wk_Spec k)))). CHR ''/'' \<notin> set (acm_Namespace cm)"
  shows "set (mapConfigMapToRequests (\<lambda>v. Inr (list_by_index index_kind_configmaps all v)) cmNamespace cmName) =
    {([], wk_Name k) | k. k \<in> set all \<and> (\<exists>cm \<in> set_option (asset_ConfigMap (sp_Icon (ks_Spawner (wk_Spec k)))) \<union>
      set_option (asset_ConfigMap (sp_Logo (ks_Spawner (wk_Spec k)))). acm_Namespace cm = cmNamespace \<and> acm_Name cm = cmName)}"
proof -
  have "cmNamespace @ ''/'' @ cmName \<in> set (index_kind_configmaps k) \<longleftrightarrow>
      (\<exists>cm \<in> set_option (asset_ConfigMap (sp_Icon (ks_Spawner (wk_Spec k)))) \<union>
        set_option (asset_ConfigMap (sp_Logo (ks_Spawner (wk_Spec k)))). acm_Namespace cm = cmNamespace \<and> acm_Name cm = cmName)"
    if "k \<in> set all" for k
    using assms that by (auto simp: index_kind_configmaps_def Let_def split_at_char split: option.splits)
  then show ?thesis by (auto simp: mapConfigMapToRequests_def list_by_index_def)
qed

text \<open>An owned object that is changed or deleted by others asks for its Workspace, in its own namespace.\<close>

lemma owned_change_reaches_workspace:
  assumes "type \<in> set (workspace_owns cfg)" and "indexByWorkspaceOwner object = [n]"
  shows "workspace_on_owned cfg type (Deleted object) = [(om_Namespace object, n)]"
    and "(om_Namespace object, n) \<in> set (workspace_on_owned cfg type (Updated old object))"
    and "(om_Namespace object, n) \<in> set (workspace_on_owned cfg type (Updated object new))"
  using assms by (simp_all add: workspace_on_owned_def)

text \<open>The cache holds exactly the labelled ConfigMaps, with the hash of every key.\<close>

lemma image_source_cache_exact:
  assumes "range_order rng" and "(meta, cm) \<in> set (image_source_cache sha256 rng cms)"
  obtains cm0 where "(meta, cm0) \<in> set cms" and "fmlookup (om_Labels meta) ImageSourceLabel = Some ''true''"
    and "\<And>key v. fmlookup (scm_BinaryData cm0) key = Some v \<Longrightarrow>
      fmlookup (scm_Annotations cm) (SHA256AnnotationPrefix @ key) = Some (hex_encode (sha256 v))"
    and "\<And>key v. \<lbrakk>fmlookup (scm_BinaryData cm0) key = None; fmlookup (scm_Data cm0) key = Some v\<rbrakk> \<Longrightarrow>
      fmlookup (scm_Annotations cm) (SHA256AnnotationPrefix @ key) = Some (hex_encode (sha256 v))"
proof -
  obtain cm0 where "(meta, cm0) \<in> set cms" "fmlookup (om_Labels meta) ImageSourceLabel = Some ''true''"
      "cm = TransformConfigMapSHA256 sha256 rng cm0"
    using assms(2) by (auto simp: image_source_cache_def ImageSourceLabelValue_def)
  then show thesis using transform_lookup [OF assms(1)] by (intro that [of cm0]) simp_all
qed

text \<open>A failing request is retried later each time, but at least every seven minutes unless all requests are limited.\<close>

lemma retry_delay_bounds:
  "1 \<le> BuildRateLimiter d n" "BuildRateLimiter d n \<le> max 420 d" "m \<le> n \<Longrightarrow> BuildRateLimiter d m \<le> BuildRateLimiter d n"
  "9 \<le> n \<Longrightarrow> BuildRateLimiter d n = max 420 d"
proof -
  show "1 \<le> BuildRateLimiter d n" "BuildRateLimiter d n \<le> max 420 d"
    by (simp_all add: BuildRateLimiter_def failureBaseDelay_def failureMaxDelay_def le_max_iff_disj) linarith
  show "BuildRateLimiter d m \<le> BuildRateLimiter d n" if "m \<le> n"
    unfolding BuildRateLimiter_def by (intro max.mono min.mono order.refl) (simp_all add: that failureBaseDelay_def)
  have "420 \<le> (2 :: nat) ^ n" if "9 \<le> n" using power_increasing [OF that, of "2 :: nat"] by simp
  then show "BuildRateLimiter d n = max 420 d" if "9 \<le> n" using that
    by (simp add: BuildRateLimiter_def failureBaseDelay_def failureMaxDelay_def)
qed

section \<open>Properties\<close>

text \<open>The objects an event carries: an update carries the old one and the new one.\<close>

fun event_objects :: "'o watch_event \<Rightarrow> 'o set" where
  "event_objects (Created x) = {x}"
| "event_objects (Updated old new) = {old, new}"
| "event_objects (Deleted x) = {x}"

lemma set_EnqueueRequests: "set (EnqueueRequestsFromMapFunc f ev) = (\<Union>x \<in> event_objects ev. set (f x))"
  by (cases ev) auto

text \<open>
  C30. Changes reach the reconciles that depend on them, and no others. For a Pod with the labels of a
  generated StatefulSet, an event that changes it asks for its Workspace and nothing else, except that
  an update also asks for what the old Pod was labelled with; a Pod that has lost the label, or never had it, asks
  for nothing. An event that changes the spec of a kind asks for exactly the Workspaces of the kind.
  An event that creates, deletes or changes the spec of a Workspace asks for exactly the kinds that
  the Workspace names before and after it, whose counts it changes. Updates of the status alone, which both
  controllers make, ask neither for the kind of a Workspace nor for the Workspaces of a kind.
\<close>

theorem changes_reach_reconciles:
  assumes "generateStatefulSet lib w k ispec pspec sa = Inr sts" and "pt_Labels (sts_Template sts) \<subseteq>\<^sub>f om_Labels pod"
    and "om_Namespace pod = ws_Namespace w" and "new_object podEvent = pod" and "ResourceVersionChangedPredicate id podEvent"
    and "kindName \<noteq> []" and "\<forall>kind \<in> event_objects kindEvent. wk_Name kind = kindName"
  shows "set (workspace_on_pod podEvent) = insert (ws_Namespace w, ws_Name w)
      (case podEvent of
         Updated old _ \<Rightarrow> {(om_Namespace old, case fmlookup (om_Labels old) workspaceNameLabel of Some n \<Rightarrow> n | None \<Rightarrow> [])}
       | _ \<Rightarrow> {}) \<and>
    (\<forall>ev. fmlookup (om_Labels (new_object ev)) workspaceNameLabel = None \<longrightarrow> workspace_on_pod ev = []) \<and>
    set (workspace_on_kind (\<lambda>v. Inr (list_by_index index_workspace_kind all v)) kindEvent) =
      (if GenerationChangedPredicate wk_Meta kindEvent
       then {(ws_Namespace x, ws_Name x) | x. x \<in> set all \<and> spec_Kind (ws_Spec x) = kindName} else {}) \<and>
    (\<forall>ev. set (kind_on_workspace ev) =
       (if GenerationChangedPredicate ws_Meta ev then {([], spec_Kind (ws_Spec x)) | x. x \<in> event_objects ev} else {}))"
proof (intro conjI allI impI)
  let ?list = "\<lambda>v. Inr (list_by_index index_workspace_kind all v) :: string + Workspace list"
  have pod: "mapPodToRequest pod = [(ws_Namespace w, ws_Name w)]" "predPodHasWSLabel pod"
    using pod_event_reaches_workspace [OF assms(1-3)] by simp_all
  then show "set (workspace_on_pod podEvent) = insert (ws_Namespace w, ws_Name w)
      (case podEvent of
         Updated old _ \<Rightarrow> {(om_Namespace old, case fmlookup (om_Labels old) workspaceNameLabel of Some n \<Rightarrow> n | None \<Rightarrow> [])}
       | _ \<Rightarrow> {})"
    using assms(4,5) by (cases podEvent) (auto simp: workspace_on_pod_def mapPodToRequest_def)
  show "set (workspace_on_kind ?list kindEvent) = (if GenerationChangedPredicate wk_Meta kindEvent
      then {(ws_Namespace x, ws_Name x) | x. x \<in> set all \<and> spec_Kind (ws_Spec x) = kindName} else {})"
    using kind_event_reaches_workspaces [OF assms(6), of all] assms(7)
    by (cases kindEvent) (simp_all add: workspace_on_kind_def set_EnqueueRequests)
  show "set (kind_on_workspace ev) =
      (if GenerationChangedPredicate ws_Meta ev then {([], spec_Kind (ws_Spec x)) | x. x \<in> event_objects ev} else {})" for ev
    by (auto simp: kind_on_workspace_def mapWorkspaceToRequest_def set_EnqueueRequests)
  show "workspace_on_pod ev = []" if "fmlookup (om_Labels (new_object ev)) workspaceNameLabel = None" for ev
    using that by (simp add: workspace_on_pod_def predPodHasWSLabel_def)
qed

theorem changes_reach_reconciles_witness:
  "\<exists>sts. generateStatefulSet sample_lib sample_ws sample_kind (ic_Spec image_v1) (pc_Spec pod_small) ''sa'' = Inr sts \<and>
     set (workspace_on_pod (Deleted (empty_meta\<lparr>om_Namespace := ''team'', om_Labels := pt_Labels (sts_Template sts)\<rparr>))) =
       {(''team'', ''nb'')} \<and>
     set (workspace_on_kind (\<lambda>v. Inr (list_by_index index_workspace_kind [sample_ws] v)) (Created sample_kind)) = {(''team'', ''nb'')} \<and>
     set (kind_on_workspace (Created sample_ws)) = {([], ''jupyterlab'')}"
proof -
  obtain sts where
    sts: "generateStatefulSet sample_lib sample_ws sample_kind (ic_Spec image_v1) (pc_Spec pod_small) ''sa'' = Inr sts"
    by (rule sample_objects)
  have "pt_Labels (sts_Template sts) \<subseteq>\<^sub>f pt_Labels (sts_Template sts)" by (simp add: fmsubset_alt_def fmpred_iff)
  with changes_reach_reconciles [OF sts, of "empty_meta\<lparr>om_Namespace := ''team'', om_Labels := pt_Labels (sts_Template sts)\<rparr>"
      "Deleted (empty_meta\<lparr>om_Namespace := ''team'', om_Labels := pt_Labels (sts_Template sts)\<rparr>)" "''jupyterlab''"
      "Created sample_kind" "[sample_ws]"] sts
  show ?thesis by auto
qed

end
