(* ===== verification/Probe_Transport.thy ===== *)
theory Probe_Transport
  imports Probe
begin

text \<open>
  The two transports of the probes in \<open>controller/internal/helper/probe.go\<close>:
  \<open>RemoteCommandExecutor\<close>, which runs a command in a Pod over a websocket with SPDY as the
  fallback, and \<open>DefaultHTTPProber\<close>. The executors of \<open>client-go\<close> and the HTTP client are
  parameters; the lemmas state how a failure to set them up appears in the result of a probe.
\<close>

section \<open>Executing in a Pod\<close>

record PodExecOptions =
  peo_Container :: string
  peo_Command :: "string list"
  peo_Stdin :: bool
  peo_Stdout :: bool
  peo_Stderr :: bool
  peo_TTY :: bool

text \<open>The probe gives all three streams.\<close>

definition exec_options :: "exec_request \<Rightarrow> PodExecOptions" where
  "exec_options rq = \<lparr>peo_Container = er_Container rq, peo_Command = er_Command rq, peo_Stdin = True,
     peo_Stdout = True, peo_Stderr = True, peo_TTY = False\<rparr>"

text \<open>
  The constructors of the executors get the Pod and the options; \<open>xl_Stream\<close> is
  \<open>StreamWithContext\<close>, with the deadline and the standard input of the request.
\<close>

record 'e exec_library =
  xl_WebSocket :: "string \<Rightarrow> string \<Rightarrow> PodExecOptions \<Rightarrow> string + 'e"
  xl_SPDY :: "string \<Rightarrow> string \<Rightarrow> PodExecOptions \<Rightarrow> string + 'e"
  xl_Fallback :: "'e \<Rightarrow> 'e \<Rightarrow> string + 'e"
  xl_Stream :: "'e \<Rightarrow> int option \<Rightarrow> string \<Rightarrow> exec_outcome"

definition setup_failure :: "string \<Rightarrow> exec_outcome" where
  "setup_failure msg = \<lparr>ex_Err = Some \<lparr>ee_Message = msg, ee_Deadline = False, ee_ExitStatus = None\<rparr>,
     ex_Stdout = [], ex_Stderr = [], ex_CtxExpired = False\<rparr>"

definition RemoteCommandExecutor_Exec :: "'e exec_library \<Rightarrow> pod_exec" where
  "RemoteCommandExecutor_Exec lib rq =
     (let options = exec_options rq in
      case xl_WebSocket lib (er_Namespace rq) (er_PodName rq) options of
        Inl err \<Rightarrow> setup_failure (''failed to initialize websocket executor: '' @ err)
      | Inr websocketExec \<Rightarrow>
          (case xl_SPDY lib (er_Namespace rq) (er_PodName rq) options of
             Inl err \<Rightarrow> setup_failure (''failed to initialize spdy executor: '' @ err)
           | Inr spdyExec \<Rightarrow>
               (case xl_Fallback lib websocketExec spdyExec of
                  Inl err \<Rightarrow> setup_failure (''failed to initialize fallback executor: '' @ err)
                | Inr exec \<Rightarrow> xl_Stream lib exec (er_Timeout rq) (er_Stdin rq))))"

section \<open>Getting a page\<close>

text \<open>\<open>newRequest\<close>: the error of \<open>http.NewRequestWithContext\<close> for a URL, if there is one.\<close>

definition DefaultHTTPProber_Get :: "(string \<Rightarrow> string option) \<Rightarrow> http_get option \<Rightarrow> http_get \<Rightarrow> http_get" where
  "DefaultHTTPProber_Get newRequest client defaultClient timeout url =
     (case newRequest url of
        Some err \<Rightarrow> (HttpError err False, False)
      | None \<Rightarrow> (case client of Some c \<Rightarrow> c timeout url | None \<Rightarrow> defaultClient timeout url))"

section \<open>Failures of a transport\<close>

lemma setup_failure_fails:
  assumes "RemoteCommandExecutor_Exec lib = (\<lambda>rq. setup_failure msg)"
  shows "\<not> Succeeded (RunPodExecProbe plib clk random (RemoteCommandExecutor_Exec lib) namespace podName script timeout)"
  by (simp add: assms RunPodExecProbe_def setup_failure_def exitCodeFromError_def isDeadlineExceeded_def Let_def split: sum.splits)

text \<open>
  A podExec probe succeeds only if both executors and their combination could be set up and the
  stream ended without an error.
\<close>

lemma exec_probe_streamed:
  assumes "Succeeded (RunPodExecProbe plib clk random (RemoteCommandExecutor_Exec lib) namespace podName script timeout)"
  obtains exec out where "xl_Stream lib exec (probe_timeout timeout) script = out" and "ex_Err out = None"
proof -
  obtain command where ok: "ex_Err (RemoteCommandExecutor_Exec lib \<lparr>er_Timeout = probe_timeout timeout, er_Namespace = namespace,
      er_PodName = podName, er_Container = probeContainerName, er_Command = command, er_Stdin = script\<rparr>) = None"
    using assms
    by (auto simp: RunPodExecProbe_def Let_def split: prod.splits option.splits if_splits sum.splits bool.splits)
  then show thesis
    by (auto simp: RemoteCommandExecutor_Exec_def setup_failure_def Let_def split: sum.splits intro: that)
qed

text \<open>A URL that is no request makes the Jupyter probe fail with that error, and never time out.\<close>

lemma bad_url_fails:
  assumes "newRequest (jupyter_url host port basePath) = Some err"
  shows "RunJupyterProbe plib clk (DefaultHTTPProber_Get newRequest client defaultClient) host port basePath timeout =
    newFailureResult clk (clk_start clk) (ProbeMessagePrefixJupyterFailed @ err)"
  using assms by (simp add: RunJupyterProbe_def DefaultHTTPProber_Get_def isDeadlineExceeded_def)

end
