(* ===== verification/Filter_Engine.thy ===== *)
theory Filter_Engine
  imports Selectors First_Match Kind_Webhook_Correct
begin

text \<open>
  The filter rule engine of the backend, \<open>backend/internal/filterrules/engine.go\<close>. It
  decides for every option value and every WorkspaceKind a request lists whether the UI should
  hide it, whether the API omits it, and whether it is denied. A label map that is \<open>nil\<close>
  in the code (its context is missing from the request) is \<open>None\<close> here.

  The code filters the rules by scope and compiles their selectors once per request. The lemmas
  show that the result is that of a direct first-match evaluation of \<open>spec.filterRules\<close>
  (a second interpretation of the locale \<open>first_match\<close>), and that for the kinds the
  webhook accepts no condition is lost when the rules are compiled.
\<close>

section \<open>The types\<close>

record DenyMessage =
  dm_Text :: string

record Restrictions =
  rs_Deny :: bool
  rs_DenyMessage :: "DenyMessage option"

definition DefaultRestrictions :: Restrictions where
  "DefaultRestrictions = \<lparr>rs_Deny = False, rs_DenyMessage = None\<rparr>"

record EvalTarget =
  et_Scope :: FilterRuleScope
  et_Labels :: "OptionSpawnerLabel list"

record compiledMatch =
  cmt_match :: FilterRuleMatch
  cmt_selector :: compiled_selector

record compiledRule =
  crl_rule :: FilterRule
  crl_matches :: "compiledMatch list"

record EvalContext =
  ctx_NamespaceLabels :: "strmap option"
  ctx_ImageConfigLabels :: "strmap option"
  ctx_PodConfigLabels :: "strmap option"
  ctx_compiledRules :: "compiledRule list"

record EvalResult =
  er_UIHide :: bool
  er_APIHide :: bool
  er_Restrictions :: Restrictions

section \<open>Effects and labels\<close>

definition spawnerLabelsToMap :: "OptionSpawnerLabel list \<Rightarrow> strmap" where
  "spawnerLabelsToMap spawnerLabels =
     fold (\<lambda>l m. fmupd (osl_Key l) (osl_Value l) m) spawnerLabels fmempty"

definition resolveRestrictions :: "FilterRuleEffect \<Rightarrow> Restrictions" where
  "resolveRestrictions effect =
     (case fre_API effect of
        None \<Rightarrow> DefaultRestrictions
      | Some api \<Rightarrow>
          if fea_Deny api = None \<or> fea_Deny api = Some False then DefaultRestrictions
          else \<lparr>rs_Deny = True,
                rs_DenyMessage = map_option (\<lambda>m. \<lparr>dm_Text = fdm_Text m\<rparr>) (fea_DenyMessage api)\<rparr>)"

definition resultFromEffect :: "FilterRuleEffect \<Rightarrow> EvalResult" where
  "resultFromEffect effect = \<lparr>
     er_UIHide = (case fre_UI effect of None \<Rightarrow> False | Some ui \<Rightarrow> feu_Hide ui),
     er_APIHide = (case fre_API effect of None \<Rightarrow> False | Some api \<Rightarrow> fea_Hide api = Some True),
     er_Restrictions = resolveRestrictions effect\<rparr>"

definition no_effect :: EvalResult where
  "no_effect = \<lparr>er_UIHide = False, er_APIHide = False, er_Restrictions = DefaultRestrictions\<rparr>"

section \<open>Conditions\<close>

definition matchSelector :: "selector_lib \<Rightarrow> compiled_selector \<Rightarrow> strmap option \<Rightarrow> bool" where
  "matchSelector lib selector targetLabels =
     (case targetLabels of None \<Rightarrow> False | Some l \<Rightarrow> SelectorMatches lib selector l)"

definition imageConfigLabels :: "FilterRuleScope \<Rightarrow> strmap \<Rightarrow> EvalContext \<Rightarrow> strmap option" where
  "imageConfigLabels targetScope targetLabels evalCtx =
     (if targetScope = FilterRuleScopeImageConfig then Some targetLabels else ctx_ImageConfigLabels evalCtx)"

definition podConfigLabels :: "FilterRuleScope \<Rightarrow> strmap \<Rightarrow> EvalContext \<Rightarrow> strmap option" where
  "podConfigLabels targetScope targetLabels evalCtx =
     (if targetScope = FilterRuleScopePodConfig then Some targetLabels else ctx_PodConfigLabels evalCtx)"

definition conditionMatches :: "selector_lib \<Rightarrow> compiledMatch \<Rightarrow> FilterRuleScope \<Rightarrow> strmap \<Rightarrow> EvalContext \<Rightarrow> bool" where
  "conditionMatches lib cm targetScope targetLabels evalCtx =
     (if frm_MatchNamespace (cmt_match cm) \<noteq> None
      then matchSelector lib (cmt_selector cm) (ctx_NamespaceLabels evalCtx)
      else if frm_MatchImageConfig (cmt_match cm) \<noteq> None
      then matchSelector lib (cmt_selector cm) (imageConfigLabels targetScope targetLabels evalCtx)
      else if frm_MatchPodConfig (cmt_match cm) \<noteq> None
      then matchSelector lib (cmt_selector cm) (podConfigLabels targetScope targetLabels evalCtx)
      else False)"

fun allConditionsMatch ::
  "selector_lib \<Rightarrow> compiledMatch list \<Rightarrow> FilterRuleScope \<Rightarrow> strmap \<Rightarrow> EvalContext \<Rightarrow> bool"
where
  "allConditionsMatch lib [] targetScope targetLabels evalCtx = True"
| "allConditionsMatch lib (cm # cms) targetScope targetLabels evalCtx =
     (if \<not> conditionMatches lib cm targetScope targetLabels evalCtx then False
      else allConditionsMatch lib cms targetScope targetLabels evalCtx)"

section \<open>Compilation\<close>

definition compileSelector :: "selector_lib \<Rightarrow> FilterRuleMatch \<Rightarrow> compiled_selector option" where
  "compileSelector lib mtch =
     (let compile = (\<lambda>s. case LabelSelectorAsSelector lib s of Inl err \<Rightarrow> None | Inr sel \<Rightarrow> Some sel)
      in case frm_MatchNamespace mtch of
           Some s \<Rightarrow> compile s
         | None \<Rightarrow> (case frm_MatchImageConfig mtch of
             Some s \<Rightarrow> compile s
           | None \<Rightarrow> (case frm_MatchPodConfig mtch of Some s \<Rightarrow> compile s | None \<Rightarrow> None)))"

fun compile_matches :: "selector_lib \<Rightarrow> FilterRuleMatch list \<Rightarrow> compiledMatch list" where
  "compile_matches lib [] = []"
| "compile_matches lib (mtch # ms) =
     (case compileSelector lib mtch of
        None \<Rightarrow> compile_matches lib ms
      | Some selector \<Rightarrow> \<lparr>cmt_match = mtch, cmt_selector = selector\<rparr> # compile_matches lib ms)"

fun compileRules :: "selector_lib \<Rightarrow> FilterRule list \<Rightarrow> compiledRule list" where
  "compileRules lib [] = []"
| "compileRules lib (rule # rules) =
     (let matches = compile_matches lib (fr_Match rule) in
      if matches = [] then compileRules lib rules
      else \<lparr>crl_rule = rule, crl_matches = matches\<rparr> # compileRules lib rules)"

fun filterRulesByScope :: "FilterRule list \<Rightarrow> FilterRuleScope set \<Rightarrow> FilterRule list" where
  "filterRulesByScope [] scopes = []"
| "filterRulesByScope (rule # rules) scopes =
     (if fr_Scope rule \<in> scopes then rule # filterRulesByScope rules scopes
      else filterRulesByScope rules scopes)"

definition workspaceKindScopes :: "FilterRuleScope set" where
  "workspaceKindScopes = {FilterRuleScopeWorkspaceKind}"

definition imageAndPodConfigScopes :: "FilterRuleScope set" where
  "imageAndPodConfigScopes = {FilterRuleScopeImageConfig, FilterRuleScopePodConfig}"

text \<open>The labels of the selected value, the first one with the id.\<close>

definition selected_labels :: "('v \<Rightarrow> string) \<Rightarrow> ('v \<Rightarrow> OptionSpawnerLabel list) \<Rightarrow> 'v list \<Rightarrow> string \<Rightarrow> strmap option" where
  "selected_labels idf labelsf vals i =
     (if i = [] then None
      else map_option (\<lambda>v. spawnerLabelsToMap (labelsf v)) (List.find (\<lambda>v. idf v = i) vals))"

definition buildEvalContext ::
  "selector_lib \<Rightarrow> WorkspaceKind \<Rightarrow> strmap option \<Rightarrow> FilterRuleScope set \<Rightarrow> string \<Rightarrow> string \<Rightarrow> EvalContext"
where
  "buildEvalContext lib wsk namespaceLabels scopes imageConfigID podConfigID = \<lparr>
     ctx_NamespaceLabels = namespaceLabels,
     ctx_ImageConfigLabels =
       selected_labels ic_Id (osi_Labels \<circ> ic_Spawner) (wk_ImageConfigValues wsk) imageConfigID,
     ctx_PodConfigLabels =
       selected_labels pc_Id (osi_Labels \<circ> pc_Spawner) (wk_PodConfigValues wsk) podConfigID,
     ctx_compiledRules = compileRules lib (filterRulesByScope (ks_FilterRules (wk_Spec wsk)) scopes)\<rparr>"

definition BuildEvalContextForImageAndPodCfg ::
  "selector_lib \<Rightarrow> WorkspaceKind \<Rightarrow> strmap option \<Rightarrow> string \<Rightarrow> string \<Rightarrow> EvalContext"
where
  "BuildEvalContextForImageAndPodCfg lib wsk namespaceLabels imageConfigID podConfigID =
     buildEvalContext lib wsk namespaceLabels imageAndPodConfigScopes imageConfigID podConfigID"

section \<open>Evaluation\<close>

fun evaluate_loop ::
  "selector_lib \<Rightarrow> EvalTarget \<Rightarrow> strmap \<Rightarrow> EvalContext \<Rightarrow> compiledRule list \<Rightarrow> EvalResult"
where
  "evaluate_loop lib target targetLabels evalCtx [] = no_effect"
| "evaluate_loop lib target targetLabels evalCtx (cr # crs) =
     (if fr_Scope (crl_rule cr) \<noteq> et_Scope target then evaluate_loop lib target targetLabels evalCtx crs
      else if \<not> allConditionsMatch lib (crl_matches cr) (et_Scope target) targetLabels evalCtx
      then evaluate_loop lib target targetLabels evalCtx crs
      else resultFromEffect (fr_Effect (crl_rule cr)))"

definition Evaluate :: "selector_lib \<Rightarrow> EvalTarget \<Rightarrow> EvalContext \<Rightarrow> EvalResult" where
  "Evaluate lib target evalCtx =
     evaluate_loop lib target (spawnerLabelsToMap (et_Labels target)) evalCtx (ctx_compiledRules evalCtx)"

definition EvaluateWorkspaceKindFilterScopeRule ::
  "selector_lib \<Rightarrow> WorkspaceKind \<Rightarrow> strmap option \<Rightarrow> EvalResult"
where
  "EvaluateWorkspaceKindFilterScopeRule lib wsk namespaceLabels =
     Evaluate lib \<lparr>et_Scope = FilterRuleScopeWorkspaceKind, et_Labels = []\<rparr>
       (buildEvalContext lib wsk namespaceLabels workspaceKindScopes [] [])"

section \<open>The reference evaluation\<close>

text \<open>
  The selector of the one condition a match sets, and the labels it is applied to, read directly
  from the rule and the request.
\<close>

definition condition_source ::
  "FilterRuleScope \<Rightarrow> strmap \<Rightarrow> EvalContext \<Rightarrow> FilterRuleMatch \<Rightarrow> (label_selector \<times> strmap option) option"
where
  "condition_source scope own ctx m =
     (case (frm_MatchNamespace m, frm_MatchImageConfig m, frm_MatchPodConfig m) of
        (Some s, _, _) \<Rightarrow> Some (s, ctx_NamespaceLabels ctx)
      | (None, Some s, _) \<Rightarrow> Some (s, imageConfigLabels scope own ctx)
      | (None, None, Some s) \<Rightarrow> Some (s, podConfigLabels scope own ctx)
      | (None, None, None) \<Rightarrow> None)"

definition condition_readable :: "selector_lib \<Rightarrow> FilterRuleMatch \<Rightarrow> bool" where
  "condition_readable lib m \<longleftrightarrow>
     (\<exists>s \<in> set_option (frm_MatchNamespace m) \<union> (if frm_MatchNamespace m = None then set_option (frm_MatchImageConfig m) else {})
         \<union> (if frm_MatchNamespace m = None \<and> frm_MatchImageConfig m = None then set_option (frm_MatchPodConfig m) else {}).
        \<not> isl (LabelSelectorAsSelector lib s))"

definition condition_holds :: "selector_lib \<Rightarrow> FilterRuleScope \<Rightarrow> strmap \<Rightarrow> EvalContext \<Rightarrow> FilterRuleMatch \<Rightarrow> bool" where
  "condition_holds lib scope own ctx m \<longleftrightarrow>
     (\<exists>s lbls. condition_source scope own ctx m = Some (s, Some lbls) \<and> selector_result lib s lbls = Inr True)"

text \<open>A rule applies when it has the scope, some readable condition, and all of those hold.\<close>

definition rule_applies :: "selector_lib \<Rightarrow> EvalTarget \<Rightarrow> EvalContext \<Rightarrow> FilterRule \<Rightarrow> bool" where
  "rule_applies lib target ctx rule \<longleftrightarrow>
     fr_Scope rule = et_Scope target \<and> (\<exists>m \<in> set (fr_Match rule). condition_readable lib m) \<and>
     (\<forall>m \<in> set (fr_Match rule). condition_readable lib m \<longrightarrow>
        condition_holds lib (et_Scope target) (spawnerLabelsToMap (et_Labels target)) ctx m)"

definition rule_result :: "selector_lib \<Rightarrow> EvalTarget \<Rightarrow> EvalContext \<Rightarrow> FilterRule \<Rightarrow> EvalResult option" where
  "rule_result lib target ctx rule =
     (if rule_applies lib target ctx rule then Some (resultFromEffect (fr_Effect rule)) else None)"

definition filter_decision :: "selector_lib \<Rightarrow> EvalTarget \<Rightarrow> EvalContext \<Rightarrow> FilterRule list \<Rightarrow> EvalResult" where
  "filter_decision lib target ctx rules =
     (case List.find (rule_applies lib target ctx) rules of
        Some rule \<Rightarrow> resultFromEffect (fr_Effect rule) | None \<Rightarrow> no_effect)"

section \<open>Compilation is faithful\<close>

lemma readable_iff: "condition_readable lib m \<longleftrightarrow> compileSelector lib m \<noteq> None"
  by (auto simp: condition_readable_def compileSelector_def Let_def split: option.splits sum.splits if_splits)

lemma compiled_condition:
  assumes "compileSelector lib m = Some sel"
  shows "conditionMatches lib \<lparr>cmt_match = m, cmt_selector = sel\<rparr> scope own ctx = condition_holds lib scope own ctx m"
  using assms
  by (auto simp: conditionMatches_def condition_holds_def condition_source_def compileSelector_def matchSelector_def
      selector_result_def Let_def split: option.splits sum.splits)

lemma compiled_conditions:
  "allConditionsMatch lib (compile_matches lib ms) scope own ctx \<longleftrightarrow>
     (\<forall>m \<in> set ms. condition_readable lib m \<longrightarrow> condition_holds lib scope own ctx m)"
  by (induction ms) (auto simp: readable_iff compiled_condition split: option.splits)

lemma compile_matches_Nil_iff: "compile_matches lib ms = [] \<longleftrightarrow> (\<forall>m \<in> set ms. \<not> condition_readable lib m)"
  by (induction ms) (auto simp: readable_iff split: option.splits)

lemma evaluate_loop_Cons:
  assumes "et_Scope target \<in> scopes"
  shows "evaluate_loop lib target (spawnerLabelsToMap (et_Labels target)) ctx (compileRules lib (filterRulesByScope (rule # rules) scopes)) =
     (if rule_applies lib target ctx rule then resultFromEffect (fr_Effect rule)
      else evaluate_loop lib target (spawnerLabelsToMap (et_Labels target)) ctx (compileRules lib (filterRulesByScope rules scopes)))"
  using assms
  by (auto simp: rule_applies_def compiled_conditions compile_matches_Nil_iff Let_def)

interpretation filter_engine: first_match
  "\<lambda>(lib, target, ctx, scopes). et_Scope target \<in> scopes"
  "\<lambda>(lib, target, ctx, scopes) rules.
     evaluate_loop lib target (spawnerLabelsToMap (et_Labels target)) ctx (compileRules lib (filterRulesByScope rules scopes))"
  "\<lambda>(lib, target, ctx, scopes). rule_result lib target ctx"
  "\<lambda>_. no_effect"
  by unfold_locales (auto simp: evaluate_loop_Cons rule_result_def simp del: filterRulesByScope.simps(2) compileRules.simps(2) split: prod.splits)

text \<open>The labels a request brings, without any rule.\<close>

definition request_labels :: "WorkspaceKind \<Rightarrow> strmap option \<Rightarrow> string \<Rightarrow> string \<Rightarrow> EvalContext" where
  "request_labels k ns img pod = \<lparr>
     ctx_NamespaceLabels = ns,
     ctx_ImageConfigLabels = selected_labels ic_Id (osi_Labels \<circ> ic_Spawner) (wk_ImageConfigValues k) img,
     ctx_PodConfigLabels = selected_labels pc_Id (osi_Labels \<circ> pc_Spawner) (wk_PodConfigValues k) pod,
     ctx_compiledRules = []\<rparr>"

lemma built_labels:
  "buildEvalContext lib k ns scopes img pod =
     request_labels k ns img pod
       \<lparr>ctx_compiledRules := compileRules lib (filterRulesByScope (ks_FilterRules (wk_Spec k)) scopes)\<rparr>"
  by (simp add: buildEvalContext_def request_labels_def)

lemma rule_applies_rules [simp]: "rule_applies lib target (ctx\<lparr>ctx_compiledRules := crs\<rparr>) = rule_applies lib target ctx"
  by (rule ext) (simp add: rule_applies_def condition_holds_def condition_source_def imageConfigLabels_def podConfigLabels_def
      cong: option.case_cong)

lemma evaluate_built:
  assumes "et_Scope target \<in> scopes"
  shows "Evaluate lib target (buildEvalContext lib k ns scopes img pod) =
     filter_decision lib target (request_labels k ns img pod) (ks_FilterRules (wk_Spec k))"
proof -
  let ?found = "List.find (rule_applies lib target (request_labels k ns img pod)) (ks_FilterRules (wk_Spec k))"
  have eq: "(\<lambda>r. rule_result lib target ctx r \<noteq> None) = rule_applies lib target ctx" for ctx
    by (auto simp: rule_result_def)
  have "rule_applies lib target (request_labels k ns img pod) r" if "?found = Some r" for r
    using that by (auto simp: find_Some_iff)
  then have "(case ?found of Some r \<Rightarrow> the (rule_result lib target (buildEvalContext lib k ns scopes img pod) r) | None \<Rightarrow> no_effect) =
      filter_decision lib target (request_labels k ns img pod) (ks_FilterRules (wk_Spec k))"
    by (simp add: filter_decision_def rule_result_def built_labels split: option.split)
  then show ?thesis
    using filter_engine.decide_find [of "(lib, target, buildEvalContext lib k ns scopes img pod, scopes)" "ks_FilterRules (wk_Spec k)"] assms
    by (simp add: Evaluate_def built_labels eq del: not_None_eq cong: option.case_cong)
qed

section \<open>Kinds the webhook accepted\<close>

text \<open>
  The CRD schema of a filter rule: at least one match, each with exactly one condition. What the
  webhook and the engine call of the selector library agrees: a selector the validation accepts
  can be compiled.
\<close>

definition filter_schema_ok :: "WorkspaceKind \<Rightarrow> bool" where
  "filter_schema_ok k \<longleftrightarrow>
     (\<forall>rule \<in> set (ks_FilterRules (wk_Spec k)). fr_Match rule \<noteq> [] \<and>
        (\<forall>m \<in> set (fr_Match rule).
           length (filter (\<lambda>s. s \<noteq> None) [frm_MatchNamespace m, frm_MatchImageConfig m, frm_MatchPodConfig m]) = 1))"

definition selectors_agree :: "validation_lib \<Rightarrow> selector_lib \<Rightarrow> bool" where
  "selectors_agree vlib lib \<longleftrightarrow> (\<forall>s p. ValidateLabelSelector vlib s p = [] \<longrightarrow> \<not> isl (LabelSelectorAsSelector lib s))"

lemma enumerate_mem: "x \<in> set xs \<Longrightarrow> \<exists>i. (i, x) \<in> set (enumerate 0 xs)"
  by (metis add_0 in_set_conv_nth in_set_enumerate_eq le0 add.right_neutral diff_zero fst_conv snd_conv)

lemma validateFilterRules_NilD:
  assumes "validateFilterRules vlib k = []" and "rule \<in> set (ks_FilterRules (wk_Spec k))"
  shows "filter_rule_has_effect (fr_Effect rule)"
    and "m \<in> set (fr_Match rule) \<Longrightarrow> \<exists>path. validate_filter_match vlib (fr_Scope rule) path m = []"
proof -
  from enumerate_mem [OF assms(2)] obtain i where i: "(i, rule) \<in> set (enumerate 0 (ks_FilterRules (wk_Spec k)))" ..
  with assms(1) show "filter_rule_has_effect (fr_Effect rule)"
    by (fastforce simp: validateFilterRules_def Let_def split: if_splits)
  assume "m \<in> set (fr_Match rule)"
  from enumerate_mem [OF this] obtain j where "(j, m) \<in> set (enumerate 0 (fr_Match rule))" ..
  with i assms(1) show "\<exists>path. validate_filter_match vlib (fr_Scope rule) path m = []"
    by (fastforce simp: validateFilterRules_def Let_def)
qed

lemma accepted_rule_conditions:
  assumes "selectors_agree vlib lib" and "filter_schema_ok k" and "validateFilterRules vlib k = []"
    and "rule \<in> set (ks_FilterRules (wk_Spec k))" and "m \<in> set (fr_Match rule)"
  shows "condition_readable lib m"
    and "fr_Scope rule = FilterRuleScopeWorkspaceKind \<Longrightarrow> frm_MatchNamespace m \<noteq> None"
proof -
  from validateFilterRules_NilD(2) [OF assms(3-5)] obtain path
    where "validate_filter_match vlib (fr_Scope rule) path m = []" by blast
  moreover from assms(2,4,5)
  have "length (filter (\<lambda>s. s \<noteq> None) [frm_MatchNamespace m, frm_MatchImageConfig m, frm_MatchPodConfig m]) = 1"
    by (simp add: filter_schema_ok_def)
  ultimately show "condition_readable lib m"
    and "fr_Scope rule = FilterRuleScopeWorkspaceKind \<Longrightarrow> frm_MatchNamespace m \<noteq> None"
    using assms(1) by (auto simp: validate_filter_match_def condition_readable_def selectors_agree_def
        split: option.splits if_splits)
qed

lemma effect_restrictive:
  "filter_rule_has_effect eff \<Longrightarrow> resultFromEffect eff \<noteq> no_effect"
  by (auto simp: filter_rule_has_effect_def resultFromEffect_def no_effect_def resolveRestrictions_def DefaultRestrictions_def
      split: option.splits)

section \<open>Properties\<close>

text \<open>
  C37. Filter rules are evaluated as a firewall. Filtering the rules by scope and compiling their
  selectors once per request changes nothing: the result for a value of one of the scopes is that
  of the first rule of \<open>spec.filterRules\<close> that applies to it, and no effect when none does.
\<close>

theorem filter_rules_first_match:
  assumes "et_Scope target \<in> scopes"
  shows "Evaluate lib target (buildEvalContext lib k ns scopes img pod) =
     filter_decision lib target (request_labels k ns img pod) (ks_FilterRules (wk_Spec k))"
  using assms by (rule evaluate_built)

text \<open>
  C38. Accepted filter rules are applied exactly. For a kind the webhook accepted, a value is
  hidden or denied if and only if all conditions of some rule of its scope hold; in particular a
  kind is never hidden or denied in a request without a namespace.
\<close>

theorem accepted_filter_rules_exact:
  assumes "selectors_agree vlib lib" and "filter_schema_ok k" and "admitted (Kind_ValidateCreate vlib rng kord k)"
    and "et_Scope target \<in> scopes"
  shows "(Evaluate lib target (buildEvalContext lib k ns scopes img pod) \<noteq> no_effect \<longleftrightarrow>
      (\<exists>rule \<in> set (ks_FilterRules (wk_Spec k)). fr_Scope rule = et_Scope target \<and>
         (\<forall>m \<in> set (fr_Match rule). condition_holds lib (et_Scope target) (spawnerLabelsToMap (et_Labels target))
            (request_labels k ns img pod) m))) \<and>
    EvaluateWorkspaceKindFilterScopeRule lib k None = no_effect"
proof -
  from assms(3) have valid: "validateFilterRules vlib k = []" by (simp add: Kind_ValidateCreate_admitted_iff)
  note conds = accepted_rule_conditions [OF assms(1,2) valid]
  have nonempty: "fr_Match rule \<noteq> []" if "rule \<in> set (ks_FilterRules (wk_Spec k))" for rule
    using assms(2) that by (simp add: filter_schema_ok_def)
  have applies: "rule_applies lib t ctx rule \<longleftrightarrow> fr_Scope rule = et_Scope t \<and>
      (\<forall>m \<in> set (fr_Match rule). condition_holds lib (et_Scope t) (spawnerLabelsToMap (et_Labels t)) ctx m)"
    if "rule \<in> set (ks_FilterRules (wk_Spec k))" for rule t ctx
    using conds(1) [OF that] nonempty [OF that] by (cases "fr_Match rule") (auto simp: rule_applies_def)
  have restrictive: "filter_decision lib t ctx (ks_FilterRules (wk_Spec k)) \<noteq> no_effect \<longleftrightarrow>
      (\<exists>rule \<in> set (ks_FilterRules (wk_Spec k)). rule_applies lib t ctx rule)" for t ctx
    using effect_restrictive [OF validateFilterRules_NilD(1) [OF valid]]
    by (fastforce simp: filter_decision_def find_None_iff find_Some_iff split: option.splits)
  have exact: "Evaluate lib target (buildEvalContext lib k ns scopes img pod) \<noteq> no_effect \<longleftrightarrow>
      (\<exists>rule \<in> set (ks_FilterRules (wk_Spec k)). fr_Scope rule = et_Scope target \<and>
         (\<forall>m \<in> set (fr_Match rule). condition_holds lib (et_Scope target) (spawnerLabelsToMap (et_Labels target))
            (request_labels k ns img pod) m))"
    unfolding evaluate_built [OF assms(4)] restrictive using applies by blast
  have "\<not> rule_applies lib \<lparr>et_Scope = FilterRuleScopeWorkspaceKind, et_Labels = []\<rparr> (request_labels k None [] []) rule"
    if rule: "rule \<in> set (ks_FilterRules (wk_Spec k))" for rule
  proof
    assume "rule_applies lib \<lparr>et_Scope = FilterRuleScopeWorkspaceKind, et_Labels = []\<rparr> (request_labels k None [] []) rule"
    moreover from nonempty [OF rule] obtain m where m: "m \<in> set (fr_Match rule)" by (cases "fr_Match rule") auto
    ultimately show False using conds(2) [OF rule m] applies [OF rule]
      by (auto simp: condition_holds_def condition_source_def request_labels_def split: option.splits)
  qed
  then have "EvaluateWorkspaceKindFilterScopeRule lib k None = no_effect"
    using restrictive unfolding EvaluateWorkspaceKindFilterScopeRule_def by (subst evaluate_built) (auto simp: workspaceKindScopes_def)
  with exact show ?thesis by simp
qed

section \<open>Witnesses\<close>

text \<open>A kind that denies its pod configs in the namespaces of the free tier.\<close>

definition filter_sample_lib :: validation_lib where
  "filter_sample_lib = sample_lib\<lparr>ValidateLabelSelector :=
     (\<lambda>s p. if isl (LabelSelectorAsSelector sample_selectors s) then [FieldInvalid p NoValue ''invalid selector''] else [])\<rparr>"

definition deny_rule :: FilterRule where
  "deny_rule = \<lparr>fr_Scope = FilterRuleScopePodConfig,
     fr_Effect = \<lparr>fre_UI = None, fre_API = Some \<lparr>fea_Hide = None, fea_Deny = Some True,
       fea_DenyMessage = Some \<lparr>fdm_Text = ''paid tier only''\<rparr>\<rparr>\<rparr>,
     fr_Match = [\<lparr>frm_MatchNamespace = Some (Opaque ''tier=free''), frm_MatchImageConfig = None, frm_MatchPodConfig = None\<rparr>]\<rparr>"

definition deny_kind :: WorkspaceKind where
  "deny_kind = sample_kind\<lparr>wk_Spec := (wk_Spec sample_kind)\<lparr>ks_FilterRules := [deny_rule]\<rparr>\<rparr>"

definition pod_target :: EvalTarget where
  "pod_target = \<lparr>et_Scope = FilterRuleScopePodConfig, et_Labels = []\<rparr>"

definition free_labels :: strmap where
  "free_labels = fmupd ''tier'' ''free'' fmempty"

lemma deny_kind_sel [simp]:
  "ks_FilterRules (wk_Spec deny_kind) = [deny_rule]" "wk_PodTemplate deny_kind = wk_PodTemplate sample_kind"
  "ks_ActivityRules (wk_Spec deny_kind) = ks_ActivityRules (wk_Spec sample_kind)"
  by (simp_all add: deny_kind_def)

lemma deny_kind_schema: "filter_schema_ok deny_kind"
  by (simp add: filter_schema_ok_def deny_rule_def)

lemma filter_sample_agree: "selectors_agree filter_sample_lib sample_selectors"
  by (auto simp: selectors_agree_def filter_sample_lib_def split: if_splits)

lemma deny_kind_admitted: "admitted (Kind_ValidateCreate filter_sample_lib sample_range sample_keys deny_kind)"
proof -
  have "image_redirects deny_kind = [''v1'' \<mapsto> ''v2'']" "pod_redirects deny_kind = Map.empty"
    by (simp_all add: redirect_map_def)
  then show ?thesis
    unfolding Kind_ValidateCreate_admitted_iff image_redirect_errors_Nil_iff [OF key_order_sample_keys]
      pod_redirect_errors_Nil_iff [OF key_order_sample_keys]
    by (simp add: validatePodTemplatePodMetadata_def validatePodTemplateStatefulSetMetadata_def validateExtraEnv_def
      validateRequestHeaders_def validateFilterRules_def validateActivityProbe_def validateDefaultImageConfig_def
      validateDefaultPodConfig_def validate_image_values_Nil_iff validateActivityRules_def validate_rule_selectors_def
      single_redirect_ok empty_redirect_ok map_by_def Let_def probe_interval_def deny_rule_def
      filter_rule_has_effect_def validate_filter_match_def filter_sample_lib_def sample_selectors_def)
qed

lemma free_tier_denied:
  "condition_holds sample_selectors FilterRuleScopePodConfig (spawnerLabelsToMap []) (request_labels deny_kind (Some free_labels) img pod)
     (hd (fr_Match deny_rule))"
  by (simp add: condition_holds_def condition_source_def request_labels_def deny_rule_def selector_result_def
      sample_selectors_def free_labels_def)

theorem filter_rules_first_match_witness:
  "Evaluate sample_selectors pod_target
     (buildEvalContext sample_selectors deny_kind (Some free_labels) imageAndPodConfigScopes [] []) =
   \<lparr>er_UIHide = False, er_APIHide = False,
     er_Restrictions = \<lparr>rs_Deny = True, rs_DenyMessage = Some \<lparr>dm_Text = ''paid tier only''\<rparr>\<rparr>\<rparr>"
proof -
  have "et_Scope pod_target \<in> imageAndPodConfigScopes" by (simp add: pod_target_def imageAndPodConfigScopes_def)
  note filter_rules_first_match [OF this, of sample_selectors deny_kind "Some free_labels" "[]" "[]"]
  moreover have "rule_applies sample_selectors pod_target (request_labels deny_kind (Some free_labels) [] []) deny_rule"
    using free_tier_denied [of "[]" "[]"]
    by (simp add: rule_applies_def pod_target_def readable_iff deny_rule_def compileSelector_def sample_selectors_def)
  ultimately show ?thesis by (simp add: filter_decision_def resultFromEffect_def resolveRestrictions_def deny_rule_def)
qed

theorem accepted_filter_rules_exact_witness:
  "Evaluate sample_selectors pod_target
     (buildEvalContext sample_selectors deny_kind (Some free_labels) imageAndPodConfigScopes [] []) \<noteq> no_effect \<and>
   EvaluateWorkspaceKindFilterScopeRule sample_selectors deny_kind None = no_effect"
proof -
  have scope: "et_Scope pod_target \<in> imageAndPodConfigScopes" by (simp add: pod_target_def imageAndPodConfigScopes_def)
  note exact = accepted_filter_rules_exact [OF filter_sample_agree deny_kind_schema deny_kind_admitted scope]
  have "fr_Match deny_rule = [hd (fr_Match deny_rule)]" by (simp add: deny_rule_def)
  then have "\<forall>m \<in> set (fr_Match deny_rule). condition_holds sample_selectors FilterRuleScopePodConfig (spawnerLabelsToMap [])
      (request_labels deny_kind (Some free_labels) [] []) m"
    using free_tier_denied [of "[]" "[]"] by (metis empty_iff empty_set list.set(2) insert_iff)
  then show ?thesis using exact [where ns = "Some free_labels" and img = "[]" and pod = "[]"]
    by (simp add: pod_target_def) (simp add: deny_rule_def)
qed

end
