(* ===== verification/Backend_Base.thy ===== *)
theory Backend_Base
  imports Field_Errors Names
begin

text \<open>
  What all parts of the backend share: errors of the Kubernetes API server, the audit
  annotations and the revision of \<open>backend/internal/models/common\<close>, and the field
  validators of \<open>backend/internal/helper/validation.go\<close> that need no client. The functions
  of \<open>k8s.io/apimachinery\<close> and of Go's time and encoding packages they call are the record
  \<open>be_lib\<close>. Instants are integers, as in the rest of the development.
\<close>

section \<open>Errors of the API server\<close>

datatype StatusReason = ReasonNotFound | ReasonAlreadyExists | ReasonInvalid | ReasonConflict | ReasonOther

record StatusCause =
  sc_Type :: string
  sc_Field :: string
  sc_Message :: string

text \<open>An error of the client; one that carries no \<open>APIStatus\<close> has \<open>ReasonOther\<close> and no causes.\<close>

record kube_error =
  ke_Reason :: StatusReason
  ke_Message :: string
  ke_Causes :: "StatusCause list"

abbreviation IsNotFound :: "kube_error \<Rightarrow> bool" where "IsNotFound e \<equiv> ke_Reason e = ReasonNotFound"
abbreviation IsAlreadyExists :: "kube_error \<Rightarrow> bool" where "IsAlreadyExists e \<equiv> ke_Reason e = ReasonAlreadyExists"
abbreviation IsInvalid :: "kube_error \<Rightarrow> bool" where "IsInvalid e \<equiv> ke_Reason e = ReasonInvalid"
abbreviation IsConflict :: "kube_error \<Rightarrow> bool" where "IsConflict e \<equiv> ke_Reason e = ReasonConflict"

section \<open>Library functions\<close>

record be_lib =
  IsDNS1123Subdomain :: "string \<Rightarrow> string list"
  IsDNS1123Label :: "string \<Rightarrow> string list"
  IsConfigMapKey :: "string \<Rightarrow> string list"
  BeValidateLabels :: "strmap \<Rightarrow> field_path \<Rightarrow> field_error list"
  BeValidateAnnotations :: "strmap \<Rightarrow> field_path \<Rightarrow> field_error list"
  Base64Decode :: "string \<Rightarrow> string + string"
  FormatRFC3339 :: "int \<Rightarrow> string"
  ParseRFC3339 :: "string \<Rightarrow> int option"
  ParseInt64 :: "string \<Rightarrow> int option"
  ParseBool :: "string \<Rightarrow> bool option"
  ParseQuantity :: "string \<Rightarrow> string + k8s_opaque"
  QuantityString :: "k8s_opaque \<Rightarrow> string"
  ParseMediaType :: "string \<Rightarrow> string + string"
  Sha256 :: sha256_fn

section \<open>Annotations, labels and audit data\<close>

definition AnnotationCreatedBy :: string where "AnnotationCreatedBy = ''notebooks.kubeflow.org/created-by''"
definition AnnotationUpdatedAt :: string where "AnnotationUpdatedAt = ''notebooks.kubeflow.org/updated-at''"
definition AnnotationUpdatedBy :: string where "AnnotationUpdatedBy = ''notebooks.kubeflow.org/updated-by''"
definition AnnotationDisplayName :: string where "AnnotationDisplayName = ''notebooks.kubeflow.org/display-name''"
definition AnnotationDescription :: string where "AnnotationDescription = ''notebooks.kubeflow.org/description''"
definition LabelCanMount :: string where "LabelCanMount = ''notebooks.kubeflow.org/can-mount''"
definition LabelCanUpdate :: string where "LabelCanUpdate = ''notebooks.kubeflow.org/can-update''"
definition LabelCanUse :: string where "LabelCanUse = ''notebooks.kubeflow.org/can-use''"
definition LabelOdhDashboard :: string where "LabelOdhDashboard = ''opendatahub.io/dashboard''"

lemmas annotation_names = AnnotationCreatedBy_def AnnotationUpdatedAt_def AnnotationUpdatedBy_def
  AnnotationDisplayName_def AnnotationDescription_def

lemmas label_names = LabelCanMount_def LabelCanUpdate_def LabelCanUse_def LabelOdhDashboard_def

text \<open>\<open>m[key]\<close> of Go: the empty string when the key is missing.\<close>

definition go_index :: "strmap \<Rightarrow> string \<Rightarrow> string" where
  "go_index m key = (case fmlookup m key of Some v \<Rightarrow> v | None \<Rightarrow> [])"

record Audit =
  au_CreatedAt :: int
  au_CreatedBy :: "string option"
  au_UpdatedAt :: "int option"
  au_UpdatedBy :: "string option"
  au_DeletedAt :: "int option"

definition NewAuditFromObjectMeta :: "be_lib \<Rightarrow> ObjectMeta \<Rightarrow> Audit" where
  "NewAuditFromObjectMeta lib objectMeta = \<lparr>
     au_CreatedAt = om_CreationTimestamp objectMeta,
     au_CreatedBy = fmlookup (om_Annotations objectMeta) AnnotationCreatedBy,
     au_UpdatedAt = (case fmlookup (om_Annotations objectMeta) AnnotationUpdatedAt of
                       None \<Rightarrow> None | Some updatedAtStr \<Rightarrow> ParseRFC3339 lib updatedAtStr),
     au_UpdatedBy = fmlookup (om_Annotations objectMeta) AnnotationUpdatedBy,
     au_DeletedAt = om_DeletionTimestamp objectMeta\<rparr>"

text \<open>The actor is the name of the authenticated user, \<open>None\<close> for a \<open>nil\<close> actor.\<close>

definition UpdateObjectMetaForCreate :: "string option \<Rightarrow> ObjectMeta \<Rightarrow> ObjectMeta" where
  "UpdateObjectMetaForCreate actor objectMeta =
     (case actor of
        Some name \<Rightarrow> objectMeta\<lparr>om_Annotations :=
          fmupd AnnotationUpdatedBy name (fmupd AnnotationCreatedBy name (om_Annotations objectMeta))\<rparr>
      | None \<Rightarrow> objectMeta\<lparr>om_Annotations :=
          fmdrop AnnotationUpdatedAt (fmdrop AnnotationUpdatedBy (fmdrop AnnotationCreatedBy (om_Annotations objectMeta)))\<rparr>)"

definition UpdateObjectMetaForUpdate :: "be_lib \<Rightarrow> string option \<Rightarrow> int \<Rightarrow> ObjectMeta \<Rightarrow> ObjectMeta" where
  "UpdateObjectMetaForUpdate lib actor now objectMeta =
     (let annotations = fmupd AnnotationUpdatedAt (FormatRFC3339 lib now) (om_Annotations objectMeta) in
      objectMeta\<lparr>om_Annotations :=
        (case actor of Some name \<Rightarrow> fmupd AnnotationUpdatedBy name annotations
         | None \<Rightarrow> fmdrop AnnotationUpdatedBy annotations)\<rparr>)"

definition GetDisplayNameFromObjectMeta :: "ObjectMeta \<Rightarrow> string" where
  "GetDisplayNameFromObjectMeta objectMeta = go_index (om_Annotations objectMeta) AnnotationDisplayName"

definition GetDescriptionFromObjectMeta :: "ObjectMeta \<Rightarrow> string" where
  "GetDescriptionFromObjectMeta objectMeta = go_index (om_Annotations objectMeta) AnnotationDescription"

definition CalculateRevision :: "be_lib \<Rightarrow> ObjectMeta \<Rightarrow> string" where
  "CalculateRevision lib meta =
     hex_encode (Sha256 lib (om_UID meta @ '':'' @ om_Name meta @ '':'' @ int_dec (om_Generation meta)))"

section \<open>Field validators\<close>

definition ValidateFieldIsNotEmpty :: "field_path \<Rightarrow> string \<Rightarrow> field_error list" where
  "ValidateFieldIsNotEmpty path value = (if value = [] then [FieldRequired path []] else [])"

definition ValidateFieldIsDNS1123Subdomain :: "be_lib \<Rightarrow> field_path \<Rightarrow> string \<Rightarrow> field_error list" where
  "ValidateFieldIsDNS1123Subdomain lib path value =
     (if value = [] then [FieldRequired path []]
      else (let failures = IsDNS1123Subdomain lib value in
            if failures \<noteq> [] then [FieldInvalid path (BadString value) (join ''; '' failures)] else []))"

definition ValidateFieldIsDNS1123Label :: "be_lib \<Rightarrow> field_path \<Rightarrow> string \<Rightarrow> field_error list" where
  "ValidateFieldIsDNS1123Label lib path value =
     (if value = [] then [FieldRequired path []]
      else (let failures = IsDNS1123Label lib value in
            if failures \<noteq> [] then [FieldInvalid path (BadString value) (join ''; '' failures)] else []))"

definition ValidateWorkspaceName :: "be_lib \<Rightarrow> field_path \<Rightarrow> string \<Rightarrow> field_error list" where
  "ValidateWorkspaceName lib path value = ValidateFieldIsDNS1123Subdomain lib path value"

definition ValidateWorkspaceKindName :: "be_lib \<Rightarrow> field_path \<Rightarrow> string \<Rightarrow> field_error list" where
  "ValidateWorkspaceKindName lib path value = ValidateFieldIsDNS1123Subdomain lib path value"

definition ValidateKubernetesSecretName :: "be_lib \<Rightarrow> field_path \<Rightarrow> string \<Rightarrow> field_error list" where
  "ValidateKubernetesSecretName lib path value = ValidateFieldIsDNS1123Subdomain lib path value"

definition ValidateKubernetesPVCName :: "be_lib \<Rightarrow> field_path \<Rightarrow> string \<Rightarrow> field_error list" where
  "ValidateKubernetesPVCName lib path value = ValidateFieldIsDNS1123Subdomain lib path value"

definition ValidateKubernetesStorageClassName :: "be_lib \<Rightarrow> field_path \<Rightarrow> string \<Rightarrow> field_error list" where
  "ValidateKubernetesStorageClassName lib path value = ValidateFieldIsDNS1123Subdomain lib path value"

definition ValidateKubernetesNamespaceName :: "be_lib \<Rightarrow> field_path \<Rightarrow> string \<Rightarrow> field_error list" where
  "ValidateKubernetesNamespaceName lib path value = ValidateFieldIsDNS1123Label lib path value"

definition ValidateKubernetesServicesName :: "be_lib \<Rightarrow> field_path \<Rightarrow> string \<Rightarrow> field_error list" where
  "ValidateKubernetesServicesName lib path value = ValidateFieldIsDNS1123Label lib path value"

definition ValidateKubernetesContainersName :: "be_lib \<Rightarrow> field_path \<Rightarrow> string \<Rightarrow> field_error list" where
  "ValidateKubernetesContainersName lib path value = ValidateFieldIsDNS1123Label lib path value"

definition ValidateKubernetesAnnotations :: "be_lib \<Rightarrow> field_path \<Rightarrow> strmap \<Rightarrow> field_error list" where
  "ValidateKubernetesAnnotations lib path annotations = BeValidateAnnotations lib annotations path"

definition ValidateKubernetesLabels :: "be_lib \<Rightarrow> field_path \<Rightarrow> strmap \<Rightarrow> field_error list" where
  "ValidateKubernetesLabels lib path labels = BeValidateLabels lib labels path"

definition expectedApiVersion :: string where "expectedApiVersion = ''kubeflow.org/v1beta1''"

definition ValidateWorkspaceKindGVK :: "string \<Rightarrow> string \<Rightarrow> field_error list" where
  "ValidateWorkspaceKindGVK apiVersion kind =
     (if apiVersion = [] then [FieldRequired [Child ''apiVersion''] []]
      else if apiVersion \<noteq> expectedApiVersion
      then [FieldInvalid [Child ''apiVersion''] (BadString apiVersion) ''invalid apiVersion for a WorkspaceKind'']
      else [])
     @ (if kind = [] then [FieldRequired [Child ''kind''] []]
        else if kind \<noteq> ''WorkspaceKind''
        then [FieldInvalid [Child ''kind''] (BadString kind) ''invalid kind for a WorkspaceKind'']
        else [])"

definition ValidateFieldIsConfigMapKey :: "be_lib \<Rightarrow> field_path \<Rightarrow> string \<Rightarrow> field_error list" where
  "ValidateFieldIsConfigMapKey lib path keyName =
     map (\<lambda>failureMsg. FieldInvalid path (BadString keyName) (''invalid key name: '' @ failureMsg)) (IsConfigMapKey lib keyName)"

definition ValidateFieldIsSecretBase64Value :: "be_lib \<Rightarrow> field_path \<Rightarrow> string \<Rightarrow> field_error list" where
  "ValidateFieldIsSecretBase64Value lib path value =
     (case Base64Decode lib value of
        Inl err \<Rightarrow> [FieldInvalid path (BadString value) err]
      | Inr _ \<Rightarrow> [])"

definition ValidateFieldIsPositiveInt64 :: "be_lib \<Rightarrow> field_path \<Rightarrow> string \<Rightarrow> int \<times> field_error list" where
  "ValidateFieldIsPositiveInt64 lib path value =
     (case ParseInt64 lib value of
        Some parsed \<Rightarrow> if parsed \<le> 0 then (0, [FieldInvalid path (BadString value) ''must be a positive integer'']) else (parsed, [])
      | None \<Rightarrow> (0, [FieldInvalid path (BadString value) ''must be a positive integer'']))"

definition ValidateFieldIsBool :: "be_lib \<Rightarrow> field_path \<Rightarrow> string \<Rightarrow> bool \<times> field_error list" where
  "ValidateFieldIsBool lib path value =
     (case ParseBool lib value of
        None \<Rightarrow> (False, [FieldInvalid path (BadString value) ''must be a boolean''])
      | Some parsed \<Rightarrow> (parsed, []))"

text \<open>The zero time is the instant 0.\<close>

definition ValidateFieldIsRFC3339Time :: "be_lib \<Rightarrow> field_path \<Rightarrow> string \<Rightarrow> int \<times> field_error list" where
  "ValidateFieldIsRFC3339Time lib path value =
     (case ParseRFC3339 lib value of
        None \<Rightarrow> (0, [FieldInvalid path (BadString value) ''must be a valid RFC3339 timestamp''])
      | Some parsed \<Rightarrow> (parsed, []))"

section \<open>Revisions identify an object and its generation\<close>

lemma hex_digit_inj: "m < 16 \<Longrightarrow> n < 16 \<Longrightarrow> hex_digit m = hex_digit n \<longleftrightarrow> m = n"
proof -
  assume b: "m < 16" "n < 16"
  have "\<forall>m \<in> set [0..<16]. \<forall>n \<in> set [0..<16]. hex_digit m = hex_digit n \<longrightarrow> m = n"
    by (simp add: upt_rec hex_digit_def)
  with b show ?thesis by auto
qed

lemma hex_encode_inj: "hex_encode a = hex_encode b \<Longrightarrow> a = b"
proof (induction a arbitrary: b)
  case Nil
  then show ?case by (cases b) (simp_all add: hex_encode_def Let_def)
next
  case (Cons c cs)
  then obtain d ds where b: "b = d # ds" by (cases b) (simp_all add: hex_encode_def Let_def)
  have "(of_char c :: nat) div 16 < 16" "(of_char d :: nat) div 16 < 16"
    using nat_of_char_less_256 [of c] nat_of_char_less_256 [of d] by (simp_all add: less_mult_imp_div_less)
  with Cons b have "hex_encode cs = hex_encode ds" "(of_char c :: nat) div 16 = of_char d div 16"
      "(of_char c :: nat) mod 16 = of_char d mod 16"
    by (simp_all add: hex_encode_def Let_def hex_digit_inj)
  with Cons.IH b show ?case by (metis div_mult_mod_eq of_char_eq_iff)
qed

lemma nat_dec_digits: "c \<in> set (nat_dec n) \<Longrightarrow> 48 \<le> (of_char c :: nat)"
proof (induction n rule: nat_dec.induct)
  case (1 n)
  then have "c \<in> set (if n < 10 then [digit_char n] else nat_dec (n div 10) @ [digit_char (n mod 10)])"
    by (simp add: nat_dec.simps [of n])
  with 1 show ?case by (auto simp: digit_char_def split: if_splits)
qed

lemma int_dec_inj: "int_dec i = int_dec j \<Longrightarrow> i = j"
proof -
  have no_sign: "nat_dec n \<noteq> CHR ''-'' # s" for n s
    using nat_dec_digits [of "CHR ''-''" n] by auto
  assume "int_dec i = int_dec j"
  then show ?thesis
    by (auto simp: int_dec_def no_sign no_sign [symmetric] split: if_splits dest!: nat_dec_inj)
qed

text \<open>A colon separates the parts, and no part contains one (object names and UIDs cannot).\<close>

definition no_colon :: "string \<Rightarrow> bool" where
  "no_colon s \<longleftrightarrow> CHR '':'' \<notin> set s"

definition revision_input :: "ObjectMeta \<Rightarrow> string" where
  "revision_input meta = om_UID meta @ '':'' @ om_Name meta @ '':'' @ int_dec (om_Generation meta)"

text \<open>The digest does not collide on the two inputs.\<close>

definition digest_distinct :: "be_lib \<Rightarrow> ObjectMeta \<Rightarrow> ObjectMeta \<Rightarrow> bool" where
  "digest_distinct lib a b \<longleftrightarrow>
     (Sha256 lib (revision_input a) = Sha256 lib (revision_input b) \<longrightarrow> revision_input a = revision_input b)"

lemma revision_identifies:
  assumes "CalculateRevision lib a = CalculateRevision lib b" and "digest_distinct lib a b"
    and "no_colon (om_UID a)" "no_colon (om_UID b)" "no_colon (om_Name a)" "no_colon (om_Name b)"
  shows "om_UID a = om_UID b \<and> om_Name a = om_Name b \<and> om_Generation a = om_Generation b"
proof -
  from assms(1,2) have "revision_input a = revision_input b"
    by (auto simp: CalculateRevision_def revision_input_def digest_distinct_def dest: hex_encode_inj)
  with assms(3-6) show ?thesis
    by (auto simp: revision_input_def no_colon_def split_at_char dest: int_dec_inj)
qed

end
