(* ===== verification/Backend_Objects.thy ===== *)
theory Backend_Objects
  imports Backend_Base Trace_Steps Cluster_Objects
begin

text \<open>
  The Kubernetes objects the backend reads and writes, the calls it makes, and the client as an
  environment. A request runs on the trace of the calls made for it (access reviews, reads and
  writes), each with whether it succeeded; the answer of a call may depend on the trace, so that
  nothing is assumed about what other clients do in between.
\<close>

section \<open>Objects\<close>

record Secret =
  sec_Meta :: ObjectMeta
  sec_Type :: string
  sec_Data :: "(string, string) fmap"
  sec_Immutable :: "bool option"

record PersistentVolumeClaim =
  pvo_Meta :: ObjectMeta
  pvo_AccessModes :: "string list"
  pvo_StorageClassName :: "string option"
  pvo_StorageRequest :: k8s_opaque
  pvo_VolumeName :: string
  pvo_VolumeMode :: "string option"

record PersistentVolume =
  pvl_Meta :: ObjectMeta
  pvl_ReclaimPolicy :: string
  pvl_VolumeMode :: "string option"
  pvl_AccessModes :: "string list"

record StorageClass =
  scl_Meta :: ObjectMeta

record PodContainerStatus =
  pst_Name :: string
  pst_Waiting :: bool
  pst_LastTerminated :: bool

text \<open>Of a volume only the claim name of a PersistentVolumeClaim source is read, of a container its name and resources.\<close>

record BackendPod =
  bp_Meta :: ObjectMeta
  bp_NodeName :: string
  bp_Phase :: string
  bp_VolumeClaims :: "string option list"
  bp_ContainerStatuses :: "PodContainerStatus list"
  bp_InitContainerStatuses :: "PodContainerStatus list"
  bp_Containers :: "(string \<times> k8s_opaque) list"

text \<open>The options of a log request; the log is read without following it, with timestamps.\<close>

record PodLogOptions =
  plo_Container :: string
  plo_TailLines :: int
  plo_LimitBytes :: int
  plo_Previous :: bool
  plo_SinceTime :: "int option"

text \<open>Of the usage only the cpu and memory quantities are read, as strings.\<close>

record ContainerMetrics =
  cme_Name :: string
  cme_CPU :: "string option"
  cme_Memory :: "string option"

record PodMetrics =
  pme_Timestamp :: int
  pme_Containers :: "ContainerMetrics list"

section \<open>Users and access reviews\<close>

record user_info =
  ui_Name :: string
  ui_UID :: string
  ui_Groups :: "string list"
  ui_Extra :: "(string, string list) fmap"

datatype ResourcePolicyVerb = VerbCreate | VerbDelete | VerbGet | VerbList | VerbPatch | VerbUpdate

datatype ResourcePolicyResource = Namespaces | PersistentVolumeClaims | Secrets | StorageClasses
  | WorkspaceKinds | Workspaces

record GroupVersionResource =
  gvr_Group :: string
  gvr_Version :: string
  gvr_Resource :: ResourcePolicyResource

record ResourcePolicyResourceMeta =
  rpm_Namespace :: string
  rpm_Name :: string

record ResourcePolicy =
  rp_Verb :: ResourcePolicyVerb
  rp_GVR :: GroupVersionResource
  rp_ResourceMeta :: ResourcePolicyResourceMeta

record Attributes =
  at_User :: user_info
  at_Verb :: ResourcePolicyVerb
  at_Namespace :: string
  at_APIGroup :: string
  at_APIVersion :: string
  at_Resource :: ResourcePolicyResource
  at_Name :: string

section \<open>Calls\<close>

datatype kube_object = WorkspaceObject Workspace | WorkspaceKindObject WorkspaceKind
  | SecretObject Secret | PVCObject PersistentVolumeClaim

datatype kube_resource = PolicyResource ResourcePolicyResource | Pods | PersistentVolumes | ConfigMaps
  | PodMetricsResource | PodLogs

datatype patch_value = PatchBool bool | PatchState WorkspaceState

record WorkspacePatchOperation =
  wp_Op :: string
  wp_Path :: string
  wp_Value :: patch_value

datatype be_call =
    ReviewCall Attributes
  | GetCall kube_resource string string
  | ListCall kube_resource string
  | CreateCall kube_object
  | UpdateCall kube_object
  | PatchCall string string "WorkspacePatchOperation list"
  | DeleteCall ResourcePolicyResource string string

type_synonym be_trace = "(be_call, bool) event_trace"

type_synonym ('o, 'a) be_step = "(be_call, bool, 'o, 'a) trace_step"

section \<open>The client\<close>

text \<open>
  A write returns the object as the API server stored it. \<open>cl_ListPodsOf\<close> lists the pods of
  a namespace that have a label with a value; \<open>cl_ContextErr\<close> is \<open>ctx.Err\<close> of the request. \<open>cl_GetConfigMap\<close> is the client
  that only sees the ConfigMaps with the image source label.
\<close>

record be_client =
  cl_GetWorkspace :: "be_trace \<Rightarrow> string \<Rightarrow> string \<Rightarrow> kube_error + Workspace"
  cl_ListWorkspaces :: "be_trace \<Rightarrow> string \<Rightarrow> kube_error + Workspace list"
  cl_GetWorkspaceKind :: "be_trace \<Rightarrow> string \<Rightarrow> string \<Rightarrow> kube_error + WorkspaceKind"
  cl_ListWorkspaceKinds :: "be_trace \<Rightarrow> string \<Rightarrow> kube_error + WorkspaceKind list"
  cl_GetSecret :: "be_trace \<Rightarrow> string \<Rightarrow> string \<Rightarrow> kube_error + Secret"
  cl_ListSecretMeta :: "be_trace \<Rightarrow> string \<Rightarrow> kube_error + ObjectMeta list"
  cl_GetPVC :: "be_trace \<Rightarrow> string \<Rightarrow> string \<Rightarrow> kube_error + PersistentVolumeClaim"
  cl_ListPVCs :: "be_trace \<Rightarrow> string \<Rightarrow> kube_error + PersistentVolumeClaim list"
  cl_GetPV :: "be_trace \<Rightarrow> string \<Rightarrow> string \<Rightarrow> kube_error + PersistentVolume"
  cl_GetStorageClass :: "be_trace \<Rightarrow> string \<Rightarrow> string \<Rightarrow> kube_error + StorageClass"
  cl_ListStorageClasses :: "be_trace \<Rightarrow> string \<Rightarrow> kube_error + StorageClass list"
  cl_GetNamespace :: "be_trace \<Rightarrow> string \<Rightarrow> string \<Rightarrow> kube_error + ObjectMeta"
  cl_ListNamespaces :: "be_trace \<Rightarrow> string \<Rightarrow> kube_error + ObjectMeta list"
  cl_ListPods :: "be_trace \<Rightarrow> string \<Rightarrow> kube_error + BackendPod list"
  cl_ListPodsOf :: "be_trace \<Rightarrow> string \<Rightarrow> string \<Rightarrow> string \<Rightarrow> kube_error + BackendPod list"
  cl_PodLogs :: "be_trace \<Rightarrow> string \<Rightarrow> string \<Rightarrow> PodLogOptions \<Rightarrow> kube_error + string"
  cl_GetPodMetrics :: "be_trace \<Rightarrow> string \<Rightarrow> string \<Rightarrow> kube_error + PodMetrics"
  cl_ContextErr :: "be_trace \<Rightarrow> string option"
  cl_GetPod :: "be_trace \<Rightarrow> string \<Rightarrow> string \<Rightarrow> kube_error + BackendPod"
  cl_GetConfigMap :: "be_trace \<Rightarrow> string \<Rightarrow> string \<Rightarrow> kube_error + (strmap \<times> strmap)"
  cl_StoreWorkspace :: "be_trace \<Rightarrow> be_call \<Rightarrow> kube_error + Workspace"
  cl_StoreWorkspaceKind :: "be_trace \<Rightarrow> be_call \<Rightarrow> kube_error + WorkspaceKind"
  cl_StoreSecret :: "be_trace \<Rightarrow> be_call \<Rightarrow> kube_error + Secret"
  cl_StorePVC :: "be_trace \<Rightarrow> be_call \<Rightarrow> kube_error + PersistentVolumeClaim"
  cl_Delete :: "be_trace \<Rightarrow> be_call \<Rightarrow> kube_error option"

abbreviation succeeded :: "'e + 'a \<Rightarrow> bool" where "succeeded r \<equiv> \<not> isl r"

definition kube_get ::
  "kube_resource \<Rightarrow> (be_trace \<Rightarrow> string \<Rightarrow> string \<Rightarrow> kube_error + 'a) \<Rightarrow> string \<Rightarrow> string \<Rightarrow> ('o, kube_error + 'a) be_step"
where
  "kube_get res get ns name = query (GetCall res ns name) succeeded (\<lambda>t. get t ns name)"

definition kube_list ::
  "kube_resource \<Rightarrow> (be_trace \<Rightarrow> string \<Rightarrow> kube_error + 'a) \<Rightarrow> string \<Rightarrow> ('o, kube_error + 'a) be_step"
where
  "kube_list res lst ns = query (ListCall res ns) succeeded (\<lambda>t. lst t ns)"

definition kube_store :: "(be_trace \<Rightarrow> be_call \<Rightarrow> kube_error + 'a) \<Rightarrow> be_call \<Rightarrow> ('o, kube_error + 'a) be_step" where
  "kube_store store c = query c succeeded (\<lambda>t. store t c)"

definition kube_delete :: "be_client \<Rightarrow> ResourcePolicyResource \<Rightarrow> string \<Rightarrow> string \<Rightarrow> ('o, kube_error option) be_step" where
  "kube_delete cl res ns name =
     query (DeleteCall res ns name) (\<lambda>r. r = None) (\<lambda>t. cl_Delete cl t (DeleteCall res ns name))"

lemma emits_kube [emit_intros]:
  "A (GetCall res ns name) \<Longrightarrow> emits A (kube_get res get ns name)"
  "A (ListCall res ns) \<Longrightarrow> emits A (kube_list res lst ns)"
  "A c \<Longrightarrow> emits A (kube_store store c)"
  "A (DeleteCall r ns name) \<Longrightarrow> emits A (kube_delete cl r ns name)"
  by (simp_all add: kube_get_def kube_list_def kube_store_def kube_delete_def emit_intros)

section \<open>Errors of the repositories\<close>

text \<open>The errors the repositories declare, with their texts.\<close>

datatype sentinel =
    ErrWorkspaceNotFound | ErrWorkspacePodNotRunning
  | ErrWorkspaceAlreadyExists | ErrWorkspaceInvalidState | ErrWorkspaceRevisionConflict
  | ErrSecretNotFound | ErrSecretAlreadyExists | ErrSecretNotCanUpdate
  | ErrPVCNotFound | ErrPVCAlreadyExists | ErrPVCNotCanUpdate
  | ErrWorkspaceKindNotFound | ErrWorkspaceKindAlreadyExists | ErrWorkspaceKindRevisionConflict
  | ErrWorkspaceKindAssetConfigMapNotFound | ErrWorkspaceKindAssetConfigMapKeyMissing
  | ErrWorkspaceKindAssetNotConfigMap
  | ErrContainerNotFound | ErrContainerNotRunning | ErrPreviousLogsNotFound

fun sentinel_text :: "sentinel \<Rightarrow> string" where
  "sentinel_text ErrWorkspaceNotFound = ''workspace not found''"
| "sentinel_text ErrWorkspacePodNotRunning = ''workspace pod is not running''"
| "sentinel_text ErrWorkspaceAlreadyExists = ''workspace already exists''"
| "sentinel_text ErrWorkspaceInvalidState = ''workspace is in an invalid state for this operation''"
| "sentinel_text ErrWorkspaceRevisionConflict = ''current workspace revision does not match request''"
| "sentinel_text ErrSecretNotFound = ''secret not found''"
| "sentinel_text ErrSecretAlreadyExists = ''secret already exists''"
| "sentinel_text ErrSecretNotCanUpdate =
     ''secret cannot be modified because it is not labeled with '' @ LabelCanUpdate @ ''=true''"
| "sentinel_text ErrPVCNotFound = ''PVC not found''"
| "sentinel_text ErrPVCAlreadyExists = ''PVC already exists''"
| "sentinel_text ErrPVCNotCanUpdate =
     ''PVC cannot be modified because it is not labeled with '' @ LabelCanUpdate @ ''=true''"
| "sentinel_text ErrWorkspaceKindNotFound = ''workspace kind not found''"
| "sentinel_text ErrWorkspaceKindAlreadyExists = ''workspacekind already exists''"
| "sentinel_text ErrWorkspaceKindRevisionConflict = ''current workspace kind revision does not match request''"
| "sentinel_text ErrWorkspaceKindAssetConfigMapNotFound =
     ''workspacekind asset configmap not found, or does not have notebooks.kubeflow.org/image-source=true label''"
| "sentinel_text ErrWorkspaceKindAssetConfigMapKeyMissing = ''workspacekind asset configmap missing expected key''"
| "sentinel_text ErrWorkspaceKindAssetNotConfigMap = ''workspacekind asset does not reference a configmap''"
| "sentinel_text ErrContainerNotFound = ''container not found in workspace pod''"
| "sentinel_text ErrContainerNotRunning = ''container has not started yet''"
| "sentinel_text ErrPreviousLogsNotFound = ''no logs found for the previous container instance''"

text \<open>
  A panic unwinds to \<open>recoverPanic\<close> of \<open>backend/api/middleware.go\<close>, which answers with
  \<open>serverErrorResponse\<close>. Every handler gives that answer for an error it does not know, so a
  panic of a repository is an error no handler knows.
\<close>

datatype repo_error =
    SentinelError sentinel
  | KubeError kube_error
  | InternalValidationError "field_error list"
  | PlainError string
  | PanicError string
  | WrappedError string repo_error

text \<open>\<open>ToAggregate\<close> of the field library joins the messages; its text is not observed here.\<close>

fun repo_error_text :: "repo_error \<Rightarrow> string" where
  "repo_error_text (SentinelError s) = sentinel_text s"
| "repo_error_text (KubeError k) = ke_Message k"
| "repo_error_text (InternalValidationError errs) = ''validation error''"
| "repo_error_text (PlainError m) = m"
| "repo_error_text (PanicError m) = m"
| "repo_error_text (WrappedError msg e) = msg @ repo_error_text e"

text \<open>\<open>errors.Is\<close>, \<open>errors.As\<close> and the predicates of \<open>apierrors\<close> look through wrapped errors.\<close>

fun errors_is :: "repo_error \<Rightarrow> sentinel \<Rightarrow> bool" where
  "errors_is (SentinelError e) s = (e = s)"
| "errors_is (WrappedError msg e) s = errors_is e s"
| "errors_is _ s = False"

fun kube_error_of :: "repo_error \<Rightarrow> kube_error option" where
  "kube_error_of (KubeError k) = Some k"
| "kube_error_of (WrappedError msg e) = kube_error_of e"
| "kube_error_of _ = None"

definition err_has_reason :: "repo_error \<Rightarrow> StatusReason \<Rightarrow> bool" where
  "err_has_reason e reason = (case kube_error_of e of None \<Rightarrow> False | Some k \<Rightarrow> ke_Reason k = reason)"

definition StatusCausesFromAPIStatus :: "repo_error \<Rightarrow> StatusCause list" where
  "StatusCausesFromAPIStatus e = (case kube_error_of e of None \<Rightarrow> [] | Some k \<Rightarrow> ke_Causes k)"

fun FieldErrorsFromInternalValidationError :: "repo_error \<Rightarrow> field_error list" where
  "FieldErrorsFromInternalValidationError (InternalValidationError errs) = errs"
| "FieldErrorsFromInternalValidationError (WrappedError msg e) = FieldErrorsFromInternalValidationError e"
| "FieldErrorsFromInternalValidationError _ = []"

fun IsInternalValidationError :: "repo_error \<Rightarrow> bool" where
  "IsInternalValidationError (InternalValidationError errs) = True"
| "IsInternalValidationError (WrappedError msg e) = IsInternalValidationError e"
| "IsInternalValidationError _ = False"

text \<open>A read that turns \<open>IsNotFound\<close> into an error of the repository and returns other errors.\<close>

definition get_or ::
  "sentinel \<Rightarrow> kube_resource \<Rightarrow> (be_trace \<Rightarrow> string \<Rightarrow> string \<Rightarrow> kube_error + 'a) \<Rightarrow> string \<Rightarrow> string
     \<Rightarrow> (repo_error, 'a) be_step"
where
  "get_or notFound res get ns name =
     and_then (kube_get res get ns name) (\<lambda>r. case r of
       Inr x \<Rightarrow> proceed x
     | Inl err \<Rightarrow> if IsNotFound err then stop (SentinelError notFound) else stop (KubeError err))"

text \<open>A list whose error is returned.\<close>

definition list_all_of ::
  "kube_resource \<Rightarrow> (be_trace \<Rightarrow> string \<Rightarrow> kube_error + 'a) \<Rightarrow> string \<Rightarrow> (repo_error, 'a) be_step"
where
  "list_all_of res lst ns =
     and_then (kube_list res lst ns) (\<lambda>r. case r of Inr x \<Rightarrow> proceed x | Inl err \<Rightarrow> stop (KubeError err))"

text \<open>A write; \<open>translate\<close> gives the error of the repository for the errors it tells apart.\<close>

definition store_or ::
  "(kube_error \<Rightarrow> repo_error) \<Rightarrow> (be_trace \<Rightarrow> be_call \<Rightarrow> kube_error + 'a) \<Rightarrow> be_call \<Rightarrow> (repo_error, 'a) be_step"
where
  "store_or translate store c =
     and_then (kube_store store c) (\<lambda>r. case r of Inr x \<Rightarrow> proceed x | Inl err \<Rightarrow> stop (translate err))"

definition delete_or ::
  "sentinel \<Rightarrow> be_client \<Rightarrow> ResourcePolicyResource \<Rightarrow> string \<Rightarrow> string \<Rightarrow> (repo_error, unit) be_step"
where
  "delete_or notFound cl res ns name =
     and_then (kube_delete cl res ns name) (\<lambda>r. case r of
       None \<Rightarrow> proceed ()
     | Some err \<Rightarrow> if IsNotFound err then stop (SentinelError notFound) else stop (KubeError err))"

lemma emits_repo_calls [emit_intros]:
  "A (GetCall res ns name) \<Longrightarrow> emits A (get_or e res get ns name)"
  "A (ListCall res ns) \<Longrightarrow> emits A (list_all_of res lst ns)"
  "A c \<Longrightarrow> emits A (store_or f store c)"
  "A (DeleteCall r ns name) \<Longrightarrow> emits A (delete_or e cl r ns name)"
  by (auto simp: get_or_def list_all_of_def store_or_def delete_or_def intro!: emit_intros split: sum.splits option.splits)

end
