(* ===== verification/Backend_Http.thy ===== *)
theory Backend_Http
  imports Backend_Objects Selectors
begin

text \<open>
  The parts of the HTTP API every handler uses: the responses of \<open>backend/api/response_errors.go\<close>
  and \<open>response_success.go\<close>, content types, request bodies and locations of \<open>helpers.go\<close>,
  the authenticators and policies of \<open>backend/internal/auth\<close> and \<open>requireAuth\<close> of
  \<open>backend/api/auth.go\<close>.

  A handler is a step that ends with a response. The decoder of a body
  (\<open>encoding/json\<close> or the YAML serializer), the header authenticator and the TokenReview API
  are arguments. A response body that cannot be written to the connection is not modelled.
\<close>

section \<open>Requests and responses\<close>

text \<open>\<open>rq_Header\<close> is \<open>Header.Values\<close>, \<open>rq_Query\<close> the query parameters.\<close>

record http_request =
  rq_Method :: string
  rq_Header :: "string \<Rightarrow> string list"
  rq_Query :: "string \<Rightarrow> string list"
  rq_Body :: string

definition header_get :: "http_request \<Rightarrow> string \<Rightarrow> string" where
  "header_get rq name = (case rq_Header rq name of [] \<Rightarrow> [] | v # _ \<Rightarrow> v)"

datatype ErrorCauseOrigin = OriginInternal | OriginKubernetes

record ConflictError =
  ce_Origin :: ErrorCauseOrigin
  ce_Message :: string

record ValidationError =
  ve_Origin :: ErrorCauseOrigin
  ve_Type :: string
  ve_Field :: string
  ve_Message :: string

record ErrorCause =
  ec_ConflictCauses :: "ConflictError list"
  ec_ValidationErrors :: "ValidationError list"

record ErrorResponse =
  er_Code :: string
  er_Message :: string
  er_Cause :: "ErrorCause option"

datatype 'd reply = DataBody 'd | ErrorBody ErrorResponse | NoBody

record 'd http_response =
  rp_Status :: nat
  rp_Location :: string
  rp_Body :: "'d reply"

type_synonym ('d, 'a) http_step = "('d http_response, 'a) be_step"

text \<open>How the field library renders the type, the path and the body of a field error.\<close>

record field_rendering =
  fr_ErrorType :: "field_error \<Rightarrow> string"
  fr_Field :: "field_error \<Rightarrow> string"
  fr_ErrorBody :: "field_error \<Rightarrow> string"

section \<open>Error responses\<close>

definition errMsgNotFound :: string where "errMsgNotFound = ''the requested resource could not be found''"
definition errMsgUnauthorized :: string where "errMsgUnauthorized = ''authentication is required to access this resource''"
definition errMsgForbidden :: string where "errMsgForbidden = ''you are not authorized to access this resource''"
definition errMsgPathParamsInvalid :: string where "errMsgPathParamsInvalid = ''path parameters were invalid''"
definition errMsgQueryParamsInvalid :: string where "errMsgQueryParamsInvalid = ''query parameters were invalid''"
definition errMsgRequestBodyInvalid :: string where "errMsgRequestBodyInvalid = ''request body was invalid''"
definition errMsgInternalValidation :: string where
  "errMsgInternalValidation = ''validation error (see .cause.validation_errors[] for details)''"
definition errMsgKubernetesValidation :: string where
  "errMsgKubernetesValidation = ''kubernetes validation error (see .cause.validation_errors[] for details) (note: .cause.validation_errors[].field values correspond to the internal k8s object, NOT the request body)''"
definition errMsgKubernetesConflict :: string where
  "errMsgKubernetesConflict = ''kubernetes conflict error (see .cause.conflict_cause[] for details)''"

definition errorResponse :: "nat \<Rightarrow> string \<Rightarrow> ErrorCause option \<Rightarrow> 'd http_response" where
  "errorResponse status msg cause = \<lparr>rp_Status = status, rp_Location = [],
     rp_Body = ErrorBody \<lparr>er_Code = nat_dec status, er_Message = msg, er_Cause = cause\<rparr>\<rparr>"

definition serverErrorResponse :: "'d http_response" where
  "serverErrorResponse = errorResponse 500 ''the server encountered a problem and could not process your request'' None"

definition badRequestResponse :: "string \<Rightarrow> 'd http_response" where
  "badRequestResponse err = errorResponse 400 err None"

definition unauthorizedResponse :: "'d http_response" where
  "unauthorizedResponse = errorResponse 401 errMsgUnauthorized None"

definition forbiddenResponse :: "'d http_response" where
  "forbiddenResponse = errorResponse 403 errMsgForbidden None"

definition notFoundResponse :: "'d http_response" where
  "notFoundResponse = errorResponse 404 errMsgNotFound None"

definition methodNotAllowedResponse :: "http_request \<Rightarrow> 'd http_response" where
  "methodNotAllowedResponse rq =
     errorResponse 405 (''the '' @ rq_Method rq @ '' method is not supported for this resource'') None"

definition conflictResponse :: "string \<Rightarrow> StatusCause list \<Rightarrow> 'd http_response" where
  "conflictResponse err k8sCauses =
     (let conflictErrs = map (\<lambda>cause. \<lparr>ce_Origin = OriginKubernetes, ce_Message = sc_Message cause\<rparr>) k8sCauses;
          msg = (if conflictErrs \<noteq> [] then errMsgKubernetesConflict else err)
      in errorResponse 409 msg (Some \<lparr>ec_ConflictCauses = conflictErrs, ec_ValidationErrors = []\<rparr>))"

definition internalConflictResponse :: "string \<Rightarrow> 'd http_response" where
  "internalConflictResponse err =
     errorResponse 409 err (Some \<lparr>ec_ConflictCauses = [\<lparr>ce_Origin = OriginInternal, ce_Message = err\<rparr>],
       ec_ValidationErrors = []\<rparr>)"

definition requestEntityTooLargeResponse :: "string \<Rightarrow> 'd http_response" where
  "requestEntityTooLargeResponse err = errorResponse 413 err None"

definition unsupportedMediaTypeResponse :: "string \<Rightarrow> 'd http_response" where
  "unsupportedMediaTypeResponse err = errorResponse 415 err None"

definition failedValidationResponse ::
  "field_rendering \<Rightarrow> string \<Rightarrow> field_error list \<Rightarrow> StatusCause list \<Rightarrow> 'd http_response"
where
  "failedValidationResponse fr msg errs k8sCauses =
     errorResponse 422 msg (Some \<lparr>ec_ConflictCauses = [], ec_ValidationErrors =
       map (\<lambda>e. \<lparr>ve_Origin = OriginInternal, ve_Type = fr_ErrorType fr e, ve_Field = fr_Field fr e,
                 ve_Message = fr_ErrorBody fr e\<rparr>) errs
       @ map (\<lambda>c. \<lparr>ve_Origin = OriginKubernetes, ve_Type = sc_Type c, ve_Field = sc_Field c,
                   ve_Message = sc_Message c\<rparr>) k8sCauses\<rparr>)"

section \<open>Success responses\<close>

definition dataResponse :: "'d \<Rightarrow> 'd http_response" where
  "dataResponse body = \<lparr>rp_Status = 200, rp_Location = [], rp_Body = DataBody body\<rparr>"

definition createdResponse :: "'d \<Rightarrow> string \<Rightarrow> 'd http_response" where
  "createdResponse body location = \<lparr>rp_Status = 201, rp_Location = location, rp_Body = DataBody body\<rparr>"

definition deletedResponse :: "'d http_response" where
  "deletedResponse = \<lparr>rp_Status = 204, rp_Location = [], rp_Body = NoBody\<rparr>"

section \<open>Authentication\<close>

definition withAuthenticatedGroup :: "string list \<Rightarrow> string list" where
  "withAuthenticatedGroup groups =
     (if ''system:authenticated'' \<notin> set groups then groups @ [''system:authenticated''] else groups)"

definition trim_prefix :: "string \<Rightarrow> string \<Rightarrow> string" where
  "trim_prefix s pre = (if has_prefix s pre then drop (length pre) s else s)"

text \<open>
  An authenticator gives an error, no identity, or a user. The first wraps the header
  authenticator of \<open>k8s.io/apiserver\<close>, the second asks for a TokenReview.
\<close>

type_synonym authenticator = "http_request \<Rightarrow> string + user_info option"

definition NewRequestAuthenticator :: "authenticator \<Rightarrow> string \<Rightarrow> authenticator" where
  "NewRequestAuthenticator requestHeaderAuthenticator useridPrefix rq =
     (case requestHeaderAuthenticator rq of
        Inl err \<Rightarrow> Inl err
      | Inr None \<Rightarrow> Inr None
      | Inr (Some u) \<Rightarrow>
          Inr (Some \<lparr>ui_Name = (if useridPrefix \<noteq> [] then trim_prefix (ui_Name u) useridPrefix else ui_Name u),
                ui_UID = [], ui_Groups = withAuthenticatedGroup (ui_Groups u), ui_Extra = ui_Extra u\<rparr>))"

record TokenReviewStatus =
  tr_Authenticated :: bool
  tr_User :: user_info

definition NewBearerTokenAuthenticator ::
  "(string \<Rightarrow> string + TokenReviewStatus) \<Rightarrow> string \<Rightarrow> string \<Rightarrow> authenticator"
where
  "NewBearerTokenAuthenticator tokenReviews header prefix rq =
     (case rq_Header rq header of
        [] \<Rightarrow> Inr None
      | _ # _ # _ \<Rightarrow> Inl (''multiple values found for header '' @ go_quote header @ ''; refusing to authenticate'')
      | [raw] \<Rightarrow>
          if prefix \<noteq> [] \<and> \<not> has_prefix raw prefix then Inr None
          else let token = trim_space (if prefix \<noteq> [] then trim_prefix raw prefix else raw)
               in if token = [] then Inr None
                  else (case tokenReviews token of
                          Inl err \<Rightarrow> Inl (''failed to create TokenReview: '' @ err)
                        | Inr review \<Rightarrow>
                            if \<not> tr_Authenticated review then Inr None
                            else Inr (Some \<lparr>ui_Name = ui_Name (tr_User review), ui_UID = ui_UID (tr_User review),
                                   ui_Groups = withAuthenticatedGroup (ui_Groups (tr_User review)),
                                   ui_Extra = ui_Extra (tr_User review)\<rparr>)))"

section \<open>Authorization\<close>

definition resourceGVRMap :: "ResourcePolicyResource \<Rightarrow> GroupVersionResource" where
  "resourceGVRMap r = (case r of
       Namespaces \<Rightarrow> \<lparr>gvr_Group = [], gvr_Version = ''v1'', gvr_Resource = r\<rparr>
     | PersistentVolumeClaims \<Rightarrow> \<lparr>gvr_Group = [], gvr_Version = ''v1'', gvr_Resource = r\<rparr>
     | Secrets \<Rightarrow> \<lparr>gvr_Group = [], gvr_Version = ''v1'', gvr_Resource = r\<rparr>
     | StorageClasses \<Rightarrow> \<lparr>gvr_Group = ''storage.k8s.io'', gvr_Version = ''v1'', gvr_Resource = r\<rparr>
     | WorkspaceKinds \<Rightarrow> \<lparr>gvr_Group = ''kubeflow.org'', gvr_Version = ''v1beta1'', gvr_Resource = r\<rparr>
     | Workspaces \<Rightarrow> \<lparr>gvr_Group = ''kubeflow.org'', gvr_Version = ''v1beta1'', gvr_Resource = r\<rparr>)"

definition NewResourcePolicy ::
  "ResourcePolicyVerb \<Rightarrow> ResourcePolicyResource \<Rightarrow> ResourcePolicyResourceMeta \<Rightarrow> ResourcePolicy"
where
  "NewResourcePolicy verb resource resourceMeta =
     \<lparr>rp_Verb = verb, rp_GVR = resourceGVRMap resource, rp_ResourceMeta = resourceMeta\<rparr>"

definition AttributesFor :: "ResourcePolicy \<Rightarrow> user_info \<Rightarrow> Attributes" where
  "AttributesFor p u = \<lparr>at_User = u, at_Verb = rp_Verb p, at_Namespace = rpm_Namespace (rp_ResourceMeta p),
     at_APIGroup = gvr_Group (rp_GVR p), at_APIVersion = gvr_Version (rp_GVR p),
     at_Resource = gvr_Resource (rp_GVR p), at_Name = rpm_Name (rp_ResourceMeta p)\<rparr>"

datatype decision = DecisionDeny | DecisionAllow | DecisionNoOpinion

text \<open>What an application is built with.\<close>

record be_app =
  app_Lib :: be_lib
  app_Fields :: field_rendering
  app_Client :: be_client
  app_AuthN :: authenticator
  app_AuthZ :: "be_trace \<Rightarrow> Attributes \<Rightarrow> string + decision"
  app_Now :: "be_trace \<Rightarrow> int"
  app_Selectors :: selector_lib
  app_ProxyUrlPrefix :: string

definition review :: "be_app \<Rightarrow> Attributes \<Rightarrow> ('o, string + decision) be_step" where
  "review app attributes = query (ReviewCall attributes) (\<lambda>r. r = Inr DecisionAllow) (\<lambda>t. app_AuthZ app t attributes)"

fun authorize_all :: "be_app \<Rightarrow> user_info \<Rightarrow> ResourcePolicy list \<Rightarrow> ('d, unit) http_step" where
  "authorize_all app u [] = proceed ()"
| "authorize_all app u (policy # policies) =
     and_then (review app (AttributesFor policy u)) (\<lambda>r. case r of
       Inl err \<Rightarrow> stop serverErrorResponse
     | Inr authorized \<Rightarrow>
         if authorized \<noteq> DecisionAllow then stop forbiddenResponse else authorize_all app u policies)"

definition requireAuth :: "be_app \<Rightarrow> http_request \<Rightarrow> ResourcePolicy list \<Rightarrow> ('d, user_info) http_step" where
  "requireAuth app rq policies =
     (case app_AuthN app rq of
        Inl err \<Rightarrow> stop serverErrorResponse
      | Inr None \<Rightarrow> stop unauthorizedResponse
      | Inr (Some u) \<Rightarrow> and_then (authorize_all app u policies) (\<lambda>_. proceed u))"

section \<open>Bodies, content types and parameters\<close>

definition MediaTypeJson :: string where "MediaTypeJson = ''application/json''"
definition MediaTypeYaml :: string where "MediaTypeYaml = ''application/yaml''"

definition ValidateContentType :: "be_app \<Rightarrow> http_request \<Rightarrow> string \<Rightarrow> ('d, unit) http_step" where
  "ValidateContentType app rq expectedMediaType =
     (let contentType = header_get rq ''Content-Type'' in
      if contentType = [] then stop (unsupportedMediaTypeResponse ''Content-Type header is missing'')
      else (case ParseMediaType (app_Lib app) contentType of
              Inl err \<Rightarrow> stop (badRequestResponse (''error parsing Content-Type header: '' @ err))
            | Inr mediaType \<Rightarrow>
                if mediaType \<noteq> expectedMediaType
                then stop (unsupportedMediaTypeResponse
                       (''unsupported media type: '' @ mediaType @ '', expected: '' @ expectedMediaType))
                else proceed ()))"

datatype decode_error = MaxBytesError string | EOFError string | OtherDecodeError string

text \<open>\<open>DecodeJSON\<close>; the flag says whether the error is a \<open>MaxBytesError\<close>.\<close>

definition DecodeJSON :: "(string \<Rightarrow> decode_error + 'a) \<Rightarrow> http_request \<Rightarrow> (bool \<times> string) + 'a" where
  "DecodeJSON decode rq =
     (case decode (rq_Body rq) of
        Inr v \<Rightarrow> Inr v
      | Inl (MaxBytesError m) \<Rightarrow> Inl (True, m)
      | Inl (EOFError m) \<Rightarrow> Inl (False, ''request body was empty: '' @ m)
      | Inl (OtherDecodeError m) \<Rightarrow> Inl (False, ''error decoding JSON: '' @ m))"

definition body_error :: "bool \<times> string \<Rightarrow> 'd http_response" where
  "body_error e = (case e of (maxBytes, msg) \<Rightarrow>
     if maxBytes then requestEntityTooLargeResponse msg
     else badRequestResponse (''error decoding request body: '' @ msg))"

text \<open>
  The common passage of the handlers with a JSON body: content type, decoding, a present
  \<open>data\<close> field (the decoder gives \<open>None\<close> for \<open>null\<close> or a missing one), and
  its validation.
\<close>

definition json_body ::
  "be_app \<Rightarrow> http_request \<Rightarrow> (string \<Rightarrow> decode_error + 'a option) \<Rightarrow> (field_path \<Rightarrow> 'a \<Rightarrow> field_error list) \<Rightarrow> ('d, 'a) http_step"
where
  "json_body app rq decode validate =
     and_then (ValidateContentType app rq MediaTypeJson) (\<lambda>_.
       case DecodeJSON decode rq of
         Inl e \<Rightarrow> stop (body_error e)
       | Inr None \<Rightarrow> stop (failedValidationResponse (app_Fields app) errMsgRequestBodyInvalid
                              [FieldRequired [Child ''data''] ''data is required''] [])
       | Inr (Some data) \<Rightarrow>
           let valErrs = validate [Child ''data''] data in
           if valErrs \<noteq> [] then stop (failedValidationResponse (app_Fields app) errMsgRequestBodyInvalid valErrs [])
           else proceed data)"

definition path_params :: "be_app \<Rightarrow> field_error list \<Rightarrow> ('d, unit) http_step" where
  "path_params app valErrs =
     (if valErrs \<noteq> [] then stop (failedValidationResponse (app_Fields app) errMsgPathParamsInvalid valErrs []) else proceed ())"

definition query_get :: "http_request \<Rightarrow> string \<Rightarrow> string" where
  "query_get rq name = (case rq_Query rq name of [] \<Rightarrow> [] | v # _ \<Rightarrow> v)"

definition query_params :: "be_app \<Rightarrow> field_error list \<Rightarrow> ('d, unit) http_step" where
  "query_params app valErrs =
     (if valErrs \<noteq> [] then stop (failedValidationResponse (app_Fields app) errMsgQueryParamsInvalid valErrs []) else proceed ())"

section \<open>Locations\<close>

text \<open>\<open>strings.Replace(s, old, new, 1)\<close> for a non-empty \<open>old\<close>.\<close>

fun replace_first :: "string \<Rightarrow> string \<Rightarrow> string \<Rightarrow> string" where
  "replace_first old new [] = []"
| "replace_first old new (c # cs) =
     (if has_prefix (c # cs) old then new @ drop (length old) (c # cs) else c # replace_first old new cs)"

definition LocationGetWorkspace :: "string \<Rightarrow> string \<Rightarrow> string" where
  "LocationGetWorkspace namespace name =
     replace_first '':name'' name (replace_first '':namespace'' namespace ''/api/v1/workspaces/:namespace/:name'')"

definition LocationGetWorkspaceKind :: "string \<Rightarrow> string" where
  "LocationGetWorkspaceKind name = replace_first '':name'' name ''/api/v1/workspacekinds/:name''"

definition LocationGetSecret :: "string \<Rightarrow> string \<Rightarrow> string" where
  "LocationGetSecret namespace name =
     replace_first '':name'' name (replace_first '':namespace'' namespace ''/api/v1/secrets/:namespace/:name'')"

section \<open>Running a handler\<close>

text \<open>The response of a handler, whether it returned early or not.\<close>

definition run_handler :: "('d, 'd http_response) http_step \<Rightarrow> be_trace \<Rightarrow> 'd http_response \<times> be_trace" where
  "run_handler h t = (case h t of (Inl r, t') \<Rightarrow> (r, t') | (Inr r, t') \<Rightarrow> (r, t'))"

end
