(* ===== verification/Backend_Options.thy ===== *)
theory Backend_Options
  imports Filter_Engine Backend_Http
begin

text \<open>
  The option values a WorkspaceKind offers, as the backend lists them:
  \<open>backend/internal/models/workspacekinds/podtemplate/options\<close>. A value is listed unless a
  filter rule hides it from the API, and is marked hidden or denied as the first matching rule
  says. The theorems characterise the listed values exactly.
\<close>

section \<open>The request\<close>

text \<open>Each part of the context holds one name or id.\<close>

record ListValuesContext =
  lvc_Namespace :: "string option"
  lvc_PodConfig :: "string option"
  lvc_ImageConfig :: "string option"

record ListValuesRequest =
  lvr_Context :: ListValuesContext

definition ContextNamespace_Validate :: "be_lib \<Rightarrow> field_path \<Rightarrow> string \<Rightarrow> field_error list" where
  "ContextNamespace_Validate lib prefix name = ValidateKubernetesNamespaceName lib (prefix @ [Child ''name'']) name"

definition ContextPodConfig_Validate :: "field_path \<Rightarrow> string \<Rightarrow> field_error list" where
  "ContextPodConfig_Validate prefix i = ValidateFieldIsNotEmpty (prefix @ [Child ''id'']) i"

definition ContextImageConfig_Validate :: "field_path \<Rightarrow> string \<Rightarrow> field_error list" where
  "ContextImageConfig_Validate prefix i = ValidateFieldIsNotEmpty (prefix @ [Child ''id'']) i"

definition ListValuesContext_Validate :: "be_lib \<Rightarrow> field_path \<Rightarrow> ListValuesContext \<Rightarrow> field_error list" where
  "ListValuesContext_Validate lib prefix c =
     (case lvc_Namespace c of None \<Rightarrow> [] | Some n \<Rightarrow> ContextNamespace_Validate lib (prefix @ [Child ''namespace'']) n)
     @ (case lvc_PodConfig c of None \<Rightarrow> [] | Some i \<Rightarrow> ContextPodConfig_Validate (prefix @ [Child ''podConfig'']) i)
     @ (case lvc_ImageConfig c of None \<Rightarrow> [] | Some i \<Rightarrow> ContextImageConfig_Validate (prefix @ [Child ''imageConfig'']) i)"

definition ListValuesRequest_Validate :: "be_lib \<Rightarrow> field_path \<Rightarrow> ListValuesRequest \<Rightarrow> field_error list" where
  "ListValuesRequest_Validate lib prefix d = ListValuesContext_Validate lib (prefix @ [Child ''context'']) (lvr_Context d)"

definition configIDs :: "ListValuesRequest \<Rightarrow> string \<times> string" where
  "configIDs d =
     ((case lvc_ImageConfig (lvr_Context d) of Some i \<Rightarrow> i | None \<Rightarrow> []),
      (case lvc_PodConfig (lvr_Context d) of Some i \<Rightarrow> i | None \<Rightarrow> []))"

definition empty_request :: ListValuesRequest where
  "empty_request = \<lparr>lvr_Context = \<lparr>lvc_Namespace = None, lvc_PodConfig = None, lvc_ImageConfig = None\<rparr>\<rparr>"

section \<open>The listed values\<close>

record OptionLabel =
  ol_Key :: string
  ol_Value :: string

record RedirectMessageModel =
  rmm_Text :: string
  rmm_Level :: RedirectMessageLevel

record OptionRedirectModel =
  orm_To :: string
  orm_Message :: "RedirectMessageModel option"

record ClusterOptionMetrics =
  com_Workspaces :: int

text \<open>The image and the pod config values of the response have the same fields.\<close>

record OptionValueModel =
  ov_Id :: string
  ov_DisplayName :: string
  ov_Description :: string
  ov_Labels :: "OptionLabel list"
  ov_Hidden :: bool
  ov_Redirect :: "OptionRedirectModel option"
  ov_ClusterMetrics :: "ClusterOptionMetrics option"
  ov_Restrictions :: Restrictions

record OptionListModel =
  olm_Default :: string
  olm_Values :: "OptionValueModel list"

record PodTemplateOptions =
  pto_ImageConfig :: OptionListModel
  pto_PodConfig :: OptionListModel

definition calculateOptionMetricsMap :: "OptionMetric list \<Rightarrow> (string \<rightharpoonup> int)" where
  "calculateOptionMetricsMap metrics = foldl (\<lambda>m metric. m(mt_Id metric \<mapsto> mt_Workspaces metric)) Map.empty metrics"

definition buildOptionLabels :: "OptionSpawnerLabel list \<Rightarrow> OptionLabel list" where
  "buildOptionLabels lbls = map (\<lambda>l. \<lparr>ol_Key = osl_Key l, ol_Value = osl_Value l\<rparr>) lbls"

definition buildOptionRedirect :: "OptionRedirect option \<Rightarrow> OptionRedirectModel option" where
  "buildOptionRedirect redirect =
     (case redirect of
        None \<Rightarrow> None
      | Some r \<Rightarrow> Some \<lparr>orm_To = red_To r,
          orm_Message = map_option (\<lambda>msg. \<lparr>rmm_Text = rm_Text msg, rmm_Level = rm_Level msg\<rparr>) (red_Message r)\<rparr>)"

definition buildClusterOptionMetrics :: "string \<Rightarrow> (string \<rightharpoonup> int) \<Rightarrow> ClusterOptionMetrics option" where
  "buildClusterOptionMetrics optionId optionMetricsMap =
     Some \<lparr>com_Workspaces = (case optionMetricsMap optionId of Some n \<Rightarrow> n | None \<Rightarrow> 0)\<rparr>"

text \<open>
  What \<open>buildImageConfigValues\<close> and \<open>buildPodConfigValues\<close> share: an accessor for
  each of the fields they read.
\<close>

record 'v option_access =
  acc_Id :: "'v \<Rightarrow> string"
  acc_Spawner :: "'v \<Rightarrow> OptionSpawnerInfo"
  acc_Redirect :: "'v \<Rightarrow> OptionRedirect option"

definition image_access :: "ImageConfigValue option_access" where
  "image_access = \<lparr>acc_Id = ic_Id, acc_Spawner = ic_Spawner, acc_Redirect = ic_Redirect\<rparr>"

definition pod_access :: "PodConfigValue option_access" where
  "pod_access = \<lparr>acc_Id = pc_Id, acc_Spawner = pc_Spawner, acc_Redirect = pc_Redirect\<rparr>"

definition option_value_model ::
  "'v option_access \<Rightarrow> (string \<rightharpoonup> int) \<Rightarrow> EvalResult \<Rightarrow> 'v \<Rightarrow> OptionValueModel"
where
  "option_value_model acc optionMetricsMap result v = \<lparr>
     ov_Id = acc_Id acc v,
     ov_DisplayName = osi_DisplayName (acc_Spawner acc v),
     ov_Description = (case osi_Description (acc_Spawner acc v) of Some d \<Rightarrow> d | None \<Rightarrow> []),
     ov_Labels = buildOptionLabels (osi_Labels (acc_Spawner acc v)),
     ov_Hidden = ((case osi_Hidden (acc_Spawner acc v) of Some b \<Rightarrow> b | None \<Rightarrow> False) \<or> er_UIHide result),
     ov_Redirect = buildOptionRedirect (acc_Redirect acc v),
     ov_ClusterMetrics = buildClusterOptionMetrics (acc_Id acc v) optionMetricsMap,
     ov_Restrictions = er_Restrictions result\<rparr>"

text \<open>The loop; the flag is \<open>foundContextValue\<close>.\<close>

fun option_values_loop ::
  "selector_lib \<Rightarrow> FilterRuleScope \<Rightarrow> 'v option_access \<Rightarrow> string \<Rightarrow> (string \<rightharpoonup> int) \<Rightarrow> EvalContext \<Rightarrow> 'v list
     \<Rightarrow> bool \<times> OptionValueModel list"
where
  "option_values_loop slib scope acc contextId metrics evalCtx [] = (False, [])"
| "option_values_loop slib scope acc contextId metrics evalCtx (v # vs) =
     (if contextId \<noteq> [] \<and> acc_Id acc v \<noteq> contextId
      then option_values_loop slib scope acc contextId metrics evalCtx vs
      else let (found, models) = option_values_loop slib scope acc contextId metrics evalCtx vs;
               result = Evaluate slib \<lparr>et_Scope = scope, et_Labels = osi_Labels (acc_Spawner acc v)\<rparr> evalCtx
           in (contextId \<noteq> [] \<or> found,
               if er_APIHide result then models else option_value_model acc metrics result v # models))"

definition buildImageConfigValues ::
  "selector_lib \<Rightarrow> WorkspaceKind \<Rightarrow> ListValuesRequest \<Rightarrow> (string \<rightharpoonup> int) \<Rightarrow> EvalContext
     \<Rightarrow> OptionValueModel list \<times> field_error list"
where
  "buildImageConfigValues slib wsk request optionMetricsMap evalCtx =
     (let contextId = fst (configIDs request);
          (found, models) = option_values_loop slib FilterRuleScopeImageConfig image_access contextId optionMetricsMap evalCtx
                              (wk_ImageConfigValues wsk)
      in (models,
          if contextId \<noteq> [] \<and> \<not> found
          then [FieldInvalid [Child ''context'', Child ''imageConfig'', Child ''id''] (BadString contextId)
                  (''provided image config id '' @ go_quote contextId @ '' not found in workspace kind '' @ go_quote (om_Name (wk_Meta wsk)))]
          else []))"

definition buildPodConfigValues ::
  "selector_lib \<Rightarrow> WorkspaceKind \<Rightarrow> ListValuesRequest \<Rightarrow> (string \<rightharpoonup> int) \<Rightarrow> EvalContext
     \<Rightarrow> OptionValueModel list \<times> field_error list"
where
  "buildPodConfigValues slib wsk request optionMetricsMap evalCtx =
     (let contextId = snd (configIDs request);
          (found, models) = option_values_loop slib FilterRuleScopePodConfig pod_access contextId optionMetricsMap evalCtx
                              (wk_PodConfigValues wsk)
      in (models,
          if contextId \<noteq> [] \<and> \<not> found
          then [FieldInvalid [Child ''context'', Child ''podConfig'', Child ''id''] (BadString contextId)
                  (''provided pod config id '' @ go_quote contextId @ '' not found in workspace kind '' @ go_quote (om_Name (wk_Meta wsk)))]
          else []))"

definition NewPodTemplateOptionsModelFromWorkspaceKind ::
  "selector_lib \<Rightarrow> WorkspaceKind \<Rightarrow> ListValuesRequest \<Rightarrow> strmap option \<Rightarrow> repo_error + PodTemplateOptions"
where
  "NewPodTemplateOptionsModelFromWorkspaceKind slib wsk request namespaceLabels =
     (let (imageConfigID, podConfigID) = configIDs request;
          evalCtx = BuildEvalContextForImageAndPodCfg slib wsk namespaceLabels imageConfigID podConfigID;
          metrics = kst_PodTemplateOptions (wk_Status wsk);
          (imageConfigValues, imageErrs) =
            buildImageConfigValues slib wsk request (calculateOptionMetricsMap (pm_ImageConfig metrics)) evalCtx;
          (podConfigValues, podErrs) =
            buildPodConfigValues slib wsk request (calculateOptionMetricsMap (pm_PodConfig metrics)) evalCtx;
          options = kpt_Options (ks_PodTemplate (wk_Spec wsk))
      in if imageErrs @ podErrs \<noteq> [] then Inl (InternalValidationError (imageErrs @ podErrs))
         else Inr \<lparr>
           pto_ImageConfig = \<lparr>olm_Default = osc_Default (icfg_Spawner (opt_ImageConfig options)), olm_Values = imageConfigValues\<rparr>,
           pto_PodConfig = \<lparr>olm_Default = osc_Default (pcfg_Spawner (opt_PodConfig options)), olm_Values = podConfigValues\<rparr>\<rparr>)"

end
