(* ===== verification/Backend_Workspaces.thy ===== *)
theory Backend_Workspaces
  imports Backend_Http
begin

text \<open>
  Writing Workspaces through the backend: the models of
  \<open>backend/internal/models/workspaces/types_write.go\<close> and \<open>funcs_write.go\<close>, the
  validators of \<open>helper/validation.go\<close> that ask the cluster, the repository
  \<open>backend/internal/repositories/workspaces/repo.go\<close> and the handlers of
  \<open>backend/api/workspaces_handler.go\<close> and \<open>workspace_actions_handler.go\<close>.
  Listing Workspaces is in \<open>Backend_Workspace_List\<close>.
\<close>

section \<open>Checks that ask the cluster\<close>

text \<open>An object that exists has a UID; it must carry the label.\<close>

definition label_errors :: "string \<Rightarrow> field_path \<Rightarrow> string \<Rightarrow> ObjectMeta \<Rightarrow> field_error list" where
  "label_errors label path subject meta =
     (if om_UID meta \<noteq> [] \<and> go_index (om_Labels meta) label \<noteq> ''true''
      then [FieldForbidden path (subject @ '' is not labeled with '' @ label @ ''=true'')]
      else [])"

definition ValidateKubernetesSecretIsMountable ::
  "be_client \<Rightarrow> field_path \<Rightarrow> string \<Rightarrow> string \<Rightarrow> (repo_error, field_error list) be_step"
where
  "ValidateKubernetesSecretIsMountable cl path namespace secretName =
     and_then (kube_get (PolicyResource Secrets) (cl_GetSecret cl) namespace secretName) (\<lambda>r. case r of
       Inl err \<Rightarrow>
         if IsNotFound err
         then proceed [FieldInvalid path (BadString secretName)
                         (''Secret '' @ go_quote secretName @ '' not found in namespace '' @ go_quote namespace)]
         else stop (KubeError err)
     | Inr secret \<Rightarrow> proceed (label_errors LabelCanMount path
                               (''Secret '' @ go_quote secretName @ '' in namespace '' @ go_quote namespace) (sec_Meta secret)))"

definition ValidateKubernetesPVCIsMountable ::
  "be_client \<Rightarrow> field_path \<Rightarrow> string \<Rightarrow> string \<Rightarrow> (repo_error, field_error list) be_step"
where
  "ValidateKubernetesPVCIsMountable cl path namespace pvcName =
     and_then (kube_get (PolicyResource PersistentVolumeClaims) (cl_GetPVC cl) namespace pvcName) (\<lambda>r. case r of
       Inl err \<Rightarrow>
         if IsNotFound err
         then proceed [FieldInvalid path (BadString pvcName)
                         (''PersistentVolumeClaim '' @ go_quote pvcName @ '' not found in namespace '' @ go_quote namespace)]
         else stop (KubeError err)
     | Inr pvc \<Rightarrow> proceed (label_errors LabelCanMount path
                            (''PersistentVolumeClaim '' @ go_quote pvcName @ '' in namespace '' @ go_quote namespace) (pvo_Meta pvc)))"

definition ValidateKubernetesStorageClassIsUsable ::
  "be_client \<Rightarrow> field_path \<Rightarrow> string \<Rightarrow> (repo_error, field_error list) be_step"
where
  "ValidateKubernetesStorageClassIsUsable cl path storageClassName =
     and_then (kube_get (PolicyResource StorageClasses) (cl_GetStorageClass cl) [] storageClassName) (\<lambda>r. case r of
       Inl err \<Rightarrow>
         if IsNotFound err
         then proceed [FieldInvalid path (BadString storageClassName) (''StorageClass '' @ go_quote storageClassName @ '' not found'')]
         else stop (KubeError err)
     | Inr sc \<Rightarrow> proceed (label_errors LabelCanUse path (''StorageClass '' @ go_quote storageClassName) (scl_Meta sc)))"

section \<open>Models\<close>

record PodMetadataMutate =
  pmm_Labels :: strmap
  pmm_Annotations :: strmap

record PodVolumeMountModel =
  vmm_PVCName :: string
  vmm_MountPath :: string
  vmm_ReadOnly :: bool

record PodSecretMountModel =
  smm_SecretName :: string
  smm_MountPath :: string
  smm_DefaultMode :: int

record PodVolumesMutate =
  vlm_Home :: "string option"
  vlm_Data :: "PodVolumeMountModel list"
  vlm_Secrets :: "PodSecretMountModel list"

record PodTemplateOptionsMutate =
  tom_ImageConfig :: string
  tom_PodConfig :: string

record PodTemplateMutate =
  ptm_PodMetadata :: PodMetadataMutate
  ptm_Volumes :: PodVolumesMutate
  ptm_Options :: PodTemplateOptionsMutate

record WorkspaceCreate =
  wc_Name :: string
  wc_DisplayName :: string
  wc_Kind :: string
  wc_Paused :: bool
  wc_PodTemplate :: PodTemplateMutate

record WorkspaceUpdate =
  wu_Revision :: string
  wu_DisplayName :: string
  wu_Paused :: bool
  wu_PodTemplate :: PodTemplateMutate

record WorkspaceActionPause =
  wap_Paused :: bool

subsection \<open>Validation\<close>

definition PodMetadataMutate_Validate :: "be_lib \<Rightarrow> field_path \<Rightarrow> PodMetadataMutate \<Rightarrow> field_error list" where
  "PodMetadataMutate_Validate lib prefix p =
     ValidateKubernetesLabels lib (prefix @ [Child ''labels'']) (pmm_Labels p)
     @ ValidateKubernetesAnnotations lib (prefix @ [Child ''annotations'']) (pmm_Annotations p)"

definition PodVolumeMount_Validate :: "be_lib \<Rightarrow> field_path \<Rightarrow> PodVolumeMountModel \<Rightarrow> field_error list" where
  "PodVolumeMount_Validate lib prefix p =
     ValidateKubernetesPVCName lib (prefix @ [Child ''pvcName'']) (vmm_PVCName p)
     @ ValidateFieldIsNotEmpty (prefix @ [Child ''mountPath'']) (vmm_MountPath p)"

definition PodSecretMount_Validate :: "be_lib \<Rightarrow> field_path \<Rightarrow> PodSecretMountModel \<Rightarrow> field_error list" where
  "PodSecretMount_Validate lib prefix p =
     ValidateKubernetesSecretName lib (prefix @ [Child ''secretName'']) (smm_SecretName p)
     @ ValidateFieldIsNotEmpty (prefix @ [Child ''mountPath'']) (smm_MountPath p)
     @ (if smm_DefaultMode p \<noteq> 0 \<and> (smm_DefaultMode p < 0 \<or> smm_DefaultMode p > 511)
        then [FieldInvalid (prefix @ [Child ''defaultMode'']) (BadInt (smm_DefaultMode p)) ''defaultMode must be between 0 and 511'']
        else [])"

definition PodVolumesMutate_Validate :: "be_lib \<Rightarrow> field_path \<Rightarrow> PodVolumesMutate \<Rightarrow> field_error list" where
  "PodVolumesMutate_Validate lib prefix p =
     (case vlm_Home p of None \<Rightarrow> [] | Some home \<Rightarrow> ValidateKubernetesPVCName lib (prefix @ [Child ''home'']) home)
     @ concat (map (\<lambda>(i, v). PodVolumeMount_Validate lib (prefix @ [Child ''data'', Index i]) v) (enumerate 0 (vlm_Data p)))
     @ concat (map (\<lambda>(i, s). PodSecretMount_Validate lib (prefix @ [Child ''secrets'', Index i]) s) (enumerate 0 (vlm_Secrets p)))"

definition PodTemplateOptionsMutate_Validate :: "field_path \<Rightarrow> PodTemplateOptionsMutate \<Rightarrow> field_error list" where
  "PodTemplateOptionsMutate_Validate prefix p =
     ValidateFieldIsNotEmpty (prefix @ [Child ''imageConfig'']) (tom_ImageConfig p)
     @ ValidateFieldIsNotEmpty (prefix @ [Child ''podConfig'']) (tom_PodConfig p)"

definition PodTemplateMutate_Validate :: "be_lib \<Rightarrow> field_path \<Rightarrow> PodTemplateMutate \<Rightarrow> field_error list" where
  "PodTemplateMutate_Validate lib prefix p =
     PodMetadataMutate_Validate lib (prefix @ [Child ''podMetadata'']) (ptm_PodMetadata p)
     @ PodVolumesMutate_Validate lib (prefix @ [Child ''volumes'']) (ptm_Volumes p)
     @ PodTemplateOptionsMutate_Validate (prefix @ [Child ''options'']) (ptm_Options p)"

definition WorkspaceCreate_Validate :: "be_lib \<Rightarrow> field_path \<Rightarrow> WorkspaceCreate \<Rightarrow> field_error list" where
  "WorkspaceCreate_Validate lib prefix w =
     ValidateWorkspaceName lib (prefix @ [Child ''name'']) (wc_Name w)
     @ ValidateWorkspaceKindName lib (prefix @ [Child ''kind'']) (wc_Kind w)
     @ PodTemplateMutate_Validate lib (prefix @ [Child ''podTemplate'']) (wc_PodTemplate w)"

definition WorkspaceUpdate_Validate :: "be_lib \<Rightarrow> field_path \<Rightarrow> WorkspaceUpdate \<Rightarrow> field_error list" where
  "WorkspaceUpdate_Validate lib prefix w =
     (if wu_Revision w = [] then [FieldRequired (prefix @ [Child ''revision'']) ''revision is required''] else [])
     @ PodTemplateMutate_Validate lib (prefix @ [Child ''podTemplate'']) (wu_PodTemplate w)"

subsection \<open>Kubernetes to model\<close>

definition ExtractPodMetadata :: "Workspace \<Rightarrow> PodMetadataMutate" where
  "ExtractPodMetadata ws =
     (case wpt_PodMetadata (ws_PodTemplate ws) of
        None \<Rightarrow> \<lparr>pmm_Labels = fmempty, pmm_Annotations = fmempty\<rparr>
      | Some md \<Rightarrow> \<lparr>pmm_Labels = md_Labels md, pmm_Annotations = md_Annotations md\<rparr>)"

definition extractDataVolumes :: "Workspace \<Rightarrow> PodVolumeMountModel list" where
  "extractDataVolumes ws =
     map (\<lambda>v. \<lparr>vmm_PVCName = pvm_PVCName v, vmm_MountPath = pvm_MountPath v,
               vmm_ReadOnly = (case pvm_ReadOnly v of Some b \<Rightarrow> b | None \<Rightarrow> False)\<rparr>)
       (pv_Data (wpt_Volumes (ws_PodTemplate ws)))"

definition extractSecretMounts :: "Workspace \<Rightarrow> PodSecretMountModel list" where
  "extractSecretMounts ws =
     map (\<lambda>s. \<lparr>smm_SecretName = psm_SecretName s, smm_MountPath = psm_MountPath s, smm_DefaultMode = psm_DefaultMode s\<rparr>)
       (pv_Secrets (wpt_Volumes (ws_PodTemplate ws)))"

definition buildPodTemplateMutate :: "Workspace \<Rightarrow> PodTemplateMutate" where
  "buildPodTemplateMutate ws = \<lparr>
     ptm_PodMetadata = ExtractPodMetadata ws,
     ptm_Volumes = \<lparr>vlm_Home = pv_Home (wpt_Volumes (ws_PodTemplate ws)), vlm_Data = extractDataVolumes ws,
                    vlm_Secrets = extractSecretMounts ws\<rparr>,
     ptm_Options = \<lparr>tom_ImageConfig = po_ImageConfig (ws_Options ws), tom_PodConfig = po_PodConfig (ws_Options ws)\<rparr>\<rparr>"

definition NewWorkspaceCreateModelFromWorkspace :: "Workspace \<Rightarrow> WorkspaceCreate" where
  "NewWorkspaceCreateModelFromWorkspace ws = \<lparr>
     wc_Name = ws_Name ws,
     wc_DisplayName = (case spec_DisplayName (ws_Spec ws) of Some d \<Rightarrow> d | None \<Rightarrow> []),
     wc_Kind = spec_Kind (ws_Spec ws), wc_Paused = spec_Paused (ws_Spec ws),
     wc_PodTemplate = buildPodTemplateMutate ws\<rparr>"

definition NewWorkspaceUpdateModelFromWorkspace :: "be_lib \<Rightarrow> Workspace \<Rightarrow> WorkspaceUpdate" where
  "NewWorkspaceUpdateModelFromWorkspace lib ws = \<lparr>
     wu_Revision = CalculateRevision lib (ws_Meta ws),
     wu_DisplayName = (case spec_DisplayName (ws_Spec ws) of Some d \<Rightarrow> d | None \<Rightarrow> []),
     wu_Paused = spec_Paused (ws_Spec ws),
     wu_PodTemplate = buildPodTemplateMutate ws\<rparr>"

definition NewWorkspaceActionPauseFromWorkspace :: "Workspace \<Rightarrow> WorkspaceActionPause" where
  "NewWorkspaceActionPauseFromWorkspace ws = \<lparr>wap_Paused = spec_Paused (ws_Spec ws)\<rparr>"

subsection \<open>Model to Kubernetes\<close>

definition volumes_path :: field_path where
  "volumes_path = [Child ''podTemplate'', Child ''volumes'']"

fun unpack_data ::
  "be_client \<Rightarrow> string \<Rightarrow> nat \<Rightarrow> PodVolumeMountModel list \<Rightarrow> (repo_error, field_error list \<times> PodVolumeMount list) be_step"
where
  "unpack_data cl namespace i [] = proceed ([], [])"
| "unpack_data cl namespace i (v # vs) =
     and_then (ValidateKubernetesPVCIsMountable cl (volumes_path @ [Child ''data'', Index i, Child ''pvcName'']) namespace (vmm_PVCName v)) (\<lambda>valErrs.
     and_then (unpack_data cl namespace (i + 1) vs) (\<lambda>(errs, mounts).
     proceed (valErrs @ errs,
       \<lparr>pvm_PVCName = vmm_PVCName v, pvm_MountPath = vmm_MountPath v, pvm_ReadOnly = Some (vmm_ReadOnly v)\<rparr> # mounts)))"

fun unpack_secrets ::
  "be_client \<Rightarrow> string \<Rightarrow> nat \<Rightarrow> PodSecretMountModel list \<Rightarrow> (repo_error, field_error list \<times> PodSecretMount list) be_step"
where
  "unpack_secrets cl namespace i [] = proceed ([], [])"
| "unpack_secrets cl namespace i (s # ss) =
     and_then (ValidateKubernetesSecretIsMountable cl (volumes_path @ [Child ''secrets'', Index i, Child ''secretName'']) namespace (smm_SecretName s)) (\<lambda>valErrs.
     and_then (unpack_secrets cl namespace (i + 1) ss) (\<lambda>(errs, mounts).
     proceed (valErrs @ errs,
       \<lparr>psm_SecretName = smm_SecretName s, psm_MountPath = smm_MountPath s, psm_DefaultMode = smm_DefaultMode s\<rparr> # mounts)))"

definition validateAndUnpackVolumes ::
  "be_client \<Rightarrow> PodVolumesMutate \<Rightarrow> string \<Rightarrow> (repo_error, string option \<times> PodVolumeMount list \<times> PodSecretMount list) be_step"
where
  "validateAndUnpackVolumes cl volumes namespace =
     and_then (case vlm_Home volumes of
                 None \<Rightarrow> proceed []
               | Some home \<Rightarrow> ValidateKubernetesPVCIsMountable cl (volumes_path @ [Child ''home'']) namespace home) (\<lambda>homeErrs.
     and_then (unpack_data cl namespace 0 (vlm_Data volumes)) (\<lambda>(dataErrs, dataVolumeMounts).
     and_then (unpack_secrets cl namespace 0 (vlm_Secrets volumes)) (\<lambda>(secretErrs, secretMounts).
     if homeErrs @ dataErrs @ secretErrs \<noteq> [] then stop (InternalValidationError (homeErrs @ dataErrs @ secretErrs))
     else proceed (vlm_Home volumes, dataVolumeMounts, secretMounts))))"

definition buildWorkspacePodTemplate ::
  "PodTemplateMutate \<Rightarrow> string option \<Rightarrow> PodVolumeMount list \<Rightarrow> PodSecretMount list \<Rightarrow> WorkspacePodTemplate"
where
  "buildWorkspacePodTemplate podTemplate homeVolumeName dataVolumeMounts secretMounts = \<lparr>
     wpt_PodMetadata = Some \<lparr>md_Labels = pmm_Labels (ptm_PodMetadata podTemplate),
                              md_Annotations = pmm_Annotations (ptm_PodMetadata podTemplate)\<rparr>,
     wpt_Volumes = \<lparr>pv_Home = homeVolumeName, pv_Data = dataVolumeMounts, pv_Secrets = secretMounts\<rparr>,
     wpt_Options = \<lparr>po_ImageConfig = tom_ImageConfig (ptm_Options podTemplate),
                    po_PodConfig = tom_PodConfig (ptm_Options podTemplate)\<rparr>\<rparr>"

definition displayNamePtr :: "string \<Rightarrow> string option" where
  "displayNamePtr displayName = (if displayName = [] then None else Some displayName)"

text \<open>The zero value of the status, which a new object is sent with.\<close>

definition zero_status :: WorkspaceStatus where
  "zero_status = \<lparr>st_Activity = empty_activity, st_LastRunningTime = 0, st_PauseTime = 0, st_PendingRestart = False,
     st_PodTemplateOptions = \<lparr>os_ImageConfig = \<lparr>oi_Desired = [], oi_RedirectChain = []\<rparr>,
                              os_PodConfig = \<lparr>oi_Desired = [], oi_RedirectChain = []\<rparr>\<rparr>,
     st_PodTemplatePod = \<lparr>ps_Name = [], ps_NodeName = [], ps_ServiceAccountName = [], ps_Containers = [], ps_InitContainers = []\<rparr>,
     st_State = WorkspaceStateUnset, st_StateMessage = []\<rparr>"

definition NewWorkspaceFromWorkspaceCreateModel ::
  "be_client \<Rightarrow> WorkspaceCreate \<Rightarrow> string \<Rightarrow> (repo_error, Workspace) be_step"
where
  "NewWorkspaceFromWorkspaceCreateModel cl workspaceCreate namespace =
     and_then (validateAndUnpackVolumes cl (ptm_Volumes (wc_PodTemplate workspaceCreate)) namespace)
       (\<lambda>(homeVolumeName, dataVolumeMounts, secretMounts).
     proceed \<lparr>
       ws_Meta = empty_meta\<lparr>om_Name := wc_Name workspaceCreate, om_Namespace := namespace\<rparr>,
       ws_Spec = \<lparr>spec_Paused = wc_Paused workspaceCreate,
                  spec_DisplayName = displayNamePtr (wc_DisplayName workspaceCreate),
                  spec_Kind = wc_Kind workspaceCreate,
                  spec_PodTemplate = buildWorkspacePodTemplate (wc_PodTemplate workspaceCreate) homeVolumeName dataVolumeMounts secretMounts\<rparr>,
       ws_Status = zero_status\<rparr>)"

definition ApplyWorkspaceUpdateModelToWorkspace ::
  "be_client \<Rightarrow> WorkspaceUpdate \<Rightarrow> Workspace \<Rightarrow> (repo_error, Workspace) be_step"
where
  "ApplyWorkspaceUpdateModelToWorkspace cl workspaceUpdate workspace =
     and_then (validateAndUnpackVolumes cl (ptm_Volumes (wu_PodTemplate workspaceUpdate)) (ws_Namespace workspace))
       (\<lambda>(_, dataVolumeMounts, secretMounts).
     proceed (workspace\<lparr>ws_Spec := (ws_Spec workspace)\<lparr>
       spec_Paused := wu_Paused workspaceUpdate,
       spec_DisplayName := displayNamePtr (wu_DisplayName workspaceUpdate),
       spec_PodTemplate := buildWorkspacePodTemplate (wu_PodTemplate workspaceUpdate)
         (vlm_Home (ptm_Volumes (wu_PodTemplate workspaceUpdate))) dataVolumeMounts secretMounts\<rparr>\<rparr>))"

section \<open>Repository\<close>

definition Repo_GetWorkspace :: "be_app \<Rightarrow> string \<Rightarrow> string \<Rightarrow> (repo_error, WorkspaceUpdate) be_step" where
  "Repo_GetWorkspace app namespace workspaceName =
     and_then (get_or ErrWorkspaceNotFound (PolicyResource Workspaces) (cl_GetWorkspace (app_Client app)) namespace workspaceName)
       (\<lambda>workspace. proceed (NewWorkspaceUpdateModelFromWorkspace (app_Lib app) workspace))"

definition Repo_CreateWorkspace ::
  "be_app \<Rightarrow> string option \<Rightarrow> WorkspaceCreate \<Rightarrow> string \<Rightarrow> (repo_error, WorkspaceCreate) be_step"
where
  "Repo_CreateWorkspace app actor workspaceCreate namespace =
     and_then (NewWorkspaceFromWorkspaceCreateModel (app_Client app) workspaceCreate namespace) (\<lambda>workspace.
     let workspace = workspace\<lparr>ws_Meta := UpdateObjectMetaForCreate actor (ws_Meta workspace)\<rparr> in
     and_then (store_or (\<lambda>err. if IsAlreadyExists err then SentinelError ErrWorkspaceAlreadyExists else KubeError err)
                 (cl_StoreWorkspace (app_Client app)) (CreateCall (WorkspaceObject workspace))) (\<lambda>stored.
     proceed (NewWorkspaceCreateModelFromWorkspace stored)))"

definition Repo_UpdateWorkspace ::
  "be_app \<Rightarrow> string option \<Rightarrow> WorkspaceUpdate \<Rightarrow> string \<Rightarrow> string \<Rightarrow> (repo_error, WorkspaceUpdate) be_step"
where
  "Repo_UpdateWorkspace app actor workspaceUpdate namespace workspaceName =
     and_then (ask (app_Now app)) (\<lambda>now.
     and_then (get_or ErrWorkspaceNotFound (PolicyResource Workspaces) (cl_GetWorkspace (app_Client app)) namespace workspaceName) (\<lambda>workspace.
     if CalculateRevision (app_Lib app) (ws_Meta workspace) \<noteq> wu_Revision workspaceUpdate
     then stop (SentinelError ErrWorkspaceRevisionConflict)
     else and_then (ApplyWorkspaceUpdateModelToWorkspace (app_Client app) workspaceUpdate workspace) (\<lambda>workspace.
     let workspace = workspace\<lparr>ws_Meta := UpdateObjectMetaForUpdate (app_Lib app) actor now (ws_Meta workspace)\<rparr> in
     and_then (store_or (\<lambda>err. if IsNotFound err then SentinelError ErrWorkspaceNotFound else KubeError err)
                 (cl_StoreWorkspace (app_Client app)) (UpdateCall (WorkspaceObject workspace))) (\<lambda>stored.
     proceed (NewWorkspaceUpdateModelFromWorkspace (app_Lib app) stored)))))"

definition Repo_DeleteWorkspace :: "be_app \<Rightarrow> string \<Rightarrow> string \<Rightarrow> (repo_error, unit) be_step" where
  "Repo_DeleteWorkspace app namespace workspaceName =
     delete_or ErrWorkspaceNotFound (app_Client app) Workspaces namespace workspaceName"

definition pause_patch :: "bool \<Rightarrow> WorkspacePatchOperation list" where
  "pause_patch targetPauseState =
     [\<lparr>wp_Op = ''test'', wp_Path = ''/spec/paused'', wp_Value = PatchBool (\<not> targetPauseState)\<rparr>]
     @ (if \<not> targetPauseState
        then [\<lparr>wp_Op = ''test'', wp_Path = ''/status/state'', wp_Value = PatchState WorkspaceStatePaused\<rparr>] else [])
     @ [\<lparr>wp_Op = ''replace'', wp_Path = ''/spec/paused'', wp_Value = PatchBool targetPauseState\<rparr>]"

definition Repo_HandlePauseAction ::
  "be_app \<Rightarrow> string \<Rightarrow> string \<Rightarrow> WorkspaceActionPause \<Rightarrow> (repo_error, WorkspaceActionPause) be_step"
where
  "Repo_HandlePauseAction app namespace workspaceName workspaceActionPause =
     and_then (store_or (\<lambda>err. if IsNotFound err then SentinelError ErrWorkspaceNotFound
                               else if IsInvalid err then SentinelError ErrWorkspaceInvalidState
                               else WrappedError ''failed to patch workspace: '' (KubeError err))
                 (cl_StoreWorkspace (app_Client app))
                 (PatchCall namespace workspaceName (pause_patch (wap_Paused workspaceActionPause)))) (\<lambda>workspace.
     proceed (NewWorkspaceActionPauseFromWorkspace workspace))"

section \<open>Handlers\<close>

text \<open>The actor of an audit annotation.\<close>

abbreviation actor_of :: "user_info \<Rightarrow> string option" where
  "actor_of u \<equiv> Some (ui_Name u)"

definition workspace_params :: "be_app \<Rightarrow> string \<Rightarrow> string \<Rightarrow> ('d, unit) http_step" where
  "workspace_params app namespace workspaceName =
     path_params app (ValidateKubernetesNamespaceName (app_Lib app) [Child ''namespace''] namespace
       @ ValidateWorkspaceName (app_Lib app) [Child ''name''] workspaceName)"

definition namespace_params :: "be_app \<Rightarrow> string \<Rightarrow> ('d, unit) http_step" where
  "namespace_params app namespace =
     path_params app (ValidateKubernetesNamespaceName (app_Lib app) [Child ''namespace''] namespace)"

abbreviation policy :: "ResourcePolicyVerb \<Rightarrow> ResourcePolicyResource \<Rightarrow> string \<Rightarrow> string \<Rightarrow> ResourcePolicy" where
  "policy verb resource ns name \<equiv> NewResourcePolicy verb resource \<lparr>rpm_Namespace = ns, rpm_Name = name\<rparr>"

definition GetWorkspaceHandler ::
  "be_app \<Rightarrow> http_request \<Rightarrow> string \<Rightarrow> string \<Rightarrow> (WorkspaceUpdate, WorkspaceUpdate http_response) http_step"
where
  "GetWorkspaceHandler app rq namespace workspaceName =
     and_then (workspace_params app namespace workspaceName) (\<lambda>_.
     and_then (requireAuth app rq [policy VerbGet Workspaces namespace workspaceName]) (\<lambda>_.
     and_then (attempt (Repo_GetWorkspace app namespace workspaceName)) (\<lambda>r. case r of
       Inl err \<Rightarrow> if errors_is err ErrWorkspaceNotFound then stop notFoundResponse else stop serverErrorResponse
     | Inr workspace \<Rightarrow> proceed (dataResponse workspace))))"

definition create_workspace_error :: "be_app \<Rightarrow> repo_error \<Rightarrow> 'd http_response" where
  "create_workspace_error app err =
     (if IsInternalValidationError err
      then failedValidationResponse (app_Fields app) errMsgInternalValidation (FieldErrorsFromInternalValidationError err) []
      else if errors_is err ErrWorkspaceAlreadyExists
      then conflictResponse (sentinel_text ErrWorkspaceAlreadyExists) (StatusCausesFromAPIStatus err)
      else if err_has_reason err ReasonInvalid
      then failedValidationResponse (app_Fields app) errMsgKubernetesValidation [] (StatusCausesFromAPIStatus err)
      else serverErrorResponse)"

definition CreateWorkspaceHandler ::
  "be_app \<Rightarrow> (string \<Rightarrow> decode_error + WorkspaceCreate option) \<Rightarrow> http_request \<Rightarrow> string
     \<Rightarrow> (WorkspaceCreate, WorkspaceCreate http_response) http_step"
where
  "CreateWorkspaceHandler app decode rq namespace =
     and_then (namespace_params app namespace) (\<lambda>_.
     and_then (json_body app rq decode (WorkspaceCreate_Validate (app_Lib app))) (\<lambda>workspaceCreate.
     and_then (requireAuth app rq [policy VerbCreate Workspaces namespace (wc_Name workspaceCreate)]) (\<lambda>actor.
     and_then (attempt (Repo_CreateWorkspace app (actor_of actor) workspaceCreate namespace)) (\<lambda>r. case r of
       Inl err \<Rightarrow> stop (create_workspace_error app err)
     | Inr createdWorkspace \<Rightarrow>
         proceed (createdResponse createdWorkspace (LocationGetWorkspace namespace (wc_Name createdWorkspace)))))))"

definition update_workspace_error :: "be_app \<Rightarrow> repo_error \<Rightarrow> 'd http_response" where
  "update_workspace_error app err =
     (if errors_is err ErrWorkspaceNotFound then notFoundResponse
      else if IsInternalValidationError err
      then failedValidationResponse (app_Fields app) errMsgInternalValidation (FieldErrorsFromInternalValidationError err) []
      else if errors_is err ErrWorkspaceRevisionConflict
      then internalConflictResponse (sentinel_text ErrWorkspaceRevisionConflict)
      else if err_has_reason err ReasonInvalid
      then failedValidationResponse (app_Fields app) errMsgKubernetesValidation [] (StatusCausesFromAPIStatus err)
      else serverErrorResponse)"

definition UpdateWorkspaceHandler ::
  "be_app \<Rightarrow> (string \<Rightarrow> decode_error + WorkspaceUpdate option) \<Rightarrow> http_request \<Rightarrow> string \<Rightarrow> string
     \<Rightarrow> (WorkspaceUpdate, WorkspaceUpdate http_response) http_step"
where
  "UpdateWorkspaceHandler app decode rq namespace workspaceName =
     and_then (workspace_params app namespace workspaceName) (\<lambda>_.
     and_then (requireAuth app rq [policy VerbUpdate Workspaces namespace workspaceName]) (\<lambda>actor.
     and_then (json_body app rq decode (WorkspaceUpdate_Validate (app_Lib app))) (\<lambda>workspaceUpdate.
     and_then (attempt (Repo_UpdateWorkspace app (actor_of actor) workspaceUpdate namespace workspaceName)) (\<lambda>r. case r of
       Inl err \<Rightarrow> stop (update_workspace_error app err)
     | Inr updatedWorkspace \<Rightarrow> proceed (dataResponse updatedWorkspace)))))"

definition DeleteWorkspaceHandler ::
  "be_app \<Rightarrow> http_request \<Rightarrow> string \<Rightarrow> string \<Rightarrow> (unit, unit http_response) http_step"
where
  "DeleteWorkspaceHandler app rq namespace workspaceName =
     and_then (workspace_params app namespace workspaceName) (\<lambda>_.
     and_then (requireAuth app rq [policy VerbDelete Workspaces namespace workspaceName]) (\<lambda>_.
     and_then (attempt (Repo_DeleteWorkspace app namespace workspaceName)) (\<lambda>r. case r of
       Inl err \<Rightarrow>
         stop (if errors_is err ErrWorkspaceNotFound then notFoundResponse
               else if err_has_reason err ReasonConflict
               then conflictResponse (repo_error_text err) (StatusCausesFromAPIStatus err)
               else serverErrorResponse)
     | Inr _ \<Rightarrow> proceed deletedResponse)))"

definition PauseActionWorkspaceHandler ::
  "be_app \<Rightarrow> (string \<Rightarrow> decode_error + WorkspaceActionPause option) \<Rightarrow> http_request \<Rightarrow> string \<Rightarrow> string
     \<Rightarrow> (WorkspaceActionPause, WorkspaceActionPause http_response) http_step"
where
  "PauseActionWorkspaceHandler app decode rq namespace workspaceName =
     and_then (workspace_params app namespace workspaceName) (\<lambda>_.
     and_then (json_body app rq decode (\<lambda>_ _. [])) (\<lambda>workspaceActionPause.
     and_then (requireAuth app rq [policy VerbUpdate Workspaces namespace workspaceName]) (\<lambda>_.
     and_then (attempt (Repo_HandlePauseAction app namespace workspaceName workspaceActionPause)) (\<lambda>r. case r of
       Inl err \<Rightarrow>
         stop (if errors_is err ErrWorkspaceNotFound then notFoundResponse
               else if errors_is err ErrWorkspaceInvalidState
               then conflictResponse (sentinel_text ErrWorkspaceInvalidState)
                      (\<lparr>sc_Type = [], sc_Field = [], sc_Message = sentinel_text ErrWorkspaceInvalidState\<rparr>
                        # StatusCausesFromAPIStatus err)
               else serverErrorResponse)
     | Inr state \<Rightarrow> proceed (dataResponse state)))))"

end
