(* ===== verification/Backend_Kinds.thy ===== *)
theory Backend_Kinds
  imports Backend_Options Backend_Workspaces
begin

text \<open>
  WorkspaceKinds in the backend: the image references of \<open>models/common/assets\<close>, the models
  of \<open>models/workspacekinds\<close>, the repository \<open>repositories/workspacekinds/repo.go\<close> and
  the handlers of \<open>workspacekinds_handler.go\<close>, \<open>workspacekind_assets_handler.go\<close> and
  \<open>workspacekind_podtemplate_options_handler.go\<close> of \<open>backend/api\<close>.
\<close>

section \<open>Image references\<close>

datatype ImageRefErrorCode = ImageRefErrorCodeConfigMapMissing | ImageRefErrorCodeConfigMapKeyMissing
  | ImageRefErrorCodeConfigMapOther | ImageRefErrorCodeConfigMapUnknown

record ImageRef =
  ir_URL :: string
  ir_Error :: "ImageRefErrorCode option"

datatype wskAssetType = wskAssetTypeIcon | wskAssetTypeLogo

definition configMapStatusToErrorCode :: "WorkspaceKindAssetConfigMapStatus option \<Rightarrow> ImageRefErrorCode option" where
  "configMapStatusToErrorCode status =
     (case status of
        None \<Rightarrow> None
      | Some s \<Rightarrow> (case acs_Error s of
          None \<Rightarrow> None
        | Some ConfigMapErrorNotFound \<Rightarrow> Some ImageRefErrorCodeConfigMapMissing
        | Some ConfigMapErrorKeyNotFound \<Rightarrow> Some ImageRefErrorCodeConfigMapKeyMissing
        | Some ConfigMapErrorOther \<Rightarrow> Some ImageRefErrorCodeConfigMapOther))"

definition trim_right_slash :: "string \<Rightarrow> string" where
  "trim_right_slash s = rev (dropWhile (\<lambda>c. c = CHR ''/'') (rev s))"

definition newImageRefFromWorkspaceKindAsset ::
  "string \<Rightarrow> WorkspaceKindAsset \<Rightarrow> ImageAssetStatus \<Rightarrow> string \<Rightarrow> wskAssetType \<Rightarrow> ImageRef"
where
  "newImageRefFromWorkspaceKindAsset proxyUrlPrefix asset status workspaceKindName assetType =
     (case asset_Url asset of
        Some url \<Rightarrow> \<lparr>ir_URL = url, ir_Error = None\<rparr>
      | None \<Rightarrow>
          (case asset_ConfigMap asset of
             None \<Rightarrow> \<lparr>ir_URL = [], ir_Error = None\<rparr>
           | Some _ \<Rightarrow>
               let urlPrefix = trim_right_slash proxyUrlPrefix;
                   urlPath = replace_first '':name'' workspaceKindName
                     (case assetType of wskAssetTypeIcon \<Rightarrow> ''/api/v1/workspacekinds/:name/assets/icon''
                      | wskAssetTypeLogo \<Rightarrow> ''/api/v1/workspacekinds/:name/assets/logo'');
                   urlParams = (if ias_Sha256 status \<noteq> [] then ''?sha256='' @ ias_Sha256 status else [])
               in \<lparr>ir_URL = urlPrefix @ urlPath @ urlParams, ir_Error = configMapStatusToErrorCode (ias_ConfigMap status)\<rparr>))"

definition NewImageRefFromWorkspaceKindAssetIcon ::
  "string \<Rightarrow> WorkspaceKindAsset \<Rightarrow> ImageAssetStatus \<Rightarrow> string \<Rightarrow> ImageRef"
where
  "NewImageRefFromWorkspaceKindAssetIcon proxyUrlPrefix asset status workspaceKindName =
     newImageRefFromWorkspaceKindAsset proxyUrlPrefix asset status workspaceKindName wskAssetTypeIcon"

definition NewImageRefFromWorkspaceKindAssetLogo ::
  "string \<Rightarrow> WorkspaceKindAsset \<Rightarrow> ImageAssetStatus \<Rightarrow> string \<Rightarrow> ImageRef"
where
  "NewImageRefFromWorkspaceKindAssetLogo proxyUrlPrefix asset status workspaceKindName =
     newImageRefFromWorkspaceKindAsset proxyUrlPrefix asset status workspaceKindName wskAssetTypeLogo"

section \<open>Models\<close>

record ActivityProbePodExecModel =
  pem_TimeoutSeconds :: int

record ActivityProbeJupyterModel =
  jum_LastActivity :: bool
  jum_PortId :: string

record ActivityProbeModel =
  apm_MinProbeIntervalSeconds :: int
  apm_ProbeIntervalSeconds :: int
  apm_PodExec :: "ActivityProbePodExecModel option"
  apm_Jupyter :: "ActivityProbeJupyterModel option"

record ActivityRuleConfigModel =
  rcm_SecondsSinceActive :: int
  rcm_MinRunningSeconds :: int

record ActivityRuleMatchModel =
  rmt_MatchNamespace :: "label_selector option"
  rmt_MatchPodConfig :: "label_selector option"

record ActivityRuleEffectModel =
  rem_PauseWorkspace :: bool

record ActivityRuleModel =
  arl_Config :: ActivityRuleConfigModel
  arl_Match :: "ActivityRuleMatchModel option"
  arl_Effect :: ActivityRuleEffectModel

record ClusterKindMetrics =
  ckm_Workspaces :: int

record PodVolumeMounts =
  pvms_Home :: string

record PodTemplateModel =
  ptl_PodMetadata :: PodMetadataMutate
  ptl_StatefulSetMetadata :: PodMetadataMutate
  ptl_VolumeMounts :: PodVolumeMounts
  ptl_ActivityProbe :: "ActivityProbeModel option"
  ptl_Options :: PodTemplateOptions

record WorkspaceKindListItem =
  kli_Name :: string
  kli_DisplayName :: string
  kli_Description :: string
  kli_Deprecated :: bool
  kli_DeprecationMessage :: string
  kli_Hidden :: bool
  kli_Icon :: ImageRef
  kli_Logo :: ImageRef
  kli_ClusterMetrics :: ClusterKindMetrics
  kli_PodTemplate :: PodTemplateModel
  kli_ActivityRules :: "ActivityRuleModel list"
  kli_Restrictions :: Restrictions

definition buildActivityProbe :: "ActivityProbe option \<Rightarrow> ActivityProbeModel option" where
  "buildActivityProbe probe = map_option (\<lambda>p. \<lparr>
     apm_MinProbeIntervalSeconds = (case ap_MinProbeIntervalSeconds p of Some s \<Rightarrow> s | None \<Rightarrow> DefaultMinProbeIntervalSeconds),
     apm_ProbeIntervalSeconds = (case ap_ProbeIntervalSeconds p of Some s \<Rightarrow> s | None \<Rightarrow> DefaultProbeIntervalSeconds),
     apm_PodExec = map_option (\<lambda>e. \<lparr>pem_TimeoutSeconds =
       (case pe_TimeoutSeconds e of Some s \<Rightarrow> s | None \<Rightarrow> DefaultPodExecTimeoutSeconds)\<rparr>) (ap_PodExec p),
     apm_Jupyter = map_option (\<lambda>j. \<lparr>jum_LastActivity = ju_LastActivity j, jum_PortId = ju_PortId j\<rparr>) (ap_Jupyter p)\<rparr>) probe"

definition buildActivityRules :: "ActivityRule list \<Rightarrow> ActivityRuleModel list" where
  "buildActivityRules rules = map (\<lambda>rule. \<lparr>
     arl_Config = \<lparr>rcm_SecondsSinceActive = arc_SecondsSinceActive (ar_Config rule),
                   rcm_MinRunningSeconds = (case arc_MinRunningSeconds (ar_Config rule) of Some s \<Rightarrow> s | None \<Rightarrow> 0)\<rparr>,
     arl_Match = map_option (\<lambda>m. \<lparr>rmt_MatchNamespace = arm_MatchNamespace m, rmt_MatchPodConfig = arm_MatchPodConfig m\<rparr>) (ar_Match rule),
     arl_Effect = \<lparr>rem_PauseWorkspace = (case are_PauseWorkspace (ar_Effect rule) of Some b \<Rightarrow> b | None \<Rightarrow> False)\<rparr>\<rparr>) rules"

definition metadata_model :: "MetadataMaps option \<Rightarrow> PodMetadataMutate" where
  "metadata_model md = (case md of
     None \<Rightarrow> \<lparr>pmm_Labels = fmempty, pmm_Annotations = fmempty\<rparr>
   | Some m \<Rightarrow> \<lparr>pmm_Labels = md_Labels m, pmm_Annotations = md_Annotations m\<rparr>)"

text \<open>
  \<open>Inr None\<close> is a kind that \<open>api.hide\<close> omits. The options in the list ignore the
  namespace. A panic is \<open>Inl\<close>.
\<close>

definition NewWorkspaceKindModelFromWorkspaceKind ::
  "selector_lib \<Rightarrow> string \<Rightarrow> WorkspaceKind \<Rightarrow> strmap option \<Rightarrow> repo_error + WorkspaceKindListItem option"
where
  "NewWorkspaceKindModelFromWorkspaceKind slib proxyUrlPrefix wsk namespaceLabels =
     (let result = EvaluateWorkspaceKindFilterScopeRule slib wsk namespaceLabels;
          spawner = ks_Spawner (wk_Spec wsk); tpl = ks_PodTemplate (wk_Spec wsk) in
      if er_APIHide result then Inr None
      else (case NewPodTemplateOptionsModelFromWorkspaceKind slib wsk empty_request None of
        Inl err \<Rightarrow> Inl (PanicError (''invalid call to NewPodTemplateOptionsModelFromWorkspaceKind: '' @ repo_error_text err))
      | Inr podTemplateOptions \<Rightarrow> Inr (Some \<lparr>
          kli_Name = om_Name (wk_Meta wsk), kli_DisplayName = sp_DisplayName spawner, kli_Description = sp_Description spawner,
          kli_Deprecated = (case sp_Deprecated spawner of Some b \<Rightarrow> b | None \<Rightarrow> False),
          kli_DeprecationMessage = (case sp_DeprecationMessage spawner of Some m \<Rightarrow> m | None \<Rightarrow> []),
          kli_Hidden = ((case sp_Hidden spawner of Some b \<Rightarrow> b | None \<Rightarrow> False) \<or> er_UIHide result),
          kli_Icon = NewImageRefFromWorkspaceKindAssetIcon proxyUrlPrefix (sp_Icon spawner) (kst_SpawnerIcon (wk_Status wsk)) (om_Name (wk_Meta wsk)),
          kli_Logo = NewImageRefFromWorkspaceKindAssetLogo proxyUrlPrefix (sp_Logo spawner) (kst_SpawnerLogo (wk_Status wsk)) (om_Name (wk_Meta wsk)),
          kli_ClusterMetrics = \<lparr>ckm_Workspaces = kst_Workspaces (wk_Status wsk)\<rparr>,
          kli_PodTemplate = \<lparr>
            ptl_PodMetadata = metadata_model (kpt_PodMetadata tpl),
            ptl_StatefulSetMetadata = metadata_model (kpt_StatefulSetMetadata tpl),
            ptl_VolumeMounts = \<lparr>pvms_Home = wvm_Home (kpt_VolumeMounts tpl)\<rparr>,
            ptl_ActivityProbe = buildActivityProbe (kpt_ActivityProbe tpl),
            ptl_Options = podTemplateOptions\<rparr>,
          kli_ActivityRules = buildActivityRules (ks_ActivityRules (wk_Spec wsk)),
          kli_Restrictions = er_Restrictions result\<rparr>)))"

record WorkspaceKindCreate =
  kcr_Name :: string
  kcr_Spawner :: WorkspaceKindSpawner
  kcr_PodTemplate :: WorkspaceKindPodTemplate

record WorkspaceKindUpdate =
  kup_Revision :: string
  kup_Spawner :: WorkspaceKindSpawner
  kup_PodTemplate :: WorkspaceKindPodTemplate
  kup_ActivityRules :: "ActivityRule list"

definition WorkspaceKindUpdate_Validate :: "field_path \<Rightarrow> WorkspaceKindUpdate \<Rightarrow> field_error list" where
  "WorkspaceKindUpdate_Validate prefix w =
     (if kup_Revision w = [] then [FieldRequired (prefix @ [Child ''revision'']) ''revision is required''] else [])"

definition NewWorkspaceKindCreateModelFromWorkspaceKind :: "WorkspaceKind \<Rightarrow> WorkspaceKindCreate" where
  "NewWorkspaceKindCreateModelFromWorkspaceKind wsk = \<lparr>
     kcr_Name = om_Name (wk_Meta wsk), kcr_Spawner = ks_Spawner (wk_Spec wsk), kcr_PodTemplate = ks_PodTemplate (wk_Spec wsk)\<rparr>"

definition NewWorkspaceKindUpdateModelFromWorkspaceKind :: "be_lib \<Rightarrow> WorkspaceKind \<Rightarrow> WorkspaceKindUpdate" where
  "NewWorkspaceKindUpdateModelFromWorkspaceKind lib wsk = \<lparr>
     kup_Revision = CalculateRevision lib (wk_Meta wsk), kup_Spawner = ks_Spawner (wk_Spec wsk),
     kup_PodTemplate = ks_PodTemplate (wk_Spec wsk), kup_ActivityRules = ks_ActivityRules (wk_Spec wsk)\<rparr>"

definition ApplyWorkspaceKindUpdateModelToWorkspaceKind :: "WorkspaceKindUpdate \<Rightarrow> WorkspaceKind \<Rightarrow> WorkspaceKind" where
  "ApplyWorkspaceKindUpdateModelToWorkspaceKind upd wsk =
     wsk\<lparr>wk_Spec := (wk_Spec wsk)\<lparr>ks_Spawner := kup_Spawner upd, ks_PodTemplate := kup_PodTemplate upd,
                                     ks_ActivityRules := kup_ActivityRules upd\<rparr>\<rparr>"

section \<open>Repository\<close>

definition get_kind :: "be_app \<Rightarrow> string \<Rightarrow> (repo_error, WorkspaceKind) be_step" where
  "get_kind app name =
     get_or ErrWorkspaceKindNotFound (PolicyResource WorkspaceKinds) (cl_GetWorkspaceKind (app_Client app)) [] name"

definition Repo_GetWorkspaceKind :: "be_app \<Rightarrow> string \<Rightarrow> (repo_error, WorkspaceKindUpdate) be_step" where
  "Repo_GetWorkspaceKind app name =
     and_then (get_kind app name) (\<lambda>workspaceKind.
     proceed (NewWorkspaceKindUpdateModelFromWorkspaceKind (app_Lib app) workspaceKind))"

definition resolveNamespaceLabels :: "be_app \<Rightarrow> string \<Rightarrow> field_path \<Rightarrow> (repo_error, strmap option) be_step" where
  "resolveNamespaceLabels app namespaceName fieldPath =
     (if namespaceName = [] then proceed None
      else and_then (kube_get (PolicyResource Namespaces) (cl_GetNamespace (app_Client app)) [] namespaceName) (\<lambda>r. case r of
        Inl err \<Rightarrow>
          if IsNotFound err
          then stop (InternalValidationError [FieldInvalid fieldPath (BadString namespaceName)
                 (''namespace '' @ go_quote namespaceName @ '' not found'')])
          else stop (KubeError err)
      | Inr namespace \<Rightarrow> proceed (Some (om_Labels namespace))))"

fun kind_items ::
  "selector_lib \<Rightarrow> string \<Rightarrow> strmap option \<Rightarrow> WorkspaceKind list \<Rightarrow> (repo_error, WorkspaceKindListItem list) be_step"
where
  "kind_items slib proxyUrlPrefix namespaceLabels [] = proceed []"
| "kind_items slib proxyUrlPrefix namespaceLabels (wsk # wsks) =
     (case NewWorkspaceKindModelFromWorkspaceKind slib proxyUrlPrefix wsk namespaceLabels of
        Inl panic \<Rightarrow> stop panic
      | Inr None \<Rightarrow> kind_items slib proxyUrlPrefix namespaceLabels wsks
      | Inr (Some model) \<Rightarrow>
          and_then (kind_items slib proxyUrlPrefix namespaceLabels wsks) (\<lambda>models. proceed (model # models)))"

definition Repo_GetWorkspaceKinds :: "be_app \<Rightarrow> string \<Rightarrow> (repo_error, WorkspaceKindListItem list) be_step" where
  "Repo_GetWorkspaceKinds app namespaceFilter =
     and_then (list_all_of (PolicyResource WorkspaceKinds) (cl_ListWorkspaceKinds (app_Client app)) []) (\<lambda>workspaceKindList.
     and_then (resolveNamespaceLabels app namespaceFilter [Child ''namespaceFilter'']) (\<lambda>namespaceLabels.
     kind_items (app_Selectors app) (app_ProxyUrlPrefix app) namespaceLabels workspaceKindList))"

definition Repo_CreateWorkspaceKind :: "be_app \<Rightarrow> string option \<Rightarrow> WorkspaceKind \<Rightarrow> (repo_error, WorkspaceKindCreate) be_step" where
  "Repo_CreateWorkspaceKind app actor workspaceKind =
     (let workspaceKind = workspaceKind\<lparr>wk_Meta := UpdateObjectMetaForCreate actor (wk_Meta workspaceKind)\<rparr> in
      and_then (store_or (\<lambda>err. if IsAlreadyExists err then SentinelError ErrWorkspaceKindAlreadyExists else KubeError err)
                  (cl_StoreWorkspaceKind (app_Client app)) (CreateCall (WorkspaceKindObject workspaceKind))) (\<lambda>stored.
      proceed (NewWorkspaceKindCreateModelFromWorkspaceKind stored)))"

definition Repo_UpdateWorkspaceKind ::
  "be_app \<Rightarrow> string option \<Rightarrow> WorkspaceKindUpdate \<Rightarrow> string \<Rightarrow> (repo_error, WorkspaceKindUpdate) be_step"
where
  "Repo_UpdateWorkspaceKind app actor workspaceKindUpdate name =
     and_then (ask (app_Now app)) (\<lambda>now.
     and_then (get_kind app name) (\<lambda>workspaceKind.
     if CalculateRevision (app_Lib app) (wk_Meta workspaceKind) \<noteq> kup_Revision workspaceKindUpdate
     then stop (SentinelError ErrWorkspaceKindRevisionConflict)
     else let workspaceKind = ApplyWorkspaceKindUpdateModelToWorkspaceKind workspaceKindUpdate workspaceKind;
              workspaceKind = workspaceKind\<lparr>wk_Meta := UpdateObjectMetaForUpdate (app_Lib app) actor now (wk_Meta workspaceKind)\<rparr>
     in and_then (store_or (\<lambda>err. if IsNotFound err then SentinelError ErrWorkspaceKindNotFound else KubeError err)
                    (cl_StoreWorkspaceKind (app_Client app)) (UpdateCall (WorkspaceKindObject workspaceKind))) (\<lambda>stored.
        proceed (NewWorkspaceKindUpdateModelFromWorkspaceKind (app_Lib app) stored))))"

definition Repo_DeleteWorkspaceKind :: "be_app \<Rightarrow> string \<Rightarrow> (repo_error, unit) be_step" where
  "Repo_DeleteWorkspaceKind app name = delete_or ErrWorkspaceKindNotFound (app_Client app) WorkspaceKinds [] name"

definition Repo_ListPodTemplateOptionsValues ::
  "be_app \<Rightarrow> string \<Rightarrow> ListValuesRequest \<Rightarrow> (repo_error, PodTemplateOptions) be_step"
where
  "Repo_ListPodTemplateOptionsValues app name listValuesRequest =
     and_then (get_kind app name) (\<lambda>workspaceKind.
     and_then (resolveNamespaceLabels app (case lvc_Namespace (lvr_Context listValuesRequest) of Some n \<Rightarrow> n | None \<Rightarrow> [])
                 [Child ''context'', Child ''namespace'', Child ''name'']) (\<lambda>namespaceLabels.
     case NewPodTemplateOptionsModelFromWorkspaceKind (app_Selectors app) workspaceKind listValuesRequest namespaceLabels of
       Inl err \<Rightarrow> stop err
     | Inr listValuesResponse \<Rightarrow> proceed listValuesResponse))"

definition asset_of :: "WorkspaceKind \<Rightarrow> wskAssetType \<Rightarrow> WorkspaceKindAsset" where
  "asset_of k assetType = (case assetType of wskAssetTypeIcon \<Rightarrow> sp_Icon (ks_Spawner (wk_Spec k))
     | wskAssetTypeLogo \<Rightarrow> sp_Logo (ks_Spawner (wk_Spec k)))"

definition getWorkspaceKindAssetBytes :: "be_app \<Rightarrow> string \<Rightarrow> wskAssetType \<Rightarrow> (repo_error, string \<times> string) be_step" where
  "getWorkspaceKindAssetBytes app name assetType =
     and_then (get_kind app name) (\<lambda>workspaceKind.
     case asset_ConfigMap (asset_of workspaceKind assetType) of
       None \<Rightarrow> stop (SentinelError ErrWorkspaceKindAssetNotConfigMap)
     | Some assetConfigMap \<Rightarrow>
         and_then (get_or ErrWorkspaceKindAssetConfigMapNotFound ConfigMaps (cl_GetConfigMap (app_Client app))
                     (acm_Namespace assetConfigMap) (acm_Name assetConfigMap)) (\<lambda>(data, binaryData).
         case fmlookup data (acm_Key assetConfigMap) of
           Some stringData \<Rightarrow> proceed (stringData, acm_MediaType assetConfigMap)
         | None \<Rightarrow> (case fmlookup binaryData (acm_Key assetConfigMap) of
             Some bytesData \<Rightarrow> proceed (bytesData, acm_MediaType assetConfigMap)
           | None \<Rightarrow> stop (SentinelError ErrWorkspaceKindAssetConfigMapKeyMissing))))"

definition GetWorkspaceKindAssetBytesIcon :: "be_app \<Rightarrow> string \<Rightarrow> (repo_error, string \<times> string) be_step" where
  "GetWorkspaceKindAssetBytesIcon app name = getWorkspaceKindAssetBytes app name wskAssetTypeIcon"

definition GetWorkspaceKindAssetBytesLogo :: "be_app \<Rightarrow> string \<Rightarrow> (repo_error, string \<times> string) be_step" where
  "GetWorkspaceKindAssetBytesLogo app name = getWorkspaceKindAssetBytes app name wskAssetTypeLogo"

section \<open>Handlers\<close>

definition kind_params :: "be_app \<Rightarrow> string \<Rightarrow> ('d, unit) http_step" where
  "kind_params app name = path_params app (ValidateWorkspaceKindName (app_Lib app) [Child ''name''] name)"

text \<open>A query parameter that names a namespace, checked when it is present.\<close>

definition namespace_query :: "be_app \<Rightarrow> string \<Rightarrow> string \<Rightarrow> ('d, unit) http_step" where
  "namespace_query app param namespace =
     query_params app (if namespace \<noteq> [] then ValidateKubernetesNamespaceName (app_Lib app) [Child param] namespace else [])"

definition GetWorkspaceKindHandler ::
  "be_app \<Rightarrow> http_request \<Rightarrow> string \<Rightarrow> (WorkspaceKindUpdate, WorkspaceKindUpdate http_response) http_step"
where
  "GetWorkspaceKindHandler app rq name =
     and_then (kind_params app name) (\<lambda>_.
     and_then (requireAuth app rq [policy VerbGet WorkspaceKinds [] name]) (\<lambda>_.
     and_then (attempt (Repo_GetWorkspaceKind app name)) (\<lambda>r. case r of
       Inl err \<Rightarrow> if errors_is err ErrWorkspaceKindNotFound then stop notFoundResponse else stop serverErrorResponse
     | Inr workspaceKind \<Rightarrow> proceed (dataResponse workspaceKind))))"

definition GetWorkspaceKindsHandler ::
  "be_app \<Rightarrow> http_request \<Rightarrow> (WorkspaceKindListItem list, WorkspaceKindListItem list http_response) http_step"
where
  "GetWorkspaceKindsHandler app rq =
     (let namespace = query_get rq ''namespaceFilter'' in
      and_then (namespace_query app ''namespaceFilter'' namespace) (\<lambda>_.
      and_then (requireAuth app rq (if namespace \<noteq> [] then [policy VerbCreate Workspaces namespace []]
                                    else [policy VerbList WorkspaceKinds [] []])) (\<lambda>_.
      and_then (attempt (Repo_GetWorkspaceKinds app namespace)) (\<lambda>r. case r of
        Inl err \<Rightarrow>
          stop (if IsInternalValidationError err
                then failedValidationResponse (app_Fields app) errMsgInternalValidation (FieldErrorsFromInternalValidationError err) []
                else serverErrorResponse)
      | Inr workspaceKinds \<Rightarrow> proceed (dataResponse workspaceKinds)))))"

definition DeleteWorkspaceKindHandler :: "be_app \<Rightarrow> http_request \<Rightarrow> string \<Rightarrow> (unit, unit http_response) http_step" where
  "DeleteWorkspaceKindHandler app rq name =
     and_then (kind_params app name) (\<lambda>_.
     and_then (requireAuth app rq [policy VerbDelete WorkspaceKinds [] name]) (\<lambda>_.
     and_then (attempt (Repo_DeleteWorkspaceKind app name)) (\<lambda>r. case r of
       Inl err \<Rightarrow>
         stop (if errors_is err ErrWorkspaceKindNotFound then notFoundResponse
               else if err_has_reason err ReasonConflict
               then conflictResponse (repo_error_text err) (StatusCausesFromAPIStatus err)
               else serverErrorResponse)
     | Inr _ \<Rightarrow> proceed deletedResponse)))"

text \<open>Reading and decoding the YAML body; the first value is its \<open>apiVersion\<close> and \<open>kind\<close>.\<close>

datatype yaml_error = YamlTooLarge string | YamlReadError string | YamlStrictErrors "string list" | YamlDecodeError string

definition yaml_error_response :: "be_app \<Rightarrow> yaml_error \<Rightarrow> 'd http_response" where
  "yaml_error_response app e = (case e of
     YamlTooLarge m \<Rightarrow> requestEntityTooLargeResponse m
   | YamlReadError m \<Rightarrow> serverErrorResponse
   | YamlStrictErrors ms \<Rightarrow>
       failedValidationResponse (app_Fields app) errMsgRequestBodyInvalid (map (\<lambda>m. FieldInvalid [] NoValue m) ms) []
   | YamlDecodeError m \<Rightarrow> badRequestResponse (''error decoding request body: '' @ m))"

definition kind_body ::
  "be_app \<Rightarrow> http_request \<Rightarrow> (string \<Rightarrow> yaml_error + (string \<times> string) \<times> WorkspaceKind) \<Rightarrow> ('d, WorkspaceKind) http_step"
where
  "kind_body app rq decode =
     and_then (ValidateContentType app rq MediaTypeYaml) (\<lambda>_.
       case decode (rq_Body rq) of
         Inl e \<Rightarrow> stop (yaml_error_response app e)
       | Inr ((apiVersion, kind), workspaceKind) \<Rightarrow>
           let valErrs = ValidateWorkspaceKindGVK apiVersion kind
                 @ ValidateWorkspaceKindName (app_Lib app) [Child ''metadata'', Child ''name''] (om_Name (wk_Meta workspaceKind))
           in if valErrs \<noteq> [] then stop (failedValidationResponse (app_Fields app) errMsgRequestBodyInvalid valErrs [])
              else proceed workspaceKind)"

definition CreateWorkspaceKindHandler ::
  "be_app \<Rightarrow> (string \<Rightarrow> yaml_error + (string \<times> string) \<times> WorkspaceKind) \<Rightarrow> http_request
     \<Rightarrow> (WorkspaceKindCreate, WorkspaceKindCreate http_response) http_step"
where
  "CreateWorkspaceKindHandler app decode rq =
     and_then (kind_body app rq decode) (\<lambda>workspaceKind.
     and_then (requireAuth app rq [policy VerbCreate WorkspaceKinds [] (om_Name (wk_Meta workspaceKind))]) (\<lambda>actor.
     and_then (attempt (Repo_CreateWorkspaceKind app (actor_of actor) workspaceKind)) (\<lambda>r. case r of
       Inl err \<Rightarrow>
         stop (if errors_is err ErrWorkspaceKindAlreadyExists
               then conflictResponse (repo_error_text err) (StatusCausesFromAPIStatus err)
               else if err_has_reason err ReasonInvalid
               then failedValidationResponse (app_Fields app) errMsgKubernetesValidation [] (StatusCausesFromAPIStatus err)
               else serverErrorResponse)
     | Inr createdWorkspaceKind \<Rightarrow>
         proceed (createdResponse createdWorkspaceKind (LocationGetWorkspaceKind (kcr_Name createdWorkspaceKind))))))"

definition update_kind_error :: "be_app \<Rightarrow> repo_error \<Rightarrow> 'd http_response" where
  "update_kind_error app err =
     (if errors_is err ErrWorkspaceKindNotFound then notFoundResponse
      else if IsInternalValidationError err
      then failedValidationResponse (app_Fields app) errMsgInternalValidation (FieldErrorsFromInternalValidationError err) []
      else if errors_is err ErrWorkspaceKindRevisionConflict then internalConflictResponse (repo_error_text err)
      else if err_has_reason err ReasonInvalid
      then failedValidationResponse (app_Fields app) errMsgKubernetesValidation [] (StatusCausesFromAPIStatus err)
      else serverErrorResponse)"

definition UpdateWorkspaceKindHandler ::
  "be_app \<Rightarrow> (string \<Rightarrow> decode_error + WorkspaceKindUpdate option) \<Rightarrow> http_request \<Rightarrow> string
     \<Rightarrow> (WorkspaceKindUpdate, WorkspaceKindUpdate http_response) http_step"
where
  "UpdateWorkspaceKindHandler app decode rq name =
     and_then (kind_params app name) (\<lambda>_.
     and_then (requireAuth app rq [policy VerbUpdate WorkspaceKinds [] name]) (\<lambda>actor.
     and_then (json_body app rq decode WorkspaceKindUpdate_Validate) (\<lambda>workspaceKindUpdate.
     and_then (attempt (Repo_UpdateWorkspaceKind app (actor_of actor) workspaceKindUpdate name)) (\<lambda>r. case r of
       Inl err \<Rightarrow> stop (update_kind_error app err)
     | Inr updatedWorkspaceKind \<Rightarrow> proceed (dataResponse updatedWorkspaceKind)))))"

text \<open>The media type the API knows; the body of the response is the image.\<close>

definition wskAssetResponse :: "string \<Rightarrow> string \<Rightarrow> string http_response" where
  "wskAssetResponse content mediaType =
     (if mediaType = ''image/svg+xml'' then dataResponse content else serverErrorResponse)"

definition getWorkspaceKindAssetHandler ::
  "be_app \<Rightarrow> http_request \<Rightarrow> string \<Rightarrow> wskAssetType \<Rightarrow> (string, string http_response) http_step"
where
  "getWorkspaceKindAssetHandler app rq wskName assetType =
     (let namespace = query_get rq ''namespace'' in
      and_then (kind_params app wskName) (\<lambda>_.
      and_then (namespace_query app ''namespace'' namespace) (\<lambda>_.
      and_then (requireAuth app rq (if namespace \<noteq> [] then [policy VerbList Workspaces namespace []]
                                    else [policy VerbGet WorkspaceKinds [] wskName])) (\<lambda>_.
      and_then (attempt (case assetType of wskAssetTypeIcon \<Rightarrow> GetWorkspaceKindAssetBytesIcon app wskName
                         | wskAssetTypeLogo \<Rightarrow> GetWorkspaceKindAssetBytesLogo app wskName)) (\<lambda>r. case r of
        Inl err \<Rightarrow>
          stop (if errors_is err ErrWorkspaceKindNotFound \<or> errors_is err ErrWorkspaceKindAssetNotConfigMap
                then notFoundResponse else serverErrorResponse)
      | Inr (assetBytes, mediaType) \<Rightarrow> proceed (wskAssetResponse assetBytes mediaType))))))"

definition GetWorkspaceKindIconHandler :: "be_app \<Rightarrow> http_request \<Rightarrow> string \<Rightarrow> (string, string http_response) http_step" where
  "GetWorkspaceKindIconHandler app rq name = getWorkspaceKindAssetHandler app rq name wskAssetTypeIcon"

definition GetWorkspaceKindLogoHandler :: "be_app \<Rightarrow> http_request \<Rightarrow> string \<Rightarrow> (string, string http_response) http_step" where
  "GetWorkspaceKindLogoHandler app rq name = getWorkspaceKindAssetHandler app rq name wskAssetTypeLogo"

definition PodTemplateOptionsListValuesHandler ::
  "be_app \<Rightarrow> (string \<Rightarrow> decode_error + ListValuesRequest option) \<Rightarrow> http_request \<Rightarrow> string
     \<Rightarrow> (PodTemplateOptions, PodTemplateOptions http_response) http_step"
where
  "PodTemplateOptionsListValuesHandler app decode rq name =
     and_then (kind_params app name) (\<lambda>_.
     and_then (json_body app rq decode (ListValuesRequest_Validate (app_Lib app))) (\<lambda>listValuesRequest.
     let namespace = (case lvc_Namespace (lvr_Context listValuesRequest) of Some n \<Rightarrow> n | None \<Rightarrow> []) in
     and_then (requireAuth app rq (if namespace \<noteq> [] then [policy VerbCreate Workspaces namespace []]
                                   else [policy VerbGet WorkspaceKinds [] name])) (\<lambda>_.
     and_then (attempt (Repo_ListPodTemplateOptionsValues app name listValuesRequest)) (\<lambda>r. case r of
       Inl err \<Rightarrow>
         stop (if errors_is err ErrWorkspaceKindNotFound then notFoundResponse
               else if IsInternalValidationError err
               then failedValidationResponse (app_Fields app) errMsgInternalValidation (FieldErrorsFromInternalValidationError err) []
               else serverErrorResponse)
     | Inr listValuesResponse \<Rightarrow> proceed (dataResponse listValuesResponse)))))"

end
