(* ===== verification/Backend_Workspace_List.thy ===== *)
theory Backend_Workspace_List
  imports Backend_Kinds
begin

text \<open>
  Listing Workspaces and the details of one: \<open>models/workspaces/funcs.go\<close>,
  \<open>models/workspaces/podtemplate/details\<close>, the reading part of
  \<open>repositories/workspaces/repo.go\<close>, and their handlers. A kind that was not found is
  \<open>None\<close> (the code passes a zero object, which has no UID). The two panics of the code are
  \<open>Inl\<close>; the theorems show for which kinds they cannot happen.
\<close>

section \<open>Models\<close>

record OptionInfo =
  oin_Id :: string
  oin_DisplayName :: string
  oin_Description :: string
  oin_Labels :: "OptionLabel list"

record RedirectStep =
  rst_Source :: OptionInfo
  rst_Target :: OptionInfo
  rst_Message :: "RedirectMessageModel option"

text \<open>The image and the pod config of an item have the same fields.\<close>

record OptionUse =
  ou_Current :: OptionInfo
  ou_RedirectChain :: "RedirectStep list"

record WorkspaceKindInfo =
  wki_Name :: string
  wki_Missing :: bool
  wki_Icon :: ImageRef
  wki_Logo :: ImageRef

record LastProbeInfo =
  lpi_StartTime :: int
  lpi_EndTime :: int
  lpi_Result :: WorkspaceProbeResult
  lpi_Message :: string

record ActivityPauseRule =
  apr_EligibleAfter :: int

record ActivityRules =
  arm_PauseWorkspace :: "ActivityPauseRule option"

record Activity =
  acm_LastActivity :: int
  acm_LastUpdate :: int
  acm_LastProbe :: "LastProbeInfo option"
  acm_Rules :: "ActivityRules option"

record HttpService =
  hs_DisplayName :: string
  hs_HttpPath :: string

record ServiceModel =
  svc_HttpService :: "HttpService option"

record WorkspaceListItem =
  wli_Name :: string
  wli_DisplayName :: string
  wli_Namespace :: string
  wli_WorkspaceKind :: WorkspaceKindInfo
  wli_Paused :: bool
  wli_PausedTime :: int
  wli_LastRunningTime :: int
  wli_State :: WorkspaceState
  wli_StateMessage :: string
  wli_ImageConfig :: OptionUse
  wli_PodConfig :: OptionUse
  wli_Activity :: Activity
  wli_Services :: "ServiceModel list"
  wli_Audit :: Audit

definition UnknownImageConfig :: string where "UnknownImageConfig = ''__UNKNOWN_IMAGE_CONFIG__''"
definition UnknownPodConfig :: string where "UnknownPodConfig = ''__UNKNOWN_POD_CONFIG__''"
definition UnknownIconURL :: string where "UnknownIconURL = ''__UNKNOWN_ICON_URL__''"
definition UnknownLogoURL :: string where "UnknownLogoURL = ''__UNKNOWN_LOGO_URL__''"
definition UnknownHomeMountPath :: string where "UnknownHomeMountPath = ''__UNKNOWN_HOME_MOUNT_PATH__''"

definition WskExists :: "WorkspaceKind option \<Rightarrow> bool" where
  "WskExists wsk \<longleftrightarrow> (case wsk of None \<Rightarrow> False | Some k \<Rightarrow> om_UID (wk_Meta k) \<noteq> [])"

definition EnsureWskMatchesWorkspace :: "Workspace \<Rightarrow> WorkspaceKind option \<Rightarrow> repo_error + unit" where
  "EnsureWskMatchesWorkspace ws wsk =
     (if WskExists wsk \<and> spec_Kind (ws_Spec ws) \<noteq> om_Name (wk_Meta (the wsk))
      then Inl (PanicError ''provided WorkspaceKind does not match the Workspace'') else Inr ())"

section \<open>Options and redirects\<close>

definition buildOptionInfo :: "string \<Rightarrow> string \<Rightarrow> OptionSpawnerInfo option \<Rightarrow> OptionInfo" where
  "buildOptionInfo i unknownFallback spawnerInfo =
     (case spawnerInfo of
        Some s \<Rightarrow> \<lparr>oin_Id = i, oin_DisplayName = osi_DisplayName s,
                    oin_Description = (case osi_Description s of Some d \<Rightarrow> d | None \<Rightarrow> []),
                    oin_Labels = buildOptionLabels (osi_Labels s)\<rparr>
      | None \<Rightarrow> \<lparr>oin_Id = i, oin_DisplayName = unknownFallback, oin_Description = unknownFallback, oin_Labels = []\<rparr>)"

definition buildRedirectMessage :: "RedirectMessage option \<Rightarrow> RedirectMessageModel option" where
  "buildRedirectMessage msg = map_option (\<lambda>m. \<lparr>rmm_Text = rm_Text m, rmm_Level = rm_Level m\<rparr>) msg"

text \<open>The map of the values by id; a later value with the same id would replace an earlier one.\<close>

definition value_map :: "('v \<Rightarrow> string) \<Rightarrow> 'v list \<Rightarrow> (string \<rightharpoonup> 'v)" where
  "value_map idf vs = foldl (\<lambda>m v. m(idf v \<mapsto> v)) Map.empty vs"

definition redirect_step ::
  "'v option_access \<Rightarrow> string \<Rightarrow> (string \<rightharpoonup> 'v) \<Rightarrow> WorkspacePodOptionRedirectStep \<Rightarrow> RedirectStep"
where
  "redirect_step acc unknown vmap step = \<lparr>
     rst_Source = buildOptionInfo (rs_Source step) unknown (map_option (acc_Spawner acc) (vmap (rs_Source step))),
     rst_Target = buildOptionInfo (rs_Target step) unknown (map_option (acc_Spawner acc) (vmap (rs_Target step))),
     rst_Message = (case Option.bind (vmap (rs_Source step)) (acc_Redirect acc) of
                      Some redirect \<Rightarrow> if red_To redirect = rs_Target step then buildRedirectMessage (red_Message redirect) else None
                    | None \<Rightarrow> None)\<rparr>"

definition option_use ::
  "'v option_access \<Rightarrow> string \<Rightarrow> (string \<rightharpoonup> 'v) \<Rightarrow> string \<Rightarrow> WorkspacePodOptionRedirectStep list \<Rightarrow> OptionUse"
where
  "option_use acc unknown vmap currentId redirects = \<lparr>
     ou_Current = buildOptionInfo currentId unknown (map_option (acc_Spawner acc) (vmap currentId)),
     ou_RedirectChain = map (redirect_step acc unknown vmap) redirects\<rparr>"

definition buildImageConfig :: "Workspace \<Rightarrow> WorkspaceKind option \<Rightarrow> OptionUse \<times> ImageConfigValue option" where
  "buildImageConfig ws wsk =
     (let imageConfigMap = (if WskExists wsk then value_map ic_Id (wk_ImageConfigValues (the wsk)) else Map.empty);
          currentImageConfigId = po_ImageConfig (ws_Options ws)
      in (option_use image_access UnknownImageConfig imageConfigMap currentImageConfigId
            (oi_RedirectChain (os_ImageConfig (st_PodTemplateOptions (ws_Status ws)))),
          imageConfigMap currentImageConfigId))"

definition buildPodConfig :: "Workspace \<Rightarrow> WorkspaceKind option \<Rightarrow> OptionUse \<times> PodConfigValue option" where
  "buildPodConfig ws wsk =
     (let podConfigMap = (if WskExists wsk then value_map pc_Id (wk_PodConfigValues (the wsk)) else Map.empty);
          currentPodConfigId = po_PodConfig (ws_Options ws)
      in (option_use pod_access UnknownPodConfig podConfigMap currentPodConfigId
            (oi_RedirectChain (os_PodConfig (st_PodTemplateOptions (ws_Status ws)))),
          podConfigMap currentPodConfigId))"

section \<open>Services\<close>

definition service_of :: "Workspace \<Rightarrow> WorkspaceKindPort \<Rightarrow> ImagePort \<Rightarrow> ServiceModel" where
  "service_of ws wskPort port = (case wkp_Protocol wskPort of
     ImagePortProtocolHTTP \<Rightarrow> \<lparr>svc_HttpService = Some \<lparr>
       hs_DisplayName = (case ip_DisplayName port of Some d \<Rightarrow> d | None \<Rightarrow> wkp_DefaultDisplayName wskPort),
       hs_HttpPath = ''/workspace/connect/'' @ ws_Namespace ws @ ''/'' @ ws_Name ws @ ''/'' @ ip_Id port @ ''/''\<rparr>\<rparr>
   | ImagePortProtocolOther _ \<Rightarrow> \<lparr>svc_HttpService = None\<rparr>)"

fun services_of ::
  "Workspace \<Rightarrow> (PortId \<rightharpoonup> WorkspaceKindPort) \<Rightarrow> ImagePort list \<Rightarrow> repo_error + ServiceModel list"
where
  "services_of ws ports [] = Inr []"
| "services_of ws ports (port # rest) =
     (case ports (ip_Id port) of
        None \<Rightarrow> Inl (PanicError (''workspace portID \"'' @ go_quote (ip_Id port) @ ''\" does not exist in the workspace kind''))
      | Some wskPort \<Rightarrow>
          (case services_of ws ports rest of
             Inl p \<Rightarrow> Inl p
           | Inr services \<Rightarrow> Inr (service_of ws wskPort port # services)))"

definition buildServices ::
  "Workspace \<Rightarrow> (PortId \<rightharpoonup> WorkspaceKindPort) \<Rightarrow> ImageConfigValue option \<Rightarrow> repo_error + ServiceModel list"
where
  "buildServices ws wskPodTemplatePorts imageConfigValue =
     (case imageConfigValue of None \<Rightarrow> Inr [] | Some v \<Rightarrow> services_of ws wskPodTemplatePorts (ics_Ports (ic_Spec v)))"

section \<open>The items\<close>

definition buildIconImageRef :: "string \<Rightarrow> Workspace \<Rightarrow> WorkspaceKind option \<Rightarrow> ImageRef" where
  "buildIconImageRef proxyUrlPrefix ws wsk =
     (if \<not> WskExists wsk then \<lparr>ir_URL = UnknownIconURL, ir_Error = None\<rparr>
      else NewImageRefFromWorkspaceKindAssetIcon proxyUrlPrefix (sp_Icon (ks_Spawner (wk_Spec (the wsk))))
             (kst_SpawnerIcon (wk_Status (the wsk))) (spec_Kind (ws_Spec ws)))"

definition buildLogoImageRef :: "string \<Rightarrow> Workspace \<Rightarrow> WorkspaceKind option \<Rightarrow> ImageRef" where
  "buildLogoImageRef proxyUrlPrefix ws wsk =
     (if \<not> WskExists wsk then \<lparr>ir_URL = UnknownLogoURL, ir_Error = None\<rparr>
      else NewImageRefFromWorkspaceKindAssetLogo proxyUrlPrefix (sp_Logo (ks_Spawner (wk_Spec (the wsk))))
             (kst_SpawnerLogo (wk_Status (the wsk))) (spec_Kind (ws_Spec ws)))"

definition buildLastProbeInfo :: "WorkspaceActivityLastProbe option \<Rightarrow> LastProbeInfo option" where
  "buildLastProbeInfo probe = map_option (\<lambda>p. \<lparr>lpi_StartTime = lp_StartTime p, lpi_EndTime = lp_EndTime p,
     lpi_Result = lp_Result p, lpi_Message = lp_Message p\<rparr>) probe"

definition buildWorkspaceActivityRules :: "WorkspaceActivity \<Rightarrow> ActivityRules option" where
  "buildWorkspaceActivityRules activity =
     (case Option.bind (act_Rules activity) rules_PauseWorkspace of
        None \<Rightarrow> None
      | Some r \<Rightarrow> Some \<lparr>arm_PauseWorkspace = Some \<lparr>apr_EligibleAfter = pr_EligibleAfter r\<rparr>\<rparr>)"

definition NewWorkspaceListItemFromWorkspace ::
  "be_lib \<Rightarrow> string \<Rightarrow> Workspace \<Rightarrow> WorkspaceKind option \<Rightarrow> repo_error + WorkspaceListItem"
where
  "NewWorkspaceListItemFromWorkspace lib proxyUrlPrefix ws wsk =
     (case EnsureWskMatchesWorkspace ws wsk of
        Inl p \<Rightarrow> Inl p
      | Inr _ \<Rightarrow>
          let (imageConfigModel, imageConfigValue) = buildImageConfig ws wsk;
              (podConfigModel, _) = buildPodConfig ws wsk;
              wskPodTemplatePorts = (if WskExists wsk then value_map wkp_Id (kpt_Ports (wk_PodTemplate (the wsk))) else Map.empty);
              activity = st_Activity (ws_Status ws)
          in (case buildServices ws wskPodTemplatePorts imageConfigValue of
                Inl p \<Rightarrow> Inl p
              | Inr services \<Rightarrow> Inr \<lparr>
                  wli_Name = ws_Name ws,
                  wli_DisplayName = (case spec_DisplayName (ws_Spec ws) of Some d \<Rightarrow> d | None \<Rightarrow> []),
                  wli_Namespace = ws_Namespace ws,
                  wli_WorkspaceKind = \<lparr>wki_Name = spec_Kind (ws_Spec ws), wki_Missing = (\<not> WskExists wsk),
                    wki_Icon = buildIconImageRef proxyUrlPrefix ws wsk, wki_Logo = buildLogoImageRef proxyUrlPrefix ws wsk\<rparr>,
                  wli_Paused = spec_Paused (ws_Spec ws), wli_PausedTime = st_PauseTime (ws_Status ws),
                  wli_LastRunningTime = st_LastRunningTime (ws_Status ws),
                  wli_State = st_State (ws_Status ws), wli_StateMessage = st_StateMessage (ws_Status ws),
                  wli_ImageConfig = imageConfigModel, wli_PodConfig = podConfigModel,
                  wli_Activity = \<lparr>acm_LastActivity = act_LastActivity activity, acm_LastUpdate = act_LastUpdate activity,
                    acm_LastProbe = buildLastProbeInfo (act_LastProbe activity), acm_Rules = buildWorkspaceActivityRules activity\<rparr>,
                  wli_Services = services, wli_Audit = NewAuditFromObjectMeta lib (ws_Meta ws)\<rparr>))"

section \<open>Details\<close>

record PodVolumeInfo =
  pvin_PVCName :: string
  pvin_MountPath :: string
  pvin_ReadOnly :: bool

record PodSecretInfo =
  psin_SecretName :: string
  psin_MountPath :: string
  psin_DefaultMode :: int

record WorkspaceDetailVolumes =
  wdv_Home :: "PodVolumeInfo option"
  wdv_Data :: "PodVolumeInfo list"
  wdv_Secrets :: "PodSecretInfo list"

text \<open>A container of the details is its name.\<close>

record WorkspaceDetailPod =
  wdp_Name :: string
  wdp_NodeName :: string
  wdp_Containers :: "string list"
  wdp_InitContainers :: "string list"

record WorkspaceDetails =
  wd_PodMetadata :: PodMetadataMutate
  wd_Volumes :: WorkspaceDetailVolumes
  wd_Pod :: "WorkspaceDetailPod option"

definition buildHomeVolume :: "Workspace \<Rightarrow> WorkspaceKind option \<Rightarrow> PodVolumeInfo option" where
  "buildHomeVolume ws wsk =
     map_option (\<lambda>home. \<lparr>pvin_PVCName = home,
       pvin_MountPath = (if WskExists wsk then wvm_Home (kpt_VolumeMounts (wk_PodTemplate (the wsk))) else UnknownHomeMountPath),
       pvin_ReadOnly = False\<rparr>) (pv_Home (wpt_Volumes (ws_PodTemplate ws)))"

definition buildDataVolumes :: "Workspace \<Rightarrow> PodVolumeInfo list" where
  "buildDataVolumes ws =
     map (\<lambda>v. \<lparr>pvin_PVCName = pvm_PVCName v, pvin_MountPath = pvm_MountPath v,
               pvin_ReadOnly = (case pvm_ReadOnly v of Some b \<Rightarrow> b | None \<Rightarrow> False)\<rparr>)
       (pv_Data (wpt_Volumes (ws_PodTemplate ws)))"

definition buildSecretVolumes :: "Workspace \<Rightarrow> PodSecretInfo list" where
  "buildSecretVolumes ws =
     map (\<lambda>s. \<lparr>psin_SecretName = psm_SecretName s, psin_MountPath = psm_MountPath s, psin_DefaultMode = psm_DefaultMode s\<rparr>)
       (pv_Secrets (wpt_Volumes (ws_PodTemplate ws)))"

definition NewWorkspaceDetailsFromWorkspace :: "Workspace \<Rightarrow> WorkspaceKind option \<Rightarrow> repo_error + WorkspaceDetails" where
  "NewWorkspaceDetailsFromWorkspace ws wsk =
     (case EnsureWskMatchesWorkspace ws wsk of
        Inl p \<Rightarrow> Inl p
      | Inr _ \<Rightarrow>
          let pod = st_PodTemplatePod (ws_Status ws) in
          Inr \<lparr>wd_PodMetadata = ExtractPodMetadata ws,
               wd_Volumes = \<lparr>wdv_Home = buildHomeVolume ws wsk, wdv_Data = buildDataVolumes ws, wdv_Secrets = buildSecretVolumes ws\<rparr>,
               wd_Pod = (if ps_Name pod \<noteq> []
                         then Some \<lparr>wdp_Name = ps_Name pod, wdp_NodeName = ps_NodeName pod,
                                wdp_Containers = ps_Containers pod, wdp_InitContainers = ps_InitContainers pod\<rparr>
                         else None)\<rparr>)"

section \<open>Repository\<close>

definition kind_if_exists :: "be_app \<Rightarrow> string \<Rightarrow> (repo_error, WorkspaceKind option) be_step" where
  "kind_if_exists app name =
     and_then (kube_get (PolicyResource WorkspaceKinds) (cl_GetWorkspaceKind (app_Client app)) [] name) (\<lambda>r. case r of
       Inr k \<Rightarrow> proceed (Some k)
     | Inl err \<Rightarrow> if IsNotFound err then proceed None else stop (KubeError err))"

fun workspace_items :: "be_app \<Rightarrow> Workspace list \<Rightarrow> (repo_error, WorkspaceListItem list) be_step" where
  "workspace_items app [] = proceed []"
| "workspace_items app (ws # wss) =
     and_then (kind_if_exists app (spec_Kind (ws_Spec ws))) (\<lambda>wsk.
     case NewWorkspaceListItemFromWorkspace (app_Lib app) (app_ProxyUrlPrefix app) ws wsk of
       Inl panic \<Rightarrow> stop panic
     | Inr item \<Rightarrow> and_then (workspace_items app wss) (\<lambda>items. proceed (item # items)))"

text \<open>The empty namespace lists all namespaces.\<close>

definition getWorkspaceModels :: "be_app \<Rightarrow> string \<Rightarrow> (repo_error, WorkspaceListItem list) be_step" where
  "getWorkspaceModels app namespace =
     and_then (list_all_of (PolicyResource Workspaces) (cl_ListWorkspaces (app_Client app)) namespace) (\<lambda>workspaceList.
     workspace_items app workspaceList)"

definition Repo_GetWorkspaces :: "be_app \<Rightarrow> string \<Rightarrow> (repo_error, WorkspaceListItem list) be_step" where
  "Repo_GetWorkspaces app namespace = getWorkspaceModels app namespace"

definition Repo_GetAllWorkspaces :: "be_app \<Rightarrow> (repo_error, WorkspaceListItem list) be_step" where
  "Repo_GetAllWorkspaces app = getWorkspaceModels app []"

definition Repo_GetWorkspaceDetails :: "be_app \<Rightarrow> string \<Rightarrow> string \<Rightarrow> (repo_error, WorkspaceDetails) be_step" where
  "Repo_GetWorkspaceDetails app namespace workspaceName =
     and_then (get_or ErrWorkspaceNotFound (PolicyResource Workspaces) (cl_GetWorkspace (app_Client app)) namespace workspaceName) (\<lambda>workspace.
     and_then (kind_if_exists app (spec_Kind (ws_Spec workspace))) (\<lambda>workspaceKind.
     case NewWorkspaceDetailsFromWorkspace workspace workspaceKind of
       Inl panic \<Rightarrow> stop panic
     | Inr details \<Rightarrow> proceed details))"

section \<open>Handlers\<close>

definition getWorkspacesHandler ::
  "be_app \<Rightarrow> http_request \<Rightarrow> string \<Rightarrow> (WorkspaceListItem list, WorkspaceListItem list http_response) http_step"
where
  "getWorkspacesHandler app rq namespace =
     and_then (path_params app (if namespace \<noteq> [] then ValidateKubernetesNamespaceName (app_Lib app) [Child ''namespace''] namespace else [])) (\<lambda>_.
     and_then (requireAuth app rq [policy VerbList Workspaces namespace []]) (\<lambda>_.
     and_then (attempt (if namespace = [] then Repo_GetAllWorkspaces app else Repo_GetWorkspaces app namespace)) (\<lambda>r. case r of
       Inl err \<Rightarrow> stop serverErrorResponse
     | Inr workspaces \<Rightarrow> proceed (dataResponse workspaces))))"

definition GetAllWorkspacesHandler ::
  "be_app \<Rightarrow> http_request \<Rightarrow> (WorkspaceListItem list, WorkspaceListItem list http_response) http_step"
where
  "GetAllWorkspacesHandler app rq = getWorkspacesHandler app rq []"

definition GetWorkspacesByNamespaceHandler ::
  "be_app \<Rightarrow> http_request \<Rightarrow> string \<Rightarrow> (WorkspaceListItem list, WorkspaceListItem list http_response) http_step"
where
  "GetWorkspacesByNamespaceHandler app rq namespace = getWorkspacesHandler app rq namespace"

definition GetWorkspacePodTemplateDetailsHandler ::
  "be_app \<Rightarrow> http_request \<Rightarrow> string \<Rightarrow> string \<Rightarrow> (WorkspaceDetails, WorkspaceDetails http_response) http_step"
where
  "GetWorkspacePodTemplateDetailsHandler app rq namespace workspaceName =
     and_then (workspace_params app namespace workspaceName) (\<lambda>_.
     and_then (requireAuth app rq [policy VerbGet Workspaces namespace workspaceName]) (\<lambda>_.
     and_then (attempt (Repo_GetWorkspaceDetails app namespace workspaceName)) (\<lambda>r. case r of
       Inl err \<Rightarrow> if errors_is err ErrWorkspaceNotFound then stop notFoundResponse else stop serverErrorResponse
     | Inr details \<Rightarrow> proceed (dataResponse details))))"

end
