(* ===== verification/Backend_Pods.thy ===== *)
theory Backend_Pods
  imports Backend_Workspace_List
begin

text \<open>
  The pod of a Workspace: its logs (\<open>repositories/podlogs/repo.go\<close>,
  \<open>api/workspace_podtemplate_logs_handler.go\<close>) and its resource usage
  (\<open>repositories/metrics/repo.go\<close>, \<open>models/workspaces/podtemplate/resources\<close>,
  \<open>api/workspace_podtemplate_resources_handler.go\<close>). The log stream is the text it delivers.
\<close>

section \<open>Logs\<close>

record LogOptions =
  lo_Container :: string
  lo_TailLines :: int
  lo_Previous :: bool
  lo_SinceTime :: "int option"

definition safeLimitBytes :: int where "safeLimitBytes = 100 * 1024 * 1024"
definition defaultTailLines :: int where "defaultTailLines = 1000"
definition primaryContainerName :: string where "primaryContainerName = ''main''"

fun containerExists :: "string \<Rightarrow> string list \<Rightarrow> string list \<Rightarrow> bool" where
  "containerExists name [] [] = False"
| "containerExists name [] (i # initContainers) = (if i = name then True else containerExists name [] initContainers)"
| "containerExists name (c # containers) initContainers =
     (if c = name then True else containerExists name containers initContainers)"

definition checkStatus :: "bool \<Rightarrow> PodContainerStatus \<Rightarrow> (repo_error, unit) be_step" where
  "checkStatus previous cs =
     (if previous
      then if \<not> pst_LastTerminated cs then stop (SentinelError ErrPreviousLogsNotFound) else proceed ()
      else if pst_Waiting cs then stop (SentinelError ErrContainerNotRunning) else proceed ())"

definition ensureLogsAvailable :: "be_app \<Rightarrow> string \<Rightarrow> string \<Rightarrow> string \<Rightarrow> bool \<Rightarrow> (repo_error, unit) be_step" where
  "ensureLogsAvailable app namespace podName containerName previous =
     and_then (kube_get Pods (cl_GetPod (app_Client app)) namespace podName) (\<lambda>r. case r of
       Inl err \<Rightarrow>
         if IsNotFound err then stop (SentinelError ErrWorkspacePodNotRunning)
         else stop (WrappedError (''failed to get pod '' @ podName @ '': '') (KubeError err))
     | Inr pod \<Rightarrow>
         (case List.find (\<lambda>cs. pst_Name cs = containerName) (bp_ContainerStatuses pod) of
            Some cs \<Rightarrow> checkStatus previous cs
          | None \<Rightarrow>
              (case List.find (\<lambda>cs. pst_Name cs = containerName) (bp_InitContainerStatuses pod) of
                 Some cs \<Rightarrow> checkStatus previous cs
               | None \<Rightarrow> stop (SentinelError ErrContainerNotRunning))))"

definition resolvePodAndContainer :: "be_app \<Rightarrow> string \<Rightarrow> string \<Rightarrow> LogOptions \<Rightarrow> (repo_error, string \<times> string) be_step" where
  "resolvePodAndContainer app namespace workspaceName opts =
     and_then (get_or ErrWorkspaceNotFound (PolicyResource Workspaces) (cl_GetWorkspace (app_Client app)) namespace workspaceName) (\<lambda>workspace.
     let podStatus = st_PodTemplatePod (ws_Status workspace); podName = ps_Name podStatus in
     if podName = [] then stop (SentinelError ErrWorkspacePodNotRunning)
     else and_then
       (if lo_Container opts \<noteq> []
        then if \<not> containerExists (lo_Container opts) (ps_Containers podStatus) (ps_InitContainers podStatus)
             then stop (SentinelError ErrContainerNotFound) else proceed (lo_Container opts)
        else if ps_Containers podStatus = [] then stop (SentinelError ErrContainerNotRunning)
        else if \<not> containerExists primaryContainerName (ps_Containers podStatus) [] then stop (SentinelError ErrContainerNotFound)
        else proceed primaryContainerName) (\<lambda>containerName.
     and_then (ensureLogsAvailable app namespace podName containerName (lo_Previous opts)) (\<lambda>_.
     proceed (podName, containerName))))"

definition log_request :: "LogOptions \<Rightarrow> string \<Rightarrow> PodLogOptions" where
  "log_request opts containerName = \<lparr>
     plo_Container = containerName,
     plo_TailLines = (if lo_TailLines opts \<le> 0 then defaultTailLines else lo_TailLines opts),
     plo_LimitBytes = safeLimitBytes, plo_Previous = lo_Previous opts, plo_SinceTime = lo_SinceTime opts\<rparr>"

definition OpenLogStream :: "be_app \<Rightarrow> string \<Rightarrow> string \<Rightarrow> LogOptions \<Rightarrow> (repo_error, string) be_step" where
  "OpenLogStream app namespace workspaceName opts =
     and_then (resolvePodAndContainer app namespace workspaceName opts) (\<lambda>(podName, containerName).
     and_then (kube_get PodLogs (\<lambda>t ns name. cl_PodLogs (app_Client app) t ns name (log_request opts containerName)) namespace podName)
       (\<lambda>r. case r of
         Inl err \<Rightarrow> stop (WrappedError (''failed to open log stream for pod '' @ podName @ '', container '' @ containerName @ '': '') (KubeError err))
       | Inr stream \<Rightarrow> proceed stream))"

text \<open>One optional query parameter: its value when it is present and valid.\<close>

definition parse_param :: "http_request \<Rightarrow> string \<Rightarrow> (field_path \<Rightarrow> string \<Rightarrow> 'a \<times> field_error list) \<Rightarrow> 'a \<Rightarrow> 'a \<times> field_error list" where
  "parse_param rq name validate missing =
     (let raw = query_get rq name in
      if raw = [] then (missing, [])
      else (let (v, errs) = validate [Child name] raw in if errs \<noteq> [] then (missing, errs) else (v, [])))"

definition parseLogOptions :: "be_lib \<Rightarrow> http_request \<Rightarrow> LogOptions \<times> field_error list" where
  "parseLogOptions lib rq =
     (let (container, containerErrs) = parse_param rq ''container'' (\<lambda>p raw. (raw, ValidateKubernetesContainersName lib p raw)) [];
          (tail, tailErrs) = parse_param rq ''tailLines'' (ValidateFieldIsPositiveInt64 lib) 0;
          (previous, previousErrs) = parse_param rq ''previous'' (ValidateFieldIsBool lib) False;
          (sinceTime, sinceErrs) = parse_param rq ''sinceTime''
            (\<lambda>p raw. let (t, errs) = ValidateFieldIsRFC3339Time lib p raw in (Some t, errs)) None
      in (\<lparr>lo_Container = container, lo_TailLines = tail, lo_Previous = previous, lo_SinceTime = sinceTime\<rparr>,
          containerErrs @ tailErrs @ previousErrs @ sinceErrs))"

definition GetWorkspacePodTemplateLogsHandler ::
  "be_app \<Rightarrow> http_request \<Rightarrow> string \<Rightarrow> string \<Rightarrow> (string, string http_response) http_step"
where
  "GetWorkspacePodTemplateLogsHandler app rq namespace workspaceName =
     and_then (workspace_params app namespace workspaceName) (\<lambda>_.
     let (opts, valErrs) = parseLogOptions (app_Lib app) rq in
     and_then (query_params app valErrs) (\<lambda>_.
     and_then (requireAuth app rq [policy VerbGet Workspaces namespace workspaceName]) (\<lambda>_.
     and_then (attempt (OpenLogStream app namespace workspaceName opts)) (\<lambda>r. case r of
       Inl err \<Rightarrow>
         stop (if errors_is err ErrWorkspaceNotFound then notFoundResponse
               else if errors_is err ErrPreviousLogsNotFound \<or> errors_is err ErrWorkspacePodNotRunning
                 \<or> errors_is err ErrContainerNotFound \<or> errors_is err ErrContainerNotRunning
               then badRequestResponse (repo_error_text err)
               else serverErrorResponse)
     | Inr stream \<Rightarrow> proceed (dataResponse stream)))))"

section \<open>Resource usage\<close>

record ResourceValues =
  rv_CPU :: string
  rv_Memory :: string

record MetricsFromMetricsServer =
  mfs_Timestamp :: string
  mfs_Usage :: ResourceValues

record ContainerResourceUsage =
  cru_Metrics :: "MetricsFromMetricsServer option"
  cru_Resources :: k8s_opaque

record WorkspaceResourceUsage =
  wru_Containers :: "string \<rightharpoonup> ContainerResourceUsage"

definition resourceValues :: "ContainerMetrics \<Rightarrow> ResourceValues" where
  "resourceValues c = \<lparr>rv_CPU = (case cme_CPU c of Some v \<Rightarrow> v | None \<Rightarrow> []),
                       rv_Memory = (case cme_Memory c of Some v \<Rightarrow> v | None \<Rightarrow> [])\<rparr>"

definition UsageForPod :: "be_lib \<Rightarrow> PodMetrics \<Rightarrow> (string \<rightharpoonup> MetricsFromMetricsServer)" where
  "UsageForPod lib pm =
     foldl (\<lambda>m c. m(cme_Name c \<mapsto> \<lparr>mfs_Timestamp = FormatRFC3339 lib (pme_Timestamp pm), mfs_Usage = resourceValues c\<rparr>))
       Map.empty (pme_Containers pm)"

definition NewWorkspaceResourceUsage ::
  "BackendPod \<Rightarrow> (string \<rightharpoonup> MetricsFromMetricsServer) \<Rightarrow> WorkspaceResourceUsage"
where
  "NewWorkspaceResourceUsage pod usageByContainer = \<lparr>wru_Containers =
     foldl (\<lambda>m (name, res). m(name \<mapsto> \<lparr>cru_Metrics = usageByContainer name, cru_Resources = res\<rparr>)) Map.empty (bp_Containers pod)\<rparr>"

text \<open>The closure \<open>memoize\<close> returns, with its captured variables as state; \<open>None\<close> is the zero time.\<close>

type_synonym memo = "bool \<times> int option"

definition memoize :: "int \<Rightarrow> (int \<Rightarrow> bool) \<Rightarrow> int \<Rightarrow> memo \<Rightarrow> bool \<times> memo" where
  "memoize ttl probe now m =
     (case m of (val, checkedAt) \<Rightarrow>
        let m' = (case checkedAt of
                    None \<Rightarrow> (probe now, Some now)
                  | Some t \<Rightarrow> if now - t \<ge> ttl then (probe now, Some now) else (val, checkedAt))
        in (fst m', m'))"

definition LabelWorkspaceName :: string where "LabelWorkspaceName = ''notebooks.kubeflow.org/workspace-name''"

text \<open>\<open>apiAvailable\<close> is the memoized probe of the repository.\<close>

definition GetWorkspaceResourceUsage ::
  "be_app \<Rightarrow> (be_trace \<Rightarrow> bool) \<Rightarrow> string \<Rightarrow> string \<Rightarrow> (repo_error, WorkspaceResourceUsage) be_step"
where
  "GetWorkspaceResourceUsage app apiAvailable ns workspace =
     and_then (get_or ErrWorkspaceNotFound (PolicyResource Workspaces) (cl_GetWorkspace (app_Client app)) ns workspace) (\<lambda>_.
     and_then (list_all_of Pods (\<lambda>t n. cl_ListPodsOf (app_Client app) t n LabelWorkspaceName workspace) ns) (\<lambda>podList.
     case podList of
       [] \<Rightarrow> stop (SentinelError ErrWorkspacePodNotRunning)
     | pod # _ \<Rightarrow>
         and_then (ask apiAvailable) (\<lambda>available.
         if \<not> available then proceed (NewWorkspaceResourceUsage pod Map.empty)
         else and_then (kube_get PodMetricsResource (cl_GetPodMetrics (app_Client app)) ns (om_Name (bp_Meta pod))) (\<lambda>r. case r of
           Inl err \<Rightarrow>
             and_then (ask (cl_ContextErr (app_Client app))) (\<lambda>ctxErr. case ctxErr of
               Some e \<Rightarrow> stop (PlainError e)
             | None \<Rightarrow> proceed (NewWorkspaceResourceUsage pod Map.empty))
         | Inr podMetrics \<Rightarrow> proceed (NewWorkspaceResourceUsage pod (UsageForPod (app_Lib app) podMetrics))))))"

definition GetWorkspacePodTemplateResourcesHandler ::
  "be_app \<Rightarrow> (be_trace \<Rightarrow> bool) \<Rightarrow> http_request \<Rightarrow> string \<Rightarrow> string
     \<Rightarrow> (WorkspaceResourceUsage, WorkspaceResourceUsage http_response) http_step"
where
  "GetWorkspacePodTemplateResourcesHandler app apiAvailable rq namespace workspaceName =
     and_then (workspace_params app namespace workspaceName) (\<lambda>_.
     and_then (requireAuth app rq [policy VerbGet Workspaces namespace workspaceName]) (\<lambda>_.
     and_then (attempt (GetWorkspaceResourceUsage app apiAvailable namespace workspaceName)) (\<lambda>r. case r of
       Inl err \<Rightarrow>
         stop (if errors_is err ErrWorkspaceNotFound then notFoundResponse
               else if errors_is err ErrWorkspacePodNotRunning then badRequestResponse (repo_error_text err)
               else serverErrorResponse)
     | Inr usage \<Rightarrow> proceed (dataResponse usage))))"

end
