(* ===== verification/Backend_Secrets.thy ===== *)
theory Backend_Secrets
  imports Backend_Workspaces
begin

text \<open>
  Secrets: the models of \<open>backend/internal/models/secrets\<close>, the repository
  \<open>backend/internal/repositories/secrets/repo.go\<close> and the handlers of
  \<open>backend/api/secrets_handler.go\<close>. A Go map of secret values is a finite map; the loops over
  such a map run in an order \<open>kord\<close> that the language leaves open.
\<close>

section \<open>Models\<close>

record SecretValue =
  sv_Base64 :: "string option"

type_synonym SecretData = "(string, SecretValue) fmap"

record SecretCreate =
  scr_Name :: string
  scr_Type :: string
  scr_Immutable :: bool
  scr_Contents :: SecretData

record SecretUpdate =
  sup_Type :: string
  sup_Immutable :: bool
  sup_Contents :: SecretData

record SecretMount =
  smt_Group :: string
  smt_Kind :: string
  smt_Name :: string

record SecretListItem =
  sli_Name :: string
  sli_CanUpdate :: bool
  sli_CanMount :: bool
  sli_Mounts :: "SecretMount list"
  sli_Audit :: Audit

definition SecretValue_Validate :: "be_lib \<Rightarrow> field_path \<Rightarrow> SecretValue \<Rightarrow> field_error list" where
  "SecretValue_Validate lib prefix s =
     (case sv_Base64 s of
        None \<Rightarrow> []
      | Some b \<Rightarrow> ValidateFieldIsSecretBase64Value lib (prefix @ [Child ''base64'']) b)"

definition SecretData_Validate :: "be_lib \<Rightarrow> key_order_fn \<Rightarrow> field_path \<Rightarrow> SecretData \<Rightarrow> field_error list" where
  "SecretData_Validate lib kord prefix s =
     concat (map (\<lambda>key. ValidateFieldIsConfigMapKey lib prefix key
                       @ SecretValue_Validate lib (prefix @ [Key key]) (the (fmlookup s key)))
       (kord (fmdom' s)))"

definition SecretCreate_Validate :: "be_lib \<Rightarrow> key_order_fn \<Rightarrow> field_path \<Rightarrow> SecretCreate \<Rightarrow> field_error list" where
  "SecretCreate_Validate lib kord prefix s =
     ValidateKubernetesSecretName lib (prefix @ [Child ''name'']) (scr_Name s)
     @ SecretData_Validate lib kord (prefix @ [Child ''contents'']) (scr_Contents s)"

definition SecretUpdate_Validate :: "be_lib \<Rightarrow> key_order_fn \<Rightarrow> field_path \<Rightarrow> SecretUpdate \<Rightarrow> field_error list" where
  "SecretUpdate_Validate lib kord prefix s =
     SecretData_Validate lib kord (prefix @ [Child ''contents'']) (sup_Contents s)"

text \<open>
  The loop that builds the data: a value is decoded, a key without a value keeps what
  \<open>existing\<close> has for it.
\<close>

fun decode_contents ::
  "be_lib \<Rightarrow> (string, string) fmap \<Rightarrow> SecretData \<Rightarrow> string list \<Rightarrow> (string, string) fmap \<Rightarrow> string + (string, string) fmap"
where
  "decode_contents lib existing contents [] newData = Inr newData"
| "decode_contents lib existing contents (key # keys) newData =
     (case sv_Base64 (the (fmlookup contents key)) of
        Some b \<Rightarrow>
          (case Base64Decode lib b of
             Inl err \<Rightarrow> Inl err
           | Inr decoded \<Rightarrow> decode_contents lib existing contents keys (fmupd key decoded newData))
      | None \<Rightarrow>
          (case fmlookup existing key of
             Some existingValue \<Rightarrow> decode_contents lib existing contents keys (fmupd key existingValue newData)
           | None \<Rightarrow> decode_contents lib existing contents keys newData))"

definition ApplySecretUpdateModelToSecret :: "be_lib \<Rightarrow> key_order_fn \<Rightarrow> SecretUpdate \<Rightarrow> Secret \<Rightarrow> string + Secret" where
  "ApplySecretUpdateModelToSecret lib kord secretUpdate secret =
     (case decode_contents lib (sec_Data secret) (sup_Contents secretUpdate) (kord (fmdom' (sup_Contents secretUpdate))) fmempty of
        Inl err \<Rightarrow> Inl err
      | Inr newData \<Rightarrow> Inr (secret\<lparr>sec_Data := newData, sec_Type := sup_Type secretUpdate,
                                  sec_Immutable := Some (sup_Immutable secretUpdate)\<rparr>))"

text \<open>On creation there is nothing to preserve.\<close>

definition NewSecretFromSecretCreateModel :: "be_lib \<Rightarrow> key_order_fn \<Rightarrow> SecretCreate \<Rightarrow> string \<Rightarrow> string + Secret" where
  "NewSecretFromSecretCreateModel lib kord secretCreate namespace =
     (case decode_contents lib fmempty (scr_Contents secretCreate) (kord (fmdom' (scr_Contents secretCreate))) fmempty of
        Inl err \<Rightarrow> Inl err
      | Inr data \<Rightarrow> Inr \<lparr>
          sec_Meta = empty_meta\<lparr>om_Name := scr_Name secretCreate, om_Namespace := namespace,
            om_Labels := fmupd LabelCanUpdate ''true'' (fmupd LabelCanMount ''true'' fmempty)\<rparr>,
          sec_Type = scr_Type secretCreate, sec_Data = data, sec_Immutable = Some (scr_Immutable secretCreate)\<rparr>)"

definition secretDataFromKubernetesSecret :: "(string, string) fmap \<Rightarrow> SecretData" where
  "secretDataFromKubernetesSecret data = fmmap (\<lambda>_. \<lparr>sv_Base64 = None\<rparr>) data"

definition NewSecretCreateModelFromSecret :: "Secret \<Rightarrow> SecretCreate" where
  "NewSecretCreateModelFromSecret secret = \<lparr>
     scr_Name = om_Name (sec_Meta secret), scr_Type = sec_Type secret,
     scr_Immutable = (case sec_Immutable secret of Some b \<Rightarrow> b | None \<Rightarrow> False),
     scr_Contents = secretDataFromKubernetesSecret (sec_Data secret)\<rparr>"

definition NewSecretUpdateModelFromSecret :: "Secret \<Rightarrow> SecretUpdate" where
  "NewSecretUpdateModelFromSecret secret = \<lparr>
     sup_Type = sec_Type secret,
     sup_Immutable = (case sec_Immutable secret of Some b \<Rightarrow> b | None \<Rightarrow> False),
     sup_Contents = secretDataFromKubernetesSecret (sec_Data secret)\<rparr>"

definition NewSecretListItemFromSecretMetadata ::
  "be_lib \<Rightarrow> ObjectMeta \<Rightarrow> (string \<Rightarrow> SecretMount list) \<Rightarrow> SecretListItem"
where
  "NewSecretListItemFromSecretMetadata lib secret secretToMountsList = \<lparr>
     sli_Name = om_Name secret,
     sli_CanUpdate = (go_index (om_Labels secret) LabelCanUpdate = ''true''),
     sli_CanMount = (go_index (om_Labels secret) LabelCanMount = ''true''),
     sli_Mounts = secretToMountsList (om_Name secret),
     sli_Audit = NewAuditFromObjectMeta lib secret\<rparr>"

section \<open>Which Workspaces mount what\<close>

text \<open>
  The loop shared by the mount maps of Secrets and PersistentVolumeClaims: \<open>info\<close> is appended
  once for each distinct name.
\<close>

fun add_mounts :: "'i \<Rightarrow> string list \<Rightarrow> string set \<Rightarrow> (string \<Rightarrow> 'i list) \<Rightarrow> (string \<Rightarrow> 'i list)" where
  "add_mounts info [] seen m = m"
| "add_mounts info (name # names) seen m =
     (if name \<notin> seen then add_mounts info names (insert name seen) (m(name := m name @ [info]))
      else add_mounts info names seen m)"

definition secret_mount_of :: "Workspace \<Rightarrow> SecretMount" where
  "secret_mount_of ws = \<lparr>smt_Group = ''kubeflow.org'', smt_Kind = ''Workspace'', smt_Name = ws_Name ws\<rparr>"

definition buildSecretMountMap :: "Workspace list \<Rightarrow> (string \<Rightarrow> SecretMount list)" where
  "buildSecretMountMap workspaceList =
     foldl (\<lambda>m ws. add_mounts (secret_mount_of ws) (map psm_SecretName (pv_Secrets (wpt_Volumes (ws_PodTemplate ws)))) {} m)
       (\<lambda>_. []) workspaceList"

section \<open>Repository\<close>

definition Repo_GetSecrets :: "be_app \<Rightarrow> string \<Rightarrow> (repo_error, SecretListItem list) be_step" where
  "Repo_GetSecrets app namespace =
     and_then (list_all_of (PolicyResource Secrets) (cl_ListSecretMeta (app_Client app)) namespace) (\<lambda>secretMetaList.
     and_then (list_all_of (PolicyResource Workspaces) (cl_ListWorkspaces (app_Client app)) namespace) (\<lambda>workspaceList.
     proceed (map (\<lambda>secret. NewSecretListItemFromSecretMetadata (app_Lib app) secret (buildSecretMountMap workspaceList)) secretMetaList)))"

definition Repo_GetSecret :: "be_app \<Rightarrow> string \<Rightarrow> string \<Rightarrow> (repo_error, SecretUpdate) be_step" where
  "Repo_GetSecret app namespace secretName =
     and_then (get_or ErrSecretNotFound (PolicyResource Secrets) (cl_GetSecret (app_Client app)) namespace secretName)
       (\<lambda>secret. proceed (NewSecretUpdateModelFromSecret secret))"

definition Repo_CreateSecret ::
  "be_app \<Rightarrow> key_order_fn \<Rightarrow> string option \<Rightarrow> SecretCreate \<Rightarrow> string \<Rightarrow> (repo_error, SecretCreate) be_step"
where
  "Repo_CreateSecret app kord actor secretCreate namespace =
     (case NewSecretFromSecretCreateModel (app_Lib app) kord secretCreate namespace of
        Inl err \<Rightarrow> stop (PlainError err)
      | Inr secret \<Rightarrow>
          let secret = secret\<lparr>sec_Meta := UpdateObjectMetaForCreate actor (sec_Meta secret)\<rparr> in
          and_then (store_or (\<lambda>err. if IsAlreadyExists err then SentinelError ErrSecretAlreadyExists else KubeError err)
                      (cl_StoreSecret (app_Client app)) (CreateCall (SecretObject secret))) (\<lambda>stored.
          proceed (NewSecretCreateModelFromSecret stored)))"

definition can_update :: "ObjectMeta \<Rightarrow> bool" where
  "can_update meta \<longleftrightarrow> go_index (om_Labels meta) LabelCanUpdate = ''true''"

definition Repo_UpdateSecret ::
  "be_app \<Rightarrow> key_order_fn \<Rightarrow> string option \<Rightarrow> SecretUpdate \<Rightarrow> string \<Rightarrow> string \<Rightarrow> (repo_error, SecretUpdate) be_step"
where
  "Repo_UpdateSecret app kord actor secretUpdate namespace secretName =
     and_then (ask (app_Now app)) (\<lambda>now.
     and_then (get_or ErrSecretNotFound (PolicyResource Secrets) (cl_GetSecret (app_Client app)) namespace secretName) (\<lambda>secret.
     if \<not> can_update (sec_Meta secret) then stop (SentinelError ErrSecretNotCanUpdate)
     else (case ApplySecretUpdateModelToSecret (app_Lib app) kord secretUpdate secret of
       Inl err \<Rightarrow> stop (PlainError err)
     | Inr secret \<Rightarrow>
         let secret = secret\<lparr>sec_Meta := UpdateObjectMetaForUpdate (app_Lib app) actor now (sec_Meta secret)\<rparr> in
         and_then (store_or (\<lambda>err. if IsNotFound err then SentinelError ErrSecretNotFound else KubeError err)
                     (cl_StoreSecret (app_Client app)) (UpdateCall (SecretObject secret))) (\<lambda>stored.
         proceed (NewSecretUpdateModelFromSecret stored)))))"

definition Repo_DeleteSecret :: "be_app \<Rightarrow> string \<Rightarrow> string \<Rightarrow> (repo_error, unit) be_step" where
  "Repo_DeleteSecret app namespace secretName =
     and_then (get_or ErrSecretNotFound (PolicyResource Secrets) (cl_GetSecret (app_Client app)) namespace secretName) (\<lambda>secret.
     if \<not> can_update (sec_Meta secret) then stop (SentinelError ErrSecretNotCanUpdate)
     else delete_or ErrSecretNotFound (app_Client app) Secrets (om_Namespace (sec_Meta secret)) (om_Name (sec_Meta secret)))"

section \<open>Handlers\<close>

definition secret_params :: "be_app \<Rightarrow> string \<Rightarrow> string \<Rightarrow> ('d, unit) http_step" where
  "secret_params app namespace secretName =
     path_params app (ValidateKubernetesNamespaceName (app_Lib app) [Child ''namespace''] namespace
       @ ValidateKubernetesSecretName (app_Lib app) [Child ''name''] secretName)"

definition GetSecretsByNamespaceHandler ::
  "be_app \<Rightarrow> http_request \<Rightarrow> string \<Rightarrow> (SecretListItem list, SecretListItem list http_response) http_step"
where
  "GetSecretsByNamespaceHandler app rq namespace =
     and_then (namespace_params app namespace) (\<lambda>_.
     and_then (requireAuth app rq [policy VerbList Secrets namespace []]) (\<lambda>_.
     and_then (attempt (Repo_GetSecrets app namespace)) (\<lambda>r. case r of
       Inl err \<Rightarrow> stop serverErrorResponse
     | Inr secrets \<Rightarrow> proceed (dataResponse secrets))))"

definition GetSecretHandler ::
  "be_app \<Rightarrow> http_request \<Rightarrow> string \<Rightarrow> string \<Rightarrow> (SecretUpdate, SecretUpdate http_response) http_step"
where
  "GetSecretHandler app rq namespace secretName =
     and_then (secret_params app namespace secretName) (\<lambda>_.
     and_then (requireAuth app rq [policy VerbGet Secrets namespace secretName]) (\<lambda>_.
     and_then (attempt (Repo_GetSecret app namespace secretName)) (\<lambda>r. case r of
       Inl err \<Rightarrow> if errors_is err ErrSecretNotFound then stop notFoundResponse else stop serverErrorResponse
     | Inr secret \<Rightarrow> proceed (dataResponse secret))))"

definition CreateSecretHandler ::
  "be_app \<Rightarrow> key_order_fn \<Rightarrow> (string \<Rightarrow> decode_error + SecretCreate option) \<Rightarrow> http_request \<Rightarrow> string
     \<Rightarrow> (SecretCreate, SecretCreate http_response) http_step"
where
  "CreateSecretHandler app kord decode rq namespace =
     and_then (namespace_params app namespace) (\<lambda>_.
     and_then (json_body app rq decode (SecretCreate_Validate (app_Lib app) kord)) (\<lambda>secretCreate.
     and_then (requireAuth app rq [policy VerbCreate Secrets namespace (scr_Name secretCreate)]) (\<lambda>actor.
     and_then (attempt (Repo_CreateSecret app kord (actor_of actor) secretCreate namespace)) (\<lambda>r. case r of
       Inl err \<Rightarrow>
         stop (if errors_is err ErrSecretAlreadyExists
               then conflictResponse (sentinel_text ErrSecretAlreadyExists) (StatusCausesFromAPIStatus err)
               else if err_has_reason err ReasonInvalid
               then failedValidationResponse (app_Fields app) errMsgKubernetesValidation [] (StatusCausesFromAPIStatus err)
               else serverErrorResponse)
     | Inr createdSecret \<Rightarrow>
         proceed (createdResponse createdSecret (LocationGetSecret namespace (scr_Name createdSecret)))))))"

definition UpdateSecretHandler ::
  "be_app \<Rightarrow> key_order_fn \<Rightarrow> (string \<Rightarrow> decode_error + SecretUpdate option) \<Rightarrow> http_request \<Rightarrow> string \<Rightarrow> string
     \<Rightarrow> (SecretUpdate, SecretUpdate http_response) http_step"
where
  "UpdateSecretHandler app kord decode rq namespace secretName =
     and_then (secret_params app namespace secretName) (\<lambda>_.
     and_then (requireAuth app rq [policy VerbUpdate Secrets namespace secretName]) (\<lambda>actor.
     and_then (json_body app rq decode (SecretUpdate_Validate (app_Lib app) kord)) (\<lambda>secretUpdate.
     and_then (attempt (Repo_UpdateSecret app kord (actor_of actor) secretUpdate namespace secretName)) (\<lambda>r. case r of
       Inl err \<Rightarrow>
         stop (if errors_is err ErrSecretNotFound then notFoundResponse
               else if errors_is err ErrSecretNotCanUpdate then forbiddenResponse
               else if err_has_reason err ReasonInvalid
               then failedValidationResponse (app_Fields app) errMsgKubernetesValidation [] (StatusCausesFromAPIStatus err)
               else serverErrorResponse)
     | Inr updatedSecret \<Rightarrow> proceed (dataResponse updatedSecret)))))"

definition DeleteSecretHandler ::
  "be_app \<Rightarrow> http_request \<Rightarrow> string \<Rightarrow> string \<Rightarrow> (unit, unit http_response) http_step"
where
  "DeleteSecretHandler app rq namespace secretName =
     and_then (secret_params app namespace secretName) (\<lambda>_.
     and_then (requireAuth app rq [policy VerbDelete Secrets namespace secretName]) (\<lambda>_.
     and_then (attempt (Repo_DeleteSecret app namespace secretName)) (\<lambda>r. case r of
       Inl err \<Rightarrow>
         stop (if errors_is err ErrSecretNotFound then notFoundResponse
               else if errors_is err ErrSecretNotCanUpdate then forbiddenResponse
               else if err_has_reason err ReasonConflict
               then conflictResponse (repo_error_text err) (StatusCausesFromAPIStatus err)
               else serverErrorResponse)
     | Inr _ \<Rightarrow> proceed deletedResponse)))"

end
