(* ===== verification/Backend_PVCs.thy ===== *)
theory Backend_PVCs
  imports Backend_Secrets
begin

text \<open>
  PersistentVolumeClaims, storage classes and namespaces: the models of
  \<open>backend/internal/models/pvcs\<close>, \<open>storageclasses\<close> and \<open>namespaces\<close>, their
  repositories, and the handlers of \<open>backend/api/pvcs_handler.go\<close>,
  \<open>storageclasses_handler.go\<close> and \<open>namespaces_handler.go\<close>.
\<close>

section \<open>Models\<close>

record StorageRequestsMutate =
  srm_Storage :: string

record PVCCreate =
  pcr_Name :: string
  pcr_AccessModes :: "string list"
  pcr_StorageClassName :: string
  pcr_Requests :: StorageRequestsMutate

definition StorageRequestsMutate_Validate :: "be_lib \<Rightarrow> field_path \<Rightarrow> StorageRequestsMutate \<Rightarrow> field_error list" where
  "StorageRequestsMutate_Validate lib prefix s =
     (case ParseQuantity lib (srm_Storage s) of
        Inl err \<Rightarrow> [FieldInvalid (prefix @ [Child ''storage'']) (BadString (srm_Storage s)) err]
      | Inr _ \<Rightarrow> [])"

definition PVCCreate_Validate :: "be_lib \<Rightarrow> field_path \<Rightarrow> PVCCreate \<Rightarrow> field_error list" where
  "PVCCreate_Validate lib prefix p =
     ValidateKubernetesPVCName lib (prefix @ [Child ''name'']) (pcr_Name p)
     @ (if pcr_AccessModes p = []
        then [FieldRequired (prefix @ [Child ''accessModes'']) ''at least one access mode is required''] else [])
     @ ValidateKubernetesStorageClassName lib (prefix @ [Child ''storageClassName'']) (pcr_StorageClassName p)
     @ StorageRequestsMutate_Validate lib (prefix @ [Child ''requests'']) (pcr_Requests p)"

record PodNode =
  pn_Name :: string

record PodInfo =
  pi_Name :: string
  pi_Phase :: string
  pi_Node :: "PodNode option"

record PodTemplatePod =
  ptp_Name :: string
  ptp_Node :: "PodNode option"

record WorkspaceInfo =
  wi_Name :: string
  wi_State :: WorkspaceState
  wi_StateMessage :: string
  wi_PodTemplatePod :: "PodTemplatePod option"

record PVCSpec =
  pcs_Storage :: string
  pcs_AccessModes :: "string list"
  pcs_VolumeMode :: string
  pcs_StorageClassName :: string

record StorageClassInfo =
  sci_Name :: string
  sci_DisplayName :: string
  sci_Description :: string

record PVInfo =
  pvi_Name :: string
  pvi_ReclaimPolicy :: string
  pvi_VolumeMode :: string
  pvi_AccessModes :: "string list"
  pvi_StorageClass :: "StorageClassInfo option"

record PVCListItem =
  pli_Name :: string
  pli_CanMount :: bool
  pli_CanUpdate :: bool
  pli_Pods :: "PodInfo list"
  pli_Workspaces :: "WorkspaceInfo list"
  pli_Audit :: Audit
  pli_PVCSpec :: PVCSpec
  pli_PV :: "PVInfo option"

definition NewPVCCreateModelFromPVC :: "be_lib \<Rightarrow> PersistentVolumeClaim \<Rightarrow> PVCCreate" where
  "NewPVCCreateModelFromPVC lib pvc = \<lparr>
     pcr_Name = om_Name (pvo_Meta pvc), pcr_AccessModes = pvo_AccessModes pvc,
     pcr_StorageClassName = (case pvo_StorageClassName pvc of Some s \<Rightarrow> s | None \<Rightarrow> []),
     pcr_Requests = \<lparr>srm_Storage = QuantityString lib (pvo_StorageRequest pvc)\<rparr>\<rparr>"

definition PersistentVolumeFilesystem :: string where "PersistentVolumeFilesystem = ''Filesystem''"

text \<open>An object that was not found is one with an empty UID.\<close>

definition pvExists :: "PersistentVolume option \<Rightarrow> bool" where
  "pvExists pv \<longleftrightarrow> (case pv of None \<Rightarrow> False | Some v \<Rightarrow> om_UID (pvl_Meta v) \<noteq> [])"

definition scExists :: "StorageClass option \<Rightarrow> bool" where
  "scExists sc \<longleftrightarrow> (case sc of None \<Rightarrow> False | Some c \<Rightarrow> om_UID (scl_Meta c) \<noteq> [])"

definition NewPVCListItemFromPVC ::
  "be_lib \<Rightarrow> PersistentVolumeClaim \<Rightarrow> PersistentVolume option \<Rightarrow> StorageClass option \<Rightarrow> (string \<Rightarrow> PodInfo list)
     \<Rightarrow> (string \<Rightarrow> WorkspaceInfo list) \<Rightarrow> PVCListItem"
where
  "NewPVCListItemFromPVC lib pvc pv sc pvcToPodInfoList pvcToWorkspaceInfoList = \<lparr>
     pli_Name = om_Name (pvo_Meta pvc),
     pli_CanMount = (go_index (om_Labels (pvo_Meta pvc)) LabelCanMount = ''true''),
     pli_CanUpdate = (go_index (om_Labels (pvo_Meta pvc)) LabelCanUpdate = ''true''),
     pli_Pods = pvcToPodInfoList (om_Name (pvo_Meta pvc)),
     pli_Workspaces = pvcToWorkspaceInfoList (om_Name (pvo_Meta pvc)),
     pli_Audit = NewAuditFromObjectMeta lib (pvo_Meta pvc),
     pli_PVCSpec = \<lparr>pcs_Storage = QuantityString lib (pvo_StorageRequest pvc), pcs_AccessModes = pvo_AccessModes pvc,
       pcs_VolumeMode = (case pvo_VolumeMode pvc of Some m \<Rightarrow> m | None \<Rightarrow> PersistentVolumeFilesystem),
       pcs_StorageClassName = (case pvo_StorageClassName pvc of Some s \<Rightarrow> s | None \<Rightarrow> [])\<rparr>,
     pli_PV = (if \<not> pvExists pv then None
               else (let v = the pv in Some \<lparr>
                 pvi_Name = om_Name (pvl_Meta v), pvi_ReclaimPolicy = pvl_ReclaimPolicy v,
                 pvi_VolumeMode = (case pvl_VolumeMode v of Some m \<Rightarrow> m | None \<Rightarrow> PersistentVolumeFilesystem),
                 pvi_AccessModes = pvl_AccessModes v,
                 pvi_StorageClass = (if \<not> scExists sc then None
                   else Some \<lparr>sci_Name = om_Name (scl_Meta (the sc)),
                          sci_DisplayName = GetDisplayNameFromObjectMeta (scl_Meta (the sc)),
                          sci_Description = GetDescriptionFromObjectMeta (scl_Meta (the sc))\<rparr>)\<rparr>))\<rparr>"

definition pod_info_of :: "BackendPod \<Rightarrow> PodInfo" where
  "pod_info_of pod = \<lparr>pi_Name = om_Name (bp_Meta pod), pi_Phase = bp_Phase pod,
     pi_Node = (if bp_NodeName pod \<noteq> [] then Some \<lparr>pn_Name = bp_NodeName pod\<rparr> else None)\<rparr>"

definition buildPodInfoMap :: "BackendPod list \<Rightarrow> (string \<Rightarrow> PodInfo list)" where
  "buildPodInfoMap podList =
     foldl (\<lambda>m pod. add_mounts (pod_info_of pod) (List.map_filter id (bp_VolumeClaims pod)) {} m) (\<lambda>_. []) podList"

definition workspace_info_of :: "Workspace \<Rightarrow> WorkspaceInfo" where
  "workspace_info_of ws = \<lparr>
     wi_Name = ws_Name ws, wi_State = st_State (ws_Status ws), wi_StateMessage = st_StateMessage (ws_Status ws),
     wi_PodTemplatePod =
       (let pod = st_PodTemplatePod (ws_Status ws) in
        if ps_Name pod \<noteq> []
        then Some \<lparr>ptp_Name = ps_Name pod, ptp_Node = (if ps_NodeName pod \<noteq> [] then Some \<lparr>pn_Name = ps_NodeName pod\<rparr> else None)\<rparr>
        else None)\<rparr>"

definition workspace_claims :: "Workspace \<Rightarrow> string list" where
  "workspace_claims ws =
     (case pv_Home (wpt_Volumes (ws_PodTemplate ws)) of None \<Rightarrow> [] | Some home \<Rightarrow> [home])
     @ map pvm_PVCName (pv_Data (wpt_Volumes (ws_PodTemplate ws)))"

definition buildWorkspaceInfoMap :: "Workspace list \<Rightarrow> (string \<Rightarrow> WorkspaceInfo list)" where
  "buildWorkspaceInfoMap workspaceList =
     foldl (\<lambda>m ws. add_mounts (workspace_info_of ws) (workspace_claims ws) {} m) (\<lambda>_. []) workspaceList"

section \<open>Repositories\<close>

text \<open>A read that ignores a missing object.\<close>

definition get_if_exists ::
  "kube_resource \<Rightarrow> (be_trace \<Rightarrow> string \<Rightarrow> string \<Rightarrow> kube_error + 'a) \<Rightarrow> string \<Rightarrow> string \<Rightarrow> (repo_error, 'a option) be_step"
where
  "get_if_exists res get ns name =
     and_then (kube_get res get ns name) (\<lambda>r. case r of
       Inr x \<Rightarrow> proceed (Some x)
     | Inl err \<Rightarrow> if IsNotFound err then proceed None else stop (KubeError err))"

fun pvc_items ::
  "be_app \<Rightarrow> (string \<Rightarrow> PodInfo list) \<Rightarrow> (string \<Rightarrow> WorkspaceInfo list) \<Rightarrow> PersistentVolumeClaim list
     \<Rightarrow> (repo_error, PVCListItem list) be_step"
where
  "pvc_items app pods workspaces [] = proceed []"
| "pvc_items app pods workspaces (pvc # pvcs) =
     and_then (if pvo_VolumeName pvc \<noteq> []
               then get_if_exists PersistentVolumes (cl_GetPV (app_Client app)) [] (pvo_VolumeName pvc)
               else proceed None) (\<lambda>pv.
     and_then (case pvo_StorageClassName pvc of
                 None \<Rightarrow> proceed None
               | Some s \<Rightarrow> if s \<noteq> [] then get_if_exists (PolicyResource StorageClasses) (cl_GetStorageClass (app_Client app)) [] s
                          else proceed None) (\<lambda>sc.
     and_then (pvc_items app pods workspaces pvcs) (\<lambda>items.
     proceed (NewPVCListItemFromPVC (app_Lib app) pvc pv sc pods workspaces # items))))"

definition Repo_GetPVCs :: "be_app \<Rightarrow> string \<Rightarrow> (repo_error, PVCListItem list) be_step" where
  "Repo_GetPVCs app namespace =
     and_then (list_all_of (PolicyResource PersistentVolumeClaims) (cl_ListPVCs (app_Client app)) namespace) (\<lambda>pvcList.
     and_then (list_all_of Pods (cl_ListPods (app_Client app)) namespace) (\<lambda>podList.
     and_then (list_all_of (PolicyResource Workspaces) (cl_ListWorkspaces (app_Client app)) namespace) (\<lambda>workspaceList.
     pvc_items app (buildPodInfoMap podList) (buildWorkspaceInfoMap workspaceList) pvcList)))"

definition Repo_CreatePVC ::
  "be_app \<Rightarrow> string option \<Rightarrow> PVCCreate \<Rightarrow> string \<Rightarrow> (repo_error, PVCCreate) be_step"
where
  "Repo_CreatePVC app actor pvcCreate namespace =
     and_then (ValidateKubernetesStorageClassIsUsable (app_Client app) [Child ''storageClassName''] (pcr_StorageClassName pvcCreate)) (\<lambda>valErrs.
     let storage = srm_Storage (pcr_Requests pvcCreate);
         parsed = ParseQuantity (app_Lib app) storage;
         allValErrs = valErrs @ (case parsed of
             Inl err \<Rightarrow> [FieldInvalid [Child ''requests'', Child ''storage''] (BadString storage) err] | Inr _ \<Rightarrow> [])
     in if allValErrs \<noteq> [] then stop (InternalValidationError allValErrs)
        else let pvc = \<lparr>
               pvo_Meta = UpdateObjectMetaForCreate actor (empty_meta\<lparr>om_Name := pcr_Name pvcCreate, om_Namespace := namespace,
                 om_Labels := fmupd LabelOdhDashboard ''true'' (fmupd LabelCanUpdate ''true'' (fmupd LabelCanMount ''true'' fmempty))\<rparr>),
               pvo_AccessModes = pcr_AccessModes pvcCreate, pvo_StorageClassName = Some (pcr_StorageClassName pvcCreate),
               pvo_StorageRequest = projr parsed, pvo_VolumeName = [], pvo_VolumeMode = None\<rparr>
             in and_then (store_or (\<lambda>err. if IsAlreadyExists err then SentinelError ErrPVCAlreadyExists else KubeError err)
                            (cl_StorePVC (app_Client app)) (CreateCall (PVCObject pvc))) (\<lambda>stored.
                proceed (NewPVCCreateModelFromPVC (app_Lib app) stored)))"

definition Repo_DeletePVC :: "be_app \<Rightarrow> string \<Rightarrow> string \<Rightarrow> (repo_error, unit) be_step" where
  "Repo_DeletePVC app namespace pvcName =
     and_then (get_or ErrPVCNotFound (PolicyResource PersistentVolumeClaims) (cl_GetPVC (app_Client app)) namespace pvcName) (\<lambda>pvc.
     if \<not> can_update (pvo_Meta pvc) then stop (SentinelError ErrPVCNotCanUpdate)
     else delete_or ErrPVCNotFound (app_Client app) PersistentVolumeClaims (om_Namespace (pvo_Meta pvc)) (om_Name (pvo_Meta pvc)))"

record StorageClassListItem =
  sli_ClassName :: string
  sli_DisplayName :: string
  sli_Description :: string
  sli_CanUse :: bool

definition NewStorageClassListItemFromStorageClass :: "StorageClass \<Rightarrow> StorageClassListItem" where
  "NewStorageClassListItemFromStorageClass sc = \<lparr>
     sli_ClassName = om_Name (scl_Meta sc), sli_DisplayName = GetDisplayNameFromObjectMeta (scl_Meta sc),
     sli_Description = GetDescriptionFromObjectMeta (scl_Meta sc),
     sli_CanUse = (go_index (om_Labels (scl_Meta sc)) LabelCanUse = ''true'')\<rparr>"

definition Repo_GetStorageClasses :: "be_app \<Rightarrow> (repo_error, StorageClassListItem list) be_step" where
  "Repo_GetStorageClasses app =
     and_then (list_all_of (PolicyResource StorageClasses) (cl_ListStorageClasses (app_Client app)) []) (\<lambda>scs.
     proceed (map NewStorageClassListItemFromStorageClass scs))"

text \<open>The model of a namespace is its name.\<close>

definition Repo_GetNamespaces :: "be_app \<Rightarrow> (repo_error, string list) be_step" where
  "Repo_GetNamespaces app =
     and_then (list_all_of (PolicyResource Namespaces) (cl_ListNamespaces (app_Client app)) []) (\<lambda>nss.
     proceed (map om_Name nss))"

section \<open>Handlers\<close>

definition GetPVCsByNamespaceHandler ::
  "be_app \<Rightarrow> http_request \<Rightarrow> string \<Rightarrow> (PVCListItem list, PVCListItem list http_response) http_step"
where
  "GetPVCsByNamespaceHandler app rq namespace =
     and_then (namespace_params app namespace) (\<lambda>_.
     and_then (requireAuth app rq [policy VerbList PersistentVolumeClaims namespace []]) (\<lambda>_.
     and_then (attempt (Repo_GetPVCs app namespace)) (\<lambda>r. case r of
       Inl err \<Rightarrow> stop serverErrorResponse
     | Inr pvcs \<Rightarrow> proceed (dataResponse pvcs))))"

definition CreatePVCHandler ::
  "be_app \<Rightarrow> (string \<Rightarrow> decode_error + PVCCreate option) \<Rightarrow> http_request \<Rightarrow> string
     \<Rightarrow> (PVCCreate, PVCCreate http_response) http_step"
where
  "CreatePVCHandler app decode rq namespace =
     and_then (namespace_params app namespace) (\<lambda>_.
     and_then (json_body app rq decode (PVCCreate_Validate (app_Lib app))) (\<lambda>pvcCreate.
     and_then (requireAuth app rq [policy VerbCreate PersistentVolumeClaims namespace (pcr_Name pvcCreate)]) (\<lambda>actor.
     and_then (attempt (Repo_CreatePVC app (actor_of actor) pvcCreate namespace)) (\<lambda>r. case r of
       Inl err \<Rightarrow>
         stop (if IsInternalValidationError err
               then failedValidationResponse (app_Fields app) errMsgInternalValidation (FieldErrorsFromInternalValidationError err) []
               else if errors_is err ErrPVCAlreadyExists
               then conflictResponse (sentinel_text ErrPVCAlreadyExists) (StatusCausesFromAPIStatus err)
               else if err_has_reason err ReasonInvalid
               then failedValidationResponse (app_Fields app) errMsgKubernetesValidation [] (StatusCausesFromAPIStatus err)
               else serverErrorResponse)
     | Inr createdPVC \<Rightarrow> proceed (createdResponse createdPVC [])))))"

definition pvc_params :: "be_app \<Rightarrow> string \<Rightarrow> string \<Rightarrow> ('d, unit) http_step" where
  "pvc_params app namespace pvcName =
     path_params app (ValidateKubernetesNamespaceName (app_Lib app) [Child ''namespace''] namespace
       @ ValidateKubernetesPVCName (app_Lib app) [Child ''name''] pvcName)"

definition DeletePVCHandler ::
  "be_app \<Rightarrow> http_request \<Rightarrow> string \<Rightarrow> string \<Rightarrow> (unit, unit http_response) http_step"
where
  "DeletePVCHandler app rq namespace pvcName =
     and_then (pvc_params app namespace pvcName) (\<lambda>_.
     and_then (requireAuth app rq [policy VerbDelete PersistentVolumeClaims namespace pvcName]) (\<lambda>_.
     and_then (attempt (Repo_DeletePVC app namespace pvcName)) (\<lambda>r. case r of
       Inl err \<Rightarrow>
         stop (if errors_is err ErrPVCNotFound then notFoundResponse
               else if errors_is err ErrPVCNotCanUpdate then forbiddenResponse
               else if err_has_reason err ReasonConflict
               then conflictResponse (repo_error_text err) (StatusCausesFromAPIStatus err)
               else serverErrorResponse)
     | Inr _ \<Rightarrow> proceed deletedResponse)))"

text \<open>With a namespace, the right to create a claim there is enough.\<close>

definition GetStorageClassesHandler ::
  "be_app \<Rightarrow> http_request \<Rightarrow> (StorageClassListItem list, StorageClassListItem list http_response) http_step"
where
  "GetStorageClassesHandler app rq =
     (let namespace = query_get rq ''namespace'' in
      and_then (query_params app (if namespace \<noteq> [] then ValidateKubernetesNamespaceName (app_Lib app) [Child ''namespace''] namespace else [])) (\<lambda>_.
      and_then (requireAuth app rq (if namespace \<noteq> [] then [policy VerbCreate PersistentVolumeClaims namespace []]
                                    else [policy VerbList StorageClasses [] []])) (\<lambda>_.
      and_then (attempt (Repo_GetStorageClasses app)) (\<lambda>r. case r of
        Inl err \<Rightarrow> stop serverErrorResponse
      | Inr storageClasses \<Rightarrow> proceed (dataResponse storageClasses)))))"

definition GetNamespacesHandler :: "be_app \<Rightarrow> http_request \<Rightarrow> (string list, string list http_response) http_step" where
  "GetNamespacesHandler app rq =
     and_then (requireAuth app rq [policy VerbList Namespaces [] []]) (\<lambda>_.
     and_then (attempt (Repo_GetNamespaces app)) (\<lambda>r. case r of
       Inl err \<Rightarrow> stop serverErrorResponse
     | Inr namespaces \<Rightarrow> proceed (dataResponse namespaces)))"

end
