(* ===== verification/Backend_Access.thy ===== *)
theory Backend_Access
  imports Backend_Http
begin

text \<open>
  What \<open>requireAuth\<close> guarantees. A call to the cluster is covered when an access review of the
  authenticated user, made earlier in the same request, allowed it: the review of a write names the
  verb, the resource, the namespace and the name of the object that is written. The lemmas let each
  handler show that all its calls are covered.
\<close>

fun kube_call :: "be_call \<Rightarrow> bool" where
  "kube_call (ReviewCall a) = False"
| "kube_call _ = True"

fun object_resource :: "kube_object \<Rightarrow> ResourcePolicyResource" where
  "object_resource (WorkspaceObject w) = Workspaces"
| "object_resource (WorkspaceKindObject k) = WorkspaceKinds"
| "object_resource (SecretObject s) = Secrets"
| "object_resource (PVCObject p) = PersistentVolumeClaims"

fun object_meta :: "kube_object \<Rightarrow> ObjectMeta" where
  "object_meta (WorkspaceObject w) = ws_Meta w"
| "object_meta (WorkspaceKindObject k) = wk_Meta k"
| "object_meta (SecretObject s) = sec_Meta s"
| "object_meta (PVCObject p) = pvo_Meta p"

text \<open>A WorkspaceKind is cluster-scoped: its metadata has no namespace the API server looks at.\<close>

fun object_namespace :: "kube_object \<Rightarrow> string" where
  "object_namespace (WorkspaceKindObject k) = []"
| "object_namespace obj = om_Namespace (object_meta obj)"

definition permits :: "Attributes \<Rightarrow> ResourcePolicyVerb \<Rightarrow> ResourcePolicyResource \<Rightarrow> string \<Rightarrow> string \<Rightarrow> bool" where
  "permits a verb res ns name \<longleftrightarrow>
     at_Verb a = verb \<and> at_Resource a = res \<and> at_APIGroup a = gvr_Group (resourceGVRMap res) \<and>
     at_Namespace a = ns \<and> at_Name a = name"

text \<open>A write needs its own permission; pausing, a patch, needs the one to update; a read any.\<close>

fun covers :: "Attributes \<Rightarrow> be_call \<Rightarrow> bool" where
  "covers a (CreateCall obj) = permits a VerbCreate (object_resource obj) (object_namespace obj) (om_Name (object_meta obj))"
| "covers a (UpdateCall obj) = permits a VerbUpdate (object_resource obj) (object_namespace obj) (om_Name (object_meta obj))"
| "covers a (PatchCall ns name ops) = permits a VerbUpdate Workspaces ns name"
| "covers a (DeleteCall res ns name) = permits a VerbDelete res ns name"
| "covers a _ = True"

definition reviewed :: "be_app \<Rightarrow> http_request \<Rightarrow> be_call \<Rightarrow> be_trace \<Rightarrow> bool" where
  "reviewed app rq c t \<longleftrightarrow>
     (\<exists>u a. app_AuthN app rq = Inr (Some u) \<and> at_User a = u \<and> covers a c \<and> (ReviewCall a, True) \<in> set t)"

text \<open>Every call of the trace is covered.\<close>

definition all_covered :: "be_app \<Rightarrow> http_request \<Rightarrow> be_trace \<Rightarrow> bool" where
  "all_covered app rq t \<longleftrightarrow> (\<forall>i < length t. kube_call (fst (t ! i)) \<longrightarrow> reviewed app rq (fst (t ! i)) (take i t))"

interpretation access: guarded_trace "reviewed app rq c" "\<lambda>c'. c' = c \<and> kube_call c" for app rq c
  by unfold_locales (auto simp: reviewed_def)

lemma all_covered_guarded:
  "all_covered app rq t \<longleftrightarrow> (\<forall>c. guarded (reviewed app rq c) (\<lambda>c'. c' = c \<and> kube_call c) t)"
  by (auto simp: all_covered_def guarded_def)

definition well_guarded :: "be_app \<Rightarrow> http_request \<Rightarrow> ('d, 'a) http_step \<Rightarrow> bool" where
  "well_guarded app rq m \<longleftrightarrow> (\<forall>c. access.safe app rq c m)"

lemma well_guarded_run:
  assumes "well_guarded app rq h" and "run_handler h [] = (r, t)"
  shows "all_covered app rq t"
proof -
  from assms(2) have "t = snd (h [])" by (auto simp: run_handler_def split: prod.splits sum.splits)
  with assms(1) show ?thesis unfolding all_covered_guarded well_guarded_def access.safe_def by simp
qed

lemma emits_review [emit_intros]: "A (ReviewCall a) \<Longrightarrow> emits A (review app a)"
  by (simp add: review_def emit_intros)

lemma emits_authorize_all [emit_intros]:
  "(\<And>a. A (ReviewCall a)) \<Longrightarrow> emits A (authorize_all app u policies)"
  by (induction policies) (auto intro!: emit_intros split: sum.splits)

lemma emits_requireAuth [emit_intros]:
  "(\<And>a. A (ReviewCall a)) \<Longrightarrow> emits A (requireAuth app rq policies)"
  by (auto simp: requireAuth_def intro!: emit_intros split: sum.splits option.splits)

lemma emits_http_passages [emit_intros]:
  "emits A (path_params app valErrs)" "emits A (ValidateContentType app rq mt)" "emits A (json_body app rq decode validate)"
  by (auto simp: path_params_def ValidateContentType_def json_body_def Let_def intro!: emit_intros
      split: sum.splits option.splits)

lemma authorize_all_allows:
  assumes "authorize_all app u policies t = ((Inr x :: 'd http_response + unit), t')"
  shows "\<forall>p \<in> set policies. (ReviewCall (AttributesFor p u), True) \<in> set t'"
  using assms
proof (induction policies arbitrary: t)
  case (Cons p ps)
  let ?t = "t @ [(ReviewCall (AttributesFor p u), True)]"
  from Cons.prems have rest: "authorize_all app u ps ?t = ((Inr x :: 'd http_response + unit), t')"
    by (auto simp: review_def elim!: and_then_InrE split: sum.splits if_splits)
  have "emits (\<lambda>_. True) (authorize_all app u ps :: ('d, unit) http_step)" by (rule emits_authorize_all) simp
  from emitsD [OF this rest] obtain d where "t' = ?t @ d" by blast
  with Cons.IH [OF rest] show ?case by simp
qed simp

text \<open>The policies of \<open>NewResourcePolicy\<close> cover the calls they are meant for.\<close>

definition policy_for :: "ResourcePolicy list \<Rightarrow> be_call \<Rightarrow> bool" where
  "policy_for policies c \<longleftrightarrow> (\<exists>p \<in> set policies. \<forall>u. covers (AttributesFor p u) c)"

lemma requireAuth_establishes:
  assumes "requireAuth app rq policies t = ((Inr u :: 'd http_response + user_info), t')" and "policy_for policies c"
  shows "reviewed app rq c t'"
proof -
  from assms(1) have u: "app_AuthN app rq = Inr (Some u)"
      and "authorize_all app u policies t = ((Inr () :: 'd http_response + unit), t')"
    by (auto simp: requireAuth_def elim!: and_then_InrE split: sum.splits option.splits)
  from authorize_all_allows [OF this(2)] assms(2)
  obtain p where "\<forall>u. covers (AttributesFor p u) c" "(ReviewCall (AttributesFor p u), True) \<in> set t'"
    by (auto simp: policy_for_def)
  moreover have "at_User (AttributesFor p u) = u" by (simp add: AttributesFor_def)
  ultimately show ?thesis using u by (auto simp: reviewed_def)
qed

text \<open>A handler that asks for its policies first and then only makes calls they cover.\<close>

lemma well_guarded_auth:
  assumes "\<And>u. emits (\<lambda>c. kube_call c \<longrightarrow> policy_for policies c) (rest u)"
  shows "well_guarded app rq (and_then (requireAuth app rq policies) rest)"
  unfolding well_guarded_def
proof
  fix c
  show "access.safe app rq c (and_then (requireAuth app rq policies) rest)"
  proof (cases "policy_for policies c")
    case True
    show ?thesis
      by (rule access.safe_establish)
        (auto intro!: emit_intros intro: requireAuth_establishes [OF _ True] emits_mono [OF assms])
  next
    case False
    then show ?thesis
      by (intro access.safe_and_then access.safe_harmless) (auto intro!: emit_intros intro: emits_mono [OF assms])
  qed
qed

lemma well_guarded_before:
  assumes "emits (\<lambda>c. \<not> kube_call c) m" and "\<And>x. well_guarded app rq (f x)"
  shows "well_guarded app rq (and_then m f)"
  unfolding well_guarded_def
proof
  fix c
  have "access.safe app rq c m"
    by (rule access.safe_harmless, rule emits_mono [OF assms(1)]) blast
  then show "access.safe app rq c (and_then m f)"
    using assms(2) by (intro access.safe_and_then) (simp_all add: well_guarded_def)
qed

lemma policy_for_write:
  "policy_for [NewResourcePolicy VerbCreate (object_resource obj) \<lparr>rpm_Namespace = object_namespace obj, rpm_Name = om_Name (object_meta obj)\<rparr>] (CreateCall obj)"
  "policy_for [NewResourcePolicy VerbUpdate (object_resource obj) \<lparr>rpm_Namespace = object_namespace obj, rpm_Name = om_Name (object_meta obj)\<rparr>] (UpdateCall obj)"
  "policy_for [NewResourcePolicy VerbUpdate Workspaces \<lparr>rpm_Namespace = ns, rpm_Name = n\<rparr>] (PatchCall ns n ops)"
  "policy_for [NewResourcePolicy VerbDelete res \<lparr>rpm_Namespace = ns, rpm_Name = n\<rparr>] (DeleteCall res ns n)"
  "policy_for (p # ps) (GetCall r ns n)" "policy_for (p # ps) (ListCall r ns)"
  by (auto simp: policy_for_def permits_def AttributesFor_def NewResourcePolicy_def resourceGVRMap_def
      split: ResourcePolicyResource.splits)

end
