(* ===== verification/Backend_Routes.thy ===== *)
theory Backend_Routes
  imports Backend_Pods Backend_PVCs Backend_Access
begin

text \<open>
  The routes of \<open>backend/api/app.go\<close>, with the handlers of \<open>healthcheck_handler.go\<close> and
  \<open>user_handler.go\<close>. Matching a path is done by the router library: its answer (a route with
  path parameters, no route, or another method) is an argument. The documentation and the static
  files, which the same server also delivers, are not modelled.
\<close>

section \<open>The two open handlers\<close>

record HealthCheckModel =
  hc_Status :: string
  hc_Version :: string

definition Repo_HealthCheck :: "string \<Rightarrow> HealthCheckModel" where
  "Repo_HealthCheck version = \<lparr>hc_Status = ''Healthy'', hc_Version = version\<rparr>"

definition GetHealthcheckHandler :: "(HealthCheckModel, HealthCheckModel http_response) http_step" where
  "GetHealthcheckHandler = proceed (dataResponse (Repo_HealthCheck ''1.0.0''))"

record UserResponse =
  ur_UserId :: string
  ur_ClusterAdmin :: bool

record user_config =
  uc_UserIdHeader :: string
  uc_UserIdPrefix :: string

definition GetUserHandler :: "user_config \<Rightarrow> http_request \<Rightarrow> (UserResponse, UserResponse http_response) http_step" where
  "GetUserHandler cfg rq =
     (let userId = header_get rq (uc_UserIdHeader cfg);
          userId = (if uc_UserIdPrefix cfg \<noteq> [] then trim_prefix userId (uc_UserIdPrefix cfg) else userId);
          userId = (if userId = [] then header_get rq ''X-Auth-Request-User'' else userId);
          userId = (if userId = [] then header_get rq ''kubeflow-userid'' else userId);
          userId = (if userId = [] then ''anonymous'' else userId)
      in proceed (dataResponse \<lparr>ur_UserId = userId, ur_ClusterAdmin = True\<rparr>))"

section \<open>Routes\<close>

datatype route =
    GetHealthcheck | GetUser | GetNamespaces
  | GetSecretsByNamespace | CreateSecret | GetSecret | UpdateSecret | DeleteSecret
  | GetAllWorkspaces | GetWorkspacesByNamespace | GetWorkspace | CreateWorkspace | UpdateWorkspace | DeleteWorkspace
  | PauseActionWorkspace | GetWorkspacePodTemplateDetails | GetWorkspacePodTemplateLogs | GetWorkspacePodTemplateResources
  | GetWorkspaceKinds | GetWorkspaceKind | CreateWorkspaceKind | DeleteWorkspaceKind | UpdateWorkspaceKind
  | PodTemplateOptionsListValues | GetWorkspaceKindIcon | GetWorkspaceKindLogo
  | GetStorageClasses | GetPVCsByNamespace | CreatePVC | DeletePVC

definition Routes :: "(string \<times> string \<times> route) list" where
  "Routes = [
     (''GET'', ''/api/v1/healthcheck'', GetHealthcheck),
     (''GET'', ''/api/v1/user'', GetUser),
     (''GET'', ''/api/v1/namespaces'', GetNamespaces),
     (''GET'', ''/api/v1/secrets/:namespace'', GetSecretsByNamespace),
     (''POST'', ''/api/v1/secrets/:namespace'', CreateSecret),
     (''GET'', ''/api/v1/secrets/:namespace/:name'', GetSecret),
     (''PUT'', ''/api/v1/secrets/:namespace/:name'', UpdateSecret),
     (''DELETE'', ''/api/v1/secrets/:namespace/:name'', DeleteSecret),
     (''GET'', ''/api/v1/workspaces'', GetAllWorkspaces),
     (''GET'', ''/api/v1/workspaces/:namespace'', GetWorkspacesByNamespace),
     (''GET'', ''/api/v1/workspaces/:namespace/:name'', GetWorkspace),
     (''POST'', ''/api/v1/workspaces/:namespace'', CreateWorkspace),
     (''PUT'', ''/api/v1/workspaces/:namespace/:name'', UpdateWorkspace),
     (''DELETE'', ''/api/v1/workspaces/:namespace/:name'', DeleteWorkspace),
     (''POST'', ''/api/v1/workspaces/:namespace/:name/actions/pause'', PauseActionWorkspace),
     (''GET'', ''/api/v1/workspaces/:namespace/:name/podtemplate/details'', GetWorkspacePodTemplateDetails),
     (''GET'', ''/api/v1/workspaces/:namespace/:name/podtemplate/logs/batch'', GetWorkspacePodTemplateLogs),
     (''GET'', ''/api/v1/workspaces/:namespace/:name/podtemplate/resources'', GetWorkspacePodTemplateResources),
     (''GET'', ''/api/v1/workspacekinds'', GetWorkspaceKinds),
     (''GET'', ''/api/v1/workspacekinds/:name'', GetWorkspaceKind),
     (''POST'', ''/api/v1/workspacekinds'', CreateWorkspaceKind),
     (''DELETE'', ''/api/v1/workspacekinds/:name'', DeleteWorkspaceKind),
     (''PUT'', ''/api/v1/workspacekinds/:name'', UpdateWorkspaceKind),
     (''POST'', ''/api/v1/workspacekinds/:name/podtemplate/options/listvalues'', PodTemplateOptionsListValues),
     (''GET'', ''/api/v1/workspacekinds/:name/assets/icon'', GetWorkspaceKindIcon),
     (''GET'', ''/api/v1/workspacekinds/:name/assets/logo'', GetWorkspaceKindLogo),
     (''GET'', ''/api/v1/storageclasses'', GetStorageClasses),
     (''GET'', ''/api/v1/persistentvolumeclaims/:namespace'', GetPVCsByNamespace),
     (''POST'', ''/api/v1/persistentvolumeclaims/:namespace'', CreatePVC),
     (''DELETE'', ''/api/v1/persistentvolumeclaims/:namespace/:name'', DeletePVC)]"

text \<open>What the router found, with \<open>ps.ByName\<close> of the path parameters.\<close>

datatype matched = Matched route "string \<Rightarrow> string" | NoRoute | OtherMethod

section \<open>Serving a request\<close>

text \<open>The decoders of the bodies, the order of the loops over maps, and the memoized probe of the metrics API.\<close>

record decoders =
  dec_SecretCreate :: "string \<Rightarrow> decode_error + SecretCreate option"
  dec_SecretUpdate :: "string \<Rightarrow> decode_error + SecretUpdate option"
  dec_WorkspaceCreate :: "string \<Rightarrow> decode_error + WorkspaceCreate option"
  dec_WorkspaceUpdate :: "string \<Rightarrow> decode_error + WorkspaceUpdate option"
  dec_WorkspaceActionPause :: "string \<Rightarrow> decode_error + WorkspaceActionPause option"
  dec_WorkspaceKind :: "string \<Rightarrow> yaml_error + (string \<times> string) \<times> WorkspaceKind"
  dec_WorkspaceKindUpdate :: "string \<Rightarrow> decode_error + WorkspaceKindUpdate option"
  dec_ListValuesRequest :: "string \<Rightarrow> decode_error + ListValuesRequest option"
  dec_PVCCreate :: "string \<Rightarrow> decode_error + PVCCreate option"

record server =
  srv_App :: be_app
  srv_User :: user_config
  srv_Decoders :: decoders
  srv_KeyOrder :: key_order_fn
  srv_MetricsAvailable :: "be_trace \<Rightarrow> bool"

datatype api_data =
    HealthCheckData HealthCheckModel | UserData UserResponse | NamespacesData "string list"
  | SecretsData "SecretListItem list" | SecretCreateData SecretCreate | SecretData SecretUpdate
  | WorkspacesData "WorkspaceListItem list" | WorkspaceCreateData WorkspaceCreate | WorkspaceData WorkspaceUpdate
  | PauseData WorkspaceActionPause | DetailsData WorkspaceDetails | LogsData string | UsageData WorkspaceResourceUsage
  | KindsData "WorkspaceKindListItem list" | KindData WorkspaceKindUpdate | KindCreateData WorkspaceKindCreate
  | OptionsData PodTemplateOptions | AssetData string | StorageClassesData "StorageClassListItem list"
  | PVCsData "PVCListItem list" | PVCCreateData PVCCreate | NoData unit

definition map_response :: "('d \<Rightarrow> api_data) \<Rightarrow> 'd http_response \<Rightarrow> api_data http_response" where
  "map_response f r = \<lparr>rp_Status = rp_Status r, rp_Location = rp_Location r,
     rp_Body = (case rp_Body r of DataBody d \<Rightarrow> DataBody (f d) | ErrorBody e \<Rightarrow> ErrorBody e | NoBody \<Rightarrow> NoBody)\<rparr>"

definition respond ::
  "('d \<Rightarrow> api_data) \<Rightarrow> ('d, 'd http_response) http_step \<Rightarrow> be_trace \<Rightarrow> api_data http_response \<times> be_trace"
where
  "respond f h t = (case run_handler h t of (r, t') \<Rightarrow> (map_response f r, t'))"

fun serve_route :: "server \<Rightarrow> http_request \<Rightarrow> (string \<Rightarrow> string) \<Rightarrow> route \<Rightarrow> be_trace \<Rightarrow> api_data http_response \<times> be_trace" where
  "serve_route s rq ps GetHealthcheck = respond HealthCheckData GetHealthcheckHandler"
| "serve_route s rq ps GetUser = respond UserData (GetUserHandler (srv_User s) rq)"
| "serve_route s rq ps GetNamespaces = respond NamespacesData (GetNamespacesHandler (srv_App s) rq)"
| "serve_route s rq ps GetSecretsByNamespace = respond SecretsData (GetSecretsByNamespaceHandler (srv_App s) rq (ps ''namespace''))"
| "serve_route s rq ps CreateSecret = respond SecretCreateData
     (CreateSecretHandler (srv_App s) (srv_KeyOrder s) (dec_SecretCreate (srv_Decoders s)) rq (ps ''namespace''))"
| "serve_route s rq ps GetSecret = respond SecretData (GetSecretHandler (srv_App s) rq (ps ''namespace'') (ps ''name''))"
| "serve_route s rq ps UpdateSecret = respond SecretData
     (UpdateSecretHandler (srv_App s) (srv_KeyOrder s) (dec_SecretUpdate (srv_Decoders s)) rq (ps ''namespace'') (ps ''name''))"
| "serve_route s rq ps DeleteSecret = respond NoData (DeleteSecretHandler (srv_App s) rq (ps ''namespace'') (ps ''name''))"
| "serve_route s rq ps GetAllWorkspaces = respond WorkspacesData (GetAllWorkspacesHandler (srv_App s) rq)"
| "serve_route s rq ps GetWorkspacesByNamespace =
     respond WorkspacesData (GetWorkspacesByNamespaceHandler (srv_App s) rq (ps ''namespace''))"
| "serve_route s rq ps GetWorkspace = respond WorkspaceData (GetWorkspaceHandler (srv_App s) rq (ps ''namespace'') (ps ''name''))"
| "serve_route s rq ps CreateWorkspace = respond WorkspaceCreateData
     (CreateWorkspaceHandler (srv_App s) (dec_WorkspaceCreate (srv_Decoders s)) rq (ps ''namespace''))"
| "serve_route s rq ps UpdateWorkspace = respond WorkspaceData
     (UpdateWorkspaceHandler (srv_App s) (dec_WorkspaceUpdate (srv_Decoders s)) rq (ps ''namespace'') (ps ''name''))"
| "serve_route s rq ps DeleteWorkspace = respond NoData (DeleteWorkspaceHandler (srv_App s) rq (ps ''namespace'') (ps ''name''))"
| "serve_route s rq ps PauseActionWorkspace = respond PauseData
     (PauseActionWorkspaceHandler (srv_App s) (dec_WorkspaceActionPause (srv_Decoders s)) rq (ps ''namespace'') (ps ''name''))"
| "serve_route s rq ps GetWorkspacePodTemplateDetails =
     respond DetailsData (GetWorkspacePodTemplateDetailsHandler (srv_App s) rq (ps ''namespace'') (ps ''name''))"
| "serve_route s rq ps GetWorkspacePodTemplateLogs =
     respond LogsData (GetWorkspacePodTemplateLogsHandler (srv_App s) rq (ps ''namespace'') (ps ''name''))"
| "serve_route s rq ps GetWorkspacePodTemplateResources = respond UsageData
     (GetWorkspacePodTemplateResourcesHandler (srv_App s) (srv_MetricsAvailable s) rq (ps ''namespace'') (ps ''name''))"
| "serve_route s rq ps GetWorkspaceKinds = respond KindsData (GetWorkspaceKindsHandler (srv_App s) rq)"
| "serve_route s rq ps GetWorkspaceKind = respond KindData (GetWorkspaceKindHandler (srv_App s) rq (ps ''name''))"
| "serve_route s rq ps CreateWorkspaceKind = respond KindCreateData
     (CreateWorkspaceKindHandler (srv_App s) (dec_WorkspaceKind (srv_Decoders s)) rq)"
| "serve_route s rq ps DeleteWorkspaceKind = respond NoData (DeleteWorkspaceKindHandler (srv_App s) rq (ps ''name''))"
| "serve_route s rq ps UpdateWorkspaceKind = respond KindData
     (UpdateWorkspaceKindHandler (srv_App s) (dec_WorkspaceKindUpdate (srv_Decoders s)) rq (ps ''name''))"
| "serve_route s rq ps PodTemplateOptionsListValues = respond OptionsData
     (PodTemplateOptionsListValuesHandler (srv_App s) (dec_ListValuesRequest (srv_Decoders s)) rq (ps ''name''))"
| "serve_route s rq ps GetWorkspaceKindIcon = respond AssetData (GetWorkspaceKindIconHandler (srv_App s) rq (ps ''name''))"
| "serve_route s rq ps GetWorkspaceKindLogo = respond AssetData (GetWorkspaceKindLogoHandler (srv_App s) rq (ps ''name''))"
| "serve_route s rq ps GetStorageClasses = respond StorageClassesData (GetStorageClassesHandler (srv_App s) rq)"
| "serve_route s rq ps GetPVCsByNamespace = respond PVCsData (GetPVCsByNamespaceHandler (srv_App s) rq (ps ''namespace''))"
| "serve_route s rq ps CreatePVC = respond PVCCreateData
     (CreatePVCHandler (srv_App s) (dec_PVCCreate (srv_Decoders s)) rq (ps ''namespace''))"
| "serve_route s rq ps DeletePVC = respond NoData (DeletePVCHandler (srv_App s) rq (ps ''namespace'') (ps ''name''))"

definition serve :: "server \<Rightarrow> matched \<Rightarrow> http_request \<Rightarrow> be_trace \<Rightarrow> api_data http_response \<times> be_trace" where
  "serve s m rq t = (case m of
     Matched r ps \<Rightarrow> serve_route s rq ps r t
   | NoRoute \<Rightarrow> (notFoundResponse, t)
   | OtherMethod \<Rightarrow> (methodNotAllowedResponse rq, t))"

end
