(* ===== verification/Backend_Sample.thy ===== *)
theory Backend_Sample
  imports Backend_Routes Sample_Objects
begin

text \<open>
  A concrete server for the witnesses: a client that knows every object it is asked for, a user
  \<open>alice\<close> who is allowed everything, and library functions that compute.
\<close>

definition sample_be_lib :: be_lib where
  "sample_be_lib = \<lparr>
     IsDNS1123Subdomain = (\<lambda>s. if CHR ''/'' \<in> set s then [''invalid''] else []),
     IsDNS1123Label = (\<lambda>s. if CHR ''/'' \<in> set s then [''invalid''] else []),
     IsConfigMapKey = (\<lambda>s. if s = [] then [''empty''] else []),
     BeValidateLabels = (\<lambda>m p. []), BeValidateAnnotations = (\<lambda>m p. []),
     Base64Decode = (\<lambda>s. if s = ''!'' then Inl ''illegal base64 data'' else Inr s),
     FormatRFC3339 = int_dec, ParseRFC3339 = (\<lambda>s. None), ParseInt64 = (\<lambda>s. if s = ''5'' then Some 5 else None),
     ParseBool = (\<lambda>s. if s = ''true'' then Some True else None),
     ParseQuantity = (\<lambda>s. Inr (Opaque s)), QuantityString = (\<lambda>q. case q of Opaque s \<Rightarrow> s),
     ParseMediaType = (\<lambda>s. Inr s), Sha256 = (\<lambda>s. s)\<rparr>"

definition sample_fields :: field_rendering where
  "sample_fields = \<lparr>fr_ErrorType = (\<lambda>_. ''FieldValueInvalid''), fr_Field = (\<lambda>_. []), fr_ErrorBody = fe_detail\<rparr>"

definition sample_meta :: "string \<Rightarrow> string \<Rightarrow> ObjectMeta" where
  "sample_meta ns n = empty_meta\<lparr>om_Name := n, om_Namespace := ns, om_UID := ''uid-1'', om_Generation := 3,
     om_Labels := fmupd LabelCanUpdate ''true'' (fmupd LabelCanMount ''true'' fmempty)\<rparr>"

definition sample_workspace :: "string \<Rightarrow> string \<Rightarrow> Workspace" where
  "sample_workspace ns n = sample_ws\<lparr>ws_Meta := sample_meta ns n\<rparr>"

definition sample_wsk :: "string \<Rightarrow> WorkspaceKind" where
  "sample_wsk n = sample_kind\<lparr>wk_Meta := sample_meta [] n\<rparr>"

definition sample_secret :: "string \<Rightarrow> string \<Rightarrow> Secret" where
  "sample_secret ns n = \<lparr>sec_Meta = sample_meta ns n, sec_Type = ''Opaque'',
     sec_Data = fmupd ''user'' ''bob'' (fmupd ''token'' ''s3cret'' fmempty), sec_Immutable = None\<rparr>"

definition sample_pvc :: "string \<Rightarrow> string \<Rightarrow> PersistentVolumeClaim" where
  "sample_pvc ns n = \<lparr>pvo_Meta = sample_meta ns n, pvo_AccessModes = [''ReadWriteOnce''], pvo_StorageClassName = None,
     pvo_StorageRequest = Opaque ''10Gi'', pvo_VolumeName = [], pvo_VolumeMode = None\<rparr>"

definition not_found :: kube_error where
  "not_found = \<lparr>ke_Reason = ReasonNotFound, ke_Message = ''not found'', ke_Causes = []\<rparr>"

definition sample_client :: be_client where
  "sample_client = \<lparr>
     cl_GetWorkspace = (\<lambda>t ns n. Inr (sample_workspace ns n)), cl_ListWorkspaces = (\<lambda>t ns. Inr [sample_workspace ''team'' ''nb'']),
     cl_GetWorkspaceKind = (\<lambda>t ns n. Inr (sample_wsk n)), cl_ListWorkspaceKinds = (\<lambda>t ns. Inr [sample_wsk ''jupyterlab'']),
     cl_GetSecret = (\<lambda>t ns n. Inr (sample_secret ns n)), cl_ListSecretMeta = (\<lambda>t ns. Inr []),
     cl_GetPVC = (\<lambda>t ns n. Inr (sample_pvc ns n)), cl_ListPVCs = (\<lambda>t ns. Inr []),
     cl_GetPV = (\<lambda>t ns n. Inl not_found), cl_GetStorageClass = (\<lambda>t ns n. Inr \<lparr>scl_Meta = sample_meta [] n\<rparr>),
     cl_ListStorageClasses = (\<lambda>t ns. Inr []), cl_GetNamespace = (\<lambda>t ns n. Inr (sample_meta [] n)),
     cl_ListNamespaces = (\<lambda>t ns. Inr []), cl_ListPods = (\<lambda>t ns. Inr []), cl_ListPodsOf = (\<lambda>t ns l v. Inr []),
     cl_PodLogs = (\<lambda>t ns n opts. Inl not_found), cl_GetPodMetrics = (\<lambda>t ns n. Inl not_found), cl_ContextErr = (\<lambda>t. None),
     cl_GetPod = (\<lambda>t ns n. Inl not_found), cl_GetConfigMap = (\<lambda>t ns n. Inl not_found),
     cl_StoreWorkspace = (\<lambda>t c. case c of CreateCall (WorkspaceObject w) \<Rightarrow> Inr w | UpdateCall (WorkspaceObject w) \<Rightarrow> Inr w
       | PatchCall ns n ops \<Rightarrow> Inr (sample_workspace ns n) | _ \<Rightarrow> Inl not_found),
     cl_StoreWorkspaceKind = (\<lambda>t c. case c of CreateCall (WorkspaceKindObject k) \<Rightarrow> Inr k | UpdateCall (WorkspaceKindObject k) \<Rightarrow> Inr k
       | _ \<Rightarrow> Inl not_found),
     cl_StoreSecret = (\<lambda>t c. case c of CreateCall (SecretObject s) \<Rightarrow> Inr s | UpdateCall (SecretObject s) \<Rightarrow> Inr s | _ \<Rightarrow> Inl not_found),
     cl_StorePVC = (\<lambda>t c. case c of CreateCall (PVCObject p) \<Rightarrow> Inr p | _ \<Rightarrow> Inl not_found),
     cl_Delete = (\<lambda>t c. None)\<rparr>"

definition alice :: user_info where
  "alice = \<lparr>ui_Name = ''alice'', ui_UID = [], ui_Groups = [''system:authenticated''], ui_Extra = fmempty\<rparr>"

definition sample_app :: be_app where
  "sample_app = \<lparr>app_Lib = sample_be_lib, app_Fields = sample_fields, app_Client = sample_client,
     app_AuthN = (\<lambda>rq. Inr (Some alice)), app_AuthZ = (\<lambda>t a. Inr DecisionAllow), app_Now = (\<lambda>t. 1000),
     app_Selectors = sample_selectors, app_ProxyUrlPrefix = []\<rparr>"

definition sample_request :: http_request where
  "sample_request = \<lparr>rq_Method = ''GET'', rq_Header = (\<lambda>h. if h = ''Content-Type'' then [MediaTypeJson] else []),
     rq_Query = (\<lambda>_. []), rq_Body = []\<rparr>"

definition failing_decoder :: "string \<Rightarrow> decode_error + 'a option" where
  "failing_decoder s = Inl (EOFError ''EOF'')"

definition sample_create :: WorkspaceCreate where
  "sample_create = \<lparr>wc_Name = ''lab'', wc_DisplayName = ''Lab'', wc_Kind = ''jupyterlab'', wc_Paused = False,
     wc_PodTemplate = \<lparr>ptm_PodMetadata = \<lparr>pmm_Labels = fmempty, pmm_Annotations = fmempty\<rparr>,
       ptm_Volumes = \<lparr>vlm_Home = Some ''home-pvc'', vlm_Data = [],
         vlm_Secrets = [\<lparr>smm_SecretName = ''token'', smm_MountPath = ''/secret'', smm_DefaultMode = 256\<rparr>]\<rparr>,
       ptm_Options = \<lparr>tom_ImageConfig = ''v2'', tom_PodConfig = ''small''\<rparr>\<rparr>\<rparr>"

text \<open>The Workspace the request \<open>sample_create\<close> writes.\<close>

definition sample_created :: Workspace where
  "sample_created = \<lparr>
     ws_Meta = UpdateObjectMetaForCreate (Some ''alice'') (empty_meta\<lparr>om_Name := ''lab'', om_Namespace := ''team''\<rparr>),
     ws_Spec = \<lparr>spec_Paused = False, spec_DisplayName = Some ''Lab'', spec_Kind = ''jupyterlab'',
       spec_PodTemplate = \<lparr>wpt_PodMetadata = Some \<lparr>md_Labels = fmempty, md_Annotations = fmempty\<rparr>,
         wpt_Volumes = \<lparr>pv_Home = Some ''home-pvc'', pv_Data = [],
           pv_Secrets = [\<lparr>psm_SecretName = ''token'', psm_MountPath = ''/secret'', psm_DefaultMode = 256\<rparr>]\<rparr>,
         wpt_Options = \<lparr>po_ImageConfig = ''v2'', po_PodConfig = ''small''\<rparr>\<rparr>\<rparr>,
     ws_Status = zero_status\<rparr>"

definition sample_update :: WorkspaceUpdate where
  "sample_update = \<lparr>wu_Revision = CalculateRevision sample_be_lib (sample_meta ''team'' ''nb''), wu_DisplayName = ''Notebook'',
     wu_Paused = True, wu_PodTemplate = wc_PodTemplate sample_create\<rparr>"

definition sample_server :: server where
  "sample_server = \<lparr>srv_App = sample_app, srv_User = \<lparr>uc_UserIdHeader = ''kubeflow-userid'', uc_UserIdPrefix = []\<rparr>,
     srv_Decoders = \<lparr>dec_SecretCreate = failing_decoder, dec_SecretUpdate = failing_decoder, dec_WorkspaceCreate = (\<lambda>s. Inr (Some sample_create)),
       dec_WorkspaceUpdate = (\<lambda>s. Inr (Some sample_update)), dec_WorkspaceActionPause = failing_decoder,
       dec_WorkspaceKind = (\<lambda>s. Inl (YamlDecodeError ''empty'')), dec_WorkspaceKindUpdate = failing_decoder,
       dec_ListValuesRequest = failing_decoder, dec_PVCCreate = failing_decoder\<rparr>,
     srv_KeyOrder = sample_keys, srv_MetricsAvailable = (\<lambda>t. False)\<rparr>"

definition sample_path :: "string \<Rightarrow> string" where
  "sample_path p = (if p = ''namespace'' then ''team'' else ''nb'')"

lemma sample_app_sel [simp]:
  "app_Lib sample_app = sample_be_lib" "app_Fields sample_app = sample_fields" "app_Client sample_app = sample_client"
  "app_AuthN sample_app rq = Inr (Some alice)" "app_AuthZ sample_app t a = Inr DecisionAllow" "app_Now sample_app t = 1000"
  "app_Selectors sample_app = sample_selectors" "app_ProxyUrlPrefix sample_app = []"
  "srv_App sample_server = sample_app" "srv_KeyOrder sample_server = sample_keys"
  "dec_WorkspaceCreate (srv_Decoders sample_server) body = Inr (Some sample_create)"
  "dec_WorkspaceUpdate (srv_Decoders sample_server) body = Inr (Some sample_update)"
  by (simp_all add: sample_app_def sample_server_def)

lemma sample_client_sel [simp]:
  "cl_GetWorkspace sample_client t ns n = Inr (sample_workspace ns n)" "cl_GetWorkspaceKind sample_client t ns n = Inr (sample_wsk n)"
  "cl_GetSecret sample_client t ns n = Inr (sample_secret ns n)" "cl_GetPVC sample_client t ns n = Inr (sample_pvc ns n)"
  "cl_Delete sample_client t c = None"
  "cl_StoreWorkspace sample_client t (CreateCall (WorkspaceObject w)) = Inr w"
  "cl_StoreWorkspace sample_client t (UpdateCall (WorkspaceObject w)) = Inr w"
  "cl_StoreSecret sample_client t (UpdateCall (SecretObject s)) = Inr s"
  "cl_StoreWorkspaceKind sample_client t (UpdateCall (WorkspaceKindObject k)) = Inr k"
  by (simp_all add: sample_client_def)

lemma sample_meta_sel [simp]:
  "om_Name (sample_meta ns n) = n" "om_Namespace (sample_meta ns n) = ns" "om_UID (sample_meta ns n) = ''uid-1''"
  "om_Generation (sample_meta ns n) = 3" "go_index (om_Labels (sample_meta ns n)) LabelCanMount = ''true''"
  "go_index (om_Labels (sample_meta ns n)) LabelCanUpdate = ''true''"
  by (simp_all add: sample_meta_def go_index_def label_names)

lemma sample_object_sel [simp]:
  "ws_Meta (sample_workspace ns n) = sample_meta ns n" "ws_Spec (sample_workspace ns n) = ws_Spec sample_ws"
  "ws_Status (sample_workspace ns n) = sample_status"
  "wk_Meta (sample_wsk n) = sample_meta [] n" "wk_Spec (sample_wsk n) = wk_Spec sample_kind"
  "sec_Meta (sample_secret ns n) = sample_meta ns n" "pvo_Meta (sample_pvc ns n) = sample_meta ns n"
  by (simp_all add: sample_workspace_def sample_wsk_def sample_secret_def sample_pvc_def)

text \<open>Running a step computes.\<close>

lemmas run_step_simps = run_handler_def respond_def and_then_def attempt_def proceed_def stop_def ask_def query_def
  requireAuth_def review_def authorize_all.simps get_or_def kube_get_def store_or_def kube_store_def delete_or_def kube_delete_def
  path_params_def query_params_def

lemmas sample_lib_simps = sample_be_lib_def ValidateKubernetesNamespaceName_def ValidateWorkspaceName_def ValidateWorkspaceKindName_def
  ValidateKubernetesSecretName_def ValidateKubernetesPVCName_def ValidateFieldIsDNS1123Label_def ValidateFieldIsDNS1123Subdomain_def
  ValidateFieldIsNotEmpty_def

lemma sample_params:
  "namespace_params sample_app ''team'' t = (Inr (), t)" "workspace_params sample_app ''team'' ''nb'' t = (Inr (), t)"
  "secret_params sample_app ''team'' ''nb'' t = (Inr (), t)" "kind_params sample_app ''nb'' t = (Inr (), t)"
  by (simp_all add: namespace_params_def workspace_params_def secret_params_def kind_params_def sample_lib_simps run_step_simps)

end
