(* ===== verification/Backend_Secure.thy ===== *)
theory Backend_Secure
  imports Backend_Sample
begin

text \<open>
  No request reaches the cluster unreviewed: for every route, each call the backend makes was
  preceded by an access review of the authenticated user that was allowed, and a write only
  happens when the review was for that write on that object. The client is assumed to return the
  object it was asked for.
\<close>

fun is_read :: "be_call \<Rightarrow> bool" where
  "is_read (GetCall r ns n) = True"
| "is_read (ListCall r ns) = True"
| "is_read _ = False"

lemma is_read_policy: "is_read c \<Longrightarrow> policies \<noteq> [] \<Longrightarrow> policy_for policies c"
  by (cases c; cases policies) (auto simp: policy_for_write)

lemma well_guarded_read:
  assumes "policies \<noteq> []" and "\<And>u. emits is_read (rest u)"
  shows "well_guarded app rq (and_then (requireAuth app rq policies) rest)"
  by (rule well_guarded_auth, rule emits_mono [OF assms(2)]) (simp add: is_read_policy assms(1))

section \<open>The client\<close>

definition returns_requested :: "be_client \<Rightarrow> bool" where
  "returns_requested cl \<longleftrightarrow>
     (\<forall>t ns n w. cl_GetWorkspace cl t ns n = Inr w \<longrightarrow> ws_Namespace w = ns \<and> ws_Name w = n) \<and>
     (\<forall>t ns n k. cl_GetWorkspaceKind cl t ns n = Inr k \<longrightarrow> om_Name (wk_Meta k) = n) \<and>
     (\<forall>t ns n s. cl_GetSecret cl t ns n = Inr s \<longrightarrow> om_Namespace (sec_Meta s) = ns \<and> om_Name (sec_Meta s) = n) \<and>
     (\<forall>t ns n p. cl_GetPVC cl t ns n = Inr p \<longrightarrow> om_Namespace (pvo_Meta p) = ns \<and> om_Name (pvo_Meta p) = n)"

lemma get_or_InrD: "get_or e res get ns n t = (Inr x, t') \<Longrightarrow> get t ns n = Inr x"
  by (auto simp: get_or_def kube_get_def elim!: and_then_InrE split: sum.splits if_splits)

lemma requested_names:
  assumes "returns_requested cl"
  shows "get_or e r (cl_GetWorkspace cl) ns n t = (Inr w, t') \<Longrightarrow> ws_Namespace w = ns \<and> ws_Name w = n"
    and "get_or e r (cl_GetWorkspaceKind cl) ns n t = (Inr k, t') \<Longrightarrow> om_Name (wk_Meta k) = n"
    and "get_or e r (cl_GetSecret cl) ns n t = (Inr s, t') \<Longrightarrow> om_Namespace (sec_Meta s) = ns \<and> om_Name (sec_Meta s) = n"
    and "get_or e r (cl_GetPVC cl) ns n t = (Inr p, t') \<Longrightarrow> om_Namespace (pvo_Meta p) = ns \<and> om_Name (pvo_Meta p) = n"
  using assms unfolding returns_requested_def by (blast dest: get_or_InrD)+

section \<open>Repositories that only read\<close>

lemma reads_of_kinds [emit_intros]:
  "emits is_read (get_kind app name)" "emits is_read (kind_if_exists app name)"
  "emits is_read (resolveNamespaceLabels app ns p)" "emits is_read (Repo_GetWorkspaceKind app name)"
  "emits is_read (kind_items slib pre lbls wsks)"
  by (auto simp: get_kind_def kind_if_exists_def resolveNamespaceLabels_def Repo_GetWorkspaceKind_def
      intro!: emit_intros split: sum.splits)
    (induction wsks, auto intro!: emit_intros split: sum.splits option.splits)

lemma reads_of_kind_lists [emit_intros]:
  "emits is_read (Repo_GetWorkspaceKinds app ns)" "emits is_read (Repo_ListPodTemplateOptionsValues app name lv)"
  "emits is_read (GetWorkspaceKindAssetBytesIcon app name)" "emits is_read (GetWorkspaceKindAssetBytesLogo app name)"
  by (auto simp: Repo_GetWorkspaceKinds_def Repo_ListPodTemplateOptionsValues_def GetWorkspaceKindAssetBytesIcon_def
      GetWorkspaceKindAssetBytesLogo_def getWorkspaceKindAssetBytes_def intro!: emit_intros split: sum.splits option.splits prod.splits)

lemma reads_of_mountables [emit_intros]:
  "emits is_read (ValidateKubernetesSecretIsMountable cl p ns n)"
  "emits is_read (ValidateKubernetesPVCIsMountable cl p ns n)"
  "emits is_read (ValidateKubernetesStorageClassIsUsable cl p n)"
  by (auto simp: ValidateKubernetesSecretIsMountable_def ValidateKubernetesPVCIsMountable_def
      ValidateKubernetesStorageClassIsUsable_def intro!: emit_intros split: sum.splits)

lemma reads_of_unpacking [emit_intros]:
  "emits is_read (unpack_data cl ns i vs)" "emits is_read (unpack_secrets cl ns i ss)"
  by (induction vs arbitrary: i) (auto intro!: emit_intros, induction ss arbitrary: i, auto intro!: emit_intros)

lemma reads_of_volumes [emit_intros]:
  "emits is_read (validateAndUnpackVolumes cl vols ns)"
  "emits is_read (NewWorkspaceFromWorkspaceCreateModel cl wc ns)"
  "emits is_read (ApplyWorkspaceUpdateModelToWorkspace cl wu w)"
  by (auto simp: validateAndUnpackVolumes_def NewWorkspaceFromWorkspaceCreateModel_def
      ApplyWorkspaceUpdateModelToWorkspace_def intro!: emit_intros split: option.splits)

lemma reads_of_workspaces [emit_intros]:
  "emits is_read (Repo_GetWorkspace app ns n)" "emits is_read (Repo_GetWorkspaceDetails app ns n)"
  "emits is_read (workspace_items app wss)"
  by (auto simp: Repo_GetWorkspace_def Repo_GetWorkspaceDetails_def intro!: emit_intros split: sum.splits)
    (induction wss, auto intro!: emit_intros split: sum.splits)

lemma reads_of_workspace_lists [emit_intros]:
  "emits is_read (Repo_GetWorkspaces app ns)" "emits is_read (Repo_GetAllWorkspaces app)"
  by (auto simp: Repo_GetWorkspaces_def Repo_GetAllWorkspaces_def getWorkspaceModels_def intro!: emit_intros)

lemma reads_of_pods [emit_intros]:
  "emits is_read (OpenLogStream app ns n opts)" "emits is_read (GetWorkspaceResourceUsage app av ns n)"
  by (auto simp: OpenLogStream_def resolvePodAndContainer_def ensureLogsAvailable_def checkStatus_def
      GetWorkspaceResourceUsage_def Let_def intro!: emit_intros split: sum.splits option.splits list.splits)

lemma reads_of_pvc_items [emit_intros]: "emits is_read (pvc_items app pods wss pvcs)"
  by (induction pvcs) (auto simp: get_if_exists_def intro!: emit_intros split: sum.splits option.splits)

lemma reads_of_others [emit_intros]:
  "emits is_read (Repo_GetSecrets app ns)" "emits is_read (Repo_GetSecret app ns n)" "emits is_read (Repo_GetPVCs app ns)"
  "emits is_read (Repo_GetStorageClasses app)" "emits is_read (Repo_GetNamespaces app)"
  by (auto simp: Repo_GetSecrets_def Repo_GetSecret_def Repo_GetPVCs_def Repo_GetStorageClasses_def Repo_GetNamespaces_def
      intro!: emit_intros)

section \<open>Repositories that write\<close>

definition allowed :: "ResourcePolicy list \<Rightarrow> be_call \<Rightarrow> bool" where
  "allowed policies c \<longleftrightarrow> (kube_call c \<longrightarrow> policy_for policies c)"

text \<open>A repository reads first, and then writes one object.\<close>

lemma allowed_bind:
  assumes "emits is_read m" and "\<And>t x t'. m t = (Inr x, t') \<Longrightarrow> emits (allowed (p # ps)) (f x)"
  shows "emits (allowed (p # ps)) (and_then m f)"
  by (rule emits_bind, rule emits_mono [OF assms(1)]) (auto simp: allowed_def is_read_policy intro: assms(2))

lemma emits_guard: "emits A m \<Longrightarrow> emits A (if b then stop e else m)"
  by (simp add: emit_intros)

lemma allowed_store:
  "allowed ps c \<Longrightarrow> emits (allowed ps) (and_then (store_or tr st c) (\<lambda>x. proceed (g x)))"
  by (intro emit_intros)

lemma allowed_write [intro]:
  "object_resource obj = res \<Longrightarrow> object_namespace obj = ns \<Longrightarrow> om_Name (object_meta obj) = n \<Longrightarrow>
     allowed [policy VerbCreate res ns n] (CreateCall obj)"
  "object_resource obj = res \<Longrightarrow> object_namespace obj = ns \<Longrightarrow> om_Name (object_meta obj) = n \<Longrightarrow>
     allowed [policy VerbUpdate res ns n] (UpdateCall obj)"
  "allowed [policy VerbUpdate Workspaces ns n] (PatchCall ns n ops)"
  "allowed [policy VerbDelete res ns n] (DeleteCall res ns n)"
  by (auto simp: allowed_def policy_for_write)

lemma meta_updates_names [simp]:
  "om_Name (UpdateObjectMetaForCreate actor meta) = om_Name meta"
  "om_Namespace (UpdateObjectMetaForCreate actor meta) = om_Namespace meta"
  "om_Name (UpdateObjectMetaForUpdate lib actor now meta) = om_Name meta"
  "om_Namespace (UpdateObjectMetaForUpdate lib actor now meta) = om_Namespace meta"
  by (auto simp: UpdateObjectMetaForCreate_def UpdateObjectMetaForUpdate_def Let_def split: option.splits)

lemma new_workspace_names:
  "NewWorkspaceFromWorkspaceCreateModel cl wc ns t = (Inr w, t') \<Longrightarrow> ws_Name w = wc_Name wc \<and> ws_Namespace w = ns"
  by (auto simp: NewWorkspaceFromWorkspaceCreateModel_def elim!: and_then_InrE)

lemma applied_workspace_meta:
  "ApplyWorkspaceUpdateModelToWorkspace cl wu w t = (Inr w', t') \<Longrightarrow> ws_Meta w' = ws_Meta w"
  by (auto simp: ApplyWorkspaceUpdateModelToWorkspace_def elim!: and_then_InrE)

lemma applied_secret_meta:
  "ApplySecretUpdateModelToSecret lib kord su s = Inr s' \<Longrightarrow> sec_Meta s' = sec_Meta s"
  "NewSecretFromSecretCreateModel lib kord sc ns = Inr s \<Longrightarrow> om_Name (sec_Meta s) = scr_Name sc \<and> om_Namespace (sec_Meta s) = ns"
  by (auto simp: ApplySecretUpdateModelToSecret_def NewSecretFromSecretCreateModel_def split: sum.splits)

lemmas allowed_steps = emits_and_then [OF emits_basic(3)] allowed_bind emits_guard allowed_store

lemma Repo_CreateWorkspace_allowed:
  "emits (allowed [policy VerbCreate Workspaces ns (wc_Name wc)]) (Repo_CreateWorkspace app actor wc ns)"
  unfolding Repo_CreateWorkspace_def Let_def
  by (intro allowed_steps allowed_write) (auto dest: new_workspace_names intro: emit_intros)

lemma Repo_UpdateWorkspace_allowed:
  assumes "returns_requested (app_Client app)"
  shows "emits (allowed [policy VerbUpdate Workspaces ns n]) (Repo_UpdateWorkspace app actor wu ns n)"
  unfolding Repo_UpdateWorkspace_def Let_def
  by (intro allowed_steps allowed_write)
    (auto dest!: applied_workspace_meta requested_names(1) [OF assms] intro: emit_intros)

lemma Repo_deletes_allowed:
  "emits (allowed [policy VerbDelete Workspaces ns n]) (Repo_DeleteWorkspace app ns n)"
  "emits (allowed [policy VerbDelete WorkspaceKinds [] n]) (Repo_DeleteWorkspaceKind app n)"
  "emits (allowed [policy VerbUpdate Workspaces ns n]) (Repo_HandlePauseAction app ns n wap)"
  by (auto simp: Repo_DeleteWorkspace_def Repo_DeleteWorkspaceKind_def Repo_HandlePauseAction_def
      intro!: emit_intros allowed_write)

lemma Repo_secret_writes_allowed:
  assumes "returns_requested (app_Client app)"
  shows "emits (allowed [policy VerbCreate Secrets ns (scr_Name sc)]) (Repo_CreateSecret app kord actor sc ns)"
    and "emits (allowed [policy VerbUpdate Secrets ns n]) (Repo_UpdateSecret app kord actor su ns n)"
    and "emits (allowed [policy VerbDelete Secrets ns n]) (Repo_DeleteSecret app ns n)"
proof -
  show "emits (allowed [policy VerbCreate Secrets ns (scr_Name sc)]) (Repo_CreateSecret app kord actor sc ns)"
    unfolding Repo_CreateSecret_def Let_def
    by (auto dest!: applied_secret_meta(2) intro!: allowed_steps allowed_write emits_basic split: sum.splits)
  show "emits (allowed [policy VerbUpdate Secrets ns n]) (Repo_UpdateSecret app kord actor su ns n)"
    unfolding Repo_UpdateSecret_def Let_def
    by (intro allowed_steps)
      (auto dest!: applied_secret_meta(1) requested_names(3) [OF assms] intro!: emits_basic allowed_store allowed_write
        intro: emit_intros split: sum.splits)
  show "emits (allowed [policy VerbDelete Secrets ns n]) (Repo_DeleteSecret app ns n)"
    unfolding Repo_DeleteSecret_def
    by (intro allowed_steps) (auto dest!: requested_names(3) [OF assms] intro!: emit_intros allowed_write)
qed

lemma Repo_pvc_writes_allowed:
  assumes "returns_requested (app_Client app)"
  shows "emits (allowed [policy VerbCreate PersistentVolumeClaims ns (pcr_Name pc)]) (Repo_CreatePVC app actor pc ns)"
    and "emits (allowed [policy VerbDelete PersistentVolumeClaims ns n]) (Repo_DeletePVC app ns n)"
proof -
  show "emits (allowed [policy VerbCreate PersistentVolumeClaims ns (pcr_Name pc)]) (Repo_CreatePVC app actor pc ns)"
    unfolding Repo_CreatePVC_def Let_def
    by (intro allowed_steps allowed_write) (auto intro: emit_intros)
  show "emits (allowed [policy VerbDelete PersistentVolumeClaims ns n]) (Repo_DeletePVC app ns n)"
    unfolding Repo_DeletePVC_def
    by (intro allowed_steps) (auto dest!: requested_names(4) [OF assms] intro!: emit_intros allowed_write)
qed

lemma Repo_kind_writes_allowed:
  assumes "returns_requested (app_Client app)"
  shows "emits (allowed [policy VerbCreate WorkspaceKinds [] (om_Name (wk_Meta k))]) (Repo_CreateWorkspaceKind app actor k)"
    and "emits (allowed [policy VerbUpdate WorkspaceKinds [] n]) (Repo_UpdateWorkspaceKind app actor ku n)"
proof -
  show "emits (allowed [policy VerbCreate WorkspaceKinds [] (om_Name (wk_Meta k))]) (Repo_CreateWorkspaceKind app actor k)"
    unfolding Repo_CreateWorkspaceKind_def Let_def by (intro allowed_steps allowed_write) simp_all
  show "emits (allowed [policy VerbUpdate WorkspaceKinds [] n]) (Repo_UpdateWorkspaceKind app actor ku n)"
    unfolding Repo_UpdateWorkspaceKind_def get_kind_def Let_def
    by (intro allowed_steps allowed_write)
      (auto simp: ApplyWorkspaceKindUpdateModelToWorkspaceKind_def dest!: requested_names(2) [OF assms] intro: emit_intros)
qed

section \<open>Handlers\<close>

lemma well_guarded_write:
  assumes "\<And>u. emits (allowed policies) (m u)" and "\<And>u r. emits (\<lambda>_. False) (f u r)"
  shows "well_guarded app rq (and_then (requireAuth app rq policies) (\<lambda>u. and_then (attempt (m u)) (f u)))"
  by (rule well_guarded_auth, rule emits_mono [of "allowed policies"])
    (auto simp: allowed_def intro!: emit_intros assms(1) emits_mono [OF assms(2)])

lemmas handler_params = workspace_params_def namespace_params_def secret_params_def pvc_params_def kind_params_def
  namespace_query_def query_params_def kind_body_def

lemma emits_params [emit_intros]:
  "emits A (workspace_params app ns n)" "emits A (namespace_params app ns)" "emits A (secret_params app ns n)"
  "emits A (pvc_params app ns n)" "emits A (kind_params app n)" "emits A (namespace_query app q ns)"
  "emits A (query_params app errs)" "emits A (kind_body app rq decode)"
  by (auto simp: handler_params Let_def intro!: emit_intros split: sum.splits)

lemma workspace_handlers_guarded:
  "well_guarded app rq (GetWorkspaceHandler app rq ns n)"
  "well_guarded app rq (getWorkspacesHandler app rq ns)"
  "well_guarded app rq (GetWorkspacePodTemplateDetailsHandler app rq ns n)"
  "well_guarded app rq (GetWorkspacePodTemplateLogsHandler app rq ns n)"
  "well_guarded app rq (GetWorkspacePodTemplateResourcesHandler app av rq ns n)"
  by (auto simp: GetWorkspaceHandler_def getWorkspacesHandler_def GetWorkspacePodTemplateDetailsHandler_def
      GetWorkspacePodTemplateLogsHandler_def GetWorkspacePodTemplateResourcesHandler_def Let_def
      intro!: well_guarded_before well_guarded_read emit_intros split: sum.splits prod.splits)

lemma other_read_handlers_guarded:
  "well_guarded app rq (GetSecretsByNamespaceHandler app rq ns)" "well_guarded app rq (GetSecretHandler app rq ns n)"
  "well_guarded app rq (GetPVCsByNamespaceHandler app rq ns)" "well_guarded app rq (GetStorageClassesHandler app rq)"
  "well_guarded app rq (GetNamespacesHandler app rq)"
  by (auto simp: GetSecretsByNamespaceHandler_def GetSecretHandler_def GetPVCsByNamespaceHandler_def
      GetStorageClassesHandler_def GetNamespacesHandler_def Let_def
      intro!: well_guarded_before well_guarded_read emit_intros split: sum.splits)

lemma kind_read_handlers_guarded:
  "well_guarded app rq (GetWorkspaceKindHandler app rq n)" "well_guarded app rq (GetWorkspaceKindsHandler app rq)"
  "well_guarded app rq (getWorkspaceKindAssetHandler app rq n ty)"
  "well_guarded app rq (PodTemplateOptionsListValuesHandler app lv_decode rq n)"
  by (auto simp: GetWorkspaceKindHandler_def GetWorkspaceKindsHandler_def getWorkspaceKindAssetHandler_def
      PodTemplateOptionsListValuesHandler_def Let_def
      intro!: well_guarded_before well_guarded_read emit_intros split: sum.splits wskAssetType.splits if_splits)

text \<open>
  In some handlers the body is read after the review: reading it makes no call, so the order does
  not matter for what the review covers.
\<close>

lemma well_guarded_write_body:
  assumes "\<And>u x. emits (allowed policies) (m u x)" and "\<And>u x r. emits (\<lambda>_. False) (f u x r)" and "emits (\<lambda>_. False) body"
  shows "well_guarded app rq (and_then (requireAuth app rq policies) (\<lambda>u. and_then body (\<lambda>x. and_then (attempt (m u x)) (f u x))))"
  by (rule well_guarded_auth, rule emits_mono [of "allowed policies"])
    (auto simp: allowed_def intro!: emit_intros assms(1) emits_mono [OF assms(2)] emits_mono [OF assms(3)])

lemmas after_params = emits_params [THEN well_guarded_before] emits_http_passages(3) [THEN well_guarded_before]

lemma workspace_write_handlers_guarded:
  assumes "returns_requested (app_Client app)"
  shows "well_guarded app rq (CreateWorkspaceHandler app wc_decode rq ns)"
    and "well_guarded app rq (UpdateWorkspaceHandler app wu_decode rq ns n)"
    and "well_guarded app rq (DeleteWorkspaceHandler app rq ns n)"
    and "well_guarded app rq (PauseActionWorkspaceHandler app wap_decode rq ns n)"
  unfolding CreateWorkspaceHandler_def UpdateWorkspaceHandler_def DeleteWorkspaceHandler_def PauseActionWorkspaceHandler_def
  by (intro after_params well_guarded_write_body well_guarded_write Repo_UpdateWorkspace_allowed [OF assms]
      Repo_CreateWorkspace_allowed Repo_deletes_allowed; simp add: emit_intros split: sum.split)+

lemma secret_write_handlers_guarded:
  assumes "returns_requested (app_Client app)"
  shows "well_guarded app rq (CreateSecretHandler app kord sc_decode rq ns)"
    and "well_guarded app rq (UpdateSecretHandler app kord su_decode rq ns n)"
    and "well_guarded app rq (DeleteSecretHandler app rq ns n)"
  unfolding CreateSecretHandler_def UpdateSecretHandler_def DeleteSecretHandler_def
  by (intro after_params well_guarded_write_body well_guarded_write Repo_secret_writes_allowed [OF assms];
      simp add: emit_intros split: sum.split)+

lemma pvc_write_handlers_guarded:
  assumes "returns_requested (app_Client app)"
  shows "well_guarded app rq (CreatePVCHandler app pc_decode rq ns)"
    and "well_guarded app rq (DeletePVCHandler app rq ns n)"
  unfolding CreatePVCHandler_def DeletePVCHandler_def
  by (intro after_params well_guarded_write Repo_pvc_writes_allowed [OF assms]; simp add: emit_intros split: sum.split)+

lemma kind_write_handlers_guarded:
  assumes "returns_requested (app_Client app)"
  shows "well_guarded app rq (CreateWorkspaceKindHandler app k_decode rq)"
    and "well_guarded app rq (UpdateWorkspaceKindHandler app ku_decode rq n)"
    and "well_guarded app rq (DeleteWorkspaceKindHandler app rq n)"
  unfolding CreateWorkspaceKindHandler_def UpdateWorkspaceKindHandler_def DeleteWorkspaceKindHandler_def
  by (intro after_params well_guarded_write_body well_guarded_write Repo_kind_writes_allowed [OF assms] Repo_deletes_allowed;
      simp add: emit_intros split: sum.split)+

section \<open>Every route\<close>

lemma respond_covered: "well_guarded app rq h \<Longrightarrow> all_covered app rq (snd (respond f h []))"
  by (auto simp: respond_def split: prod.split intro: well_guarded_run)

lemmas all_handlers_guarded = workspace_handlers_guarded other_read_handlers_guarded kind_read_handlers_guarded
  workspace_write_handlers_guarded secret_write_handlers_guarded pvc_write_handlers_guarded kind_write_handlers_guarded

lemma open_handlers_guarded:
  "well_guarded app rq GetHealthcheckHandler" "well_guarded app rq (GetUserHandler cfg rq')"
  by (auto simp: well_guarded_def access.safe_def GetHealthcheckHandler_def GetUserHandler_def proceed_def Let_def)

lemma route_covered:
  assumes "returns_requested (app_Client (srv_App s))"
  shows "all_covered (srv_App s) rq (snd (serve_route s rq ps r []))"
  using assms
  by (cases r) (simp_all add: GetAllWorkspacesHandler_def GetWorkspacesByNamespaceHandler_def GetWorkspaceKindIconHandler_def
      GetWorkspaceKindLogoHandler_def respond_covered all_handlers_guarded open_handlers_guarded)

text \<open>
  C3. Every call to the cluster that serving a request makes was preceded, in the same request,
  by an access review that was allowed, of the user the request was authenticated as; and a create,
  update, delete or pause was preceded by a review for that verb on exactly that object, its
  resource, API group, namespace and name. This holds for every route, with any answers of the
  cluster and any bodies, whatever the reviews return, given that a read returns the object that
  was asked for. In particular a request without an authenticated user makes no call at all.
\<close>

theorem every_call_reviewed:
  assumes "returns_requested (app_Client (srv_App s))" and "serve s m rq [] = (resp, t)"
    and "i < length t" and "kube_call (fst (t ! i))"
  shows "\<exists>u a. app_AuthN (srv_App s) rq = Inr (Some u) \<and> at_User a = u \<and> covers a (fst (t ! i)) \<and>
     (ReviewCall a, True) \<in> set (take i t)"
proof -
  have "all_covered (srv_App s) rq t"
  proof (cases m)
    case (Matched r ps)
    then show ?thesis using assms(2) route_covered [OF assms(1), of rq ps r] by (simp add: serve_def)
  qed (use assms(2) in \<open>auto simp: serve_def all_covered_def\<close>)
  with assms(3,4) show ?thesis by (auto simp: all_covered_def reviewed_def)
qed

lemma sample_client_requested: "returns_requested sample_client"
  by (simp add: returns_requested_def)

lemma sample_delete:
  "serve sample_server (Matched DeleteWorkspace sample_path) sample_request [] =
     (deletedResponse, [(ReviewCall (AttributesFor (policy VerbDelete Workspaces ''team'' ''nb'') alice), True),
                        (DeleteCall Workspaces ''team'' ''nb'', True)])"
  by (simp add: serve_def DeleteWorkspaceHandler_def workspace_params_def Repo_DeleteWorkspace_def run_step_simps
      sample_lib_simps sample_path_def map_response_def deletedResponse_def)

theorem every_call_reviewed_witness:
  "\<exists>u a. app_AuthN sample_app sample_request = Inr (Some u) \<and> at_User a = u \<and> covers a (DeleteCall Workspaces ''team'' ''nb'') \<and>
     (ReviewCall a, True) \<in> {(ReviewCall (AttributesFor (policy VerbDelete Workspaces ''team'' ''nb'') alice), True)}"
  using every_call_reviewed [OF _ sample_delete, of 1] by (simp add: sample_client_requested)

end
