(* ===== verification/Backend_Calls.thy ===== *)
theory Backend_Calls
  imports Backend_Secure
begin

text \<open>
  What serving a request does to the cluster: a route that only reads makes no write, and every
  other route makes at most one write, of the kind that is its own, as its last call. No request
  leaves a half-done change behind.
\<close>

fun looks :: "be_call \<Rightarrow> bool" where
  "looks (ReviewCall a) = True"
| "looks (GetCall r ns n) = True"
| "looks (ListCall r ns) = True"
| "looks _ = False"

lemma read_looks: "emits is_read m \<Longrightarrow> emits looks m"
  by (erule emits_mono) (auto elim: is_read.elims)

lemmas looking = reads_of_kinds [THEN read_looks] reads_of_kind_lists [THEN read_looks] reads_of_mountables [THEN read_looks]
  reads_of_volumes [THEN read_looks] reads_of_workspaces [THEN read_looks] reads_of_workspace_lists [THEN read_looks]
  reads_of_pods [THEN read_looks] reads_of_others [THEN read_looks]

section \<open>Steps that end with a write\<close>

text \<open>
  A step that looks, and then makes at most one other call, which satisfies \<open>P\<close>; when that
  call succeeds, the step goes on with a value.
\<close>

definition last_write :: "(be_call \<Rightarrow> bool) \<Rightarrow> ('o, 'a) be_step \<Rightarrow> bool" where
  "last_write P m \<longleftrightarrow> (\<forall>t. \<exists>d. snd (m t) = t @ d \<and>
     (\<forall>e \<in> set d. looks (fst e) \<or> P (fst e) \<and> (snd e \<longrightarrow> \<not> isl (fst (m t)))) \<and> (\<forall>e \<in> set (butlast d). looks (fst e)))"

lemma last_write_looks: "emits looks m \<Longrightarrow> last_write P m"
  unfolding emits_def last_write_def by (meson in_set_butlastD)

lemma last_write_then:
  assumes "emits looks m" and "\<And>x. last_write P (f x)"
  shows "last_write P (and_then m f)"
  unfolding last_write_def
proof
  fix t
  obtain r d where m: "m t = (r, t @ d)" "\<forall>e \<in> set d. looks (fst e)"
    using assms(1) unfolding emits_def by (metis prod.collapse)
  show "\<exists>d. snd (and_then m f t) = t @ d \<and>
     (\<forall>e \<in> set d. looks (fst e) \<or> P (fst e) \<and> (snd e \<longrightarrow> \<not> isl (fst (and_then m f t)))) \<and> (\<forall>e \<in> set (butlast d). looks (fst e))"
  proof (cases r)
    case (Inl out)
    with m show ?thesis by (auto simp: and_then_def dest: in_set_butlastD)
  next
    case (Inr x)
    then have run: "and_then m f t = f x (t @ d)" using m(1) by (simp add: and_then_def)
    obtain d' where "snd (f x (t @ d)) = (t @ d) @ d'"
        "\<forall>e \<in> set d'. looks (fst e) \<or> P (fst e) \<and> (snd e \<longrightarrow> \<not> isl (fst (f x (t @ d))))" "\<forall>e \<in> set (butlast d'). looks (fst e)"
      using assms(2) unfolding last_write_def by blast
    with m show ?thesis unfolding run by (auto simp: butlast_append dest: in_set_butlastD intro!: exI [of _ "d @ d'"])
  qed
qed

text \<open>After the write nothing is called, and a success stays one.\<close>

lemma last_write_extend:
  assumes m: "last_write P m" and m': "\<And>t. snd (m' t) = snd (m t) \<and> (\<not> isl (fst (m t)) \<longrightarrow> \<not> isl (fst (m' t)))"
  shows "last_write P m'"
  unfolding last_write_def
proof
  fix t
  from m obtain d where "snd (m t) = t @ d" "\<forall>e \<in> set d. looks (fst e) \<or> P (fst e) \<and> (snd e \<longrightarrow> \<not> isl (fst (m t)))"
      "\<forall>e \<in> set (butlast d). looks (fst e)"
    unfolding last_write_def by blast
  with m' [of t] show "\<exists>d. snd (m' t) = t @ d \<and>
      (\<forall>e \<in> set d. looks (fst e) \<or> P (fst e) \<and> (snd e \<longrightarrow> \<not> isl (fst (m' t)))) \<and> (\<forall>e \<in> set (butlast d). looks (fst e))"
    by (intro exI [of _ d]) auto
qed

lemma last_write_before:
  assumes m: "last_write P m" and f: "\<And>x. emits (\<lambda>_. False) (f x)" and goes_on: "\<And>x t. \<not> isl (fst (f x t))"
  shows "last_write P (and_then m f)"
proof -
  have "snd (and_then m f t) = snd (m t) \<and> (\<not> isl (fst (m t)) \<longrightarrow> \<not> isl (fst (and_then m f t)))" for t
    using emits_nothing [OF f] goes_on by (auto simp: and_then_def split: prod.split sum.split) (metis prod.collapse snd_conv)
  then show ?thesis by (rule last_write_extend [OF m])
qed

lemma last_write_stores:
  "P c \<Longrightarrow> last_write P (store_or tr st c)" "P (DeleteCall res ns n) \<Longrightarrow> last_write P (delete_or e cl res ns n)"
  by (auto simp: last_write_def store_or_def kube_store_def delete_or_def kube_delete_def query_def and_then_def proceed_def stop_def
      split: sum.splits option.splits)

lemma last_write_stored:
  "P c \<Longrightarrow> last_write P (and_then (store_or tr st c) (\<lambda>x. proceed (g x)))"
  by (intro last_write_before last_write_stores emit_intros) (simp_all add: proceed_def)

lemma last_write_if: "last_write P m \<Longrightarrow> last_write P (if b then stop e else m)"
  by (auto intro: last_write_looks emit_intros)

section \<open>Repositories\<close>

text \<open>The writes of a route.\<close>

fun route_writes :: "route \<Rightarrow> be_call \<Rightarrow> bool" where
  "route_writes CreateSecret c = (\<exists>s. c = CreateCall (SecretObject s))"
| "route_writes UpdateSecret c = (\<exists>s. c = UpdateCall (SecretObject s))"
| "route_writes DeleteSecret c = (\<exists>ns n. c = DeleteCall Secrets ns n)"
| "route_writes CreateWorkspace c = (\<exists>w. c = CreateCall (WorkspaceObject w))"
| "route_writes UpdateWorkspace c = (\<exists>w. c = UpdateCall (WorkspaceObject w))"
| "route_writes DeleteWorkspace c = (\<exists>ns n. c = DeleteCall Workspaces ns n)"
| "route_writes PauseActionWorkspace c = (\<exists>ns n ops. c = PatchCall ns n ops)"
| "route_writes CreateWorkspaceKind c = (\<exists>k. c = CreateCall (WorkspaceKindObject k))"
| "route_writes UpdateWorkspaceKind c = (\<exists>k. c = UpdateCall (WorkspaceKindObject k))"
| "route_writes DeleteWorkspaceKind c = (\<exists>n. c = DeleteCall WorkspaceKinds [] n)"
| "route_writes CreatePVC c = (\<exists>p. c = CreateCall (PVCObject p))"
| "route_writes DeletePVC c = (\<exists>ns n. c = DeleteCall PersistentVolumeClaims ns n)"
| "route_writes _ c = False"

lemma workspace_repos_write:
  "last_write (route_writes CreateWorkspace) (Repo_CreateWorkspace app actor wc ns)"
  "last_write (route_writes UpdateWorkspace) (Repo_UpdateWorkspace app actor wu ns n)"
  "last_write (route_writes DeleteWorkspace) (Repo_DeleteWorkspace app ns n)"
  "last_write (route_writes PauseActionWorkspace) (Repo_HandlePauseAction app ns n wap)"
  unfolding Repo_CreateWorkspace_def Repo_UpdateWorkspace_def Repo_DeleteWorkspace_def Repo_HandlePauseAction_def Let_def
  by (intro last_write_then last_write_if last_write_stored last_write_stores emit_intros looking; simp)+

lemma secret_repos_write:
  "last_write (route_writes CreateSecret) (Repo_CreateSecret app kord actor sc ns)"
  "last_write (route_writes UpdateSecret) (Repo_UpdateSecret app kord actor su ns n)"
  "last_write (route_writes DeleteSecret) (Repo_DeleteSecret app ns n)"
  unfolding Repo_CreateSecret_def Repo_UpdateSecret_def Repo_DeleteSecret_def Let_def
  by (auto intro!: last_write_then last_write_if last_write_stored last_write_stores emit_intros last_write_looks [OF emits_basic(2)]
      split: sum.splits)

lemma other_repos_write:
  "last_write (route_writes CreatePVC) (Repo_CreatePVC app actor pc ns)"
  "last_write (route_writes DeletePVC) (Repo_DeletePVC app ns n)"
  "last_write (route_writes CreateWorkspaceKind) (Repo_CreateWorkspaceKind app actor k)"
  "last_write (route_writes UpdateWorkspaceKind) (Repo_UpdateWorkspaceKind app actor ku n)"
  "last_write (route_writes DeleteWorkspaceKind) (Repo_DeleteWorkspaceKind app n)"
  unfolding Repo_CreatePVC_def Repo_DeletePVC_def Repo_CreateWorkspaceKind_def Repo_UpdateWorkspaceKind_def
    Repo_DeleteWorkspaceKind_def Let_def
  by (intro last_write_then last_write_if last_write_stored last_write_stores emit_intros looking; simp)+

section \<open>Handlers\<close>

text \<open>A handler ends with the call of its repository, whose result becomes the response.\<close>

lemma last_write_repo:
  assumes m: "last_write P m" and f: "\<And>r. emits (\<lambda>_. False) (f r)" and goes_on: "\<And>x t. \<not> isl (fst (f (Inr x) t))"
  shows "last_write P (and_then (attempt m) f)"
proof -
  have "snd (and_then (attempt m) f t) = snd (m t) \<and> (\<not> isl (fst (m t)) \<longrightarrow> \<not> isl (fst (and_then (attempt m) f t)))" for t
  proof -
    obtain r t' where r: "m t = (r, t')" by fastforce
    then have run: "and_then (attempt m) f t = f r t'" by (simp add: and_then_def attempt_def)
    show ?thesis unfolding run r using emits_nothing [OF f, of r t'] goes_on by (cases r) (auto simp: prod_eq_iff)
  qed
  then show ?thesis by (rule last_write_extend [OF m])
qed

lemma writing_handlers:
  "last_write (route_writes CreateWorkspace) (CreateWorkspaceHandler app wc_decode rq ns)"
  "last_write (route_writes UpdateWorkspace) (UpdateWorkspaceHandler app wu_decode rq ns n)"
  "last_write (route_writes DeleteWorkspace) (DeleteWorkspaceHandler app rq ns n)"
  "last_write (route_writes PauseActionWorkspace) (PauseActionWorkspaceHandler app wap_decode rq ns n)"
  "last_write (route_writes CreateSecret) (CreateSecretHandler app kord sc_decode rq ns)"
  "last_write (route_writes UpdateSecret) (UpdateSecretHandler app kord su_decode rq ns n)"
  "last_write (route_writes DeleteSecret) (DeleteSecretHandler app rq ns n)"
  "last_write (route_writes CreatePVC) (CreatePVCHandler app pc_decode rq ns)"
  "last_write (route_writes DeletePVC) (DeletePVCHandler app rq ns n)"
  "last_write (route_writes CreateWorkspaceKind) (CreateWorkspaceKindHandler app k_decode rq)"
  "last_write (route_writes UpdateWorkspaceKind) (UpdateWorkspaceKindHandler app ku_decode rq n)"
  "last_write (route_writes DeleteWorkspaceKind) (DeleteWorkspaceKindHandler app rq n)"
  unfolding CreateWorkspaceHandler_def UpdateWorkspaceHandler_def DeleteWorkspaceHandler_def PauseActionWorkspaceHandler_def
    CreateSecretHandler_def UpdateSecretHandler_def DeleteSecretHandler_def CreatePVCHandler_def DeletePVCHandler_def
    CreateWorkspaceKindHandler_def UpdateWorkspaceKindHandler_def DeleteWorkspaceKindHandler_def
  by (intro last_write_repo last_write_then workspace_repos_write secret_repos_write other_repos_write emit_intros;
      simp add: emit_intros proceed_def split: sum.split)+

lemma looking_handlers:
  "emits looks (GetWorkspaceHandler app rq ns n)" "emits looks (getWorkspacesHandler app rq ns)"
  "emits looks (GetWorkspacePodTemplateDetailsHandler app rq ns n)"
  "emits looks (GetWorkspacePodTemplateLogsHandler app rq ns n)"
  "emits looks (GetWorkspacePodTemplateResourcesHandler app av rq ns n)"
  "emits looks (GetSecretsByNamespaceHandler app rq ns)" "emits looks (GetSecretHandler app rq ns n)"
  "emits looks (GetPVCsByNamespaceHandler app rq ns)" "emits looks (GetStorageClassesHandler app rq)"
  "emits looks (GetNamespacesHandler app rq)"
  by (auto simp: GetWorkspaceHandler_def getWorkspacesHandler_def GetWorkspacePodTemplateDetailsHandler_def
      GetWorkspacePodTemplateLogsHandler_def GetWorkspacePodTemplateResourcesHandler_def GetSecretsByNamespaceHandler_def
      GetSecretHandler_def GetPVCsByNamespaceHandler_def GetStorageClassesHandler_def GetNamespacesHandler_def Let_def
      intro!: emit_intros looking split: sum.splits prod.splits)

lemma looking_kind_handlers:
  "emits looks (GetWorkspaceKindHandler app rq n)" "emits looks (GetWorkspaceKindsHandler app rq)"
  "emits looks (getWorkspaceKindAssetHandler app rq n ty)"
  "emits looks (PodTemplateOptionsListValuesHandler app lv_decode rq n)"
  "emits looks GetHealthcheckHandler" "emits looks (GetUserHandler cfg rq)"
  by (auto simp: GetWorkspaceKindHandler_def GetWorkspaceKindsHandler_def getWorkspaceKindAssetHandler_def
      PodTemplateOptionsListValuesHandler_def GetHealthcheckHandler_def GetUserHandler_def Let_def
      intro!: emit_intros looking split: sum.splits wskAssetType.splits)

section \<open>Routes\<close>

text \<open>The response of a handler that did not return early is a success.\<close>

definition ends_ok :: "('d, 'd http_response) http_step \<Rightarrow> bool" where
  "ends_ok h \<longleftrightarrow> (\<forall>t resp t'. h t = (Inr resp, t') \<longrightarrow> rp_Status resp < 300)"

lemma ends_ok_intros:
  "ends_ok (stop out)" "rp_Status resp < 300 \<Longrightarrow> ends_ok (proceed resp)" "(\<And>x. ends_ok (f x)) \<Longrightarrow> ends_ok (and_then m f)"
  by (auto simp: ends_ok_def elim!: and_then_InrE)

lemma ok_statuses:
  "rp_Status (dataResponse x) < 300" "rp_Status (createdResponse x l) < 300" "rp_Status deletedResponse < 300"
  by (simp_all add: dataResponse_def createdResponse_def deletedResponse_def)

lemma writing_handlers_end_ok:
  "ends_ok (CreateWorkspaceHandler app wc_decode rq ns)" "ends_ok (UpdateWorkspaceHandler app wu_decode rq ns n)"
  "ends_ok (DeleteWorkspaceHandler app rq ns n)" "ends_ok (PauseActionWorkspaceHandler app wap_decode rq ns n)"
  "ends_ok (CreateSecretHandler app kord sc_decode rq ns)" "ends_ok (UpdateSecretHandler app kord su_decode rq ns n)"
  "ends_ok (DeleteSecretHandler app rq ns n)" "ends_ok (CreatePVCHandler app pc_decode rq ns)"
  "ends_ok (DeletePVCHandler app rq ns n)" "ends_ok (CreateWorkspaceKindHandler app k_decode rq)"
  "ends_ok (UpdateWorkspaceKindHandler app ku_decode rq n)" "ends_ok (DeleteWorkspaceKindHandler app rq n)"
  unfolding CreateWorkspaceHandler_def UpdateWorkspaceHandler_def DeleteWorkspaceHandler_def PauseActionWorkspaceHandler_def
    CreateSecretHandler_def UpdateSecretHandler_def DeleteSecretHandler_def CreatePVCHandler_def DeletePVCHandler_def
    CreateWorkspaceKindHandler_def UpdateWorkspaceKindHandler_def DeleteWorkspaceKindHandler_def
  by (intro ends_ok_intros; simp add: ends_ok_intros ok_statuses split: sum.split)+

definition settled :: "route \<Rightarrow> api_data http_response \<times> be_trace \<Rightarrow> bool" where
  "settled r out \<longleftrightarrow> (\<forall>e \<in> set (snd out). looks (fst e) \<or> route_writes r (fst e) \<and> (snd e \<longrightarrow> rp_Status (fst out) < 300)) \<and>
     (\<forall>e \<in> set (butlast (snd out)). looks (fst e))"

lemma respond_settled:
  assumes "last_write (route_writes r) h" and "ends_ok h"
  shows "settled r (respond f h [])"
proof -
  obtain x t where h: "h [] = (x, t)" by fastforce
  with assms(1) have t: "\<forall>e \<in> set t. looks (fst e) \<or> route_writes r (fst e) \<and> (snd e \<longrightarrow> \<not> isl x)" "\<forall>e \<in> set (butlast t). looks (fst e)"
    unfolding last_write_def by (metis append_Nil fst_conv snd_conv)+
  have "snd (respond f h []) = t" "\<not> isl x \<Longrightarrow> rp_Status (fst (respond f h [])) < 300"
    using h assms(2) by (auto simp: respond_def run_handler_def map_response_def ends_ok_def split: sum.splits)
  with t show ?thesis by (auto simp: settled_def)
qed

lemma respond_looks:
  assumes "emits looks h"
  shows "settled r (respond f h [])"
proof -
  have "snd (respond f h []) = snd (h [])" by (auto simp: respond_def run_handler_def split: prod.split sum.split)
  moreover have "\<forall>e \<in> set (snd (h [])). looks (fst e)" using assms unfolding emits_def by (metis append_Nil)
  ultimately show ?thesis by (auto simp: settled_def dest: in_set_butlastD)
qed

lemma route_settled: "settled r (serve_route s rq ps r [])"
  by (cases r) (simp_all add: respond_settled writing_handlers writing_handlers_end_ok respond_looks looking_handlers
      looking_kind_handlers GetAllWorkspacesHandler_def GetWorkspacesByNamespaceHandler_def GetWorkspaceKindIconHandler_def
      GetWorkspaceKindLogoHandler_def)

lemma GET_routes_look: "(''GET'', p, r) \<in> set Routes \<Longrightarrow> \<not> route_writes r c"
  by (auto simp: Routes_def)

text \<open>
  C8. A request changes all or nothing: whatever the cluster answers, serving a request makes at
  most one call that could change anything, a write that belongs to its route, and it is the last
  call; a route with the method GET makes none. When the write succeeded, the response is a
  success, so that after an error response nothing has been changed.
\<close>

theorem error_means_unchanged:
  assumes "serve s m rq [] = (resp, t)" and "i < length t" and "\<not> looks (fst (t ! i))"
  shows "\<exists>r ps. m = Matched r ps \<and> route_writes r (fst (t ! i)) \<and> Suc i = length t \<and> (\<forall>p. (''GET'', p, r) \<notin> set Routes) \<and>
    (300 \<le> rp_Status resp \<longrightarrow> \<not> snd (t ! i))"
proof (cases m)
  case (Matched r ps)
  with assms(1) have run: "settled r (resp, t)" using route_settled [of r s rq ps] by (simp add: serve_def)
  have "t ! i \<in> set t" using assms(2) by simp
  with run assms(3) have "route_writes r (fst (t ! i))" "300 \<le> rp_Status resp \<longrightarrow> \<not> snd (t ! i)" by (auto simp: settled_def)
  moreover have "Suc i = length t"
  proof (rule ccontr)
    assume "Suc i \<noteq> length t"
    with assms(2) have "i < length (butlast t)" by simp
    then have "t ! i \<in> set (butlast t)" by (metis nth_butlast nth_mem)
    with run assms(3) show False by (auto simp: settled_def)
  qed
  ultimately show ?thesis using Matched GET_routes_look by metis
qed (use assms in \<open>auto simp: serve_def\<close>)

theorem error_means_unchanged_witness:
  "\<exists>r ps. Matched DeleteWorkspace sample_path = Matched r ps \<and> route_writes r (DeleteCall Workspaces ''team'' ''nb'') \<and>
     (\<forall>p. (''GET'', p, r) \<notin> set Routes)"
  using error_means_unchanged [OF sample_delete, of 1] by simp

end
