(* ===== verification/Backend_Workspaces_Correct.thy ===== *)
theory Backend_Workspaces_Correct
  imports Backend_Calls
begin

text \<open>
  What writing a Workspace through the backend guarantees: only volumes and Secrets that exist and
  are labelled for it are mounted, and the models and the Kubernetes object convert into each other
  without loss. Updates and their revisions are in \<open>Backend_Revisions\<close>.
\<close>

section \<open>Mounts\<close>

text \<open>What the cluster answered at a point of the trace: a claim or Secret that may be mounted.\<close>

definition pvc_mountable :: "be_client \<Rightarrow> string \<Rightarrow> string \<Rightarrow> be_trace \<Rightarrow> bool" where
  "pvc_mountable cl ns n t \<longleftrightarrow>
     (\<exists>p. cl_GetPVC cl t ns n = Inr p \<and> fmlookup (om_Labels (pvo_Meta p)) LabelCanMount = Some ''true'')"

definition secret_mountable :: "be_client \<Rightarrow> string \<Rightarrow> string \<Rightarrow> be_trace \<Rightarrow> bool" where
  "secret_mountable cl ns n t \<longleftrightarrow>
     (\<exists>s. cl_GetSecret cl t ns n = Inr s \<and> fmlookup (om_Labels (sec_Meta s)) LabelCanMount = Some ''true'')"

text \<open>Objects the API server returns have a UID.\<close>

definition objects_have_uid :: "be_client \<Rightarrow> bool" where
  "objects_have_uid cl \<longleftrightarrow>
     (\<forall>t ns n p. cl_GetPVC cl t ns n = Inr p \<longrightarrow> om_UID (pvo_Meta p) \<noteq> []) \<and>
     (\<forall>t ns n s. cl_GetSecret cl t ns n = Inr s \<longrightarrow> om_UID (sec_Meta s) \<noteq> [])"

text \<open>Something held at a point of the trace between two others.\<close>

definition during :: "be_trace \<Rightarrow> be_trace \<Rightarrow> (be_trace \<Rightarrow> bool) \<Rightarrow> bool" where
  "during t t' P \<longleftrightarrow> (\<exists>d d'. t' = t @ d @ d' \<and> P (t @ d))"

lemma during_mono:
  "during (t @ a) t' P \<Longrightarrow> during t t' P" "during t t' P \<Longrightarrow> during t (t' @ b) P"
  unfolding during_def by (metis append.assoc)+

lemma during_start: "P t \<Longrightarrow> during t (t @ d) P"
  unfolding during_def by (metis append_Nil append_Nil2)

lemma during_take:
  assumes "during [] (take i t) P" and "i < length t"
  shows "\<exists>j \<le> i. P (take j t)"
proof -
  from assms(1) obtain d d' where d: "take i t = d @ d'" "P d" by (auto simp: during_def)
  then have "take (length d) t = d" by (metis append_eq_conv_conj append_take_drop_id append.assoc)
  moreover have "length d \<le> i" using arg_cong [OF d(1), of length] assms(2) by simp
  ultimately show ?thesis using d(2) by metis
qed

lemma label_errors_Nil:
  "[] = label_errors l p s meta \<Longrightarrow> om_UID meta \<noteq> [] \<Longrightarrow> fmlookup (om_Labels meta) l = Some ''true''"
  by (auto simp: label_errors_def go_index_def split: option.splits if_splits)

lemma pvc_check:
  assumes "objects_have_uid cl" and "ValidateKubernetesPVCIsMountable cl p ns n t = (Inr [], t')"
  shows "during t t' (pvc_mountable cl ns n)"
  using assms
  by (auto simp: ValidateKubernetesPVCIsMountable_def kube_get_def objects_have_uid_def pvc_mountable_def
      elim!: and_then_InrE intro!: during_start dest!: label_errors_Nil split: sum.splits if_splits)

lemma secret_check:
  assumes "objects_have_uid cl" and "ValidateKubernetesSecretIsMountable cl p ns n t = (Inr [], t')"
  shows "during t t' (secret_mountable cl ns n)"
  using assms
  by (auto simp: ValidateKubernetesSecretIsMountable_def kube_get_def objects_have_uid_def secret_mountable_def
      elim!: and_then_InrE intro!: during_start dest!: label_errors_Nil split: sum.splits if_splits)

lemma unpack_data_ok:
  assumes "objects_have_uid cl" and "unpack_data cl ns i vs t = (Inr ([], ms), t')"
  shows "ms = map (\<lambda>v. \<lparr>pvm_PVCName = vmm_PVCName v, pvm_MountPath = vmm_MountPath v, pvm_ReadOnly = Some (vmm_ReadOnly v)\<rparr>) vs \<and>
    (\<forall>v \<in> set vs. during t t' (pvc_mountable cl ns (vmm_PVCName v)))"
  using assms(2)
proof (induction vs arbitrary: i t ms)
  case (Cons v vs)
  then obtain t1 ms1 where v: "ValidateKubernetesPVCIsMountable cl (volumes_path @ [Child ''data'', Index i, Child ''pvcName'']) ns (vmm_PVCName v) t = (Inr [], t1)"
      and vs: "unpack_data cl ns (i + 1) vs t1 = (Inr ([], ms1), t')"
      and ms: "ms = \<lparr>pvm_PVCName = vmm_PVCName v, pvm_MountPath = vmm_MountPath v, pvm_ReadOnly = Some (vmm_ReadOnly v)\<rparr> # ms1"
    by (auto elim!: and_then_InrE)
  obtain a where a: "t1 = t @ a" using emitsD [OF reads_of_mountables(2) v] by blast
  obtain b where b: "t' = t1 @ b" using emitsD [OF reads_of_unpacking(1) vs] by blast
  have "during t t' (pvc_mountable cl ns (vmm_PVCName v))"
    using pvc_check [OF assms(1) v] b by (simp add: during_mono)
  with Cons.IH [OF vs] ms a show ?case by (auto intro: during_mono(1))
qed simp

lemma unpack_secrets_ok:
  assumes "objects_have_uid cl" and "unpack_secrets cl ns i ss t = (Inr ([], ms), t')"
  shows "ms = map (\<lambda>s. \<lparr>psm_SecretName = smm_SecretName s, psm_MountPath = smm_MountPath s, psm_DefaultMode = smm_DefaultMode s\<rparr>) ss \<and>
    (\<forall>s \<in> set ss. during t t' (secret_mountable cl ns (smm_SecretName s)))"
  using assms(2)
proof (induction ss arbitrary: i t ms)
  case (Cons s ss)
  then obtain t1 ms1 where s: "ValidateKubernetesSecretIsMountable cl (volumes_path @ [Child ''secrets'', Index i, Child ''secretName'']) ns (smm_SecretName s) t = (Inr [], t1)"
      and ss: "unpack_secrets cl ns (i + 1) ss t1 = (Inr ([], ms1), t')"
      and ms: "ms = \<lparr>psm_SecretName = smm_SecretName s, psm_MountPath = smm_MountPath s, psm_DefaultMode = smm_DefaultMode s\<rparr> # ms1"
    by (auto elim!: and_then_InrE)
  obtain a where a: "t1 = t @ a" using emitsD [OF reads_of_mountables(1) s] by blast
  obtain b where b: "t' = t1 @ b" using emitsD [OF reads_of_unpacking(2) ss] by blast
  have "during t t' (secret_mountable cl ns (smm_SecretName s))"
    using secret_check [OF assms(1) s] b by (simp add: during_mono)
  with Cons.IH [OF ss] ms a show ?case by (auto intro: during_mono(1))
qed simp

text \<open>The volumes of a Workspace that the cluster vouched for between two points of the trace.\<close>

definition mounts_checked :: "be_client \<Rightarrow> be_trace \<Rightarrow> be_trace \<Rightarrow> string \<Rightarrow> WorkspacePodVolumes \<Rightarrow> bool" where
  "mounts_checked cl t t' ns vols \<longleftrightarrow>
     (\<forall>n \<in> set_option (pv_Home vols) \<union> pvm_PVCName ` set (pv_Data vols). during t t' (pvc_mountable cl ns n)) \<and>
     (\<forall>n \<in> psm_SecretName ` set (pv_Secrets vols). during t t' (secret_mountable cl ns n))"

lemma mounts_checked_mono: "mounts_checked cl (t @ a) t' ns vols \<Longrightarrow> mounts_checked cl t (t' @ b) ns vols"
  unfolding mounts_checked_def by (meson during_mono)

definition volumes_of_model :: "PodVolumesMutate \<Rightarrow> WorkspacePodVolumes" where
  "volumes_of_model v = \<lparr>
     pv_Home = vlm_Home v,
     pv_Data = map (\<lambda>v. \<lparr>pvm_PVCName = vmm_PVCName v, pvm_MountPath = vmm_MountPath v, pvm_ReadOnly = Some (vmm_ReadOnly v)\<rparr>) (vlm_Data v),
     pv_Secrets = map (\<lambda>s. \<lparr>psm_SecretName = smm_SecretName s, psm_MountPath = smm_MountPath s, psm_DefaultMode = smm_DefaultMode s\<rparr>) (vlm_Secrets v)\<rparr>"

lemma validateAndUnpackVolumes_ok:
  assumes "objects_have_uid cl" and "validateAndUnpackVolumes cl vols ns t = (Inr (home, ds, ss), t')"
  shows "\<lparr>pv_Home = home, pv_Data = ds, pv_Secrets = ss\<rparr> = volumes_of_model vols \<and> home = vlm_Home vols \<and>
    mounts_checked cl t t' ns (volumes_of_model vols)"
proof -
  from assms(2) obtain t1 t2 where
      home: "(case vlm_Home vols of None \<Rightarrow> proceed [] | Some h \<Rightarrow>
        ValidateKubernetesPVCIsMountable cl (volumes_path @ [Child ''home'']) ns h) t = ((Inr [] :: repo_error + field_error list), t1)"
      and ds: "unpack_data cl ns 0 (vlm_Data vols) t1 = (Inr ([], ds), t2)"
      and ss: "unpack_secrets cl ns 0 (vlm_Secrets vols) t2 = (Inr ([], ss), t')" and "home = vlm_Home vols"
    unfolding validateAndUnpackVolumes_def by (auto elim!: and_then_InrE split: if_splits)
  obtain a where a: "t1 = t @ a"
    using home emitsD [OF reads_of_mountables(2), of cl _ ns] by (auto split: option.splits; blast)
  obtain b where b: "t2 = t1 @ b" using emitsD [OF reads_of_unpacking(1) ds] by blast
  obtain c where c: "t' = t2 @ c" using emitsD [OF reads_of_unpacking(2) ss] by blast
  have "\<forall>h \<in> set_option (vlm_Home vols). during t t' (pvc_mountable cl ns h)"
    using home pvc_check [OF assms(1), of _ ns] b c by (auto intro: during_mono)
  moreover have "\<forall>v \<in> set (vlm_Data vols). during t t' (pvc_mountable cl ns (vmm_PVCName v))"
    using unpack_data_ok [OF assms(1) ds] unfolding a c by (blast intro: during_mono)
  moreover have "\<forall>s \<in> set (vlm_Secrets vols). during t t' (secret_mountable cl ns (smm_SecretName s))"
    using unpack_secrets_ok [OF assms(1) ss] unfolding b a append_assoc by (blast intro: during_mono(1))
  ultimately show ?thesis
    using unpack_data_ok [OF assms(1) ds] unpack_secrets_ok [OF assms(1) ss] \<open>home = vlm_Home vols\<close>
    by (auto simp: volumes_of_model_def mounts_checked_def)
qed

section \<open>Conversion\<close>

lemma rebuild_mounts [simp]:
  "\<lparr>vmm_PVCName = vmm_PVCName v, vmm_MountPath = vmm_MountPath v, vmm_ReadOnly = vmm_ReadOnly v\<rparr> = v"
  "\<lparr>smm_SecretName = smm_SecretName s, smm_MountPath = smm_MountPath s, smm_DefaultMode = smm_DefaultMode s\<rparr> = s"
  by simp_all

lemma extract_of_model [simp]:
  "wpt_Volumes (ws_PodTemplate w) = volumes_of_model v \<Longrightarrow> extractDataVolumes w = vlm_Data v"
  "wpt_Volumes (ws_PodTemplate w) = volumes_of_model v \<Longrightarrow> extractSecretMounts w = vlm_Secrets v"
  by (simp_all add: extractDataVolumes_def extractSecretMounts_def volumes_of_model_def comp_def)

lemma display_name [simp]: "(case displayNamePtr d of Some x \<Rightarrow> x | None \<Rightarrow> []) = d"
  by (simp add: displayNamePtr_def)

lemma built_template:
  assumes "\<lparr>pv_Home = home, pv_Data = ds, pv_Secrets = ss\<rparr> = volumes_of_model (ptm_Volumes pt)"
    and "ws_PodTemplate w = buildWorkspacePodTemplate pt home ds ss"
  shows "buildPodTemplateMutate w = pt" and "wpt_Volumes (ws_PodTemplate w) = volumes_of_model (ptm_Volumes pt)"
proof -
  show vols: "wpt_Volumes (ws_PodTemplate w) = volumes_of_model (ptm_Volumes pt)"
    using assms by (simp add: buildWorkspacePodTemplate_def)
  have "pv_Home (wpt_Volumes (ws_PodTemplate w)) = vlm_Home (ptm_Volumes pt)"
    unfolding vols by (simp add: volumes_of_model_def)
  then show "buildPodTemplateMutate w = pt"
    using assms(2) extract_of_model [OF vols] by (simp add: buildPodTemplateMutate_def buildWorkspacePodTemplate_def ExtractPodMetadata_def)
qed

lemma created_workspace:
  assumes "objects_have_uid cl" and "NewWorkspaceFromWorkspaceCreateModel cl wc ns t = (Inr w, t')"
  shows "NewWorkspaceCreateModelFromWorkspace w = wc \<and>
    mounts_checked cl t t' ns (wpt_Volumes (ws_PodTemplate w))"
proof -
  from assms(2) obtain home ds ss where
      "validateAndUnpackVolumes cl (ptm_Volumes (wc_PodTemplate wc)) ns t = (Inr (home, ds, ss), t')"
      and w: "ws_PodTemplate w = buildWorkspacePodTemplate (wc_PodTemplate wc) home ds ss"
        "ws_Name w = wc_Name wc" "spec_DisplayName (ws_Spec w) = displayNamePtr (wc_DisplayName wc)"
        "spec_Kind (ws_Spec w) = wc_Kind wc" "spec_Paused (ws_Spec w) = wc_Paused wc"
    unfolding NewWorkspaceFromWorkspaceCreateModel_def by (auto elim!: and_then_InrE)
  with validateAndUnpackVolumes_ok [OF assms(1)] have "\<lparr>pv_Home = home, pv_Data = ds, pv_Secrets = ss\<rparr> = volumes_of_model (ptm_Volumes (wc_PodTemplate wc))"
      "mounts_checked cl t t' ns (volumes_of_model (ptm_Volumes (wc_PodTemplate wc)))" by blast+
  with built_template [OF this(1) w(1)] w show ?thesis by (simp add: NewWorkspaceCreateModelFromWorkspace_def)
qed

lemma updated_workspace:
  assumes "objects_have_uid cl" and "ApplyWorkspaceUpdateModelToWorkspace cl wu w t = (Inr w', t')"
  shows "NewWorkspaceUpdateModelFromWorkspace lib w' = wu\<lparr>wu_Revision := CalculateRevision lib (ws_Meta w)\<rparr> \<and>
    ws_Meta w' = ws_Meta w \<and> ws_Status w' = ws_Status w \<and> spec_Kind (ws_Spec w') = spec_Kind (ws_Spec w) \<and>
    mounts_checked cl t t' (ws_Namespace w) (wpt_Volumes (ws_PodTemplate w'))"
proof -
  from assms(2) obtain home ds ss where
      unpack: "validateAndUnpackVolumes cl (ptm_Volumes (wu_PodTemplate wu)) (ws_Namespace w) t = (Inr (home, ds, ss), t')"
      and w': "ws_PodTemplate w' = buildWorkspacePodTemplate (wu_PodTemplate wu) (vlm_Home (ptm_Volumes (wu_PodTemplate wu))) ds ss"
        "spec_DisplayName (ws_Spec w') = displayNamePtr (wu_DisplayName wu)" "spec_Paused (ws_Spec w') = wu_Paused wu"
        "ws_Meta w' = ws_Meta w" "ws_Status w' = ws_Status w" "spec_Kind (ws_Spec w') = spec_Kind (ws_Spec w)"
    unfolding ApplyWorkspaceUpdateModelToWorkspace_def by (auto elim!: and_then_InrE)
  from validateAndUnpackVolumes_ok [OF assms(1) unpack]
  have vols: "\<lparr>pv_Home = vlm_Home (ptm_Volumes (wu_PodTemplate wu)), pv_Data = ds, pv_Secrets = ss\<rparr> = volumes_of_model (ptm_Volumes (wu_PodTemplate wu))"
      "mounts_checked cl t t' (ws_Namespace w) (volumes_of_model (ptm_Volumes (wu_PodTemplate wu)))" by auto
  with built_template [OF vols(1) w'(1)] w' show ?thesis by (simp add: NewWorkspaceUpdateModelFromWorkspace_def)
qed

section \<open>Every Workspace that is written has checked mounts\<close>

definition writes_workspace :: "Workspace \<Rightarrow> be_call \<Rightarrow> bool" where
  "writes_workspace w c \<longleftrightarrow> c = CreateCall (WorkspaceObject w) \<or> c = UpdateCall (WorkspaceObject w)"

abbreviation volumes_of :: "Workspace \<Rightarrow> WorkspacePodVolumes" where
  "volumes_of w \<equiv> wpt_Volumes (ws_PodTemplate w)"

interpretation mounts: guarded_trace "\<lambda>t. mounts_checked cl [] t (ws_Namespace w) (volumes_of w)" "writes_workspace w" for cl w
  by unfold_locales (use mounts_checked_mono [of _ "[]" "[]"] in simp)

text \<open>Only two routes write a Workspace object.\<close>

lemma writes_workspace_route: "writes_workspace w c \<Longrightarrow> \<not> looks c"
  "route_writes r c \<Longrightarrow> writes_workspace w c \<Longrightarrow> r = CreateWorkspace \<or> r = UpdateWorkspace"
  by (auto simp: writes_workspace_def elim: route_writes.elims)

text \<open>The two writes: the volumes were checked just before.\<close>

lemma looks_safe: "emits looks m \<Longrightarrow> mounts.safe cl w m"
  by (rule mounts.safe_harmless, erule emits_mono) (auto dest: writes_workspace_route)

lemma Repo_CreateWorkspace_safe:
  assumes "objects_have_uid (app_Client app)"
  shows "mounts.safe (app_Client app) w (Repo_CreateWorkspace app actor wc ns)"
  unfolding Repo_CreateWorkspace_def Let_def
proof (rule mounts.safe_bind)
  fix t w0 t'
  assume new: "NewWorkspaceFromWorkspaceCreateModel (app_Client app) wc ns t = (Inr w0, t')"
  let ?w = "w0\<lparr>ws_Meta := UpdateObjectMetaForCreate actor (ws_Meta w0)\<rparr>"
  have "mounts_checked (app_Client app) ([] @ t) (t' @ []) ns (volumes_of w0)"
    using created_workspace [OF assms new] by simp
  then have "mounts_checked (app_Client app) [] t' (ws_Namespace ?w) (volumes_of ?w)"
    using mounts_checked_mono [of _ "[]" t t' _ _ "[]"] new_workspace_names [OF new] by simp
  then show "mounts_checked (app_Client app) [] t' (ws_Namespace w) (volumes_of w) \<or>
     emits (\<lambda>c. \<not> writes_workspace w c)
       (and_then (store_or (\<lambda>err. if IsAlreadyExists err then SentinelError ErrWorkspaceAlreadyExists else KubeError err)
          (cl_StoreWorkspace (app_Client app)) (CreateCall (WorkspaceObject ?w)))
        (\<lambda>stored. proceed (NewWorkspaceCreateModelFromWorkspace stored)))"
    by (cases "w = ?w") (auto simp: writes_workspace_def intro!: emit_intros)
qed (auto intro!: emit_intros emits_mono [OF reads_of_volumes(2)] simp: writes_workspace_def elim: is_read.elims)

lemma apply_and_store_safe:
  assumes "objects_have_uid (app_Client app)"
  shows "mounts.safe (app_Client app) w
    (and_then (ApplyWorkspaceUpdateModelToWorkspace (app_Client app) wu w0) (\<lambda>w1.
       and_then (store_or tr (cl_StoreWorkspace (app_Client app))
         (UpdateCall (WorkspaceObject (w1\<lparr>ws_Meta := UpdateObjectMetaForUpdate lib actor now (ws_Meta w1)\<rparr>))))
       (\<lambda>stored. proceed (g stored))))"
proof (rule mounts.safe_bind)
  fix t w1 t'
  assume new: "ApplyWorkspaceUpdateModelToWorkspace (app_Client app) wu w0 t = (Inr w1, t')"
  let ?w = "w1\<lparr>ws_Meta := UpdateObjectMetaForUpdate lib actor now (ws_Meta w1)\<rparr>"
  from updated_workspace [OF assms new, of lib]
  have "mounts_checked (app_Client app) [] t' (ws_Namespace ?w) (volumes_of ?w)"
    using mounts_checked_mono [of "app_Client app" "[]" t t' _ _ "[]"] by simp
  then show "mounts_checked (app_Client app) [] t' (ws_Namespace w) (volumes_of w) \<or>
     emits (\<lambda>c. \<not> writes_workspace w c)
       (and_then (store_or tr (cl_StoreWorkspace (app_Client app)) (UpdateCall (WorkspaceObject ?w))) (\<lambda>stored. proceed (g stored)))"
    by (cases "w = ?w") (auto simp: writes_workspace_def intro!: emit_intros)
qed (auto intro!: emit_intros emits_mono [OF reads_of_volumes(3)] simp: writes_workspace_def elim: is_read.elims)

lemma Repo_UpdateWorkspace_safe:
  assumes "objects_have_uid (app_Client app)"
  shows "mounts.safe (app_Client app) w (Repo_UpdateWorkspace app actor wu ns n)"
  unfolding Repo_UpdateWorkspace_def Let_def
  by (intro mounts.safe_and_then) (auto intro!: looks_safe emit_intros apply_and_store_safe [OF assms])

lemma workspace_writers_safe:
  assumes "objects_have_uid (app_Client app)"
  shows "mounts.safe (app_Client app) w (CreateWorkspaceHandler app wc_decode rq ns)"
    and "mounts.safe (app_Client app) w (UpdateWorkspaceHandler app wu_decode rq ns n)"
  unfolding CreateWorkspaceHandler_def UpdateWorkspaceHandler_def
  by (intro mounts.safe_and_then mounts.safe_attempt Repo_CreateWorkspace_safe Repo_UpdateWorkspace_safe assms;
      auto intro!: looks_safe emit_intros split: sum.splits)+

lemma respond_safe: "mounts.safe cl w h \<Longrightarrow> guarded (\<lambda>t. mounts_checked cl [] t (ws_Namespace w) (volumes_of w)) (writes_workspace w) (snd (respond f h []))"
  unfolding mounts.safe_def
  by (auto simp: respond_def run_handler_def split: prod.split sum.split dest!: spec [where x = "[]"])

lemma route_mounts:
  assumes "objects_have_uid (app_Client (srv_App s))" and "r = CreateWorkspace \<or> r = UpdateWorkspace"
  shows "guarded (\<lambda>t. mounts_checked (app_Client (srv_App s)) [] t (ws_Namespace w) (volumes_of w)) (writes_workspace w)
    (snd (serve_route s rq ps r []))"
  using assms(2) respond_safe [OF workspace_writers_safe(1) [OF assms(1)]] respond_safe [OF workspace_writers_safe(2) [OF assms(1)]]
  by auto

text \<open>
  C10. A Workspace only mounts what it may: whenever serving a request creates or updates a
  Workspace, then for its home volume, each of its data volumes and each of its Secrets the cluster
  had, earlier in the same request, returned an existing object of that name in the namespace of
  the Workspace that carries the label \<open>can-mount\<close> with the value \<open>true\<close>. No other
  route writes a Workspace object. (Objects the API server returns have a UID.)
\<close>

theorem written_mounts_labelled:
  assumes "objects_have_uid (app_Client (srv_App s))" and "serve s m rq [] = (resp, t)"
    and "i < length t" and "writes_workspace w (fst (t ! i))"
  shows "(\<forall>n \<in> set_option (pv_Home (volumes_of w)) \<union> pvm_PVCName ` set (pv_Data (volumes_of w)).
       \<exists>j \<le> i. \<exists>p. cl_GetPVC (app_Client (srv_App s)) (take j t) (ws_Namespace w) n = Inr p \<and>
         fmlookup (om_Labels (pvo_Meta p)) LabelCanMount = Some ''true'') \<and>
     (\<forall>n \<in> psm_SecretName ` set (pv_Secrets (volumes_of w)).
       \<exists>j \<le> i. \<exists>x. cl_GetSecret (app_Client (srv_App s)) (take j t) (ws_Namespace w) n = Inr x \<and>
         fmlookup (om_Labels (sec_Meta x)) LabelCanMount = Some ''true'')"
proof -
  have "mounts_checked (app_Client (srv_App s)) [] (take i t) (ws_Namespace w) (volumes_of w)"
  proof (cases m)
    case (Matched r ps)
    with assms(2) have run: "serve_route s rq ps r [] = (resp, t)" by (simp add: serve_def)
    then have "route_writes r (fst (t ! i))"
      using route_settled [of r s rq ps] assms(3,4) writes_workspace_route(1) by (fastforce simp: settled_def)
    with writes_workspace_route(2) assms(4) have "r = CreateWorkspace \<or> r = UpdateWorkspace" by blast
    from route_mounts [OF assms(1) this, of w rq ps] show ?thesis using run assms(3,4) by (simp add: guarded_def)
  qed (use assms(2-4) in \<open>auto simp: serve_def\<close>)
  then show ?thesis
    using during_take [OF _ assms(3)] unfolding mounts_checked_def pvc_mountable_def secret_mountable_def by blast
qed

lemma sample_client_uid: "objects_have_uid sample_client"
  by (simp add: objects_have_uid_def)

definition sample_create_trace :: be_trace where
  "sample_create_trace = [
     (ReviewCall (AttributesFor (policy VerbCreate Workspaces ''team'' ''lab'') alice), True),
     (GetCall (PolicyResource PersistentVolumeClaims) ''team'' ''home-pvc'', True),
     (GetCall (PolicyResource Secrets) ''team'' ''token'', True),
     (CreateCall (WorkspaceObject sample_created), True)]"

lemma sample_create_valid: "WorkspaceCreate_Validate sample_be_lib p sample_create = []"
  by (simp add: WorkspaceCreate_Validate_def PodTemplateMutate_Validate_def PodMetadataMutate_Validate_def PodVolumesMutate_Validate_def
      PodTemplateOptionsMutate_Validate_def PodSecretMount_Validate_def ValidateKubernetesLabels_def ValidateKubernetesAnnotations_def
      sample_create_def sample_lib_simps)

lemma sample_json:
  "decode [] = Inr (Some x) \<Longrightarrow> validate [Child ''data''] x = [] \<Longrightarrow>
     json_body sample_app sample_request decode validate t = (Inr x, t)"
  by (simp add: json_body_def ValidateContentType_def sample_request_def header_get_def sample_be_lib_def MediaTypeJson_def
      DecodeJSON_def run_step_simps Let_def)

lemma sample_create_body:
  "json_body sample_app sample_request (dec_WorkspaceCreate (srv_Decoders sample_server)) (WorkspaceCreate_Validate sample_be_lib) t =
     (Inr sample_create, t)"
  by (rule sample_json) (simp_all add: sample_create_valid)

lemma sample_create_checks:
  "ValidateKubernetesPVCIsMountable sample_client p ns n t = (Inr [], t @ [(GetCall (PolicyResource PersistentVolumeClaims) ns n, True)])"
  "ValidateKubernetesSecretIsMountable sample_client p ns n t = (Inr [], t @ [(GetCall (PolicyResource Secrets) ns n, True)])"
  by (simp_all add: ValidateKubernetesPVCIsMountable_def ValidateKubernetesSecretIsMountable_def label_errors_def run_step_simps)

lemma sample_create_new:
  "NewWorkspaceFromWorkspaceCreateModel sample_client sample_create ''team'' t =
     (Inr (sample_created\<lparr>ws_Meta := empty_meta\<lparr>om_Name := ''lab'', om_Namespace := ''team''\<rparr>\<rparr>),
      t @ [(GetCall (PolicyResource PersistentVolumeClaims) ''team'' ''home-pvc'', True),
           (GetCall (PolicyResource Secrets) ''team'' ''token'', True)])"
  by (simp add: NewWorkspaceFromWorkspaceCreateModel_def validateAndUnpackVolumes_def sample_create_checks sample_create_def
      sample_created_def buildWorkspacePodTemplate_def displayNamePtr_def and_then_def proceed_def)

lemma sample_create_repo:
  "Repo_CreateWorkspace sample_app (Some ''alice'') sample_create ''team'' t = (Inr sample_create,
     t @ [(GetCall (PolicyResource PersistentVolumeClaims) ''team'' ''home-pvc'', True),
          (GetCall (PolicyResource Secrets) ''team'' ''token'', True), (CreateCall (WorkspaceObject sample_created), True)])"
proof -
  have "sample_created\<lparr>ws_Meta := UpdateObjectMetaForCreate (Some ''alice'') (empty_meta\<lparr>om_Name := ''lab'', om_Namespace := ''team''\<rparr>)\<rparr> = sample_created"
    by (simp add: sample_created_def)
  moreover have "NewWorkspaceCreateModelFromWorkspace sample_created = sample_create"
    by (simp add: NewWorkspaceCreateModelFromWorkspace_def buildPodTemplateMutate_def ExtractPodMetadata_def extractDataVolumes_def
        extractSecretMounts_def sample_created_def sample_create_def empty_meta_def)
  ultimately show ?thesis by (simp add: Repo_CreateWorkspace_def sample_create_new run_step_simps)
qed

lemma sample_create_run:
  "serve sample_server (Matched CreateWorkspace sample_path) sample_request [] =
     (createdResponse (WorkspaceCreateData sample_create) ''/api/v1/workspaces/team/lab'', sample_create_trace)"
proof -
  have name: "wc_Name sample_create = ''lab''" "ui_Name alice = ''alice''" by (simp_all add: sample_create_def alice_def)
  have "LocationGetWorkspace ''team'' ''lab'' = ''/api/v1/workspaces/team/lab''"
    by (simp add: LocationGetWorkspace_def has_prefix_def)
  then show ?thesis
    by (simp add: serve_def CreateWorkspaceHandler_def sample_params sample_create_body sample_create_repo name
        run_step_simps sample_path_def map_response_def sample_create_trace_def createdResponse_def)
qed

theorem written_mounts_labelled_witness:
  "(\<exists>j \<le> 3. \<exists>p. cl_GetPVC sample_client (take j sample_create_trace) ''team'' ''home-pvc'' = Inr p \<and>
      fmlookup (om_Labels (pvo_Meta p)) LabelCanMount = Some ''true'') \<and>
   (\<exists>j \<le> 3. \<exists>x. cl_GetSecret sample_client (take j sample_create_trace) ''team'' ''token'' = Inr x \<and>
      fmlookup (om_Labels (sec_Meta x)) LabelCanMount = Some ''true'')"
proof -
  have "volumes_of sample_created = \<lparr>pv_Home = Some ''home-pvc'', pv_Data = [],
      pv_Secrets = [\<lparr>psm_SecretName = ''token'', psm_MountPath = ''/secret'', psm_DefaultMode = 256\<rparr>]\<rparr>"
      "ws_Namespace sample_created = ''team''"
    by (simp_all add: sample_created_def UpdateObjectMetaForCreate_def)
  then show ?thesis
    using written_mounts_labelled [OF _ sample_create_run, of 3 sample_created]
    by (simp add: sample_client_uid sample_create_trace_def writes_workspace_def del: sample_client_sel)
qed

end
