(* ===== verification/Backend_Revisions.thy ===== *)
theory Backend_Revisions
  imports Backend_Workspaces_Correct
begin

text \<open>
  Optimistic concurrency of updates. A caller sends the revision of the Workspace it has read; the
  update is only written on top of a Workspace with that revision, and the revision stands for the
  UID, the name and the generation. The theorems state that no update overwrites a change of the
  spec the caller has not seen, that a stale update is answered with a conflict without writing
  anything, and that reading and writing back is the identity.
\<close>

section \<open>What an update is based on\<close>

lemma meta_update_frame [simp]:
  "om_ResourceVersion (UpdateObjectMetaForUpdate lib actor now meta) = om_ResourceVersion meta"
  "om_UID (UpdateObjectMetaForUpdate lib actor now meta) = om_UID meta"
  "om_Generation (UpdateObjectMetaForUpdate lib actor now meta) = om_Generation meta"
  by (auto simp: UpdateObjectMetaForUpdate_def Let_def split: option.splits)

lemma update_model_meta:
  "NewWorkspaceUpdateModelFromWorkspace lib (w\<lparr>ws_Meta := meta\<rparr>) =
     (NewWorkspaceUpdateModelFromWorkspace lib w)\<lparr>wu_Revision := CalculateRevision lib meta\<rparr>"
  by (simp add: NewWorkspaceUpdateModelFromWorkspace_def buildPodTemplateMutate_def ExtractPodMetadata_def extractDataVolumes_def
      extractSecretMounts_def)

lemma Repo_UpdateWorkspace_write:
  assumes run: "Repo_UpdateWorkspace app actor wu ns n t = (r, t @ d)" and w': "(UpdateCall (WorkspaceObject w'), b) \<in> set d"
  shows "\<exists>w w1 t1 t2. cl_GetWorkspace (app_Client app) t ns n = Inr w \<and>
    CalculateRevision (app_Lib app) (ws_Meta w) = wu_Revision wu \<and>
    ApplyWorkspaceUpdateModelToWorkspace (app_Client app) wu w t1 = (Inr w1, t2) \<and>
    w' = w1\<lparr>ws_Meta := UpdateObjectMetaForUpdate (app_Lib app) actor (app_Now app t) (ws_Meta w1)\<rparr>"
proof (cases "cl_GetWorkspace (app_Client app) t ns n")
  case (Inl err)
  with run w' show ?thesis
    by (auto simp: Repo_UpdateWorkspace_def run_step_simps split: if_splits)
next
  case (Inr w)
  let ?t1 = "t @ [(GetCall (PolicyResource Workspaces) ns n, True)]"
  show ?thesis
  proof (cases "CalculateRevision (app_Lib app) (ws_Meta w) = wu_Revision wu")
    case False
    with Inr run w' show ?thesis by (auto simp: Repo_UpdateWorkspace_def run_step_simps)
  next
    case True
    obtain a t2 where applied: "ApplyWorkspaceUpdateModelToWorkspace (app_Client app) wu w ?t1 = (a, t2)" by fastforce
    obtain d2 where d2: "t2 = ?t1 @ d2" "\<forall>e \<in> set d2. is_read (fst e)" using emitsD [OF reads_of_volumes(3) applied] by blast
    show ?thesis
    proof (cases a)
      case (Inl err)
      with Inr True applied run d2 have "d = (GetCall (PolicyResource Workspaces) ns n, True) # d2"
        by (auto simp: Repo_UpdateWorkspace_def run_step_simps)
      with w' d2(2) show ?thesis by auto
    next
      case w1: (Inr w1)
      let ?c = "UpdateCall (WorkspaceObject (w1\<lparr>ws_Meta := UpdateObjectMetaForUpdate (app_Lib app) actor (app_Now app t) (ws_Meta w1)\<rparr>))"
      from w1 Inr True applied run d2 have "\<exists>b. d = (GetCall (PolicyResource Workspaces) ns n, True) # d2 @ [(?c, b)]"
        by (auto simp: Repo_UpdateWorkspace_def run_step_simps Let_def split: sum.splits)
      with w' d2(2) have "w' = w1\<lparr>ws_Meta := UpdateObjectMetaForUpdate (app_Lib app) actor (app_Now app t) (ws_Meta w1)\<rparr>" by fastforce
      with Inr True applied w1 show ?thesis by blast
    qed
  qed
qed

text \<open>
  The API server changes the generation whenever the spec changes: objects with the same UID and
  the same generation have the same spec.
\<close>

definition generation_tracks_spec :: "be_client \<Rightarrow> Workspace \<Rightarrow> bool" where
  "generation_tracks_spec cl seen \<longleftrightarrow>
     (\<forall>t ns n w. cl_GetWorkspace cl t ns n = Inr w \<longrightarrow> om_UID (ws_Meta w) = om_UID (ws_Meta seen) \<longrightarrow>
        om_Generation (ws_Meta w) = om_Generation (ws_Meta seen) \<longrightarrow> ws_Spec w = ws_Spec seen)"

definition colon_free :: "be_client \<Rightarrow> be_trace \<Rightarrow> string \<Rightarrow> string \<Rightarrow> bool" where
  "colon_free cl t ns n \<longleftrightarrow> (\<forall>w. cl_GetWorkspace cl t ns n = Inr w \<longrightarrow> no_colon (om_UID (ws_Meta w)) \<and> no_colon (om_Name (ws_Meta w)))"

definition revisions_distinct :: "be_app \<Rightarrow> Workspace \<Rightarrow> bool" where
  "revisions_distinct app seen \<longleftrightarrow>
     (\<forall>t ns n w. cl_GetWorkspace (app_Client app) t ns n = Inr w \<longrightarrow> digest_distinct (app_Lib app) (ws_Meta w) (ws_Meta seen))"

text \<open>
  C5. No lost update: when the backend writes an update for a caller who sent the revision of the
  Workspace \<open>seen\<close>, then the Workspace the update was applied to has the spec of \<open>seen\<close>, so
  that no change of the spec the caller has not seen is overwritten; the written object is that
  Workspace with the fields of the request, its kind, UID and status are kept, and it carries the
  resource version that was read, with which the API server refuses the write when the object has
  changed since. The digest is assumed not to collide on the two revisions, names and UIDs contain
  no colon, and the generation tracks the spec.
\<close>

theorem no_lost_update:
  assumes run: "Repo_UpdateWorkspace app actor wu ns n t = (r, t @ d)" and written: "(UpdateCall (WorkspaceObject w'), b) \<in> set d"
    and seen: "wu_Revision wu = CalculateRevision (app_Lib app) (ws_Meta seen)"
    and digest: "revisions_distinct app seen"
    and colons: "colon_free (app_Client app) t ns n" "no_colon (om_UID (ws_Meta seen))" "no_colon (om_Name (ws_Meta seen))"
    and gen: "generation_tracks_spec (app_Client app) seen" and uid: "objects_have_uid (app_Client app)"
  shows "\<exists>w. cl_GetWorkspace (app_Client app) t ns n = Inr w \<and> ws_Spec w = ws_Spec seen \<and> om_UID (ws_Meta w) = om_UID (ws_Meta seen) \<and>
    om_UID (ws_Meta w') = om_UID (ws_Meta w) \<and> om_ResourceVersion (ws_Meta w') = om_ResourceVersion (ws_Meta w) \<and>
    spec_Kind (ws_Spec w') = spec_Kind (ws_Spec seen) \<and> ws_Status w' = ws_Status w \<and>
    NewWorkspaceUpdateModelFromWorkspace (app_Lib app) w' = wu"
proof -
  obtain w w1 t1 t2 where w: "cl_GetWorkspace (app_Client app) t ns n = Inr w"
      and rev: "CalculateRevision (app_Lib app) (ws_Meta w) = wu_Revision wu"
      and w1: "ApplyWorkspaceUpdateModelToWorkspace (app_Client app) wu w t1 = (Inr w1, t2)"
      and w': "w' = w1\<lparr>ws_Meta := UpdateObjectMetaForUpdate (app_Lib app) actor (app_Now app t) (ws_Meta w1)\<rparr>"
    using Repo_UpdateWorkspace_write [OF run written] by blast
  have same: "om_UID (ws_Meta w) = om_UID (ws_Meta seen) \<and> om_Generation (ws_Meta w) = om_Generation (ws_Meta seen)"
    using revision_identifies [of "app_Lib app" "ws_Meta w" "ws_Meta seen"] rev seen digest colons w
    unfolding colon_free_def revisions_distinct_def by metis
  then have "ws_Spec w = ws_Spec seen" using gen w by (auto simp: generation_tracks_spec_def)
  with updated_workspace [OF uid w1, of "app_Lib app"] w same rev show ?thesis
    unfolding w' by (auto simp: update_model_meta CalculateRevision_def)
qed

lemma sample_update_apply:
  "\<exists>w. ApplyWorkspaceUpdateModelToWorkspace sample_client sample_update (sample_workspace ''team'' ''nb'') t =
     (Inr w, t @ [(GetCall (PolicyResource PersistentVolumeClaims) ''team'' ''home-pvc'', True),
                  (GetCall (PolicyResource Secrets) ''team'' ''token'', True)])"
  by (simp add: ApplyWorkspaceUpdateModelToWorkspace_def validateAndUnpackVolumes_def sample_create_checks sample_update_def
      sample_create_def and_then_def proceed_def)

lemma sample_update_repo:
  "\<exists>w. Repo_UpdateWorkspace sample_app actor sample_update ''team'' ''nb'' [] =
     (Inr (NewWorkspaceUpdateModelFromWorkspace sample_be_lib w), [] @
      [(GetCall (PolicyResource Workspaces) ''team'' ''nb'', True),
       (GetCall (PolicyResource PersistentVolumeClaims) ''team'' ''home-pvc'', True),
       (GetCall (PolicyResource Secrets) ''team'' ''token'', True), (UpdateCall (WorkspaceObject w), True)])"
proof -
  obtain w where w: "ApplyWorkspaceUpdateModelToWorkspace sample_client sample_update (sample_workspace ''team'' ''nb'')
     [(GetCall (PolicyResource Workspaces) ''team'' ''nb'', True)] = (Inr w,
      [(GetCall (PolicyResource Workspaces) ''team'' ''nb'', True)] @
      [(GetCall (PolicyResource PersistentVolumeClaims) ''team'' ''home-pvc'', True),
       (GetCall (PolicyResource Secrets) ''team'' ''token'', True)])"
    using sample_update_apply by blast
  have "wu_Revision sample_update = CalculateRevision sample_be_lib (sample_meta ''team'' ''nb'')"
    by (simp add: sample_update_def)
  with w show ?thesis by (auto simp: Repo_UpdateWorkspace_def run_step_simps Let_def)
qed

theorem no_lost_update_witness:
  "\<exists>w w'. cl_GetWorkspace sample_client [] ''team'' ''nb'' = Inr w \<and> ws_Spec w = ws_Spec (sample_workspace ''team'' ''nb'') \<and>
     om_ResourceVersion (ws_Meta w') = om_ResourceVersion (ws_Meta w) \<and> spec_Kind (ws_Spec w') = ''jupyterlab'' \<and>
     NewWorkspaceUpdateModelFromWorkspace sample_be_lib w' = sample_update"
proof -
  obtain w' where run: "Repo_UpdateWorkspace sample_app None sample_update ''team'' ''nb'' [] =
     (Inr (NewWorkspaceUpdateModelFromWorkspace sample_be_lib w'), [] @
      [(GetCall (PolicyResource Workspaces) ''team'' ''nb'', True),
       (GetCall (PolicyResource PersistentVolumeClaims) ''team'' ''home-pvc'', True),
       (GetCall (PolicyResource Secrets) ''team'' ''token'', True), (UpdateCall (WorkspaceObject w'), True)])"
    using sample_update_repo by blast
  have "revisions_distinct sample_app (sample_workspace ''team'' ''nb'')"
      "generation_tracks_spec sample_client (sample_workspace ''team'' ''nb'')" "colon_free sample_client [] ''team'' ''nb''"
      "no_colon ''uid-1''" "no_colon ''nb''"
      "wu_Revision sample_update = CalculateRevision sample_be_lib (sample_meta ''team'' ''nb'')"
    by (simp_all add: revisions_distinct_def digest_distinct_def generation_tracks_spec_def colon_free_def no_colon_def
        sample_be_lib_def sample_update_def)
  then show ?thesis
    using no_lost_update [OF run, of w' True "sample_workspace ''team'' ''nb''"] by (auto simp: sample_client_uid)
qed

section \<open>Stale updates\<close>

text \<open>Every Workspace that is read under the name has another revision than the request.\<close>

definition stale :: "be_app \<Rightarrow> string \<Rightarrow> string \<Rightarrow> WorkspaceUpdate \<Rightarrow> bool" where
  "stale app ns n wu \<longleftrightarrow>
     (\<forall>t w. cl_GetWorkspace (app_Client app) t ns n = Inr w \<longrightarrow> CalculateRevision (app_Lib app) (ws_Meta w) \<noteq> wu_Revision wu)"

lemma Repo_UpdateWorkspace_stale:
  assumes "stale app ns n wu"
  obtains e b where "Repo_UpdateWorkspace app actor wu ns n t = (Inl e, t @ [(GetCall (PolicyResource Workspaces) ns n, b)])"
    and "b \<longrightarrow> e = SentinelError ErrWorkspaceRevisionConflict"
proof (cases "cl_GetWorkspace (app_Client app) t ns n")
  case (Inl err)
  then show ?thesis
    by (intro that [of "if IsNotFound err then SentinelError ErrWorkspaceNotFound else KubeError err" False])
      (simp_all add: Repo_UpdateWorkspace_def run_step_simps)
next
  case (Inr w)
  with assms show ?thesis
    by (intro that [of "SentinelError ErrWorkspaceRevisionConflict" True])
      (simp_all add: Repo_UpdateWorkspace_def run_step_simps stale_def)
qed

text \<open>An early return of a handler is an error response, without data.\<close>

definition failed_response :: "'d http_response \<Rightarrow> bool" where
  "failed_response out \<longleftrightarrow> 400 \<le> rp_Status out \<and> (\<forall>d. rp_Body out \<noteq> DataBody d)"

lemma failed_responses:
  "failed_response serverErrorResponse" "failed_response (badRequestResponse m)" "failed_response unauthorizedResponse"
  "failed_response forbiddenResponse" "failed_response notFoundResponse" "failed_response (requestEntityTooLargeResponse m)"
  "failed_response (unsupportedMediaTypeResponse m)" "failed_response (failedValidationResponse f m es cs)"
  "failed_response (internalConflictResponse m)" "failed_response (conflictResponse m cs)" "failed_response (body_error e)"
  by (simp_all add: failed_response_def serverErrorResponse_def badRequestResponse_def unauthorizedResponse_def forbiddenResponse_def
      notFoundResponse_def requestEntityTooLargeResponse_def unsupportedMediaTypeResponse_def failedValidationResponse_def
      internalConflictResponse_def conflictResponse_def errorResponse_def body_error_def Let_def split: prod.splits)

definition stops_failed :: "('d, 'a) http_step \<Rightarrow> bool" where
  "stops_failed m \<longleftrightarrow> (\<forall>t out t'. m t = (Inl out, t') \<longrightarrow> failed_response out)"

lemma stops_failed_basic:
  "stops_failed (proceed x)" "failed_response out \<Longrightarrow> stops_failed (stop out)" "stops_failed (query c ok qa)" "stops_failed (attempt s)"
  "stops_failed m \<Longrightarrow> (\<And>x. stops_failed (f x)) \<Longrightarrow> stops_failed (and_then m f)"
  by (auto simp: stops_failed_def proceed_def stop_def query_def attempt_def and_then_def split: prod.splits sum.splits)

lemma stops_failed_passages:
  "stops_failed (path_params app errs)" "stops_failed (authorize_all app u policies)" "stops_failed (requireAuth app rq policies)"
  "stops_failed (json_body app rq decode validate)" "stops_failed (workspace_params app ns n)"
proof -
  show auth: "stops_failed (authorize_all app u policies)" for u
    by (induction policies) (auto simp: review_def intro!: stops_failed_basic failed_responses split: sum.splits)
  show "stops_failed (requireAuth app rq policies)"
    by (auto simp: requireAuth_def intro!: stops_failed_basic failed_responses auth split: sum.splits option.splits)
qed (auto simp: path_params_def json_body_def ValidateContentType_def workspace_params_def Let_def
      intro!: stops_failed_basic failed_responses split: sum.splits option.splits)

lemma json_body_Inr:
  "json_body app rq decode validate t = (Inr x, t') \<Longrightarrow> decode (rq_Body rq) = Inr (Some x) \<and> t' = t"
  by (auto simp: json_body_def ValidateContentType_def DecodeJSON_def Let_def elim!: and_then_InrE
      split: sum.splits option.splits decode_error.splits if_splits)

text \<open>Only access reviews, then at most one read of the Workspace.\<close>

definition only_looked :: "string \<Rightarrow> string \<Rightarrow> be_trace \<Rightarrow> bool" where
  "only_looked ns n t \<longleftrightarrow> (\<forall>e \<in> set t. (\<exists>a. fst e = ReviewCall a) \<or> fst e = GetCall (PolicyResource Workspaces) ns n)"

lemma UpdateWorkspaceHandler_stale:
  assumes run: "UpdateWorkspaceHandler app decode rq ns n [] = (r, t)"
    and body: "decode (rq_Body rq) = Inr (Some wu)" and stale: "stale app ns n wu"
  shows "\<exists>out. r = Inl out \<and> failed_response out \<and> only_looked ns n t \<and>
    ((GetCall (PolicyResource Workspaces) ns n, True) \<in> set t \<longrightarrow>
       out = internalConflictResponse (sentinel_text ErrWorkspaceRevisionConflict))"
proof -
  let ?failed = "\<lambda>r. \<forall>out. r = Inl out \<longrightarrow> failed_response out"
  note fails = stops_failed_passages [unfolded stops_failed_def, rule_format]
  have params: "workspace_params app ns n [] = (r1, t1) \<Longrightarrow> t1 = [] \<and> ?failed r1" for r1 t1
    by (auto simp: workspace_params_def path_params_def stop_def proceed_def failed_responses split: if_splits)
  have auth: "requireAuth app rq [policy VerbUpdate Workspaces ns n] [] = (r1, t1) \<Longrightarrow>
      (\<forall>e \<in> set t1. \<exists>a. fst e = ReviewCall a) \<and> ?failed r1" for r1 t1
    using emitsD [OF emits_requireAuth [of "\<lambda>c. \<exists>a. c = ReviewCall a"]] fails(3) by (metis append_Nil)
  have body_trace: "json_body app rq decode (WorkspaceUpdate_Validate (app_Lib app)) t1 = (r1, t2) \<Longrightarrow> t2 = t1 \<and> ?failed r1" for r1 t1 t2
    using emits_nothing [OF emits_http_passages(3)] fails(4) by metis
  from run show ?thesis
    unfolding UpdateWorkspaceHandler_def
  proof (elim and_thenE)
    fix x t1 y t2 z t3 w t4
    assume auth_ok: "requireAuth app rq [policy VerbUpdate Workspaces ns n] t1 = (Inr y, t2)"
      and params_ok: "workspace_params app ns n [] = ((Inr x :: WorkspaceUpdate http_response + unit), t1)"
      and body_ok: "json_body app rq decode (WorkspaceUpdate_Validate (app_Lib app)) t2 = (Inr z, t3)"
      and repo: "attempt (Repo_UpdateWorkspace app (actor_of y) z ns n) t3 = ((Inr w :: WorkspaceUpdate http_response + _), t4)"
      and rest: "(case w of Inl err \<Rightarrow> stop (update_workspace_error app err) | Inr u \<Rightarrow> proceed (dataResponse u)) t4 = (r, t)"
    have "z = wu" "t3 = t2" using json_body_Inr [OF body_ok] body by simp_all
    moreover from Repo_UpdateWorkspace_stale [OF stale]
    obtain e b where "Repo_UpdateWorkspace app (actor_of y) wu ns n t2 = (Inl e, t2 @ [(GetCall (PolicyResource Workspaces) ns n, b)])"
        and b: "b \<longrightarrow> e = SentinelError ErrWorkspaceRevisionConflict" by blast
    ultimately have "w = Inl e" and t4: "t4 = t2 @ [(GetCall (PolicyResource Workspaces) ns n, b)]"
      using repo by simp_all
    with rest have out: "r = Inl (update_workspace_error app e)" "t = t4" by (simp_all add: stop_def)
    have reviews: "\<forall>e \<in> set t2. \<exists>a. fst e = ReviewCall a" using auth [of "Inr y" t2] auth_ok params [OF params_ok] by simp
    have "only_looked ns n t" unfolding out t4 only_looked_def using reviews by auto
    moreover have "failed_response (update_workspace_error app e)"
      by (simp add: update_workspace_error_def failed_responses)
    moreover have "update_workspace_error app (SentinelError ErrWorkspaceRevisionConflict) =
        internalConflictResponse (sentinel_text ErrWorkspaceRevisionConflict)"
      by (simp add: update_workspace_error_def)
    moreover have "(GetCall (PolicyResource Workspaces) ns n, True) \<in> set t \<Longrightarrow> b"
      unfolding out t4 using reviews by auto
    ultimately show ?thesis using out b by auto
  qed (auto dest!: params auth body_trace simp: only_looked_def attempt_def split: prod.splits)
qed

text \<open>
  C18. A stale update changes nothing: when the revision in the body is not the one of the
  Workspace in the cluster, the request makes no call but access reviews and the read of that
  Workspace, and the response is an error; if the Workspace was found, it is 409 with the message
  that the revision does not match.
\<close>

theorem stale_update_conflict:
  assumes "serve s (Matched UpdateWorkspace ps) rq [] = (resp, t)"
    and "dec_WorkspaceUpdate (srv_Decoders s) (rq_Body rq) = Inr (Some wu)"
    and "stale (srv_App s) (ps ''namespace'') (ps ''name'') wu"
  shows "only_looked (ps ''namespace'') (ps ''name'') t \<and> 400 \<le> rp_Status resp \<and>
    ((GetCall (PolicyResource Workspaces) (ps ''namespace'') (ps ''name''), True) \<in> set t \<longrightarrow>
       resp = internalConflictResponse ''current workspace revision does not match request'')"
proof -
  from assms(1) obtain r where
      run: "UpdateWorkspaceHandler (srv_App s) (dec_WorkspaceUpdate (srv_Decoders s)) rq (ps ''namespace'') (ps ''name'') [] = (r, t)"
      and resp: "\<forall>out. r = Inl out \<longrightarrow> resp = map_response WorkspaceData out"
    by (auto simp: serve_def respond_def run_handler_def split: prod.splits sum.splits)
  have "map_response WorkspaceData (internalConflictResponse m) = internalConflictResponse m" for m
    by (simp add: map_response_def internalConflictResponse_def errorResponse_def)
  moreover have "rp_Status (map_response WorkspaceData out) = rp_Status out" for out by (simp add: map_response_def)
  ultimately show ?thesis using UpdateWorkspaceHandler_stale [OF run assms(2,3)] resp failed_responses(9) unfolding failed_response_def by (metis sentinel_text.simps)
qed

text \<open>The update of the sample on a server where the Workspace has been changed since.\<close>

definition moved_on_client :: be_client where
  "moved_on_client = sample_client\<lparr>cl_GetWorkspace := (\<lambda>t ns n.
     Inr ((sample_workspace ns n)\<lparr>ws_Meta := (sample_meta ns n)\<lparr>om_Generation := 4\<rparr>\<rparr>))\<rparr>"

definition moved_on_server :: server where
  "moved_on_server = sample_server\<lparr>srv_App := sample_app\<lparr>app_Client := moved_on_client\<rparr>\<rparr>"

lemma moved_on_sel [simp]:
  "app_Lib (srv_App moved_on_server) = sample_be_lib" "app_Client (srv_App moved_on_server) = moved_on_client"
  "app_AuthN (srv_App moved_on_server) rq = Inr (Some alice)" "app_AuthZ (srv_App moved_on_server) t a = Inr DecisionAllow"
  "dec_WorkspaceUpdate (srv_Decoders moved_on_server) body = Inr (Some sample_update)"
  "cl_GetWorkspace moved_on_client t ns n = Inr ((sample_workspace ns n)\<lparr>ws_Meta := (sample_meta ns n)\<lparr>om_Generation := 4\<rparr>\<rparr>)"
  by (simp_all add: moved_on_server_def moved_on_client_def)

lemma moved_on_stale: "stale (srv_App moved_on_server) ''team'' ''nb'' sample_update"
  by (auto simp: stale_def sample_update_def CalculateRevision_def sample_be_lib_def dest!: hex_encode_inj int_dec_inj)

lemma moved_on_revision: "CalculateRevision sample_be_lib (sample_meta ''team'' ''nb''\<lparr>om_Generation := 4\<rparr>) \<noteq> wu_Revision sample_update"
  using moved_on_stale by (simp add: stale_def)

lemma moved_on_repo:
  "Repo_UpdateWorkspace (srv_App moved_on_server) actor sample_update ''team'' ''nb'' t =
     (Inl (SentinelError ErrWorkspaceRevisionConflict), t @ [(GetCall (PolicyResource Workspaces) ''team'' ''nb'', True)])"
  using moved_on_revision by (simp add: Repo_UpdateWorkspace_def run_step_simps)

lemma sample_update_body:
  "json_body (srv_App moved_on_server) sample_request (dec_WorkspaceUpdate (srv_Decoders moved_on_server)) (WorkspaceUpdate_Validate sample_be_lib) t =
     (Inr sample_update, t)"
proof -
  have "hex_encode x \<noteq> []" if "x \<noteq> []" for x using that by (cases x) (simp_all add: hex_encode_def Let_def)
  then have "WorkspaceUpdate_Validate sample_be_lib p sample_update = []" for p
    by (simp add: WorkspaceUpdate_Validate_def PodTemplateMutate_Validate_def PodMetadataMutate_Validate_def
        PodVolumesMutate_Validate_def PodTemplateOptionsMutate_Validate_def PodSecretMount_Validate_def ValidateKubernetesLabels_def
        ValidateKubernetesAnnotations_def sample_update_def sample_create_def CalculateRevision_def sample_lib_simps)
  then show ?thesis
    by (simp add: json_body_def ValidateContentType_def sample_request_def header_get_def sample_be_lib_def MediaTypeJson_def
      DecodeJSON_def run_step_simps Let_def)
qed

lemma moved_on_run:
  "\<exists>a resp. serve moved_on_server (Matched UpdateWorkspace sample_path) sample_request [] =
     (resp, [(ReviewCall a, True), (GetCall (PolicyResource Workspaces) ''team'' ''nb'', True)])"
proof -
  have "ValidateKubernetesNamespaceName sample_be_lib p ''team'' = []" "ValidateWorkspaceName sample_be_lib p ''nb'' = []" for p
    by (simp_all add: sample_lib_simps)
  then show ?thesis
    by (simp add: serve_def UpdateWorkspaceHandler_def workspace_params_def sample_update_body moved_on_repo run_step_simps
        sample_path_def)
qed

theorem stale_update_conflict_witness:
  "fst (serve moved_on_server (Matched UpdateWorkspace sample_path) sample_request []) =
     internalConflictResponse ''current workspace revision does not match request''"
  using moved_on_run stale_update_conflict [of moved_on_server sample_path sample_request _ _ sample_update] moved_on_stale
  by (auto simp: sample_path_def)

section \<open>Round trips\<close>

text \<open>All mounts of a request can be mounted, at any time.\<close>

definition all_mountable :: "be_client \<Rightarrow> string \<Rightarrow> PodVolumesMutate \<Rightarrow> bool" where
  "all_mountable cl ns vols \<longleftrightarrow>
     (\<forall>n \<in> set_option (vlm_Home vols) \<union> vmm_PVCName ` set (vlm_Data vols). \<forall>t. pvc_mountable cl ns n t) \<and>
     (\<forall>n \<in> smm_SecretName ` set (vlm_Secrets vols). \<forall>t. secret_mountable cl ns n t)"

lemma mountable_accepted:
  "pvc_mountable cl ns n t \<Longrightarrow> \<exists>t'. ValidateKubernetesPVCIsMountable cl p ns n t = (Inr [], t')"
  "secret_mountable cl ns n t \<Longrightarrow> \<exists>t'. ValidateKubernetesSecretIsMountable cl p ns n t = (Inr [], t')"
  by (auto simp: pvc_mountable_def secret_mountable_def ValidateKubernetesPVCIsMountable_def ValidateKubernetesSecretIsMountable_def
      kube_get_def and_then_def query_def proceed_def label_errors_def go_index_def)

lemma unpack_data_total:
  assumes "\<forall>v \<in> set vs. \<forall>t. pvc_mountable cl ns (vmm_PVCName v) t"
  shows "\<exists>ms t'. unpack_data cl ns i vs t = (Inr ([], ms), t')"
  using assms
proof (induction vs arbitrary: i t)
  case (Cons v vs)
  obtain t1 where "ValidateKubernetesPVCIsMountable cl (volumes_path @ [Child ''data'', Index i, Child ''pvcName'']) ns (vmm_PVCName v) t = (Inr [], t1)"
    using mountable_accepted(1) Cons.prems by (metis list.set_intros(1))
  moreover obtain ms t2 where "unpack_data cl ns (i + 1) vs t1 = (Inr ([], ms), t2)" using Cons by fastforce
  ultimately show ?case by (simp add: and_then_def proceed_def)
qed (simp add: proceed_def)

lemma unpack_secrets_total:
  assumes "\<forall>s \<in> set ss. \<forall>t. secret_mountable cl ns (smm_SecretName s) t"
  shows "\<exists>ms t'. unpack_secrets cl ns i ss t = (Inr ([], ms), t')"
  using assms
proof (induction ss arbitrary: i t)
  case (Cons s ss)
  obtain t1 where "ValidateKubernetesSecretIsMountable cl (volumes_path @ [Child ''secrets'', Index i, Child ''secretName'']) ns (smm_SecretName s) t = (Inr [], t1)"
    using mountable_accepted(2) Cons.prems by (metis list.set_intros(1))
  moreover obtain ms t2 where "unpack_secrets cl ns (i + 1) ss t1 = (Inr ([], ms), t2)" using Cons by fastforce
  ultimately show ?case by (simp add: and_then_def proceed_def)
qed (simp add: proceed_def)

lemma validateAndUnpackVolumes_total:
  assumes "all_mountable cl ns vols"
  shows "\<exists>ds ss t'. validateAndUnpackVolumes cl vols ns t = (Inr (vlm_Home vols, ds, ss), t')"
proof -
  obtain t1 where "(case vlm_Home vols of None \<Rightarrow> proceed [] | Some h \<Rightarrow>
      ValidateKubernetesPVCIsMountable cl (volumes_path @ [Child ''home'']) ns h) t = ((Inr [] :: repo_error + field_error list), t1)"
  proof (cases "vlm_Home vols")
    case (Some h)
    with assms have "pvc_mountable cl ns h t" by (simp add: all_mountable_def)
    with Some mountable_accepted(1) that show ?thesis by (metis option.simps(5))
  qed (use that in \<open>simp add: proceed_def\<close>)
  moreover obtain ds t2 where "unpack_data cl ns 0 (vlm_Data vols) t1 = (Inr ([], ds), t2)"
    using unpack_data_total [of "vlm_Data vols" cl ns] assms unfolding all_mountable_def by blast
  moreover obtain ss t3 where "unpack_secrets cl ns 0 (vlm_Secrets vols) t2 = (Inr ([], ss), t3)"
    using unpack_secrets_total [of "vlm_Secrets vols" cl ns] assms unfolding all_mountable_def by blast
  ultimately show ?thesis by (simp add: validateAndUnpackVolumes_def and_then_def proceed_def)
qed

text \<open>
  The form in which the backend writes a Workspace: pod metadata is present, every mount says whether
  it is read-only and an empty display name is left out. \<open>filled_in\<close> brings a Workspace written by others
  into that form.
\<close>

definition saved_form :: "Workspace \<Rightarrow> bool" where
  "saved_form w \<longleftrightarrow> wpt_PodMetadata (ws_PodTemplate w) \<noteq> None \<and> (\<forall>v \<in> set (pv_Data (volumes_of w)). pvm_ReadOnly v \<noteq> None) \<and>
     spec_DisplayName (ws_Spec w) \<noteq> Some []"

definition filled_in_template :: "WorkspacePodTemplate \<Rightarrow> WorkspacePodTemplate" where
  "filled_in_template pt = pt\<lparr>
     wpt_PodMetadata := Some (case wpt_PodMetadata pt of Some md \<Rightarrow> md | None \<Rightarrow> \<lparr>md_Labels = fmempty, md_Annotations = fmempty\<rparr>),
     wpt_Volumes := (wpt_Volumes pt)\<lparr>pv_Data := map (\<lambda>v. v\<lparr>pvm_ReadOnly := Some (pvm_ReadOnly v = Some True)\<rparr>)
       (pv_Data (wpt_Volumes pt))\<rparr>\<rparr>"

definition filled_in :: "Workspace \<Rightarrow> Workspace" where
  "filled_in w = w\<lparr>ws_Spec := (ws_Spec w)\<lparr>
     spec_DisplayName := (if spec_DisplayName (ws_Spec w) = Some [] then None else spec_DisplayName (ws_Spec w)),
     spec_PodTemplate := filled_in_template (ws_PodTemplate w)\<rparr>\<rparr>"

lemma filled_in_template_same:
  "filled_in_template pt = pt \<longleftrightarrow> wpt_PodMetadata pt \<noteq> None \<and> (\<forall>v \<in> set (pv_Data (wpt_Volumes pt)). pvm_ReadOnly v \<noteq> None)"
proof -
  have v: "v\<lparr>pvm_ReadOnly := Some (pvm_ReadOnly v = Some True)\<rparr> = v \<longleftrightarrow> pvm_ReadOnly v \<noteq> None" for v :: PodVolumeMount
    by (cases v; cases "pvm_ReadOnly v") auto
  have same: "map f vs = vs \<longleftrightarrow> (\<forall>v \<in> set vs. f v = v)" for f and vs :: "PodVolumeMount list"
    by (induction vs) auto
  have "map (\<lambda>v. v\<lparr>pvm_ReadOnly := Some (pvm_ReadOnly v = Some True)\<rparr>) vs = vs \<longleftrightarrow> (\<forall>v \<in> set vs. pvm_ReadOnly v \<noteq> None)" for vs :: "PodVolumeMount list"
    unfolding same v ..
  moreover have "Some (case md of Some x \<Rightarrow> x | None \<Rightarrow> d) = md \<longleftrightarrow> md \<noteq> None" for md and d :: MetadataMaps
    by (cases md) auto
  ultimately show ?thesis
    by (cases pt; cases "wpt_Volumes pt") (simp add: filled_in_template_def)
qed

lemma filled_in_same: "filled_in w = w \<longleftrightarrow> saved_form w"
proof -
  have "filled_in w = w \<longleftrightarrow> filled_in_template (ws_PodTemplate w) = ws_PodTemplate w \<and> spec_DisplayName (ws_Spec w) \<noteq> Some []"
    by (cases w; cases "ws_Spec w") (auto simp: filled_in_def)
  then show ?thesis by (auto simp: filled_in_template_same saved_form_def)
qed

lemma model_template:
  assumes "\<lparr>pv_Home = home, pv_Data = ds, pv_Secrets = ss\<rparr> = volumes_of_model (ptm_Volumes (buildPodTemplateMutate w))"
  shows "buildWorkspacePodTemplate (buildPodTemplateMutate w) home ds ss = filled_in_template (ws_PodTemplate w)"
proof -
  have "volumes_of_model (ptm_Volumes (buildPodTemplateMutate w)) = (volumes_of w)\<lparr>pv_Data :=
      map (\<lambda>v. v\<lparr>pvm_ReadOnly := Some (pvm_ReadOnly v = Some True)\<rparr>) (pv_Data (volumes_of w))\<rparr>"
    by (auto simp: volumes_of_model_def buildPodTemplateMutate_def extractDataVolumes_def extractSecretMounts_def
        split: option.splits intro!: WorkspacePodVolumes.equality PodVolumeMount.equality map_idI)
  with assms show ?thesis
    by (auto simp: buildWorkspacePodTemplate_def filled_in_template_def ExtractPodMetadata_def buildPodTemplateMutate_def
        split: option.splits intro!: WorkspacePodTemplate.equality)
qed

lemma display_name_saved: "displayNamePtr (case d of Some x \<Rightarrow> x | None \<Rightarrow> []) = (if d = Some [] then None else d)"
  by (auto simp: displayNamePtr_def split: option.splits)

lemma written_saved:
  assumes "objects_have_uid cl"
  shows "ApplyWorkspaceUpdateModelToWorkspace cl wu w t = (Inr w', t') \<Longrightarrow> saved_form w'"
    and "NewWorkspaceFromWorkspaceCreateModel cl wc ns t = (Inr w', t') \<Longrightarrow> saved_form w'"
proof -
  have "\<forall>v \<in> set ds. pvm_ReadOnly v \<noteq> None" if "validateAndUnpackVolumes cl vols ns t = (Inr (home, ds, ss), t')" for vols ns t home ds ss t'
    using validateAndUnpackVolumes_ok [OF assms that] by (auto simp: volumes_of_model_def)
  moreover have "displayNamePtr d \<noteq> Some []" for d by (simp add: displayNamePtr_def)
  ultimately show "ApplyWorkspaceUpdateModelToWorkspace cl wu w t = (Inr w', t') \<Longrightarrow> saved_form w'"
    "NewWorkspaceFromWorkspaceCreateModel cl wc ns t = (Inr w', t') \<Longrightarrow> saved_form w'"
    unfolding ApplyWorkspaceUpdateModelToWorkspace_def NewWorkspaceFromWorkspaceCreateModel_def
    by (auto simp: saved_form_def buildWorkspacePodTemplate_def elim!: and_then_InrE)
qed

text \<open>
  C19. What is written is what is read. When all mounts of a request may be mounted, applying it to
  a Workspace succeeds and the model of the result is the request, with the revision of the Workspace; and
  the model of a created Workspace is the request. Both results have the form in which the backend
  writes Workspaces: with pod metadata, with each mount saying whether it is read-only, and without an
  empty display name. Applying the model of a Workspace, whoever wrote it, back to it gives the
  Workspace with exactly these fields filled in; so a Workspace the backend has written is unchanged, and only such.
\<close>

theorem write_read_roundtrip:
  assumes "objects_have_uid cl" and "all_mountable cl (ws_Namespace w) (ptm_Volumes (wu_PodTemplate wu))"
    and "all_mountable cl (ws_Namespace w) (ptm_Volumes (buildPodTemplateMutate w))"
    and "all_mountable cl ns (ptm_Volumes (wc_PodTemplate wc))"
  shows "(\<exists>w' t'. ApplyWorkspaceUpdateModelToWorkspace cl wu w t = (Inr w', t') \<and> saved_form w' \<and>
           NewWorkspaceUpdateModelFromWorkspace lib w' = wu\<lparr>wu_Revision := CalculateRevision lib (ws_Meta w)\<rparr>) \<and>
         (\<exists>w' t'. NewWorkspaceFromWorkspaceCreateModel cl wc ns t = (Inr w', t') \<and> ws_Namespace w' = ns \<and> saved_form w' \<and>
           NewWorkspaceCreateModelFromWorkspace w' = wc) \<and>
         (\<exists>t'. ApplyWorkspaceUpdateModelToWorkspace cl (NewWorkspaceUpdateModelFromWorkspace lib w) w t = (Inr (filled_in w), t')) \<and>
         (filled_in w = w \<longleftrightarrow> saved_form w)"
proof (intro conjI)
  obtain w1 t1 where run: "ApplyWorkspaceUpdateModelToWorkspace cl wu w t = (Inr w1, t1)"
    using validateAndUnpackVolumes_total [OF assms(2), of t] by (auto simp: ApplyWorkspaceUpdateModelToWorkspace_def and_then_def proceed_def)
  with updated_workspace [OF assms(1) run] written_saved(1) [OF assms(1) run]
  show "\<exists>w' t'. ApplyWorkspaceUpdateModelToWorkspace cl wu w t = (Inr w', t') \<and> saved_form w' \<and>
      NewWorkspaceUpdateModelFromWorkspace lib w' = wu\<lparr>wu_Revision := CalculateRevision lib (ws_Meta w)\<rparr>" by blast
  obtain w3 t3 where created: "NewWorkspaceFromWorkspaceCreateModel cl wc ns t = (Inr w3, t3)"
    using validateAndUnpackVolumes_total [OF assms(4), of t] by (auto simp: NewWorkspaceFromWorkspaceCreateModel_def and_then_def proceed_def)
  with created_workspace [OF assms(1) created] new_workspace_names [OF created] written_saved(2) [OF assms(1) created]
  show "\<exists>w' t'. NewWorkspaceFromWorkspaceCreateModel cl wc ns t = (Inr w', t') \<and> ws_Namespace w' = ns \<and> saved_form w' \<and>
      NewWorkspaceCreateModelFromWorkspace w' = wc" by blast
  let ?m = "NewWorkspaceUpdateModelFromWorkspace lib w"
  have pt: "wu_PodTemplate ?m = buildPodTemplateMutate w" by (simp add: NewWorkspaceUpdateModelFromWorkspace_def)
  obtain ds ss t2 where run: "validateAndUnpackVolumes cl (ptm_Volumes (wu_PodTemplate ?m)) (ws_Namespace w) t =
      (Inr (vlm_Home (ptm_Volumes (wu_PodTemplate ?m)), ds, ss), t2)"
    using validateAndUnpackVolumes_total [OF assms(3), of t] unfolding pt by blast
  have "buildWorkspacePodTemplate (wu_PodTemplate ?m) (vlm_Home (ptm_Volumes (wu_PodTemplate ?m))) ds ss = filled_in_template (ws_PodTemplate w)"
    using validateAndUnpackVolumes_ok [OF assms(1) run] unfolding pt by (intro model_template) simp
  then show "\<exists>t'. ApplyWorkspaceUpdateModelToWorkspace cl ?m w t = (Inr (filled_in w), t')"
    using run by (simp add: ApplyWorkspaceUpdateModelToWorkspace_def and_then_def proceed_def filled_in_def
        NewWorkspaceUpdateModelFromWorkspace_def display_name_saved)
qed (rule filled_in_same)

lemma sample_all_mountable: "all_mountable sample_client ns vols"
  by (simp add: all_mountable_def pvc_mountable_def secret_mountable_def sample_meta_def label_names)

theorem write_read_roundtrip_witness:
  "(\<exists>t'. ApplyWorkspaceUpdateModelToWorkspace sample_client (NewWorkspaceUpdateModelFromWorkspace sample_be_lib sample_created) sample_created [] =
     (Inr sample_created, t')) \<and>
   (\<exists>w' t'. NewWorkspaceFromWorkspaceCreateModel sample_client sample_create ''team'' [] = (Inr w', t') \<and>
     NewWorkspaceCreateModelFromWorkspace w' = sample_create)"
proof -
  have "saved_form sample_created" by (simp add: saved_form_def sample_created_def)
  then show ?thesis
    using write_read_roundtrip [OF sample_client_uid sample_all_mountable sample_all_mountable sample_all_mountable] by metis
qed

end
