(* ===== verification/Backend_Secrets_Correct.thy ===== *)
theory Backend_Secrets_Correct
  imports Backend_Revisions
begin

text \<open>
  Secrets through the backend: the data of an update is exactly what the request says, a value that
  is not given is kept, and only objects that are labelled for it are
  changed or deleted.
\<close>

section \<open>The data of an update\<close>

text \<open>What a key of the request stands for, given what the Secret has for it.\<close>

definition merged_value :: "be_lib \<Rightarrow> string option \<Rightarrow> SecretValue option \<Rightarrow> string option" where
  "merged_value lib existing v = (case v of
     None \<Rightarrow> None
   | Some x \<Rightarrow> (case sv_Base64 x of None \<Rightarrow> existing | Some b \<Rightarrow> (case Base64Decode lib b of Inl err \<Rightarrow> None | Inr d \<Rightarrow> Some d)))"

definition decodable :: "be_lib \<Rightarrow> SecretData \<Rightarrow> string \<Rightarrow> bool" where
  "decodable lib contents k \<longleftrightarrow> (\<forall>b. sv_Base64 (the (fmlookup contents k)) = Some b \<longrightarrow> \<not> isl (Base64Decode lib b))"

definition overlay :: "string option \<Rightarrow> string option \<Rightarrow> string option" where
  "overlay old new = (case new of None \<Rightarrow> old | Some y \<Rightarrow> Some y)"

lemma decode_contents_total:
  assumes "\<forall>k \<in> set ks. decodable lib contents k \<and> fmlookup contents k \<noteq> None" and "distinct ks"
  shows "\<exists>data. decode_contents lib existing contents ks acc = Inr data \<and>
    fmlookup data = (\<lambda>k. if k \<in> set ks then overlay (fmlookup acc k) (merged_value lib (fmlookup existing k) (fmlookup contents k))
                          else fmlookup acc k)"
  using assms
proof (induction ks arbitrary: acc)
  case (Cons k ks)
  then have rest: "\<forall>k \<in> set ks. decodable lib contents k \<and> fmlookup contents k \<noteq> None" "distinct ks" "k \<notin> set ks" by simp_all
  let ?v = "merged_value lib (fmlookup existing k) (fmlookup contents k)"
  let ?acc = "case ?v of None \<Rightarrow> acc | Some y \<Rightarrow> fmupd k y acc"
  obtain x where x: "fmlookup contents k = Some x" using Cons.prems(1) by auto
  have step: "decode_contents lib existing contents (k # ks) acc = decode_contents lib existing contents ks ?acc"
    using x Cons.prems(1) by (auto simp: merged_value_def decodable_def isl_def split: option.splits sum.splits)
  have acc: "fmlookup ?acc = (fmlookup acc)(k := overlay (fmlookup acc k) ?v)"
    by (auto simp: overlay_def split: option.splits)
  from Cons.IH [OF rest(1,2), of ?acc] rest(3) show ?case unfolding step acc by (auto simp: fun_eq_iff)
qed simp

lemma validated_decodable:
  assumes "key_order kord" and "SecretData_Validate lib kord p contents = []"
  shows "\<forall>k \<in> set (kord (fmdom' contents)). decodable lib contents k \<and> fmlookup contents k \<noteq> None"
    and "distinct (kord (fmdom' contents))" and "set (kord (fmdom' contents)) = fmdom' contents"
proof -
  show keys: "set (kord (fmdom' contents)) = fmdom' contents" "distinct (kord (fmdom' contents))"
    using assms(1) by (simp_all add: key_order_def)
  show "\<forall>k \<in> set (kord (fmdom' contents)). decodable lib contents k \<and> fmlookup contents k \<noteq> None"
    using assms(2) unfolding SecretData_Validate_def keys(1)
    by (auto simp: keys(1) decodable_def SecretValue_Validate_def ValidateFieldIsSecretBase64Value_def isl_def fmlookup_dom'_iff
        split: sum.splits)
qed

text \<open>
  C15. A validated update of a Secret always applies, and the new data is exactly what the request
  says: a key with a value gets the decoded value, a key without one keeps what the Secret has, if
  anything, and a key that is not in the request is removed; the type and the immutability are the
  ones of the request, the metadata stays. Sending back what was read changes no data.
\<close>

theorem secret_update_exact:
  assumes "key_order kord" and "SecretUpdate_Validate lib kord p su = []"
  shows "\<exists>s'. ApplySecretUpdateModelToSecret lib kord su s = Inr s' \<and>
    (\<forall>k. fmlookup (sec_Data s') k = merged_value lib (fmlookup (sec_Data s) k) (fmlookup (sup_Contents su) k)) \<and>
    sec_Type s' = sup_Type su \<and> sec_Immutable s' = Some (sup_Immutable su) \<and> sec_Meta s' = sec_Meta s \<and>
    (sup_Contents su = sup_Contents (NewSecretUpdateModelFromSecret s) \<longrightarrow> sec_Data s' = sec_Data s)"
proof -
  have "SecretData_Validate lib kord (p @ [Child ''contents'']) (sup_Contents su) = []"
    using assms(2) by (simp add: SecretUpdate_Validate_def)
  note keys = validated_decodable [OF assms(1) this]
  obtain data where run: "decode_contents lib (sec_Data s) (sup_Contents su) (kord (fmdom' (sup_Contents su))) fmempty = Inr data"
      and data: "fmlookup data = (\<lambda>k. if k \<in> fmdom' (sup_Contents su)
        then overlay (fmlookup fmempty k) (merged_value lib (fmlookup (sec_Data s) k) (fmlookup (sup_Contents su) k)) else fmlookup fmempty k)"
    using decode_contents_total [OF keys(1,2), of "sec_Data s" fmempty] unfolding keys(3) by blast
  have exact: "fmlookup data k = merged_value lib (fmlookup (sec_Data s) k) (fmlookup (sup_Contents su) k)" for k
    unfolding data by (auto simp: overlay_def merged_value_def fmlookup_dom'_iff split: option.splits)
  moreover have "data = sec_Data s" if "sup_Contents su = sup_Contents (NewSecretUpdateModelFromSecret s)"
    by (rule fmap_ext) (simp add: exact that NewSecretUpdateModelFromSecret_def secretDataFromKubernetesSecret_def merged_value_def
        split: option.split)
  ultimately show ?thesis using run by (simp add: ApplySecretUpdateModelToSecret_def)
qed

definition sample_secret_update :: SecretUpdate where
  "sample_secret_update = \<lparr>sup_Type = ''Opaque'', sup_Immutable = False,
     sup_Contents = fmupd ''token'' \<lparr>sv_Base64 = Some ''new''\<rparr> (fmupd ''user'' \<lparr>sv_Base64 = None\<rparr> fmempty)\<rparr>"

lemma sample_secret_update_valid: "SecretUpdate_Validate sample_be_lib sample_keys p sample_secret_update = []"
proof -
  have "set (sample_keys (fmdom' (sup_Contents sample_secret_update))) = {''token'', ''user''}"
    by (auto simp: sample_secret_update_def sample_keys_def)
  then show ?thesis
    unfolding SecretUpdate_Validate_def SecretData_Validate_def
    by (auto simp: ValidateFieldIsConfigMapKey_def SecretValue_Validate_def ValidateFieldIsSecretBase64Value_def sample_be_lib_def
        sample_secret_update_def)
qed

theorem secret_update_exact_witness:
  "\<exists>s'. ApplySecretUpdateModelToSecret sample_be_lib sample_keys sample_secret_update (sample_secret ''team'' ''nb'') = Inr s' \<and>
     fmlookup (sec_Data s') ''token'' = Some ''new'' \<and> fmlookup (sec_Data s') ''user'' = Some ''bob'' \<and>
     fmlookup (sec_Data s') ''other'' = None"
proof -
  obtain s' where "ApplySecretUpdateModelToSecret sample_be_lib sample_keys sample_secret_update (sample_secret ''team'' ''nb'') = Inr s'"
      and "\<forall>k. fmlookup (sec_Data s') k = merged_value sample_be_lib (fmlookup (sec_Data (sample_secret ''team'' ''nb'')) k)
        (fmlookup (sup_Contents sample_secret_update) k)"
    using secret_update_exact [OF key_order_sample_keys sample_secret_update_valid, of "sample_secret ''team'' ''nb''"] by blast
  then show ?thesis by (simp add: merged_value_def sample_secret_def sample_secret_update_def sample_be_lib_def)
qed

section \<open>Only labelled objects are changed\<close>

text \<open>
  The cluster answers, at a point of the trace, that the object a call changes or deletes carries
  the label \<open>can-update\<close>.
\<close>

fun released :: "be_client \<Rightarrow> be_call \<Rightarrow> be_trace \<Rightarrow> bool" where
  "released cl (UpdateCall (SecretObject s)) t =
     (\<exists>x. cl_GetSecret cl t (om_Namespace (sec_Meta s)) (om_Name (sec_Meta s)) = Inr x \<and> can_update (sec_Meta x))"
| "released cl (DeleteCall Secrets ns n) t = (\<exists>x. cl_GetSecret cl t ns n = Inr x \<and> can_update (sec_Meta x))"
| "released cl (DeleteCall PersistentVolumeClaims ns n) t = (\<exists>x. cl_GetPVC cl t ns n = Inr x \<and> can_update (pvo_Meta x))"
| "released cl _ t = True"

interpretation release: guarded_trace "\<lambda>t. during [] t (released cl c)" "\<lambda>c'. c' = c \<and> \<not> looks c" for cl c
  by unfold_locales (rule during_mono(2))

lemma release_after_read:
  assumes m: "emits looks m" and f: "\<And>t x t'. m t = (Inr x, t') \<Longrightarrow> emits (\<lambda>c. released cl c t) (f x)"
    and rest: "\<And>x. emits (\<lambda>_. True) (f x)"
  shows "release.safe cl c (and_then m f)"
proof (rule release.safe_bind)
  show "emits (\<lambda>c'. \<not> (c' = c \<and> \<not> looks c)) m" by (rule emits_mono [OF m]) blast
  fix t x t' assume x: "m t = (Inr x, t')"
  then obtain d where t': "t' = t @ d" using emitsD [OF m] by blast
  show "during [] t' (released cl c) \<or> emits (\<lambda>c'. \<not> (c' = c \<and> \<not> looks c)) (f x)"
  proof (cases "released cl c t")
    case True
    then show ?thesis unfolding t' during_def by (metis append_Nil)
  next
    case False
    have "emits (\<lambda>c'. \<not> (c' = c \<and> \<not> looks c)) (f x)" by (rule emits_mono [OF f [OF x]]) (use False in blast)
    then show ?thesis ..
  qed
qed (rule rest)

lemma read_again:
  assumes "returns_requested cl"
  shows "get_or e r (cl_GetSecret cl) ns n t = (Inr s, t') \<Longrightarrow> cl_GetSecret cl t (om_Namespace (sec_Meta s)) (om_Name (sec_Meta s)) = Inr s"
    and "get_or e r (cl_GetPVC cl) ns n t = (Inr p, t') \<Longrightarrow> cl_GetPVC cl t (om_Namespace (pvo_Meta p)) (om_Name (pvo_Meta p)) = Inr p"
  by (metis assms requested_names(3,4) get_or_InrD)+

lemma releasing_repos:
  assumes "returns_requested (app_Client app)"
  shows "release.safe (app_Client app) c (Repo_DeleteSecret app ns n)"
    and "release.safe (app_Client app) c (Repo_DeletePVC app ns n)"
    and "release.safe (app_Client app) c (Repo_UpdateSecret app kord actor su ns n)"
proof -
  show "release.safe (app_Client app) c (Repo_DeleteSecret app ns n)"
    unfolding Repo_DeleteSecret_def
    by (rule release_after_read)
      (auto intro!: emit_intros dest: read_again(1) [OF assms])
  show "release.safe (app_Client app) c (Repo_DeletePVC app ns n)"
    unfolding Repo_DeletePVC_def
    by (rule release_after_read)
      (auto intro!: emit_intros dest: read_again(2) [OF assms])
  have "sec_Meta s' = sec_Meta s" if "ApplySecretUpdateModelToSecret (app_Lib app) kord su s = Inr s'" for s s'
    using that by (auto simp: ApplySecretUpdateModelToSecret_def split: sum.splits)
  then show "release.safe (app_Client app) c (Repo_UpdateSecret app kord actor su ns n)"
    unfolding Repo_UpdateSecret_def Let_def
    by (intro release.safe_and_then release.safe_harmless release_after_read)
      (auto intro!: emit_intros split: sum.splits dest: read_again(1) [OF assms])
qed

lemma releasing_handlers:
  assumes "returns_requested (app_Client app)"
  shows "release.safe (app_Client app) c (DeleteSecretHandler app rq ns n)"
    and "release.safe (app_Client app) c (DeletePVCHandler app rq ns n)"
    and "release.safe (app_Client app) c (UpdateSecretHandler app kord su_decode rq ns n)"
proof -
  have looks_safe: "release.safe (app_Client app) c m" if "emits looks m" for m :: "('d, 'a) http_step"
    by (rule release.safe_harmless, rule emits_mono [OF that]) blast
  show "release.safe (app_Client app) c (DeleteSecretHandler app rq ns n)" "release.safe (app_Client app) c (DeletePVCHandler app rq ns n)"
      "release.safe (app_Client app) c (UpdateSecretHandler app kord su_decode rq ns n)"
    unfolding DeleteSecretHandler_def DeletePVCHandler_def UpdateSecretHandler_def
    by (intro release.safe_and_then release.safe_attempt releasing_repos assms;
        auto intro!: looks_safe emit_intros split: sum.splits)+
qed

lemma respond_released:
  "release.safe cl c h \<Longrightarrow> guarded (\<lambda>t. during [] t (released cl c)) (\<lambda>c'. c' = c \<and> \<not> looks c) (snd (respond f h []))"
  unfolding release.safe_def
  by (auto simp: respond_def run_handler_def split: prod.split sum.split dest!: spec [where x = "[]"])

text \<open>The calls that need a release are those of three routes.\<close>

lemma release_routes:
  "route_writes r c \<Longrightarrow> \<exists>t. \<not> released cl c t \<Longrightarrow> r \<in> {UpdateSecret, DeleteSecret, DeletePVC}"
  by (cases r) auto

text \<open>
  C16. Only what is labelled for it is changed: whenever serving a request updates a Secret or
  deletes a Secret or a PersistentVolumeClaim, the cluster had, earlier in the same request,
  returned that very object with the label \<open>can-update\<close> set to \<open>true\<close>. This holds for every
  route, given that a read returns the object that was asked for.
\<close>

theorem changes_only_labelled:
  assumes "returns_requested (app_Client (srv_App s))" and "serve s m rq [] = (resp, t)" and "i < length t"
  shows "\<exists>j \<le> i. released (app_Client (srv_App s)) (fst (t ! i)) (take j t)"
proof (rule ccontr)
  let ?cl = "app_Client (srv_App s)" and ?c = "fst (t ! i)"
  assume none: "\<not> (\<exists>j \<le> i. released ?cl ?c (take j t))"
  have "\<not> looks ?c" using none by (cases ?c rule: looks.cases) auto
  obtain r ps where m: "m = Matched r ps" using assms(2,3) by (cases m) (auto simp: serve_def)
  with assms(2) have run: "serve_route s rq ps r [] = (resp, t)" by (simp add: serve_def)
  have "route_writes r ?c" using route_settled [of r s rq ps] run \<open>\<not> looks ?c\<close> assms(3) by (fastforce simp: settled_def)
  with none have r: "r \<in> {UpdateSecret, DeleteSecret, DeletePVC}" using release_routes by blast
  have "guarded (\<lambda>t. during [] t (released ?cl ?c)) (\<lambda>c'. c' = ?c \<and> \<not> looks ?c) (snd (serve_route s rq ps r []))"
    using r by (auto intro!: respond_released releasing_handlers assms(1))
  then have "during [] (take i t) (released ?cl ?c)" using run assms(3) \<open>\<not> looks ?c\<close> by (simp add: guarded_def)
  from during_take [OF this assms(3)] none show False by blast
qed

lemma sample_delete_secret:
  "serve sample_server (Matched DeleteSecret sample_path) sample_request [] =
     (deletedResponse, [(ReviewCall (AttributesFor (policy VerbDelete Secrets ''team'' ''nb'') alice), True),
                        (GetCall (PolicyResource Secrets) ''team'' ''nb'', True), (DeleteCall Secrets ''team'' ''nb'', True)])"
  by (simp add: serve_def DeleteSecretHandler_def Repo_DeleteSecret_def can_update_def sample_params run_step_simps
      sample_path_def map_response_def deletedResponse_def)

theorem changes_only_labelled_witness:
  "\<exists>t x. cl_GetSecret sample_client t ''team'' ''nb'' = Inr x \<and> can_update (sec_Meta x)"
  using changes_only_labelled [OF _ sample_delete_secret, of 2] by (auto simp: sample_client_requested simp del: sample_client_sel)

end
