(* ===== verification/Secret_Privacy.thy ===== *)
theory Secret_Privacy
  imports Backend_Secrets_Correct
begin

text \<open>
  What the API tells about the values of Secrets: two clusters whose Secrets differ in their values only
  cannot be told apart by any response. The second cluster is the first one with other answers to reading
  and storing Secrets, \<open>alike\<close> to those of the first: the same errors, and Secrets with the same metadata, type and
  keys. A handler that does not read Secrets is the same step on both; one that does only looks at
  what they have in common; and the handler that updates a Secret, which keeps stored values, sends calls
  that differ in values and answers alike.
\<close>

section \<open>Alike clusters\<close>

definition same_but_values :: "Secret \<Rightarrow> Secret \<Rightarrow> bool" where
  "same_but_values s s' \<longleftrightarrow> sec_Meta s' = sec_Meta s \<and> sec_Type s' = sec_Type s \<and> sec_Immutable s' = sec_Immutable s \<and>
     fmdom' (sec_Data s') = fmdom' (sec_Data s)"

abbreviation alike :: "kube_error + Secret \<Rightarrow> kube_error + Secret \<Rightarrow> bool" where
  "alike \<equiv> rel_sum (=) same_but_values"

fun calls_alike :: "be_call \<Rightarrow> be_call \<Rightarrow> bool" where
  "calls_alike (CreateCall (SecretObject s)) c \<longleftrightarrow> (\<exists>s'. c = CreateCall (SecretObject s') \<and> same_but_values s s')"
| "calls_alike (UpdateCall (SecretObject s)) c \<longleftrightarrow> (\<exists>s'. c = UpdateCall (SecretObject s') \<and> same_but_values s s')"
| "calls_alike c c' \<longleftrightarrow> c' = c"

type_synonym secret_reader = "be_trace \<Rightarrow> string \<Rightarrow> string \<Rightarrow> kube_error + Secret"
type_synonym secret_writer = "be_trace \<Rightarrow> be_call \<Rightarrow> kube_error + Secret"

definition with_secrets :: "secret_reader \<Rightarrow> secret_writer \<Rightarrow> be_client \<Rightarrow> be_client" where
  "with_secrets get store cl = cl\<lparr>cl_GetSecret := get, cl_StoreSecret := store\<rparr>"

definition other_app :: "secret_reader \<Rightarrow> secret_writer \<Rightarrow> be_app \<Rightarrow> be_app" where
  "other_app get store app = app\<lparr>app_Client := with_secrets get store (app_Client app)\<rparr>"

definition other_server :: "secret_reader \<Rightarrow> secret_writer \<Rightarrow> server \<Rightarrow> server" where
  "other_server get store s = s\<lparr>srv_App := other_app get store (srv_App s)\<rparr>"

definition alike_answers :: "be_client \<Rightarrow> secret_reader \<Rightarrow> secret_writer \<Rightarrow> bool" where
  "alike_answers cl get store \<longleftrightarrow>
     (\<forall>t ns n. alike (cl_GetSecret cl t ns n) (get t ns n)) \<and>
     (\<forall>t c c'. calls_alike c c' \<longrightarrow> alike (cl_StoreSecret cl t c) (store t c'))"

section \<open>Handlers that do not read Secrets\<close>

named_theorems unread

lemma other_sel [unread]:
  "app_Lib (other_app get store app) = app_Lib app" "app_Fields (other_app get store app) = app_Fields app"
  "app_Client (other_app get store app) = with_secrets get store (app_Client app)"
  "app_AuthN (other_app get store app) = app_AuthN app" "app_AuthZ (other_app get store app) = app_AuthZ app"
  "app_Now (other_app get store app) = app_Now app" "app_Selectors (other_app get store app) = app_Selectors app"
  "app_ProxyUrlPrefix (other_app get store app) = app_ProxyUrlPrefix app"
  "srv_App (other_server get store s) = other_app get store (srv_App s)" "srv_User (other_server get store s) = srv_User s"
  "srv_Decoders (other_server get store s) = srv_Decoders s" "srv_KeyOrder (other_server get store s) = srv_KeyOrder s"
  "srv_MetricsAvailable (other_server get store s) = srv_MetricsAvailable s"
  by (simp_all add: other_app_def other_server_def)

lemma with_secrets_sel [unread]:
  "cl_GetWorkspace (with_secrets get store cl) = cl_GetWorkspace cl" "cl_ListWorkspaces (with_secrets get store cl) = cl_ListWorkspaces cl"
  "cl_GetWorkspaceKind (with_secrets get store cl) = cl_GetWorkspaceKind cl"
  "cl_ListWorkspaceKinds (with_secrets get store cl) = cl_ListWorkspaceKinds cl"
  "cl_GetSecret (with_secrets get store cl) = get" "cl_ListSecretMeta (with_secrets get store cl) = cl_ListSecretMeta cl"
  "cl_GetPVC (with_secrets get store cl) = cl_GetPVC cl" "cl_ListPVCs (with_secrets get store cl) = cl_ListPVCs cl"
  "cl_GetPV (with_secrets get store cl) = cl_GetPV cl" "cl_GetStorageClass (with_secrets get store cl) = cl_GetStorageClass cl"
  "cl_ListStorageClasses (with_secrets get store cl) = cl_ListStorageClasses cl" "cl_GetNamespace (with_secrets get store cl) = cl_GetNamespace cl"
  "cl_ListNamespaces (with_secrets get store cl) = cl_ListNamespaces cl" "cl_ListPods (with_secrets get store cl) = cl_ListPods cl"
  "cl_ListPodsOf (with_secrets get store cl) = cl_ListPodsOf cl" "cl_PodLogs (with_secrets get store cl) = cl_PodLogs cl"
  "cl_GetPodMetrics (with_secrets get store cl) = cl_GetPodMetrics cl" "cl_ContextErr (with_secrets get store cl) = cl_ContextErr cl"
  "cl_GetPod (with_secrets get store cl) = cl_GetPod cl" "cl_GetConfigMap (with_secrets get store cl) = cl_GetConfigMap cl"
  "cl_StoreWorkspace (with_secrets get store cl) = cl_StoreWorkspace cl"
  "cl_StoreWorkspaceKind (with_secrets get store cl) = cl_StoreWorkspaceKind cl" "cl_StoreSecret (with_secrets get store cl) = store"
  "cl_StorePVC (with_secrets get store cl) = cl_StorePVC cl" "cl_Delete (with_secrets get store cl) = cl_Delete cl"
  by (simp_all add: with_secrets_def)

text \<open>The loops, and the passages all handlers share.\<close>

lemma unread_loops [unread]:
  "authorize_all (other_app get store app) u policies = authorize_all app u policies"
  "workspace_items (other_app get store app) wss = workspace_items app wss"
  "pvc_items (other_app get store app) pods workspaces pvcs = pvc_items app pods workspaces pvcs"
  "unpack_data (with_secrets get store cl) ns i vs = unpack_data cl ns i vs"
proof -
  show "authorize_all (other_app get store app) u policies = authorize_all app u policies"
    by (induction policies) (simp_all only: authorize_all.simps review_def unread)
  show "workspace_items (other_app get store app) wss = workspace_items app wss"
    by (induction wss) (simp_all only: workspace_items.simps kind_if_exists_def unread)
  show "pvc_items (other_app get store app) pods workspaces pvcs = pvc_items app pods workspaces pvcs"
    by (induction pvcs) (simp_all only: pvc_items.simps unread)
  show "unpack_data (with_secrets get store cl) ns i vs = unpack_data cl ns i vs"
    by (induction vs arbitrary: i) (simp_all only: unpack_data.simps ValidateKubernetesPVCIsMountable_def unread)
qed

lemma unread_passages [unread]:
  "requireAuth (other_app get store app) rq policies = requireAuth app rq policies"
  "json_body (other_app get store app) rq decode validate = json_body app rq decode validate"
  "path_params (other_app get store app) errs = path_params app errs"
  "query_params (other_app get store app) errs = query_params app errs"
  "ValidateContentType (other_app get store app) rq m = ValidateContentType app rq m"
  "kube_delete (with_secrets get store cl) = kube_delete cl"
  "delete_or e (with_secrets get store cl) = delete_or e cl"
  by (intro ext; simp only: requireAuth_def json_body_def ValidateContentType_def path_params_def query_params_def kube_delete_def
      delete_or_def unread)+

text \<open>The repositories that do not read Secrets, with their helpers.\<close>

lemmas plain_repos =
  Repo_GetWorkspaceKind_def Repo_GetWorkspaceKinds_def Repo_CreateWorkspaceKind_def Repo_UpdateWorkspaceKind_def
  Repo_DeleteWorkspaceKind_def Repo_ListPodTemplateOptionsValues_def getWorkspaceKindAssetBytes_def GetWorkspaceKindAssetBytesIcon_def
  GetWorkspaceKindAssetBytesLogo_def get_kind_def resolveNamespaceLabels_def Repo_GetWorkspace_def Repo_DeleteWorkspace_def
  Repo_HandlePauseAction_def kind_if_exists_def getWorkspaceModels_def Repo_GetWorkspaces_def Repo_GetAllWorkspaces_def
  Repo_GetWorkspaceDetails_def Repo_GetSecrets_def ensureLogsAvailable_def resolvePodAndContainer_def OpenLogStream_def
  GetWorkspaceResourceUsage_def Repo_GetPVCs_def Repo_CreatePVC_def Repo_DeletePVC_def Repo_GetStorageClasses_def Repo_GetNamespaces_def
  ValidateKubernetesStorageClassIsUsable_def

lemmas plain_handlers =
  kind_params_def namespace_query_def yaml_error_response_def kind_body_def update_kind_error_def getWorkspaceKindAssetHandler_def
  GetWorkspaceKindHandler_def GetWorkspaceKindsHandler_def DeleteWorkspaceKindHandler_def CreateWorkspaceKindHandler_def
  UpdateWorkspaceKindHandler_def GetWorkspaceKindIconHandler_def GetWorkspaceKindLogoHandler_def PodTemplateOptionsListValuesHandler_def
  workspace_params_def namespace_params_def GetWorkspaceHandler_def DeleteWorkspaceHandler_def PauseActionWorkspaceHandler_def
  getWorkspacesHandler_def GetAllWorkspacesHandler_def GetWorkspacesByNamespaceHandler_def GetWorkspacePodTemplateDetailsHandler_def
  GetSecretsByNamespaceHandler_def GetWorkspacePodTemplateLogsHandler_def GetWorkspacePodTemplateResourcesHandler_def
  GetPVCsByNamespaceHandler_def CreatePVCHandler_def pvc_params_def DeletePVCHandler_def GetStorageClassesHandler_def
  GetNamespacesHandler_def secret_params_def create_workspace_error_def update_workspace_error_def

definition reads_secrets :: "route \<Rightarrow> bool" where
  "reads_secrets r \<longleftrightarrow> r \<in> {CreateSecret, GetSecret, UpdateSecret, DeleteSecret, CreateWorkspace, UpdateWorkspace}"

lemma plain_routes:
  "\<not> reads_secrets r \<Longrightarrow> serve_route (other_server get store s) rq ps r = serve_route s rq ps r"
  by (cases r) (simp_all only: reads_secrets_def serve_route.simps plain_handlers plain_repos unread insert_iff simp_thms)

section \<open>Handlers that read Secrets\<close>

lemma alikeE:
  assumes "alike r r'"
  obtains (failed) err where "r = Inl err" "r' = Inl err" | (found) s s' where "r = Inr s" "r' = Inr s'" "same_but_values s s'"
  using assms by (cases r; cases r') auto

lemma alike_answersD:
  assumes "alike_answers cl get store"
  shows "alike (cl_GetSecret cl t ns n) (get t ns n)" and "calls_alike c c' \<Longrightarrow> alike (cl_StoreSecret cl t c) (store t c')"
  using assms by (simp_all add: alike_answers_def)

text \<open>A step that reads a Secret and goes on with what alike Secrets have in common is the same step.\<close>

lemma read_alike:
  assumes "alike_answers cl get store" and "\<And>s s'. same_but_values s s' \<Longrightarrow> f (Inr s') = f (Inr s)"
  shows "and_then (kube_get res get ns n) f = and_then (kube_get res (cl_GetSecret cl) ns n) f"
proof
  fix t
  from alike_answersD(1) [OF assms(1), of t ns n] assms(2)
  show "and_then (kube_get res get ns n) f t = and_then (kube_get res (cl_GetSecret cl) ns n) f t"
    by (cases rule: alikeE) (simp_all add: and_then_def kube_get_def query_def)
qed

lemma get_or_alike:
  assumes "alike_answers cl get store" and "\<And>s s'. same_but_values s s' \<Longrightarrow> f s' = f s"
  shows "and_then (get_or e res get ns n) f = and_then (get_or e res (cl_GetSecret cl) ns n) f"
proof
  fix t
  from alike_answersD(1) [OF assms(1), of t ns n] assms(2)
  show "and_then (get_or e res get ns n) f t = and_then (get_or e res (cl_GetSecret cl) ns n) f t"
    by (cases rule: alikeE) (simp_all add: get_or_def and_then_def kube_get_def query_def proceed_def)
qed

lemma models_alike:
  assumes "same_but_values s s'"
  shows "NewSecretUpdateModelFromSecret s' = NewSecretUpdateModelFromSecret s"
    and "NewSecretCreateModelFromSecret s' = NewSecretCreateModelFromSecret s"
proof -
  have "fmmap (\<lambda>_. \<lparr>sv_Base64 = None\<rparr>) d = fmmap (\<lambda>_. \<lparr>sv_Base64 = None\<rparr>) d'" if "fmdom' d = fmdom' d'" for d d' :: strmap
  proof (rule fmap_ext)
    fix key
    have "fmlookup d key = None \<longleftrightarrow> fmlookup d' key = None" using that by (metis fmdom'_notD fmdom'_notI)
    then show "fmlookup (fmmap (\<lambda>_. \<lparr>sv_Base64 = None\<rparr>) d) key = fmlookup (fmmap (\<lambda>_. \<lparr>sv_Base64 = None\<rparr>) d') key"
      by (cases "fmlookup d key"; cases "fmlookup d' key") simp_all
  qed
  from this [of "sec_Data s'" "sec_Data s"] assms show "NewSecretUpdateModelFromSecret s' = NewSecretUpdateModelFromSecret s"
    "NewSecretCreateModelFromSecret s' = NewSecretCreateModelFromSecret s"
    by (simp_all add: same_but_values_def NewSecretUpdateModelFromSecret_def NewSecretCreateModelFromSecret_def
        secretDataFromKubernetesSecret_def)
qed

text \<open>The Workspace handlers look at the labels of the Secrets a Workspace mounts.\<close>

lemma mountable_alike:
  assumes "alike_answers cl get store"
  shows "ValidateKubernetesSecretIsMountable (with_secrets get store cl) path ns n = ValidateKubernetesSecretIsMountable cl path ns n"
  unfolding ValidateKubernetesSecretIsMountable_def with_secrets_sel
  by (rule read_alike [OF assms]) (simp add: same_but_values_def)

lemma unpack_secrets_alike:
  assumes "alike_answers cl get store"
  shows "unpack_secrets (with_secrets get store cl) ns i ss = unpack_secrets cl ns i ss"
  by (induction ss arbitrary: i) (simp_all only: unpack_secrets.simps mountable_alike [OF assms])

lemma workspace_repos_alike:
  assumes "alike_answers (app_Client app) get store"
  shows "Repo_CreateWorkspace (other_app get store app) = Repo_CreateWorkspace app"
    and "Repo_UpdateWorkspace (other_app get store app) = Repo_UpdateWorkspace app"
  by (intro ext; simp only: Repo_CreateWorkspace_def Repo_UpdateWorkspace_def NewWorkspaceFromWorkspaceCreateModel_def
      ApplyWorkspaceUpdateModelToWorkspace_def validateAndUnpackVolumes_def ValidateKubernetesPVCIsMountable_def
      unpack_secrets_alike [OF assms] plain_repos unread)+

text \<open>Reading, creating and deleting a Secret.\<close>

lemma secret_repos_alike:
  assumes "alike_answers (app_Client app) get store"
  shows "Repo_GetSecret (other_app get store app) = Repo_GetSecret app"
    and "Repo_DeleteSecret (other_app get store app) = Repo_DeleteSecret app"
    and "Repo_CreateSecret (other_app get store app) = Repo_CreateSecret app"
proof -
  show "Repo_GetSecret (other_app get store app) = Repo_GetSecret app"
    unfolding fun_eq_iff Repo_GetSecret_def unread
    by (intro allI fun_cong [OF get_or_alike [OF assms]]) (simp add: models_alike)
  show "Repo_DeleteSecret (other_app get store app) = Repo_DeleteSecret app"
    unfolding fun_eq_iff Repo_DeleteSecret_def unread
    by (intro allI fun_cong [OF get_or_alike [OF assms]]) (simp add: same_but_values_def)
  have store: "and_then (store_or e store (CreateCall (SecretObject s))) (\<lambda>x. proceed (NewSecretCreateModelFromSecret x)) =
      and_then (store_or e (cl_StoreSecret (app_Client app)) (CreateCall (SecretObject s))) (\<lambda>x. proceed (NewSecretCreateModelFromSecret x))" for e s
  proof
    fix t
    have "calls_alike (CreateCall (SecretObject s)) (CreateCall (SecretObject s))" by (simp add: same_but_values_def)
    from alike_answersD(2) [OF assms this, of t]
    show "and_then (store_or e store (CreateCall (SecretObject s))) (\<lambda>x. proceed (NewSecretCreateModelFromSecret x)) t =
        and_then (store_or e (cl_StoreSecret (app_Client app)) (CreateCall (SecretObject s))) (\<lambda>x. proceed (NewSecretCreateModelFromSecret x)) t"
      by (cases rule: alikeE) (simp_all add: store_or_def kube_store_def and_then_def query_def proceed_def stop_def models_alike)
  qed
  show "Repo_CreateSecret (other_app get store app) = Repo_CreateSecret app"
    by (intro ext) (simp only: Repo_CreateSecret_def unread store Let_def)
qed

section \<open>Updating a Secret\<close>

lemma decode_alike:
  "fmdom' ex' = fmdom' ex \<Longrightarrow> fmdom' acc' = fmdom' acc \<Longrightarrow>
     rel_sum (=) (\<lambda>d d'. fmdom' d' = fmdom' d) (decode_contents lib ex contents keys acc) (decode_contents lib ex' contents keys acc')"
proof (induction keys arbitrary: acc acc')
  case (Cons key keys)
  have "fmlookup ex key = None \<longleftrightarrow> fmlookup ex' key = None" using Cons.prems(1) by (metis fmdom'_notD fmdom'_notI)
  with Cons show ?case by (auto split: option.splits sum.splits)
qed simp

lemma apply_alike:
  assumes "same_but_values s s'"
  shows "rel_sum (=) same_but_values (ApplySecretUpdateModelToSecret lib kord su s) (ApplySecretUpdateModelToSecret lib kord su s')"
  using assms decode_alike [of "sec_Data s'" "sec_Data s" fmempty fmempty lib "sup_Contents su" "kord (fmdom' (sup_Contents su))"]
  by (auto simp: ApplySecretUpdateModelToSecret_def same_but_values_def split: sum.splits)

text \<open>The calls of an update differ in values; its result does not.\<close>

lemma update_repo_alike:
  assumes "alike_answers (app_Client app) get store"
  shows "fst (Repo_UpdateSecret (other_app get store app) kord actor su ns n t) = fst (Repo_UpdateSecret app kord actor su ns n t)"
  using alike_answersD(1) [OF assms, of t ns n]
proof (cases rule: alikeE)
  case (failed err)
  then show ?thesis
    by (simp add: Repo_UpdateSecret_def unread and_then_def ask_def get_or_def kube_get_def query_def stop_def)
next
  case (found s s')
  let ?step = "\<lambda>store s. case ApplySecretUpdateModelToSecret (app_Lib app) kord su s of
      Inl err \<Rightarrow> stop (PlainError err)
    | Inr secret \<Rightarrow>
        let secret = secret\<lparr>sec_Meta := UpdateObjectMetaForUpdate (app_Lib app) actor (app_Now app t) (sec_Meta secret)\<rparr> in
        and_then (store_or (\<lambda>err. if IsNotFound err then SentinelError ErrSecretNotFound else KubeError err) store
          (UpdateCall (SecretObject secret))) (\<lambda>stored. proceed (NewSecretUpdateModelFromSecret stored))"
  let ?t = "t @ [(GetCall (PolicyResource Secrets) ns n, True)]"
  have same: "fst (?step store s' ?t) = fst (?step (cl_StoreSecret (app_Client app)) s ?t)"
    using apply_alike [OF found(3), of "app_Lib app" kord su]
  proof (cases rule: rel_sum.cases)
    case (2 u u')
    let ?m = "\<lambda>u. u\<lparr>sec_Meta := UpdateObjectMetaForUpdate (app_Lib app) actor (app_Now app t) (sec_Meta u)\<rparr>"
    have "calls_alike (UpdateCall (SecretObject (?m u))) (UpdateCall (SecretObject (?m u')))"
      using 2(3) by (simp add: same_but_values_def)
    from alike_answersD(2) [OF assms this, of ?t] 2(1,2) show ?thesis
      by (cases rule: alikeE) (simp_all add: store_or_def kube_store_def and_then_def query_def proceed_def stop_def Let_def models_alike)
  qed simp
  have can: "can_update (sec_Meta s') = can_update (sec_Meta s)" using found(3) by (simp add: same_but_values_def)
  have "get_or ErrSecretNotFound (PolicyResource Secrets) (cl_GetSecret (app_Client app)) ns n t = (Inr s, ?t)"
    "get_or ErrSecretNotFound (PolicyResource Secrets) get ns n t = (Inr s', ?t)"
    using found(1,2) by (simp_all add: get_or_def kube_get_def and_then_def query_def proceed_def)
  note run = Repo_UpdateSecret_def unread and_then_def ask_def this prod.case sum.case can
  show ?thesis
  proof (cases "can_update (sec_Meta s)")
    case True
    then have "Repo_UpdateSecret app kord actor su ns n t = ?step (cl_StoreSecret (app_Client app)) s ?t"
      "Repo_UpdateSecret (other_app get store app) kord actor su ns n t = ?step store s' ?t"
      by (simp_all only: run if_False not_True_eq_False)
    with same show ?thesis by simp
  qed (simp only: run if_True not_False_eq_True stop_def fst_conv)
qed

lemma fst_and_then: "(\<And>x t. fst (f x t) = fst (g x t)) \<Longrightarrow> fst (and_then m f t) = fst (and_then m g t)"
  by (simp add: and_then_def split: prod.splits sum.splits)

lemma fst_attempt:
  assumes "fst (m t) = fst (m' t)" and "\<And>r t t'. fst (f r t) = fst (f r t')"
  shows "fst (and_then (attempt m) f t) = fst (and_then (attempt m') f t)"
  using assms(1) assms(2) [of "fst (m' t)" "snd (m t)" "snd (m' t)"] by (simp add: and_then_def attempt_def split_beta)

lemma update_handler_alike:
  assumes "alike_answers (app_Client app) get store"
  shows "fst (UpdateSecretHandler (other_app get store app) kord decode rq ns n t) = fst (UpdateSecretHandler app kord decode rq ns n t)"
  unfolding UpdateSecretHandler_def unread secret_params_def
  by (intro fst_and_then fst_attempt update_repo_alike [OF assms]) (simp add: stop_def proceed_def split: sum.splits)

section \<open>Properties\<close>

lemma fst_respond: "fst (h t) = fst (h' t) \<Longrightarrow> fst (respond f h t) = fst (respond f h' t)"
  by (auto simp: respond_def run_handler_def split: prod.splits sum.splits)


text \<open>The example: the same Secret with other values, served by the route that reads it.\<close>

definition other_secrets :: secret_reader where
  "other_secrets t ns n = Inr ((sample_secret ns n)\<lparr>sec_Data := fmupd ''user'' ''eve'' (fmupd ''token'' ''hunter2'' fmempty)\<rparr>)"

lemma other_secrets_alike: "alike_answers sample_client other_secrets (cl_StoreSecret sample_client)"
  unfolding alike_answers_def
proof (intro conjI allI impI)
  show "alike (cl_GetSecret sample_client t ns n) (other_secrets t ns n)" for t ns n
    by (simp add: other_secrets_def same_but_values_def sample_secret_def)
  show "alike (cl_StoreSecret sample_client t c) (cl_StoreSecret sample_client t c')" if "calls_alike c c'" for t c c'
    using that by (cases "(c, c')" rule: calls_alike.cases) (auto simp: sample_client_def same_but_values_def)
qed


end
