(* ===== verification/Backend_Listing.thy ===== *)
theory Backend_Listing
  imports Backend_Secrets_Correct Cluster
begin

text \<open>
  What the backend shows of the Workspaces the controller runs. Listing panics on a Workspace whose
  image config has a port that its kind does not declare; for kinds the webhook has admitted this
  cannot happen, and the paths in the list are exactly the prefixes the controller routes.
\<close>

lemma value_map_by: "value_map idf vs = map_by idf vs"
  by (induction vs rule: rev_induct) (simp_all add: value_map_def)

text \<open>The paths of the services of an item.\<close>

definition service_paths :: "WorkspaceListItem \<Rightarrow> string list" where
  "service_paths item = concat (map (\<lambda>s. case svc_HttpService s of None \<Rightarrow> [] | Some h \<Rightarrow> [hs_HttpPath h]) (wli_Services item))"

lemma services_of_paths:
  assumes "\<forall>p \<in> set ports. map_by wkp_Id (wk_Ports k) (ip_Id p) \<noteq> None"
  shows "\<exists>ss. services_of w (map_by wkp_Id (wk_Ports k)) ports = Inr ss \<and>
    concat (map (\<lambda>s. case svc_HttpService s of None \<Rightarrow> [] | Some h \<Rightarrow> [hs_HttpPath h]) ss) =
      map (\<lambda>p. getWorkspaceConnectPath (ws_Namespace w) (ws_Name w) (ip_Id p)) (filter (\<lambda>p. http_port k p \<noteq> None) ports)"
  using assms
  by (induction ports) (auto simp: service_of_def http_port_def getWorkspaceConnectPath_def split: option.splits ImagePortProtocol.splits)

text \<open>A kind as the cluster stores it: the webhook has admitted it.\<close>

definition accepted_kind :: "validation_lib \<Rightarrow> range_fn \<Rightarrow> key_order_fn \<Rightarrow> WorkspaceKind \<Rightarrow> bool" where
  "accepted_kind lib rng kord k \<longleftrightarrow> admitted (Kind_ValidateCreate lib rng kord k) \<and> kind_schema_ok k"

text \<open>What an item says of its Workspace, given the kind that was found.\<close>

definition item_shows :: "Workspace \<Rightarrow> WorkspaceKind option \<Rightarrow> WorkspaceListItem \<Rightarrow> bool" where
  "item_shows w wsk item \<longleftrightarrow> wli_Name item = ws_Name w \<and> wli_Namespace item = ws_Namespace w \<and>
     wli_Paused item = spec_Paused (ws_Spec w) \<and> wli_State item = st_State (ws_Status w) \<and>
     wki_Missing (wli_WorkspaceKind item) = (\<not> WskExists wsk) \<and>
     (\<forall>k v. wsk = Some k \<longrightarrow> WskExists wsk \<longrightarrow> map_by ic_Id (wk_ImageConfigValues k) (po_ImageConfig (ws_Options w)) = Some v \<longrightarrow>
        service_paths item = map (\<lambda>p. getWorkspaceConnectPath (ws_Namespace w) (ws_Name w) (ip_Id p))
          (filter (\<lambda>p. http_port k p \<noteq> None) (ics_Ports (ic_Spec v))))"

lemma item_total:
  assumes ports: "\<And>k v. wsk = Some k \<Longrightarrow> v \<in> set (wk_ImageConfigValues k) \<Longrightarrow>
      \<forall>p \<in> set (ics_Ports (ic_Spec v)). map_by wkp_Id (wk_Ports k) (ip_Id p) \<noteq> None"
    and name: "\<And>k. wsk = Some k \<Longrightarrow> om_Name (wk_Meta k) = spec_Kind (ws_Spec w)"
  shows "\<exists>item. NewWorkspaceListItemFromWorkspace lib pre w wsk = Inr item \<and> item_shows w wsk item"
proof -
  have matches: "EnsureWskMatchesWorkspace w wsk = Inr ()"
    using name by (cases wsk) (auto simp: EnsureWskMatchesWorkspace_def WskExists_def)
  let ?v = "snd (buildImageConfig w wsk)"
  let ?ports = "if WskExists wsk then value_map wkp_Id (kpt_Ports (wk_PodTemplate (the wsk))) else Map.empty"
  have v: "?v = (if WskExists wsk then map_by ic_Id (wk_ImageConfigValues (the wsk)) (po_ImageConfig (ws_Options w)) else None)"
    by (simp add: buildImageConfig_def value_map_by Let_def)
  obtain ss where ss: "buildServices w ?ports ?v = Inr ss" and
      paths: "\<And>k v. wsk = Some k \<Longrightarrow> WskExists wsk \<Longrightarrow> ?v = Some v \<Longrightarrow>
        concat (map (\<lambda>s. case svc_HttpService s of None \<Rightarrow> [] | Some h \<Rightarrow> [hs_HttpPath h]) ss) =
          map (\<lambda>p. getWorkspaceConnectPath (ws_Namespace w) (ws_Name w) (ip_Id p)) (filter (\<lambda>p. http_port k p \<noteq> None) (ics_Ports (ic_Spec v)))"
  proof (cases ?v)
    case None
    then show ?thesis by (intro that [of "[]"]) (simp_all add: buildServices_def)
  next
    case (Some x)
    with v obtain k where k: "wsk = Some k" "WskExists wsk"
      by (cases wsk) (auto simp: WskExists_def split: if_splits)
    with Some v have "x \<in> set (wk_ImageConfigValues k)" using map_by_SomeD by fastforce
    from services_of_paths [OF ports [OF k(1) this], of w] obtain ss where
      "services_of w (map_by wkp_Id (wk_Ports k)) (ics_Ports (ic_Spec x)) = Inr ss"
      "concat (map (\<lambda>s. case svc_HttpService s of None \<Rightarrow> [] | Some h \<Rightarrow> [hs_HttpPath h]) ss) =
        map (\<lambda>p. getWorkspaceConnectPath (ws_Namespace w) (ws_Name w) (ip_Id p)) (filter (\<lambda>p. http_port k p \<noteq> None) (ics_Ports (ic_Spec x)))"
      by blast
    with k Some show ?thesis by (intro that [of ss]) (auto simp: buildServices_def value_map_by)
  qed
  then show ?thesis
    using matches v
    by (auto simp: NewWorkspaceListItemFromWorkspace_def item_shows_def service_paths_def split_beta Let_def)
qed

text \<open>The kind of each Workspace can be read and is accepted, or it does not exist.\<close>

definition kinds_accepted :: "validation_lib \<Rightarrow> range_fn \<Rightarrow> key_order_fn \<Rightarrow> be_client \<Rightarrow> Workspace list \<Rightarrow> bool" where
  "kinds_accepted lib rng kord cl wss \<longleftrightarrow> (\<forall>w \<in> set wss. \<forall>t. case cl_GetWorkspaceKind cl t [] (spec_Kind (ws_Spec w)) of
     Inl err \<Rightarrow> IsNotFound err | Inr k \<Rightarrow> accepted_kind lib rng kord k)"

text \<open>The kind the cluster returned for a Workspace at some time.\<close>

definition kind_read :: "be_client \<Rightarrow> Workspace \<Rightarrow> WorkspaceKind option \<Rightarrow> bool" where
  "kind_read cl w wsk \<longleftrightarrow> (\<exists>t. case wsk of
     Some k \<Rightarrow> cl_GetWorkspaceKind cl t [] (spec_Kind (ws_Spec w)) = Inr k
   | None \<Rightarrow> isl (cl_GetWorkspaceKind cl t [] (spec_Kind (ws_Spec w))))"

lemma kind_if_exists_total:
  assumes "kinds_accepted lib rng kord (app_Client app) wss" and "w \<in> set wss"
  shows "\<exists>wsk t'. kind_if_exists app (spec_Kind (ws_Spec w)) t = (Inr wsk, t') \<and> kind_read (app_Client app) w wsk \<and>
    (\<forall>k. wsk = Some k \<longrightarrow> accepted_kind lib rng kord k)"
proof -
  from assms have "case cl_GetWorkspaceKind (app_Client app) t [] (spec_Kind (ws_Spec w)) of
      Inl err \<Rightarrow> IsNotFound err | Inr k \<Rightarrow> accepted_kind lib rng kord k"
    unfolding kinds_accepted_def by blast
  then show ?thesis
    by (auto simp: kind_if_exists_def kube_get_def query_def and_then_def proceed_def kind_read_def split: sum.splits;
        metis isl_def)
qed

lemma items_total:
  assumes "kinds_accepted lib rng kord (app_Client app) wss" and "returns_requested (app_Client app)" and "key_order kord"
  shows "\<exists>items t'. workspace_items app wss t = (Inr items, t') \<and>
    list_all2 (\<lambda>w item. \<exists>wsk. kind_read (app_Client app) w wsk \<and> item_shows w wsk item) wss items"
  using assms(1)
proof (induction wss arbitrary: t)
  case (Cons w wss)
  obtain wsk t1 where wsk: "kind_if_exists app (spec_Kind (ws_Spec w)) t = (Inr wsk, t1)" "kind_read (app_Client app) w wsk"
      "\<forall>k. wsk = Some k \<longrightarrow> accepted_kind lib rng kord k"
    using kind_if_exists_total [OF Cons.prems] by (meson list.set_intros(1))
  have "om_Name (wk_Meta k) = spec_Kind (ws_Spec w)" if "wsk = Some k" for k
    using wsk(2) assms(2) that by (auto simp: kind_read_def returns_requested_def)
  moreover have "\<forall>p \<in> set (ics_Ports (ic_Spec v)). map_by wkp_Id (wk_Ports k) (ip_Id p) \<noteq> None"
    if "wsk = Some k" "v \<in> set (wk_ImageConfigValues k)" for k v
    using accepted_image_ports(2) [OF _ _ assms(3) that(2)] wsk(3) that(1) by (auto simp: accepted_kind_def)
  ultimately obtain item where item: "NewWorkspaceListItemFromWorkspace (app_Lib app) (app_ProxyUrlPrefix app) w wsk = Inr item"
      "item_shows w wsk item"
    using item_total by metis
  have "kinds_accepted lib rng kord (app_Client app) wss" using Cons.prems by (simp add: kinds_accepted_def)
  from Cons.IH [OF this] obtain items t2 where "workspace_items app wss t1 = (Inr items, t2)"
      "list_all2 (\<lambda>w item. \<exists>wsk. kind_read (app_Client app) w wsk \<and> item_shows w wsk item) wss items" by blast
  with wsk item show ?case by (auto simp: and_then_def proceed_def)
qed (simp add: proceed_def)

text \<open>The Gateway route is for the first port with an HTTP service, where the VirtualService has a route for each.\<close>

lemma gateway_route_first:
  "map_option hr_PathPrefix (generateGatewayV1HTTPRoute cfg w k svc spec) =
     (case map (\<lambda>p. getWorkspaceConnectPath (ws_Namespace w) (ws_Name w) (ip_Id p)) (filter (\<lambda>p. http_port k p \<noteq> None) (ics_Ports spec)) of
        [] \<Rightarrow> None | path # _ \<Rightarrow> Some path)"
proof -
  have "find P ps = (case filter P ps of [] \<Rightarrow> None | p # _ \<Rightarrow> Some p)" for P and ps :: "ImagePort list"
    by (induction ps) auto
  then show ?thesis by (simp add: generateGatewayV1HTTPRoute_def split: list.splits)
qed

text \<open>
  C11. Listing works for every accepted kind and agrees with the controller. When each kind that is
  found has been admitted by the webhook and each other is reported as not found, listing the
  Workspaces of a namespace never panics and never fails: it returns one item for each Workspace, in
  order, with its name, its state and whether its kind is missing. With Istio, the paths of the services in
  an item are exactly the prefixes of the routes of the VirtualService that the controller generates
  for the Workspace with its current image config. With the Gateway API, the controller routes only
  the first of these paths, and has a route exactly when there is one: of the services listed then,
  those after the first are not reachable.
\<close>

theorem listing_matches_routes:
  assumes "kinds_accepted lib rng kord (app_Client app) wss" and "returns_requested (app_Client app)" and "key_order kord"
    and "cl_ListWorkspaces (app_Client app) t ns = Inr wss"
  shows "\<exists>items t'. Repo_GetWorkspaces app ns t = (Inr items, t') \<and>
    list_all2 (\<lambda>w item. \<exists>wsk. kind_read (app_Client app) w wsk \<and> wli_Name item = ws_Name w \<and> wli_Namespace item = ws_Namespace w \<and>
      wli_Paused item = spec_Paused (ws_Spec w) \<and> wli_State item = st_State (ws_Status w) \<and>
      wki_Missing (wli_WorkspaceKind item) = (\<not> WskExists wsk) \<and>
      (\<forall>k v. wsk = Some k \<longrightarrow> WskExists wsk \<longrightarrow> map_by ic_Id (wk_ImageConfigValues k) (po_ImageConfig (ws_Options w)) = Some v \<longrightarrow>
         (\<forall>svc vs. generateVirtualService lib' rng' cfg w k svc (ic_Spec v) = Inr vs \<longrightarrow>
            service_paths item = map vsr_MatchPrefix (vsv_Http vs)) \<and>
         (\<forall>svc. map_option hr_PathPrefix (generateGatewayV1HTTPRoute cfg w k svc (ic_Spec v)) =
            (case service_paths item of [] \<Rightarrow> None | path # _ \<Rightarrow> Some path)))) wss items"
proof -
  obtain items t' where run: "workspace_items app wss (t @ [(ListCall (PolicyResource Workspaces) ns, True)]) = (Inr items, t')"
      and shown: "list_all2 (\<lambda>w item. \<exists>wsk. kind_read (app_Client app) w wsk \<and> item_shows w wsk item) wss items"
    using items_total [OF assms(1-3)] by blast
  have list: "Repo_GetWorkspaces app ns t = (Inr items, t')"
    using run assms(4) by (simp add: Repo_GetWorkspaces_def getWorkspaceModels_def list_all_of_def kube_list_def query_def and_then_def proceed_def)
  have routes: "generateVirtualService lib' rng' cfg w k svc (ic_Spec v) = Inr vs \<Longrightarrow> service_paths item = map vsr_MatchPrefix (vsv_Http vs)"
      "map_option hr_PathPrefix (generateGatewayV1HTTPRoute cfg w k svc (ic_Spec v)) =
        (case service_paths item of [] \<Rightarrow> None | path # _ \<Rightarrow> Some path)"
    if "item_shows w wsk item" "wsk = Some k" "WskExists wsk"
      "map_by ic_Id (wk_ImageConfigValues k) (po_ImageConfig (ws_Options w)) = Some v"
    for w wsk item k v svc vs
    using that by (simp_all add: item_shows_def generateVirtualService_Inr(1) gateway_route_first)
  from shown show ?thesis
    by (intro exI [of _ items] exI [of _ t'] conjI list; elim list_all2_mono exE conjE)
       (rule exI, intro conjI allI impI; (rule routes; assumption)?; simp add: item_shows_def)
qed

lemma validation_other_meta:
  "validatePodTemplatePodMetadata lib (k\<lparr>wk_Meta := m\<rparr>) = validatePodTemplatePodMetadata lib k"
  "validatePodTemplateStatefulSetMetadata lib (k\<lparr>wk_Meta := m\<rparr>) = validatePodTemplateStatefulSetMetadata lib k"
  "validateExtraEnv lib (k\<lparr>wk_Meta := m\<rparr>) = validateExtraEnv lib k"
  "validateRequestHeaders lib rng (k\<lparr>wk_Meta := m\<rparr>) = validateRequestHeaders lib rng k"
  "validateFilterRules lib (k\<lparr>wk_Meta := m\<rparr>) = validateFilterRules lib k"
  "validateDefaultImageConfig (k\<lparr>wk_Meta := m\<rparr>) im = validateDefaultImageConfig k im"
  "validateDefaultPodConfig (k\<lparr>wk_Meta := m\<rparr>) pm = validateDefaultPodConfig k pm"
  "validate_image_values (k\<lparr>wk_Meta := m\<rparr>) ports ids = validate_image_values k ports ids"
  "image_redirect_errors kord (k\<lparr>wk_Meta := m\<rparr>) = image_redirect_errors kord k"
  "pod_redirect_errors kord (k\<lparr>wk_Meta := m\<rparr>) = pod_redirect_errors kord k"
  "validateActivityRules lib (k\<lparr>wk_Meta := m\<rparr>) = validateActivityRules lib k"
  unfolding validatePodTemplatePodMetadata_def validatePodTemplateStatefulSetMetadata_def validateExtraEnv_def validateRequestHeaders_def
    validateFilterRules_def validateDefaultImageConfig_def validateDefaultPodConfig_def validate_image_values_def
    image_redirect_errors_def pod_redirect_errors_def validateActivityRules_def probe_interval_def Let_def
  by simp_all

lemma accepted_other_meta: "admitted (Kind_ValidateCreate lib rng kord (k\<lparr>wk_Meta := m\<rparr>)) = admitted (Kind_ValidateCreate lib rng kord k)"
  by (simp add: Kind_ValidateCreate_admitted_iff validation_other_meta)

lemma sample_kinds_accepted: "kinds_accepted sample_lib sample_range sample_keys sample_client wss"
  using sample_create_admitted sample_schema_ok(1)
  by (simp add: kinds_accepted_def accepted_kind_def sample_wsk_def accepted_other_meta kind_schema_ok_def)

theorem listing_matches_routes_witness:
  "\<exists>item t'. Repo_GetWorkspaces sample_app ''team'' [] = (Inr [item], t') \<and> wli_Name item = ''nb'' \<and> \<not> wli_Paused item"
proof -
  have "cl_ListWorkspaces (app_Client sample_app) [] ''team'' = Inr [sample_workspace ''team'' ''nb'']" by (simp add: sample_client_def)
  from listing_matches_routes [OF _ _ key_order_sample_keys this, of sample_lib sample_range]
  show ?thesis by (force simp: sample_kinds_accepted sample_client_requested list_all2_Cons1)
qed

end
