(* ===== verification/Server_TLS.thy ===== *)
theory Server_TLS
  imports Proxy_TLS
begin

text \<open>
  \<open>controller/pkg/tls/tls.go\<close> and \<open>watcher.go\<close>: the TLS settings of the controller's own
  webhook and metrics servers, resolved once at startup from the TLS profile of the cluster, and
  the watcher that ends the process when the profile changes, so that it is resolved again.

  The raw profile, which the watcher compares with \<open>reflect.DeepEqual\<close>, is a value of a type
  of its own; \<open>profile_of\<close> gives the fields the code reads from it.
\<close>

section \<open>Versions and suites of the Go runtime\<close>

definition VersionTLS10 :: nat where "VersionTLS10 = 0x0301"
definition VersionTLS11 :: nat where "VersionTLS11 = 0x0302"
definition VersionTLS12 :: nat where "VersionTLS12 = 0x0303"
definition VersionTLS13 :: nat where "VersionTLS13 = 0x0304"

lemmas tls_versions = VersionTLS10_def VersionTLS11_def VersionTLS12_def VersionTLS13_def

definition openSSLToGoCipher :: "string \<rightharpoonup> nat" where
  "openSSLToGoCipher = map_of
     [(''TLS_AES_128_GCM_SHA256'', 0x1301), (''TLS_AES_256_GCM_SHA384'', 0x1302), (''TLS_CHACHA20_POLY1305_SHA256'', 0x1303),
      (''ECDHE-ECDSA-AES128-GCM-SHA256'', 0xc02b), (''ECDHE-RSA-AES128-GCM-SHA256'', 0xc02f),
      (''ECDHE-ECDSA-AES256-GCM-SHA384'', 0xc02c), (''ECDHE-RSA-AES256-GCM-SHA384'', 0xc030),
      (''ECDHE-ECDSA-CHACHA20-POLY1305-SHA256'', 0xcca9), (''ECDHE-RSA-CHACHA20-POLY1305-SHA256'', 0xcca8),
      (''ECDHE-ECDSA-CHACHA20-POLY1305'', 0xcca9), (''ECDHE-RSA-CHACHA20-POLY1305'', 0xcca8)]"

definition IntermediateCipherIDs :: "nat list" where
  "IntermediateCipherIDs = [0xc02b, 0xc02f, 0xc02c, 0xc030, 0xcca9, 0xcca8]"

definition tlsVersionMap :: "string \<rightharpoonup> nat" where
  "tlsVersionMap = map_of [(''VersionTLS10'', VersionTLS10), (''VersionTLS11'', VersionTLS11),
     (''VersionTLS12'', VersionTLS12), (''VersionTLS13'', VersionTLS13)]"

section \<open>Reading the profile\<close>

text \<open>A Go slice that may be nil: \<open>None\<close>.\<close>

definition parseCustomProfile :: "tls_profile \<Rightarrow> nat \<times> nat list option" where
  "parseCustomProfile spec =
     (case prf_Custom spec of
        Inl err \<Rightarrow> (VersionTLS12, Some IntermediateCipherIDs)
      | Inr None \<Rightarrow> (VersionTLS12, Some IntermediateCipherIDs)
      | Inr (Some custom) \<Rightarrow>
          (let minTLSStr = (case blk_MinTLSVersion custom of Inr (Some v) \<Rightarrow> v | _ \<Rightarrow> []);
               minVersion = (case tlsVersionMap minTLSStr of Some v \<Rightarrow> v | None \<Rightarrow> VersionTLS12)
           in case blk_Ciphers custom of
                Inl err \<Rightarrow> (minVersion, None)
              | Inr None \<Rightarrow> (minVersion, None)
              | Inr (Some names) \<Rightarrow>
                  if names = [] then (minVersion, None)
                  else (minVersion, Some (List.map_filter openSSLToGoCipher names))))"

definition parseProfile :: "tls_profile lookup \<Rightarrow> nat \<times> nat list option" where
  "parseProfile answer =
     (case answer of
        Inl err \<Rightarrow> (VersionTLS12, Some IntermediateCipherIDs)
      | Inr None \<Rightarrow> (VersionTLS12, Some IntermediateCipherIDs)
      | Inr (Some spec) \<Rightarrow>
          (let profileType = (case prf_Type spec of Inr (Some t) \<Rightarrow> t | _ \<Rightarrow> []) in
           if profileType = ''Intermediate'' \<or> profileType = [] then (VersionTLS12, Some IntermediateCipherIDs)
           else if profileType = ''Modern'' then (VersionTLS13, None)
           else if profileType = ''Old'' then (VersionTLS10, None)
           else if profileType = ''Custom'' then parseCustomProfile spec
           else (VersionTLS12, Some IntermediateCipherIDs)))"

section \<open>Resolving\<close>

record tls_config =
  tc_MinVersion :: nat
  tc_CipherSuites :: "nat list option"
  tc_NextProtos :: "string list"

text \<open>
  The answer to reading the APIServer object, by the class of its error: the cluster has no such
  kind; there is no object; an unavailable or busy API server or a deadline; no permission; any other.
\<close>

datatype 'm bootstrap_answer =
    BootNoMatch | BootNotFound | BootTransient string | BootDenied string | BootFailed string
  | BootFound "'m lookup" "string lookup"

record 'm tls_result =
  tr_TLSOpts :: "(tls_config \<Rightarrow> tls_config) list"
  tr_APIAvailable :: bool
  tr_Profile :: "'m option"
  tr_Adherence :: string

definition intermediateWithALPN :: "tls_config \<Rightarrow> tls_config" where
  "intermediateWithALPN c = c\<lparr>tc_MinVersion := VersionTLS12, tc_CipherSuites := Some IntermediateCipherIDs,
     tc_NextProtos := [''h2'', ''http/1.1'']\<rparr>"

definition normalizeProfileMap :: "'m \<Rightarrow> 'm option \<Rightarrow> 'm" where
  "normalizeProfileMap intermediateProfileMap m = (case m of None \<Rightarrow> intermediateProfileMap | Some x \<Rightarrow> x)"

text \<open>\<open>NestedMap\<close> and \<open>NestedString\<close> with their error dropped.\<close>

definition nested_or_nil :: "'a lookup \<Rightarrow> 'a option" where
  "nested_or_nil l = (case l of Inl err \<Rightarrow> None | Inr v \<Rightarrow> v)"

definition tls_resolve :: "'m \<Rightarrow> ('m \<Rightarrow> tls_profile) \<Rightarrow> 'm bootstrap_answer \<Rightarrow> string + 'm tls_result" where
  "tls_resolve intermediateProfileMap profile_of answer =
     (let fallback = \<lparr>tr_TLSOpts = [intermediateWithALPN], tr_APIAvailable = False, tr_Profile = None, tr_Adherence = []\<rparr> in
      case answer of
        BootNoMatch \<Rightarrow> Inr fallback
      | BootNotFound \<Rightarrow> Inr fallback
      | BootTransient err \<Rightarrow> Inr (fallback\<lparr>tr_APIAvailable := True, tr_Profile := Some intermediateProfileMap\<rparr>)
      | BootDenied err \<Rightarrow> Inr (fallback\<lparr>tr_APIAvailable := True, tr_Profile := Some intermediateProfileMap\<rparr>)
      | BootFailed err \<Rightarrow> Inl (''failed to read APIServer TLS profile: '' @ err)
      | BootFound profile adherence \<Rightarrow>
          (let (minVersion, ciphers) = parseProfile (map_sum id (map_option profile_of) profile) in
           if ciphers = Some [] then Inl ''custom TLS profile specified ciphers but none are supported by Go''
           else Inr \<lparr>
             tr_TLSOpts = [\<lambda>c. (case ciphers of Some cs \<Rightarrow> c\<lparr>tc_CipherSuites := Some cs\<rparr> | None \<Rightarrow> c)
                               \<lparr>tc_MinVersion := minVersion, tc_NextProtos := [''h2'', ''http/1.1'']\<rparr>],
             tr_APIAvailable = True,
             tr_Profile = Some (normalizeProfileMap intermediateProfileMap (nested_or_nil profile)),
             tr_Adherence = (case nested_or_nil adherence of Some a \<Rightarrow> a | None \<Rightarrow> [])\<rparr>))"

text \<open>The options \<open>main\<close> applies to a server: without HTTP/2, the protocols are replaced.\<close>

definition server_config :: "bool \<Rightarrow> 'm tls_result \<Rightarrow> tls_config" where
  "server_config enableHTTP2 r =
     fold (\<lambda>f c. f c) (tr_TLSOpts r @ (if enableHTTP2 then [] else [\<lambda>c. c\<lparr>tc_NextProtos := [''http/1.1'']\<rparr>]))
       \<lparr>tc_MinVersion = 0, tc_CipherSuites = None, tc_NextProtos = []\<rparr>"

text \<open>Whether the sidecar is restricted to FIPS: the build of the process, or the flag of the kernel if it can be read.\<close>

definition FIPSEnabled :: "bool \<Rightarrow> string option \<Rightarrow> bool" where
  "FIPSEnabled fips140 procFile \<longleftrightarrow> fips140 \<or> (case procFile of None \<Rightarrow> False | Some data \<Rightarrow> trim_space data = ''1'')"

section \<open>The watcher\<close>

record 'm ProfileWatcher =
  pw_lastProfile :: "'m option"
  pw_lastAdherence :: string

datatype 'm watch_answer = WatchNotFound | WatchError string | WatchFound "'m lookup" "string lookup"

definition new_watcher :: "'m tls_result \<Rightarrow> 'm ProfileWatcher" where
  "new_watcher r = \<lparr>pw_lastProfile = tr_Profile r, pw_lastAdherence = tr_Adherence r\<rparr>"

text \<open>Returns the new state, whether the callback was called, and an error.\<close>

definition Watcher_Reconcile ::
  "'m \<Rightarrow> 'm ProfileWatcher \<Rightarrow> string \<Rightarrow> 'm watch_answer \<Rightarrow> 'm ProfileWatcher \<times> bool \<times> string option"
where
  "Watcher_Reconcile intermediateProfileMap w name answer =
     (if name \<noteq> ''cluster'' then (w, False, None)
      else case answer of
             WatchNotFound \<Rightarrow> (w, False, None)
           | WatchError err \<Rightarrow> (w, False, Some err)
           | WatchFound profile adherence \<Rightarrow>
               (let current = normalizeProfileMap intermediateProfileMap (nested_or_nil profile);
                    adherence = (case nested_or_nil adherence of Some a \<Rightarrow> a | None \<Rightarrow> [])
                in if pw_lastProfile w \<noteq> Some current \<or> pw_lastAdherence w \<noteq> adherence
                   then (\<lparr>pw_lastProfile = Some current, pw_lastAdherence = adherence\<rparr>, True, None)
                   else (w, False, None)))"

section \<open>What the servers are given\<close>

text \<open>Only the Old profile and a custom profile that asks for it go below TLS 1.2.\<close>

lemma parseProfile_bounds:
  assumes "parseProfile answer = (v, cs)"
  shows "VersionTLS10 \<le> v \<and> v \<le> VersionTLS13"
    and "v < VersionTLS12 \<Longrightarrow> \<exists>p. answer = Inr (Some p) \<and> prf_Type p \<in> {Inr (Some ''Old''), Inr (Some ''Custom'')}"
proof -
  have versions: "tlsVersionMap n = Some x \<Longrightarrow> VersionTLS10 \<le> x \<and> x \<le> VersionTLS13" for n x
    by (auto simp: tlsVersionMap_def tls_versions split: if_splits)
  have custom: "parseCustomProfile p = (x, y) \<Longrightarrow> VersionTLS10 \<le> x \<and> x \<le> VersionTLS13" for p x y
    using versions by (auto simp: parseCustomProfile_def Let_def tls_versions split: sum.splits option.splits if_splits)
  show "VersionTLS10 \<le> v \<and> v \<le> VersionTLS13"
    using assms custom by (auto simp: parseProfile_def Let_def tls_versions split: sum.splits option.splits if_splits)
  show "\<exists>p. answer = Inr (Some p) \<and> prf_Type p \<in> {Inr (Some ''Old''), Inr (Some ''Custom'')}" if "v < VersionTLS12"
    using assms that by (auto simp: parseProfile_def Let_def tls_versions split: sum.splits option.splits if_splits)
qed

text \<open>
  After a start that has read the profile, the watcher does not end the process as long as the
  profile and the adherence stay as they were read: there is no restart loop. After a start that
  could not read it, the first answer that differs from the assumed profile ends the process once.
\<close>

lemma watcher_stable:
  assumes "tls_resolve im pf (BootFound profile adherence) = Inr r"
  shows "Watcher_Reconcile im (new_watcher r) name (WatchFound profile adherence) = (new_watcher r, False, None)"
  using assms by (auto simp: tls_resolve_def Watcher_Reconcile_def new_watcher_def Let_def split: prod.splits if_splits)

lemma watcher_reports_once:
  assumes "Watcher_Reconcile im w name (WatchFound profile adherence) = (w', True, None)"
  shows "Watcher_Reconcile im w' name (WatchFound profile adherence) = (w', False, None)"
  using assms by (auto simp: Watcher_Reconcile_def Let_def split: if_splits)

text \<open>A profile without a usable suite keeps the controller from starting; no server gets an empty list.\<close>

lemma resolved_suites_nonempty:
  assumes "tls_resolve im pf answer = Inr r"
  shows "tc_CipherSuites (server_config h2 r) \<noteq> Some []" and "VersionTLS10 \<le> tc_MinVersion (server_config h2 r)"
  using assms parseProfile_bounds(1)
  by (auto simp: tls_resolve_def server_config_def intermediateWithALPN_def IntermediateCipherIDs_def Let_def tls_versions
      split: bootstrap_answer.splits prod.splits if_splits option.splits)

end
