(* ===== verification/Controller_Startup.thy ===== *)
theory Controller_Startup
  imports Server_TLS Owned_Objects
begin

text \<open>
  \<open>controller/cmd/main.go\<close>: how the controller gets its configuration from flags, the
  environment and its namespace file, which configurations it refuses, which client settings its
  clients get, and the order in which it is set up before it starts.

  The environment is a function from names to values. \<open>strconv.ParseFloat\<close>, \<open>url.Parse\<close>
  with the redaction of the user, and \<open>ctrl.GetConfigOrDie\<close> are arguments.
\<close>

type_synonym environ = "string \<Rightarrow> string option"

section \<open>Environment variables\<close>

definition ParseBoolText :: "string \<Rightarrow> bool option" where
  "ParseBoolText s =
     (if s \<in> {''1'', ''t'', ''T'', ''TRUE'', ''true'', ''True''} then Some True
      else if s \<in> {''0'', ''f'', ''F'', ''FALSE'', ''false'', ''False''} then Some False else None)"

fun digits_value :: "int \<Rightarrow> string \<Rightarrow> int option" where
  "digits_value n [] = Some n"
| "digits_value n (c # cs) =
     (let d = int (of_char c :: nat) - 48 in if 0 \<le> d \<and> d \<le> 9 then digits_value (10 * n + d) cs else None)"

text \<open>\<open>strconv.Atoi\<close> of a 64-bit \<open>int\<close>.\<close>

definition Atoi :: "string \<Rightarrow> int option" where
  "Atoi s =
     (let (neg, ds) = (case s of c # cs \<Rightarrow> if c = CHR ''-'' then (True, cs) else if c = CHR ''+'' then (False, cs) else (False, s)
                       | [] \<Rightarrow> (False, []))
      in if ds = [] then None
         else case digits_value 0 ds of
                None \<Rightarrow> None
              | Some n \<Rightarrow> let v = (if neg then - n else n) in if - (2 ^ 63) \<le> v \<and> v < 2 ^ 63 then Some v else None)"

definition getEnvAsStr :: "environ \<Rightarrow> string \<Rightarrow> string \<Rightarrow> string" where
  "getEnvAsStr env name defaultVal = (case env name of Some v \<Rightarrow> v | None \<Rightarrow> defaultVal)"

definition getEnvAsBool :: "environ \<Rightarrow> string \<Rightarrow> bool \<Rightarrow> bool" where
  "getEnvAsBool env name defaultVal =
     (case Option.bind (env name) ParseBoolText of Some b \<Rightarrow> b | None \<Rightarrow> defaultVal)"

definition getEnvAsInt :: "environ \<Rightarrow> string \<Rightarrow> int \<Rightarrow> int" where
  "getEnvAsInt env name defaultVal = (case Option.bind (env name) Atoi of Some i \<Rightarrow> i | None \<Rightarrow> defaultVal)"

definition getEnvAsFloat64 :: "(string \<Rightarrow> 'f option) \<Rightarrow> environ \<Rightarrow> string \<Rightarrow> 'f \<Rightarrow> 'f" where
  "getEnvAsFloat64 parseFloat env name defaultVal = (case Option.bind (env name) parseFloat of Some f \<Rightarrow> f | None \<Rightarrow> defaultVal)"

definition getControllerNamespace :: "string option \<Rightarrow> environ \<Rightarrow> string \<Rightarrow> string" where
  "getControllerNamespace namespaceFile env defaultVal =
     (case map_option trim_space namespaceFile of
        Some (c # cs) \<Rightarrow> c # cs
      | _ \<Rightarrow> (case map_option trim_space (env ''POD_NAMESPACE'') of
               Some (c # cs) \<Rightarrow> c # cs
             | _ \<Rightarrow> defaultVal))"

text \<open>\<open>redact\<close>: the reference with its user replaced, if it parses as a URL with a user.\<close>

definition sanitizeImageReference :: "(string \<Rightarrow> string option) \<Rightarrow> string \<Rightarrow> string" where
  "sanitizeImageReference redact ref =
     (if ref = [] then [] else case redact ref of None \<Rightarrow> ref | Some redacted \<Rightarrow> redacted)"

section \<open>Configuration\<close>

text \<open>The flags that were given on the command line.\<close>

record controller_flags =
  fl_IstioGateway :: "string option"
  fl_IstioHosts :: "string option"
  fl_ClusterDomain :: "string option"
  fl_UseIstio :: "bool option"
  fl_UseKubeGateway :: "bool option"
  fl_KubeGatewayName :: "string option"
  fl_KubeGatewayNamespace :: "string option"
  fl_KubeRbacProxyImage :: "string option"
  fl_MaxConcurrentReconciles :: "int option"
  fl_EnableHTTP2 :: "bool option"

definition flag_or :: "'a option \<Rightarrow> 'a \<Rightarrow> 'a" where
  "flag_or given defaultVal = (case given of Some v \<Rightarrow> v | None \<Rightarrow> defaultVal)"

definition load_config :: "string option \<Rightarrow> environ \<Rightarrow> controller_flags \<Rightarrow> EnvConfig" where
  "load_config namespaceFile env fl = \<lparr>
     cfg_IstioGateway = flag_or (fl_IstioGateway fl) (getEnvAsStr env ''ISTIO_GATEWAY'' []),
     cfg_IstioHosts = flag_or (fl_IstioHosts fl) (getEnvAsStr env ''ISTIO_HOSTS'' ''*''),
     cfg_ClusterDomain = flag_or (fl_ClusterDomain fl) (getEnvAsStr env ''CLUSTER_DOMAIN'' ''cluster.local''),
     cfg_UseIstio = flag_or (fl_UseIstio fl) (getEnvAsBool env ''USE_ISTIO'' False),
     cfg_UseKubeGateway = flag_or (fl_UseKubeGateway fl) (getEnvAsBool env ''USE_KUBE_GATEWAY'' False),
     cfg_KubeGatewayName = flag_or (fl_KubeGatewayName fl) (getEnvAsStr env ''KUBE_GATEWAY_NAME'' ''kubeflow-gateway''),
     cfg_KubeGatewayNamespace = flag_or (fl_KubeGatewayNamespace fl) (getEnvAsStr env ''KUBE_GATEWAY_NAMESPACE'' ''kubeflow''),
     cfg_ControllerNamespace = getControllerNamespace namespaceFile env ''kubeflow-workspaces'',
     cfg_KubeRbacProxyImage = flag_or (fl_KubeRbacProxyImage fl) (getEnvAsStr env ''KUBE_RBAC_PROXY_IMAGE'' [])\<rparr>"

text \<open>The configurations with which the process exits.\<close>

definition config_error :: "EnvConfig \<Rightarrow> string option" where
  "config_error cfg =
     (if cfg_UseIstio cfg \<and> cfg_UseKubeGateway cfg then Some ''use-istio and use-kube-gateway cannot both be enabled''
      else if cfg_UseKubeGateway cfg \<and> cfg_KubeRbacProxyImage cfg = []
      then Some ''kube-rbac-proxy-image is required when use-kube-gateway is enabled''
      else None)"

section \<open>Clients\<close>

record 'f rest_config =
  rc_QPS :: 'f
  rc_Burst :: int

text \<open>
  \<open>GetConfigOrDie\<close> is called twice and gives two configurations of the same content. The limits of
  the flags are set on the second one, from which the clientset is made; the manager, with the
  client of both controllers, and the executor of the probes get the first one.
\<close>

definition clientset_config :: "'f \<Rightarrow> int \<Rightarrow> 'f rest_config \<Rightarrow> 'f rest_config" where
  "clientset_config clientQPS clientBurst restConfig = restConfig\<lparr>rc_QPS := clientQPS, rc_Burst := clientBurst\<rparr>"

definition manager_config :: "'f \<Rightarrow> int \<Rightarrow> 'f rest_config \<Rightarrow> 'f rest_config" where
  "manager_config clientQPS clientBurst restCfg = restCfg"

section \<open>Setting up\<close>

text \<open>
  The indexes of \<open>SetupManagerFieldIndexers\<close>, by the type of the object and the field.
  \<open>indexField\<close> is \<open>IndexField\<close> of the manager on the state of its cache.
\<close>

type_synonym index_name = "string \<times> string"

definition IndexEventInvolvedObjectUidField :: string where "IndexEventInvolvedObjectUidField = ''.involvedObject.uid''"
definition IndexWorkspaceOwnerField :: string where "IndexWorkspaceOwnerField = ''.metadata.controller''"
definition IndexWorkspaceKindField :: string where "IndexWorkspaceKindField = ''.spec.kind''"
definition IndexWorkspaceKindConfigMapImageSourceField :: string where
  "IndexWorkspaceKindConfigMapImageSourceField = ''.spec.configMapImageSource''"

definition field_indexes :: "EnvConfig \<Rightarrow> index_name list" where
  "field_indexes cfg =
     [(''Event'', IndexEventInvolvedObjectUidField),
      (''StatefulSet'', IndexWorkspaceOwnerField), (''Service'', IndexWorkspaceOwnerField),
      (''ServiceAccount'', IndexWorkspaceOwnerField), (''RoleBinding'', IndexWorkspaceOwnerField)]
     @ (if cfg_UseIstio cfg then [(''VirtualService'', IndexWorkspaceOwnerField)] else [])
     @ [(''Workspace'', IndexWorkspaceKindField), (''WorkspaceKind'', IndexWorkspaceKindConfigMapImageSourceField)]"

fun add_indexes :: "(index_name \<Rightarrow> 's \<Rightarrow> string option \<times> 's) \<Rightarrow> index_name list \<Rightarrow> 's \<Rightarrow> string option \<times> 's" where
  "add_indexes indexField [] st = (None, st)"
| "add_indexes indexField (ix # ixs) st =
     (case indexField ix st of (Some err, st') \<Rightarrow> (Some err, st') | (None, st') \<Rightarrow> add_indexes indexField ixs st')"

definition SetupManagerFieldIndexers ::
  "(index_name \<Rightarrow> 's \<Rightarrow> string option \<times> 's) \<Rightarrow> EnvConfig \<Rightarrow> 's \<Rightarrow> string option \<times> 's"
where
  "SetupManagerFieldIndexers indexField cfg = add_indexes indexField (field_indexes cfg)"

text \<open>The loop around it: the error of the last attempt, the seconds slept, and the state.\<close>

fun setup_indexers :: "('s \<Rightarrow> string option \<times> 's) \<Rightarrow> nat \<Rightarrow> nat \<Rightarrow> 's \<Rightarrow> string option \<times> nat list \<times> 's" where
  "setup_indexers attempt i 0 st = (None, [], st)"
| "setup_indexers attempt i (Suc n) st =
     (case attempt st of
        (None, st') \<Rightarrow> (None, [], st')
      | (Some err, st') \<Rightarrow>
          (case setup_indexers attempt (i + 1) n st' of
             (err', sleeps, st'') \<Rightarrow> (if n = 0 then Some err else err', (i + 1) # sleeps, st'')))"

datatype controller_step =
    ResolveTLS | NewClientset | NewManager | SetupIndexers | SetupWorkspaceController | BuildImageSourceCache
  | SetupKindController | SetupWorkspaceWebhook | SetupKindWebhook | AddHealthz | AddReadyz | SetupTLSWatcher | StartManager

definition controller_steps :: "environ \<Rightarrow> bool \<Rightarrow> controller_step list" where
  "controller_steps env apiAvailable =
     [ResolveTLS, NewClientset, NewManager, SetupIndexers, SetupWorkspaceController, BuildImageSourceCache, SetupKindController]
     @ (if env ''ENABLE_WEBHOOKS'' \<noteq> Some ''false'' then [SetupWorkspaceWebhook, SetupKindWebhook] else [])
     @ [AddHealthz, AddReadyz]
     @ (if apiAvailable then [SetupTLSWatcher] else [])
     @ [StartManager]"

text \<open>A step that fails ends the process with status 1; the steps that were taken are returned.\<close>

fun run_steps :: "('s \<Rightarrow> bool) \<Rightarrow> 's list \<Rightarrow> nat \<times> 's list" where
  "run_steps ok [] = (0, [])"
| "run_steps ok (s # ss) = (if ok s then (case run_steps ok ss of (status, taken) \<Rightarrow> (status, s # taken)) else (1, [s]))"

definition controller_main :: "environ \<Rightarrow> EnvConfig \<Rightarrow> bool \<Rightarrow> (controller_step \<Rightarrow> bool) \<Rightarrow> nat \<times> controller_step list" where
  "controller_main env cfg apiAvailable ok =
     (if config_error cfg \<noteq> None then (1, []) else run_steps ok (controller_steps env apiAvailable))"

section \<open>What a running controller can rely on\<close>

lemma run_steps_prefix:
  "run_steps ok ss = (status, taken) \<Longrightarrow> \<exists>rest. ss = taken @ rest \<and> (\<forall>s \<in> set (butlast taken). ok s) \<and> (status = 0 \<longrightarrow> rest = [] \<and> (\<forall>s \<in> set taken. ok s))"
proof (induction ss arbitrary: status taken)
  case (Cons s ss)
  show ?case
  proof (cases "ok s")
    case True
    obtain st tk where run: "run_steps ok ss = (st, tk)" by fastforce
    with True Cons.prems have "status = st" "taken = s # tk" by simp_all
    with Cons.IH [OF run] True show ?thesis by (auto split: if_splits)
  qed (use Cons.prems in auto)
qed simp

text \<open>The last of distinct steps is taken only after all the others.\<close>

lemma taken_before:
  assumes "ss = taken @ rest" and "last ss \<in> set taken" and "distinct ss"
  shows "butlast taken = butlast ss"
proof (cases rest rule: rev_cases)
  case (snoc rest' x)
  then show ?thesis using assms by simp
qed (use assms in simp)

text \<open>
  When the manager is started, the configuration was accepted, the indexes that the controllers and
  the webhooks query are set up and, unless they are disabled, both webhooks are registered.
\<close>

lemma manager_start_guarded:
  assumes "controller_main env cfg apiAvailable ok = (status, taken)" and "StartManager \<in> set taken"
  shows "config_error cfg = None \<and> ok SetupIndexers \<and> ok ResolveTLS \<and>
    (env ''ENABLE_WEBHOOKS'' \<noteq> Some ''false'' \<longrightarrow> ok SetupWorkspaceWebhook \<and> ok SetupKindWebhook)"
proof -
  from assms have run: "run_steps ok (controller_steps env apiAvailable) = (status, taken)" and cfg: "config_error cfg = None"
    by (auto simp: controller_main_def split: if_splits)
  obtain rest where rest: "controller_steps env apiAvailable = taken @ rest" "\<forall>s \<in> set (butlast taken). ok s"
    using run_steps_prefix [OF run] by blast
  have "last (controller_steps env apiAvailable) = StartManager" "distinct (controller_steps env apiAvailable)"
    by (simp_all add: controller_steps_def)
  then have "butlast taken = butlast (controller_steps env apiAvailable)"
    using taken_before [OF rest(1)] assms(2) by presburger
  then show ?thesis using cfg rest(2) by (auto simp: controller_steps_def)
qed

text \<open>With a gateway there is an image for the sidecar, and never both kinds of routing.\<close>

lemma config_accepted:
  "config_error cfg = None \<Longrightarrow> \<not> (cfg_UseIstio cfg \<and> cfg_UseKubeGateway cfg) \<and> (cfg_UseKubeGateway cfg \<longrightarrow> cfg_KubeRbacProxyImage cfg \<noteq> [])"
  by (auto simp: config_error_def split: if_splits)

text \<open>
  Attempts that all fail are an error after waiting 1, 2, 3, ... seconds: 15 seconds in all for the
  five attempts of the code, the last five of them after the last attempt.
\<close>

lemma setup_indexers_gives_up:
  assumes fails: "\<And>st. fst (attempt st) \<noteq> None"
  shows "fst (snd (setup_indexers attempt i n st)) = [i + 1..<i + n + 1] \<and> (n \<noteq> 0 \<longrightarrow> fst (setup_indexers attempt i n st) \<noteq> None)"
proof (induction n arbitrary: i st)
  case (Suc n)
  obtain err st' where att: "attempt st = (Some err, st')" using fails [of st] by (cases "attempt st") auto
  obtain err' sleeps st'' where rest: "setup_indexers attempt (Suc i) n st' = (err', sleeps, st'')" using prod_cases3 by blast
  from Suc [of "Suc i" st'] rest att show ?case by (simp add: upt_conv_Cons del: upt_Suc)
qed simp

text \<open>
  Adding an index that is already there is an error in the cache library. Then the attempts after
  one that failed beyond the first index fail too, whatever made that one fail: the loop recovers
  only from a failure at the first index.
\<close>

lemma partial_failure_not_retried:
  assumes refused: "\<And>ix st. ix \<in> registered st \<Longrightarrow> \<exists>err. indexField ix st = (Some err, st)"
    and first: "(''Event'', IndexEventInvolvedObjectUidField) \<in> registered st" and "n \<noteq> 0"
  shows "fst (setup_indexers (SetupManagerFieldIndexers indexField cfg) i n st) \<noteq> None"
proof -
  obtain err where "SetupManagerFieldIndexers indexField cfg st = (Some err, st)"
    using refused [OF first] by (auto simp: SetupManagerFieldIndexers_def field_indexes_def)
  then show ?thesis using \<open>n \<noteq> 0\<close>
    by (induction n arbitrary: i) (auto split: prod.splits, metis fst_conv)
qed

end
