(* ===== verification/Backend_Startup.thy ===== *)
theory Backend_Startup
  imports Backend_Routes Controller_Startup
begin

text \<open>
  \<open>backend/cmd/main.go\<close>, \<open>odh_contract_harness.go\<close>, \<open>internal/server/server.go\<close> and
  the outer handlers of \<open>api/app.go\<close> and \<open>middleware.go\<close>: the configuration of the
  backend, the authenticator it selects, how it is set up, started and stopped, and what is wrapped
  around the routes.
\<close>

section \<open>Configuration\<close>

record 'f backend_config =
  bc_Port :: int
  bc_ClientQPS :: 'f
  bc_ClientBurst :: int
  bc_MockK8sClient :: bool
  bc_AuthMethod :: string
  bc_AuthTokenHeader :: string
  bc_AuthTokenPrefix :: string
  bc_UserIdHeader :: string
  bc_UserIdPrefix :: string
  bc_GroupsHeader :: string
  bc_ProxyUrlPrefix :: string
  bc_SwaggerEnabled :: bool
  bc_SwaggerHost :: string
  bc_SwaggerBasePath :: string
  bc_SwaggerScheme :: string
  bc_StaticAssetsDir :: string
  bc_CertFile :: string
  bc_KeyFile :: string

text \<open>The flags that were given on the command line.\<close>

record 'f backend_flags =
  bf_Port :: "int option"
  bf_ClientQPS :: "'f option"
  bf_ClientBurst :: "int option"
  bf_MockK8sClient :: "bool option"
  bf_AuthMethod :: "string option"
  bf_AuthTokenHeader :: "string option"
  bf_AuthTokenPrefix :: "string option"
  bf_UserIdHeader :: "string option"
  bf_UserIdPrefix :: "string option"
  bf_GroupsHeader :: "string option"
  bf_ProxyUrlPrefix :: "string option"
  bf_SwaggerEnabled :: "bool option"
  bf_SwaggerHost :: "string option"
  bf_SwaggerBasePath :: "string option"
  bf_SwaggerScheme :: "string option"
  bf_StaticAssetsDir :: "string option"
  bf_CertFile :: "string option"
  bf_KeyFile :: "string option"

definition DefaultAuthTokenHeader :: string where "DefaultAuthTokenHeader = ''Authorization''"
definition DefaultAuthTokenPrefix :: string where "DefaultAuthTokenPrefix = ''Bearer ''"

text \<open>\<open>qps50\<close> is the float 50, \<open>parseFloat\<close> is \<open>strconv.ParseFloat\<close>.\<close>

definition load_backend_config ::
  "(string \<Rightarrow> 'f option) \<Rightarrow> 'f \<Rightarrow> environ \<Rightarrow> 'f backend_flags \<Rightarrow> 'f backend_config"
where
  "load_backend_config parseFloat qps50 env fl = \<lparr>
     bc_Port = flag_or (bf_Port fl) (getEnvAsInt env ''PORT'' 4000),
     bc_ClientQPS = flag_or (bf_ClientQPS fl) (getEnvAsFloat64 parseFloat env ''CLIENT_QPS'' qps50),
     bc_ClientBurst = flag_or (bf_ClientBurst fl) (getEnvAsInt env ''CLIENT_BURST'' 100),
     bc_MockK8sClient = flag_or (bf_MockK8sClient fl) False,
     bc_AuthMethod = flag_or (bf_AuthMethod fl) (getEnvAsStr env ''AUTH_METHOD'' ''internal''),
     bc_AuthTokenHeader = flag_or (bf_AuthTokenHeader fl) (getEnvAsStr env ''AUTH_TOKEN_HEADER'' DefaultAuthTokenHeader),
     bc_AuthTokenPrefix = flag_or (bf_AuthTokenPrefix fl) (getEnvAsStr env ''AUTH_TOKEN_PREFIX'' DefaultAuthTokenPrefix),
     bc_UserIdHeader = flag_or (bf_UserIdHeader fl) (getEnvAsStr env ''USERID_HEADER'' ''kubeflow-userid''),
     bc_UserIdPrefix = flag_or (bf_UserIdPrefix fl) (getEnvAsStr env ''USERID_PREFIX'' '':''),
     bc_GroupsHeader = flag_or (bf_GroupsHeader fl) (getEnvAsStr env ''GROUPS_HEADER'' ''kubeflow-groups''),
     bc_ProxyUrlPrefix = flag_or (bf_ProxyUrlPrefix fl) (getEnvAsStr env ''PROXY_URL_PREFIX'' []),
     bc_SwaggerEnabled = flag_or (bf_SwaggerEnabled fl) (getEnvAsBool env ''SWAGGER_ENABLED'' False),
     bc_SwaggerHost = flag_or (bf_SwaggerHost fl) (getEnvAsStr env ''SWAGGER_HOST'' ''localhost:4000''),
     bc_SwaggerBasePath = flag_or (bf_SwaggerBasePath fl) (getEnvAsStr env ''SWAGGER_BASE_PATH'' ''/api/v1''),
     bc_SwaggerScheme = flag_or (bf_SwaggerScheme fl) (getEnvAsStr env ''SWAGGER_SCHEME'' ''http''),
     bc_StaticAssetsDir = flag_or (bf_StaticAssetsDir fl) (getEnvAsStr env ''STATIC_ASSETS_DIR'' ''/static''),
     bc_CertFile = flag_or (bf_CertFile fl) (getEnvAsStr env ''CERT_FILE'' []),
     bc_KeyFile = flag_or (bf_KeyFile fl) (getEnvAsStr env ''KEY_FILE'' [])\<rparr>"

text \<open>
  The authenticator of the configuration. \<open>headerAuth\<close> makes the header authenticator of
  \<open>k8s.io/apiserver\<close> for the two headers, or fails.
\<close>

definition select_authenticator ::
  "(string \<Rightarrow> string + TokenReviewStatus) \<Rightarrow> (string \<Rightarrow> string \<Rightarrow> string + authenticator) \<Rightarrow> 'f backend_config \<Rightarrow> string + authenticator"
where
  "select_authenticator tokenReviews headerAuth cfg =
     (if bc_AuthMethod cfg = ''user_token''
      then Inr (NewBearerTokenAuthenticator tokenReviews (bc_AuthTokenHeader cfg) (bc_AuthTokenPrefix cfg))
      else if bc_AuthMethod cfg = ''internal''
      then (case headerAuth (bc_UserIdHeader cfg) (bc_GroupsHeader cfg) of
              Inl err \<Rightarrow> Inl (''failed to create request header authenticator: '' @ err)
            | Inr auth \<Rightarrow> Inr (NewRequestAuthenticator auth (bc_UserIdPrefix cfg)))
      else Inl (''unsupported auth method '' @ go_quote (bc_AuthMethod cfg) @ '': must be \"internal\" or \"user_token\"''))"

section \<open>The contract-test harness\<close>

record odhCompatFlags =
  odh_allowedOrigins :: string
  odh_mockMRClient :: bool

text \<open>The warnings that are logged.\<close>

definition odh_warn :: "odhCompatFlags option \<Rightarrow> string list" where
  "odh_warn c =
     (case c of
        None \<Rightarrow> []
      | Some f \<Rightarrow>
          (if odh_allowedOrigins f \<noteq> [] then [''--allowed-origins is accepted for ODH harness compatibility but not enforced''] else [])
          @ (if odh_mockMRClient f then [''--mock-mr-client is accepted for ODH harness compatibility but has no effect''] else []))"

text \<open>
  \<open>startMockK8s\<close> of a build without the tag \<open>mockk8s\<close>. A function that stops the API server is
  given by the error it returns.
\<close>

type_synonym stop_fn = "string option"

definition startMockK8s_disabled :: "string + 'f rest_config \<times> stop_fn option" where
  "startMockK8s_disabled = Inl ''mock Kubernetes support is not compiled into this binary; rebuild with -tags mockk8s''"

definition resolveKubeconfig ::
  "(string + 'f rest_config) \<Rightarrow> (string + 'f rest_config \<times> stop_fn option) \<Rightarrow> 'f backend_config \<Rightarrow> string + 'f rest_config \<times> stop_fn option"
where
  "resolveKubeconfig getConfig startMockK8s cfg =
     (if \<not> bc_MockK8sClient cfg
      then (case getConfig of
              Inl err \<Rightarrow> Inl (''failed to get Kubernetes config: '' @ err)
            | Inr kubeconfig \<Rightarrow> Inr (kubeconfig, None))
      else (case startMockK8s of
              Inl err \<Rightarrow> Inl (''failed to start envtest Kubernetes API: '' @ err)
            | Inr (kubeconfig, stopFn) \<Rightarrow> Inr (kubeconfig, stopFn)))"

definition deferMockK8sStop :: "stop_fn option \<Rightarrow> nat \<Rightarrow> nat" where
  "deferMockK8sStop stopFn status = (case stopFn of None \<Rightarrow> status | Some None \<Rightarrow> status | Some (Some err) \<Rightarrow> 1)"

section \<open>The HTTP server\<close>

text \<open>Durations are in seconds.\<close>

record http_server =
  hs_Addr :: string
  hs_MaxBodyBytes :: nat
  hs_IdleTimeout :: nat
  hs_ReadTimeout :: nat
  hs_ReadHeaderTimeout :: nat
  hs_WriteTimeout :: nat
  hs_MaxHeaderBytes :: nat
  hs_certFile :: string
  hs_keyFile :: string

definition maxHeaderBytes :: nat where "maxHeaderBytes = 2 ^ 17"
definition maxBodyBytes :: nat where "maxBodyBytes = 2 ^ 22"

text \<open>\<open>listen\<close> is \<open>net.Listen\<close>: the error for an address, if there is one.\<close>

definition NewServer :: "(string \<Rightarrow> string option) \<Rightarrow> 'f backend_config \<Rightarrow> string + http_server" where
  "NewServer listen cfg =
     (if (bc_CertFile cfg = []) \<noteq> (bc_KeyFile cfg = [])
      then Inl ''cert-file and key-file must be provided together''
      else case listen (CHR '':'' # int_dec (bc_Port cfg)) of
             Some err \<Rightarrow> Inl (''failed to create listener: '' @ err)
           | None \<Rightarrow> Inr \<lparr>hs_Addr = CHR '':'' # int_dec (bc_Port cfg), hs_MaxBodyBytes = maxBodyBytes, hs_IdleTimeout = 90,
               hs_ReadTimeout = 32, hs_ReadHeaderTimeout = 32, hs_WriteTimeout = 32, hs_MaxHeaderBytes = maxHeaderBytes,
               hs_certFile = bc_CertFile cfg, hs_keyFile = bc_KeyFile cfg\<rparr>)"

datatype serve_error = ErrServerClosed | ServeFailed string

text \<open>\<open>serves\<close>: the error of \<open>ServeTLS\<close> with the given least version, or of \<open>Serve\<close>, when it returns.\<close>

definition Server_Start :: "(nat option \<Rightarrow> serve_error option) \<Rightarrow> http_server \<Rightarrow> string option" where
  "Server_Start serves s =
     (let tlsEnabled = (hs_certFile s \<noteq> [] \<and> hs_keyFile s \<noteq> []) in
      case serves (if tlsEnabled then Some VersionTLS13 else None) of
        Some (ServeFailed err) \<Rightarrow> Some err
      | _ \<Rightarrow> None)"

section \<open>Running\<close>

datatype backend_step =
    ResolveKubeconfig | BuildScheme | NewBackendManager | NewBackendClientset | NewAuthenticator | NewAuthorizer
  | BuildImageSourceClient | NewApp | NewHttpServer | SetupServer | StartBackendManager

definition backend_steps :: "backend_step list" where
  "backend_steps = [BuildScheme, NewBackendManager, NewBackendClientset, NewAuthenticator, NewAuthorizer,
     BuildImageSourceClient, NewApp, NewHttpServer, SetupServer, StartBackendManager]"

text \<open>One configuration, with the limits of the flags, for the manager and the clientset.\<close>

definition limited_config :: "'f backend_config \<Rightarrow> 'f rest_config \<Rightarrow> 'f rest_config" where
  "limited_config cfg kubeconfig = kubeconfig\<lparr>rc_QPS := bc_ClientQPS cfg, rc_Burst := bc_ClientBurst cfg\<rparr>"

record 'f backend_world =
  bw_GetConfig :: "string + 'f rest_config"
  bw_StartMock :: "string + 'f rest_config \<times> stop_fn option"
  bw_TokenReviews :: "string \<Rightarrow> string + TokenReviewStatus"
  bw_HeaderAuth :: "string \<Rightarrow> string \<Rightarrow> string + authenticator"
  bw_Listen :: "string \<Rightarrow> string option"
  bw_Library :: "'f rest_config \<Rightarrow> backend_step \<Rightarrow> bool"

text \<open>A step succeeds if the code under \<open>src\<close> and the libraries it calls do.\<close>

definition step_ok :: "'f backend_world \<Rightarrow> 'f backend_config \<Rightarrow> 'f rest_config \<Rightarrow> backend_step \<Rightarrow> bool" where
  "step_ok w cfg kubeconfig s =
     (bw_Library w kubeconfig s \<and>
      (case s of
         NewAuthenticator \<Rightarrow> succeeded (select_authenticator (bw_TokenReviews w) (bw_HeaderAuth w) cfg)
       | NewHttpServer \<Rightarrow> succeeded (NewServer (bw_Listen w) cfg)
       | _ \<Rightarrow> True))"

definition backend_run :: "'f backend_world \<Rightarrow> 'f backend_config \<Rightarrow> nat \<times> backend_step list" where
  "backend_run w cfg =
     (case resolveKubeconfig (bw_GetConfig w) (bw_StartMock w) cfg of
        Inl err \<Rightarrow> (1, [ResolveKubeconfig])
      | Inr (kubeconfig, stopFn) \<Rightarrow>
          (case run_steps (step_ok w cfg (limited_config cfg kubeconfig)) backend_steps of
             (status, taken) \<Rightarrow> (deferMockK8sStop stopFn status, ResolveKubeconfig # taken)))"

section \<open>What a running backend can rely on\<close>

text \<open>An unknown method is refused, and the accepted ones differ in nothing but the source of the identity.\<close>

lemma select_authenticator_method:
  "succeeded (select_authenticator tokenReviews headerAuth cfg) \<Longrightarrow> bc_AuthMethod cfg \<in> {''user_token'', ''internal''}"
  by (auto simp: select_authenticator_def split: if_splits)

text \<open>
  With the method \<open>user_token\<close> an identity is one that the API server confirmed for the only value
  of the header: a request with several values, with another prefix or with an empty token has none.
\<close>

lemma bearer_identity:
  assumes "NewBearerTokenAuthenticator tokenReviews header prefix rq = Inr (Some u)"
  obtains raw status where "rq_Header rq header = [raw]" and "prefix \<noteq> [] \<Longrightarrow> has_prefix raw prefix"
    and "tokenReviews (trim_space (if prefix \<noteq> [] then trim_prefix raw prefix else raw)) = Inr status"
    and "tr_Authenticated status" and "ui_Name u = ui_Name (tr_User status)" and "ui_UID u = ui_UID (tr_User status)"
    and "ui_Extra u = ui_Extra (tr_User status)" and "''system:authenticated'' \<in> set (ui_Groups u)"
    and "set (ui_Groups u) \<subseteq> insert ''system:authenticated'' (set (ui_Groups (tr_User status)))"
proof -
  obtain raw where raw: "rq_Header rq header = [raw]"
    using assms by (auto simp: NewBearerTokenAuthenticator_def split: list.splits)
  then show thesis
    using assms
    by (intro that [of raw "projr (tokenReviews (trim_space (if prefix \<noteq> [] then trim_prefix raw prefix else raw)))"])
       (auto simp: NewBearerTokenAuthenticator_def withAuthenticatedGroup_def Let_def split: if_splits sum.splits)
qed

text \<open>
  The manager is started only with a known method and an authenticator for it, and either with both
  files of a certificate or with none; then the server speaks TLS 1.3 or plain HTTP.
\<close>

lemma backend_start_guarded:
  assumes "backend_run w cfg = (status, taken)" and "StartBackendManager \<in> set taken"
  obtains auth s where "select_authenticator (bw_TokenReviews w) (bw_HeaderAuth w) cfg = Inr auth"
    and "NewServer (bw_Listen w) cfg = Inr s" and "hs_certFile s = [] \<longleftrightarrow> hs_keyFile s = []"
proof -
  obtain kubeconfig st tk where run: "run_steps (step_ok w cfg (limited_config cfg kubeconfig)) backend_steps = (st, tk)"
      and tk: "StartBackendManager \<in> set tk"
    using assms by (auto simp: backend_run_def split: sum.splits prod.splits)
  obtain rest where rest: "backend_steps = tk @ rest" "\<forall>s \<in> set (butlast tk). step_ok w cfg (limited_config cfg kubeconfig) s"
    using run_steps_prefix [OF run] by blast
  have "last backend_steps = StartBackendManager" "distinct backend_steps" by (simp_all add: backend_steps_def)
  then have "butlast tk = butlast backend_steps" using taken_before [OF rest(1)] tk by presburger
  then have "NewAuthenticator \<in> set (butlast tk)" "NewHttpServer \<in> set (butlast tk)" by (simp_all add: backend_steps_def)
  with rest(2) have ok: "succeeded (select_authenticator (bw_TokenReviews w) (bw_HeaderAuth w) cfg)" "succeeded (NewServer (bw_Listen w) cfg)"
    by (auto simp: step_ok_def)
  then obtain auth s where inr: "select_authenticator (bw_TokenReviews w) (bw_HeaderAuth w) cfg = Inr auth"
      "NewServer (bw_Listen w) cfg = Inr s" by (metis sum.collapse(2))
  then have "hs_certFile s = [] \<longleftrightarrow> hs_keyFile s = []" by (auto simp: NewServer_def split: if_splits option.splits)
  with inr show thesis by (rule that)
qed

lemma Server_Start_secure:
  assumes "NewServer listen cfg = Inr s"
  shows "bc_CertFile cfg \<noteq> [] \<Longrightarrow> Server_Start serves s = Server_Start (\<lambda>_. serves (Some VersionTLS13)) s"
    and "bc_CertFile cfg = [] \<Longrightarrow> Server_Start serves s = Server_Start (\<lambda>_. serves None) s"
  using assms by (auto simp: NewServer_def Server_Start_def split: if_splits option.splits)

text \<open>A failure of the start or of the stop is visible in the exit status.\<close>

lemma backend_exit_status:
  "fst (backend_run w cfg) = 0 \<longleftrightarrow>
     (\<exists>kubeconfig stopFn. resolveKubeconfig (bw_GetConfig w) (bw_StartMock w) cfg = Inr (kubeconfig, stopFn) \<and>
        fst (run_steps (step_ok w cfg (limited_config cfg kubeconfig)) backend_steps) = 0 \<and> stopFn \<in> {None, Some None})"
  by (auto simp: backend_run_def deferMockK8sStop_def split: sum.splits prod.splits option.splits)

end
