(* ===== verification/Backend_Server.thy ===== *)
theory Backend_Server
  imports Backend_Startup
begin

text \<open>
  What \<open>App.Routes\<close> of \<open>backend/api/app.go\<close> builds around the routes: the multiplexer
  that separates the API from the static files, and the two handlers of \<open>middleware.go\<close>.

  \<open>http.ServeMux\<close> is modelled for the two patterns the code registers. A panic of a handler, before it
  has written a response, is the left value of its result; the response headers the handlers set are
  threaded through. The limit of the size of a body is in the answers of the decoders
  (\<open>MaxBytesError\<close>); compression of the responses is not modelled.
\<close>

section \<open>Paths\<close>

text \<open>\<open>path.Clean\<close> of a rooted path.\<close>

fun path_segments :: "string \<Rightarrow> string list" where
  "path_segments [] = [[]]"
| "path_segments (c # cs) =
     (if c = CHR ''/'' then [] # path_segments cs
      else case path_segments cs of [] \<Rightarrow> [[c]] | s # ss \<Rightarrow> (c # s) # ss)"

definition clean_step :: "string list \<Rightarrow> string \<Rightarrow> string list" where
  "clean_step acc s = (if s = [] \<or> s = ''.'' then acc else if s = ''..'' then butlast acc else acc @ [s])"

definition rooted :: "string list \<Rightarrow> string" where
  "rooted segs = (if segs = [] then ''/'' else concat (map (Cons (CHR ''/'')) segs))"

definition path_Clean :: "string \<Rightarrow> string" where
  "path_Clean p = rooted (foldl clean_step [] (path_segments p))"

text \<open>\<open>cleanPath\<close> of \<open>net/http\<close>, which keeps a trailing slash.\<close>

definition cleanPath :: "string \<Rightarrow> string" where
  "cleanPath p =
     (if p = [] then ''/''
      else let p = (if hd p \<noteq> CHR ''/'' then CHR ''/'' # p else p); np = path_Clean p
           in if last p = CHR ''/'' \<and> np \<noteq> ''/'' then np @ ''/'' else np)"

section \<open>The multiplexer\<close>

definition PathPrefix :: string where "PathPrefix = ''/api/v1''"

datatype mux_target = MuxRedirect string | MuxApi | MuxStatic | MuxNotFound

definition mux_target_of :: "string \<Rightarrow> http_request \<Rightarrow> string \<Rightarrow> mux_target" where
  "mux_target_of staticAssetsDir rq urlPath =
     (let p = (if rq_Method rq = ''CONNECT'' then urlPath else cleanPath urlPath) in
      if p = PathPrefix then MuxRedirect (cleanPath urlPath @ ''/'')
      else if p \<noteq> urlPath then MuxRedirect p
      else if has_prefix p (PathPrefix @ ''/'') then MuxApi
      else if staticAssetsDir \<noteq> [] then MuxStatic
      else MuxNotFound)"

datatype outer_reply = ApiReply "api_data http_response" | FileReply string | PageReply string string | RedirectReply string | PlainNotFound

text \<open>A file of the static directory, or the page of the application for every other path.\<close>

definition static_handler :: "(string \<Rightarrow> bool) \<Rightarrow> string \<Rightarrow> string \<Rightarrow> outer_reply" where
  "static_handler opens staticAssetsDir urlPath =
     (if opens urlPath then FileReply urlPath else PageReply staticAssetsDir ''index.html'')"

section \<open>Middleware\<close>

type_synonym headers = "string \<rightharpoonup> string"
type_synonym outer_handler = "http_request \<Rightarrow> headers \<Rightarrow> be_trace \<Rightarrow> (string + outer_reply) \<times> headers \<times> be_trace"

definition recoverPanic :: "outer_handler \<Rightarrow> outer_handler" where
  "recoverPanic handler rq h t =
     (case handler rq h t of
        (Inl err, h', t') \<Rightarrow> (Inr (ApiReply serverErrorResponse), h'(''Connection'' \<mapsto> ''close''), t')
      | (Inr reply, h', t') \<Rightarrow> (Inr reply, h', t'))"

definition enableCORS :: "outer_handler \<Rightarrow> outer_handler" where
  "enableCORS handler rq h t = handler rq (h(''Access-Control-Allow-Origin'' \<mapsto> ''*'')) t"

text \<open>The router of the API; \<open>router\<close> is the match of the router library, \<open>panics\<close> whether a handler panics.\<close>

definition mux_handler ::
  "server \<Rightarrow> string \<Rightarrow> (string \<Rightarrow> bool) \<Rightarrow> (http_request \<Rightarrow> string \<Rightarrow> matched) \<Rightarrow>
   (http_request \<Rightarrow> be_trace \<Rightarrow> string option) \<Rightarrow> string \<Rightarrow> outer_handler"
where
  "mux_handler s staticAssetsDir opens router panics urlPath rq h t =
     (case mux_target_of staticAssetsDir rq urlPath of
        MuxRedirect target \<Rightarrow> (Inr (RedirectReply target), h, t)
      | MuxApi \<Rightarrow>
          (case serve s (router rq urlPath) rq t of
             (r, t') \<Rightarrow> (case panics rq t' of Some err \<Rightarrow> (Inl err, h, t') | None \<Rightarrow> (Inr (ApiReply r), h, t')))
      | MuxStatic \<Rightarrow> (Inr (static_handler opens staticAssetsDir urlPath), h, t)
      | MuxNotFound \<Rightarrow> (Inr PlainNotFound, h, t))"

definition app_handler ::
  "server \<Rightarrow> string \<Rightarrow> (string \<Rightarrow> bool) \<Rightarrow> (http_request \<Rightarrow> string \<Rightarrow> matched) \<Rightarrow>
   (http_request \<Rightarrow> be_trace \<Rightarrow> string option) \<Rightarrow> string \<Rightarrow> outer_handler"
where
  "app_handler s staticAssetsDir opens router panics urlPath =
     recoverPanic (enableCORS (mux_handler s staticAssetsDir opens router panics urlPath))"

section \<open>Cleaning a path\<close>

definition clean_segment :: "string \<Rightarrow> bool" where
  "clean_segment s \<longleftrightarrow> s \<noteq> [] \<and> s \<noteq> ''.'' \<and> s \<noteq> ''..'' \<and> CHR ''/'' \<notin> set s"

lemma path_segments_nonempty [simp]: "path_segments p \<noteq> []"
  by (induction p) (auto split: list.splits)

lemma path_segments_no_slash: "s \<in> set (path_segments p) \<Longrightarrow> CHR ''/'' \<notin> set s"
  by (induction p arbitrary: s) (auto split: list.splits if_splits)

lemma path_segments_append:
  "CHR ''/'' \<notin> set s \<Longrightarrow> path_segments (s @ CHR ''/'' # p) = s # path_segments p"
  by (induction s) auto

lemma path_segments_plain: "CHR ''/'' \<notin> set s \<Longrightarrow> path_segments s = [s]"
  by (induction s) auto

lemma path_segments_rooted:
  assumes "\<forall>s \<in> set segs. CHR ''/'' \<notin> set s" and "CHR ''/'' \<notin> set s"
  shows "path_segments (s @ concat (map (Cons (CHR ''/'')) segs)) = s # segs"
    and "path_segments (s @ concat (map (Cons (CHR ''/'')) segs) @ ''/'') = s # segs @ [[]]"
  using assms
  by (induction segs arbitrary: s) (simp_all add: path_segments_append path_segments_plain)

lemma clean_step_clean:
  assumes "\<forall>x \<in> set acc. clean_segment x" and "CHR ''/'' \<notin> set s"
  shows "\<forall>x \<in> set (clean_step acc s). clean_segment x"
proof (cases "clean_segment s")
  case False
  then have "set (clean_step acc s) \<subseteq> set acc"
    using assms(2) by (auto simp only: clean_segment_def clean_step_def if_True simp_thms split: if_splits dest: in_set_butlastD)
  with assms(1) show ?thesis by blast
qed (use assms(1) in \<open>auto simp only: clean_step_def clean_segment_def set_append list.set split: if_splits\<close>)

lemma foldl_clean:
  "\<lbrakk>\<forall>s \<in> set acc. clean_segment s; \<forall>s \<in> set segs. CHR ''/'' \<notin> set s\<rbrakk> \<Longrightarrow> \<forall>s \<in> set (foldl clean_step acc segs). clean_segment s"
proof (induction segs arbitrary: acc)
  case (Cons a segs)
  have "\<forall>x \<in> set (clean_step acc a). clean_segment x" using Cons.prems by (intro clean_step_clean) simp_all
  then show ?case using Cons.IH Cons.prems(2) by simp
qed simp

lemma clean_step_snoc: "clean_segment s \<Longrightarrow> clean_step acc s = acc @ [s]"
  by (simp only: clean_step_def clean_segment_def simp_thms if_False)

lemma foldl_clean_id: "\<forall>s \<in> set segs. clean_segment s \<Longrightarrow> foldl clean_step acc segs = acc @ segs"
  by (induction segs arbitrary: acc) (simp_all add: clean_step_snoc)

lemma path_Clean_rooted:
  assumes "\<forall>s \<in> set segs. clean_segment s" and "segs \<noteq> []"
  shows "path_Clean (rooted segs) = rooted segs" and "path_Clean (rooted segs @ ''/'') = rooted segs"
proof -
  have "\<forall>s \<in> set segs. CHR ''/'' \<notin> set s" using assms(1) by (simp add: clean_segment_def)
  then have "path_segments (rooted segs) = [] # segs" "path_segments (rooted segs @ ''/'') = [] # segs @ [[]]"
    using path_segments_rooted [of segs "[]"] assms(2) by (simp_all add: rooted_def)
  then show "path_Clean (rooted segs) = rooted segs" "path_Clean (rooted segs @ ''/'') = rooted segs"
    using foldl_clean_id [OF assms(1), of "[]"] by (simp_all add: path_Clean_def clean_step_def)
qed

lemma rooted_ends:
  assumes "\<forall>s \<in> set segs. clean_segment s" and "segs \<noteq> []"
  shows "last (rooted segs) \<noteq> CHR ''/''" and "hd (rooted segs) = CHR ''/''" and "rooted segs \<noteq> []"
proof -
  obtain segs' s where segs: "segs = segs' @ [s]" using assms(2) by (cases segs rule: rev_cases) auto
  then have s: "s \<noteq> []" "CHR ''/'' \<notin> set s" using assms(1) by (simp_all add: clean_segment_def)
  then have "last s \<noteq> CHR ''/''" using last_in_set by metis
  with segs s(1) show "last (rooted segs) \<noteq> CHR ''/''" by (simp add: rooted_def)
  show "hd (rooted segs) = CHR ''/''" "rooted segs \<noteq> []" using assms(2) by (cases segs; simp add: rooted_def)+
qed

lemma cleanPath_shape:
  obtains "cleanPath p = ''/''"
  | segs where "segs \<noteq> []" "\<forall>s \<in> set segs. clean_segment s" "cleanPath p \<in> {rooted segs, rooted segs @ ''/''}"
proof -
  define q where "q = (if p \<noteq> [] \<and> hd p \<noteq> CHR ''/'' then CHR ''/'' # p else p)"
  define segs where "segs = foldl clean_step [] (path_segments q)"
  have clean: "\<forall>s \<in> set segs. clean_segment s"
    unfolding segs_def using path_segments_no_slash by (intro foldl_clean) auto
  have "cleanPath p = ''/'' \<or> (segs \<noteq> [] \<and> cleanPath p \<in> {rooted segs, rooted segs @ ''/''})"
    by (auto simp: cleanPath_def path_Clean_def segs_def q_def Let_def rooted_def)
  with clean that show thesis by blast
qed

text \<open>Cleaning is idempotent.\<close>

lemma cleanPath_idem [simp]: "cleanPath (cleanPath p) = cleanPath p"
proof (cases p rule: cleanPath_shape)
  case (2 segs)
  note ends = rooted_ends [OF 2(2) 2(1)] and same = path_Clean_rooted [OF 2(2) 2(1)]
  have "rooted segs \<noteq> ''/''" using ends(1) by force
  then have "cleanPath (rooted segs) = rooted segs" "cleanPath (rooted segs @ ''/'') = rooted segs @ ''/''"
    using ends same by (simp_all add: cleanPath_def)
  with 2(3) show ?thesis by auto
qed (simp add: cleanPath_def path_Clean_def rooted_def clean_step_def)

section \<open>Serving a request\<close>

text \<open>The target of a redirect is not redirected again.\<close>

lemma mux_no_redirect_loop:
  assumes "mux_target_of dir rq urlPath = MuxRedirect target" and "rq_Method rq \<noteq> ''CONNECT''"
  shows "mux_target_of dir rq target \<noteq> MuxRedirect target'"
proof (cases "cleanPath urlPath = PathPrefix")
  case True
  then have "target = ''/api/v1/''" using assms by (auto simp: mux_target_of_def PathPrefix_def)
  then show ?thesis using assms(2)
    by (simp add: mux_target_of_def PathPrefix_def cleanPath_def path_Clean_def rooted_def clean_step_def has_prefix_def)
next
  case False
  then have "target = cleanPath urlPath" using assms(1,2) by (auto simp: mux_target_of_def Let_def split: if_splits)
  then show ?thesis using assms(2) False by (simp add: mux_target_of_def Let_def)
qed

text \<open>
  Every request gets a response, also when a handler panics; every response allows all origins; and
  only a request for a path of the API leads to calls to the API server.
\<close>

lemma app_handler_answers:
  assumes "app_handler s dir opens router panics urlPath rq h t = (r, h', t')"
  shows "\<exists>reply. r = Inr reply" and "h' ''Access-Control-Allow-Origin'' = Some ''*''"
    and "t' \<noteq> t \<Longrightarrow> has_prefix urlPath (PathPrefix @ ''/'')"
  using assms
  by (auto simp: app_handler_def recoverPanic_def enableCORS_def mux_handler_def mux_target_of_def Let_def
      split: prod.splits sum.splits mux_target.splits option.splits if_splits)

text \<open>A panic is answered with 500, and the connection is closed.\<close>

lemma panic_answer:
  assumes "app_handler s dir opens router panics urlPath rq h t = (Inr reply, h', t')"
    and "mux_target_of dir rq urlPath = MuxApi" and "serve s (router rq urlPath) rq t = (r, t')" and "panics rq t' = Some err"
  shows "reply = ApiReply serverErrorResponse \<and> h' ''Connection'' = Some ''close''"
  using assms by (auto simp: app_handler_def recoverPanic_def enableCORS_def mux_handler_def)

end
