(* ===== verification/Spec2Isabelle.thy ===== *)
theory Spec2Isabelle
  imports Kind_Controller Reconcile_Errors Reconcile_Converges Probe_Rate Redirect_Loop Watches Probe_Transport Secret_Privacy
    Backend_Listing Backend_Server
begin

text \<open>
  \<^bold>\<open>The program.\<close> The repository runs interactive workspaces on Kubernetes. Under
  \<open>src/workspaces\<close> it has two Go programs that share the custom resources
  \<open>Workspace\<close> (what a user wants to run) and \<open>WorkspaceKind\<close> (a template of an administrator,
  with image and pod options, probes and rules).

  \<^item> The \<open>controller\<close> has two reconcile loops and two validating admission webhooks. The Workspace
    controller generates a ServiceAccount, RoleBindings, a StatefulSet, Services and the routes (Istio, or
    the Kubernetes Gateway with a kube-rbac-proxy sidecar), reports the status, probes running Workspaces
    for activity and pauses idle ones. The WorkspaceKind controller counts uses and hashes icons.
  \<^item> The \<open>backend\<close> is an HTTP API over the same resources, Secrets and volumes. It authenticates each
    request, asks the API server for permission, and then reads or writes with its own account.
  \<^item> They interact only through the cluster: the backend writes Workspaces, the webhooks admit or refuse
    them, events make the controllers reconcile.

  \<^bold>\<open>Modelling.\<close> A struct is a record, an enum a datatype, a pointer an option, a byte string a
  \<open>string\<close>, a Go map a finite or partial map. Integers that may overflow are wrapped at their width
  (\<open>wrap32\<close>, \<open>wrap64\<close>). Iteration over a map has an explicit order, an argument of which only
  \<open>range_order\<close> or \<open>key_order\<close> is assumed. Errors are values of sum types; a panic is a value too. Code that
  is not in the repository (the Kubernetes client and its validators, SHA-256, JSON and YAML decoding, the
  clock) is an argument or a record of arguments; what is assumed of it is a hypothesis of the
  theorem, and a witness instantiates it. Code that talks to the cluster runs on the trace of its calls:
  a step gets the calls so far with their answers, makes further calls, and goes on or ends the run. The answers may
  be any function of the trace, so nothing is assumed about what other clients do in between.

  \<^bold>\<open>Shared theories.\<close> \<open>Prelude\<close> has Go primitives and generic lemmas;
  \<open>Api_Types\<close>, \<open>Cluster_Objects\<close>, \<open>Field_Errors\<close> and \<open>Selectors\<close> have the data;
  \<open>Trace_Steps\<close> has steps over traces and the locale \<open>guarded_trace\<close> (no call of a class is made before
  its guard holds), interpreted for the guarantees of the reconcile and of the backend;
  \<open>Fail_Fast\<close> has the contract of code that checks every answer, interpreted for the reconcile;
  \<open>Replay\<close> has programs that read what their own calls stored, interpreted for the cluster of \<open>Cluster_Store\<close>;
  \<open>First_Match\<close> has the contract of an ordered rule engine, interpreted for both engines;
  \<open>Sample_Objects\<close> and \<open>Backend_Sample\<close> have the concrete objects of the witnesses.

  \<^bold>\<open>Admission.\<close> \<open>Graph_Cycle\<close> (\<open>helper/graph.go\<close>) and \<open>Redirects\<close> (redirects of options, in the
  webhook and the controller): a cycle is found exactly when there is one, and for an accepted kind
  resolving an option ends at a value without a redirect. \<open>Redirect_Loop\<close> has the same loop without a measure: it returns for every kind.
  \<open>Kind_Webhook\<close>, \<open>Kind_Webhook_Correct\<close> and \<open>Usage_Counts\<close>
  (\<open>workspacekind_webhook.go\<close>): an update that passes the incremental checks leaves a kind that passes the
  full ones, and options in use are neither removed nor changed. \<open>Workspace_Webhook\<close>
  (\<open>workspace_webhook.go\<close>). \<open>Cluster\<close> composes both into an inductive relation of admitted requests, with reads that
  may be stale: in every reachable cluster each Workspace whose kind no stale read was used for can be reconciled, up to templates that
  fail with its own paths only.

  \<^bold>\<open>The Workspace controller.\<close> \<open>Names\<close>, \<open>Owned_Objects\<close>, \<open>Routing_Objects\<close>,
  \<open>Objects_Correct\<close> (the \<open>generate...\<close> functions): objects are well formed, fit together and can be
  generated for accepted kinds. \<open>Field_Copy\<close> (\<open>helper/helper.go\<close>): updates converge, one locale for eight
  copiers. \<open>Role_Bindings\<close>: exactly the wanted bindings remain. \<open>Proxy_TLS\<close> (\<open>pkg/tls/proxy.go\<close>).
  \<open>Workspace_State\<close>, \<open>Reconcile_Status\<close>: the observed state and the end of a pass.
  \<open>Probe\<close>, \<open>Probe_Transport\<close> (\<open>helper/probe.go\<close>), \<open>Activity_Rules\<close> (\<open>helper/activity.go\<close>),
  \<open>Activity_Reconcile\<close>, \<open>Activity_Correct\<close> (\<open>workspace_activity.go\<close>): a Workspace is paused only after a
  fresh probe that shows it idle, a failed probe is harmless. \<open>Probe_Rate\<close>: over the passes of a Workspace that stays running,
  probes are rate limited.
  \<open>Reconcile_Steps\<close>, \<open>Reconcile\<close>, \<open>Reconcile_Correct\<close> (\<open>workspace_controller.go\<close>): the whole
  pass with every write, and the order of its writes: protection before use, cleanup before
  release, no template without TLS settings. \<open>Reconcile_Errors\<close>: a write that fails ends the pass with its error.
  \<open>Cluster_Store\<close>, \<open>Reconcile_Settled\<close>, \<open>Reconcile_Converges\<close>: against an API server that accepts every
  write and fills in names and defaults, and with reads that are caught up, a pass leaves a cluster the next pass does not change.

  \<^bold>\<open>The WorkspaceKind controller\<close> is \<open>Kind_Controller\<close> (\<open>workspacekind_controller.go\<close>,
  \<open>configmap_cache.go\<close>): its status is exact and stable. \<open>Watches\<close> (\<open>index.go\<close>,
  \<open>SetupWithManager\<close>) has the events and the requests they become: every change a reconcile depends on asks
  for it, and status updates do not.

  \<^bold>\<open>Starting the controller.\<close> \<open>Server_TLS\<close> (\<open>pkg/tls/tls.go\<close>, \<open>watcher.go\<close>) and
  \<open>Controller_Startup\<close> (\<open>cmd/main.go\<close>): versions stay in range, no server gets an empty list of suites, the watcher
  does not restart the process in a loop, and the manager starts only with an accepted configuration, its indexes and its webhooks.

  \<^bold>\<open>The backend.\<close> \<open>Backend_Base\<close> and \<open>Backend_Objects\<close> have audit annotations, revisions, field
  validators, objects, calls and the client; \<open>Backend_Http\<close> has responses, bodies, authentication and
  authorization. One theory per group of models, repository and handlers follows: \<open>Backend_Workspaces\<close>, \<open>Backend_Secrets\<close>,
  \<open>Backend_PVCs\<close>, \<open>Backend_Options\<close>, \<open>Backend_Kinds\<close>, \<open>Backend_Workspace_List\<close>, \<open>Backend_Pods\<close>, with
  \<open>Filter_Engine\<close> (\<open>filterrules/engine.go\<close>). \<open>Backend_Routes\<close> joins the handlers into \<open>serve\<close>;
  \<open>Backend_Startup\<close> and \<open>Backend_Server\<close> are the process and the handlers around the routes.
  The theorems are over \<open>serve\<close> where they concern all routes: \<open>Backend_Access\<close> and \<open>Backend_Secure\<close> (every call was reviewed),
  \<open>Backend_Calls\<close> (at most one write, and none after which an error is returned),
  \<open>Backend_Workspaces_Correct\<close>, \<open>Backend_Revisions\<close> (mounts are labelled, no lost update, round trips),
  \<open>Backend_Secrets_Correct\<close> (exact updates), \<open>Secret_Privacy\<close> (clusters that differ in the values of Secrets only cannot be told
  apart by a response), \<open>Backend_Listing\<close> (with \<open>Cluster\<close> and the generated routes:
  listing does not panic, and shows the paths that are routed).

  \<^bold>\<open>Bounds.\<close> There is no fuel in the definitions that model loops of the sources: they are structural or have a
  termination proof, except \<open>redirect_loop\<close>, a \<open>partial_function\<close> in the option monad that is proved to return. \<open>strip_prefixes\<close>
  counts down from the length of its string, and every step removes at least one byte. Hypotheses such as
  fewer than \<open>2 ^ 31\<close> Workspaces are where the source counts in 32 bits.

  \<^bold>\<open>Not modelled.\<close> Logging. The wiring of libraries: schemes, managers, caches and clients (\<open>helper/k8s.go\<close>,
  \<open>repositories.go\<close>), rate limiters, the settings of the metrics and health endpoints. The matching of
  paths by the router library, compression, and writing to connections. The Swagger pages and the generated
  files (\<open>openapi/docs.go\<close>, \<open>zz_generated.deepcopy.go\<close>; in the model values are never shared, so a deep copy is the value). The
  API server of the mock build and other code for tests. The frontend, which is not Go.
\<close>

section \<open>Where the parts do not meet\<close>

text \<open>
  The documentation of a filter rule says that \<open>api.deny\<close> rejects any create or update of a Workspace
  that selects the item. The webhook does not look at the filter rules: with any other rules in the kinds
  it decides the same. (The backend does not read the kind when it writes a Workspace.)
\<close>

definition with_filter_rules :: "FilterRule list \<Rightarrow> WorkspaceKind \<Rightarrow> WorkspaceKind" where
  "with_filter_rules rules k = k\<lparr>wk_Spec := (wk_Spec k)\<lparr>ks_FilterRules := rules\<rparr>\<rparr>"

lemma validateWorkspaceKind_map:
  "validateWorkspaceKind (\<lambda>n. map_sum id f (getKind n)) w = map_sum id f (validateWorkspaceKind getKind w)"
  by (simp add: validateWorkspaceKind_def Let_def split: sum.splits api_error.splits)

lemma webhook_ignores_filter_rules:
  "WS_ValidateCreate lib (\<lambda>n. map_sum id (with_filter_rules rules) (getKind n)) w = WS_ValidateCreate lib getKind w"
  "WS_ValidateUpdate lib (\<lambda>n. map_sum id (with_filter_rules rules) (getKind n)) old w = WS_ValidateUpdate lib getKind old w"
  by (simp_all add: WS_ValidateCreate_def WS_ValidateUpdate_def validateWorkspaceKind_map WS_validateImageConfig_def
      WS_validatePodConfig_def with_filter_rules_def Let_def split: sum.splits)

text \<open>
  The list of kinds for a namespace leaves out kinds that are hidden there, but the options inside a
  listed kind are those for no namespace: an image config that a rule hides from the
  namespace is in the list, although the list of option values leaves it out.
\<close>

lemma listed_kind_options_without_namespace:
  assumes "NewWorkspaceKindModelFromWorkspaceKind slib prefix k namespaceLabels = Inr (Some item)"
  shows "NewPodTemplateOptionsModelFromWorkspaceKind slib k empty_request None = Inr (ptl_Options (kli_PodTemplate item))"
  using assms by (auto simp: NewWorkspaceKindModelFromWorkspaceKind_def Let_def split: if_splits sum.splits)

end
